(* ===== verification/Prelude.thy ===== *)
theory Prelude
  imports Main "HOL-Library.Word" "HOL-Library.AList"
begin

text \<open>
  The vocabulary every theory of the development shares: the machine types of the Go
  code, the error values of \<^verbatim>\<open>errors.go\<close>, dictionaries (Go maps) as association
  lists with the lemmas that carry the component proofs, and the error-and-state
  combinators in which the fallible, state-changing code is written.

  A Go \<^verbatim>\<open>time.Time\<close> is an integer number of nanoseconds since the Unix epoch and a
  \<^verbatim>\<open>*time.Time\<close> an option of it; a \<^verbatim>\<open>[]byte\<close> is a list of 8-bit words, a UUID the
  128-bit word its sixteen bytes spell in big-endian order (so that equality and the
  byte-wise comparison of the code are equality and the unsigned order of words).
\<close>

named_theorems dict_simps \<open>reading a dictionary after an update\<close>
named_theorems exec_simps \<open>definitions unfolded to run an operation on a concrete state\<close>

type_synonym byte = "8 word"
type_synonym bytes = "byte list"
type_synonym uuid = "128 word"
type_synonym time = int
type_synonym duration = int

section \<open>Errors\<close>

text \<open>
  The sentinel errors of \<^verbatim>\<open>errors.go\<close>, the typed \<^verbatim>\<open>ValidationError\<close> (field and rule;
  its message is for logs only), the two context errors, any other error of the
  infrastructure and, as \<open>RuntimePanic\<close>, a panic of the Go run time that unwinds the caller. \<open>OutOfFuel\<close> is no
  answer of the program: it says that a loop was not given enough fuel. Wrapping a sentinel with
  \<^verbatim>\<open>fmt.Errorf("%w: ...")\<close> only adds text, so a wrapped sentinel is the sentinel.
\<close>

datatype error =
    ErrInvalidCredentials | ErrUnauthorized | ErrForbidden | ErrStepUpRequired
  | ErrConflict | ErrNotFound | ErrInvalidInput | ErrExpired | ErrLocked
  | ErrSSORequired | ErrDomainVerification | ErrNoPasskey | ErrPasskeyCloneDetected
  | ErrAuditUnavailable | ErrAuditCompromised | ErrTransactionRejected | ErrNotSupported
  | ValidationError string string
  | ContextCanceled | ContextDeadlineExceeded
  | OtherError string
  | RuntimePanic | OutOfFuel

type_synonym 'a result = "error + 'a"

text \<open>\<^verbatim>\<open>errors.Is\<close>: a \<^verbatim>\<open>ValidationError\<close> unwraps to \<^verbatim>\<open>ErrInvalidInput\<close>.\<close>

fun errorsIs :: "error \<Rightarrow> error \<Rightarrow> bool" where
  "errorsIs (ValidationError f r) t = (t = ErrInvalidInput \<or> t = ValidationError f r)"
| "errorsIs e t = (e = t)"

lemma errorsIs_refl [simp]: "errorsIs e e"
  by (cases e) auto

lemma errorsIs_sentinel:
  "t \<noteq> ErrInvalidInput \<Longrightarrow> errorsIs e t = (e = t)"
  by (cases e) auto

section \<open>Dictionaries\<close>

text \<open>
  A Go map is an association list: \<open>lookup\<close> is the read, \<open>put\<close> the assignment, \<open>del\<close> the
  built-in \<^verbatim>\<open>delete\<close>; a \<^verbatim>\<open>for k, v := range m\<close> that reassigns entries is \<open>mapv\<close>, one that
  deletes entries \<open>keep\<close>, one that counts \<open>count\<close>. Go leaves the order of a range open; every loop
  modelled here gives the same result in every order. \<open>wfd\<close> says that no key occurs twice, which
  holds of the empty map and is kept by every operation.
\<close>

type_synonym ('k, 'v) dict = "('k \<times> 'v) list"

definition lookup :: "('k, 'v) dict \<Rightarrow> 'k \<Rightarrow> 'v option" where
  "lookup d k = map_of d k"

definition has :: "'k \<Rightarrow> ('k, 'v) dict \<Rightarrow> bool" where
  "has k d = (lookup d k \<noteq> None)"

definition put :: "'k \<Rightarrow> 'v \<Rightarrow> ('k, 'v) dict \<Rightarrow> ('k, 'v) dict" where
  "put k v d = AList.update k v d"

definition del :: "'k \<Rightarrow> ('k, 'v) dict \<Rightarrow> ('k, 'v) dict" where
  "del k d = AList.delete k d"

definition mapv :: "('k \<Rightarrow> 'v \<Rightarrow> 'w) \<Rightarrow> ('k, 'v) dict \<Rightarrow> ('k, 'w) dict" where
  "mapv f d = map (\<lambda>(k, v). (k, f k v)) d"

definition keep :: "('k \<Rightarrow> 'v \<Rightarrow> bool) \<Rightarrow> ('k, 'v) dict \<Rightarrow> ('k, 'v) dict" where
  "keep P d = filter (\<lambda>(k, v). P k v) d"

definition count :: "('k \<Rightarrow> 'v \<Rightarrow> bool) \<Rightarrow> ('k, 'v) dict \<Rightarrow> nat" where
  "count P d = length (keep P d)"

definition wfd :: "('k, 'v) dict \<Rightarrow> bool" where
  "wfd d = distinct (map fst d)"

lemma lookup_Nil [simp, dict_simps]: "lookup [] k = None"
  by (simp add: lookup_def)

lemma lookup_Cons [simp, dict_simps]:
  "lookup ((k, v) # d) k' = (if k' = k then Some v else lookup d k')"
  by (simp add: lookup_def)

lemma lookup_put [simp, dict_simps]:
  "lookup (put k v d) k' = (if k' = k then Some v else lookup d k')"
  by (simp add: lookup_def put_def update_conv')

lemma lookup_del [simp, dict_simps]:
  "lookup (del k d) k' = (if k' = k then None else lookup d k')"
  by (simp add: lookup_def del_def delete_conv')

lemma lookup_mapv [simp, dict_simps]:
  "lookup (mapv f d) k = map_option (f k) (lookup d k)"
  by (induction d) (auto simp: mapv_def)

lemma lookup_keep:
  "wfd d \<Longrightarrow> lookup (keep P d) k = (case lookup d k of Some v \<Rightarrow> if P k v then Some v else None | None \<Rightarrow> None)"
proof (induction d)
  case Nil
  then show ?case by (simp add: keep_def)
next
  case (Cons e d)
  obtain k' v' where e: "e = (k', v')" by (cases e)
  from Cons have IH: "lookup (keep P d) k = (case lookup d k of Some v \<Rightarrow> if P k v then Some v else None | None \<Rightarrow> None)"
    by (simp add: wfd_def)
  from Cons.prems e have "lookup d k' = None"
    by (auto simp: wfd_def lookup_def map_of_eq_None_iff)
  with IH e show ?case by (auto simp: keep_def)
qed

lemma has_iff [simp]: "has k d \<longleftrightarrow> (\<exists>v. lookup d k = Some v)"
  by (auto simp: has_def)

lemma wfd_Nil [simp]: "wfd []"
  by (simp add: wfd_def)

lemma wfd_Cons [simp]: "wfd ((k, v) # d) \<longleftrightarrow> lookup d k = None \<and> wfd d"
  by (auto simp: wfd_def lookup_def map_of_eq_None_iff)

lemma wfd_put [simp]: "wfd d \<Longrightarrow> wfd (put k v d)"
  by (simp add: wfd_def put_def distinct_update)

lemma wfd_del [simp]: "wfd d \<Longrightarrow> wfd (del k d)"
  by (simp add: wfd_def del_def distinct_delete)

lemma wfd_mapv [simp]: "wfd (mapv f d) = wfd d"
proof -
  have "map fst (mapv f d) = map fst d"
    by (induction d) (auto simp: mapv_def)
  then show ?thesis by (simp add: wfd_def)
qed

lemma wfd_keep [simp]: "wfd d \<Longrightarrow> wfd (keep P d)"
  by (induction d) (auto simp: keep_def wfd_def)

text \<open>An entry that satisfies the filter is still the one its key finds.\<close>

lemma lookup_keep_Some: "lookup d k = Some v \<Longrightarrow> P k v \<Longrightarrow> lookup (keep P d) k = Some v"
  by (induction d) (auto simp: keep_def split: if_splits)

lemma lookup_in_set: "lookup d k = Some v \<Longrightarrow> (k, v) \<in> set d"
  by (simp add: lookup_def map_of_SomeD)

lemma in_set_lookup: "wfd d \<Longrightarrow> (k, v) \<in> set d \<Longrightarrow> lookup d k = Some v"
  by (simp add: lookup_def wfd_def)

lemma keep_set: "set (keep P d) = {(k, v). (k, v) \<in> set d \<and> P k v}"
  by (auto simp: keep_def)

text \<open>Counting is over the keys: with two different matching keys the count is at least two.\<close>

lemma count_card:
  assumes "wfd d"
  shows "count P d = card {k. \<exists>v. lookup d k = Some v \<and> P k v}"
proof -
  have "distinct (map fst (keep P d))"
    using wfd_keep [OF assms] by (simp add: wfd_def)
  then have "count P d = card (set (map fst (keep P d)))"
    by (metis count_def distinct_card length_map)
  also have "set (map fst (keep P d)) = {k. \<exists>v. lookup d k = Some v \<and> P k v}"
  proof (intro set_eqI iffI)
    fix k
    assume "k \<in> set (map fst (keep P d))"
    then obtain v where "(k, v) \<in> set d" and "P k v" by (auto simp: keep_set)
    with assms show "k \<in> {k. \<exists>v. lookup d k = Some v \<and> P k v}"
      by (blast intro: in_set_lookup)
  next
    fix k
    assume "k \<in> {k. \<exists>v. lookup d k = Some v \<and> P k v}"
    then obtain v where "(k, v) \<in> set (keep P d)" by (auto simp: keep_set dest: lookup_in_set)
    then show "k \<in> set (map fst (keep P d))" by (metis fst_conv image_eqI set_map)
  qed
  finally show ?thesis .
qed

lemma finite_matching: "finite {k. \<exists>v. lookup d k = Some v \<and> P k v}"
proof -
  have "{k. \<exists>v. lookup d k = Some v \<and> P k v} \<subseteq> fst ` set d"
    by (force dest: lookup_in_set)
  then show ?thesis by (rule finite_subset) simp
qed

lemma count_le_1_unique:
  assumes "wfd d" and "count P d \<le> 1"
    and "lookup d k = Some v" and "P k v" and "lookup d k' = Some v'" and "P k' v'"
  shows "k' = k"
proof -
  let ?S = "{k. \<exists>v. lookup d k = Some v \<and> P k v}"
  have "card ?S \<le> 1" using assms(1,2) by (simp add: count_card)
  moreover have "k \<in> ?S" and "k' \<in> ?S" using assms(3-6) by auto
  ultimately show ?thesis
    using card_le_Suc0_iff_eq [OF finite_matching [of d P]] by simp
qed

lemma count_ge_2_other:
  assumes "wfd d" and "\<not> count P d \<le> 1"
  shows "\<exists>k' v'. k' \<noteq> k \<and> lookup d k' = Some v' \<and> P k' v'"
proof (rule ccontr)
  assume "\<not> ?thesis"
  then have "{k. \<exists>v. lookup d k = Some v \<and> P k v} \<subseteq> {k}" by auto
  then have "card {k. \<exists>v. lookup d k = Some v \<and> P k v} \<le> 1"
    using card_mono [of "{k}"] by simp
  with assms show False by (simp add: count_card)
qed

lemma count_pos:
  assumes "lookup d k = Some v" and "P k v"
  shows "0 < count P d"
  using lookup_in_set [OF assms(1)] assms(2)
  by (force simp: count_def keep_def filter_empty_conv)

text \<open>
  A property of an entry stays with its key: whatever had it before still exists and has it after.
\<close>

definition stays :: "('v \<Rightarrow> bool) \<Rightarrow> ('k, 'v) dict \<Rightarrow> ('k, 'v) dict \<Rightarrow> bool" where
  "stays Q d d' \<longleftrightarrow> (\<forall>k v. lookup d k = Some v \<longrightarrow> Q v \<longrightarrow> (\<exists>v'. lookup d' k = Some v' \<and> Q v'))"

lemma stays_refl [simp]: "stays Q d d"
  by (simp add: stays_def)

lemma stays_trans: "stays Q a b \<Longrightarrow> stays Q b c \<Longrightarrow> stays Q a c"
  unfolding stays_def by blast

lemma stays_put_new: "lookup d k = None \<Longrightarrow> stays Q d (put k v d)"
  by (auto simp: stays_def)

lemma stays_put_old: "lookup d k = Some v \<Longrightarrow> (Q v \<Longrightarrow> Q v') \<Longrightarrow> stays Q d (put k v' d)"
  by (auto simp: stays_def)

lemma stays_put_sat: "Q v' \<Longrightarrow> stays Q d (put k v' d)"
  by (auto simp: stays_def)

lemma stays_mapv: "(\<And>k v. Q v \<Longrightarrow> Q (f k v)) \<Longrightarrow> stays Q d (mapv f d)"
  by (auto simp: stays_def)

lemma staysD: "stays Q d d' \<Longrightarrow> lookup d k = Some v \<Longrightarrow> Q v \<Longrightarrow> \<exists>v'. lookup d' k = Some v' \<and> Q v'"
  by (simp add: stays_def)

text \<open>
  A value of an index is sealed: it is taken, and no record that carries it is alive. Writers refuse taken
  values, so a sealed one never carries a live record again, even when a record is overwritten.
\<close>

definition sealed :: "('v \<Rightarrow> 'p) \<Rightarrow> ('v \<Rightarrow> bool) \<Rightarrow> 'p \<Rightarrow> ('p, 'k) dict \<Rightarrow> ('k, 'v) dict \<Rightarrow> bool" where
  "sealed val dead p index d \<longleftrightarrow> has p index \<and> (\<forall>k v. lookup d k = Some v \<longrightarrow> val v = p \<longrightarrow> dead v)"

definition staysSealed :: "('v \<Rightarrow> 'p) \<Rightarrow> ('v \<Rightarrow> bool) \<Rightarrow> ('p, 'k) dict \<Rightarrow> ('k, 'v) dict \<Rightarrow> ('p, 'k) dict \<Rightarrow> ('k, 'v) dict \<Rightarrow> bool" where
  "staysSealed val dead index d index' d' \<longleftrightarrow> (\<forall>p. sealed val dead p index d \<longrightarrow> sealed val dead p index' d')"

lemma staysSealed_refl [simp]: "staysSealed val dead index d index d"
  by (simp add: staysSealed_def)

lemma staysSealed_trans:
  "staysSealed val dead i1 d1 i2 d2 \<Longrightarrow> staysSealed val dead i2 d2 i3 d3 \<Longrightarrow> staysSealed val dead i1 d1 i3 d3"
  by (simp add: staysSealed_def)

lemma staysSealed_new: "lookup index (val v) = None \<Longrightarrow> staysSealed val dead index d (put q k' index) (put k v d)"
  by (auto simp: staysSealed_def sealed_def)

lemma staysSealed_old:
  "lookup d k = Some v \<Longrightarrow> val v' = val v \<Longrightarrow> (dead v \<Longrightarrow> dead v') \<Longrightarrow> staysSealed val dead index d index (put k v' d)"
  by (auto simp: staysSealed_def sealed_def)

lemma staysSealed_dead: "dead v \<Longrightarrow> staysSealed val dead index d index (put k v d)"
  by (auto simp: staysSealed_def sealed_def)

lemma staysSealed_mapv:
  "(\<And>k v. val (f k v) = val v) \<Longrightarrow> (\<And>k v. dead v \<Longrightarrow> dead (f k v)) \<Longrightarrow> staysSealed val dead index d index (mapv f d)"
  by (auto simp: staysSealed_def sealed_def)

lemma sealed_after:
  assumes "staysSealed val dead index d index' d'" and "sealed val dead p index d"
  shows "sealed val dead p index' d'"
  using assms by (simp add: staysSealed_def)

text \<open>Every record is found through its index.\<close>

definition indexed :: "('v \<Rightarrow> 'p) \<Rightarrow> ('p, 'k) dict \<Rightarrow> ('k, 'v) dict \<Rightarrow> bool" where
  "indexed val index d \<longleftrightarrow> (\<forall>k v. lookup d k = Some v \<longrightarrow> lookup index (val v) = Some k)"

lemma indexed_new: "indexed val index d \<Longrightarrow> lookup index (val v) = None \<Longrightarrow> indexed val (put (val v) k index) (put k v d)"
  unfolding indexed_def by (metis lookup_put option.distinct(1) option.inject)

lemma indexed_old: "indexed val index d \<Longrightarrow> lookup d k = Some v \<Longrightarrow> val v' = val v \<Longrightarrow> indexed val index (put k v' d)"
  by (auto simp: indexed_def)

lemma indexed_mapv: "indexed val index d \<Longrightarrow> (\<And>k v. val (f k v) = val v) \<Longrightarrow> indexed val index (mapv f d)"
  by (auto simp: indexed_def)

lemma indexed_unique: "indexed val index d \<Longrightarrow> lookup d j = Some v \<Longrightarrow> lookup d k = Some w \<Longrightarrow> val v = val w \<Longrightarrow> j = k"
  unfolding indexed_def by (metis option.inject)

section \<open>Fallible computations over a state\<close>

text \<open>
  \<open>'s \<Rightarrow> 'a result \<times> 's\<close> is a Go function that reads and writes a state and returns a
  value or an error. \<open>bindE f k\<close> is the idiom \<^verbatim>\<open>x, err := f(); if err != nil { return err }\<close>
  followed by \<open>k x\<close>; \<open>catch\<close> hands the error to the code that inspects it.
\<close>

definition ret :: "'a \<Rightarrow> 's \<Rightarrow> 'a result \<times> 's" where
  "ret x s = (Inr x, s)"

definition fail :: "error \<Rightarrow> 's \<Rightarrow> 'a result \<times> 's" where
  "fail e s = (Inl e, s)"

definition bindE :: "('s \<Rightarrow> 'a result \<times> 's) \<Rightarrow> ('a \<Rightarrow> 's \<Rightarrow> 'b result \<times> 's) \<Rightarrow> 's \<Rightarrow> 'b result \<times> 's" where
  "bindE f k s = (case f s of (Inl e, s') \<Rightarrow> (Inl e, s') | (Inr x, s') \<Rightarrow> k x s')"

definition catch :: "('s \<Rightarrow> 'a result \<times> 's) \<Rightarrow> ('a result \<Rightarrow> 's \<Rightarrow> 'b \<times> 's) \<Rightarrow> 's \<Rightarrow> 'b \<times> 's" where
  "catch f k s = (case f s of (r, s') \<Rightarrow> k r s')"

lemma ret_eq [simp]: "ret x s = (r, s') \<longleftrightarrow> r = Inr x \<and> s' = s"
  by (auto simp: ret_def)

lemma fail_eq [simp]: "fail e s = (r, s') \<longleftrightarrow> r = Inl e \<and> s' = s"
  by (auto simp: fail_def)

lemma bindE_Inr:
  "bindE f k s = (Inr y, s'') \<longleftrightarrow> (\<exists>x s'. f s = (Inr x, s') \<and> k x s' = (Inr y, s''))"
  by (auto simp: bindE_def split: prod.splits sum.splits)

lemma bindE_Inl:
  "bindE f k s = (Inl e, s'') \<longleftrightarrow>
     f s = (Inl e, s'') \<or> (\<exists>x s'. f s = (Inr x, s') \<and> k x s' = (Inl e, s''))"
  by (auto simp: bindE_def split: prod.splits sum.splits)

lemma catch_eq: "catch f k s = (r, s'') \<longleftrightarrow> (\<exists>r' s'. f s = (r', s') \<and> k r' s' = (r, s''))"
  by (auto simp: catch_def split: prod.splits)

lemma bindE_step [exec_simps]:
  "f s = (Inr x, s') \<Longrightarrow> bindE f k s = k x s'"
  "f s = (Inl e, s') \<Longrightarrow> bindE f k s = (Inl e, s')"
  by (simp_all add: bindE_def)

text \<open>
  A computation keeps a predicate of the state, and a relation between the state before and after:
  the two shapes in which frame and invariant facts are stated and composed.
\<close>

definition relates :: "('s \<Rightarrow> 's \<Rightarrow> bool) \<Rightarrow> ('s \<Rightarrow> 'a \<times> 's) \<Rightarrow> bool" where
  "relates R f \<longleftrightarrow> (\<forall>s. R s (snd (f s)))"

lemma relates_ret: "(\<And>s. R s s) \<Longrightarrow> relates R (ret x)"
  by (simp add: relates_def ret_def)

lemma relates_fail: "(\<And>s. R s s) \<Longrightarrow> relates R (fail e)"
  by (simp add: relates_def fail_def)

lemma relates_bindE:
  assumes trans: "\<And>a b c. R a b \<Longrightarrow> R b c \<Longrightarrow> R a c"
    and "relates R f" and "\<And>x. relates R (k x)"
  shows "relates R (bindE f k)"
proof (unfold relates_def, intro allI)
  fix s
  obtain r s' where f: "f s = (r, s')" by (cases "f s")
  with assms(2) have R1: "R s s'" by (metis relates_def snd_conv)
  show "R s (snd (bindE f k s))"
  proof (cases r)
    case (Inl e)
    with f R1 show ?thesis by (simp add: bindE_def)
  next
    case (Inr x)
    from assms(3) have "R s' (snd (k x s'))" by (simp add: relates_def)
    with R1 have "R s (snd (k x s'))" by (rule trans)
    with Inr f show ?thesis by (simp add: bindE_def)
  qed
qed

lemma relates_catch:
  assumes trans: "\<And>a b c. R a b \<Longrightarrow> R b c \<Longrightarrow> R a c"
    and "relates R f" and "\<And>x. relates R (k x)"
  shows "relates R (catch f k)"
proof (unfold relates_def, intro allI)
  fix s
  obtain r s' where f: "f s = (r, s')" by (cases "f s")
  with assms(2) have R1: "R s s'" by (metis relates_def snd_conv)
  from assms(3) have "R s' (snd (k r s'))" by (simp add: relates_def)
  with R1 have "R s (snd (k r s'))" by (rule trans)
  with f show "R s (snd (catch f k s))" by (simp add: catch_def)
qed

lemma relatesD: "relates R f \<Longrightarrow> f s = (r, s') \<Longrightarrow> R s s'"
  by (metis relates_def snd_conv)

section \<open>Machine arithmetic and small library functions\<close>

text \<open>\<^verbatim>\<open>time.Time.Sub\<close> saturates at the bounds of an int64 duration.\<close>

definition timeSub :: "time \<Rightarrow> time \<Rightarrow> duration" where
  "timeSub a b = max (- (2 ^ 63)) (min (2 ^ 63 - 1) (a - b))"

definition second :: duration where "second = 1000000000"
definition minute :: duration where "minute = 60 * second"
definition hour :: duration where "hour = 60 * minute"

text \<open>The zero \<^verbatim>\<open>time.Time\<close> is midnight of January 1, year 1.\<close>

definition zeroTime :: time where "zeroTime = - 62135596800 * second"

text \<open>
  \<^verbatim>\<open>strings.TrimSpace\<close> and \<^verbatim>\<open>strings.ToLower\<close> on ASCII text; the bytes of a multi-byte
  UTF-8 sequence are left as they are.
\<close>

definition isSpace :: "char \<Rightarrow> bool" where
  "isSpace c = (c \<in> {CHR 0x09, CHR 0x0A, CHR 0x0B, CHR 0x0C, CHR 0x0D, CHR '' ''})"

definition TrimSpace :: "string \<Rightarrow> string" where
  "TrimSpace s = rev (dropWhile isSpace (rev (dropWhile isSpace s)))"

definition lowerChar :: "char \<Rightarrow> char" where
  "lowerChar c = (let n = of_char c :: nat in if 65 \<le> n \<and> n \<le> 90 then char_of (n + 32) else c)"

definition ToLower :: "string \<Rightarrow> string" where
  "ToLower s = map lowerChar s"

definition toBytes :: "string \<Rightarrow> bytes" where
  "toBytes s = map of_char s"

lemma toBytes_append [simp]: "toBytes (s @ t) = toBytes s @ toBytes t"
  by (simp add: toBytes_def)

lemma unat_of_char: "unat (of_char c :: byte) = (of_char c :: nat)"
proof -
  have "(of_char c :: byte) = of_nat (of_char c :: nat)"
    by (simp only: of_nat_of_char)
  then show ?thesis
    by (simp only: unat_of_nat) simp
qed

lemma of_char_byte_inj: "(of_char c :: byte) = of_char d \<longleftrightarrow> c = d"
proof
  assume "(of_char c :: byte) = of_char d"
  then have "unat (of_char c :: byte) = unat (of_char d :: byte)" by (rule arg_cong)
  then have "(of_char c :: nat) = of_char d" by (simp only: unat_of_char)
  then show "c = d" by (simp only: of_char_eq_iff)
qed simp

lemma toBytes_inject [simp]: "toBytes s = toBytes t \<longleftrightarrow> s = t"
  unfolding toBytes_def
  by (rule inj_map_eq_map) (simp add: inj_def of_char_byte_inj)

end
