(* ===== verification/Types.thy ===== *)
theory Types
  imports Prelude
begin

text \<open>
  The data model of \<^verbatim>\<open>types.go\<close> and \<^verbatim>\<open>oauth_types.go\<close>: one record per Go struct, its
  fields in the order of the struct, prefixed with an abbreviation of the type because
  field names are global in HOL. A Go string type whose values the code compares with
  constants but also receives from outside (a role, a membership status) stays a string;
  a closed set of constants is a datatype.
\<close>

section \<open>Roles, permissions, statuses\<close>

type_synonym role = string
type_synonym permission = string

definition RoleMember :: role where "RoleMember = ''member''"
definition RoleAdmin :: role where "RoleAdmin = ''admin''"

definition PermissionWorkspaceAccess :: permission where
  "PermissionWorkspaceAccess = ''workspace.access''"
definition PermissionWorkspaceUsersRead :: permission where
  "PermissionWorkspaceUsersRead = ''workspace.users.read''"
definition PermissionWorkspaceUsersWrite :: permission where
  "PermissionWorkspaceUsersWrite = ''workspace.users.write''"
definition PermissionWorkspaceSettingsWrite :: permission where
  "PermissionWorkspaceSettingsWrite = ''workspace.settings.write''"
definition PermissionWorkspaceRBACWrite :: permission where
  "PermissionWorkspaceRBACWrite = ''workspace.rbac.write''"
definition PermissionWorkspaceAuditRead :: permission where
  "PermissionWorkspaceAuditRead = ''workspace.audit.read''"
definition PermissionWorkspaceCredentialsManage :: permission where
  "PermissionWorkspaceCredentialsManage = ''workspace.credentials.manage''"
definition PermissionOAuthResourceManage :: permission where
  "PermissionOAuthResourceManage = ''oauth.resource.manage''"

lemmas role_names = RoleMember_def RoleAdmin_def

lemmas permission_names =
  PermissionWorkspaceAccess_def PermissionWorkspaceUsersRead_def
  PermissionWorkspaceUsersWrite_def PermissionWorkspaceSettingsWrite_def
  PermissionWorkspaceRBACWrite_def PermissionWorkspaceAuditRead_def
  PermissionWorkspaceCredentialsManage_def PermissionOAuthResourceManage_def

declare role_names [exec_simps] permission_names [exec_simps]

record roleDefinition =
  rd_Role :: role
  rd_Permissions :: "permission list"
  rd_Inherits :: "role list"

type_synonym membershipStatus = string

definition MembershipActive :: membershipStatus where "MembershipActive = ''active''"
definition MembershipSuspended :: membershipStatus where "MembershipSuspended = ''suspended''"
definition ProvisioningSourceLocal :: string where "ProvisioningSourceLocal = ''local''"

declare MembershipActive_def [exec_simps] MembershipSuspended_def [exec_simps]
  ProvisioningSourceLocal_def [exec_simps]

type_synonym instanceRole = string

definition InstanceRoleRoot :: instanceRole where "InstanceRoleRoot = ''root''"
definition InstanceRoleDeveloper :: instanceRole where "InstanceRoleDeveloper = ''developer''"
definition InstanceRoleSupport :: instanceRole where "InstanceRoleSupport = ''support''"
definition InstanceRoleMarketing :: instanceRole where "InstanceRoleMarketing = ''marketing''"
definition InstanceRoleSales :: instanceRole where "InstanceRoleSales = ''sales''"

lemmas instance_role_names = InstanceRoleRoot_def InstanceRoleDeveloper_def
  InstanceRoleSupport_def InstanceRoleMarketing_def InstanceRoleSales_def

declare instance_role_names [exec_simps]

record instanceAdministrator =
  iad_UserID :: uuid
  iad_Role :: instanceRole
  iad_CreatedAt :: time
  iad_UpdatedAt :: time

section \<open>Authentication contexts\<close>

text \<open>\<open>MethodNone\<close> is the empty string, the method of a zero \<^verbatim>\<open>Authentication\<close>.\<close>

datatype authMethod =
  MethodNone | MethodPassword | MethodTOTP | MethodPasskey | MethodPAT | MethodSSO | MethodEmail

type_synonym assuranceLevel = nat

definition AAL1 :: assuranceLevel where "AAL1 = 1"
definition AAL2 :: assuranceLevel where "AAL2 = 2"

declare AAL1_def [exec_simps] AAL2_def [exec_simps]

record authentication =
  auth_UserID :: uuid
  auth_Method :: authMethod
  auth_Level :: assuranceLevel
  auth_AuthenticatedAt :: time
  auth_SecondFactorRequired :: bool
  auth_WorkspaceID :: uuid
  auth_Scopes :: "string list"
  auth_CredentialDigest :: bytes

record requestMetadata =
  req_IPAddress :: string
  req_UserAgent :: string

section \<open>Accounts and their credentials\<close>

record user =
  usr_ID :: uuid
  usr_Email :: string
  usr_DisplayName :: string
  usr_Disabled :: bool
  usr_LastSeenAt :: "time option"
  usr_CreatedAt :: time
  usr_UpdatedAt :: time

record emailAddress =
  eml_ID :: uuid
  eml_UserID :: uuid
  eml_Address :: string
  eml_Primary :: bool
  eml_VerifiedAt :: "time option"
  eml_CreatedAt :: time
  eml_UpdatedAt :: time

record emailVerificationCredential =
  evc_EmailID :: uuid
  evc_Digest :: bytes
  evc_ExpiresAt :: time

record passwordResetCredential =
  prc_ID :: uuid
  prc_UserID :: uuid
  prc_Digest :: bytes
  prc_CreatedAt :: time
  prc_ExpiresAt :: time
  prc_UsedAt :: "time option"

record emailAuthenticationCredential =
  eac_ID :: uuid
  eac_UserID :: uuid
  eac_EmailID :: uuid
  eac_Digest :: bytes
  eac_CreatedAt :: time
  eac_ExpiresAt :: time
  eac_UsedAt :: "time option"

record passwordCredential =
  pwc_UserID :: uuid
  pwc_Hash :: string
  pwc_UpdatedAt :: time

record totpFactor =
  otp_UserID :: uuid
  otp_EncryptedSecret :: bytes
  otp_Active :: bool
  otp_LastUsedStep :: int
  otp_CreatedAt :: time
  otp_UpdatedAt :: time

record recoveryCode =
  rcv_UserID :: uuid
  rcv_Digest :: bytes
  rcv_UsedAt :: "time option"

record passkey =
  pk_ID :: uuid
  pk_UserID :: uuid
  pk_Name :: string
  pk_CredentialID :: bytes
  pk_CredentialJSON :: bytes
  pk_CreatedAt :: time
  pk_LastUsedAt :: "time option"

record loginThrottle =
  thr_UserID :: uuid
  thr_FailedAttempts :: int
  thr_LockedUntil :: "time option"
  thr_UpdatedAt :: time

record pat =
  pat_ID :: uuid
  pat_UserID :: uuid
  pat_Name :: string
  pat_Prefix :: string
  pat_Digest :: bytes
  pat_WorkspaceID :: uuid
  pat_Scopes :: "string list"
  pat_CreatedAt :: time
  pat_ExpiresAt :: "time option"
  pat_LastUsedAt :: "time option"
  pat_RevokedAt :: "time option"

record session =
  ses_ID :: uuid
  ses_UserID :: uuid
  ses_Method :: authMethod
  ses_Level :: assuranceLevel
  ses_AuthenticatedAt :: time
  ses_SecondFactorRequired :: bool
  ses_UserAgent :: string
  ses_IPAddress :: string
  ses_Digest :: bytes
  ses_CreatedAt :: time
  ses_LastSeenAt :: time
  ses_ExpiresAt :: time
  ses_RevokedAt :: "time option"

record ssoIdentity =
  sso_ID :: uuid
  sso_UserID :: uuid
  sso_ProviderConfigurationID :: uuid
  sso_ProviderKind :: string
  sso_Issuer :: string
  sso_Subject :: string
  sso_Email :: string
  sso_CreatedAt :: time
  sso_LastUsedAt :: "time option"

section \<open>Workspaces\<close>

record workspace =
  wsp_ID :: uuid
  wsp_Name :: string
  wsp_RequireMFA :: bool
  wsp_CreatedAt :: time
  wsp_UpdatedAt :: time
  wsp_DisabledAt :: "time option"

record membership =
  mbr_WorkspaceID :: uuid
  mbr_UserID :: uuid
  mbr_Role :: role
  mbr_Status :: membershipStatus
  mbr_ProvisioningSource :: string
  mbr_CreatedAt :: time
  mbr_UpdatedAt :: time

record workspaceInvitation =
  inv_ID :: uuid
  inv_WorkspaceID :: uuid
  inv_Email :: string
  inv_Role :: role
  inv_InvitedBy :: uuid
  inv_Digest :: bytes
  inv_CreatedAt :: time
  inv_ExpiresAt :: time
  inv_AcceptedAt :: "time option"
  inv_AcceptedUserID :: uuid
  inv_RevokedAt :: "time option"

record workspaceDomain =
  dom_ID :: uuid
  dom_WorkspaceID :: uuid
  dom_Domain :: string
  dom_Challenge :: string
  dom_ConfirmedAt :: "time option"
  dom_AutoJoin :: bool
  dom_AutoJoinRole :: role
  dom_SSOProviderConfigurationID :: uuid
  dom_EnforceSSO :: bool
  dom_CreatedAt :: time
  dom_UpdatedAt :: time

record workspaceDomainPolicyInput =
  dpi_AutoJoin :: bool
  dpi_AutoJoinRole :: role
  dpi_SSOProviderConfigurationID :: uuid
  dpi_EnforceSSO :: bool

section \<open>Audit events and commits\<close>

datatype auditOutcome = AuditSucceeded | AuditFailed

text \<open>\<open>ActorUnset\<close> is the empty string, which the store replaces with \<^verbatim>\<open>ActorUser\<close>.\<close>

datatype actorKind = ActorUnset | ActorUser | ActorService | ActorSystem

record auditEvent =
  aud_ID :: uuid
  aud_OccurredAt :: time
  aud_ActorKind :: actorKind
  aud_ActorID :: uuid
  aud_Action :: string
  aud_ResourceType :: string
  aud_ResourceID :: string
  aud_WorkspaceID :: uuid
  aud_Outcome :: auditOutcome
  aud_Reason :: string
  aud_IPAddress :: string
  aud_UserAgent :: string
  aud_Sequence :: int
  aud_PreviousHash :: bytes
  aud_Hash :: bytes

text \<open>
  \<^verbatim>\<open>Commit\<close> of \<^verbatim>\<open>events.go\<close>. The transactional callback receives the transaction handle, whose
  only content in the memory store is the audit event, and answers with an error or none.
\<close>

record ceremonyConsumption =
  cer_ID :: uuid
  cer_ExpiresAt :: time

record commit =
  cmt_Audit :: auditEvent
  cmt_Transactional :: "(auditEvent \<Rightarrow> error option) option"
  cmt_Ceremony :: "ceremonyConsumption option"
  cmt_Unchained :: bool

section \<open>SCIM provisioning\<close>

record scimGroupRoleMapping =
  sgm_ExternalID :: string
  sgm_Role :: role
  sgm_Priority :: int

record scimConfiguration =
  scfg_ID :: uuid
  scfg_WorkspaceID :: uuid
  scfg_Enabled :: bool
  scfg_DefaultRole :: role
  scfg_TrustDirectoryEmails :: bool
  scfg_GroupRoleMappings :: "scimGroupRoleMapping list"
  scfg_CreatedAt :: time
  scfg_UpdatedAt :: time

record scimCredential =
  scrd_ID :: uuid
  scrd_ConfigurationID :: uuid
  scrd_Prefix :: string
  scrd_Digest :: bytes
  scrd_CreatedAt :: time
  scrd_ExpiresAt :: "time option"
  scrd_LastUsedAt :: "time option"
  scrd_RevokedAt :: "time option"

record scimEmail =
  seml_Value :: string
  seml_Type :: string
  seml_Primary :: bool

record scimUser =
  susr_ID :: uuid
  susr_ConfigurationID :: uuid
  susr_UserID :: uuid
  susr_Schemas :: "string list"
  susr_ExternalID :: string
  susr_UserName :: string
  susr_DisplayName :: string
  susr_Emails :: "scimEmail list"
  susr_Attributes :: "(string, string) dict"
  susr_Active :: bool
  susr_CreatedAt :: time
  susr_UpdatedAt :: time
  susr_DeprovisionedAt :: "time option"

record scimGroup =
  sgrp_ID :: uuid
  sgrp_ConfigurationID :: uuid
  sgrp_ExternalID :: string
  sgrp_DisplayName :: string
  sgrp_MemberIDs :: "uuid list"
  sgrp_CreatedAt :: time
  sgrp_UpdatedAt :: time
  sgrp_DeletedAt :: "time option"

end
