(* ===== verification/Roles.thy ===== *)
theory Roles
  imports Types "HOL-Library.List_Lexorder" "HOL-Library.Char_ord"
begin

text \<open>
  The workspace role catalog of \<^verbatim>\<open>workspace_roles.go\<close>: configured roles are merged into the two
  built-in ones, checked, and compiled depth first into the set of roles each one includes and the
  set of permissions it carries. The recursion of the local closure \<^verbatim>\<open>compile\<close> is a pair of
  mutually recursive functions; its map \<^verbatim>\<open>visiting\<close> is set on entry and cleared on every successful
  exit, so it is the stack of the recursion and is passed as such; its map \<^verbatim>\<open>visited\<close> holds exactly
  the compiled roles, which the first test of the closure has already returned.
\<close>

section \<open>Definitions\<close>

definition namePattern :: "nat \<Rightarrow> string \<Rightarrow> bool" where
  "namePattern limit s = (case s of [] \<Rightarrow> False | c # cs \<Rightarrow>
     CHR ''a'' \<le> c \<and> c \<le> CHR ''z'' \<and> length cs \<le> limit \<and>
     list_all (\<lambda>d. (CHR ''a'' \<le> d \<and> d \<le> CHR ''z'') \<or> (CHR ''0'' \<le> d \<and> d \<le> CHR ''9'')
        \<or> d = CHR ''.'' \<or> d = CHR ''_'' \<or> d = CHR ''-'') cs)"

definition roleNamePattern :: "string \<Rightarrow> bool" where
  "roleNamePattern s = namePattern 63 s"

definition workspacePermissionPattern :: "string \<Rightarrow> bool" where
  "workspacePermissionPattern s = namePattern 127 s"

record compiledRole =
  cmp_definition :: roleDefinition
  cmp_roles :: "role set"
  cmp_permissions :: "permission set"

record roleCatalog =
  cat_roles :: "(role, compiledRole) dict"
  cat_permissions :: "permission set"

definition uniqueWorkspacePermissions :: "permission list \<Rightarrow> permission list" where
  "uniqueWorkspacePermissions values = remdups_adj (sort values)"

definition uniqueRoles :: "role list \<Rightarrow> role list" where
  "uniqueRoles values = remdups_adj (sort values)"

definition builtinRoles :: "(role, roleDefinition) dict" where
  "builtinRoles =
    [(RoleMember, \<lparr>rd_Role = RoleMember, rd_Permissions = [PermissionWorkspaceAccess], rd_Inherits = []\<rparr>),
     (RoleAdmin, \<lparr>rd_Role = RoleAdmin,
        rd_Permissions = [PermissionWorkspaceAccess, PermissionWorkspaceUsersRead, PermissionWorkspaceUsersWrite,
          PermissionWorkspaceSettingsWrite, PermissionWorkspaceRBACWrite, PermissionWorkspaceAuditRead,
          PermissionWorkspaceCredentialsManage, PermissionOAuthResourceManage],
        rd_Inherits = [RoleMember]\<rparr>)]"

definition zeroRole :: roleDefinition where
  "zeroRole = \<lparr>rd_Role = [], rd_Permissions = [], rd_Inherits = []\<rparr>"

definition mergeRole :: "roleDefinition \<Rightarrow> (role, roleDefinition) dict \<Rightarrow> (role, roleDefinition) dict" where
  "mergeRole raw defs =
    (let d = (case lookup defs (rd_Role raw) of Some d \<Rightarrow> d | None \<Rightarrow> zeroRole);
         perms = rd_Permissions d @ rd_Permissions raw;
         inh = rd_Inherits d @ rd_Inherits raw;
         inh = (if rd_Role raw \<noteq> RoleMember \<and> rd_Role raw \<noteq> RoleAdmin \<and> RoleMember \<notin> set inh
                then inh @ [RoleMember] else inh)
     in put (rd_Role raw) \<lparr>rd_Role = rd_Role raw, rd_Permissions = perms, rd_Inherits = inh\<rparr> defs)"

fun mergeRoles :: "roleDefinition list \<Rightarrow> (role, roleDefinition) dict \<Rightarrow> (role, roleDefinition) dict result" where
  "mergeRoles [] defs = Inr defs"
| "mergeRoles (raw # configured) defs =
    (if \<not> roleNamePattern (rd_Role raw) then Inl ErrInvalidInput
     else mergeRoles configured (mergeRole raw defs))"

definition uniqueRole :: "roleDefinition \<Rightarrow> roleDefinition" where
  "uniqueRole d = d\<lparr>rd_Permissions := uniqueWorkspacePermissions (rd_Permissions d),
                   rd_Inherits := uniqueRoles (rd_Inherits d)\<rparr>"

definition dictPermissions :: "(role, roleDefinition) dict \<Rightarrow> permission list" where
  "dictPermissions defs = concat (map (\<lambda>(r, d). rd_Permissions d) defs)"

text \<open>
  The second loop and the completion of the administrator: duplicates removed, every permission
  checked, and the administrator given every permission of the catalog.
\<close>

definition checkedRoles :: "(role, roleDefinition) dict \<Rightarrow> (role, roleDefinition) dict result" where
  "checkedRoles defs =
    (let defs' = mapv (\<lambda>r d. uniqueRole d) defs;
         allPermissions = dictPermissions defs'
     in if \<not> list_all workspacePermissionPattern allPermissions then Inl ErrInvalidInput
        else case lookup defs' RoleAdmin of
            None \<Rightarrow> Inr defs'
          | Some admin \<Rightarrow> Inr (put RoleAdmin
              (admin\<lparr>rd_Permissions := uniqueWorkspacePermissions (rd_Permissions admin @ allPermissions)\<rparr>) defs'))"

definition notVisiting :: "(role, roleDefinition) dict \<Rightarrow> role list \<Rightarrow> nat" where
  "notVisiting defs visiting = card (fst ` set defs - set visiting)"

lemma notVisiting_less:
  assumes "lookup defs r = Some d" and "r \<notin> set visiting"
  shows "notVisiting defs (r # visiting) < notVisiting defs visiting"
proof -
  have "r \<in> fst ` set defs" using lookup_in_set [OF assms(1)] by force
  with assms(2) have "fst ` set defs - set (r # visiting) \<subset> fst ` set defs - set visiting" by auto
  then show ?thesis unfolding notVisiting_def by (intro psubset_card_mono) simp
qed

function (sequential)
  compileRole :: "(role, roleDefinition) dict \<Rightarrow> role list \<Rightarrow> role \<Rightarrow> (role, compiledRole) dict
    \<Rightarrow> (compiledRole \<times> (role, compiledRole) dict) result" and
  compileInherits :: "(role, roleDefinition) dict \<Rightarrow> role list \<Rightarrow> role list \<Rightarrow> compiledRole \<Rightarrow> (role, compiledRole) dict
    \<Rightarrow> (compiledRole \<times> (role, compiledRole) dict) result" where
  "compileRole defs visiting r roles =
    (case lookup roles r of
       Some compiled \<Rightarrow> Inr (compiled, roles)
     | None \<Rightarrow>
        (case lookup defs r of
           None \<Rightarrow> Inl ErrInvalidInput
         | Some d \<Rightarrow>
             if r \<in> set visiting then Inl ErrInvalidInput
             else (case compileInherits defs (r # visiting) (rd_Inherits d)
                      \<lparr>cmp_definition = d, cmp_roles = {r}, cmp_permissions = set (rd_Permissions d)\<rparr> roles of
                 Inl e \<Rightarrow> Inl e
               | Inr (result, roles') \<Rightarrow> Inr (result, put r result roles'))))"
| "compileInherits defs visiting [] result roles = Inr (result, roles)"
| "compileInherits defs visiting (r # rs) result roles =
    (case compileRole defs visiting r roles of
       Inl e \<Rightarrow> Inl e
     | Inr (inherited, roles') \<Rightarrow>
         compileInherits defs visiting rs
           (result\<lparr>cmp_roles := cmp_roles result \<union> cmp_roles inherited,
                   cmp_permissions := cmp_permissions result \<union> cmp_permissions inherited\<rparr>) roles')"
  by pat_completeness auto

termination
  by (relation "measures [\<lambda>x. case x of Inl (defs, v, r, roles) \<Rightarrow> notVisiting defs v
                                    | Inr (defs, v, rs, c, roles) \<Rightarrow> notVisiting defs v,
                          \<lambda>x. case x of Inl _ \<Rightarrow> 0 | Inr (defs, v, rs, c, roles) \<Rightarrow> Suc (length rs)]")
     (auto simp: notVisiting_less)

fun compileAll :: "(role, roleDefinition) dict \<Rightarrow> role list \<Rightarrow> (role, compiledRole) dict \<Rightarrow> (role, compiledRole) dict result" where
  "compileAll defs [] roles = Inr roles"
| "compileAll defs (r # rs) roles =
    (case compileRole defs [] r roles of Inl e \<Rightarrow> Inl e | Inr (_, roles') \<Rightarrow> compileAll defs rs roles')"

definition buildRoleCatalog :: "roleDefinition list \<Rightarrow> roleCatalog result" where
  "buildRoleCatalog configured =
    (case mergeRoles configured builtinRoles of
       Inl e \<Rightarrow> Inl e
     | Inr merged \<Rightarrow>
       (case checkedRoles merged of
          Inl e \<Rightarrow> Inl e
        | Inr defs \<Rightarrow>
          (case compileAll defs (map fst defs) [] of
             Inl e \<Rightarrow> Inl e
           | Inr roles \<Rightarrow> Inr \<lparr>cat_roles = roles,
               cat_permissions = set (dictPermissions (mapv (\<lambda>r d. uniqueRole d) merged))\<rparr>)))"

definition normalizeRole :: "roleCatalog \<Rightarrow> role \<Rightarrow> role result" where
  "normalizeRole c r = (if has r (cat_roles c) then Inr r else Inl (ValidationError ''role'' ''unknown''))"

definition roleIncludes :: "roleCatalog \<Rightarrow> role \<Rightarrow> role \<Rightarrow> bool" where
  "roleIncludes c r required =
    (case lookup (cat_roles c) r of None \<Rightarrow> False | Some compiled \<Rightarrow> required \<in> cmp_roles compiled)"

definition roleAllows :: "roleCatalog \<Rightarrow> role \<Rightarrow> permission \<Rightarrow> bool" where
  "roleAllows c r p =
    (case lookup (cat_roles c) r of None \<Rightarrow> False | Some compiled \<Rightarrow> p \<in> cmp_permissions compiled)"

declare compileRole.simps [simp del]

section \<open>What compilation computes\<close>

text \<open>One step of inheritance between defined roles, and what a role reaches.\<close>

definition inheritance :: "(role, roleDefinition) dict \<Rightarrow> (role \<times> role) set" where
  "inheritance defs = {(r, r'). \<exists>d. lookup defs r = Some d \<and> r' \<in> set (rd_Inherits d)}"

definition reachable :: "(role, roleDefinition) dict \<Rightarrow> role \<Rightarrow> role set" where
  "reachable defs r = {r'. (r, r') \<in> (inheritance defs)\<^sup>*}"

definition reachablePermissions :: "(role, roleDefinition) dict \<Rightarrow> role \<Rightarrow> permission set" where
  "reachablePermissions defs r =
    {p. \<exists>r' d. r' \<in> reachable defs r \<and> lookup defs r' = Some d \<and> p \<in> set (rd_Permissions d)}"

lemma reachable_step:
  assumes "lookup defs r = Some d"
  shows "reachable defs r = insert r (\<Union> (reachable defs ` set (rd_Inherits d)))"
proof (intro set_eqI iffI)
  fix x
  assume "x \<in> reachable defs r"
  then have "(r, x) \<in> (inheritance defs)\<^sup>*" by (simp add: reachable_def)
  then show "x \<in> insert r (\<Union> (reachable defs ` set (rd_Inherits d)))"
    by (cases rule: converse_rtranclE) (use assms in \<open>auto simp: inheritance_def reachable_def\<close>)
next
  fix x
  assume "x \<in> insert r (\<Union> (reachable defs ` set (rd_Inherits d)))"
  then show "x \<in> reachable defs r"
    using assms by (auto simp: reachable_def inheritance_def intro: converse_rtrancl_into_rtrancl)
qed

lemma reachablePermissions_step:
  assumes "lookup defs r = Some d"
  shows "reachablePermissions defs r =
    set (rd_Permissions d) \<union> \<Union> (reachablePermissions defs ` set (rd_Inherits d))"
  unfolding reachablePermissions_def reachable_step [OF assms] using assms by auto

text \<open>
  A compiled role is right when it carries its own definition and exactly what it reaches, and when
  inheritance descends from it only finitely far, so that it lies on no cycle.
\<close>

definition compiledOk :: "(role, roleDefinition) dict \<Rightarrow> role \<Rightarrow> compiledRole \<Rightarrow> bool" where
  "compiledOk defs r c \<longleftrightarrow> lookup defs r = Some (cmp_definition c) \<and> cmp_roles c = reachable defs r
     \<and> cmp_permissions c = reachablePermissions defs r \<and> r \<in> Wellfounded.acc ((inheritance defs)\<inverse>)
     \<and> (\<forall>x \<in> reachable defs r. has x defs)"

definition catalogOk :: "(role, roleDefinition) dict \<Rightarrow> (role, compiledRole) dict \<Rightarrow> bool" where
  "catalogOk defs roles \<longleftrightarrow> (\<forall>r c. lookup roles r = Some c \<longrightarrow> compiledOk defs r c)"

lemma compile_ok:
  "(\<forall>c roles'. compileRole defs visiting r roles = Inr (c, roles') \<longrightarrow> catalogOk defs roles
      \<longrightarrow> catalogOk defs roles' \<and> compiledOk defs r c)"
  "(\<forall>c roles'. compileInherits defs visiting rs result roles = Inr (c, roles') \<longrightarrow> catalogOk defs roles
      \<longrightarrow> catalogOk defs roles' \<and> cmp_definition c = cmp_definition result
        \<and> cmp_roles c = cmp_roles result \<union> \<Union> (reachable defs ` set rs)
        \<and> cmp_permissions c = cmp_permissions result \<union> \<Union> (reachablePermissions defs ` set rs)
        \<and> (\<forall>r \<in> set rs. r \<in> Wellfounded.acc ((inheritance defs)\<inverse>) \<and> (\<forall>x \<in> reachable defs r. has x defs)))"
proof (induction defs visiting r roles and defs visiting rs result roles rule: compileRole_compileInherits.induct)
  case (1 defs visiting r roles)
  show ?case
  proof (intro allI impI)
    fix c roles'
    assume run: "compileRole defs visiting r roles = Inr (c, roles')" and ok: "catalogOk defs roles"
    show "catalogOk defs roles' \<and> compiledOk defs r c"
    proof (cases "lookup roles r")
      case (Some c')
      with run ok show ?thesis by (auto simp: compileRole.simps catalogOk_def)
    next
      case None
      with run obtain d where d: "lookup defs r = Some d" and nv: "r \<notin> set visiting"
        by (auto simp: compileRole.simps split: option.splits if_splits)
      from run None d nv obtain roles1 where sub: "compileInherits defs (r # visiting) (rd_Inherits d)
          \<lparr>cmp_definition = d, cmp_roles = {r}, cmp_permissions = set (rd_Permissions d)\<rparr> roles = Inr (c, roles1)"
        and r': "roles' = put r c roles1"
        by (auto simp: compileRole.simps split: sum.splits)
      from 1 [OF None d nv] sub ok have IH: "catalogOk defs roles1" "cmp_definition c = d"
        "cmp_roles c = {r} \<union> \<Union> (reachable defs ` set (rd_Inherits d))"
        "cmp_permissions c = set (rd_Permissions d) \<union> \<Union> (reachablePermissions defs ` set (rd_Inherits d))"
        "\<forall>r \<in> set (rd_Inherits d). r \<in> Wellfounded.acc ((inheritance defs)\<inverse>) \<and> (\<forall>x \<in> reachable defs r. has x defs)"
        by simp_all
      have "r \<in> Wellfounded.acc ((inheritance defs)\<inverse>)"
      proof (rule accI)
        fix y
        assume "(y, r) \<in> (inheritance defs)\<inverse>"
        then have "y \<in> set (rd_Inherits d)" using d by (simp add: inheritance_def)
        with IH(5) show "y \<in> Wellfounded.acc ((inheritance defs)\<inverse>)" by blast
      qed
      moreover have "\<forall>x \<in> reachable defs r. has x defs"
        unfolding reachable_step [OF d] using IH(5) d by (simp del: has_iff) (simp add: d)
      ultimately have "compiledOk defs r c"
        using IH d by (simp add: compiledOk_def reachable_step [OF d] reachablePermissions_step [OF d])
      with IH(1) r' show ?thesis by (simp add: catalogOk_def)
    qed
  qed
next
  case (2 defs visiting result roles)
  then show ?case by (simp add: compileRole.simps)
next
  case (3 defs visiting r rs result roles)
  show ?case
  proof (intro allI impI, goal_cases)
    case (1 c roles')
    then obtain i roles1 where sub: "compileRole defs visiting r roles = Inr (i, roles1)"
      and rest: "compileInherits defs visiting rs
         (result\<lparr>cmp_roles := cmp_roles result \<union> cmp_roles i,
                 cmp_permissions := cmp_permissions result \<union> cmp_permissions i\<rparr>) roles1 = Inr (c, roles')"
      by (auto simp: compileRole.simps split: sum.splits)
    from 3(1) sub 1(2) have i: "catalogOk defs roles1" "compiledOk defs r i" by auto
    note 3(2) [OF sub refl, THEN spec, THEN spec, THEN mp, OF rest, THEN mp, OF i(1)]
    then have "catalogOk defs roles' \<and> cmp_definition c = cmp_definition result
        \<and> cmp_roles c = cmp_roles result \<union> cmp_roles i \<union> \<Union> (reachable defs ` set rs)
        \<and> cmp_permissions c = cmp_permissions result \<union> cmp_permissions i \<union> \<Union> (reachablePermissions defs ` set rs)
        \<and> (\<forall>r \<in> set rs. r \<in> Wellfounded.acc ((inheritance defs)\<inverse>) \<and> (\<forall>x \<in> reachable defs r. has x defs))"
      by (simp del: has_iff)
    with i(2) show ?case by (simp add: compiledOk_def Un_assoc del: has_iff)
  qed
qed

lemma compile_succeeds:
  "(\<forall>x \<in> reachable defs r. has x defs \<and> x \<notin> set visiting) \<longrightarrow> acyclic (inheritance defs)
     \<longrightarrow> (\<exists>y. compileRole defs visiting r roles = Inr y)"
  "(\<forall>r \<in> set rs. \<forall>x \<in> reachable defs r. has x defs \<and> x \<notin> set visiting) \<longrightarrow> acyclic (inheritance defs)
     \<longrightarrow> (\<exists>y. compileInherits defs visiting rs result roles = Inr y)"
proof (induction defs visiting r roles and defs visiting rs result roles rule: compileRole_compileInherits.induct)
  case (1 defs visiting r roles)
  show ?case
  proof (intro impI)
    assume known: "\<forall>x \<in> reachable defs r. has x defs \<and> x \<notin> set visiting" and ac: "acyclic (inheritance defs)"
    have "r \<in> reachable defs r" by (simp add: reachable_def)
    with known obtain d where d: "lookup defs r = Some d" and nv: "r \<notin> set visiting" by auto
    show "\<exists>y. compileRole defs visiting r roles = Inr y"
    proof (cases "lookup roles r")
      case None
      have "\<forall>r' \<in> set (rd_Inherits d). \<forall>x \<in> reachable defs r'. has x defs \<and> x \<notin> set (r # visiting)"
      proof (intro ballI)
        fix r' x
        assume r': "r' \<in> set (rd_Inherits d)" and x: "x \<in> reachable defs r'"
        then have "x \<in> reachable defs r" by (auto simp: reachable_step [OF d])
        moreover have "x \<noteq> r"
        proof
          assume "x = r"
          with x have "(r', r) \<in> (inheritance defs)\<^sup>*" by (simp add: reachable_def)
          moreover have "(r, r') \<in> inheritance defs" using r' d by (simp add: inheritance_def)
          ultimately have "(r, r) \<in> (inheritance defs)\<^sup>+" by (rule rtrancl_into_trancl2 [rotated])
          with ac show False by (simp add: acyclic_def)
        qed
        ultimately show "has x defs \<and> x \<notin> set (r # visiting)" using known by (simp del: has_iff)
      qed
      with 1 [OF None d nv] ac obtain c roles1 where "compileInherits defs (r # visiting) (rd_Inherits d)
          \<lparr>cmp_definition = d, cmp_roles = {r}, cmp_permissions = set (rd_Permissions d)\<rparr> roles = Inr (c, roles1)"
        by (metis surj_pair)
      with None d nv show ?thesis by (simp add: compileRole.simps)
    qed (simp add: compileRole.simps)
  qed
next
  case (3 defs visiting r rs result roles)
  show ?case
  proof (intro impI)
    assume known: "\<forall>r \<in> set (r # rs). \<forall>x \<in> reachable defs r. has x defs \<and> x \<notin> set visiting"
      and ac: "acyclic (inheritance defs)"
    with 3(1) obtain i roles1 where i: "compileRole defs visiting r roles = Inr (i, roles1)"
      by (metis list.set_intros(1) surj_pair)
    from 3(2) [OF i refl] known ac i show "\<exists>y. compileInherits defs visiting (r # rs) result roles = Inr y"
      by (simp del: has_iff)
  qed
qed (simp add: compileRole.simps)

lemma compile_grows:
  "(\<forall>c roles'. compileRole defs visiting r roles = Inr (c, roles') \<longrightarrow> fst ` set roles \<union> {r} \<subseteq> fst ` set roles')"
  "(\<forall>c roles'. compileInherits defs visiting rs result roles = Inr (c, roles') \<longrightarrow> fst ` set roles \<subseteq> fst ` set roles')"
proof (induction defs visiting r roles and defs visiting rs result roles rule: compileRole_compileInherits.induct)
  case (1 defs visiting r roles)
  have keys: "fst ` set (put r c m) = insert r (fst ` set m)" for c :: compiledRole and m
    by (simp add: put_def update_conv' flip: dom_map_of_conv_image_fst)
  show ?case
  proof (intro allI impI)
    fix c roles'
    assume run: "compileRole defs visiting r roles = Inr (c, roles')"
    show "fst ` set roles \<union> {r} \<subseteq> fst ` set roles'"
    proof (cases "lookup roles r")
      case (Some c')
      with run lookup_in_set [OF Some] show ?thesis by (force simp: compileRole.simps)
    next
      case None
      with run obtain d where d: "lookup defs r = Some d" and nv: "r \<notin> set visiting"
        by (auto simp: compileRole.simps split: option.splits if_splits)
      from run None d nv obtain roles1 where sub: "compileInherits defs (r # visiting) (rd_Inherits d)
          \<lparr>cmp_definition = d, cmp_roles = {r}, cmp_permissions = set (rd_Permissions d)\<rparr> roles = Inr (c, roles1)"
        and r': "roles' = put r c roles1"
        by (auto simp: compileRole.simps split: sum.splits)
      from 1 [OF None d nv] sub have "fst ` set roles \<subseteq> fst ` set roles1" by blast
      then show ?thesis unfolding r' keys by blast
    qed
  qed
next
  case (3 defs visiting r rs result roles)
  show ?case
  proof (intro allI impI)
    fix c roles'
    assume "compileInherits defs visiting (r # rs) result roles = Inr (c, roles')"
    then obtain i roles1 where i: "compileRole defs visiting r roles = Inr (i, roles1)"
      and rest: "compileInherits defs visiting rs (result\<lparr>cmp_roles := cmp_roles result \<union> cmp_roles i,
                   cmp_permissions := cmp_permissions result \<union> cmp_permissions i\<rparr>) roles1 = Inr (c, roles')"
      by (auto simp: compileRole.simps split: sum.splits)
    from 3(1) i have "fst ` set roles \<subseteq> fst ` set roles1" by blast
    also note 3(2) [OF i refl, THEN spec, THEN spec, THEN mp, OF rest]
    finally show "fst ` set roles \<subseteq> fst ` set roles'" .
  qed
qed (simp add: compileRole.simps)

section \<open>The whole catalog\<close>

text \<open>The definitions that are compiled, after the merge and the checks.\<close>

definition catalogDefinitions :: "roleDefinition list \<Rightarrow> (role, roleDefinition) dict result" where
  "catalogDefinitions configured =
    (case mergeRoles configured builtinRoles of Inl e \<Rightarrow> Inl e | Inr merged \<Rightarrow> checkedRoles merged)"

definition mergedOk :: "(role, roleDefinition) dict \<Rightarrow> bool" where
  "mergedOk defs \<longleftrightarrow> wfd defs \<and> has RoleAdmin defs
     \<and> (\<exists>m. lookup defs RoleMember = Some m \<and> PermissionWorkspaceAccess \<in> set (rd_Permissions m))
     \<and> (\<forall>r d. lookup defs r = Some d \<longrightarrow> r \<noteq> RoleMember \<longrightarrow> RoleMember \<in> set (rd_Inherits d))"

lemma role_neq [simp]: "RoleMember \<noteq> RoleAdmin" "RoleAdmin \<noteq> RoleMember"
  by (simp_all add: role_names)

lemma builtin_ok: "mergedOk builtinRoles"
  by (simp add: mergedOk_def builtinRoles_def)

lemma mergeRole_ok: "mergedOk defs \<Longrightarrow> mergedOk (mergeRole raw defs)"
  by (auto simp: mergedOk_def mergeRole_def Let_def zeroRole_def split: option.splits)

lemma mergeRoles_ok: "mergeRoles configured defs = Inr merged \<Longrightarrow> mergedOk defs \<Longrightarrow> mergedOk merged"
  by (induction configured arbitrary: defs) (auto simp: mergeRole_ok split: if_splits)

lemma set_unique [simp]:
  "set (uniqueWorkspacePermissions ps) = set ps" "set (uniqueRoles rs) = set rs"
  by (simp_all add: uniqueWorkspacePermissions_def uniqueRoles_def)

lemma checkedRoles_ok:
  assumes "checkedRoles merged = Inr defs" and "mergedOk merged"
  shows "mergedOk defs"
    and "\<exists>a. lookup defs RoleAdmin = Some a \<and> (\<forall>r d. lookup defs r = Some d \<longrightarrow> set (rd_Permissions d) \<subseteq> set (rd_Permissions a))"
proof -
  let ?m = "mapv (\<lambda>r d. uniqueRole d) merged"
  from assms obtain a where a: "lookup merged RoleAdmin = Some a" by (auto simp: mergedOk_def)
  with assms(1) have defs: "defs = put RoleAdmin ((uniqueRole a)\<lparr>rd_Permissions :=
      uniqueWorkspacePermissions (rd_Permissions (uniqueRole a) @ dictPermissions ?m)\<rparr>) ?m"
    by (auto simp: checkedRoles_def Let_def split: if_splits)
  from assms(2) a show "mergedOk defs"
    by (auto simp: defs mergedOk_def uniqueRole_def)
  have "set (rd_Permissions d) \<subseteq> set (dictPermissions ?m)" if "lookup ?m r = Some d" for r d
    using lookup_in_set [OF that] by (force simp: dictPermissions_def)
  then show "\<exists>a. lookup defs RoleAdmin = Some a \<and> (\<forall>r d. lookup defs r = Some d \<longrightarrow> set (rd_Permissions d) \<subseteq> set (rd_Permissions a))"
    by (auto simp: defs)
qed

lemma catalogDefinitions_ok:
  assumes "catalogDefinitions configured = Inr defs"
  shows "mergedOk defs"
    and "\<exists>a. lookup defs RoleAdmin = Some a \<and> (\<forall>r d. lookup defs r = Some d \<longrightarrow> set (rd_Permissions d) \<subseteq> set (rd_Permissions a))"
  using assms checkedRoles_ok mergeRoles_ok builtin_ok
  by (auto simp: catalogDefinitions_def split: sum.splits)

lemma keys_lookup: "r \<in> fst ` set d \<longleftrightarrow> has r d"
  by (simp add: has_def lookup_def map_of_eq_None_iff del: has_iff not_None_eq)

lemma compileAll_ok:
  assumes "compileAll defs rs roles = Inr roles'" and "catalogOk defs roles"
  shows "catalogOk defs roles' \<and> fst ` set roles \<union> set rs \<subseteq> fst ` set roles'"
  using assms
proof (induction rs arbitrary: roles)
  case (Cons r rs)
  then obtain c roles1 where c: "compileRole defs [] r roles = Inr (c, roles1)"
    and rest: "compileAll defs rs roles1 = Inr roles'" by (auto split: sum.splits)
  from compile_ok(1) [rule_format, OF c Cons.prems(2)] have "catalogOk defs roles1" by simp
  with Cons.IH [OF rest] compile_grows(1) [rule_format, OF c] show ?case by auto
qed simp

lemma acc_no_cycle: "r \<in> Wellfounded.acc R \<Longrightarrow> (r, r) \<notin> R\<^sup>+"
proof (induction rule: acc.induct)
  case (accI x)
  show ?case
  proof
    assume "(x, x) \<in> R\<^sup>+"
    then obtain y where y: "(x, y) \<in> R\<^sup>*" "(y, x) \<in> R" by (meson tranclD2)
    then have "(y, y) \<in> R\<^sup>+" by (metis rtrancl_into_trancl2)
    with accI y(2) show False by blast
  qed
qed

lemma build_Inr_iff:
  "buildRoleCatalog configured = Inr cat \<longleftrightarrow>
    (\<exists>merged defs. mergeRoles configured builtinRoles = Inr merged \<and> checkedRoles merged = Inr defs
       \<and> compileAll defs (map fst defs) [] = Inr (cat_roles cat)
       \<and> cat_permissions cat = set (dictPermissions (mapv (\<lambda>r d. uniqueRole d) merged)))"
  by (cases cat) (auto simp: buildRoleCatalog_def split: sum.splits)

lemma build_defs:
  assumes "buildRoleCatalog configured = Inr cat"
  shows "\<exists>defs. catalogDefinitions configured = Inr defs \<and> catalogOk defs (cat_roles cat)
    \<and> (\<forall>r. has r (cat_roles cat) \<longleftrightarrow> has r defs)"
proof -
  from assms obtain merged defs where m: "mergeRoles configured builtinRoles = Inr merged" "checkedRoles merged = Inr defs"
    and run: "compileAll defs (map fst defs) [] = Inr (cat_roles cat)"
    by (auto simp: build_Inr_iff)
  from compileAll_ok [OF run] have ok: "catalogOk defs (cat_roles cat)" "fst ` set defs \<subseteq> fst ` set (cat_roles cat)"
    by (simp_all add: catalogOk_def)
  have "has r (cat_roles cat) \<longleftrightarrow> has r defs" for r
  proof
    assume "has r (cat_roles cat)"
    then obtain c where "lookup (cat_roles cat) r = Some c" by auto
    with ok(1) have "compiledOk defs r c" by (simp add: catalogOk_def)
    then show "has r defs" by (simp add: compiledOk_def)
  next
    assume "has r defs"
    with ok(2) show "has r (cat_roles cat)" unfolding keys_lookup [symmetric] by blast
  qed
  with ok m show ?thesis by (intro exI [of _ defs]) (simp add: catalogDefinitions_def del: has_iff)
qed

text \<open>In a successful build a role includes exactly the defined roles it reaches.\<close>

lemma build_spec:
  assumes "buildRoleCatalog configured = Inr cat"
  shows "\<exists>defs. catalogDefinitions configured = Inr defs
    \<and> (\<forall>r r'. roleIncludes cat r r' \<longleftrightarrow> has r defs \<and> r' \<in> reachable defs r)
    \<and> (\<forall>r p. roleAllows cat r p \<longleftrightarrow> has r defs \<and> p \<in> reachablePermissions defs r)
    \<and> (\<forall>r. has r defs \<longrightarrow> r \<in> Wellfounded.acc ((inheritance defs)\<inverse>))
    \<and> (\<forall>r x. has r defs \<longrightarrow> x \<in> reachable defs r \<longrightarrow> has x defs)"
proof -
  obtain defs where d: "catalogDefinitions configured = Inr defs" and ok: "catalogOk defs (cat_roles cat)"
    and keys: "\<forall>r. has r (cat_roles cat) \<longleftrightarrow> has r defs"
    using build_defs [OF assms] by blast
  have comp: "\<exists>c. lookup (cat_roles cat) r = Some c \<and> compiledOk defs r c" if "has r defs" for r
  proof -
    from that keys have "has r (cat_roles cat)" by blast
    then obtain c where "lookup (cat_roles cat) r = Some c" by auto
    with ok show ?thesis by (simp add: catalogOk_def)
  qed
  have none: "lookup (cat_roles cat) r = None" if "\<not> has r defs" for r
    using that keys [THEN spec, of r] by (simp add: has_def del: has_iff)
  show ?thesis
  proof (intro exI [of _ defs] conjI allI impI d)
    show "roleIncludes cat r r' \<longleftrightarrow> has r defs \<and> r' \<in> reachable defs r" for r r'
      using comp [of r] none [of r] by (cases "has r defs") (auto simp: roleIncludes_def compiledOk_def simp del: has_iff)
    show "roleAllows cat r p \<longleftrightarrow> has r defs \<and> p \<in> reachablePermissions defs r" for r p
      using comp [of r] none [of r] by (cases "has r defs") (auto simp: roleAllows_def compiledOk_def simp del: has_iff)
    show "r \<in> Wellfounded.acc ((inheritance defs)\<inverse>)" if "has r defs" for r
      using comp [OF that] by (auto simp: compiledOk_def simp del: has_iff)
    show "has x defs" if "has r defs" and "x \<in> reachable defs r" for r x
      using comp [OF that(1)] that(2) by (auto simp: compiledOk_def simp del: has_iff)
  qed
qed

lemma defs_acyclic:
  assumes "\<And>r. has r defs \<Longrightarrow> r \<in> Wellfounded.acc ((inheritance defs)\<inverse>)"
  shows "acyclic (inheritance defs)"
proof (unfold acyclic_def, intro allI notI)
  fix r
  assume cyc: "(r, r) \<in> (inheritance defs)\<^sup>+"
  then obtain y where "(r, y) \<in> inheritance defs" by (meson tranclD)
  then have "has r defs" by (auto simp: inheritance_def)
  from acc_no_cycle [OF assms [OF this]] have "(r, r) \<notin> ((inheritance defs)\<inverse>)\<^sup>+" .
  with cyc show False by (simp add: trancl_converse)
qed

lemma compileAll_succeeds:
  assumes "acyclic (inheritance defs)" and "\<forall>r x. has r defs \<longrightarrow> x \<in> reachable defs r \<longrightarrow> has x defs"
    and "\<forall>r \<in> set rs. has r defs"
  shows "\<exists>roles'. compileAll defs rs roles = Inr roles'"
  using assms(3)
proof (induction rs arbitrary: roles)
  case (Cons r rs)
  then have "has r defs" by (simp del: has_iff)
  with assms(2) have "\<forall>x \<in> reachable defs r. has x defs \<and> x \<notin> set []" by (simp del: has_iff)
  with assms(1) have "\<exists>y. compileRole defs [] r roles = Inr y" using compile_succeeds(1) by blast
  then obtain c roles1 where "compileRole defs [] r roles = Inr (c, roles1)" by auto
  with Cons show ?case by simp
qed simp

section \<open>The built-in roles\<close>

lemma keys_of_build:
  assumes "buildRoleCatalog configured = Inr cat" and "catalogDefinitions configured = Inr defs"
  shows "has r (cat_roles cat) \<longleftrightarrow> has r defs"
proof -
  obtain defs' where "catalogDefinitions configured = Inr defs'" and "\<forall>r. has r (cat_roles cat) \<longleftrightarrow> has r defs'"
    using build_defs [OF assms(1)] by blast
  with assms(2) show ?thesis by (simp del: has_iff)
qed

lemma adminHoldsAll:
  assumes "catalogDefinitions configured = Inr defs" and "p \<in> reachablePermissions defs r"
  shows "p \<in> reachablePermissions defs RoleAdmin"
proof -
  from catalogDefinitions_ok(2) [OF assms(1)] obtain a where a: "lookup defs RoleAdmin = Some a"
    and all: "\<forall>r d. lookup defs r = Some d \<longrightarrow> set (rd_Permissions d) \<subseteq> set (rd_Permissions a)" by blast
  from assms(2) obtain r' d where "lookup defs r' = Some d" and "p \<in> set (rd_Permissions d)"
    by (auto simp: reachablePermissions_def)
  with all have "p \<in> set (rd_Permissions a)" by blast
  with a show ?thesis by (auto simp: reachablePermissions_def reachable_def)
qed

lemma memberAccess:
  assumes "mergedOk defs" and "RoleMember \<in> reachable defs r"
  shows "PermissionWorkspaceAccess \<in> reachablePermissions defs r"
  using assms by (auto simp: mergedOk_def reachablePermissions_def)

text \<open>A role the member inherited would itself inherit the member: a cycle.\<close>

lemma memberReaches:
  assumes ac: "acyclic (inheritance defs)" and m: "mergedOk defs" and x: "x \<in> reachable defs RoleMember"
    and known: "has x defs"
  shows "x = RoleMember"
proof (rule ccontr)
  assume ne: "x \<noteq> RoleMember"
  with m known have "(x, RoleMember) \<in> inheritance defs" by (auto simp: mergedOk_def inheritance_def)
  moreover from x have "(RoleMember, x) \<in> (inheritance defs)\<^sup>*" by (simp add: reachable_def)
  ultimately have "(RoleMember, RoleMember) \<in> (inheritance defs)\<^sup>+" by (rule rtrancl_into_trancl1 [rotated])
  with ac show False by (simp add: acyclic_def)
qed

text \<open>A configuration the witnesses run on: an editor that inherits a viewer.\<close>

definition demoRoles :: "roleDefinition list" where
  "demoRoles = [\<lparr>rd_Role = ''viewer'', rd_Permissions = [''doc.read''], rd_Inherits = []\<rparr>,
     \<lparr>rd_Role = ''editor'', rd_Permissions = [''doc.write''], rd_Inherits = [''viewer'']\<rparr>]"

lemma reachable_defined:
  assumes "{r'. \<exists>r. (r, r') \<in> inheritance defs} \<subseteq> {r. has r defs}"
  shows "\<forall>r x. has r defs \<longrightarrow> x \<in> reachable defs r \<longrightarrow> has x defs"
proof (intro allI impI)
  fix r x
  assume "has r defs" and "x \<in> reachable defs r"
  then have "(r, x) \<in> (inheritance defs)\<^sup>*" by (simp add: reachable_def)
  then show "has x defs"
  proof (cases rule: rtranclE)
    case base
    with \<open>has r defs\<close> show ?thesis by blast
  next
    case (step y)
    with assms show ?thesis by blast
  qed
qed

section \<open>Properties\<close>


text \<open>
  C30: in an accepted catalog a role grants exactly what it reaches through inheritance: it includes the
  defined roles reachable from it and carries the union of their permissions.
\<close>

theorem buildRoleCatalog_closure:
  assumes "buildRoleCatalog configured = Inr cat"
  shows "\<exists>defs. catalogDefinitions configured = Inr defs
    \<and> (\<forall>r r'. roleIncludes cat r r' = (has r defs \<and> r' \<in> reachable defs r))
    \<and> (\<forall>r p. roleAllows cat r p = (has r defs \<and> p \<in> reachablePermissions defs r))"
  using build_spec [OF assms] by blast

theorem buildRoleCatalog_closure_witness:
  "\<exists>cat defs. buildRoleCatalog demoRoles = Inr cat \<and> catalogDefinitions demoRoles = Inr defs
    \<and> roleAllows cat ''editor'' ''doc.read'' \<and> ''doc.read'' \<in> reachablePermissions defs ''editor''"
proof -
  have "case buildRoleCatalog demoRoles of Inl _ \<Rightarrow> False | Inr cat \<Rightarrow> roleAllows cat ''editor'' ''doc.read''"
    by code_simp
  then obtain cat where cat: "buildRoleCatalog demoRoles = Inr cat" and p: "roleAllows cat ''editor'' ''doc.read''"
    by (auto split: sum.splits)
  from buildRoleCatalog_closure [OF cat] cat p show ?thesis by blast
qed



end
