(* ===== verification/Codec.thy ===== *)
theory Codec
  imports Prelude
begin

text \<open>
  The text encodings of the Go standard library the program relies on: decimal numbers
  (\<^verbatim>\<open>strconv\<close>), hexadecimal (\<^verbatim>\<open>encoding/hex\<close>), unpadded URL-safe base64
  (\<^verbatim>\<open>base64.RawURLEncoding\<close>) and fixed-width big-endian numbers, each with its round trip.
\<close>

section \<open>Definitions\<close>

text \<open>\<^verbatim>\<open>strconv.Itoa\<close> and \<^verbatim>\<open>strconv.FormatInt(x, 10)\<close>.\<close>

fun decimal :: "nat \<Rightarrow> string" where
  "decimal n = (if n < 10 then [char_of (48 + n)] else decimal (n div 10) @ [char_of (48 + n mod 10)])"

declare decimal.simps [simp del]

definition FormatInt :: "int \<Rightarrow> string" where
  "FormatInt i = (if i < 0 then CHR ''-'' # decimal (nat (- i)) else decimal (nat i))"

definition decVal :: "string \<Rightarrow> nat" where
  "decVal s = foldl (\<lambda>a c. 10 * a + (of_char c - 48)) 0 s"

text \<open>\<^verbatim>\<open>hex.Encode\<close> writes lower-case digits; \<^verbatim>\<open>hex.Decode\<close> reads both cases.\<close>

definition hexDigit :: "nat \<Rightarrow> char" where
  "hexDigit n = (if n < 10 then char_of (48 + n) else char_of (87 + n))"

definition hexVal :: "char \<Rightarrow> nat option" where
  "hexVal c = (let n = (of_char c :: nat) in
     if 48 \<le> n \<and> n \<le> 57 then Some (n - 48)
     else if 97 \<le> n \<and> n \<le> 102 then Some (n - 87)
     else if 65 \<le> n \<and> n \<le> 70 then Some (n - 55)
     else None)"

fun hexEncode :: "bytes \<Rightarrow> string" where
  "hexEncode [] = []"
| "hexEncode (b # bs) = hexDigit (unat b div 16) # hexDigit (unat b mod 16) # hexEncode bs"

fun hexDecode :: "string \<Rightarrow> bytes option" where
  "hexDecode [] = Some []"
| "hexDecode [c] = None"
| "hexDecode (c # d # s) = (case (hexVal c, hexVal d, hexDecode s) of
     (Some x, Some y, Some bs) \<Rightarrow> Some (of_nat (16 * x + y) # bs)
   | _ \<Rightarrow> None)"

text \<open>
  \<^verbatim>\<open>base64.RawURLEncoding\<close>: three bytes become four characters, a remainder of one or two
  bytes two or three characters, without padding. The decoder skips carriage returns and
  line feeds, refuses every other character outside the alphabet and a remainder of one
  character, and ignores the spare low bits of the last character.
\<close>

definition b64Digit :: "nat \<Rightarrow> char" where
  "b64Digit n = (if n < 26 then char_of (65 + n) else if n < 52 then char_of (71 + n)
     else if n < 62 then char_of (n - 4) else if n = 62 then CHR ''-'' else CHR ''_'')"

definition b64Val :: "char \<Rightarrow> nat option" where
  "b64Val c = (let n = (of_char c :: nat) in
     if 65 \<le> n \<and> n \<le> 90 then Some (n - 65)
     else if 97 \<le> n \<and> n \<le> 122 then Some (n - 71)
     else if 48 \<le> n \<and> n \<le> 57 then Some (n + 4)
     else if n = 45 then Some 62
     else if n = 95 then Some 63
     else None)"

fun b64Encode :: "bytes \<Rightarrow> string" where
  "b64Encode [] = []"
| "b64Encode [a] = [b64Digit (unat a div 4), b64Digit (unat a mod 4 * 16)]"
| "b64Encode [a, b] = [b64Digit (unat a div 4), b64Digit (unat a mod 4 * 16 + unat b div 16),
     b64Digit (unat b mod 16 * 4)]"
| "b64Encode (a # b # c # bs) =
     b64Digit (unat a div 4) # b64Digit (unat a mod 4 * 16 + unat b div 16)
     # b64Digit (unat b mod 16 * 4 + unat c div 64) # b64Digit (unat c mod 64) # b64Encode bs"

fun b64Quads :: "nat list \<Rightarrow> bytes option" where
  "b64Quads [] = Some []"
| "b64Quads [w] = None"
| "b64Quads [w, x] = Some [of_nat (w * 4 + x div 16)]"
| "b64Quads [w, x, y] = Some [of_nat (w * 4 + x div 16), of_nat (x mod 16 * 16 + y div 4)]"
| "b64Quads (w # x # y # z # s) = (case b64Quads s of None \<Rightarrow> None | Some bs \<Rightarrow>
     Some (of_nat (w * 4 + x div 16) # of_nat (x mod 16 * 16 + y div 4) # of_nat (y mod 4 * 64 + z) # bs))"

fun digitValues :: "('a \<Rightarrow> 'b option) \<Rightarrow> 'a list \<Rightarrow> 'b list option" where
  "digitValues f [] = Some []"
| "digitValues f (x # xs) = (case (f x, digitValues f xs) of (Some y, Some ys) \<Rightarrow> Some (y # ys) | _ \<Rightarrow> None)"

definition b64Decode :: "string \<Rightarrow> bytes option" where
  "b64Decode s = (case digitValues b64Val (filter (\<lambda>c. c \<noteq> CHR 0x0D \<and> c \<noteq> CHR 0x0A) s) of
     None \<Rightarrow> None | Some ns \<Rightarrow> b64Quads ns)"

text \<open>A number as \<open>k\<close> big-endian bytes, and back.\<close>

fun natBytes :: "nat \<Rightarrow> nat \<Rightarrow> bytes" where
  "natBytes 0 n = []"
| "natBytes (Suc k) n = natBytes k (n div 256) @ [of_nat n]"

definition bytesNat :: "bytes \<Rightarrow> nat" where
  "bytesNat bs = foldl (\<lambda>a b. 256 * a + unat b) 0 bs"

section \<open>Decimal numbers\<close>

lemma of_char_digit [simp]: "n < 10 \<Longrightarrow> (of_char (char_of (48 + n) :: char) :: nat) = 48 + n"
  by (simp add: of_char_of)

lemma decVal_decimal [simp]: "decVal (decimal n) = n"
proof (induction n rule: decimal.induct)
  case (1 n)
  show ?case
  proof (cases "n < 10")
    case True
    then show ?thesis by (simp add: decimal.simps [of n] decVal_def)
  next
    case False
    with 1 have "decVal (decimal (n div 10)) = n div 10" by simp
    with False show ?thesis by (simp add: decimal.simps [of n] decVal_def)
  qed
qed

lemma decimal_digits: "c \<in> set (decimal n) \<Longrightarrow> 48 \<le> (of_char c :: nat) \<and> (of_char c :: nat) \<le> 57"
proof (induction n rule: decimal.induct)
  case (1 n)
  show ?case
  proof (cases "n < 10")
    case True
    with "1.prems" show ?thesis by (simp add: decimal.simps [of n])
  next
    case False
    with 1 show ?thesis by (auto simp: decimal.simps [of n])
  qed
qed

lemma decimal_nonempty [simp]: "decimal n \<noteq> []"
  by (subst decimal.simps) simp

lemma decimal_inject [simp]: "decimal m = decimal n \<longleftrightarrow> m = n"
  by (metis decVal_decimal)

lemma decimal_no_minus: "decimal n \<noteq> CHR ''-'' # s"
  using decimal_digits [of "CHR ''-''" n] by auto

lemma FormatInt_inject [simp]: "FormatInt i = FormatInt j \<longleftrightarrow> i = j"
  using decimal_no_minus by (auto simp: FormatInt_def split: if_splits) (metis decimal_no_minus)+

section \<open>Hexadecimal\<close>

lemma hexVal_hexDigit [simp]: "n < 16 \<Longrightarrow> hexVal (hexDigit n) = Some n"
  by (simp add: hexVal_def hexDigit_def of_char_of Let_def)

lemma unat_byte_less [simp]: "unat (b :: byte) < 256"
  using unsigned_less [of b, where 'a = nat] by simp

lemma unat_byte_of_nat [simp]: "n < 256 \<Longrightarrow> unat (of_nat n :: byte) = n"
  by (simp add: unat_of_nat take_bit_eq_mod)

lemma unat_byte_div16 [simp]: "unat (b :: byte) div 16 < 16"
  using unat_byte_less [of b] by linarith

lemma hexDecode_hexEncode [simp]: "hexDecode (hexEncode bs) = Some bs"
  by (induction bs) simp_all

lemma length_hexEncode [simp]: "length (hexEncode bs) = 2 * length bs"
  by (induction bs) simp_all

lemma hexVal_less: "hexVal c = Some n \<Longrightarrow> n < 16"
  by (auto simp: hexVal_def Let_def split: if_splits)

lemma hexDigit_hexVal: "hexVal c = Some n \<Longrightarrow> hexDigit n = lowerChar c"
  by (auto simp: hexVal_def hexDigit_def lowerChar_def Let_def add.commute split: if_splits)

lemma hexEncode_hexDecode: "hexDecode s = Some bs \<Longrightarrow> hexEncode bs = ToLower s"
proof (induction s arbitrary: bs rule: hexDecode.induct)
  case (3 c d s)
  then obtain x y bs' where x: "hexVal c = Some x" and y: "hexVal d = Some y"
    and bs': "hexDecode s = Some bs'" and bs: "bs = of_nat (16 * x + y) # bs'"
    by (auto split: option.splits)
  from hexVal_less [OF x] hexVal_less [OF y] have "unat (of_nat (16 * x + y) :: byte) = 16 * x + y"
    by (intro unat_byte_of_nat) simp
  with 3(1) [OF bs'] bs hexVal_less [OF y] hexDigit_hexVal [OF x] hexDigit_hexVal [OF y]
  show ?case by (simp add: ToLower_def)
qed (simp_all add: ToLower_def)

lemma length_hexDecode: "hexDecode s = Some bs \<Longrightarrow> length s = 2 * length bs"
  using hexEncode_hexDecode [of s bs] length_hexEncode [of bs] by (simp add: ToLower_def)

lemma hexEncode_inject [simp]: "hexEncode a = hexEncode b \<longleftrightarrow> a = b"
  by (metis hexDecode_hexEncode option.inject)

section \<open>Base64\<close>

lemma b64Val_b64Digit [simp]: "n < 64 \<Longrightarrow> b64Val (b64Digit n) = Some n"
  by (simp add: b64Val_def b64Digit_def of_char_of Let_def) presburger

lemma b64Digit_no_newline:
  "b64Digit n \<noteq> CHR 0x0D" "b64Digit n \<noteq> CHR 0x0A" if "n < 64"
  using b64Val_b64Digit [OF that] by (auto simp: b64Val_def Let_def)

text \<open>The arithmetic of one group of three bytes.\<close>

lemma group_parts:
  fixes a b c :: nat
  assumes "a < 256" and "b < 256" and "c < 256"
  shows "a div 4 * 4 + (a mod 4 * 16 + b div 16) div 16 = a"
    and "(a mod 4 * 16 + b div 16) mod 16 * 16 + (b mod 16 * 4 + c div 64) div 4 = b"
    and "(b mod 16 * 4 + c div 64) mod 4 * 64 + c mod 64 = c"
    and "a div 4 < 64" and "a mod 4 * 16 + b div 16 < 64"
    and "b mod 16 * 4 + c div 64 < 64" and "c mod 64 < 64"
proof -
  have b: "b div 16 < 16" and c: "c div 64 < 4" and m: "a mod 4 < 4" "b mod 16 < 16"
    using assms by (simp_all add: less_mult_imp_div_less)
  show "a div 4 < 64" using assms by (simp add: less_mult_imp_div_less)
  show "a mod 4 * 16 + b div 16 < 64" using b m by linarith
  show "b mod 16 * 4 + c div 64 < 64" using c m by linarith
  show "c mod 64 < 64" by simp
  have "(a mod 4 * 16 + b div 16) div 16 = a mod 4" using b by simp
  then show "a div 4 * 4 + (a mod 4 * 16 + b div 16) div 16 = a" by simp
  have "(a mod 4 * 16 + b div 16) mod 16 = b div 16" and "(b mod 16 * 4 + c div 64) div 4 = b mod 16"
    using b c by simp_all
  then show "(a mod 4 * 16 + b div 16) mod 16 * 16 + (b mod 16 * 4 + c div 64) div 4 = b" by simp
  have "(b mod 16 * 4 + c div 64) mod 4 = c div 64" using c by simp
  then show "(b mod 16 * 4 + c div 64) mod 4 * 64 + c mod 64 = c" by simp
qed


lemma b64Encode_set: "c \<in> set (b64Encode bs) \<Longrightarrow> \<exists>n < 64. c = b64Digit n"
proof (induction bs rule: b64Encode.induct)
  case (2 a)
  then show ?case using group_parts [OF unat_byte_less [of a] unat_byte_less [of 0] unat_byte_less [of 0]]
    by (simp only: b64Encode.simps list.set unsigned_0 div_0 add_0_right) blast
next
  case (3 a b)
  then show ?case using group_parts [OF unat_byte_less [of a] unat_byte_less [of b] unat_byte_less [of 0]]
    by (simp only: b64Encode.simps list.set unsigned_0 div_0 add_0_right) blast
next
  case (4 a b c bs)
  then show ?case using group_parts [OF unat_byte_less [of a] unat_byte_less [of b] unat_byte_less [of c]]
    by (simp only: b64Encode.simps list.set) blast
qed simp

lemma b64_filter: "filter (\<lambda>c. c \<noteq> CHR 0x0D \<and> c \<noteq> CHR 0x0A) (b64Encode bs) = b64Encode bs"
proof (rule filter_True, intro ballI)
  fix c
  assume "c \<in> set (b64Encode bs)"
  then obtain n where "n < 64" and "c = b64Digit n" using b64Encode_set by blast
  then show "c \<noteq> CHR 0x0D \<and> c \<noteq> CHR 0x0A" using b64Digit_no_newline [of n] by simp
qed

lemma b64Decode_groups: "\<exists>ns. digitValues b64Val (b64Encode bs) = Some ns \<and> b64Quads ns = Some bs"
proof (induction bs rule: b64Encode.induct)
  case (2 a)
  note g = group_parts [OF unat_byte_less [of a] unat_byte_less [of 0] unat_byte_less [of 0],
      unfolded unsigned_0 div_0 add_0_right]
  show ?case
    by (simp only: b64Encode.simps digitValues.simps b64Val_b64Digit [OF g(4)] b64Val_b64Digit [OF g(5)]
        prod.case option.case b64Quads.simps g(1) option.inject ex_simps simp_thms ucast_id of_nat_unat)
next
  case (3 a b)
  note g = group_parts [OF unat_byte_less [of a] unat_byte_less [of b] unat_byte_less [of 0],
      unfolded unsigned_0 div_0 add_0_right]
  show ?case
    by (simp only: b64Encode.simps digitValues.simps b64Val_b64Digit [OF g(4)] b64Val_b64Digit [OF g(5)]
        b64Val_b64Digit [OF g(6)] prod.case option.case b64Quads.simps g(1,2) option.inject ex_simps simp_thms
        ucast_id of_nat_unat)
next
  case (4 a b c bs)
  then obtain ns where ns: "digitValues b64Val (b64Encode bs) = Some ns" "b64Quads ns = Some bs" by blast
  note g = group_parts [OF unat_byte_less [of a] unat_byte_less [of b] unat_byte_less [of c]]
  show ?case
    by (simp only: b64Encode.simps digitValues.simps b64Val_b64Digit [OF g(4)] b64Val_b64Digit [OF g(5)]
        b64Val_b64Digit [OF g(6)] b64Val_b64Digit [OF g(7)] ns prod.case option.case b64Quads.simps
        g(1-3) option.inject ex_simps simp_thms ucast_id of_nat_unat)
qed simp

lemma b64Decode_b64Encode [simp]: "b64Decode (b64Encode bs) = Some bs"
  using b64Decode_groups [of bs] by (auto simp: b64Decode_def b64_filter)

lemma length_b64Encode: "length (b64Encode bs) = (4 * length bs + 2) div 3"
  by (induction bs rule: b64Encode.induct) simp_all

section \<open>Big-endian numbers\<close>

lemma bytesNat_append [simp]: "bytesNat (xs @ [b]) = 256 * bytesNat xs + unat b"
  by (simp add: bytesNat_def)

lemma length_natBytes [simp]: "length (natBytes k n) = k"
  by (induction k arbitrary: n) simp_all

lemma bytesNat_natBytes: "bytesNat (natBytes k n) = n mod 256 ^ k"
proof (induction k arbitrary: n)
  case (Suc k)
  have "unat (of_nat n :: byte) = n mod 256" by (simp add: unat_of_nat take_bit_eq_mod)
  with Suc have "bytesNat (natBytes (Suc k) n) = 256 * (n div 256 mod 256 ^ k) + n mod 256" by simp
  also have "\<dots> = n mod (256 * 256 ^ k)" by (simp add: mod_mult2_eq)
  finally show ?case by simp
qed (simp add: bytesNat_def)

lemma natBytes_bytesNat: "natBytes (length bs) (bytesNat bs) = bs"
proof (induction bs rule: rev_induct)
  case (snoc b bs)
  have "(256 * bytesNat bs + unat b) div 256 = bytesNat bs" by simp
  moreover have "(of_nat (256 * bytesNat bs + unat b) :: byte) = b"
  proof -
    have "(of_nat 256 :: byte) = 0" by simp
    then show ?thesis
      by (simp only: of_nat_add of_nat_mult mult_zero_left add_0_left of_nat_unat ucast_id)
  qed
  ultimately show ?case using snoc by simp
qed simp

lemma bytesNat_bound: "bytesNat bs < 256 ^ length bs"
proof (induction bs rule: rev_induct)
  case (snoc b bs)
  then have "256 * bytesNat bs + 256 \<le> 256 * 256 ^ length bs" by linarith
  with unat_byte_less [of b] have "256 * bytesNat bs + unat b < 256 * 256 ^ length bs" by linarith
  then show ?case by simp
qed (simp add: bytesNat_def)

end
