(* ===== verification/Utf8.thy ===== *)
theory Utf8
  imports Codec
begin

text \<open>
  UTF-8 as Go reads and writes it: \<^verbatim>\<open>[]rune(s)\<close> decodes a string into code points, each byte that starts
  no well-formed sequence counting as one U+FFFD, and \<^verbatim>\<open>string(runes)\<close> encodes them. On top of it the
  request metadata of \<^verbatim>\<open>request.go\<close>, which bounds what a client writes into the audit log.
\<close>

section \<open>Definitions\<close>

definition runeError :: nat where "runeError = 0xFFFD"

definition cont :: "char \<Rightarrow> bool" where
  "cont c = (0x80 \<le> (of_char c :: nat) \<and> (of_char c :: nat) \<le> 0xBF)"

definition low6 :: "char \<Rightarrow> nat" where
  "low6 c = (of_char c :: nat) mod 64"

text \<open>The second byte of a three-byte and of a four-byte sequence, by the first one.\<close>

definition second3 :: "nat \<Rightarrow> char \<Rightarrow> bool" where
  "second3 b0 c = (let b1 = (of_char c :: nat) in
     cont c \<and> (b0 = 0xE0 \<longrightarrow> 0xA0 \<le> b1) \<and> (b0 = 0xED \<longrightarrow> b1 \<le> 0x9F))"

definition second4 :: "nat \<Rightarrow> char \<Rightarrow> bool" where
  "second4 b0 c = (let b1 = (of_char c :: nat) in
     cont c \<and> (b0 = 0xF0 \<longrightarrow> 0x90 \<le> b1) \<and> (b0 = 0xF4 \<longrightarrow> b1 \<le> 0x8F))"

text \<open>\<^verbatim>\<open>utf8.DecodeRuneInString\<close>: the code point and the number of bytes it takes.\<close>

definition decodeRune :: "string \<Rightarrow> nat \<times> nat" where
  "decodeRune s = (case s of [] \<Rightarrow> (runeError, 0) | c0 # rest \<Rightarrow>
    (let b0 = (of_char c0 :: nat) in
     if b0 < 0x80 then (b0, 1)
     else if 0xC2 \<le> b0 \<and> b0 \<le> 0xDF then
       (case rest of c1 # _ \<Rightarrow> if cont c1 then ((b0 - 0xC0) * 64 + low6 c1, 2) else (runeError, 1) | _ \<Rightarrow> (runeError, 1))
     else if 0xE0 \<le> b0 \<and> b0 \<le> 0xEF then
       (case rest of c1 # c2 # _ \<Rightarrow>
            if second3 b0 c1 \<and> cont c2 then ((b0 - 0xE0) * 4096 + low6 c1 * 64 + low6 c2, 3) else (runeError, 1)
        | _ \<Rightarrow> (runeError, 1))
     else if 0xF0 \<le> b0 \<and> b0 \<le> 0xF4 then
       (case rest of c1 # c2 # c3 # _ \<Rightarrow>
            if second4 b0 c1 \<and> cont c2 \<and> cont c3
            then ((b0 - 0xF0) * 262144 + low6 c1 * 4096 + low6 c2 * 64 + low6 c3, 4) else (runeError, 1)
        | _ \<Rightarrow> (runeError, 1))
     else (runeError, 1)))"

lemma decodeRune_width: "s \<noteq> [] \<Longrightarrow> 1 \<le> snd (decodeRune s)"
  by (cases s) (auto simp: decodeRune_def Let_def split: list.splits if_splits)

function (sequential) runes :: "string \<Rightarrow> nat list" where
  "runes [] = []"
| "runes (c # s) = fst (decodeRune (c # s)) # runes (drop (snd (decodeRune (c # s))) (c # s))"
  by pat_completeness auto
termination
proof (relation "measure length")
  fix c s
  show "(drop (snd (decodeRune (c # s))) (c # s), c # s) \<in> measure length"
    using decodeRune_width [of "c # s"] by simp
qed simp

text \<open>\<^verbatim>\<open>utf8.AppendRune\<close>: a surrogate or a number above U+10FFFF is written as U+FFFD.\<close>

definition scalar :: "nat \<Rightarrow> bool" where
  "scalar r = (r < 0xD800 \<or> 0xDFFF < r \<and> r \<le> 0x10FFFF)"

definition encodeScalar :: "nat \<Rightarrow> string" where
  "encodeScalar r =
    (if r < 0x80 then [char_of r]
     else if r < 0x800 then [char_of (0xC0 + r div 64), char_of (0x80 + r mod 64)]
     else if r < 0x10000 then [char_of (0xE0 + r div 4096), char_of (0x80 + r div 64 mod 64), char_of (0x80 + r mod 64)]
     else [char_of (0xF0 + r div 262144), char_of (0x80 + r div 4096 mod 64), char_of (0x80 + r div 64 mod 64),
           char_of (0x80 + r mod 64)])"

definition encodeRune :: "nat \<Rightarrow> string" where
  "encodeRune r = encodeScalar (if scalar r then r else runeError)"

definition runesString :: "nat list \<Rightarrow> string" where
  "runesString rs = concat (map encodeRune rs)"

section \<open>The metadata of a request\<close>

definition maxAuditIPLength :: nat where "maxAuditIPLength = 64"
definition maxAuditUserAgentLength :: nat where "maxAuditUserAgentLength = 256"

text \<open>\<^verbatim>\<open>strings.Map\<close> drops the runes its function maps to a negative number.\<close>

definition printable :: "nat \<Rightarrow> bool" where
  "printable character = (\<not> (character < 0x20 \<or> character = 0x7f))"

definition sanitizeAuditField :: "string \<Rightarrow> nat \<Rightarrow> string" where
  "sanitizeAuditField value limit =
    (let cleaned = runesString (filter printable (runes (TrimSpace value)));
         rs = runes cleaned
     in if length rs > limit then runesString (take limit rs) else cleaned)"

section \<open>Round trip\<close>

lemma low6_char [simp]: "m < 64 \<Longrightarrow> low6 (char_of (0x80 + m :: nat)) = m"
  using mod_mult_self3 [of 2 64 m] by (simp add: low6_def of_char_of)

lemma cont_char [simp]: "m < 64 \<Longrightarrow> cont (char_of (0x80 + m :: nat))"
  by (simp add: cont_def of_char_of)

text \<open>The digits of a code point in base 64, and the bounds the first digit gives the second one.\<close>

lemma base64_digit:
  fixes q :: nat
  shows "a * 64 + b \<le> q \<Longrightarrow> b \<le> 64 \<Longrightarrow> q div 64 = a \<Longrightarrow> b \<le> q mod 64"
    and "q < a * 64 + b \<Longrightarrow> q div 64 = a \<Longrightarrow> q mod 64 < b"
  using div_mult_mod_eq [of q 64] by linarith+

lemma scalar_second3:
  assumes "scalar r" and "0x800 \<le> r" and "r < 0x10000"
  shows "second3 (0xE0 + r div 4096) (char_of (0x80 + r div 64 mod 64))"
proof -
  have d: "r div 64 div 64 = r div 4096" by (simp add: div_mult2_eq [symmetric])
  have "32 \<le> r div 64 mod 64" if "r div 4096 = 0"
    using base64_digit(1) [of 0 32 "r div 64"] assms(2) d that by auto
  moreover have "r div 64 mod 64 < 32" if "r div 4096 = 13"
  proof -
    from that assms(1) have "r < 0xD800" by (auto simp: scalar_def)
    then have "r div 64 < 13 * 64 + 32" by (simp add: div_less_iff_less_mult)
    then show ?thesis using base64_digit(2) [of "r div 64" 13 32] d that by simp
  qed
  ultimately show ?thesis by (auto simp: second3_def of_char_of Let_def)
qed

lemma scalar_second4:
  assumes "r \<le> 0x10FFFF" and "0x10000 \<le> r"
  shows "second4 (0xF0 + r div 262144) (char_of (0x80 + r div 4096 mod 64))"
proof -
  have d: "r div 4096 div 64 = r div 262144" by (simp add: div_mult2_eq [symmetric])
  have "16 \<le> r div 4096 mod 64" if "r div 262144 = 0"
    using base64_digit(1) [of 0 16 "r div 4096"] assms(2) d that by auto
  moreover have "r div 4096 mod 64 < 16" if "r div 262144 = 4"
  proof -
    from assms(1) have "r div 4096 < 4 * 64 + 16" by (simp add: div_less_iff_less_mult)
    then show ?thesis using base64_digit(2) [of "r div 4096" 4 16] d that by simp
  qed
  ultimately show ?thesis by (auto simp: second4_def of_char_of Let_def)
qed

lemma scalar_digits:
  fixes r :: nat
  shows "r div 4096 * 4096 + r div 64 mod 64 * 64 + r mod 64 = r"
    and "r div 262144 * 262144 + r div 4096 mod 64 * 4096 + r div 64 mod 64 * 64 + r mod 64 = r"
proof -
  have "r div 64 * 64 + r mod 64 = r" and "r div 64 div 64 * 64 + r div 64 mod 64 = r div 64"
    and "r div 4096 div 64 * 64 + r div 4096 mod 64 = r div 4096" by (rule div_mult_mod_eq)+
  moreover have "r div 64 div 64 = r div 4096" "r div 4096 div 64 = r div 262144" by (simp_all add: div_mult2_eq [symmetric])
  ultimately show "r div 4096 * 4096 + r div 64 mod 64 * 64 + r mod 64 = r"
    and "r div 262144 * 262144 + r div 4096 mod 64 * 4096 + r div 64 mod 64 * 64 + r mod 64 = r" by linarith+
qed

lemma decode_encodeScalar:
  assumes "scalar r"
  shows "decodeRune (encodeScalar r @ s) = (r, length (encodeScalar r))"
proof -
  consider "r < 0x80" | "0x80 \<le> r" "r < 0x800" | "0x800 \<le> r" "r < 0x10000" | "0x10000 \<le> r" by linarith
  then show ?thesis
  proof cases
    case 1
    then show ?thesis by (simp add: encodeScalar_def decodeRune_def of_char_of)
  next
    case 2
    then have "2 \<le> r div 64" and "r div 64 < 32" by (simp_all add: div_less_iff_less_mult)
    with 2 show ?thesis by (simp add: encodeScalar_def decodeRune_def of_char_of Let_def)
  next
    case 3
    then have "r div 4096 < 16" by (simp add: div_less_iff_less_mult)
    with 3 scalar_second3 [OF assms 3] scalar_digits(1) [of r] show ?thesis
      by (simp add: encodeScalar_def decodeRune_def of_char_of Let_def)
  next
    case 4
    with assms have r: "r \<le> 0x10FFFF" by (auto simp: scalar_def)
    then have "r div 262144 < 5" by (simp add: div_less_iff_less_mult)
    with 4 scalar_second4 [OF r 4] scalar_digits(2) [of r] show ?thesis
      by (simp add: encodeScalar_def decodeRune_def of_char_of Let_def)
  qed
qed

lemma encodeScalar_nonempty: "encodeScalar r \<noteq> []"
  by (simp add: encodeScalar_def)

lemma scalar_runeError [simp]: "scalar runeError"
  by (simp add: scalar_def runeError_def)

lemma runes_encodeRune: "runes (encodeRune r @ s) = (if scalar r then r else runeError) # runes s"
proof -
  let ?r = "if scalar r then r else runeError"
  have "scalar ?r" by simp
  then have d: "decodeRune (encodeScalar ?r @ s) = (?r, length (encodeScalar ?r))" by (rule decode_encodeScalar)
  obtain c t where "encodeScalar ?r @ s = c # t" using encodeScalar_nonempty by (cases "encodeScalar ?r") auto
  then have "runes (encodeScalar ?r @ s) = fst (decodeRune (encodeScalar ?r @ s)) #
      runes (drop (snd (decodeRune (encodeScalar ?r @ s))) (encodeScalar ?r @ s))" by simp
  with d show ?thesis by (simp add: encodeRune_def)
qed

lemma runes_runesString: "\<forall>r \<in> set rs. scalar r \<Longrightarrow> runes (runesString rs) = rs"
  by (induction rs) (simp_all add: runesString_def runes_encodeRune)

text \<open>Decoding yields Unicode scalar values only: surrogates have no well-formed encoding.\<close>

lemma low6_less: "low6 c < 64"
  by (simp add: low6_def)

lemma cont_low6: "cont c \<Longrightarrow> (of_char c :: nat) = 0x80 + low6 c"
  using base64_digit(1) [of 2 0 "of_char c"] div_mult_mod_eq [of "of_char c :: nat" 64]
  by (cases "(of_char c :: nat) div 64 = 2") (auto simp: cont_def low6_def)

lemma scalar_decodeRune: "s \<noteq> [] \<Longrightarrow> scalar (fst (decodeRune s))"
proof (cases s)
  case (Cons c rest)
  have three: "b0 \<le> 0xEF \<Longrightarrow> 0xE0 \<le> b0 \<Longrightarrow> second3 b0 x \<Longrightarrow> scalar ((b0 - 0xE0) * 4096 + low6 x * 64 + low6 y)" for b0 x y
    using low6_less [of x] low6_less [of y] cont_low6 [of x]
    by (cases "b0 = 0xED"; cases "b0 < 0xED") (auto simp: second3_def scalar_def Let_def)
  have four: "b0 \<le> 0xF4 \<Longrightarrow> 0xF0 \<le> b0 \<Longrightarrow> second4 b0 x \<Longrightarrow>
      scalar ((b0 - 0xF0) * 262144 + low6 x * 4096 + low6 y * 64 + low6 z)" for b0 x y z
    using low6_less [of x] low6_less [of y] low6_less [of z] cont_low6 [of x]
    by (cases "b0 = 0xF4"; cases "b0 = 0xF0") (auto simp: second4_def scalar_def Let_def)
  have two: "b0 \<le> 0xDF \<Longrightarrow> scalar ((b0 - 0xC0) * 64 + low6 x)" for b0 x
    using low6_less [of x] mult_le_mono1 [of "b0 - 0xC0" 31 64] by (auto simp: scalar_def)
  have one: "b0 < 0x80 \<Longrightarrow> scalar b0" for b0 by (simp add: scalar_def)
  show ?thesis unfolding Cons
    by (simp add: decodeRune_def Let_def one two three four split: list.split)
qed simp

lemma scalar_runes: "list_all scalar (runes s)"
proof (induction s rule: runes.induct)
  case (2 c s)
  then show ?case using scalar_decodeRune [of "c # s"] by simp
qed simp

section \<open>The audit log is not a client's to format\<close>

text \<open>
  C38: Whatever a client sends as its address or user agent, the field stored with an audit event has at
  most the allowed number of code points, and none of them is an ASCII control character.
\<close>

theorem sanitizeAuditField_bounded:
  "length (runes (sanitizeAuditField value limit)) \<le> limit \<and> list_all printable (runes (sanitizeAuditField value limit))"
proof -
  let ?rs = "filter printable (runes (TrimSpace value))"
  have "\<forall>r \<in> set ?rs. scalar r" using scalar_runes by (auto simp: list_all_iff)
  then have "runes (runesString ?rs) = ?rs" and "runes (runesString (take limit ?rs)) = take limit ?rs"
    by (auto intro!: runes_runesString dest: in_set_takeD)
  then show ?thesis by (auto simp: sanitizeAuditField_def Let_def list_all_iff dest: in_set_takeD)
qed

end
