(* ===== verification/Uuid.thy ===== *)
theory Uuid
  imports Codec
begin

text \<open>
  Identifiers: the vendored package \<^verbatim>\<open>internal/uuid\<close> (text form, parser, ordering), the
  stricter \<^verbatim>\<open>ParseUUID\<close> and the version check of \<^verbatim>\<open>uuid.go\<close>, and the two token grammars that
  embed an identifier or a prefix (\<^verbatim>\<open>parseSecretToken\<close> of \<^verbatim>\<open>email.go\<close>, \<^verbatim>\<open>parsePAT\<close> of \<^verbatim>\<open>pat.go\<close>).
  A UUID is its 128-bit big-endian number; \<open>uuidBytes\<close> are the sixteen bytes of the Go array.
\<close>

unbundle bit_operations_syntax

section \<open>Definitions\<close>

definition uuidBytes :: "uuid \<Rightarrow> bytes" where
  "uuidBytes u = natBytes 16 (unat u)"

definition bytesUuid :: "bytes \<Rightarrow> uuid" where
  "bytesUuid bs = of_nat (bytesNat bs)"

definition slice :: "nat \<Rightarrow> nat \<Rightarrow> 'a list \<Rightarrow> 'a list" where
  "slice i j xs = take (j - i) (drop i xs)"

definition UUID_String :: "uuid \<Rightarrow> string" where
  "UUID_String u = (let b = uuidBytes u in
     hexEncode (slice 0 4 b) @ ''-'' @ hexEncode (slice 4 6 b) @ ''-'' @ hexEncode (slice 6 8 b)
     @ ''-'' @ hexEncode (slice 8 10 b) @ ''-'' @ hexEncode (slice 10 16 b))"

definition TrimPrefix :: "string \<Rightarrow> string \<Rightarrow> string" where
  "TrimPrefix p s = (if take (length p) s = p then drop (length p) s else s)"

definition TrimSuffix :: "string \<Rightarrow> string \<Rightarrow> string" where
  "TrimSuffix p s = (if length p \<le> length s \<and> drop (length s - length p) s = p
     then take (length s - length p) s else s)"

text \<open>The hyphenated form, the last part of \<^verbatim>\<open>UnmarshalText\<close>.\<close>

definition unmarshalHyphenated :: "string \<Rightarrow> uuid option" where
  "unmarshalHyphenated b =
    (if length b \<noteq> 36 then None
     else if b ! 8 \<noteq> CHR ''-'' \<or> b ! 13 \<noteq> CHR ''-'' \<or> b ! 18 \<noteq> CHR ''-'' \<or> b ! 23 \<noteq> CHR ''-'' then None
     else case hexDecode (slice 0 8 b) of None \<Rightarrow> None | Some d0 \<Rightarrow>
          case hexDecode (slice 9 13 b) of None \<Rightarrow> None | Some d1 \<Rightarrow>
          case hexDecode (slice 14 18 b) of None \<Rightarrow> None | Some d2 \<Rightarrow>
          case hexDecode (slice 19 23 b) of None \<Rightarrow> None | Some d3 \<Rightarrow>
          case hexDecode (slice 24 36 b) of None \<Rightarrow> None | Some d4 \<Rightarrow>
          Some (bytesUuid (d0 @ d1 @ d2 @ d3 @ d4)))"

definition UnmarshalText :: "string \<Rightarrow> uuid option" where
  "UnmarshalText b =
    (if length b = length ''urn:uuid:'' + 36 then unmarshalHyphenated (TrimPrefix ''urn:uuid:'' b)
     else if length b = 2 + 36 then unmarshalHyphenated (TrimSuffix ''}'' (TrimPrefix ''{'' b))
     else if length b = 32 then
       (case hexDecode b of None \<Rightarrow> None | Some d \<Rightarrow> Some (bytesUuid d))
     else unmarshalHyphenated b)"

definition uuidParse :: "string \<Rightarrow> uuid option" where
  "uuidParse s = UnmarshalText s"

fun compareBytes :: "bytes \<Rightarrow> bytes \<Rightarrow> int" where
  "compareBytes (x # xs) (y # ys) = (if x < y then -1 else if y < x then 1 else compareBytes xs ys)"
| "compareBytes _ _ = 0"

definition UUID_Compare :: "uuid \<Rightarrow> uuid \<Rightarrow> int" where
  "UUID_Compare u v = compareBytes (uuidBytes u) (uuidBytes v)"

definition ParseUUID :: "string \<Rightarrow> uuid result" where
  "ParseUUID value =
    (if length value \<noteq> 36 \<or> value ! 8 \<noteq> CHR ''-'' \<or> value ! 13 \<noteq> CHR ''-''
        \<or> value ! 18 \<noteq> CHR ''-'' \<or> value ! 23 \<noteq> CHR ''-''
     then Inl ErrInvalidInput
     else case uuidParse value of None \<Rightarrow> Inl ErrInvalidInput | Some uid \<Rightarrow> Inr uid)"

definition validUUIDv7 :: "uuid \<Rightarrow> bool" where
  "validUUIDv7 uid = (uuidBytes uid ! 6 AND 0xf0 = 0x70 \<and> uuidBytes uid ! 8 AND 0xc0 = 0x80)"

text \<open>\<^verbatim>\<open>strings.SplitN\<close> with a one-character separator and a positive limit.\<close>

fun SplitN :: "char \<Rightarrow> nat \<Rightarrow> string \<Rightarrow> string list" where
  "SplitN sep (Suc (Suc n)) s = (if sep \<in> set s
     then takeWhile (\<lambda>c. c \<noteq> sep) s # SplitN sep (Suc n) (tl (dropWhile (\<lambda>c. c \<noteq> sep) s))
     else [s])"
| "SplitN sep _ s = [s]"

definition parseSecretToken :: "string \<Rightarrow> string \<Rightarrow> uuid option" where
  "parseSecretToken prefix raw =
    (case SplitN CHR ''_'' 3 raw of
       [p0, p1, p2] \<Rightarrow>
         if p0 \<noteq> prefix \<or> length p2 \<noteq> 43 then None
         else (case ParseUUID p1 of
             Inl _ \<Rightarrow> None
           | Inr uid \<Rightarrow>
               if UUID_String uid \<noteq> p1 \<or> \<not> validUUIDv7 uid then None
               else (case b64Decode p2 of
                   None \<Rightarrow> None
                 | Some secret \<Rightarrow> if length secret \<noteq> 32 then None else Some uid))
     | _ \<Rightarrow> None)"

definition parsePAT :: "string \<Rightarrow> string \<Rightarrow> string option" where
  "parsePAT marker raw =
    (case SplitN CHR ''_'' 3 raw of
       [p0, p1, p2] \<Rightarrow>
         if p0 \<noteq> marker \<or> length p1 \<noteq> 12 \<or> length p2 \<noteq> 43 then None
         else if hexDecode p1 = None then None
         else (case b64Decode p2 of
             None \<Rightarrow> None
           | Some decoded \<Rightarrow> if length decoded \<noteq> 32 then None else Some p1)
     | _ \<Rightarrow> None)"

section \<open>Bytes and numbers\<close>

lemma length_uuidBytes [simp]: "length (uuidBytes u) = 16"
  by (simp add: uuidBytes_def)

lemma unat_uuid_less: "unat (u :: uuid) < 256 ^ 16"
  using unsigned_less [of u, where 'a = nat] by simp

lemma bytesUuid_uuidBytes [simp]: "bytesUuid (uuidBytes u) = u"
proof -
  have "bytesNat (uuidBytes u) = unat u"
    using unat_uuid_less [of u] by (simp only: uuidBytes_def bytesNat_natBytes mod_less)
  then show ?thesis by (simp add: bytesUuid_def)
qed

lemma uuidBytes_bytesUuid: "length bs = 16 \<Longrightarrow> uuidBytes (bytesUuid bs) = bs"
proof -
  assume len: "length bs = 16"
  with bytesNat_bound [of bs] have "bytesNat bs < 2 ^ 128" by simp
  then have "unat (bytesUuid bs) = bytesNat bs"
    by (simp add: bytesUuid_def unat_of_nat take_bit_nat_eq_self)
  with natBytes_bytesNat [of bs] len show ?thesis by (simp add: uuidBytes_def)
qed

lemma uuidBytes_inject [simp]: "uuidBytes u = uuidBytes v \<longleftrightarrow> u = v"
  by (metis bytesUuid_uuidBytes)

lemma bytesNat_Cons: "bytesNat (b # bs) = unat b * 256 ^ length bs + bytesNat bs"
proof (induction bs rule: rev_induct)
  case (snoc x xs)
  then have "bytesNat ((b # xs) @ [x]) = 256 * (unat b * 256 ^ length xs + bytesNat xs) + unat x"
    by (simp only: bytesNat_append)
  then show ?case by (simp add: algebra_simps)
qed (simp add: bytesNat_def)

lemma compareBytes_numeric:
  assumes "length xs = length ys"
  shows "compareBytes xs ys = (if bytesNat xs < bytesNat ys then -1 else if bytesNat ys < bytesNat xs then 1 else 0)"
  using assms
proof (induction xs ys rule: compareBytes.induct)
  case (1 x xs y ys)
  have step: "bytesNat (a # as) < bytesNat (b # bs)" if "a < b" and "length as = length bs" for a b :: byte and as bs
  proof -
    from that have "Suc (unat a) \<le> unat b" by (simp add: word_less_nat_alt)
    then have "Suc (unat a) * 256 ^ length as \<le> unat b * 256 ^ length as" by (rule mult_le_mono1)
    with bytesNat_bound [of as] that(2) show ?thesis by (simp add: bytesNat_Cons)
  qed
  show ?case
  proof (cases x y rule: linorder_cases)
    case less
    with step [of x y xs ys] 1 show ?thesis by simp
  next
    case equal
    with 1 show ?thesis by (simp add: bytesNat_Cons)
  next
    case greater
    with step [of y x ys xs] 1 show ?thesis by simp
  qed
qed auto

text \<open>The byte-wise comparison is the unsigned order of the 128-bit number.\<close>

lemma UUID_Compare_order:
  "UUID_Compare u v = (if u < v then -1 else if v < u then 1 else 0)"
proof -
  have n: "bytesNat (uuidBytes w) = unat w" for w
    using unat_uuid_less [of w] by (simp only: uuidBytes_def bytesNat_natBytes mod_less)
  show ?thesis
    by (simp only: UUID_Compare_def compareBytes_numeric [of "uuidBytes u" "uuidBytes v"] length_uuidBytes n word_less_nat_alt)
qed

section \<open>Text forms\<close>

lemma length_slice: "j \<le> length xs \<Longrightarrow> length (slice i j xs) = j - i"
  by (simp add: slice_def)

definition hyphenated :: "bytes \<Rightarrow> bytes \<Rightarrow> bytes \<Rightarrow> bytes \<Rightarrow> bytes \<Rightarrow> string" where
  "hyphenated d0 d1 d2 d3 d4 = hexEncode d0 @ ''-'' @ hexEncode d1 @ ''-'' @ hexEncode d2
     @ ''-'' @ hexEncode d3 @ ''-'' @ hexEncode d4"

lemma UUID_String_hyphenated:
  assumes "length d0 = 4" and "length d1 = 2" and "length d2 = 2" and "length d3 = 2" and "length d4 = 6"
  shows "UUID_String (bytesUuid (d0 @ d1 @ d2 @ d3 @ d4)) = hyphenated d0 d1 d2 d3 d4"
  using assms by (simp add: UUID_String_def uuidBytes_bytesUuid Let_def hyphenated_def slice_def)

lemma unmarshal_of_hyphenated:
  assumes "length d0 = 4" and "length d1 = 2" and "length d2 = 2" and "length d3 = 2" and "length d4 = 6"
  shows "unmarshalHyphenated (hyphenated d0 d1 d2 d3 d4) = Some (bytesUuid (d0 @ d1 @ d2 @ d3 @ d4))"
  using assms by (simp add: unmarshalHyphenated_def hyphenated_def slice_def nth_append)

lemma uuid_parts:
  obtains d0 d1 d2 d3 d4 where "u = bytesUuid (d0 @ d1 @ d2 @ d3 @ d4)"
    and "length d0 = 4" and "length d1 = 2" and "length d2 = 2" and "length d3 = 2" and "length d4 = 6"
proof
  let ?b = "uuidBytes u"
  show "u = bytesUuid (slice 0 4 ?b @ slice 4 6 ?b @ slice 6 8 ?b @ slice 8 10 ?b @ slice 10 16 ?b)"
  proof -
    have "slice 0 4 ?b @ slice 4 6 ?b @ slice 6 8 ?b @ slice 8 10 ?b @ slice 10 16 ?b = ?b"
      by (rule nth_equalityI) (auto simp: slice_def nth_append)
    then show ?thesis by simp
  qed
qed (simp_all add: length_slice)

lemma length_UUID_String [simp]: "length (UUID_String u) = 36"
  by (rule uuid_parts [of u]) (simp add: UUID_String_hyphenated hyphenated_def)

lemma unmarshal_UUID_String [simp]: "unmarshalHyphenated (UUID_String u) = Some u"
  by (rule uuid_parts [of u]) (simp add: UUID_String_hyphenated unmarshal_of_hyphenated)

lemma UUID_String_hyphens:
  "UUID_String u ! 8 = CHR ''-'' \<and> UUID_String u ! 13 = CHR ''-''
     \<and> UUID_String u ! 18 = CHR ''-'' \<and> UUID_String u ! 23 = CHR ''-''"
  by (rule uuid_parts [of u]) (simp add: UUID_String_hyphenated hyphenated_def nth_append)

lemma ParseUUID_UUID_String [simp]: "ParseUUID (UUID_String u) = Inr u"
  by (simp add: ParseUUID_def UUID_String_hyphens uuidParse_def UnmarshalText_def)

lemma UUID_String_inject [simp]: "UUID_String u = UUID_String v \<longleftrightarrow> u = v"
  by (metis ParseUUID_UUID_String sum.inject(2))

lemma UUID_String_nonempty [simp]: "UUID_String u \<noteq> []"
  using length_UUID_String [of u] by (metis list.size(3) zero_neq_numeral)

lemma drop_slice:
  assumes "i \<le> k" and "k < length s"
  shows "drop i s = slice i k s @ s ! k # drop (Suc k) s"
proof -
  have "drop i s = take (k - i) (drop i s) @ drop (k - i) (drop i s)"
    by (rule append_take_drop_id [symmetric])
  also have "drop (k - i) (drop i s) = drop k s" using assms(1) by simp
  also have "drop k s = s ! k # drop (Suc k) s" using assms(2) by (rule Cons_nth_drop_Suc [symmetric])
  finally show ?thesis by (simp add: slice_def)
qed

lemma hyphenated_split:
  assumes "length s = 36" and "s ! 8 = CHR ''-''" and "s ! 13 = CHR ''-''" and "s ! 18 = CHR ''-''" and "s ! 23 = CHR ''-''"
  shows "s = slice 0 8 s @ ''-'' @ slice 9 13 s @ ''-'' @ slice 14 18 s @ ''-'' @ slice 19 23 s @ ''-'' @ slice 24 36 s"
proof -
  have "slice 24 36 s = drop 24 s" using assms(1) by (simp add: slice_def)
  then show ?thesis
    using drop_slice [of 0 8 s] drop_slice [of 9 13 s] drop_slice [of 14 18 s] drop_slice [of 19 23 s] assms
    by simp
qed

lemma ParseUUID_InrE:
  assumes "ParseUUID s = Inr u"
  obtains d0 d1 d2 d3 d4 where "length s = 36"
    and "s ! 8 = CHR ''-''" and "s ! 13 = CHR ''-''" and "s ! 18 = CHR ''-''" and "s ! 23 = CHR ''-''"
    and "hexDecode (slice 0 8 s) = Some d0" and "hexDecode (slice 9 13 s) = Some d1"
    and "hexDecode (slice 14 18 s) = Some d2" and "hexDecode (slice 19 23 s) = Some d3"
    and "hexDecode (slice 24 36 s) = Some d4" and "u = bytesUuid (d0 @ d1 @ d2 @ d3 @ d4)"
  using assms
  by (auto simp: ParseUUID_def uuidParse_def UnmarshalText_def unmarshalHyphenated_def split: if_splits option.splits)

lemma ToLower_append [simp]: "ToLower (s @ t) = ToLower s @ ToLower t"
  by (simp add: ToLower_def)

text \<open>The parser accepts the rendered text with its hexadecimal letters in any case, and nothing else.\<close>

lemma ParseUUID_ToLower:
  assumes "ParseUUID s = Inr u"
  shows "UUID_String u = ToLower s"
proof -
  from assms obtain d0 d1 d2 d3 d4 where s: "length s = 36"
    "s ! 8 = CHR ''-''" "s ! 13 = CHR ''-''" "s ! 18 = CHR ''-''" "s ! 23 = CHR ''-''"
    and d: "hexDecode (slice 0 8 s) = Some d0" "hexDecode (slice 9 13 s) = Some d1"
      "hexDecode (slice 14 18 s) = Some d2" "hexDecode (slice 19 23 s) = Some d3"
      "hexDecode (slice 24 36 s) = Some d4" and u: "u = bytesUuid (d0 @ d1 @ d2 @ d3 @ d4)"
    by (rule ParseUUID_InrE)
  have len: "length d0 = 4" "length d1 = 2" "length d2 = 2" "length d3 = 2" "length d4 = 6"
    using d [THEN length_hexDecode] s(1) by (simp_all add: length_slice)
  have dash: "ToLower ''-'' = ''-''" by (simp add: ToLower_def lowerChar_def Let_def)
  have "ToLower s = ToLower (slice 0 8 s @ ''-'' @ slice 9 13 s @ ''-'' @ slice 14 18 s @ ''-'' @ slice 19 23 s @ ''-'' @ slice 24 36 s)"
    using hyphenated_split [OF s] by (rule arg_cong)
  also have "\<dots> = hyphenated d0 d1 d2 d3 d4"
    by (simp only: ToLower_append dash hyphenated_def d [THEN hexEncode_hexDecode])
  finally show ?thesis using len u by (simp only: UUID_String_hyphenated)
qed

section \<open>Tokens\<close>

lemma SplitN_hit:
  "sep \<notin> set p \<Longrightarrow> SplitN sep (Suc (Suc n)) (p @ sep # s) = p # SplitN sep (Suc n) s"
  by (simp add: takeWhile_append dropWhile_append)

lemma SplitN_1: "SplitN sep (Suc 0) s = [s]"
  by simp

lemma SplitN_3:
  assumes "SplitN sep 3 s = [p0, p1, p2]"
  shows "s = p0 @ sep # p1 @ sep # p2"
proof -
  have cut: "t = takeWhile (\<lambda>c. c \<noteq> sep) t @ sep # tl (dropWhile (\<lambda>c. c \<noteq> sep) t)" if "sep \<in> set t" for t
  proof -
    from that have ne: "dropWhile (\<lambda>c. c \<noteq> sep) t \<noteq> []" by (auto simp: dropWhile_eq_Nil_conv)
    with hd_dropWhile [of "\<lambda>c. c \<noteq> sep" t] have "hd (dropWhile (\<lambda>c. c \<noteq> sep) t) = sep" by simp
    with ne have "dropWhile (\<lambda>c. c \<noteq> sep) t = sep # tl (dropWhile (\<lambda>c. c \<noteq> sep) t)"
      by (metis list.collapse)
    then show ?thesis by (metis takeWhile_dropWhile_id)
  qed
  let ?r = "tl (dropWhile (\<lambda>c. c \<noteq> sep) s)"
  from assms have "sep \<in> set s" and "p0 = takeWhile (\<lambda>c. c \<noteq> sep) s" and "sep \<in> set ?r"
    and "p1 = takeWhile (\<lambda>c. c \<noteq> sep) ?r" and "p2 = tl (dropWhile (\<lambda>c. c \<noteq> sep) ?r)"
    by (auto simp: numeral_3_eq_3 split: if_splits)
  with cut [of s] cut [of ?r] show ?thesis by metis
qed

lemma hexDigit_no_underscore: "n < 16 \<Longrightarrow> hexDigit n \<noteq> CHR ''_''"
  using hexVal_hexDigit [of n] by (auto simp: hexVal_def Let_def)

lemma hexEncode_no_underscore: "CHR ''_'' \<notin> set (hexEncode bs)"
  by (induction bs) (auto simp: hexDigit_no_underscore [symmetric])

lemma UUID_String_no_underscore: "CHR ''_'' \<notin> set (UUID_String u)"
  by (simp add: UUID_String_def Let_def hexEncode_no_underscore)

text \<open>The text of an issued secret token: a prefix, the identifier and 32 random bytes.\<close>

definition secretToken :: "string \<Rightarrow> uuid \<Rightarrow> bytes \<Rightarrow> string" where
  "secretToken prefix u secret = prefix @ ''_'' @ UUID_String u @ ''_'' @ b64Encode secret"

definition sampleUUID :: uuid where
  "sampleUUID = bytesUuid [1, 2, 3, 4, 5, 6, 112, 8, 128, 10, 11, 12, 13, 14, 15, 16]"

lemma parse_secretToken:
  assumes "CHR ''_'' \<notin> set prefix" and "validUUIDv7 u" and "length secret = 32"
  shows "parseSecretToken prefix (secretToken prefix u secret) = Some u"
proof -
  have "SplitN CHR ''_'' 3 (secretToken prefix u secret) = [prefix, UUID_String u, b64Encode secret]"
    using assms(1) UUID_String_no_underscore
    by (simp only: secretToken_def append_Cons append_Nil numeral_3_eq_3 SplitN_hit SplitN_1 not_False_eq_True)
  moreover have "length (b64Encode secret) = 43" using assms(3) by (simp add: length_b64Encode)
  ultimately show ?thesis using assms by (simp add: parseSecretToken_def)
qed

lemma parseSecretToken_shape:
  assumes "parseSecretToken prefix raw = Some u"
  shows "\<exists>body. raw = prefix @ ''_'' @ UUID_String u @ ''_'' @ body \<and> length body = 43 \<and> validUUIDv7 u"
proof -
  from assms obtain p1 p2 where "SplitN CHR ''_'' 3 raw = [prefix, p1, p2]" and "length p2 = 43"
    and "UUID_String u = p1" and "validUUIDv7 u"
    by (auto simp: parseSecretToken_def split: list.splits if_splits sum.splits option.splits)
  with SplitN_3 [of "CHR ''_''" raw prefix p1 p2] show ?thesis by auto
qed

lemma parse_pat:
  assumes "CHR ''_'' \<notin> set marker" and "length pre = 6" and "length secret = 32"
  shows "parsePAT marker (marker @ ''_'' @ hexEncode pre @ ''_'' @ b64Encode secret) = Some (hexEncode pre)"
proof -
  have "SplitN CHR ''_'' 3 (marker @ ''_'' @ hexEncode pre @ ''_'' @ b64Encode secret)
      = [marker, hexEncode pre, b64Encode secret]"
    using assms(1) hexEncode_no_underscore
    by (simp only: append_Cons append_Nil numeral_3_eq_3 SplitN_hit SplitN_1 not_False_eq_True)
  moreover have "length (b64Encode secret) = 43" using assms(3) by (simp add: length_b64Encode)
  ultimately show ?thesis using assms by (simp add: parsePAT_def)
qed

lemma hexVal_lowerChar [simp]: "hexVal (lowerChar c) = hexVal c"
  by (auto simp: hexVal_def lowerChar_def Let_def of_char_of)

lemma hexDecode_ToLower [simp]: "hexDecode (ToLower s) = hexDecode s"
  by (induction s rule: hexDecode.induct) (simp_all add: ToLower_def)

lemma lowerChar_dash: "lowerChar c = CHR ''-'' \<longleftrightarrow> c = CHR ''-''"
proof
  assume "lowerChar c = CHR ''-''"
  then have "of_char (lowerChar c) = (of_char CHR ''-'' :: nat)" by (rule arg_cong)
  then have "of_char c = (of_char CHR ''-'' :: nat)" by (auto simp: lowerChar_def Let_def of_char_of split: if_splits)
  then show "c = CHR ''-''" by (simp only: of_char_eq_iff)
qed (simp add: lowerChar_def Let_def)

lemma ParseUUID_of_ToLower: "ParseUUID (ToLower s) = ParseUUID s"
proof -
  have len: "length (ToLower s) = length s" by (simp add: ToLower_def)
  have sl: "slice i j (ToLower s) = ToLower (slice i j s)" for i j
    by (simp add: slice_def ToLower_def take_map drop_map)
  have dash: "(ToLower s ! i = CHR ''-'') = (s ! i = CHR ''-'')" if "i < length s" for i
    using that by (simp add: ToLower_def lowerChar_dash)
  have dec: "hexDecode (slice i j (ToLower s)) = hexDecode (slice i j s)" for i j by (simp add: sl)
  show ?thesis
  proof (cases "length s = 36")
    case True
    then show ?thesis
      unfolding ParseUUID_def uuidParse_def UnmarshalText_def unmarshalHyphenated_def len dec by (simp add: dash)
  qed (simp add: ParseUUID_def len)
qed

text \<open>
  C35: the parser of identifiers accepts exactly the canonical 8-4-4-4-12 text that rendering produces,
  with its hexadecimal letters in either case, and reads back the identifier that was rendered.
\<close>

theorem ParseUUID_exact: "ParseUUID s = Inr u \<longleftrightarrow> ToLower s = UUID_String u"
proof
  assume "ToLower s = UUID_String u"
  then have "ParseUUID (ToLower s) = Inr u" by simp
  then show "ParseUUID s = Inr u" by (simp only: ParseUUID_of_ToLower)
qed (simp only: ParseUUID_ToLower)



end
