(* ===== verification/AuditChain.thy ===== *)
theory AuditChain
  imports Types Uuid
begin

text \<open>
  The audit hash chain of \<^verbatim>\<open>audit.go\<close>: the canonical encoding of an event, the hash that links it
  to its predecessor, and the loop of \<^verbatim>\<open>VerifyAuditChainFrom\<close> that recomputes a range of the chain.
  SHA-256 is a parameter: a function from byte strings to byte strings, of which only the length of
  its digests is used.
\<close>

section \<open>Definitions\<close>

type_synonym hashFn = "bytes \<Rightarrow> bytes"

definition auditChainGenesis :: bytes where
  "auditChainGenesis = replicate 32 0"

definition hashedID :: "uuid \<Rightarrow> string" where
  "hashedID u = (if u = 0 then [] else UUID_String u)"

fun actorKindText :: "actorKind \<Rightarrow> string" where
  "actorKindText ActorUnset = []"
| "actorKindText ActorUser = ''user''"
| "actorKindText ActorService = ''service''"
| "actorKindText ActorSystem = ''system''"

fun outcomeText :: "auditOutcome \<Rightarrow> string" where
  "outcomeText AuditSucceeded = ''succeeded''"
| "outcomeText AuditFailed = ''failed''"

text \<open>\<^verbatim>\<open>time.Time.UnixMicro\<close> rounds down to the microsecond.\<close>

definition UnixMicro :: "time \<Rightarrow> int" where
  "UnixMicro t = t div 1000"

text \<open>The local closure \<^verbatim>\<open>write\<close>: the length in decimal, a colon, the value, a semicolon.\<close>

definition auditWrite :: "string \<Rightarrow> string" where
  "auditWrite v = decimal (length v) @ '':'' @ v @ '';''"

definition auditFields :: "auditEvent \<Rightarrow> string list" where
  "auditFields event =
    [FormatInt (aud_Sequence event), hashedID (aud_ID event), FormatInt (UnixMicro (aud_OccurredAt event)),
     actorKindText (aud_ActorKind event), hashedID (aud_ActorID event), aud_Action event,
     aud_ResourceType event, aud_ResourceID event, hashedID (aud_WorkspaceID event),
     outcomeText (aud_Outcome event), aud_Reason event, aud_IPAddress event, aud_UserAgent event]"

definition auditEncoding :: "auditEvent \<Rightarrow> string" where
  "auditEncoding event = concat (map auditWrite (auditFields event))"

definition auditHashInput :: "bytes \<Rightarrow> auditEvent \<Rightarrow> bytes" where
  "auditHashInput previous event =
    (if length previous = 0 then auditChainGenesis else previous) @ toBytes (auditEncoding event)"

definition ComputeAuditHash :: "hashFn \<Rightarrow> bytes \<Rightarrow> auditEvent \<Rightarrow> bytes" where
  "ComputeAuditHash sha previous event = sha (auditHashInput previous event)"

text \<open>
  The loop over the streamed events: the sequence must advance by one, the stored previous hash must
  be the running one and the stored hash the recomputed one. The result is the sequence and the hash
  the stored chain head has to equal.
\<close>

fun verifyEvents :: "hashFn \<Rightarrow> int \<Rightarrow> bytes \<Rightarrow> auditEvent list \<Rightarrow> (int \<times> bytes) result" where
  "verifyEvents sha sequence previous [] = Inr (sequence, previous)"
| "verifyEvents sha sequence previous (event # events) =
    (let sequence = sequence + 1 in
     if aud_Sequence event \<noteq> sequence then Inl ErrAuditCompromised
     else if aud_PreviousHash event \<noteq> previous \<or> aud_Hash event \<noteq> ComputeAuditHash sha previous event
     then Inl ErrAuditCompromised
     else verifyEvents sha sequence (aud_Hash event) events)"

record auditChainReport =
  rep_Events :: int
  rep_HeadSequence :: int
  rep_HeadHash :: bytes

record auditChainCheckpoint =
  chk_Sequence :: int
  chk_Hash :: bytes

definition checkpointValid :: "auditChainCheckpoint \<Rightarrow> bool" where
  "checkpointValid c = (\<not> (chk_Sequence c < 0 \<or> (chk_Sequence c = 0) \<noteq> (length (chk_Hash c) = 0)))"

text \<open>
  What two events must share to have the same encoding: everything but the two stored hashes, and the
  time only to the microsecond.
\<close>

definition sameHashed :: "auditEvent \<Rightarrow> auditEvent \<Rightarrow> bool" where
  "sameHashed a b \<longleftrightarrow>
     aud_Sequence a = aud_Sequence b \<and> aud_ID a = aud_ID b
   \<and> UnixMicro (aud_OccurredAt a) = UnixMicro (aud_OccurredAt b)
   \<and> aud_ActorKind a = aud_ActorKind b \<and> aud_ActorID a = aud_ActorID b \<and> aud_Action a = aud_Action b
   \<and> aud_ResourceType a = aud_ResourceType b \<and> aud_ResourceID a = aud_ResourceID b
   \<and> aud_WorkspaceID a = aud_WorkspaceID b \<and> aud_Outcome a = aud_Outcome b \<and> aud_Reason a = aud_Reason b
   \<and> aud_IPAddress a = aud_IPAddress b \<and> aud_UserAgent a = aud_UserAgent b"

section \<open>The encoding is injective\<close>

lemma actorKindText_inject [simp]: "actorKindText a = actorKindText b \<longleftrightarrow> a = b"
  by (cases a; cases b) simp_all

lemma outcomeText_inject [simp]: "outcomeText a = outcomeText b \<longleftrightarrow> a = b"
  by (cases a; cases b) simp_all

lemma hashedID_inject [simp]: "hashedID a = hashedID b \<longleftrightarrow> a = b"
  by (auto simp: hashedID_def dest: sym)

lemma append_sep_eq:
  assumes "xs @ c # ys = xs' @ c # ys'" and "c \<notin> set xs" and "c \<notin> set xs'"
  shows "xs = xs' \<and> ys = ys'"
proof -
  from assms have "takeWhile (\<lambda>x. x \<noteq> c) (xs @ c # ys) = takeWhile (\<lambda>x. x \<noteq> c) (xs' @ c # ys')" by simp
  moreover have "takeWhile (\<lambda>x. x \<noteq> c) zs = zs" if "c \<notin> set zs" for zs
    using that by (auto simp: takeWhile_eq_all_conv)
  ultimately have "xs = xs'" using assms(2,3) by (simp add: takeWhile_tail)
  with assms(1) show ?thesis by simp
qed

lemma auditWrite_prefix:
  assumes "auditWrite v @ s = auditWrite w @ t"
  shows "v = w \<and> s = t"
proof -
  have colon: "CHR '':'' \<notin> set (decimal n)" for n
    using decimal_digits [of "CHR '':''" n] by auto
  from assms have "decimal (length v) @ CHR '':'' # (v @ '';'' @ s) = decimal (length w) @ CHR '':'' # (w @ '';'' @ t)"
    by (simp add: auditWrite_def)
  from append_sep_eq [OF this colon colon] have "length v = length w" and "v @ '';'' @ s = w @ '';'' @ t"
    by simp_all
  then show ?thesis by simp
qed

lemma concat_auditWrite:
  "length vs = length ws \<Longrightarrow> concat (map auditWrite vs) = concat (map auditWrite ws) \<Longrightarrow> vs = ws"
  by (induction vs ws rule: list_induct2) (auto dest: auditWrite_prefix)

lemma auditEncoding_eq: "auditEncoding a = auditEncoding b \<longleftrightarrow> sameHashed a b"
proof
  assume "auditEncoding a = auditEncoding b"
  then have "auditFields a = auditFields b"
    unfolding auditEncoding_def by (intro concat_auditWrite) (simp_all add: auditFields_def)
  then show "sameHashed a b" by (simp add: auditFields_def sameHashed_def)
qed (simp add: auditEncoding_def auditFields_def sameHashed_def)

lemma auditHashInput_eq:
  assumes "length p = length q" and "auditHashInput p a = auditHashInput q b" and "length p \<noteq> 0"
  shows "p = q \<and> sameHashed a b"
  using assms by (simp add: auditHashInput_def auditEncoding_eq)

section \<open>Verification\<close>

lemma verifyEvents_append:
  "verifyEvents sha n p (xs @ ys) =
    (case verifyEvents sha n p xs of Inl e \<Rightarrow> Inl e | Inr (m, q) \<Rightarrow> verifyEvents sha m q ys)"
  by (induction xs arbitrary: n p) (simp_all add: Let_def)

lemma verifyEvents_snoc:
  "verifyEvents sha n p (xs @ [x]) = Inr (m, h) \<longleftrightarrow>
    (\<exists>q. verifyEvents sha n p xs = Inr (m - 1, q) \<and> aud_Sequence x = m \<and> aud_PreviousHash x = q
       \<and> aud_Hash x = h \<and> h = ComputeAuditHash sha q x)"
  by (auto simp: verifyEvents_append Let_def split: sum.splits prod.splits if_splits)

lemma verifyEvents_Cons:
  "verifyEvents sha n p (x # xs) = Inr (m, h) \<longleftrightarrow>
    aud_Sequence x = n + 1 \<and> aud_PreviousHash x = p \<and> aud_Hash x = ComputeAuditHash sha p x
      \<and> verifyEvents sha (n + 1) (aud_Hash x) xs = Inr (m, h)"
  by (auto simp: Let_def)

lemma verifyEvents_length: "verifyEvents sha n p xs = Inr (m, h) \<Longrightarrow> m = n + int (length xs)"
proof (induction xs arbitrary: n p)
  case (Cons x xs)
  then have "verifyEvents sha (n + 1) (aud_Hash x) xs = Inr (m, h)" by (simp add: Let_def split: if_splits)
  from Cons.IH [OF this] show ?case by simp
qed simp

lemma verifyEvents_hash_length:
  assumes "verifyEvents sha n p xs = Inr (m, h)" and "\<forall>x. length (sha x) = 32" and "length p = 32"
  shows "length h = 32"
  using assms(1,3)
proof (induction xs arbitrary: n p)
  case (Cons x xs)
  then have "verifyEvents sha (n + 1) (aud_Hash x) xs = Inr (m, h)" and "length (aud_Hash x) = 32"
    using assms(2) by (auto simp: ComputeAuditHash_def Let_def split: if_splits)
  from Cons.IH [OF this] show ?case .
qed simp

text \<open>A collision of the hash function between the inputs that two logs were hashed from.\<close>

definition hashInput :: "auditEvent \<Rightarrow> bytes" where
  "hashInput event = auditHashInput (aud_PreviousHash event) event"

definition collision :: "hashFn \<Rightarrow> auditEvent list \<Rightarrow> auditEvent list \<Rightarrow> bool" where
  "collision sha log log' \<longleftrightarrow>
    (\<exists>a \<in> set log. \<exists>b \<in> set log'. hashInput a \<noteq> hashInput b \<and> sha (hashInput a) = sha (hashInput b))"

lemma collision_append: "\<not> collision sha (xs @ [x]) (ys @ [y]) \<Longrightarrow> \<not> collision sha xs ys"
  by (auto simp: collision_def)

lemma verified_logs_agree:
  assumes "\<forall>x. length (sha x) = 32" and "length p = 32"
    and "verifyEvents sha n p xs = Inr (m, h)" and "verifyEvents sha n p ys = Inr (m, h)" and "\<not> collision sha xs ys"
  shows "list_all2 (\<lambda>a b. sameHashed a b \<and> aud_PreviousHash a = aud_PreviousHash b \<and> aud_Hash a = aud_Hash b) xs ys"
  using assms(3-5)
proof (induction xs arbitrary: ys m h rule: rev_induct)
  case Nil
  with verifyEvents_length [OF Nil(1)] verifyEvents_length [OF Nil(2)] show ?case by simp
next
  case (snoc x xs)
  have "length (xs @ [x]) = length ys"
    using verifyEvents_length [OF snoc.prems(1)] verifyEvents_length [OF snoc.prems(2)] by simp
  then obtain zs z where ys: "ys = zs @ [z]" by (cases ys rule: rev_cases) auto
  from snoc.prems(1) obtain q where q: "verifyEvents sha n p xs = Inr (m - 1, q)" "aud_PreviousHash x = q"
    "aud_Hash x = h" "h = ComputeAuditHash sha q x" by (auto simp: verifyEvents_snoc)
  from snoc.prems(2) ys obtain r where r: "verifyEvents sha n p zs = Inr (m - 1, r)" "aud_PreviousHash z = r"
    "aud_Hash z = h" "h = ComputeAuditHash sha r z" by (auto simp: verifyEvents_snoc)
  from q r have "sha (hashInput x) = sha (hashInput z)" by (simp add: ComputeAuditHash_def hashInput_def)
  with snoc.prems(3) ys have "hashInput x = hashInput z" by (auto simp: collision_def)
  then have "auditHashInput q x = auditHashInput r z" using q(2) r(2) by (simp add: hashInput_def)
  moreover have "length q = 32" and "length r = 32"
    using verifyEvents_hash_length [OF q(1) assms(1,2)] verifyEvents_hash_length [OF r(1) assms(1,2)] by simp_all
  ultimately have "q = r" and "sameHashed x z" using auditHashInput_eq [of q r x z] by simp_all
  moreover from snoc.prems(3) ys have "\<not> collision sha xs zs" by (auto dest: collision_append)
  ultimately show ?case using snoc.IH [of "m - 1" q zs] q r ys by (auto intro!: list_all2_appendI)
qed

section \<open>Properties\<close>

text \<open>
  C3: two logs that verification accepts from the same checkpoint up to the same chain head agree, event
  by event, on every hashed field and on both stored hashes, unless two of the inputs they were hashed
  from collide under SHA-256. A log that was edited, cut or reordered after an auditor recorded the
  head therefore fails verification against that head.
\<close>

theorem tampering_detected:
  assumes "\<forall>x. length (sha x) = 32" and "length previous = 32"
    and "verifyEvents sha n previous log = Inr (m, head)" and "verifyEvents sha n previous log' = Inr (m, head)"
  shows "list_all2 (\<lambda>a b. sameHashed a b \<and> aud_PreviousHash a = aud_PreviousHash b \<and> aud_Hash a = aud_Hash b) log log'
    \<or> collision sha log log'"
  using verified_logs_agree [OF assms] by blast

text \<open>A hash of 32 bytes the witnesses compute with: the byte sum, repeated.\<close>

definition sumHash :: hashFn where
  "sumHash bs = replicate 32 (sum_list bs)"

definition demoEvent :: auditEvent where
  "demoEvent = \<lparr>aud_ID = 7, aud_OccurredAt = 1000, aud_ActorKind = ActorUser, aud_ActorID = 3, aud_Action = ''a'',
     aud_ResourceType = [], aud_ResourceID = [], aud_WorkspaceID = 0, aud_Outcome = AuditSucceeded, aud_Reason = [],
     aud_IPAddress = [], aud_UserAgent = [], aud_Sequence = 1, aud_PreviousHash = auditChainGenesis, aud_Hash = []\<rparr>"

definition demoLog :: "auditEvent list" where
  "demoLog = [demoEvent\<lparr>aud_Hash := ComputeAuditHash sumHash auditChainGenesis demoEvent\<rparr>]"

lemma ComputeAuditHash_stored [simp]:
  "ComputeAuditHash sha p (e\<lparr>aud_Hash := h\<rparr>) = ComputeAuditHash sha p e"
  by (simp add: ComputeAuditHash_def auditHashInput_def auditEncoding_def auditFields_def)

theorem tampering_detected_witness:
  "verifyEvents sumHash 0 auditChainGenesis demoLog
     = Inr (1, ComputeAuditHash sumHash auditChainGenesis demoEvent)
   \<and> (list_all2 (\<lambda>a b. sameHashed a b \<and> aud_PreviousHash a = aud_PreviousHash b \<and> aud_Hash a = aud_Hash b) demoLog demoLog
      \<or> collision sumHash demoLog demoLog)"
proof -
  have "verifyEvents sumHash 0 auditChainGenesis demoLog
     = Inr (1, ComputeAuditHash sumHash auditChainGenesis demoEvent)"
    by (simp add: demoLog_def) (simp add: demoEvent_def)
  with tampering_detected [of sumHash auditChainGenesis 0 demoLog 1 "ComputeAuditHash sumHash auditChainGenesis demoEvent" demoLog]
  show ?thesis by (simp add: sumHash_def auditChainGenesis_def)
qed

end
