(* ===== verification/OAuthTypes.thy ===== *)
theory OAuthTypes
  imports Types
begin

text \<open>
  The structs of \<^verbatim>\<open>oauth_types.go\<close> that the store persists: issuers, protected resources,
  clients, initial access tokens, grants, authorization codes and the three kinds of
  tokens. The string enumerations of the file stay strings: the store copies them and the
  operations compare them with constants.
\<close>

record oauthScopeDefinition =
  osd_Name :: string
  osd_Description :: string
  osd_Permissions :: "permission list"
  osd_MinimumAAL :: assuranceLevel
  osd_MaxAuthAge :: duration

record oauthIssuer =
  ois_ID :: uuid
  ois_Issuer :: string
  ois_OIDCEnabled :: bool
  ois_CIMDMode :: string
  ois_CIMDAllowedOrigins :: "string list"
  ois_DCRMode :: string
  ois_DCRAllowClientSecrets :: bool
  ois_DCROpenRegistrationLimit :: int
  ois_CodeTTL :: duration
  ois_AccessTokenTTL :: duration
  ois_RefreshTokenTTL :: duration
  ois_CreatedAt :: time
  ois_UpdatedAt :: time
  ois_DisabledAt :: "time option"

record oauthProtectedResource =
  ors_ID :: uuid
  ors_IssuerID :: uuid
  ors_WorkspaceID :: uuid
  ors_Resource :: string
  ors_Scopes :: "oauthScopeDefinition list"
  ors_CreatedAt :: time
  ors_UpdatedAt :: time
  ors_DisabledAt :: "time option"

record oauthClient =
  ocl_ID :: uuid
  ocl_IssuerID :: uuid
  ocl_ClientID :: string
  ocl_Source :: string
  ocl_Name :: string
  ocl_ApplicationType :: string
  ocl_RedirectURIs :: "string list"
  ocl_SectorIdentifier :: string
  ocl_GrantTypes :: "string list"
  ocl_ResponseTypes :: "string list"
  ocl_Scopes :: "string list"
  ocl_ClientCredentialsResources :: "string list"
  ocl_TokenEndpointAuthMethod :: string
  ocl_JWKSURI :: string
  ocl_JWKS :: bytes
  ocl_Trusted :: bool
  ocl_SecretDigest :: bytes
  ocl_MetadataHash :: bytes
  ocl_MetadataExpiresAt :: "time option"
  ocl_CreatedAt :: time
  ocl_UpdatedAt :: time
  ocl_DisabledAt :: "time option"

record oauthInitialAccessToken =
  oit_ID :: uuid
  oit_IssuerID :: uuid
  oit_Prefix :: string
  oit_Digest :: bytes
  oit_MaxRegistrations :: int
  oit_RegistrationCount :: int
  oit_CreatedAt :: time
  oit_ExpiresAt :: time
  oit_RevokedAt :: "time option"

record oauthGrant =
  ogr_ID :: uuid
  ogr_IssuerID :: uuid
  ogr_ClientRecordID :: uuid
  ogr_UserID :: uuid
  ogr_WorkspaceID :: uuid
  ogr_ResourceID :: uuid
  ogr_Scopes :: "string list"
  ogr_MetadataHash :: bytes
  ogr_AuthTime :: time
  ogr_AuthMethod :: authMethod
  ogr_AAL :: assuranceLevel
  ogr_CreatedAt :: time
  ogr_UpdatedAt :: time
  ogr_RevokedAt :: "time option"

record oauthAuthorizationCode =
  oco_ID :: uuid
  oco_Prefix :: string
  oco_Digest :: bytes
  oco_GrantID :: uuid
  oco_ClientRecordID :: uuid
  oco_RedirectURI :: string
  oco_ResourceID :: uuid
  oco_Scopes :: "string list"
  oco_CodeChallenge :: string
  oco_Nonce :: string
  oco_CreatedAt :: time
  oco_ExpiresAt :: time
  oco_UsedAt :: "time option"

record oauthAccessToken =
  oat_ID :: uuid
  oat_Prefix :: string
  oat_Digest :: bytes
  oat_GrantID :: uuid
  oat_ClientRecordID :: uuid
  oat_UserID :: uuid
  oat_WorkspaceID :: uuid
  oat_ResourceID :: uuid
  oat_Scopes :: "string list"
  oat_CreatedAt :: time
  oat_ExpiresAt :: time
  oat_RevokedAt :: "time option"

record oauthClientAccessToken =
  oct_ID :: uuid
  oct_Prefix :: string
  oct_Digest :: bytes
  oct_ClientRecordID :: uuid
  oct_IssuerID :: uuid
  oct_ResourceID :: uuid
  oct_WorkspaceID :: uuid
  oct_Scopes :: "string list"
  oct_CreatedAt :: time
  oct_ExpiresAt :: time
  oct_RevokedAt :: "time option"

record oauthRefreshToken =
  ort_ID :: uuid
  ort_FamilyID :: uuid
  ort_Prefix :: string
  ort_Digest :: bytes
  ort_GrantID :: uuid
  ort_ClientRecordID :: uuid
  ort_UserID :: uuid
  ort_WorkspaceID :: uuid
  ort_ResourceID :: uuid
  ort_Scopes :: "string list"
  ort_CreatedAt :: time
  ort_ExpiresAt :: time
  ort_UsedAt :: "time option"
  ort_ReplacedByID :: uuid
  ort_RevokedAt :: "time option"

end
