(* ===== verification/MemState.thy ===== *)
theory MemState
  imports AuditChain OAuthTypes
begin

text \<open>
  The state of the in-memory store (\<^verbatim>\<open>memory/store.go\<close>) and its commit protocol. \<open>storeState\<close> is the
  struct a transaction snapshots; \<open>store\<close> extends it with the three fields that stay outside the
  snapshot. Every exported method runs under one mutex, so a method is one atomic step: a function from
  the store to a result and a store. The maps keyed by \<^verbatim>\<open>UUID.String()\<close> are keyed by the UUID itself,
  since \<^verbatim>\<open>String\<close> is injective (\<open>UUID_String_inject\<close>). Defensive copies (\<^verbatim>\<open>cloneUser\<close> and the like) are
  the identity on values.

  A transactional callback is a function from the audit event of its transaction handle to an error or
  none: the handle of this store exposes nothing else, and the callback has no access to the store,
  whose mutex is held.
\<close>

section \<open>State\<close>

record storeState =
  st_users :: "(uuid, user) dict"
  st_emails :: "(string, uuid) dict"
  st_emailAddresses :: "(uuid, emailAddress) dict"
  st_emailIDs :: "(string, uuid) dict"
  st_emailVerifications :: "(uuid, emailVerificationCredential) dict"
  st_passwords :: "(uuid, passwordCredential) dict"
  st_workspaces :: "(uuid, workspace) dict"
  st_memberships :: "(uuid, (uuid, membership) dict) dict"
  st_admins :: "(uuid, instanceAdministrator) dict"
  st_ssoIdentities :: "(uuid, ssoIdentity) dict"
  st_ssoKeys :: "(string, uuid) dict"
  st_totp :: "(uuid, totpFactor) dict"
  st_recovery :: "(uuid, recoveryCode list) dict"
  st_passkeys :: "(uuid, (uuid, passkey) dict) dict"
  st_pats :: "(uuid, pat) dict"
  st_patPrefixes :: "(string, uuid) dict"
  st_sessions :: "(uuid, session) dict"
  st_domains :: "(uuid, workspaceDomain) dict"
  st_domainNames :: "(string, uuid) dict"
  st_scimConfigurations :: "(uuid, scimConfiguration) dict"
  st_scimCredentials :: "(uuid, scimCredential) dict"
  st_scimCredentialKeys :: "(string, uuid) dict"
  st_scimUsers :: "(uuid, scimUser) dict"
  st_scimUserNames :: "(string, uuid) dict"
  st_scimExternalIDs :: "(string, uuid) dict"
  st_scimGroups :: "(uuid, scimGroup) dict"
  st_scimGroupExternal :: "(string, uuid) dict"
  st_oauthIssuers :: "(uuid, oauthIssuer) dict"
  st_oauthIssuerURLs :: "(string, uuid) dict"
  st_oauthResources :: "(uuid, oauthProtectedResource) dict"
  st_oauthResourceURIs :: "(string, uuid) dict"
  st_oauthClients :: "(uuid, oauthClient) dict"
  st_oauthClientKeys :: "(string, uuid) dict"
  st_oauthInitialTokens :: "(uuid, oauthInitialAccessToken) dict"
  st_oauthInitialKeys :: "(string, uuid) dict"
  st_oauthGrants :: "(uuid, oauthGrant) dict"
  st_oauthCodes :: "(uuid, oauthAuthorizationCode) dict"
  st_oauthCodeKeys :: "(string, uuid) dict"
  st_oauthAccessTokens :: "(uuid, oauthAccessToken) dict"
  st_oauthAccessKeys :: "(string, uuid) dict"
  st_oauthClientTokens :: "(uuid, oauthClientAccessToken) dict"
  st_oauthClientTokenKeys :: "(string, uuid) dict"
  st_oauthRefreshTokens :: "(uuid, oauthRefreshToken) dict"
  st_oauthRefreshKeys :: "(string, uuid) dict"
  st_throttles :: "(uuid, loginThrottle) dict"
  st_passwordResets :: "(uuid, passwordResetCredential) dict"
  st_emailAuths :: "(uuid, emailAuthenticationCredential) dict"
  st_invitations :: "(uuid, workspaceInvitation) dict"
  st_audits :: "auditEvent list"
  st_auditIDs :: "uuid set"
  st_auditSequence :: int
  st_auditHead :: bytes

record store = storeState +
  st_ceremonies :: "(uuid, time) dict"
  st_emailIssuance :: "(string, time) dict"
  st_auditFailure :: "error option"

definition New :: store where
  "New = \<lparr>
     st_users = [], st_emails = [], st_emailAddresses = [], st_emailIDs = [], st_emailVerifications = [],
     st_passwords = [], st_workspaces = [], st_memberships = [], st_admins = [], st_ssoIdentities = [],
     st_ssoKeys = [], st_totp = [], st_recovery = [], st_passkeys = [], st_pats = [], st_patPrefixes = [],
     st_sessions = [], st_domains = [], st_domainNames = [], st_scimConfigurations = [],
     st_scimCredentials = [], st_scimCredentialKeys = [], st_scimUsers = [], st_scimUserNames = [],
     st_scimExternalIDs = [], st_scimGroups = [], st_scimGroupExternal = [], st_oauthIssuers = [],
     st_oauthIssuerURLs = [], st_oauthResources = [], st_oauthResourceURIs = [], st_oauthClients = [],
     st_oauthClientKeys = [], st_oauthInitialTokens = [], st_oauthInitialKeys = [], st_oauthGrants = [],
     st_oauthCodes = [], st_oauthCodeKeys = [], st_oauthAccessTokens = [], st_oauthAccessKeys = [],
     st_oauthClientTokens = [], st_oauthClientTokenKeys = [], st_oauthRefreshTokens = [],
     st_oauthRefreshKeys = [], st_throttles = [], st_passwordResets = [], st_emailAuths = [],
     st_invitations = [], st_audits = [], st_auditIDs = {}, st_auditSequence = 0,
     st_auditHead = replicate 32 0, st_ceremonies = [], st_emailIssuance = [], st_auditFailure = None\<rparr>"

definition SetAuditFailure :: "error option \<Rightarrow> store \<Rightarrow> store" where
  "SetAuditFailure err s = s\<lparr>st_auditFailure := err\<rparr>"

definition zeroState :: storeState where
  "zeroState = \<lparr>
     st_users = [], st_emails = [], st_emailAddresses = [], st_emailIDs = [], st_emailVerifications = [],
     st_passwords = [], st_workspaces = [], st_memberships = [], st_admins = [], st_ssoIdentities = [],
     st_ssoKeys = [], st_totp = [], st_recovery = [], st_passkeys = [], st_pats = [], st_patPrefixes = [],
     st_sessions = [], st_domains = [], st_domainNames = [], st_scimConfigurations = [],
     st_scimCredentials = [], st_scimCredentialKeys = [], st_scimUsers = [], st_scimUserNames = [],
     st_scimExternalIDs = [], st_scimGroups = [], st_scimGroupExternal = [], st_oauthIssuers = [],
     st_oauthIssuerURLs = [], st_oauthResources = [], st_oauthResourceURIs = [], st_oauthClients = [],
     st_oauthClientKeys = [], st_oauthInitialTokens = [], st_oauthInitialKeys = [], st_oauthGrants = [],
     st_oauthCodes = [], st_oauthCodeKeys = [], st_oauthAccessTokens = [], st_oauthAccessKeys = [],
     st_oauthClientTokens = [], st_oauthClientTokenKeys = [], st_oauthRefreshTokens = [],
     st_oauthRefreshKeys = [], st_throttles = [], st_passwordResets = [], st_emailAuths = [],
     st_invitations = [], st_audits = [], st_auditIDs = {}, st_auditSequence = 0, st_auditHead = []\<rparr>"

text \<open>
  The snapshot as the code takes it: every map is copied but \<^verbatim>\<open>oauthClientKeys\<close>, which is allocated and
  left empty; the loop at its place copies \<^verbatim>\<open>oauthClientTokenKeys\<close>, as a later loop does again.
\<close>

definition snapshotLocked :: "store \<Rightarrow> storeState" where
  "snapshotLocked s = \<lparr>
     st_users = st_users s, st_emails = st_emails s, st_emailAddresses = st_emailAddresses s,
     st_emailIDs = st_emailIDs s, st_emailVerifications = st_emailVerifications s,
     st_passwords = st_passwords s, st_workspaces = st_workspaces s, st_memberships = st_memberships s,
     st_admins = st_admins s, st_ssoIdentities = st_ssoIdentities s, st_ssoKeys = st_ssoKeys s,
     st_totp = st_totp s, st_recovery = st_recovery s, st_passkeys = st_passkeys s, st_pats = st_pats s,
     st_patPrefixes = st_patPrefixes s, st_sessions = st_sessions s, st_domains = st_domains s,
     st_domainNames = st_domainNames s, st_scimConfigurations = st_scimConfigurations s,
     st_scimCredentials = st_scimCredentials s, st_scimCredentialKeys = st_scimCredentialKeys s,
     st_scimUsers = st_scimUsers s, st_scimUserNames = st_scimUserNames s,
     st_scimExternalIDs = st_scimExternalIDs s, st_scimGroups = st_scimGroups s,
     st_scimGroupExternal = st_scimGroupExternal s, st_oauthIssuers = st_oauthIssuers s,
     st_oauthIssuerURLs = st_oauthIssuerURLs s, st_oauthResources = st_oauthResources s,
     st_oauthResourceURIs = st_oauthResourceURIs s, st_oauthClients = st_oauthClients s,
     st_oauthClientKeys = [], st_oauthInitialTokens = st_oauthInitialTokens s,
     st_oauthInitialKeys = st_oauthInitialKeys s, st_oauthGrants = st_oauthGrants s,
     st_oauthCodes = st_oauthCodes s, st_oauthCodeKeys = st_oauthCodeKeys s,
     st_oauthAccessTokens = st_oauthAccessTokens s, st_oauthAccessKeys = st_oauthAccessKeys s,
     st_oauthClientTokens = st_oauthClientTokens s, st_oauthClientTokenKeys = st_oauthClientTokenKeys s,
     st_oauthRefreshTokens = st_oauthRefreshTokens s, st_oauthRefreshKeys = st_oauthRefreshKeys s,
     st_throttles = st_throttles s, st_passwordResets = st_passwordResets s, st_emailAuths = st_emailAuths s,
     st_invitations = st_invitations s, st_audits = st_audits s, st_auditIDs = st_auditIDs s,
     st_auditSequence = st_auditSequence s, st_auditHead = st_auditHead s\<rparr>"

definition restoreLocked :: "storeState \<Rightarrow> store \<Rightarrow> store" where
  "restoreLocked state s = s\<lparr>
     st_users := st_users state, st_emails := st_emails state, st_emailAddresses := st_emailAddresses state,
     st_emailIDs := st_emailIDs state, st_emailVerifications := st_emailVerifications state,
     st_passwords := st_passwords state, st_workspaces := st_workspaces state,
     st_memberships := st_memberships state, st_admins := st_admins state,
     st_ssoIdentities := st_ssoIdentities state, st_ssoKeys := st_ssoKeys state, st_totp := st_totp state,
     st_recovery := st_recovery state, st_passkeys := st_passkeys state, st_pats := st_pats state,
     st_patPrefixes := st_patPrefixes state, st_sessions := st_sessions state,
     st_domains := st_domains state, st_domainNames := st_domainNames state,
     st_scimConfigurations := st_scimConfigurations state, st_scimCredentials := st_scimCredentials state,
     st_scimCredentialKeys := st_scimCredentialKeys state, st_scimUsers := st_scimUsers state,
     st_scimUserNames := st_scimUserNames state, st_scimExternalIDs := st_scimExternalIDs state,
     st_scimGroups := st_scimGroups state, st_scimGroupExternal := st_scimGroupExternal state,
     st_oauthIssuers := st_oauthIssuers state, st_oauthIssuerURLs := st_oauthIssuerURLs state,
     st_oauthResources := st_oauthResources state, st_oauthResourceURIs := st_oauthResourceURIs state,
     st_oauthClients := st_oauthClients state, st_oauthClientKeys := st_oauthClientKeys state,
     st_oauthInitialTokens := st_oauthInitialTokens state, st_oauthInitialKeys := st_oauthInitialKeys state,
     st_oauthGrants := st_oauthGrants state, st_oauthCodes := st_oauthCodes state,
     st_oauthCodeKeys := st_oauthCodeKeys state, st_oauthAccessTokens := st_oauthAccessTokens state,
     st_oauthAccessKeys := st_oauthAccessKeys state, st_oauthClientTokens := st_oauthClientTokens state,
     st_oauthClientTokenKeys := st_oauthClientTokenKeys state,
     st_oauthRefreshTokens := st_oauthRefreshTokens state, st_oauthRefreshKeys := st_oauthRefreshKeys state,
     st_throttles := st_throttles state, st_passwordResets := st_passwordResets state,
     st_emailAuths := st_emailAuths state, st_invitations := st_invitations state,
     st_audits := st_audits state, st_auditIDs := st_auditIDs state,
     st_auditSequence := st_auditSequence state, st_auditHead := st_auditHead state\<rparr>"

section \<open>The commit protocol\<close>

definition canAudit :: "auditEvent \<Rightarrow> store \<Rightarrow> error option" where
  "canAudit event s =
    (if st_auditFailure s \<noteq> None then Some ErrAuditUnavailable
     else if aud_ID event = 0 \<or> aud_Action event = [] \<or> aud_OccurredAt event = zeroTime then Some ErrAuditUnavailable
     else if aud_ID event \<in> st_auditIDs s then Some ErrConflict
     else None)"

definition prepareCommitLocked :: "commit \<Rightarrow> store \<Rightarrow> storeState result \<times> store" where
  "prepareCommitLocked commit s =
    (case canAudit (cmt_Audit commit) s of
       Some e \<Rightarrow> (Inl e, s)
     | None \<Rightarrow>
        (case cmt_Ceremony commit of
           None \<Rightarrow> (Inr (if cmt_Transactional commit = None then zeroState else snapshotLocked s), s)
         | Some ceremony \<Rightarrow>
             let s1 = s\<lparr>st_ceremonies := keep (\<lambda>_ expires. \<not> expires < aud_OccurredAt (cmt_Audit commit)) (st_ceremonies s)\<rparr>
             in if has (cer_ID ceremony) (st_ceremonies s1) then (Inl ErrConflict, s1)
                else let s2 = s1\<lparr>st_ceremonies := put (cer_ID ceremony) (cer_ExpiresAt ceremony) (st_ceremonies s1)\<rparr>
                     in (Inr (if cmt_Transactional commit = None then zeroState else snapshotLocked s2), s2)))"

definition commitAudit :: "hashFn \<Rightarrow> auditEvent \<Rightarrow> bool \<Rightarrow> store \<Rightarrow> store" where
  "commitAudit sha event0 unchained s =
    (let event1 = (if aud_ActorKind event0 = ActorUnset then event0\<lparr>aud_ActorKind := ActorUser\<rparr> else event0) in
     if unchained then
       s\<lparr>st_audits := st_audits s @ [event1], st_auditIDs := insert (aud_ID event1) (st_auditIDs s)\<rparr>
     else
       let event2 = event1\<lparr>aud_Sequence := st_auditSequence s + 1, aud_PreviousHash := st_auditHead s\<rparr>;
           event3 = event2\<lparr>aud_Hash := ComputeAuditHash sha (aud_PreviousHash event2) event2\<rparr>
       in s\<lparr>st_auditSequence := aud_Sequence event3, st_auditHead := aud_Hash event3,
             st_audits := st_audits s @ [event3], st_auditIDs := insert (aud_ID event3) (st_auditIDs s)\<rparr>)"

definition finishCommitLocked :: "hashFn \<Rightarrow> commit \<Rightarrow> storeState \<Rightarrow> store \<Rightarrow> unit result \<times> store" where
  "finishCommitLocked sha commit previous s =
    (case cmt_Transactional commit of
       None \<Rightarrow> (Inr (), commitAudit sha (cmt_Audit commit) (cmt_Unchained commit) s)
     | Some callback \<Rightarrow>
        (case callback (cmt_Audit commit) of
           Some err \<Rightarrow> (Inl err, restoreLocked previous s)
         | None \<Rightarrow> (Inr (), commitAudit sha (cmt_Audit commit) (cmt_Unchained commit) s)))"

text \<open>
  The body every mutator has: the context is checked, the mutex taken, the guards of the method decide
  on an early return (\<open>guard\<close>: an error, or the values the method read), the commit is prepared, the
  method writes its maps (\<open>effect\<close>: what it returns and the new state), and the commit is finished.
\<close>

definition mutate :: "hashFn \<Rightarrow> error option \<Rightarrow> (store \<Rightarrow> 'x result) \<Rightarrow> ('x \<Rightarrow> store \<Rightarrow> 'r \<times> store)
    \<Rightarrow> commit \<Rightarrow> store \<Rightarrow> 'r result \<times> store" where
  "mutate sha ctxErr guard effect commit s =
    (case ctxErr of Some e \<Rightarrow> (Inl e, s) | None \<Rightarrow>
     (case guard s of Inl e \<Rightarrow> (Inl e, s) | Inr x \<Rightarrow>
      (case prepareCommitLocked commit s of
         (Inl e, s1) \<Rightarrow> (Inl e, s1)
       | (Inr previous, s1) \<Rightarrow>
          (case effect x s1 of (r, s2) \<Rightarrow>
            (case finishCommitLocked sha commit previous s2 of
               (Inl e, s3) \<Rightarrow> (Inl e, s3)
             | (Inr _, s3) \<Rightarrow> (Inr r, s3))))))"

text \<open>A method that only writes, and a read: the context is checked and the maps consulted.\<close>

definition writes :: "('x \<Rightarrow> store \<Rightarrow> store) \<Rightarrow> 'x \<Rightarrow> store \<Rightarrow> unit \<times> store" where
  "writes f x s = ((), f x s)"

definition reads :: "error option \<Rightarrow> (store \<Rightarrow> 'a result) \<Rightarrow> store \<Rightarrow> 'a result \<times> store" where
  "reads ctxErr f s = (case ctxErr of Some e \<Rightarrow> (Inl e, s) | None \<Rightarrow> (f s, s))"

definition AppendAudit :: "hashFn \<Rightarrow> error option \<Rightarrow> commit \<Rightarrow> store \<Rightarrow> unit result \<times> store" where
  "AppendAudit sha ctxErr commit = mutate sha ctxErr (\<lambda>_. Inr ()) (writes (\<lambda>_ s. s)) commit"

definition AuditChainHead :: "error option \<Rightarrow> store \<Rightarrow> (int \<times> bytes) result \<times> store" where
  "AuditChainHead ctxErr = reads ctxErr (\<lambda>s. Inr (st_auditSequence s, st_auditHead s))"

definition ChainedAuditEvents :: "error option \<Rightarrow> int \<Rightarrow> store \<Rightarrow> auditEvent list result \<times> store" where
  "ChainedAuditEvents ctxErr afterSequence = reads ctxErr (\<lambda>s.
     Inr (sort_key aud_Sequence (filter (\<lambda>event. aud_Sequence event > afterSequence) (st_audits s))))"

end
