(* ===== verification/MemContract.thy ===== *)
theory MemContract
  imports MemState
begin

text \<open>
  What every mutator of the in-memory store guarantees, as a locale: atomicity, one audit event per
  success, single use of ceremonies; and the lemma by which each method of the store is an instance.
\<close>

named_theorems effect_defs \<open>the helpers that the effects of methods are built from\<close>

named_theorems contracts \<open>for each method of the store, that a call of it keeps the contract\<close>

section \<open>The contract of a mutator\<close>

text \<open>What the effect of a method leaves alone: the audit log and the fields outside the snapshot.\<close>

definition auditSame :: "store \<Rightarrow> store \<Rightarrow> bool" where
  "auditSame s' s \<longleftrightarrow> st_audits s' = st_audits s \<and> st_auditIDs s' = st_auditIDs s \<and> st_auditSequence s' = st_auditSequence s
     \<and> st_auditHead s' = st_auditHead s \<and> st_auditFailure s' = st_auditFailure s \<and> st_ceremonies s' = st_ceremonies s
     \<and> st_emailIssuance s' = st_emailIssuance s"

definition silent :: "('x \<Rightarrow> store \<Rightarrow> 'r \<times> store) \<Rightarrow> bool" where
  "silent effect \<longleftrightarrow> (\<forall>x s. auditSame (snd (effect x s)) s)"

declare auditSame_def [effect_defs]

lemma auditSame_trans: "auditSame a b \<Longrightarrow> auditSame b c \<Longrightarrow> auditSame a c"
  by (simp add: auditSame_def)

lemma auditSame_refl: "auditSame a a"
  by (simp add: auditSame_def)

lemma auditSame_foldl:
  assumes "\<And>s x. auditSame (f s x) s"
  shows "auditSame (foldl f s xs) s"
proof (induction xs arbitrary: s)
  case (Cons x xs)
  from Cons.IH [of "f s x"] assms [of s x] have "auditSame (foldl f (f s x) xs) s" by (rule auditSame_trans)
  then show ?case by simp
qed (simp add: auditSame_refl)

text \<open>The event a commit appends to a store: its actor defaulted and, unless it is unchained, linked.\<close>

definition stamped :: "hashFn \<Rightarrow> commit \<Rightarrow> store \<Rightarrow> auditEvent" where
  "stamped sha commit s =
    (let event0 = cmt_Audit commit;
         event1 = (if aud_ActorKind event0 = ActorUnset then event0\<lparr>aud_ActorKind := ActorUser\<rparr> else event0);
         event2 = event1\<lparr>aud_Sequence := st_auditSequence s + 1, aud_PreviousHash := st_auditHead s\<rparr>
     in if cmt_Unchained commit then event1
        else event2\<lparr>aud_Hash := ComputeAuditHash sha (st_auditHead s) event2\<rparr>)"

lemma commitAudit_stamped:
  "st_audits (commitAudit sha (cmt_Audit c) (cmt_Unchained c) s) = st_audits s @ [stamped sha c s]"
  "st_auditIDs (commitAudit sha (cmt_Audit c) (cmt_Unchained c) s) = insert (aud_ID (cmt_Audit c)) (st_auditIDs s)"
  "st_auditSequence (commitAudit sha (cmt_Audit c) (cmt_Unchained c) s) =
     (if cmt_Unchained c then st_auditSequence s else st_auditSequence s + 1)"
  "st_auditHead (commitAudit sha (cmt_Audit c) (cmt_Unchained c) s) =
     (if cmt_Unchained c then st_auditHead s else aud_Hash (stamped sha c s))"
  by (simp_all add: commitAudit_def stamped_def Let_def)

lemma commitAudit_frame:
  "commitAudit sha e u s = s\<lparr>st_auditSequence := st_auditSequence (commitAudit sha e u s),
     st_auditHead := st_auditHead (commitAudit sha e u s),
     st_audits := st_audits (commitAudit sha e u s), st_auditIDs := st_auditIDs (commitAudit sha e u s)\<rparr>"
  by (simp add: commitAudit_def Let_def)

lemma restore_snapshot:
  assumes "st_ceremonies s2 = st_ceremonies s1" and "st_emailIssuance s2 = st_emailIssuance s1"
    and "st_auditFailure s2 = st_auditFailure s1"
  shows "restoreLocked (snapshotLocked s1) s2 = s1\<lparr>st_oauthClientKeys := []\<rparr>"
  using assms by (simp add: restoreLocked_def snapshotLocked_def)

lemma prepare_cases:
  assumes "prepareCommitLocked c s = (r, s1)"
  shows "s1 = s\<lparr>st_ceremonies := st_ceremonies s1\<rparr>"
    and "r = Inr previous \<Longrightarrow> canAudit (cmt_Audit c) s = None"
    and "r = Inr previous \<Longrightarrow> cmt_Transactional c \<noteq> None \<Longrightarrow> previous = snapshotLocked s1"
  using assms by (auto simp: prepareCommitLocked_def Let_def split: option.splits if_splits)

text \<open>
  The audit log is sound: its chained part verifies from the genesis up to the stored head, and the
  index holds the identifiers of its events, each of which occurs once.
\<close>

definition auditOk :: "hashFn \<Rightarrow> store \<Rightarrow> bool" where
  "auditOk sha s \<longleftrightarrow>
     verifyEvents sha 0 auditChainGenesis (filter (\<lambda>e. aud_Sequence e > 0) (st_audits s)) = Inr (st_auditSequence s, st_auditHead s)
   \<and> st_auditIDs s = aud_ID ` set (st_audits s) \<and> distinct (map aud_ID (st_audits s))"

text \<open>A commit that stays out of the chain carries the zero sequence of a new audit event.\<close>

definition commitOk :: "commit \<Rightarrow> bool" where
  "commitOk c \<longleftrightarrow> (cmt_Unchained c \<longrightarrow> aud_Sequence (cmt_Audit c) = 0)"

lemma auditOk_sequence: "auditOk sha s \<Longrightarrow> 0 \<le> st_auditSequence s"
  by (auto simp: auditOk_def dest: verifyEvents_length)

lemma stamped_ID [simp]: "aud_ID (stamped sha c s) = aud_ID (cmt_Audit c)"
  by (simp add: stamped_def Let_def)

lemma stamped_chained:
  assumes "\<not> cmt_Unchained c"
  shows "aud_Sequence (stamped sha c s) = st_auditSequence s + 1"
    and "aud_PreviousHash (stamped sha c s) = st_auditHead s"
    and "aud_Hash (stamped sha c s) = ComputeAuditHash sha (st_auditHead s) (stamped sha c s)"
  using assms by (simp_all add: stamped_def Let_def)

lemma stamped_unchained: "cmt_Unchained c \<Longrightarrow> commitOk c \<Longrightarrow> aud_Sequence (stamped sha c s) = 0"
  by (simp add: stamped_def commitOk_def Let_def)

lemma auditOk_extend:
  assumes ok: "auditOk sha s" and c: "commitOk c" and can: "canAudit (cmt_Audit c) s = None"
    and s': "st_audits s' = st_audits s @ [stamped sha c s]"
      "st_auditIDs s' = insert (aud_ID (cmt_Audit c)) (st_auditIDs s)"
      "st_auditSequence s' = (if cmt_Unchained c then st_auditSequence s else st_auditSequence s + 1)"
      "st_auditHead s' = (if cmt_Unchained c then st_auditHead s else aud_Hash (stamped sha c s))"
  shows "auditOk sha s'"
proof -
  from can have "aud_ID (cmt_Audit c) \<notin> st_auditIDs s" by (auto simp: canAudit_def split: if_splits)
  with ok s'(1,2) have ids: "st_auditIDs s' = aud_ID ` set (st_audits s') \<and> distinct (map aud_ID (st_audits s'))"
    by (auto simp: auditOk_def)
  let ?f = "filter (\<lambda>e. aud_Sequence e > 0)"
  have "verifyEvents sha 0 auditChainGenesis (?f (st_audits s')) = Inr (st_auditSequence s', st_auditHead s')"
  proof (cases "cmt_Unchained c")
    case True
    with ok s' stamped_unchained [OF True c] show ?thesis by (simp add: auditOk_def)
  next
    case False
    with s' auditOk_sequence [OF ok] stamped_chained [OF False, of sha s]
    have "?f (st_audits s') = ?f (st_audits s) @ [stamped sha c s]" by simp
    with False s' ok stamped_chained [OF False, of sha s] show ?thesis
      by (simp add: verifyEvents_snoc auditOk_def)
  qed
  with ids show ?thesis by (simp add: auditOk_def)
qed

lemma auditOk_cong:
  "st_audits s' = st_audits s \<Longrightarrow> st_auditIDs s' = st_auditIDs s \<Longrightarrow> st_auditSequence s' = st_auditSequence s
    \<Longrightarrow> st_auditHead s' = st_auditHead s \<Longrightarrow> auditOk sha s' = auditOk sha s"
  by (simp add: auditOk_def)

text \<open>The callback of a commit rejects the transaction with this error.\<close>

definition hookRejects :: "commit \<Rightarrow> error \<Rightarrow> bool" where
  "hookRejects c e \<longleftrightarrow> (case cmt_Transactional c of None \<Rightarrow> False | Some callback \<Rightarrow> callback (cmt_Audit c) = Some e)"

text \<open>What a call came to: an error, nothing to do, or a commit.\<close>

datatype outcome = Refused error | Skipped | Committed

definition outcomeOf :: "('r \<Rightarrow> bool) \<Rightarrow> 'r result \<Rightarrow> outcome" where
  "outcomeOf commits r = (case r of Inl e \<Rightarrow> Refused e | Inr x \<Rightarrow> if commits x then Committed else Skipped)"

text \<open>What every call keeps, in the form that invariants over calls of any method use.\<close>

definition keepsContract :: "hashFn \<Rightarrow> commit \<Rightarrow> store \<Rightarrow> outcome \<Rightarrow> store \<Rightarrow> bool" where
  "keepsContract sha c s out s' \<longleftrightarrow>
     (commitOk c \<longrightarrow> auditOk sha s \<longrightarrow> auditOk sha s')
   \<and> (\<forall>e. out = Refused e \<longrightarrow> s' = s\<lparr>st_ceremonies := st_ceremonies s'\<rparr>
        \<or> hookRejects c e \<and> s' = s\<lparr>st_ceremonies := st_ceremonies s', st_oauthClientKeys := []\<rparr>)
   \<and> st_audits s' = st_audits s @ (if out = Committed then [stamped sha c s] else [])
   \<and> (st_ceremonies s' = st_ceremonies s \<or> st_ceremonies s' = st_ceremonies (snd (prepareCommitLocked c s)))
   \<and> (out = Committed \<longrightarrow> (\<exists>previous s1. prepareCommitLocked c s = (Inr previous, s1) \<and> st_ceremonies s' = st_ceremonies s1))"

text \<open>
  The contract of a mutator, whatever it does to the maps: a cancelled context changes nothing; an
  error leaves the store as it was, but for consumed or expired ceremonies and, when a callback
  rejected the transaction, for the OAuth client index, which the snapshot lost; a success appends
  exactly the stamped event of its commit and consumes its ceremony. A tentative operation may also
  report, without an error, that it found nothing to do (\<open>commits\<close> is false of its result), and then
  changes nothing.
\<close>

locale tentative =
  fixes run :: "hashFn \<Rightarrow> error option \<Rightarrow> commit \<Rightarrow> store \<Rightarrow> 'r result \<times> store"
    and commits :: "'r \<Rightarrow> bool"
  assumes cancelled: "run sha (Some e) c s = (Inl e, s)"
    and refused: "run sha ce c s = (Inl e, s') \<Longrightarrow> s' = s\<lparr>st_ceremonies := st_ceremonies s'\<rparr>
      \<or> hookRejects c e \<and> s' = s\<lparr>st_ceremonies := st_ceremonies s', st_oauthClientKeys := []\<rparr>"
    and skipped: "run sha ce c s = (Inr r, s') \<Longrightarrow> \<not> commits r \<Longrightarrow> s' = s"
    and committed: "run sha ce c s = (Inr r, s') \<Longrightarrow> commits r \<Longrightarrow> canAudit (cmt_Audit c) s = None
      \<and> st_audits s' = st_audits s @ [stamped sha c s] \<and> st_auditIDs s' = insert (aud_ID (cmt_Audit c)) (st_auditIDs s)
      \<and> st_auditSequence s' = (if cmt_Unchained c then st_auditSequence s else st_auditSequence s + 1)
      \<and> st_auditHead s' = (if cmt_Unchained c then st_auditHead s else aud_Hash (stamped sha c s))
      \<and> st_auditFailure s' = st_auditFailure s \<and> st_emailIssuance s' = st_emailIssuance s
      \<and> (\<forall>e. \<not> hookRejects c e)"
    and ceremonies: "run sha ce c s = (x, s') \<Longrightarrow> st_ceremonies s' = st_ceremonies s
      \<or> st_ceremonies s' = st_ceremonies (snd (prepareCommitLocked c s))"
    and consumed: "run sha ce c s = (Inr r, s') \<Longrightarrow> commits r \<Longrightarrow>
      (\<exists>previous s1. prepareCommitLocked c s = (Inr previous, s1) \<and> st_ceremonies s' = st_ceremonies s1)"
begin

lemma refused_log:
  assumes "run sha ce c s = (Inl e, s')"
  shows "st_audits s' = st_audits s \<and> st_auditIDs s' = st_auditIDs s \<and> st_auditSequence s' = st_auditSequence s
    \<and> st_auditHead s' = st_auditHead s \<and> st_auditFailure s' = st_auditFailure s \<and> st_emailIssuance s' = st_emailIssuance s"
  using refused [OF assms] by (elim disjE conjE) (erule ssubst, simp)+

lemma audit_invariant:
  assumes "run sha ce c s = (r, s')" and "commitOk c" and "auditOk sha s"
  shows "auditOk sha s'"
proof (cases r)
  case (Inl e)
  with assms(1) refused_log have "st_audits s' = st_audits s \<and> st_auditIDs s' = st_auditIDs s
      \<and> st_auditSequence s' = st_auditSequence s \<and> st_auditHead s' = st_auditHead s" by blast
  with assms(3) show ?thesis by (simp add: auditOk_def)
next
  case (Inr x)
  with assms(1) have run: "run sha ce c s = (Inr x, s')" by simp
  show ?thesis
  proof (cases "commits x")
    case True
    show ?thesis by (rule auditOk_extend [OF assms(3,2)]) (use committed [OF run True] in simp_all)
  next
    case False
    with skipped [OF run] assms(3) show ?thesis by simp
  qed
qed

text \<open>The log only grows, and an event is appended by nothing but a success.\<close>

lemma audit_grows:
  assumes "run sha ce c s = (r, s')"
  shows "st_audits s' = st_audits s @ (case r of Inl _ \<Rightarrow> [] | Inr x \<Rightarrow> if commits x then [stamped sha c s] else [])"
proof (cases r)
  case (Inl e)
  with assms refused_log [of sha ce c s e s'] show ?thesis by simp
next
  case (Inr x)
  with assms committed [of sha ce c s x s'] skipped [of sha ce c s x s'] show ?thesis by simp
qed

lemma contract [contracts]:
  assumes "run sha ce c s = (r, s')"
  shows "keepsContract sha c s (outcomeOf commits r) s'"
proof (cases r)
  case (Inl e)
  with assms have "run sha ce c s = (Inl e, s')" by simp
  with refused [OF this] show ?thesis
    using Inl audit_invariant [OF assms] audit_grows [OF assms] ceremonies [OF assms]
    by (simp add: keepsContract_def outcomeOf_def)
next
  case (Inr x)
  with assms have "run sha ce c s = (Inr x, s')" by simp
  with consumed [OF this] show ?thesis
    using Inr audit_invariant [OF assms] audit_grows [OF assms] ceremonies [OF assms]
    by (simp add: keepsContract_def outcomeOf_def)
qed

lemma no_commit_without_audit:
  assumes "run sha ce c s = (Inr r, s')" and "commits r"
  shows "st_auditFailure s = None \<and> aud_ID (cmt_Audit c) \<noteq> 0 \<and> aud_ID (cmt_Audit c) \<notin> st_auditIDs s"
  using committed [OF assms] by (auto simp: canAudit_def split: if_splits)

end

text \<open>A mutator proper commits whenever it returns.\<close>

locale mutator = tentative run "\<lambda>_. True" for run :: "hashFn \<Rightarrow> error option \<Rightarrow> commit \<Rightarrow> store \<Rightarrow> 'r result \<times> store"

lemma silentD:
  assumes "silent effect" and "effect x s = (r, s')"
  shows "st_audits s' = st_audits s \<and> st_auditIDs s' = st_auditIDs s \<and> st_auditSequence s' = st_auditSequence s
    \<and> st_auditHead s' = st_auditHead s \<and> st_auditFailure s' = st_auditFailure s \<and> st_ceremonies s' = st_ceremonies s
    \<and> st_emailIssuance s' = st_emailIssuance s"
proof -
  have "auditSame (snd (effect x s)) s" using assms(1) by (simp add: silent_def)
  with assms(2) show ?thesis by (simp add: auditSame_def)
qed

text \<open>Every method written with \<^const>\<open>mutate\<close> over a silent effect keeps the contract.\<close>

lemma mutate_Inr:
  assumes "mutate sha ce guard effect c s = (Inr r, s')"
  shows "\<exists>x previous s1 s2. ce = None \<and> guard s = Inr x \<and> prepareCommitLocked c s = (Inr previous, s1)
    \<and> effect x s1 = (r, s2) \<and> s' = commitAudit sha (cmt_Audit c) (cmt_Unchained c) s2 \<and> (\<forall>e. \<not> hookRejects c e)"
proof -
  from assms have ce: "ce = None" by (cases ce) (simp_all add: mutate_def)
  from assms ce obtain x where x: "guard s = Inr x" by (cases "guard s") (simp_all add: mutate_def)
  obtain p s1 where p: "prepareCommitLocked c s = (p, s1)" by (cases "prepareCommitLocked c s")
  from assms ce x p obtain previous where Inr: "p = Inr previous" by (cases p) (simp_all add: mutate_def)
  obtain r' s2 where e: "effect x s1 = (r', s2)" by (cases "effect x s1")
  from assms ce x p Inr e have "r' = r \<and> s' = commitAudit sha (cmt_Audit c) (cmt_Unchained c) s2 \<and> (\<forall>e. \<not> hookRejects c e)"
    by (simp add: mutate_def finishCommitLocked_def hookRejects_def split: option.splits)
  with ce x p Inr e show ?thesis by simp
qed

lemma mutate_Inl:
  assumes "mutate sha ce guard effect c s = (Inl e, s')" and "silent effect"
  shows "s' = s\<lparr>st_ceremonies := st_ceremonies s'\<rparr>
      \<or> hookRejects c e \<and> s' = s\<lparr>st_ceremonies := st_ceremonies s', st_oauthClientKeys := []\<rparr>"
proof (cases "ce = None \<and> (\<exists>x. guard s = Inr x)")
  case False
  then have "s' = s" using assms(1)
    by (cases ce; cases "guard s") (simp_all add: mutate_def)
  then show ?thesis by simp
next
  case True
  then obtain x where x: "ce = None" "guard s = Inr x" by blast
  obtain p s1 where p: "prepareCommitLocked c s = (p, s1)" by (cases "prepareCommitLocked c s")
  note s1 = prepare_cases(1) [OF p]
  show ?thesis
  proof (cases p)
    case (Inl e')
    with x p assms(1) s1 show ?thesis by (simp add: mutate_def)
  next
    case (Inr previous)
    obtain r s2 where e: "effect x s1 = (r, s2)" by (cases "effect x s1")
    have same: "st_ceremonies s2 = st_ceremonies s1" "st_emailIssuance s2 = st_emailIssuance s1"
        "st_auditFailure s2 = st_auditFailure s1"
      using silentD [OF assms(2) e] by simp_all
    from x p Inr e assms(1) obtain cb where cb: "cmt_Transactional c = Some cb" "cb (cmt_Audit c) = Some e"
      and s': "s' = restoreLocked previous s2"
      by (auto simp: mutate_def finishCommitLocked_def split: option.splits)
    with prepare_cases(3) [OF p Inr] restore_snapshot [OF same] have s'': "s' = s1\<lparr>st_oauthClientKeys := []\<rparr>" by simp
    have "s' = s\<lparr>st_ceremonies := st_ceremonies s', st_oauthClientKeys := []\<rparr>"
      unfolding s'' by (subst s1) simp
    with cb show ?thesis by (simp add: hookRejects_def)
  qed
qed

lemma mutate_ceremonies:
  assumes "mutate sha ce guard effect c s = (r, s')" and "silent effect"
  shows "st_ceremonies s' = st_ceremonies s \<or> st_ceremonies s' = st_ceremonies (snd (prepareCommitLocked c s))"
proof (cases "ce = None \<and> (\<exists>x. guard s = Inr x)")
  case False
  then have "s' = s" using assms(1)
    by (cases ce; cases "guard s") (simp_all add: mutate_def)
  then show ?thesis by simp
next
  case True
  then obtain x where x: "ce = None" "guard s = Inr x" by blast
  obtain p s1 where p: "prepareCommitLocked c s = (p, s1)" by (cases "prepareCommitLocked c s")
  obtain r' s2 where e: "effect x s1 = (r', s2)" by (cases "effect x s1")
  have "st_ceremonies s2 = st_ceremonies s1" using silentD [OF assms(2) e] by simp
  moreover have "st_ceremonies (commitAudit sha a u s2) = st_ceremonies s2" for a u by (simp add: commitAudit_def Let_def)
  moreover have "st_ceremonies (restoreLocked q s2) = st_ceremonies s2" for q by (simp add: restoreLocked_def)
  ultimately show ?thesis using x p e assms(1)
    by (cases p) (auto simp: mutate_def finishCommitLocked_def split: option.splits)
qed

lemma mutate_mutator:
  assumes silent: "\<And>sha c. silent (effect sha c)"
  shows "mutator (\<lambda>sha ce c. mutate sha ce (guard sha c) (effect sha c) c)"
proof
  show "mutate sha (Some e) (guard sha c) (effect sha c) c s = (Inl e, s)" for sha e c s by (simp add: mutate_def)
  show "s' = s\<lparr>st_ceremonies := st_ceremonies s'\<rparr>
      \<or> hookRejects c e \<and> s' = s\<lparr>st_ceremonies := st_ceremonies s', st_oauthClientKeys := []\<rparr>"
    if "mutate sha ce (guard sha c) (effect sha c) c s = (Inl e, s')" for sha ce c s e s'
    using mutate_Inl [OF that silent] .
  show "st_ceremonies s' = st_ceremonies s \<or> st_ceremonies s' = st_ceremonies (snd (prepareCommitLocked c s))"
    if "mutate sha ce (guard sha c) (effect sha c) c s = (x, s')" for sha ce c s x s'
    using mutate_ceremonies [OF that silent] .
  fix sha ce c s r s'
  assume run: "mutate sha ce (guard sha c) (effect sha c) c s = (Inr r, s')"
  from mutate_Inr [OF run] obtain x previous s1 s2 where p: "prepareCommitLocked c s = (Inr previous, s1)"
    and e: "effect sha c x s1 = (r, s2)" and s': "s' = commitAudit sha (cmt_Audit c) (cmt_Unchained c) s2"
    and ok: "\<forall>e. \<not> hookRejects c e"
    by blast
  note s2 = silentD [OF silent e]
  have s1: "s1 = s\<lparr>st_ceremonies := st_ceremonies s1\<rparr>" by (rule prepare_cases(1) [OF p])
  have f: "st_audits s1 = st_audits s" "st_auditIDs s1 = st_auditIDs s" "st_auditSequence s1 = st_auditSequence s"
    "st_auditHead s1 = st_auditHead s" "st_auditFailure s1 = st_auditFailure s" "st_emailIssuance s1 = st_emailIssuance s"
    by (subst s1, simp)+
  have st: "stamped sha c s2 = stamped sha c s" using s2 f by (simp add: stamped_def Let_def)
  have rest: "st_auditFailure s' = st_auditFailure s2" "st_emailIssuance s' = st_emailIssuance s2"
    "st_ceremonies s' = st_ceremonies s2"
    by (simp_all add: s' commitAudit_def Let_def)
  show "canAudit (cmt_Audit c) s = None
      \<and> st_audits s' = st_audits s @ [stamped sha c s] \<and> st_auditIDs s' = insert (aud_ID (cmt_Audit c)) (st_auditIDs s)
      \<and> st_auditSequence s' = (if cmt_Unchained c then st_auditSequence s else st_auditSequence s + 1)
      \<and> st_auditHead s' = (if cmt_Unchained c then st_auditHead s else aud_Hash (stamped sha c s))
      \<and> st_auditFailure s' = st_auditFailure s \<and> st_emailIssuance s' = st_emailIssuance s
      \<and> (\<forall>e. \<not> hookRejects c e)"
    using prepare_cases(2) [OF p refl] ok s2 f rest by (simp add: s' commitAudit_stamped st)
  show "\<exists>previous s1. prepareCommitLocked c s = (Inr previous, s1) \<and> st_ceremonies s' = st_ceremonies s1"
    using p s2 rest by simp
qed simp

text \<open>A tentative operation is a mutator guarded by a check that returns early without an error.\<close>

lemma tentative_skip:
  assumes m: "mutator m" and all: "\<And>sha ce c s r s'. m sha ce c s = (Inr r, s') \<Longrightarrow> commits r"
    and none: "\<not> commits r0"
    and run: "\<And>sha ce c s. run sha ce c s = (if ce = None \<and> skip s then (Inr r0, s) else m sha ce c s)"
  shows "tentative run commits"
proof -
  from m have t: "tentative m (\<lambda>_. True)" by (simp add: mutator_def)
  show ?thesis
  proof
    fix sha ce c s
    show "run sha (Some e) c s = (Inl e, s)" for e
      by (simp add: run tentative.cancelled [OF t])
    show "s' = s\<lparr>st_ceremonies := st_ceremonies s'\<rparr>
      \<or> hookRejects c e \<and> s' = s\<lparr>st_ceremonies := st_ceremonies s', st_oauthClientKeys := []\<rparr>"
      if "run sha ce c s = (Inl e, s')" for e s'
      using that tentative.refused [OF t, of sha ce c s e s'] by (simp add: run split: if_splits)
    show "st_ceremonies s' = st_ceremonies s \<or> st_ceremonies s' = st_ceremonies (snd (prepareCommitLocked c s))"
      if "run sha ce c s = (x, s')" for x s'
      using that tentative.ceremonies [OF t, of sha ce c s x s'] by (auto simp: run split: if_splits)
    fix r s'
    assume r: "run sha ce c s = (Inr r, s')"
    show "s' = s" if "\<not> commits r" using r that all [of sha ce c s r s'] by (simp add: run split: if_splits)
    assume "commits r"
    with r none have "m sha ce c s = (Inr r, s')" by (auto simp: run split: if_splits)
    note f = tentative.committed [OF t this TrueI] tentative.consumed [OF t this TrueI]
    show "\<exists>previous s1. prepareCommitLocked c s = (Inr previous, s1) \<and> st_ceremonies s' = st_ceremonies s1" by (rule f(2))
    show "canAudit (cmt_Audit c) s = None
      \<and> st_audits s' = st_audits s @ [stamped sha c s] \<and> st_auditIDs s' = insert (aud_ID (cmt_Audit c)) (st_auditIDs s)
      \<and> st_auditSequence s' = (if cmt_Unchained c then st_auditSequence s else st_auditSequence s + 1)
      \<and> st_auditHead s' = (if cmt_Unchained c then st_auditHead s else aud_Hash (stamped sha c s))
      \<and> st_auditFailure s' = st_auditFailure s \<and> st_emailIssuance s' = st_emailIssuance s
      \<and> (\<forall>e. \<not> hookRejects c e)" by (rule f(1))
  qed
qed

text \<open>The shape in which a method's effect is usually seen to be silent.\<close>

lemma mutator_writes:
  assumes "\<And>sha c x s. auditSame (f sha c x s) s"
  shows "mutator (\<lambda>sha ce c. mutate sha ce (guard sha c) (writes (f sha c)) c)"
  using assms by (intro mutate_mutator) (simp add: silent_def writes_def)

interpretation append_audit: mutator "\<lambda>sha ce c. AppendAudit sha ce c"
  unfolding AppendAudit_def by (rule mutator_writes) (simp add: effect_defs)

end
