(* ===== verification/MemIdentity.thy ===== *)
theory MemIdentity
  imports MemContract
begin

text \<open>
  The account methods of the in-memory store: users, passwords, login throttling, password resets,
  email authentications and email addresses (\<^verbatim>\<open>memory/store.go\<close>, \<^verbatim>\<open>Bootstrap\<close> to \<^verbatim>\<open>RemoveEmail\<close>), each
  an instance of the mutator contract, with what each guarantees on success.
\<close>

section \<open>Shared reads and writes\<close>

definition orErr :: "error \<Rightarrow> 'a option \<Rightarrow> 'a result" where
  "orErr e x = (case x of None \<Rightarrow> Inl e | Some v \<Rightarrow> Inr v)"

lemma orErr_simps [simp]: "orErr e None = Inl e" "orErr e (Some v) = Inr v"
  by (simp_all add: orErr_def)

lemma orErr_Inr [simp]: "orErr e x = Inr v \<longleftrightarrow> x = Some v"
  by (cases x) auto

text \<open>A check that refuses with an error, and the sequence of checks of a method.\<close>

definition require :: "bool \<Rightarrow> error \<Rightarrow> 'a result \<Rightarrow> 'a result" where
  "require b e k = (if b then k else Inl e)"

lemma require_Inr [simp]: "require b e k = Inr v \<longleftrightarrow> b \<and> k = Inr v"
  by (simp add: require_def)

definition zeroUser :: user where
  "zeroUser = \<lparr>usr_ID = 0, usr_Email = [], usr_DisplayName = [], usr_Disabled = False, usr_LastSeenAt = None,
     usr_CreatedAt = zeroTime, usr_UpdatedAt = zeroTime\<rparr>"

text \<open>\<^verbatim>\<open>s.users[id]\<close> on a missing key is the zero user.\<close>

definition userOrZero :: "store \<Rightarrow> uuid \<Rightarrow> user" where
  "userOrZero s u = (case lookup (st_users s) u of None \<Rightarrow> zeroUser | Some x \<Rightarrow> x)"

definition membersOf :: "store \<Rightarrow> uuid \<Rightarrow> (uuid, membership) dict" where
  "membersOf s w = (case lookup (st_memberships s) w of None \<Rightarrow> [] | Some m \<Rightarrow> m)"

definition normalizeMembership :: "membership \<Rightarrow> membership" where
  "normalizeMembership m =
    (let m1 = (if mbr_Status m = [] then m\<lparr>mbr_Status := MembershipActive\<rparr> else m)
     in if mbr_ProvisioningSource m1 = [] then m1\<lparr>mbr_ProvisioningSource := ProvisioningSourceLocal\<rparr> else m1)"

text \<open>\<^verbatim>\<open>s.memberships[workspace.String()][user] = value\<close>, the inner map made when it is missing.\<close>

definition putMember :: "uuid \<Rightarrow> uuid \<Rightarrow> membership \<Rightarrow> store \<Rightarrow> store" where
  "putMember w u m s = s\<lparr>st_memberships := put w (put u m (membersOf s w)) (st_memberships s)\<rparr>"

definition touchLastSeenLocked :: "uuid \<Rightarrow> time \<Rightarrow> store \<Rightarrow> store" where
  "touchLastSeenLocked u seenAt s = s\<lparr>st_users := put u ((userOrZero s u)\<lparr>usr_LastSeenAt := Some seenAt\<rparr>) (st_users s)\<rparr>"

definition revokeUserCredentialsLocked :: "uuid \<Rightarrow> uuid \<Rightarrow> time \<Rightarrow> store \<Rightarrow> store" where
  "revokeUserCredentialsLocked u w at s = s\<lparr>
     st_pats := mapv (\<lambda>_ p. if pat_UserID p = u \<and> pat_RevokedAt p = None \<and> (w = 0 \<or> pat_WorkspaceID p = w)
       then p\<lparr>pat_RevokedAt := Some at\<rparr> else p) (st_pats s),
     st_oauthGrants := mapv (\<lambda>_ g. if ogr_UserID g = u \<and> ogr_RevokedAt g = None \<and> (w = 0 \<or> ogr_WorkspaceID g = w)
       then g\<lparr>ogr_RevokedAt := Some at\<rparr> else g) (st_oauthGrants s),
     st_oauthAccessTokens := mapv (\<lambda>_ t. if oat_UserID t = u \<and> oat_RevokedAt t = None \<and> (w = 0 \<or> oat_WorkspaceID t = w)
       then t\<lparr>oat_RevokedAt := Some at\<rparr> else t) (st_oauthAccessTokens s),
     st_oauthRefreshTokens := mapv (\<lambda>_ t. if ort_UserID t = u \<and> ort_RevokedAt t = None \<and> (w = 0 \<or> ort_WorkspaceID t = w)
       then t\<lparr>ort_RevokedAt := Some at\<rparr> else t) (st_oauthRefreshTokens s)\<rparr>"

definition revokeUserSessionsLocked :: "uuid \<Rightarrow> time \<Rightarrow> store \<Rightarrow> store" where
  "revokeUserSessionsLocked u at s = s\<lparr>st_sessions := mapv (\<lambda>_ x. if ses_UserID x = u \<and> ses_RevokedAt x = None
     then x\<lparr>ses_RevokedAt := Some at\<rparr> else x) (st_sessions s)\<rparr>"

section \<open>Users\<close>

definition Bootstrap :: "hashFn \<Rightarrow> error option \<Rightarrow> user \<Rightarrow> emailAddress \<Rightarrow> passwordCredential \<Rightarrow> workspace \<Rightarrow> membership
    \<Rightarrow> instanceAdministrator \<Rightarrow> commit \<Rightarrow> store \<Rightarrow> unit result \<times> store" where
  "Bootstrap sha ce user email password workspace membership admin commit =
    mutate sha ce (\<lambda>s. require (st_users s = []) ErrConflict (Inr ()))
     (writes (\<lambda>_ s. s\<lparr>
        st_users := put (usr_ID user) user (st_users s),
        st_emails := put (eml_Address email) (usr_ID user) (st_emails s),
        st_emailAddresses := put (eml_ID email) email (st_emailAddresses s),
        st_emailIDs := put (eml_Address email) (eml_ID email) (st_emailIDs s),
        st_passwords := put (usr_ID user) password (st_passwords s),
        st_workspaces := put (wsp_ID workspace) workspace (st_workspaces s),
        st_memberships := put (wsp_ID workspace) [(usr_ID user, normalizeMembership membership)] (st_memberships s),
        st_admins := put (usr_ID user) admin (st_admins s)\<rparr>)) commit"

definition storeCreateUser :: "hashFn \<Rightarrow> error option \<Rightarrow> user \<Rightarrow> emailAddress \<Rightarrow> passwordCredential \<Rightarrow> membership
    \<Rightarrow> commit \<Rightarrow> store \<Rightarrow> unit result \<times> store" where
  "storeCreateUser sha ce user email password membership commit =
    mutate sha ce (\<lambda>s.
        require (\<not> has (usr_ID user) (st_users s)) ErrConflict (
        require (\<not> has (eml_Address email) (st_emailIDs s)) ErrConflict (
        require (has (mbr_WorkspaceID membership) (st_workspaces s)) ErrNotFound (Inr ()))))
     (writes (\<lambda>_ s. putMember (mbr_WorkspaceID membership) (usr_ID user) (normalizeMembership membership) (s\<lparr>
        st_users := put (usr_ID user) user (st_users s),
        st_emails := put (eml_Address email) (usr_ID user) (st_emails s),
        st_emailAddresses := put (eml_ID email) email (st_emailAddresses s),
        st_emailIDs := put (eml_Address email) (eml_ID email) (st_emailIDs s),
        st_passwords := put (usr_ID user) password (st_passwords s)\<rparr>))) commit"

definition CreateSignup :: "hashFn \<Rightarrow> error option \<Rightarrow> user \<Rightarrow> emailAddress \<Rightarrow> emailVerificationCredential option
    \<Rightarrow> passwordCredential \<Rightarrow> workspace \<Rightarrow> membership \<Rightarrow> commit \<Rightarrow> store \<Rightarrow> unit result \<times> store" where
  "CreateSignup sha ce user email verification password workspace membership commit =
    mutate sha ce (\<lambda>s.
        require (\<not> has (usr_ID user) (st_users s)) ErrConflict (
        require (\<not> has (eml_Address email) (st_emailIDs s)) ErrConflict (
        require (\<not> has (wsp_ID workspace) (st_workspaces s)) ErrConflict (Inr ()))))
     (writes (\<lambda>_ s. s\<lparr>
        st_users := put (usr_ID user) user (st_users s),
        st_emailAddresses := put (eml_ID email) email (st_emailAddresses s),
        st_emailIDs := put (eml_Address email) (eml_ID email) (st_emailIDs s),
        st_emails := (if eml_VerifiedAt email \<noteq> None then put (eml_Address email) (usr_ID user) (st_emails s) else st_emails s),
        st_emailVerifications := (case verification of None \<Rightarrow> st_emailVerifications s
          | Some v \<Rightarrow> put (eml_ID email) v (st_emailVerifications s)),
        st_passwords := put (usr_ID user) password (st_passwords s),
        st_workspaces := put (wsp_ID workspace) workspace (st_workspaces s),
        st_memberships := put (wsp_ID workspace) [(usr_ID user, normalizeMembership membership)] (st_memberships s)\<rparr>)) commit"

definition UserByEmail :: "error option \<Rightarrow> string \<Rightarrow> store \<Rightarrow> user result \<times> store" where
  "UserByEmail ce email = reads ce (\<lambda>s. case lookup (st_emails s) email of
     None \<Rightarrow> Inl ErrNotFound | Some u \<Rightarrow> Inr (userOrZero s u))"

definition UserByID :: "error option \<Rightarrow> uuid \<Rightarrow> store \<Rightarrow> user result \<times> store" where
  "UserByID ce u = reads ce (\<lambda>s. orErr ErrNotFound (lookup (st_users s) u))"

definition enabledRoots :: "store \<Rightarrow> nat" where
  "enabledRoots s = count (\<lambda>u a. iad_Role a = InstanceRoleRoot \<and> \<not> usr_Disabled (userOrZero s u)) (st_admins s)"

definition activeAdmin :: "membership \<Rightarrow> bool" where
  "activeAdmin m = (mbr_Role m = RoleAdmin \<and> mbr_Status m = MembershipActive)"

definition hasOtherAdmin :: "store \<Rightarrow> uuid \<Rightarrow> (uuid, membership) dict \<Rightarrow> bool" where
  "hasOtherAdmin s u members =
    list_ex (\<lambda>(o', m). o' \<noteq> u \<and> activeAdmin m \<and> \<not> usr_Disabled (userOrZero s o')) members"

definition ownsWithoutOther :: "store \<Rightarrow> uuid \<Rightarrow> (uuid, membership) dict \<Rightarrow> bool" where
  "ownsWithoutOther s u members =
    (case lookup members u of None \<Rightarrow> False | Some m \<Rightarrow> activeAdmin m \<and> \<not> hasOtherAdmin s u members)"

definition SetUserDisabled :: "hashFn \<Rightarrow> error option \<Rightarrow> uuid \<Rightarrow> bool \<Rightarrow> time \<Rightarrow> commit \<Rightarrow> store \<Rightarrow> unit result \<times> store" where
  "SetUserDisabled sha ce userID disabled at commit =
    mutate sha ce (\<lambda>s. case lookup (st_users s) userID of
        None \<Rightarrow> Inl ErrNotFound
      | Some user \<Rightarrow>
          require (\<not> (disabled \<and> (case lookup (st_admins s) userID of None \<Rightarrow> False
             | Some admin \<Rightarrow> iad_Role admin = InstanceRoleRoot \<and> enabledRoots s \<le> 1))) ErrConflict (
          require (\<not> (disabled \<and> list_ex (\<lambda>(w, members). ownsWithoutOther s userID members) (st_memberships s))) ErrConflict (
          Inr user)))
     (writes (\<lambda>user s.
        let s1 = s\<lparr>st_users := put userID (user\<lparr>usr_Disabled := disabled, usr_UpdatedAt := at\<rparr>) (st_users s)\<rparr>
        in if disabled then revokeUserSessionsLocked userID at (revokeUserCredentialsLocked userID 0 at s1) else s1)) commit"

definition UpdateUser :: "hashFn \<Rightarrow> error option \<Rightarrow> user \<Rightarrow> commit \<Rightarrow> store \<Rightarrow> unit result \<times> store" where
  "UpdateUser sha ce user commit =
    mutate sha ce (\<lambda>s. orErr ErrNotFound (lookup (st_users s) (usr_ID user)))
     (writes (\<lambda>current s. s\<lparr>st_users := put (usr_ID user) (user\<lparr>usr_CreatedAt := usr_CreatedAt current,
        usr_Disabled := usr_Disabled current, usr_LastSeenAt := usr_LastSeenAt current\<rparr>) (st_users s)\<rparr>)) commit"

section \<open>Passwords and login throttling\<close>

definition PasswordByUserID :: "error option \<Rightarrow> uuid \<Rightarrow> store \<Rightarrow> passwordCredential result \<times> store" where
  "PasswordByUserID ce u = reads ce (\<lambda>s. orErr ErrNotFound (lookup (st_passwords s) u))"

definition storeChangePassword :: "hashFn \<Rightarrow> error option \<Rightarrow> passwordCredential \<Rightarrow> time \<Rightarrow> commit \<Rightarrow> store \<Rightarrow> unit result \<times> store" where
  "storeChangePassword sha ce password at commit =
    mutate sha ce (\<lambda>s. require (has (pwc_UserID password) (st_passwords s)) ErrNotFound (Inr ()))
     (writes (\<lambda>_ s. revokeUserSessionsLocked (pwc_UserID password) at
        (s\<lparr>st_passwords := put (pwc_UserID password) password (st_passwords s)\<rparr>))) commit"

text \<open>The stored credential is still the one a verification ran against.\<close>

definition hashIs :: "uuid \<Rightarrow> string \<Rightarrow> store \<Rightarrow> bool" where
  "hashIs u hash s = (case lookup (st_passwords s) u of None \<Rightarrow> False | Some credential \<Rightarrow> pwc_Hash credential = hash)"

definition RehashPassword :: "hashFn \<Rightarrow> error option \<Rightarrow> passwordCredential \<Rightarrow> string \<Rightarrow> commit \<Rightarrow> store \<Rightarrow> unit result \<times> store" where
  "RehashPassword sha ce password previousHash commit =
    mutate sha ce (\<lambda>s. require (hashIs (pwc_UserID password) previousHash s) ErrConflict (Inr ()))
     (writes (\<lambda>_ s. s\<lparr>st_passwords := put (pwc_UserID password) password (st_passwords s)\<rparr>)) commit"

definition clearThrottle :: "uuid \<Rightarrow> store \<Rightarrow> store" where
  "clearThrottle u s = s\<lparr>st_throttles := del u (st_throttles s)\<rparr>"

definition RecordAuthentication :: "hashFn \<Rightarrow> error option \<Rightarrow> uuid \<Rightarrow> time \<Rightarrow> commit \<Rightarrow> store \<Rightarrow> unit result \<times> store" where
  "RecordAuthentication sha ce userID seenAt commit =
    mutate sha ce (\<lambda>s. require (has userID (st_users s)) ErrNotFound (Inr ()))
     (writes (\<lambda>_ s. clearThrottle userID (touchLastSeenLocked userID seenAt s))) commit"

definition RecordPasswordAuthentication :: "hashFn \<Rightarrow> error option \<Rightarrow> uuid \<Rightarrow> string \<Rightarrow> time \<Rightarrow> commit \<Rightarrow> store
    \<Rightarrow> unit result \<times> store" where
  "RecordPasswordAuthentication sha ce userID currentHash seenAt commit =
    mutate sha ce (\<lambda>s.
        require (has userID (st_users s)) ErrNotFound (
        require (hashIs userID currentHash s) ErrConflict (Inr ())))
     (writes (\<lambda>_ s. clearThrottle userID (touchLastSeenLocked userID seenAt s))) commit"

definition LoginThrottleByUserID :: "error option \<Rightarrow> uuid \<Rightarrow> store \<Rightarrow> loginThrottle result \<times> store" where
  "LoginThrottleByUserID ce u = reads ce (\<lambda>s. orErr ErrNotFound (lookup (st_throttles s) u))"

definition zeroThrottle :: loginThrottle where
  "zeroThrottle = \<lparr>thr_UserID = 0, thr_FailedAttempts = 0, thr_LockedUntil = None, thr_UpdatedAt = zeroTime\<rparr>"

definition nextThrottle :: "uuid \<Rightarrow> time \<Rightarrow> int \<Rightarrow> time \<Rightarrow> store \<Rightarrow> loginThrottle" where
  "nextThrottle userID at threshold lockedUntil s =
    (let t0 = (case lookup (st_throttles s) userID of None \<Rightarrow> zeroThrottle | Some t \<Rightarrow> t);
         t1 = (case thr_LockedUntil t0 of None \<Rightarrow> t0 | Some l \<Rightarrow> if \<not> at < l then zeroThrottle else t0);
         t2 = t1\<lparr>thr_UserID := userID, thr_FailedAttempts := thr_FailedAttempts t1 + 1, thr_UpdatedAt := at\<rparr>
     in if threshold > 0 \<and> thr_FailedAttempts t2 \<ge> threshold then t2\<lparr>thr_LockedUntil := Some lockedUntil\<rparr> else t2)"

definition RecordLoginFailure :: "hashFn \<Rightarrow> error option \<Rightarrow> uuid \<Rightarrow> time \<Rightarrow> int \<Rightarrow> time \<Rightarrow> commit \<Rightarrow> store
    \<Rightarrow> loginThrottle result \<times> store" where
  "RecordLoginFailure sha ce userID at threshold lockedUntil commit =
    mutate sha ce (\<lambda>s. require (has userID (st_users s)) ErrNotFound (Inr ()))
     (\<lambda>_ s. let t = nextThrottle userID at threshold lockedUntil s
            in (t, s\<lparr>st_throttles := put userID t (st_throttles s)\<rparr>)) commit"

section \<open>Password resets and email authentications\<close>

definition CreatePasswordReset :: "hashFn \<Rightarrow> error option \<Rightarrow> passwordResetCredential \<Rightarrow> commit \<Rightarrow> store \<Rightarrow> unit result \<times> store" where
  "CreatePasswordReset sha ce credential commit =
    mutate sha ce (\<lambda>s.
        require (has (prc_UserID credential) (st_users s)) ErrNotFound (
        require (\<not> has (prc_ID credential) (st_passwordResets s)) ErrConflict (Inr ())))
     (writes (\<lambda>_ s. s\<lparr>st_passwordResets := put (prc_ID credential) credential (st_passwordResets s)\<rparr>)) commit"

definition PasswordResetByID :: "error option \<Rightarrow> uuid \<Rightarrow> store \<Rightarrow> passwordResetCredential result \<times> store" where
  "PasswordResetByID ce resetID = reads ce (\<lambda>s. orErr ErrNotFound (lookup (st_passwordResets s) resetID))"

definition storeCompletePasswordReset :: "hashFn \<Rightarrow> error option \<Rightarrow> uuid \<Rightarrow> passwordCredential \<Rightarrow> time \<Rightarrow> commit \<Rightarrow> store
    \<Rightarrow> unit result \<times> store" where
  "storeCompletePasswordReset sha ce resetID password at commit =
    mutate sha ce (\<lambda>s. case lookup (st_passwordResets s) resetID of
        None \<Rightarrow> Inl ErrNotFound
      | Some credential \<Rightarrow>
          require (prc_UsedAt credential = None) ErrConflict (
          require (has (pwc_UserID password) (st_users s)) ErrNotFound (Inr credential)))
     (writes (\<lambda>credential s.
        clearThrottle (pwc_UserID password) (
        revokeUserSessionsLocked (pwc_UserID password) at (
        revokeUserCredentialsLocked (pwc_UserID password) 0 at (s\<lparr>
          st_passwordResets := keep (\<lambda>i other. \<not> (i \<noteq> resetID \<and> prc_UserID other = pwc_UserID password))
            (put resetID (credential\<lparr>prc_UsedAt := Some at\<rparr>) (st_passwordResets s)),
          st_passwords := put (pwc_UserID password) password (st_passwords s)\<rparr>))))) commit"

definition CreateEmailAuthentication :: "hashFn \<Rightarrow> error option \<Rightarrow> emailAuthenticationCredential \<Rightarrow> commit \<Rightarrow> store
    \<Rightarrow> unit result \<times> store" where
  "CreateEmailAuthentication sha ce credential commit =
    mutate sha ce (\<lambda>s.
        require (has (eac_UserID credential) (st_users s)) ErrNotFound (
        require (\<not> has (eac_ID credential) (st_emailAuths s)) ErrConflict (Inr ())))
     (writes (\<lambda>_ s. s\<lparr>st_emailAuths := put (eac_ID credential) credential (st_emailAuths s)\<rparr>)) commit"

definition EmailAuthenticationByID :: "error option \<Rightarrow> uuid \<Rightarrow> store \<Rightarrow> emailAuthenticationCredential result \<times> store" where
  "EmailAuthenticationByID ce tokenID = reads ce (\<lambda>s. orErr ErrNotFound (lookup (st_emailAuths s) tokenID))"

definition ConsumeEmailAuthentication :: "hashFn \<Rightarrow> error option \<Rightarrow> uuid \<Rightarrow> uuid \<Rightarrow> time \<Rightarrow> bool \<Rightarrow> commit \<Rightarrow> store
    \<Rightarrow> unit result \<times> store" where
  "ConsumeEmailAuthentication sha ce tokenID userID at completesLogin commit =
    mutate sha ce (\<lambda>s. case lookup (st_emailAuths s) tokenID of
        None \<Rightarrow> Inl ErrNotFound
      | Some credential \<Rightarrow>
          require (eac_UserID credential = userID) ErrNotFound (
          require (eac_UsedAt credential = None) ErrConflict (Inr credential)))
     (writes (\<lambda>credential s.
        let s1 = s\<lparr>st_emailAuths := put tokenID (credential\<lparr>eac_UsedAt := Some at\<rparr>) (st_emailAuths s)\<rparr>
        in if completesLogin then clearThrottle userID (touchLastSeenLocked userID at s1) else s1)) commit"

section \<open>Email addresses\<close>

definition SaveEmail :: "hashFn \<Rightarrow> error option \<Rightarrow> emailAddress \<Rightarrow> emailVerificationCredential \<Rightarrow> commit \<Rightarrow> store
    \<Rightarrow> unit result \<times> store" where
  "SaveEmail sha ce email verification commit =
    mutate sha ce (\<lambda>s.
        require (has (eml_UserID email) (st_users s)) ErrNotFound (
        require (\<not> has (eml_ID email) (st_emailAddresses s)) ErrConflict (
        require (\<not> has (eml_Address email) (st_emailIDs s)) ErrConflict (Inr ()))))
     (writes (\<lambda>_ s. s\<lparr>
        st_emailAddresses := put (eml_ID email) email (st_emailAddresses s),
        st_emailIDs := put (eml_Address email) (eml_ID email) (st_emailIDs s),
        st_emailVerifications := put (eml_ID email) verification (st_emailVerifications s)\<rparr>)) commit"

definition zeroVerification :: emailVerificationCredential where
  "zeroVerification = \<lparr>evc_EmailID = 0, evc_Digest = [], evc_ExpiresAt = zeroTime\<rparr>"

definition EmailVerificationByID :: "error option \<Rightarrow> uuid \<Rightarrow> store
    \<Rightarrow> (emailAddress \<times> emailVerificationCredential) result \<times> store" where
  "EmailVerificationByID ce emailID = reads ce (\<lambda>s. case lookup (st_emailAddresses s) emailID of
     None \<Rightarrow> Inl ErrNotFound
   | Some email \<Rightarrow> Inr (email, case lookup (st_emailVerifications s) emailID of None \<Rightarrow> zeroVerification | Some v \<Rightarrow> v))"

definition ClaimEmailIssuance :: "error option \<Rightarrow> string \<Rightarrow> string \<Rightarrow> time \<Rightarrow> time \<Rightarrow> store \<Rightarrow> bool result \<times> store" where
  "ClaimEmailIssuance ce address purpose at notBefore s =
    (case ce of Some e \<Rightarrow> (Inl e, s) | None \<Rightarrow>
     let s1 = s\<lparr>st_emailIssuance := keep (\<lambda>_ prior. prior > notBefore) (st_emailIssuance s)\<rparr>;
         key = address @ [CHR 0x00] @ purpose
     in if (case lookup (st_emailIssuance s1) key of None \<Rightarrow> False | Some prior \<Rightarrow> prior > notBefore)
        then (Inr False, s1)
        else (Inr True, s1\<lparr>st_emailIssuance := put key at (st_emailIssuance s1)\<rparr>))"

definition EmailByAddress :: "error option \<Rightarrow> string \<Rightarrow> store \<Rightarrow> emailAddress result \<times> store" where
  "EmailByAddress ce address = reads ce (\<lambda>s. case lookup (st_emailIDs s) address of
     None \<Rightarrow> Inl ErrNotFound
   | Some emailID \<Rightarrow> orErr ErrNotFound (lookup (st_emailAddresses s) emailID))"

definition ReissueEmailVerification :: "hashFn \<Rightarrow> error option \<Rightarrow> uuid \<Rightarrow> emailVerificationCredential \<Rightarrow> commit \<Rightarrow> store
    \<Rightarrow> unit result \<times> store" where
  "ReissueEmailVerification sha ce emailID verification commit =
    mutate sha ce (\<lambda>s. case lookup (st_emailAddresses s) emailID of
        None \<Rightarrow> Inl ErrConflict
      | Some email \<Rightarrow> require (eml_VerifiedAt email = None) ErrConflict (Inr email))
     (writes (\<lambda>email s. s\<lparr>
        st_emailAddresses := put emailID (email\<lparr>eml_UpdatedAt := aud_OccurredAt (cmt_Audit commit)\<rparr>) (st_emailAddresses s),
        st_emailVerifications := put emailID verification (st_emailVerifications s)\<rparr>)) commit"

definition storeVerifyEmail :: "hashFn \<Rightarrow> error option \<Rightarrow> uuid \<Rightarrow> time \<Rightarrow> commit \<Rightarrow> store \<Rightarrow> unit result \<times> store" where
  "storeVerifyEmail sha ce emailID verifiedAt commit =
    mutate sha ce (\<lambda>s. case lookup (st_emailAddresses s) emailID of
        None \<Rightarrow> Inl ErrNotFound
      | Some email \<Rightarrow> require (eml_VerifiedAt email = None) ErrConflict (Inr email))
     (writes (\<lambda>email s. s\<lparr>
        st_emailAddresses := put emailID (email\<lparr>eml_VerifiedAt := Some verifiedAt, eml_UpdatedAt := verifiedAt\<rparr>)
          (st_emailAddresses s),
        st_emails := put (eml_Address email) (eml_UserID email) (st_emails s),
        st_emailVerifications := del emailID (st_emailVerifications s)\<rparr>)) commit"

definition storeSetPrimaryEmail :: "hashFn \<Rightarrow> error option \<Rightarrow> uuid \<Rightarrow> uuid \<Rightarrow> commit \<Rightarrow> store \<Rightarrow> unit result \<times> store" where
  "storeSetPrimaryEmail sha ce userID emailID commit =
    mutate sha ce (\<lambda>s. case lookup (st_emailAddresses s) emailID of
        None \<Rightarrow> Inl ErrNotFound
      | Some target \<Rightarrow>
          require (eml_UserID target = userID) ErrNotFound (
          require (eml_VerifiedAt target \<noteq> None) ErrConflict (Inr target)))
     (writes (\<lambda>target s. let at = aud_OccurredAt (cmt_Audit commit) in s\<lparr>
        st_emailAddresses := put emailID (target\<lparr>eml_Primary := True, eml_UpdatedAt := at\<rparr>)
          (mapv (\<lambda>_ email. if eml_UserID email = userID \<and> eml_Primary email
              then email\<lparr>eml_Primary := False, eml_UpdatedAt := at\<rparr> else email) (st_emailAddresses s)),
        st_users := put userID ((userOrZero s userID)\<lparr>usr_Email := eml_Address target, usr_UpdatedAt := at\<rparr>)
          (st_users s)\<rparr>)) commit"

definition storeRemoveEmail :: "hashFn \<Rightarrow> error option \<Rightarrow> uuid \<Rightarrow> uuid \<Rightarrow> commit \<Rightarrow> store \<Rightarrow> unit result \<times> store" where
  "storeRemoveEmail sha ce userID emailID commit =
    mutate sha ce (\<lambda>s. case lookup (st_emailAddresses s) emailID of
        None \<Rightarrow> Inl ErrNotFound
      | Some email \<Rightarrow>
          require (eml_UserID email = userID) ErrNotFound (
          require (\<not> eml_Primary email) ErrConflict (
          require (\<not> (eml_VerifiedAt email \<noteq> None \<and>
             count (\<lambda>_ e. eml_UserID e = userID \<and> eml_VerifiedAt e \<noteq> None) (st_emailAddresses s) \<le> 1)) ErrConflict (
          Inr email))))
     (writes (\<lambda>email s. s\<lparr>
        st_emails := del (eml_Address email) (st_emails s),
        st_emailIDs := del (eml_Address email) (st_emailIDs s),
        st_emailAddresses := del emailID (st_emailAddresses s),
        st_emailVerifications := del emailID (st_emailVerifications s)\<rparr>)) commit"

section \<open>The contract\<close>

declare putMember_def [effect_defs] touchLastSeenLocked_def [effect_defs] revokeUserCredentialsLocked_def [effect_defs]
  revokeUserSessionsLocked_def [effect_defs] clearThrottle_def [effect_defs] Let_def [effect_defs]

interpretation bootstrap: mutator "\<lambda>sha ce c. Bootstrap sha ce u e p w m a c" for u e p w m a
  unfolding Bootstrap_def by (rule mutator_writes) (simp add: effect_defs)

interpretation create_user: mutator "\<lambda>sha ce c. storeCreateUser sha ce u e p m c" for u e p m
  unfolding storeCreateUser_def by (rule mutator_writes) (simp add: effect_defs)

interpretation create_signup: mutator "\<lambda>sha ce c. CreateSignup sha ce u e v p w m c" for u e v p w m
  unfolding CreateSignup_def by (rule mutator_writes) (simp add: effect_defs)

interpretation set_user_disabled: mutator "\<lambda>sha ce c. SetUserDisabled sha ce u d t c" for u d t
  unfolding SetUserDisabled_def by (rule mutator_writes) (simp add: effect_defs)

interpretation update_user: mutator "\<lambda>sha ce c. UpdateUser sha ce u c" for u
  unfolding UpdateUser_def by (rule mutator_writes) (simp add: effect_defs)

interpretation change_password: mutator "\<lambda>sha ce c. storeChangePassword sha ce p t c" for p t
  unfolding storeChangePassword_def by (rule mutator_writes) (simp add: effect_defs)

interpretation rehash_password: mutator "\<lambda>sha ce c. RehashPassword sha ce p h c" for p h
  unfolding RehashPassword_def by (rule mutator_writes) (simp add: effect_defs)

interpretation record_authentication: mutator "\<lambda>sha ce c. RecordAuthentication sha ce u t c" for u t
  unfolding RecordAuthentication_def by (rule mutator_writes) (simp add: effect_defs)

interpretation record_password_authentication: mutator "\<lambda>sha ce c. RecordPasswordAuthentication sha ce u h t c" for u h t
  unfolding RecordPasswordAuthentication_def by (rule mutator_writes) (simp add: effect_defs)

interpretation create_password_reset: mutator "\<lambda>sha ce c. CreatePasswordReset sha ce r c" for r
  unfolding CreatePasswordReset_def by (rule mutator_writes) (simp add: effect_defs)

interpretation complete_password_reset: mutator "\<lambda>sha ce c. storeCompletePasswordReset sha ce r p t c" for r p t
  unfolding storeCompletePasswordReset_def by (rule mutator_writes) (simp add: effect_defs)

interpretation create_email_authentication: mutator "\<lambda>sha ce c. CreateEmailAuthentication sha ce r c" for r
  unfolding CreateEmailAuthentication_def by (rule mutator_writes) (simp add: effect_defs)

interpretation consume_email_authentication: mutator "\<lambda>sha ce c. ConsumeEmailAuthentication sha ce i u t b c" for i u t b
  unfolding ConsumeEmailAuthentication_def by (rule mutator_writes) (simp add: effect_defs)

interpretation save_email: mutator "\<lambda>sha ce c. SaveEmail sha ce e v c" for e v
  unfolding SaveEmail_def by (rule mutator_writes) (simp add: effect_defs)

interpretation reissue_email_verification: mutator "\<lambda>sha ce c. ReissueEmailVerification sha ce i v c" for i v
  unfolding ReissueEmailVerification_def by (rule mutator_writes) (simp add: effect_defs)

interpretation verify_email: mutator "\<lambda>sha ce c. storeVerifyEmail sha ce i t c" for i t
  unfolding storeVerifyEmail_def by (rule mutator_writes) (simp add: effect_defs)

interpretation set_primary_email: mutator "\<lambda>sha ce c. storeSetPrimaryEmail sha ce u i c" for u i
  unfolding storeSetPrimaryEmail_def by (rule mutator_writes) (simp add: effect_defs)

interpretation remove_email: mutator "\<lambda>sha ce c. storeRemoveEmail sha ce u i c" for u i
  unfolding storeRemoveEmail_def by (rule mutator_writes) (simp add: effect_defs)

interpretation record_login_failure: mutator "\<lambda>sha ce c. RecordLoginFailure sha ce u t n l c" for u t n l
  unfolding RecordLoginFailure_def by (rule mutate_mutator) (simp add: silent_def effect_defs)

end
