(* ===== verification/MemFactors.thy ===== *)
theory MemFactors
  imports MemIdentity
begin

text \<open>
  The second-factor methods of the in-memory store: TOTP factors, recovery codes and passkeys
  (\<^verbatim>\<open>memory/store.go\<close>, \<^verbatim>\<open>TOTPByUserID\<close> to \<^verbatim>\<open>DeletePasskey\<close>). \<^verbatim>\<open>hmac.Equal\<close> is equality of the two byte
  strings, compared in constant time.
\<close>

section \<open>TOTP and recovery codes\<close>

definition TOTPByUserID :: "error option \<Rightarrow> uuid \<Rightarrow> store \<Rightarrow> totpFactor result \<times> store" where
  "TOTPByUserID ce u = reads ce (\<lambda>s. orErr ErrNotFound (lookup (st_totp s) u))"

definition totpActive :: "uuid \<Rightarrow> store \<Rightarrow> bool" where
  "totpActive u s = (case lookup (st_totp s) u of None \<Rightarrow> False | Some f \<Rightarrow> otp_Active f)"

definition SaveTOTPEnrollment :: "hashFn \<Rightarrow> error option \<Rightarrow> totpFactor \<Rightarrow> commit \<Rightarrow> store \<Rightarrow> unit result \<times> store" where
  "SaveTOTPEnrollment sha ce factor commit =
    mutate sha ce (\<lambda>s.
        require (\<not> totpActive (otp_UserID factor) s) ErrConflict (
        require (has (otp_UserID factor) (st_users s)) ErrNotFound (Inr ())))
     (writes (\<lambda>_ s. s\<lparr>
        st_totp := put (otp_UserID factor) factor (st_totp s),
        st_recovery := del (otp_UserID factor) (st_recovery s)\<rparr>)) commit"

definition ActivateTOTP :: "hashFn \<Rightarrow> error option \<Rightarrow> totpFactor \<Rightarrow> recoveryCode list \<Rightarrow> commit \<Rightarrow> store
    \<Rightarrow> unit result \<times> store" where
  "ActivateTOTP sha ce factor codes commit =
    mutate sha ce (\<lambda>s.
        require (has (otp_UserID factor) (st_totp s) \<and> \<not> totpActive (otp_UserID factor) s) ErrConflict (Inr ()))
     (writes (\<lambda>_ s. s\<lparr>
        st_totp := put (otp_UserID factor) factor (st_totp s),
        st_recovery := put (otp_UserID factor) codes (st_recovery s)\<rparr>)) commit"

text \<open>The step was already consumed: the replay is reported as false, without an error.\<close>

definition totpReplay :: "uuid \<Rightarrow> int \<Rightarrow> store \<Rightarrow> bool" where
  "totpReplay u step s =
    (case lookup (st_totp s) u of None \<Rightarrow> False | Some f \<Rightarrow> otp_Active f \<and> step \<le> otp_LastUsedStep f)"

definition useTOTPFresh :: "hashFn \<Rightarrow> error option \<Rightarrow> uuid \<Rightarrow> int \<Rightarrow> commit \<Rightarrow> store \<Rightarrow> bool result \<times> store" where
  "useTOTPFresh sha ce userID step commit =
    mutate sha ce (\<lambda>s. case lookup (st_totp s) userID of
        None \<Rightarrow> Inl ErrNotFound
      | Some factor \<Rightarrow> require (otp_Active factor) ErrNotFound (Inr factor))
     (\<lambda>factor s. let at = aud_OccurredAt (cmt_Audit commit) in
       (True, clearThrottle userID (touchLastSeenLocked userID at
         (s\<lparr>st_totp := put userID (factor\<lparr>otp_LastUsedStep := step, otp_UpdatedAt := at\<rparr>) (st_totp s)\<rparr>)))) commit"

definition UseTOTP :: "hashFn \<Rightarrow> error option \<Rightarrow> uuid \<Rightarrow> int \<Rightarrow> commit \<Rightarrow> store \<Rightarrow> bool result \<times> store" where
  "UseTOTP sha ce userID step commit s =
    (if ce = None \<and> totpReplay userID step s then (Inr False, s) else useTOTPFresh sha ce userID step commit s)"

definition recoveryOf :: "store \<Rightarrow> uuid \<Rightarrow> recoveryCode list" where
  "recoveryOf s u = (case lookup (st_recovery s) u of None \<Rightarrow> [] | Some codes \<Rightarrow> codes)"

definition unusedMatch :: "bytes \<Rightarrow> recoveryCode \<Rightarrow> bool" where
  "unusedMatch digest code = (rcv_UsedAt code = None \<and> rcv_Digest code = digest)"

text \<open>The loop marks the first unused code that matches.\<close>

fun markUsed :: "bytes \<Rightarrow> time \<Rightarrow> recoveryCode list \<Rightarrow> recoveryCode list" where
  "markUsed digest at [] = []"
| "markUsed digest at (c # cs) =
    (if unusedMatch digest c then c\<lparr>rcv_UsedAt := Some at\<rparr> # cs else c # markUsed digest at cs)"

definition consumeRecoveryFound :: "hashFn \<Rightarrow> error option \<Rightarrow> uuid \<Rightarrow> bytes \<Rightarrow> time \<Rightarrow> commit \<Rightarrow> store \<Rightarrow> bool result \<times> store" where
  "consumeRecoveryFound sha ce userID digest usedAt commit =
    mutate sha ce (\<lambda>s. Inr ())
     (\<lambda>_ s. (True, clearThrottle userID (touchLastSeenLocked userID usedAt
       (s\<lparr>st_recovery := put userID (markUsed digest usedAt (recoveryOf s userID)) (st_recovery s)\<rparr>)))) commit"

definition ConsumeRecoveryCode :: "hashFn \<Rightarrow> error option \<Rightarrow> uuid \<Rightarrow> bytes \<Rightarrow> time \<Rightarrow> commit \<Rightarrow> store \<Rightarrow> bool result \<times> store" where
  "ConsumeRecoveryCode sha ce userID digest usedAt commit s =
    (if ce = None \<and> \<not> list_ex (unusedMatch digest) (recoveryOf s userID) then (Inr False, s)
     else consumeRecoveryFound sha ce userID digest usedAt commit s)"

definition CountUnusedRecoveryCodes :: "error option \<Rightarrow> uuid \<Rightarrow> store \<Rightarrow> nat result \<times> store" where
  "CountUnusedRecoveryCodes ce u = reads ce (\<lambda>s. Inr (length (filter (\<lambda>c. rcv_UsedAt c = None) (recoveryOf s u))))"

definition storeDisableTOTP :: "hashFn \<Rightarrow> error option \<Rightarrow> uuid \<Rightarrow> commit \<Rightarrow> store \<Rightarrow> unit result \<times> store" where
  "storeDisableTOTP sha ce userID commit =
    mutate sha ce (\<lambda>s. require (has userID (st_totp s)) ErrNotFound (Inr ()))
     (writes (\<lambda>_ s. s\<lparr>st_totp := del userID (st_totp s), st_recovery := del userID (st_recovery s)\<rparr>)) commit"

definition ReplaceRecoveryCodes :: "hashFn \<Rightarrow> error option \<Rightarrow> uuid \<Rightarrow> recoveryCode list \<Rightarrow> commit \<Rightarrow> store
    \<Rightarrow> unit result \<times> store" where
  "ReplaceRecoveryCodes sha ce userID codes commit =
    mutate sha ce (\<lambda>s. require (totpActive userID s) ErrNotFound (Inr ()))
     (writes (\<lambda>_ s. s\<lparr>st_recovery := put userID codes (st_recovery s)\<rparr>)) commit"

definition storeResetSecondFactor :: "hashFn \<Rightarrow> error option \<Rightarrow> uuid \<Rightarrow> time \<Rightarrow> commit \<Rightarrow> store \<Rightarrow> unit result \<times> store" where
  "storeResetSecondFactor sha ce userID at commit =
    mutate sha ce (\<lambda>s. require (has userID (st_users s)) ErrNotFound (Inr ()))
     (writes (\<lambda>_ s. revokeUserSessionsLocked userID at (s\<lparr>
        st_totp := del userID (st_totp s), st_recovery := del userID (st_recovery s),
        st_passkeys := del userID (st_passkeys s)\<rparr>))) commit"

section \<open>Passkeys\<close>

definition passkeysOf :: "store \<Rightarrow> uuid \<Rightarrow> (uuid, passkey) dict" where
  "passkeysOf s u = (case lookup (st_passkeys s) u of None \<Rightarrow> [] | Some m \<Rightarrow> m)"

text \<open>All passkeys of all users, in the order the two nested loops meet them.\<close>

definition allPasskeys :: "store \<Rightarrow> passkey list" where
  "allPasskeys s = concat (map (\<lambda>(_, byID). map snd byID) (st_passkeys s))"

text \<open>A stream asks the context again before each value it yields.\<close>

fun streamEach :: "(nat \<Rightarrow> error option) \<Rightarrow> nat \<Rightarrow> 'a list \<Rightarrow> 'a result list" where
  "streamEach ctxErr k [] = []"
| "streamEach ctxErr k (x # xs) = (case ctxErr k of Some e \<Rightarrow> [Inl e] | None \<Rightarrow> Inr x # streamEach ctxErr (Suc k) xs)"

definition storePasskeys :: "error option \<Rightarrow> (nat \<Rightarrow> error option) \<Rightarrow> uuid \<Rightarrow> store \<Rightarrow> passkey result list" where
  "storePasskeys ce ctxErr u s = (case ce of
     Some e \<Rightarrow> [Inl e]
   | None \<Rightarrow> streamEach ctxErr 0 (sort_key pk_CreatedAt (sort_key pk_ID (map snd (passkeysOf s u)))))"

definition SavePasskey :: "hashFn \<Rightarrow> error option \<Rightarrow> passkey \<Rightarrow> commit \<Rightarrow> store \<Rightarrow> unit result \<times> store" where
  "SavePasskey sha ce pk commit =
    mutate sha ce (\<lambda>s.
        require (has (pk_UserID pk) (st_users s)) ErrNotFound (
        require (\<not> list_ex (\<lambda>x. pk_CredentialID x = pk_CredentialID pk) (allPasskeys s)) ErrConflict (Inr ())))
     (writes (\<lambda>_ s. s\<lparr>st_passkeys := put (pk_UserID pk) (put (pk_ID pk) pk (passkeysOf s (pk_UserID pk))) (st_passkeys s)\<rparr>)) commit"

definition PasskeyByCredentialID :: "error option \<Rightarrow> bytes \<Rightarrow> store \<Rightarrow> passkey result \<times> store" where
  "PasskeyByCredentialID ce credentialID = reads ce (\<lambda>s.
     orErr ErrNotFound (find (\<lambda>p. pk_CredentialID p = credentialID) (allPasskeys s)))"

definition TouchPasskey :: "hashFn \<Rightarrow> error option \<Rightarrow> uuid \<Rightarrow> bytes \<Rightarrow> bytes \<Rightarrow> time \<Rightarrow> commit \<Rightarrow> store
    \<Rightarrow> unit result \<times> store" where
  "TouchPasskey sha ce userID credentialID credentialJSON usedAt commit =
    mutate sha ce (\<lambda>s. orErr ErrNotFound (find (\<lambda>(i, p). pk_CredentialID p = credentialID) (passkeysOf s userID)))
     (writes (\<lambda>(i, p) s. clearThrottle userID (touchLastSeenLocked userID usedAt (s\<lparr>
        st_passkeys := put userID (put i (p\<lparr>pk_CredentialJSON := credentialJSON, pk_LastUsedAt := Some usedAt\<rparr>)
          (passkeysOf s userID)) (st_passkeys s)\<rparr>)))) commit"

definition DeletePasskey :: "hashFn \<Rightarrow> error option \<Rightarrow> uuid \<Rightarrow> uuid \<Rightarrow> commit \<Rightarrow> store \<Rightarrow> unit result \<times> store" where
  "DeletePasskey sha ce userID passkeyID commit =
    mutate sha ce (\<lambda>s. require (has passkeyID (passkeysOf s userID)) ErrNotFound (Inr ()))
     (writes (\<lambda>_ s. s\<lparr>st_passkeys := put userID (del passkeyID (passkeysOf s userID)) (st_passkeys s)\<rparr>)) commit"

section \<open>The contract\<close>

interpretation save_totp_enrollment: mutator "\<lambda>sha ce c. SaveTOTPEnrollment sha ce f c" for f
  unfolding SaveTOTPEnrollment_def by (rule mutator_writes) (simp add: effect_defs)

interpretation activate_totp: mutator "\<lambda>sha ce c. ActivateTOTP sha ce f r c" for f r
  unfolding ActivateTOTP_def by (rule mutator_writes) (simp add: effect_defs)

interpretation use_totp_fresh: mutator "\<lambda>sha ce c. useTOTPFresh sha ce u n c" for u n
  unfolding useTOTPFresh_def by (rule mutate_mutator) (simp add: silent_def effect_defs)

lemma useTOTPFresh_true: "useTOTPFresh sha ce u n c s = (Inr r, s') \<Longrightarrow> r"
  unfolding useTOTPFresh_def by (drule mutate_Inr) (auto simp: Let_def)

interpretation use_totp: tentative "\<lambda>sha ce c. UseTOTP sha ce u n c" "\<lambda>b. b" for u n
  by (rule tentative_skip [OF use_totp_fresh.mutator_axioms])
     (auto simp: UseTOTP_def dest: useTOTPFresh_true)

interpretation consume_recovery_found: mutator "\<lambda>sha ce c. consumeRecoveryFound sha ce u d t c" for u d t
  unfolding consumeRecoveryFound_def by (rule mutate_mutator) (simp add: silent_def effect_defs)

lemma consumeRecoveryFound_true: "consumeRecoveryFound sha ce u d t c s = (Inr r, s') \<Longrightarrow> r"
  unfolding consumeRecoveryFound_def by (drule mutate_Inr) auto

interpretation consume_recovery_code: tentative "\<lambda>sha ce c. ConsumeRecoveryCode sha ce u d t c" "\<lambda>b. b" for u d t
  by (rule tentative_skip [OF consume_recovery_found.mutator_axioms])
     (auto simp: ConsumeRecoveryCode_def dest: consumeRecoveryFound_true)

interpretation disable_totp: mutator "\<lambda>sha ce c. storeDisableTOTP sha ce u c" for u
  unfolding storeDisableTOTP_def by (rule mutator_writes) (simp add: effect_defs)

interpretation replace_recovery_codes: mutator "\<lambda>sha ce c. ReplaceRecoveryCodes sha ce u r c" for u r
  unfolding ReplaceRecoveryCodes_def by (rule mutator_writes) (simp add: effect_defs)

interpretation reset_second_factor: mutator "\<lambda>sha ce c. storeResetSecondFactor sha ce u t c" for u t
  unfolding storeResetSecondFactor_def by (rule mutator_writes) (simp add: effect_defs)

interpretation save_passkey: mutator "\<lambda>sha ce c. SavePasskey sha ce p c" for p
  unfolding SavePasskey_def by (rule mutator_writes) (simp add: effect_defs)

interpretation touch_passkey: mutator "\<lambda>sha ce c. TouchPasskey sha ce u i j t c" for u i j t
  unfolding TouchPasskey_def by (rule mutator_writes) (simp add: effect_defs split: prod.splits)

interpretation delete_passkey: mutator "\<lambda>sha ce c. DeletePasskey sha ce u i c" for u i
  unfolding DeletePasskey_def by (rule mutator_writes) (simp add: effect_defs)

end
