(* ===== verification/MemTokens.thy ===== *)
theory MemTokens
  imports MemFactors
begin

text \<open>
  Personal access tokens, sessions, credential revocation and anonymization in the in-memory store
  (\<^verbatim>\<open>memory/store.go\<close>, \<^verbatim>\<open>CreatePAT\<close> to \<^verbatim>\<open>RevokeUserSessions\<close>), with the two SCIM index helpers of
  \<^verbatim>\<open>memory/scim.go\<close> that anonymization calls.
\<close>

section \<open>Personal access tokens\<close>

definition storeCreatePAT :: "hashFn \<Rightarrow> error option \<Rightarrow> pat \<Rightarrow> commit \<Rightarrow> store \<Rightarrow> unit result \<times> store" where
  "storeCreatePAT sha ce p commit =
    mutate sha ce (\<lambda>s.
        require (\<not> has (pat_ID p) (st_pats s)) ErrConflict (
        require (\<not> has (pat_Prefix p) (st_patPrefixes s)) ErrConflict (
        require (has (pat_UserID p) (st_users s)) ErrNotFound (Inr ()))))
     (writes (\<lambda>_ s. s\<lparr>
        st_pats := put (pat_ID p) p (st_pats s),
        st_patPrefixes := put (pat_Prefix p) (pat_ID p) (st_patPrefixes s)\<rparr>)) commit"

definition zeroPAT :: pat where
  "zeroPAT = \<lparr>pat_ID = 0, pat_UserID = 0, pat_Name = [], pat_Prefix = [], pat_Digest = [], pat_WorkspaceID = 0,
     pat_Scopes = [], pat_CreatedAt = zeroTime, pat_ExpiresAt = None, pat_LastUsedAt = None, pat_RevokedAt = None\<rparr>"

definition PATByPrefix :: "error option \<Rightarrow> string \<Rightarrow> store \<Rightarrow> pat result \<times> store" where
  "PATByPrefix ce prefix = reads ce (\<lambda>s. case lookup (st_patPrefixes s) prefix of
     None \<Rightarrow> Inl ErrNotFound
   | Some i \<Rightarrow> Inr (case lookup (st_pats s) i of None \<Rightarrow> zeroPAT | Some p \<Rightarrow> p))"

definition TouchPAT :: "hashFn \<Rightarrow> error option \<Rightarrow> uuid \<Rightarrow> time \<Rightarrow> commit \<Rightarrow> store \<Rightarrow> unit result \<times> store" where
  "TouchPAT sha ce i usedAt commit =
    mutate sha ce (\<lambda>s. orErr ErrNotFound (lookup (st_pats s) i))
     (writes (\<lambda>p s. touchLastSeenLocked (pat_UserID p) usedAt
        (s\<lparr>st_pats := put i (p\<lparr>pat_LastUsedAt := Some usedAt\<rparr>) (st_pats s)\<rparr>))) commit"

definition storeRevokePAT :: "hashFn \<Rightarrow> error option \<Rightarrow> uuid \<Rightarrow> uuid \<Rightarrow> time \<Rightarrow> commit \<Rightarrow> store \<Rightarrow> unit result \<times> store" where
  "storeRevokePAT sha ce userID i revokedAt commit =
    mutate sha ce (\<lambda>s. case lookup (st_pats s) i of
        None \<Rightarrow> Inl ErrNotFound
      | Some p \<Rightarrow> require (pat_UserID p = userID) ErrNotFound (Inr p))
     (writes (\<lambda>p s. s\<lparr>st_pats := put i (p\<lparr>pat_RevokedAt := Some revokedAt\<rparr>) (st_pats s)\<rparr>)) commit"

definition PATByID :: "error option \<Rightarrow> uuid \<Rightarrow> store \<Rightarrow> pat result \<times> store" where
  "PATByID ce i = reads ce (\<lambda>s. orErr ErrNotFound (lookup (st_pats s) i))"

definition RevokeUserCredentials :: "hashFn \<Rightarrow> error option \<Rightarrow> uuid \<Rightarrow> time \<Rightarrow> commit \<Rightarrow> store \<Rightarrow> unit result \<times> store" where
  "RevokeUserCredentials sha ce userID at commit =
    mutate sha ce (\<lambda>s. require (has userID (st_users s)) ErrNotFound (Inr ()))
     (writes (\<lambda>_ s. revokeUserSessionsLocked userID at (revokeUserCredentialsLocked userID 0 at s))) commit"

section \<open>Anonymization\<close>

definition scimKey :: "uuid \<Rightarrow> string \<Rightarrow> string" where
  "scimKey configurationID v = UUID_String configurationID @ [CHR 0x00] @ v"

definition putSCIMUserLocked :: "scimUser \<Rightarrow> store \<Rightarrow> store" where
  "putSCIMUserLocked link s = s\<lparr>
     st_scimUsers := put (susr_ID link) link (st_scimUsers s),
     st_scimUserNames := put (scimKey (susr_ConfigurationID link) (susr_UserName link)) (susr_ID link) (st_scimUserNames s),
     st_scimExternalIDs := (if susr_ExternalID link \<noteq> []
       then put (scimKey (susr_ConfigurationID link) (susr_ExternalID link)) (susr_ID link) (st_scimExternalIDs s)
       else st_scimExternalIDs s)\<rparr>"

definition deleteSCIMUserIndexesLocked :: "scimUser \<Rightarrow> store \<Rightarrow> store" where
  "deleteSCIMUserIndexesLocked link s = s\<lparr>
     st_scimUserNames := del (scimKey (susr_ConfigurationID link) (susr_UserName link)) (st_scimUserNames s),
     st_scimExternalIDs := (if susr_ExternalID link \<noteq> []
       then del (scimKey (susr_ConfigurationID link) (susr_ExternalID link)) (st_scimExternalIDs s)
       else st_scimExternalIDs s)\<rparr>"

definition anonymizedAddress :: "uuid \<Rightarrow> string" where
  "anonymizedAddress i = ''anonymized-'' @ UUID_String i @ ''@invalid''"

definition anonymizeEmail :: "uuid \<Rightarrow> time \<Rightarrow> user \<times> store \<Rightarrow> uuid \<times> emailAddress \<Rightarrow> user \<times> store" where
  "anonymizeEmail userID at us ie =
    (case us of (user, s) \<Rightarrow> case ie of (i, email) \<Rightarrow>
      if eml_UserID email \<noteq> userID then (user, s)
      else let tombstone = anonymizedAddress i in
        (if eml_Primary email then user\<lparr>usr_Email := tombstone\<rparr> else user,
         s\<lparr>st_emailAddresses := put i (email\<lparr>eml_Address := tombstone, eml_UpdatedAt := at\<rparr>) (st_emailAddresses s),
           st_emails := put tombstone userID (del (eml_Address email) (st_emails s)),
           st_emailIDs := put tombstone i (del (eml_Address email) (st_emailIDs s))\<rparr>))"

definition anonymizeLink :: "uuid \<Rightarrow> time \<Rightarrow> store \<Rightarrow> uuid \<times> scimUser \<Rightarrow> store" where
  "anonymizeLink userID at s il =
    (case il of (i, link) \<Rightarrow>
      if susr_UserID link \<noteq> userID then s
      else putSCIMUserLocked
        (link\<lparr>susr_ExternalID := [], susr_UserName := ''anonymized-'' @ UUID_String i, susr_DisplayName := [],
              susr_Schemas := [], susr_Emails := [], susr_Attributes := [], susr_Active := False,
              susr_DeprovisionedAt := (case susr_DeprovisionedAt link of None \<Rightarrow> Some at | Some t \<Rightarrow> Some t),
              susr_UpdatedAt := at\<rparr>)
        (deleteSCIMUserIndexesLocked link s))"

definition anonymizeEffect :: "uuid \<Rightarrow> time \<Rightarrow> user \<Rightarrow> store \<Rightarrow> store" where
  "anonymizeEffect userID at user s =
    (case foldl (anonymizeEmail userID at)
            (user\<lparr>usr_DisplayName := [], usr_Disabled := True, usr_UpdatedAt := at\<rparr>, s) (st_emailAddresses s) of
      (user1, s1) \<Rightarrow>
        let s2 = s1\<lparr>
              st_users := put userID user1 (st_users s1),
              st_ssoIdentities := mapv (\<lambda>_ x. if sso_UserID x = userID then x\<lparr>sso_Email := []\<rparr> else x) (st_ssoIdentities s1),
              st_pats := mapv (\<lambda>_ p. if pat_UserID p = userID then p\<lparr>pat_Name := []\<rparr> else p) (st_pats s1),
              st_sessions := mapv (\<lambda>_ x. if ses_UserID x = userID then x\<lparr>ses_UserAgent := [], ses_IPAddress := []\<rparr> else x)
                (st_sessions s1)\<rparr>;
            s3 = foldl (anonymizeLink userID at) s2 (st_scimUsers s2);
            s4 = s3\<lparr>
              st_invitations := mapv (\<lambda>i x. if inv_AcceptedUserID x = userID then x\<lparr>inv_Email := anonymizedAddress i\<rparr> else x)
                (st_invitations s3),
              st_totp := del userID (st_totp s3), st_recovery := del userID (st_recovery s3),
              st_passkeys := del userID (st_passkeys s3)\<rparr>
        in revokeUserSessionsLocked userID at (revokeUserCredentialsLocked userID 0 at s4))"

definition storeAnonymizeUser :: "hashFn \<Rightarrow> error option \<Rightarrow> uuid \<Rightarrow> time \<Rightarrow> commit \<Rightarrow> store \<Rightarrow> unit result \<times> store" where
  "storeAnonymizeUser sha ce userID at commit =
    mutate sha ce (\<lambda>s. case lookup (st_users s) userID of
        None \<Rightarrow> Inl ErrNotFound
      | Some user \<Rightarrow>
          require (\<not> (case lookup (st_admins s) userID of None \<Rightarrow> False
             | Some admin \<Rightarrow> iad_Role admin = InstanceRoleRoot \<and> enabledRoots s \<le> 1)) ErrConflict (
          require (\<not> list_ex (\<lambda>(w, members). ownsWithoutOther s userID members) (st_memberships s)) ErrConflict (
          Inr user)))
     (writes (anonymizeEffect userID at)) commit"

section \<open>Sessions\<close>

definition CredentialFingerprint :: "hashFn \<Rightarrow> string \<Rightarrow> bytes" where
  "CredentialFingerprint sha hash = sha (toBytes (''credbound-credential-v1:'' @ hash))"

definition storeCreateSession :: "hashFn \<Rightarrow> error option \<Rightarrow> session \<Rightarrow> bytes \<Rightarrow> commit \<Rightarrow> store \<Rightarrow> unit result \<times> store" where
  "storeCreateSession sha ce session credentialDigest commit =
    mutate sha ce (\<lambda>s.
        require (\<not> has (ses_ID session) (st_sessions s)) ErrConflict (
        require (has (ses_UserID session) (st_users s)) ErrNotFound (
        require (length credentialDigest > 0 \<longrightarrow> (case lookup (st_passwords s) (ses_UserID session) of None \<Rightarrow> False
          | Some credential \<Rightarrow> CredentialFingerprint sha (pwc_Hash credential) = credentialDigest)) ErrConflict (Inr ()))))
     (writes (\<lambda>_ s. s\<lparr>st_sessions := put (ses_ID session) session (st_sessions s)\<rparr>)) commit"

definition SessionByID :: "error option \<Rightarrow> uuid \<Rightarrow> store \<Rightarrow> session result \<times> store" where
  "SessionByID ce i = reads ce (\<lambda>s. orErr ErrNotFound (lookup (st_sessions s) i))"

definition TouchSession :: "hashFn \<Rightarrow> error option \<Rightarrow> uuid \<Rightarrow> time \<Rightarrow> commit \<Rightarrow> store \<Rightarrow> unit result \<times> store" where
  "TouchSession sha ce i at commit =
    mutate sha ce (\<lambda>s. case lookup (st_sessions s) i of
        None \<Rightarrow> Inl ErrNotFound
      | Some session \<Rightarrow> require (ses_RevokedAt session = None) ErrConflict (Inr session))
     (writes (\<lambda>session s. touchLastSeenLocked (ses_UserID session) at
        (s\<lparr>st_sessions := put i (session\<lparr>ses_LastSeenAt := at\<rparr>) (st_sessions s)\<rparr>))) commit"

definition storeRevokeSession :: "hashFn \<Rightarrow> error option \<Rightarrow> uuid \<Rightarrow> time \<Rightarrow> commit \<Rightarrow> store \<Rightarrow> unit result \<times> store" where
  "storeRevokeSession sha ce i at commit =
    mutate sha ce (\<lambda>s. orErr ErrNotFound (lookup (st_sessions s) i))
     (writes (\<lambda>session s. if ses_RevokedAt session = None
        then s\<lparr>st_sessions := put i (session\<lparr>ses_RevokedAt := Some at\<rparr>) (st_sessions s)\<rparr> else s)) commit"

definition RevokeUserSessions :: "hashFn \<Rightarrow> error option \<Rightarrow> uuid \<Rightarrow> time \<Rightarrow> commit \<Rightarrow> store \<Rightarrow> unit result \<times> store" where
  "RevokeUserSessions sha ce userID at commit =
    mutate sha ce (\<lambda>s. require (has userID (st_users s)) ErrNotFound (Inr ()))
     (writes (\<lambda>_ s. revokeUserSessionsLocked userID at s)) commit"

section \<open>The contract\<close>

interpretation create_pat: mutator "\<lambda>sha ce c. storeCreatePAT sha ce p c" for p
  unfolding storeCreatePAT_def by (rule mutator_writes) (simp add: effect_defs)

interpretation touch_pat: mutator "\<lambda>sha ce c. TouchPAT sha ce i t c" for i t
  unfolding TouchPAT_def by (rule mutator_writes) (simp add: effect_defs)

interpretation revoke_pat: mutator "\<lambda>sha ce c. storeRevokePAT sha ce u i t c" for u i t
  unfolding storeRevokePAT_def by (rule mutator_writes) (simp add: effect_defs)

interpretation revoke_user_credentials: mutator "\<lambda>sha ce c. RevokeUserCredentials sha ce u t c" for u t
  unfolding RevokeUserCredentials_def by (rule mutator_writes) (simp add: effect_defs)

interpretation create_session: mutator "\<lambda>sha ce c. storeCreateSession sha ce x d c" for x d
  unfolding storeCreateSession_def by (rule mutator_writes) (simp add: effect_defs)

interpretation touch_session: mutator "\<lambda>sha ce c. TouchSession sha ce i t c" for i t
  unfolding TouchSession_def by (rule mutator_writes) (simp add: effect_defs)

interpretation revoke_session: mutator "\<lambda>sha ce c. storeRevokeSession sha ce i t c" for i t
  unfolding storeRevokeSession_def by (rule mutator_writes) (simp add: effect_defs)

interpretation revoke_user_sessions: mutator "\<lambda>sha ce c. RevokeUserSessions sha ce u t c" for u t
  unfolding RevokeUserSessions_def by (rule mutator_writes) (simp add: effect_defs)

lemma anonymizeEmails_silent:
  "foldl (anonymizeEmail u t) (x, s) es = (y, s') \<Longrightarrow> auditSame s' s"
proof (induction es arbitrary: x s)
  case (Cons e es)
  obtain x1 s1 where 1: "anonymizeEmail u t (x, s) e = (x1, s1)" by (cases "anonymizeEmail u t (x, s) e")
  then have "auditSame s1 s" by (auto simp: anonymizeEmail_def Let_def auditSame_def split: prod.splits if_splits)
  moreover from Cons 1 have "auditSame s' s1" by simp
  ultimately show ?case by (rule auditSame_trans [rotated])
qed (simp add: auditSame_refl)

lemma anonymizeLink_silent: "auditSame (anonymizeLink u t s l) s"
  by (simp add: anonymizeLink_def putSCIMUserLocked_def deleteSCIMUserIndexesLocked_def auditSame_def split: prod.splits)

lemma anonymizeEffect_silent: "auditSame (anonymizeEffect u t x s) s"
proof -
  obtain x1 s1 where 1: "foldl (anonymizeEmail u t) (x\<lparr>usr_DisplayName := [], usr_Disabled := True, usr_UpdatedAt := t\<rparr>, s)
      (st_emailAddresses s) = (x1, s1)" (is "?f = _") by (cases ?f)
  note s1 = anonymizeEmails_silent [OF 1]
  define s2 where "s2 = s1\<lparr>st_users := put u x1 (st_users s1),
      st_ssoIdentities := mapv (\<lambda>_ x. if sso_UserID x = u then x\<lparr>sso_Email := []\<rparr> else x) (st_ssoIdentities s1),
      st_pats := mapv (\<lambda>_ p. if pat_UserID p = u then p\<lparr>pat_Name := []\<rparr> else p) (st_pats s1),
      st_sessions := mapv (\<lambda>_ x. if ses_UserID x = u then x\<lparr>ses_UserAgent := [], ses_IPAddress := []\<rparr> else x)
        (st_sessions s1)\<rparr>"
  have s2: "auditSame s2 s" using s1 by (simp add: s2_def auditSame_def)
  have "auditSame (foldl (anonymizeLink u t) s2 (st_scimUsers s1)) s2"
    by (rule auditSame_foldl) (rule anonymizeLink_silent)
  from auditSame_trans [OF this s2] show ?thesis
    by (simp add: anonymizeEffect_def 1 effect_defs flip: s2_def)
qed

interpretation anonymize_user: mutator "\<lambda>sha ce c. storeAnonymizeUser sha ce u t c" for u t
  unfolding storeAnonymizeUser_def by (rule mutator_writes) (rule anonymizeEffect_silent)

end
