(* ===== verification/MemTenancy.thy ===== *)
theory MemTenancy
  imports MemTokens
begin

text \<open>
  The tenancy methods of the in-memory store: workspace domains, workspaces, memberships, invitations,
  instance administrators and SSO identities (\<^verbatim>\<open>memory/store.go\<close>, \<^verbatim>\<open>CreateWorkspaceDomain\<close> to
  \<^verbatim>\<open>UnlinkSSO\<close>). All but \<^verbatim>\<open>CreateWorkspaceDomain\<close> keep the mutator contract: that one deletes a stale
  claim before the commit is prepared, so its refusals are not atomic.
\<close>

section \<open>Domains\<close>

definition zeroDomain :: workspaceDomain where
  "zeroDomain = \<lparr>dom_ID = 0, dom_WorkspaceID = 0, dom_Domain = [], dom_Challenge = [], dom_ConfirmedAt = None,
     dom_AutoJoin = False, dom_AutoJoinRole = [], dom_SSOProviderConfigurationID = 0, dom_EnforceSSO = False,
     dom_CreatedAt = zeroTime, dom_UpdatedAt = zeroTime\<rparr>"

definition domainOrZero :: "store \<Rightarrow> uuid \<Rightarrow> workspaceDomain" where
  "domainOrZero s i = (case lookup (st_domains s) i of None \<Rightarrow> zeroDomain | Some d \<Rightarrow> d)"

definition CreateWorkspaceDomain :: "hashFn \<Rightarrow> error option \<Rightarrow> workspaceDomain \<Rightarrow> time \<Rightarrow> commit \<Rightarrow> store
    \<Rightarrow> unit result \<times> store" where
  "CreateWorkspaceDomain sha ce domain staleBefore commit s =
    (case ce of Some e \<Rightarrow> (Inl e, s) | None \<Rightarrow>
     if \<not> has (dom_WorkspaceID domain) (st_workspaces s) then (Inl ErrNotFound, s)
     else if has (dom_ID domain) (st_domains s) then (Inl ErrConflict, s)
     else
       (let holder = lookup (st_domainNames s) (dom_Domain domain) in
        if (case holder of None \<Rightarrow> False | Some holderID \<Rightarrow>
              dom_ConfirmedAt (domainOrZero s holderID) \<noteq> None \<or> \<not> dom_CreatedAt (domainOrZero s holderID) < staleBefore)
        then (Inl ErrConflict, s)
        else
          (let s0 = (case holder of None \<Rightarrow> s | Some holderID \<Rightarrow> s\<lparr>st_domains := del holderID (st_domains s)\<rparr>) in
           (case prepareCommitLocked commit s0 of
              (Inl e, s1) \<Rightarrow> (Inl e, s1)
            | (Inr previous, s1) \<Rightarrow>
                finishCommitLocked sha commit previous (s1\<lparr>
                  st_domains := put (dom_ID domain) domain (st_domains s1),
                  st_domainNames := put (dom_Domain domain) (dom_ID domain) (st_domainNames s1)\<rparr>)))))"

definition WorkspaceDomainByID :: "error option \<Rightarrow> uuid \<Rightarrow> store \<Rightarrow> workspaceDomain result \<times> store" where
  "WorkspaceDomainByID ce i = reads ce (\<lambda>s. orErr ErrNotFound (lookup (st_domains s) i))"

definition ConfirmedWorkspaceDomainByName :: "error option \<Rightarrow> string \<Rightarrow> store \<Rightarrow> workspaceDomain result \<times> store" where
  "ConfirmedWorkspaceDomainByName ce name = reads ce (\<lambda>s. case lookup (st_domainNames s) name of
     None \<Rightarrow> Inl ErrNotFound
   | Some i \<Rightarrow> if dom_ConfirmedAt (domainOrZero s i) = None then Inl ErrNotFound else Inr (domainOrZero s i))"

definition storeConfirmWorkspaceDomain :: "hashFn \<Rightarrow> error option \<Rightarrow> uuid \<Rightarrow> time \<Rightarrow> commit \<Rightarrow> store \<Rightarrow> unit result \<times> store" where
  "storeConfirmWorkspaceDomain sha ce i at commit =
    mutate sha ce (\<lambda>s. case lookup (st_domains s) i of
        None \<Rightarrow> Inl ErrNotFound
      | Some d \<Rightarrow> require (dom_ConfirmedAt d = None) ErrConflict (Inr d))
     (writes (\<lambda>d s. s\<lparr>st_domains := put i (d\<lparr>dom_ConfirmedAt := Some at, dom_UpdatedAt := at\<rparr>) (st_domains s)\<rparr>)) commit"

definition storeUpdateWorkspaceDomainPolicy :: "hashFn \<Rightarrow> error option \<Rightarrow> uuid \<Rightarrow> workspaceDomainPolicyInput \<Rightarrow> time \<Rightarrow> commit
    \<Rightarrow> store \<Rightarrow> unit result \<times> store" where
  "storeUpdateWorkspaceDomainPolicy sha ce i policy at commit =
    mutate sha ce (\<lambda>s. case lookup (st_domains s) i of
        None \<Rightarrow> Inl ErrNotFound
      | Some d \<Rightarrow> require (dom_ConfirmedAt d \<noteq> None) ErrConflict (Inr d))
     (writes (\<lambda>d s. s\<lparr>st_domains := put i (d\<lparr>dom_AutoJoin := dpi_AutoJoin policy, dom_AutoJoinRole := dpi_AutoJoinRole policy,
        dom_SSOProviderConfigurationID := dpi_SSOProviderConfigurationID policy, dom_EnforceSSO := dpi_EnforceSSO policy,
        dom_UpdatedAt := at\<rparr>) (st_domains s)\<rparr>)) commit"

definition storeDeleteWorkspaceDomain :: "hashFn \<Rightarrow> error option \<Rightarrow> uuid \<Rightarrow> commit \<Rightarrow> store \<Rightarrow> unit result \<times> store" where
  "storeDeleteWorkspaceDomain sha ce i commit =
    mutate sha ce (\<lambda>s. orErr ErrNotFound (lookup (st_domains s) i))
     (writes (\<lambda>d s. s\<lparr>st_domainNames := del (dom_Domain d) (st_domainNames s), st_domains := del i (st_domains s)\<rparr>)) commit"

definition ssoKey :: "uuid \<Rightarrow> string \<Rightarrow> string \<Rightarrow> string" where
  "ssoKey providerConfigurationID issuer subject =
    UUID_String providerConfigurationID @ [CHR 0x00] @ issuer @ [CHR 0x00] @ subject"

definition identityKey :: "ssoIdentity \<Rightarrow> string" where
  "identityKey x = ssoKey (sso_ProviderConfigurationID x) (sso_Issuer x) (sso_Subject x)"

definition JITProvisionSSOUser :: "hashFn \<Rightarrow> error option \<Rightarrow> user \<Rightarrow> emailAddress \<Rightarrow> membership \<Rightarrow> ssoIdentity \<Rightarrow> commit \<Rightarrow> store
    \<Rightarrow> unit result \<times> store" where
  "JITProvisionSSOUser sha ce user email membership identity commit =
    mutate sha ce (\<lambda>s.
        require (\<not> has (usr_ID user) (st_users s)) ErrConflict (
        require (\<not> has (eml_Address email) (st_emailIDs s)) ErrConflict (
        require (has (mbr_WorkspaceID membership) (st_workspaces s)) ErrNotFound (
        require (\<not> has (sso_ID identity) (st_ssoIdentities s)) ErrConflict (
        require (\<not> has (identityKey identity) (st_ssoKeys s)) ErrConflict (Inr ()))))))
     (writes (\<lambda>_ s. putMember (mbr_WorkspaceID membership) (usr_ID user) (normalizeMembership membership) (s\<lparr>
        st_users := put (usr_ID user) user (st_users s),
        st_emailAddresses := put (eml_ID email) email (st_emailAddresses s),
        st_emailIDs := put (eml_Address email) (eml_ID email) (st_emailIDs s),
        st_emails := put (eml_Address email) (usr_ID user) (st_emails s),
        st_ssoIdentities := put (sso_ID identity) identity (st_ssoIdentities s),
        st_ssoKeys := put (identityKey identity) (sso_ID identity) (st_ssoKeys s)\<rparr>))) commit"

section \<open>Workspaces and memberships\<close>

definition storeCreateWorkspace :: "hashFn \<Rightarrow> error option \<Rightarrow> workspace \<Rightarrow> membership \<Rightarrow> commit \<Rightarrow> store \<Rightarrow> unit result \<times> store" where
  "storeCreateWorkspace sha ce workspace owner commit =
    mutate sha ce (\<lambda>s.
        require (\<not> has (wsp_ID workspace) (st_workspaces s)) ErrConflict (
        require (has (mbr_UserID owner) (st_users s)) ErrNotFound (Inr ())))
     (writes (\<lambda>_ s. s\<lparr>
        st_workspaces := put (wsp_ID workspace) workspace (st_workspaces s),
        st_memberships := put (wsp_ID workspace) [(mbr_UserID owner, normalizeMembership owner)] (st_memberships s)\<rparr>)) commit"

definition WorkspaceByID :: "error option \<Rightarrow> uuid \<Rightarrow> store \<Rightarrow> workspace result \<times> store" where
  "WorkspaceByID ce w = reads ce (\<lambda>s. orErr ErrNotFound (lookup (st_workspaces s) w))"

definition storeUpdateWorkspace :: "hashFn \<Rightarrow> error option \<Rightarrow> workspace \<Rightarrow> commit \<Rightarrow> store \<Rightarrow> unit result \<times> store" where
  "storeUpdateWorkspace sha ce workspace commit =
    mutate sha ce (\<lambda>s. orErr ErrNotFound (lookup (st_workspaces s) (wsp_ID workspace)))
     (writes (\<lambda>current s. s\<lparr>st_workspaces := put (wsp_ID workspace)
        (workspace\<lparr>wsp_CreatedAt := wsp_CreatedAt current\<rparr>) (st_workspaces s)\<rparr>)) commit"

definition storeSetWorkspaceDisabled :: "hashFn \<Rightarrow> error option \<Rightarrow> uuid \<Rightarrow> bool \<Rightarrow> time \<Rightarrow> commit \<Rightarrow> store \<Rightarrow> unit result \<times> store" where
  "storeSetWorkspaceDisabled sha ce workspaceID disabled at commit =
    mutate sha ce (\<lambda>s. orErr ErrNotFound (lookup (st_workspaces s) workspaceID))
     (writes (\<lambda>workspace s.
        let s1 = s\<lparr>st_workspaces := put workspaceID
              (workspace\<lparr>wsp_DisabledAt := (if disabled then Some at else None), wsp_UpdatedAt := at\<rparr>) (st_workspaces s)\<rparr>
        in if disabled
           then foldl (\<lambda>s (u, _). revokeUserCredentialsLocked u workspaceID at s) s1 (membersOf s1 workspaceID)
           else s1)) commit"

definition Membership :: "error option \<Rightarrow> uuid \<Rightarrow> uuid \<Rightarrow> store \<Rightarrow> membership result \<times> store" where
  "Membership ce w u = reads ce (\<lambda>s. case lookup (membersOf s w) u of
     None \<Rightarrow> Inl ErrNotFound | Some m \<Rightarrow> Inr (normalizeMembership m))"

definition activeWorkspaceAdminsLocked :: "store \<Rightarrow> uuid \<Rightarrow> nat" where
  "activeWorkspaceAdminsLocked s w = count (\<lambda>_ m. activeAdmin m) (membersOf s w)"

definition UpsertMembership :: "hashFn \<Rightarrow> error option \<Rightarrow> membership \<Rightarrow> commit \<Rightarrow> store \<Rightarrow> unit result \<times> store" where
  "UpsertMembership sha ce membership commit =
    mutate sha ce (\<lambda>s.
        require (has (mbr_WorkspaceID membership) (st_workspaces s)) ErrNotFound (
        require (has (mbr_UserID membership) (st_users s)) ErrNotFound (
        require (\<not> (case lookup (membersOf s (mbr_WorkspaceID membership)) (mbr_UserID membership) of None \<Rightarrow> False
          | Some existing \<Rightarrow> activeAdmin existing \<and> \<not> activeAdmin membership
              \<and> activeWorkspaceAdminsLocked s (mbr_WorkspaceID membership) \<le> 1)) ErrConflict (Inr ()))))
     (writes (\<lambda>_ s.
        let m = (case lookup (membersOf s (mbr_WorkspaceID membership)) (mbr_UserID membership) of
              None \<Rightarrow> membership | Some existing \<Rightarrow> membership\<lparr>mbr_CreatedAt := mbr_CreatedAt existing\<rparr>);
            s1 = putMember (mbr_WorkspaceID membership) (mbr_UserID membership) (normalizeMembership m) s
        in if mbr_Status membership \<noteq> MembershipActive
           then revokeUserCredentialsLocked (mbr_UserID membership) (mbr_WorkspaceID membership) (aud_OccurredAt (cmt_Audit commit)) s1
           else s1)) commit"

definition storeRemoveMembership :: "hashFn \<Rightarrow> error option \<Rightarrow> uuid \<Rightarrow> uuid \<Rightarrow> time \<Rightarrow> commit \<Rightarrow> store \<Rightarrow> unit result \<times> store" where
  "storeRemoveMembership sha ce workspaceID userID at commit =
    mutate sha ce (\<lambda>s. case lookup (membersOf s workspaceID) userID of
        None \<Rightarrow> Inl ErrNotFound
      | Some m \<Rightarrow> require (\<not> (activeAdmin m \<and> activeWorkspaceAdminsLocked s workspaceID \<le> 1)) ErrConflict (Inr ()))
     (writes (\<lambda>_ s. revokeUserCredentialsLocked userID workspaceID at
        (s\<lparr>st_memberships := put workspaceID (del userID (membersOf s workspaceID)) (st_memberships s)\<rparr>))) commit"

section \<open>Invitations\<close>

definition pendingInvitation :: "workspaceInvitation \<Rightarrow> bool" where
  "pendingInvitation x = (inv_AcceptedAt x = None \<and> inv_RevokedAt x = None)"

definition CreateWorkspaceInvitation :: "hashFn \<Rightarrow> error option \<Rightarrow> workspaceInvitation \<Rightarrow> commit \<Rightarrow> store \<Rightarrow> unit result \<times> store" where
  "CreateWorkspaceInvitation sha ce invitation commit =
    mutate sha ce (\<lambda>s.
        require (has (inv_WorkspaceID invitation) (st_workspaces s)) ErrNotFound (
        require (\<not> has (inv_ID invitation) (st_invitations s)) ErrConflict (
        require (\<not> list_ex (\<lambda>(_, other). inv_WorkspaceID other = inv_WorkspaceID invitation \<and> inv_Email other = inv_Email invitation
          \<and> pendingInvitation other) (st_invitations s)) ErrConflict (Inr ()))))
     (writes (\<lambda>_ s. s\<lparr>st_invitations := put (inv_ID invitation) invitation (st_invitations s)\<rparr>)) commit"

definition WorkspaceInvitationByID :: "error option \<Rightarrow> uuid \<Rightarrow> store \<Rightarrow> workspaceInvitation result \<times> store" where
  "WorkspaceInvitationByID ce i = reads ce (\<lambda>s. orErr ErrNotFound (lookup (st_invitations s) i))"

definition PendingWorkspaceInvitation :: "error option \<Rightarrow> uuid \<Rightarrow> string \<Rightarrow> store \<Rightarrow> workspaceInvitation result \<times> store" where
  "PendingWorkspaceInvitation ce w email = reads ce (\<lambda>s.
     orErr ErrNotFound (map_option snd (find (\<lambda>(_, x). inv_WorkspaceID x = w \<and> inv_Email x = email \<and> pendingInvitation x)
       (st_invitations s))))"

definition storeAcceptWorkspaceInvitation :: "hashFn \<Rightarrow> error option \<Rightarrow> uuid \<Rightarrow> uuid \<Rightarrow> time \<Rightarrow> membership \<Rightarrow> commit \<Rightarrow> store
    \<Rightarrow> unit result \<times> store" where
  "storeAcceptWorkspaceInvitation sha ce invitationID userID at membership commit =
    mutate sha ce (\<lambda>s. case lookup (st_invitations s) invitationID of
        None \<Rightarrow> Inl ErrNotFound
      | Some x \<Rightarrow>
          require (pendingInvitation x) ErrConflict (
          require (has userID (st_users s)) ErrNotFound (Inr x)))
     (writes (\<lambda>x s. putMember (mbr_WorkspaceID membership) userID (normalizeMembership membership) (s\<lparr>
        st_invitations := put invitationID (x\<lparr>inv_AcceptedAt := Some at, inv_AcceptedUserID := userID\<rparr>)
          (st_invitations s)\<rparr>))) commit"

definition RegisterInvitedUser :: "hashFn \<Rightarrow> error option \<Rightarrow> uuid \<Rightarrow> user \<Rightarrow> emailAddress \<Rightarrow> passwordCredential \<Rightarrow> membership \<Rightarrow> time
    \<Rightarrow> commit \<Rightarrow> store \<Rightarrow> unit result \<times> store" where
  "RegisterInvitedUser sha ce invitationID user email password membership at commit =
    mutate sha ce (\<lambda>s. case lookup (st_invitations s) invitationID of
        None \<Rightarrow> Inl ErrNotFound
      | Some x \<Rightarrow>
          require (pendingInvitation x) ErrConflict (
          require (\<not> has (usr_ID user) (st_users s)) ErrConflict (
          require (\<not> has (eml_Address email) (st_emailIDs s)) ErrConflict (
          require (has (mbr_WorkspaceID membership) (st_workspaces s)) ErrNotFound (Inr x)))))
     (writes (\<lambda>x s. putMember (mbr_WorkspaceID membership) (usr_ID user) (normalizeMembership membership) (s\<lparr>
        st_invitations := put invitationID (x\<lparr>inv_AcceptedAt := Some at, inv_AcceptedUserID := usr_ID user\<rparr>) (st_invitations s),
        st_users := put (usr_ID user) user (st_users s),
        st_emails := put (eml_Address email) (usr_ID user) (st_emails s),
        st_emailAddresses := put (eml_ID email) email (st_emailAddresses s),
        st_emailIDs := put (eml_Address email) (eml_ID email) (st_emailIDs s),
        st_passwords := put (usr_ID user) password (st_passwords s)\<rparr>))) commit"

definition storeRevokeWorkspaceInvitation :: "hashFn \<Rightarrow> error option \<Rightarrow> uuid \<Rightarrow> uuid \<Rightarrow> time \<Rightarrow> commit \<Rightarrow> store
    \<Rightarrow> unit result \<times> store" where
  "storeRevokeWorkspaceInvitation sha ce workspaceID invitationID at commit =
    mutate sha ce (\<lambda>s. case lookup (st_invitations s) invitationID of
        None \<Rightarrow> Inl ErrNotFound
      | Some x \<Rightarrow>
          require (inv_WorkspaceID x = workspaceID) ErrNotFound (
          require (pendingInvitation x) ErrConflict (Inr x)))
     (writes (\<lambda>x s. s\<lparr>st_invitations := put invitationID (x\<lparr>inv_RevokedAt := Some at\<rparr>) (st_invitations s)\<rparr>)) commit"

section \<open>Instance administrators\<close>

definition storeInstanceAdministrator :: "error option \<Rightarrow> uuid \<Rightarrow> store \<Rightarrow> instanceAdministrator result \<times> store" where
  "storeInstanceAdministrator ce u = reads ce (\<lambda>s. orErr ErrNotFound (lookup (st_admins s) u))"

definition rootCount :: "store \<Rightarrow> nat" where
  "rootCount s = count (\<lambda>_ a. iad_Role a = InstanceRoleRoot) (st_admins s)"

definition storeSetInstanceRole :: "hashFn \<Rightarrow> error option \<Rightarrow> instanceAdministrator \<Rightarrow> commit \<Rightarrow> store \<Rightarrow> unit result \<times> store" where
  "storeSetInstanceRole sha ce admin commit =
    mutate sha ce (\<lambda>s.
        require (has (iad_UserID admin) (st_users s)) ErrNotFound (
        require (\<not> (case lookup (st_admins s) (iad_UserID admin) of None \<Rightarrow> False
          | Some existing \<Rightarrow> iad_Role existing = InstanceRoleRoot \<and> iad_Role admin \<noteq> InstanceRoleRoot \<and> rootCount s \<le> 1))
          ErrConflict (Inr ())))
     (writes (\<lambda>_ s. s\<lparr>st_admins := put (iad_UserID admin)
        (case lookup (st_admins s) (iad_UserID admin) of None \<Rightarrow> admin
         | Some existing \<Rightarrow> admin\<lparr>iad_CreatedAt := iad_CreatedAt existing\<rparr>) (st_admins s)\<rparr>)) commit"

definition storeRemoveInstanceRole :: "hashFn \<Rightarrow> error option \<Rightarrow> uuid \<Rightarrow> commit \<Rightarrow> store \<Rightarrow> unit result \<times> store" where
  "storeRemoveInstanceRole sha ce userID commit =
    mutate sha ce (\<lambda>s. case lookup (st_admins s) userID of
        None \<Rightarrow> Inl ErrNotFound
      | Some admin \<Rightarrow> require (\<not> (iad_Role admin = InstanceRoleRoot \<and> rootCount s \<le> 1)) ErrConflict (Inr ()))
     (writes (\<lambda>_ s. s\<lparr>st_admins := del userID (st_admins s)\<rparr>)) commit"

section \<open>SSO identities\<close>

definition zeroIdentity :: ssoIdentity where
  "zeroIdentity = \<lparr>sso_ID = 0, sso_UserID = 0, sso_ProviderConfigurationID = 0, sso_ProviderKind = [], sso_Issuer = [],
     sso_Subject = [], sso_Email = [], sso_CreatedAt = zeroTime, sso_LastUsedAt = None\<rparr>"

definition SSOIdentity :: "error option \<Rightarrow> uuid \<Rightarrow> string \<Rightarrow> string \<Rightarrow> store \<Rightarrow> ssoIdentity result \<times> store" where
  "SSOIdentity ce providerConfigurationID issuer subject = reads ce (\<lambda>s.
     case lookup (st_ssoKeys s) (ssoKey providerConfigurationID issuer subject) of
       None \<Rightarrow> Inl ErrNotFound
     | Some i \<Rightarrow> Inr (case lookup (st_ssoIdentities s) i of None \<Rightarrow> zeroIdentity | Some x \<Rightarrow> x))"

definition LinkSSO :: "hashFn \<Rightarrow> error option \<Rightarrow> ssoIdentity \<Rightarrow> commit \<Rightarrow> store \<Rightarrow> unit result \<times> store" where
  "LinkSSO sha ce identity commit =
    mutate sha ce (\<lambda>s.
        require (has (sso_UserID identity) (st_users s)) ErrNotFound (
        require (\<not> has (sso_ID identity) (st_ssoIdentities s)) ErrConflict (
        require (\<not> has (identityKey identity) (st_ssoKeys s)) ErrConflict (Inr ()))))
     (writes (\<lambda>_ s.
        let s1 = s\<lparr>st_ssoIdentities := put (sso_ID identity) identity (st_ssoIdentities s),
                   st_ssoKeys := put (identityKey identity) (sso_ID identity) (st_ssoKeys s)\<rparr>
        in case sso_LastUsedAt identity of
             None \<Rightarrow> s1
           | Some t \<Rightarrow> clearThrottle (sso_UserID identity) (touchLastSeenLocked (sso_UserID identity) t s1))) commit"

definition TouchSSO :: "hashFn \<Rightarrow> error option \<Rightarrow> uuid \<Rightarrow> uuid \<Rightarrow> time \<Rightarrow> commit \<Rightarrow> store \<Rightarrow> unit result \<times> store" where
  "TouchSSO sha ce userID identityID usedAt commit =
    mutate sha ce (\<lambda>s. case lookup (st_ssoIdentities s) identityID of
        None \<Rightarrow> Inl ErrNotFound
      | Some x \<Rightarrow> require (sso_UserID x = userID) ErrNotFound (Inr x))
     (writes (\<lambda>x s. clearThrottle userID (touchLastSeenLocked userID usedAt
        (s\<lparr>st_ssoIdentities := put identityID (x\<lparr>sso_LastUsedAt := Some usedAt\<rparr>) (st_ssoIdentities s)\<rparr>)))) commit"

definition loginMethods :: "store \<Rightarrow> uuid \<Rightarrow> nat" where
  "loginMethods s u = length (passkeysOf s u) + (if has u (st_passwords s) then 1 else 0)
     + count (\<lambda>_ x. sso_UserID x = u) (st_ssoIdentities s)"

definition UnlinkSSO :: "hashFn \<Rightarrow> error option \<Rightarrow> uuid \<Rightarrow> uuid \<Rightarrow> commit \<Rightarrow> store \<Rightarrow> unit result \<times> store" where
  "UnlinkSSO sha ce userID identityID commit =
    mutate sha ce (\<lambda>s. case lookup (st_ssoIdentities s) identityID of
        None \<Rightarrow> Inl ErrNotFound
      | Some x \<Rightarrow>
          require (sso_UserID x = userID) ErrNotFound (
          require (\<not> loginMethods s userID \<le> 1) ErrConflict (Inr x)))
     (writes (\<lambda>x s. s\<lparr>st_ssoKeys := del (identityKey x) (st_ssoKeys s),
        st_ssoIdentities := del identityID (st_ssoIdentities s)\<rparr>)) commit"

section \<open>The contract\<close>

interpretation confirm_workspace_domain: mutator "\<lambda>sha ce c. storeConfirmWorkspaceDomain sha ce i t c" for i t
  unfolding storeConfirmWorkspaceDomain_def by (rule mutator_writes) (simp add: effect_defs split: option.split)

interpretation update_workspace_domain_policy: mutator "\<lambda>sha ce c. storeUpdateWorkspaceDomainPolicy sha ce i p t c" for i p t
  unfolding storeUpdateWorkspaceDomainPolicy_def by (rule mutator_writes) (simp add: effect_defs split: option.split)

interpretation delete_workspace_domain: mutator "\<lambda>sha ce c. storeDeleteWorkspaceDomain sha ce i c" for i
  unfolding storeDeleteWorkspaceDomain_def by (rule mutator_writes) (simp add: effect_defs split: option.split)

interpretation jit_provision_sso_user: mutator "\<lambda>sha ce c. JITProvisionSSOUser sha ce u e m x c" for u e m x
  unfolding JITProvisionSSOUser_def by (rule mutator_writes) (simp add: effect_defs split: option.split)

interpretation create_workspace: mutator "\<lambda>sha ce c. storeCreateWorkspace sha ce w m c" for w m
  unfolding storeCreateWorkspace_def by (rule mutator_writes) (simp add: effect_defs split: option.split)

interpretation update_workspace: mutator "\<lambda>sha ce c. storeUpdateWorkspace sha ce w c" for w
  unfolding storeUpdateWorkspace_def by (rule mutator_writes) (simp add: effect_defs split: option.split)

interpretation upsert_membership: mutator "\<lambda>sha ce c. UpsertMembership sha ce m c" for m
  unfolding UpsertMembership_def by (rule mutator_writes) (simp add: effect_defs split: option.split)

interpretation remove_membership: mutator "\<lambda>sha ce c. storeRemoveMembership sha ce w u t c" for w u t
  unfolding storeRemoveMembership_def by (rule mutator_writes) (simp add: effect_defs split: option.split)

interpretation create_workspace_invitation: mutator "\<lambda>sha ce c. CreateWorkspaceInvitation sha ce x c" for x
  unfolding CreateWorkspaceInvitation_def by (rule mutator_writes) (simp add: effect_defs split: option.split)

interpretation accept_workspace_invitation: mutator "\<lambda>sha ce c. storeAcceptWorkspaceInvitation sha ce i u t m c" for i u t m
  unfolding storeAcceptWorkspaceInvitation_def by (rule mutator_writes) (simp add: effect_defs split: option.split)

interpretation register_invited_user: mutator "\<lambda>sha ce c. RegisterInvitedUser sha ce i u e p m t c" for i u e p m t
  unfolding RegisterInvitedUser_def by (rule mutator_writes) (simp add: effect_defs split: option.split)

interpretation revoke_workspace_invitation: mutator "\<lambda>sha ce c. storeRevokeWorkspaceInvitation sha ce w i t c" for w i t
  unfolding storeRevokeWorkspaceInvitation_def by (rule mutator_writes) (simp add: effect_defs split: option.split)

interpretation set_instance_role: mutator "\<lambda>sha ce c. storeSetInstanceRole sha ce a c" for a
  unfolding storeSetInstanceRole_def by (rule mutator_writes) (simp add: effect_defs split: option.split)

interpretation remove_instance_role: mutator "\<lambda>sha ce c. storeRemoveInstanceRole sha ce u c" for u
  unfolding storeRemoveInstanceRole_def by (rule mutator_writes) (simp add: effect_defs split: option.split)

interpretation link_sso: mutator "\<lambda>sha ce c. LinkSSO sha ce x c" for x
  unfolding LinkSSO_def by (rule mutator_writes) (simp add: effect_defs split: option.split)

interpretation touch_sso: mutator "\<lambda>sha ce c. TouchSSO sha ce u i t c" for u i t
  unfolding TouchSSO_def by (rule mutator_writes) (simp add: effect_defs split: option.split)

interpretation unlink_sso: mutator "\<lambda>sha ce c. UnlinkSSO sha ce u i c" for u i
  unfolding UnlinkSSO_def by (rule mutator_writes) (simp add: effect_defs split: option.split)

lemma revokeMembers_silent:
  "auditSame (foldl (\<lambda>s (u, _). revokeUserCredentialsLocked u w t s) s ms) s"
  by (rule auditSame_foldl) (simp add: effect_defs split: prod.split)

lemma setWorkspaceDisabled_silent:
  "auditSame (let s1 = s\<lparr>st_workspaces := ws\<rparr>
     in if b then foldl (\<lambda>s (u, _). revokeUserCredentialsLocked u w t s) s1 (membersOf s1 w) else s1) s"
proof -
  have "auditSame (s\<lparr>st_workspaces := ws\<rparr>) s" by (simp add: effect_defs)
  from auditSame_trans [OF revokeMembers_silent [of w t _ "membersOf (s\<lparr>st_workspaces := ws\<rparr>) w"] this] this
  show ?thesis by (cases b) (simp_all add: Let_def)
qed

interpretation set_workspace_disabled: mutator "\<lambda>sha ce c. storeSetWorkspaceDisabled sha ce w b t c" for w b t
  unfolding storeSetWorkspaceDisabled_def by (rule mutator_writes) (rule setWorkspaceDisabled_silent)

end
