(* ===== verification/Paging.thy ===== *)
theory Paging
  imports Uuid "HOL-Library.Product_Lexorder" "HOL-Library.Multiset"
begin

text \<open>
  Cursor pages: the cursors, the order and the page building of \<^verbatim>\<open>memory/store.go\<close>
  (\<^verbatim>\<open>encodeCursor\<close>, \<^verbatim>\<open>decodeCursor\<close>, \<^verbatim>\<open>afterCursor\<close>, \<^verbatim>\<open>newer\<close>, \<^verbatim>\<open>yieldMemoryPage\<close>) and \<^verbatim>\<open>CollectPage\<close> of
  \<^verbatim>\<open>types.go\<close>, and the proof that following the cursors from the first page lists every record once,
  newest first. A stream is the list of what it yields to a consumer that never stops early.
\<close>

section \<open>Cursors\<close>

record pageCursor =
  cur_UnixNano :: int
  cur_ID :: uuid

record pageRequest =
  page_Cursor :: string
  page_Limit :: int

record pageEnd =
  end_NextCursor :: string
  end_HasMore :: bool

datatype 'a pageEvent = ItemEvent 'a | EndEvent pageEnd

text \<open>\<^verbatim>\<open>Time.UnixNano\<close> wraps at 64 bits; \<^verbatim>\<open>time.Unix(0, n)\<close> is the time \<open>n\<close>.\<close>

definition UnixNano :: "time \<Rightarrow> int" where
  "UnixNano t = sint (of_int t :: 64 word)"

definition zeroCursor :: pageCursor where
  "zeroCursor = \<lparr>cur_UnixNano = 0, cur_ID = 0\<rparr>"

text \<open>The JSON text of a cursor. Reading JSON back is \<^verbatim>\<open>json.Unmarshal\<close>, the parameter of \<open>decodeCursor\<close>.\<close>

definition cursorJSON :: "pageCursor \<Rightarrow> string" where
  "cursorJSON c = ''{'' @ [CHR 0x22] @ ''t'' @ [CHR 0x22] @ '':'' @ FormatInt (cur_UnixNano c) @ '','' @ [CHR 0x22] @ ''id'' @ [CHR 0x22]
     @ '':'' @ [CHR 0x22] @ UUID_String (cur_ID c) @ [CHR 0x22] @ ''}''"

type_synonym unmarshalFn = "bytes \<Rightarrow> pageCursor option"

definition encodeCursor :: "time \<Rightarrow> uuid \<Rightarrow> string" where
  "encodeCursor timestamp i = b64Encode (toBytes (cursorJSON \<lparr>cur_UnixNano = UnixNano timestamp, cur_ID = i\<rparr>))"

definition decodeCursor :: "unmarshalFn \<Rightarrow> string \<Rightarrow> pageCursor result" where
  "decodeCursor unmarshal raw =
    (if raw = [] then Inr zeroCursor
     else (case b64Decode raw of
         None \<Rightarrow> Inl ErrInvalidInput
       | Some payload \<Rightarrow>
          (case unmarshal payload of
             None \<Rightarrow> Inl ErrInvalidInput
           | Some cursor \<Rightarrow>
               if cur_UnixNano cursor = 0 \<or> cur_ID cursor = 0 then Inl ErrInvalidInput else Inr cursor)))"

definition afterCursor :: "time \<Rightarrow> uuid \<Rightarrow> pageCursor \<Rightarrow> bool" where
  "afterCursor timestamp i cursor =
    (if cur_ID cursor = 0 then True
     else timestamp < cur_UnixNano cursor \<or> (timestamp = cur_UnixNano cursor \<and> UUID_Compare i (cur_ID cursor) < 0))"

definition newer :: "time \<Rightarrow> uuid \<Rightarrow> time \<Rightarrow> uuid \<Rightarrow> bool" where
  "newer leftTime leftID rightTime rightID =
    (if leftTime = rightTime then UUID_Compare leftID rightID > 0 else leftTime > rightTime)"

section \<open>Pages\<close>

text \<open>
  \<^verbatim>\<open>sort.Slice\<close> with \<^verbatim>\<open>newer\<close>, and with its arguments exchanged: for the distinct keys of a listing the
  result is determined (\<open>newestFirst_sorted\<close>).
\<close>

definition newestFirst :: "('a \<Rightarrow> time \<times> uuid) \<Rightarrow> 'a list \<Rightarrow> 'a list" where
  "newestFirst key xs = rev (sort_key key xs)"

definition oldestFirst :: "('a \<Rightarrow> time \<times> uuid) \<Rightarrow> 'a list \<Rightarrow> 'a list" where
  "oldestFirst key xs = sort_key key xs"

text \<open>
  The items of a page, each preceded by a check of the context where the listing has one (\<open>ctxErr k\<close>: what
  the check before item \<open>k\<close> finds), and the terminal event.
\<close>

fun yieldItems :: "(nat \<Rightarrow> error option) \<Rightarrow> nat \<Rightarrow> 'a list \<Rightarrow> pageEnd \<Rightarrow> 'a pageEvent result list" where
  "yieldItems ctxErr k [] pageEnd = [Inr (EndEvent pageEnd)]"
| "yieldItems ctxErr k (x # xs) pageEnd =
    (case ctxErr k of Some e \<Rightarrow> [Inl e] | None \<Rightarrow> Inr (ItemEvent x) # yieldItems ctxErr (Suc k) xs pageEnd)"

definition pageItems :: "int \<Rightarrow> 'a list \<Rightarrow> 'a list" where
  "pageItems limit xs = (if int (length xs) > limit then take (nat limit) xs else xs)"

definition pageEndOf :: "('a \<Rightarrow> time \<times> uuid) \<Rightarrow> int \<Rightarrow> 'a list \<Rightarrow> pageEnd" where
  "pageEndOf key limit xs =
    (let hasMore = int (length xs) > limit; items = pageItems limit xs
     in \<lparr>end_NextCursor = (if hasMore \<and> items \<noteq> [] then (case key (List.last items) of (t, i) \<Rightarrow> encodeCursor t i) else []),
         end_HasMore = hasMore\<rparr>)"

text \<open>Slicing up to a negative limit panics.\<close>

definition yieldPage :: "(nat \<Rightarrow> error option) \<Rightarrow> ('a \<Rightarrow> time \<times> uuid) \<Rightarrow> ('a \<Rightarrow> 'b) \<Rightarrow> int \<Rightarrow> 'a list \<Rightarrow> 'b pageEvent result list" where
  "yieldPage ctxErr key view limit xs =
    (if limit < 0 then [Inl RuntimePanic]
     else yieldItems ctxErr 0 (map view (pageItems limit xs)) (pageEndOf key limit xs))"

definition yieldMemoryPage :: "int \<Rightarrow> ('a \<Rightarrow> time \<times> uuid) \<Rightarrow> 'a list \<Rightarrow> 'a pageEvent result list" where
  "yieldMemoryPage limit key xs = yieldPage (\<lambda>_. None) key (\<lambda>x. x) limit xs"

text \<open>The shape the listings share: decode the cursor, check the context, filter, sort, yield.\<close>

definition selectPage :: "unmarshalFn \<Rightarrow> error option \<Rightarrow> pageRequest \<Rightarrow> ('a \<Rightarrow> time \<times> uuid) \<Rightarrow> ('a \<Rightarrow> bool) \<Rightarrow> 'a list
    \<Rightarrow> 'a list result" where
  "selectPage unmarshal ce page key matches xs =
    (case decodeCursor unmarshal (page_Cursor page) of
       Inl e \<Rightarrow> Inl e
     | Inr cursor \<Rightarrow>
        (case ce of
           Some e \<Rightarrow> Inl e
         | None \<Rightarrow> Inr (newestFirst key (filter (\<lambda>x. matches x \<and> afterCursor (fst (key x)) (snd (key x)) cursor) xs))))"

definition listPage :: "unmarshalFn \<Rightarrow> error option \<Rightarrow> (nat \<Rightarrow> error option) \<Rightarrow> pageRequest \<Rightarrow> ('a \<Rightarrow> time \<times> uuid)
    \<Rightarrow> ('a \<Rightarrow> bool) \<Rightarrow> ('a \<Rightarrow> 'b) \<Rightarrow> 'a list \<Rightarrow> 'b pageEvent result list" where
  "listPage unmarshal ce ctxErr page key matches view xs =
    (case selectPage unmarshal ce page key matches xs of
       Inl e \<Rightarrow> [Inl e]
     | Inr selected \<Rightarrow> yieldPage ctxErr key view (page_Limit page) selected)"

text \<open>\<^verbatim>\<open>CollectPage\<close> drains a stream.\<close>

definition zeroEnd :: pageEnd where
  "zeroEnd = \<lparr>end_NextCursor = [], end_HasMore = False\<rparr>"

fun collectFrom :: "'a list \<Rightarrow> pageEnd \<Rightarrow> 'a pageEvent result list \<Rightarrow> ('a list \<times> pageEnd) result" where
  "collectFrom items pageEnd [] = Inr (items, pageEnd)"
| "collectFrom items pageEnd (Inl e # events) = Inl e"
| "collectFrom items pageEnd (Inr (ItemEvent x) # events) = collectFrom (items @ [x]) pageEnd events"
| "collectFrom items pageEnd (Inr (EndEvent end') # events) = collectFrom items end' events"

definition CollectPage :: "'a pageEvent result list \<Rightarrow> ('a list \<times> pageEnd) result" where
  "CollectPage events = collectFrom [] zeroEnd events"

text \<open>A caller that follows the cursors, at most \<open>fuel\<close> pages.\<close>

fun followPages :: "nat \<Rightarrow> (string \<Rightarrow> 'a pageEvent result list) \<Rightarrow> string \<Rightarrow> 'a list result" where
  "followPages 0 list cursor = Inl (OtherError ''more pages'')"
| "followPages (Suc fuel) list cursor =
    (case CollectPage (list cursor) of
       Inl e \<Rightarrow> Inl e
     | Inr (items, pageEnd) \<Rightarrow>
         if end_HasMore pageEnd
         then (case followPages fuel list (end_NextCursor pageEnd) of Inl e \<Rightarrow> Inl e | Inr rest \<Rightarrow> Inr (items @ rest))
         else Inr items)"

text \<open>A reader of exactly the text that \<open>cursorJSON\<close> writes, to evaluate listings with.\<close>

definition parseInt :: "string \<Rightarrow> int" where
  "parseInt s = (case s of c # ds \<Rightarrow> if c = CHR ''-'' then - int (decVal ds) else int (decVal s) | [] \<Rightarrow> 0)"

definition readCursor :: unmarshalFn where
  "readCursor payload =
    (let s = drop 5 (map (\<lambda>b. char_of (unat b)) payload);
         number = takeWhile (\<lambda>c. c \<noteq> CHR '','') s;
         rest = dropWhile (\<lambda>c. c \<noteq> CHR '','') s
     in case ParseUUID (take 36 (drop 7 rest)) of
          Inl _ \<Rightarrow> None
        | Inr i \<Rightarrow> let c = \<lparr>cur_UnixNano = parseInt number, cur_ID = i\<rparr>
                   in if payload = toBytes (cursorJSON c) then Some c else None)"

section \<open>The order\<close>

lemma newer_iff: "newer t i t' i' \<longleftrightarrow> (t', i') < (t, i)"
  by (auto simp: newer_def UUID_Compare_order less_prod_def)

lemma afterCursor_iff:
  "cur_ID c \<noteq> 0 \<Longrightarrow> afterCursor t i c \<longleftrightarrow> (t, i) < (cur_UnixNano c, cur_ID c)"
  by (auto simp: afterCursor_def UUID_Compare_order less_prod_def)

text \<open>Sorting by \<^verbatim>\<open>newer\<close>: the result is strictly ordered, and the only such arrangement of the records.\<close>

lemma newestFirst_sorted:
  assumes "distinct (map key xs)"
  shows "sorted_wrt (\<lambda>x y. newer (fst (key x)) (snd (key x)) (fst (key y)) (snd (key y))) (newestFirst key xs)"
proof -
  have "sorted (map key (sort_key key xs))" by simp
  moreover have "distinct (map key (sort_key key xs))"
    using assms by (metis distinct_map mset_sort distinct_sort set_sort)
  ultimately have "sorted_wrt (<) (map key (sort_key key xs))" by (simp add: strict_sorted_iff)
  then show ?thesis by (simp add: newestFirst_def newer_iff sorted_wrt_map sorted_wrt_rev)
qed

lemma mset_newestFirst [simp]: "mset (newestFirst key xs) = mset xs"
  by (simp add: newestFirst_def)

lemma set_newestFirst [simp]: "set (newestFirst key xs) = set xs"
  by (simp add: newestFirst_def)

lemma filter_newestFirst: "newestFirst key (filter P xs) = filter P (newestFirst key xs)"
  by (simp add: newestFirst_def filter_sort [symmetric] rev_filter)

lemma newestFirst_unique:
  assumes "sorted_wrt (\<lambda>x y. newer (fst (key x)) (snd (key x)) (fst (key y)) (snd (key y))) ys" and "mset ys = mset xs"
    and "distinct (map key xs)"
  shows "ys = newestFirst key xs"
proof -
  from assms(1) have "sorted_wrt (\<lambda>x y. key y < key x) ys" by (simp add: newer_iff)
  then have "sorted (map key (rev ys))"
    by (simp add: sorted_wrt_map sorted_wrt_rev rev_map [symmetric]) (erule sorted_wrt_mono_rel [rotated], simp)
  moreover have keys: "set (map key (rev ys)) = set (map key (sort_key key xs))"
    using arg_cong [OF assms(2), of set_mset] by simp
  moreover have "mset (map key (rev ys)) = mset (map key xs)" and "mset (map key (sort_key key xs)) = mset (map key xs)"
    using assms(2) by simp_all
  then have "distinct (map key (rev ys))" and "distinct (map key (sort_key key xs))"
    using assms(3) mset_eq_imp_distinct_iff by blast+
  ultimately have "map key (rev ys) = map key (sort_key key xs)" by (intro sorted_distinct_set_unique) simp_all
  moreover have "inj_on key (set (rev ys) \<union> set (sort_key key xs))"
    using assms(3) arg_cong [OF assms(2), of set_mset] by (simp add: distinct_map)
  ultimately have "rev ys = sort_key key xs" by (simp add: inj_on_map_eq_map)
  then show ?thesis by (metis newestFirst_def rev_rev_ident)
qed

text \<open>What follows a record in the listing is what lies after its cursor.\<close>

lemma filter_after:
  assumes "sorted_wrt (\<lambda>x y. key y < key x) (A @ y # B)"
  shows "filter (\<lambda>x. key x < (key y :: 'k :: linorder)) (A @ y # B) = B"
proof -
  from assms have "\<forall>x \<in> set A. key y < key x" and "\<forall>x \<in> set B. key x < key y"
    by (simp_all add: sorted_wrt_append)
  then have "filter (\<lambda>x. key x < key y) A = []" and "filter (\<lambda>x. key x < key y) B = B"
    by (auto simp: filter_empty_conv filter_id_conv)
  then show ?thesis by simp
qed

section \<open>Following the cursors\<close>

lemma collect_yieldItems:
  "collectFrom acc end0 (yieldItems (\<lambda>_. None) k xs pageEnd) = Inr (acc @ xs, pageEnd)"
  by (induction xs arbitrary: acc k) simp_all

lemma CollectPage_listPage:
  assumes "selectPage unmarshal None page key matches xs = Inr selected" and "page_Limit page \<ge> 0"
  shows "CollectPage (listPage unmarshal None (\<lambda>_. None) page key matches view xs)
    = Inr (map view (pageItems (page_Limit page) selected), pageEndOf key (page_Limit page) selected)"
  using assms by (simp add: listPage_def yieldPage_def CollectPage_def collect_yieldItems)

text \<open>The times a cursor can carry: those of the 64-bit range but the epoch itself, which decoding refuses.\<close>

definition cursorTime :: "time \<Rightarrow> bool" where
  "cursorTime t \<longleftrightarrow> - (2 ^ 63) \<le> t \<and> t < 2 ^ 63 \<and> t \<noteq> 0"

lemma UnixNano_cursorTime: "cursorTime t \<Longrightarrow> UnixNano t = t"
  by (simp add: UnixNano_def cursorTime_def sint_sbintrunc' signed_take_bit_int_eq_self)

text \<open>\<^verbatim>\<open>json.Unmarshal\<close> reads back what \<^verbatim>\<open>json.Marshal\<close> wrote.\<close>

definition readsBack :: "unmarshalFn \<Rightarrow> bool" where
  "readsBack unmarshal \<longleftrightarrow> (\<forall>c. cursorTime (cur_UnixNano c) \<longrightarrow> unmarshal (toBytes (cursorJSON c)) = Some c)"

lemma decode_encode:
  assumes "readsBack unmarshal" and "cursorTime t" and "i \<noteq> 0"
  shows "decodeCursor unmarshal (encodeCursor t i) = Inr \<lparr>cur_UnixNano = t, cur_ID = i\<rparr>"
proof -
  let ?c = "\<lparr>cur_UnixNano = t, cur_ID = i\<rparr>"
  have "encodeCursor t i = b64Encode (toBytes (cursorJSON ?c))"
    using assms(2) by (simp add: encodeCursor_def UnixNano_cursorTime)
  moreover have "b64Encode (toBytes (cursorJSON ?c)) \<noteq> []"
  proof
    assume "b64Encode (toBytes (cursorJSON ?c)) = []"
    then have "toBytes (cursorJSON ?c) = toBytes []" using b64Decode_b64Encode [of "toBytes (cursorJSON ?c)"]
      by (simp add: toBytes_def b64Decode_def)
    then show False by (simp add: cursorJSON_def)
  qed
  ultimately show ?thesis using assms by (simp add: decodeCursor_def readsBack_def cursorTime_def)
qed

text \<open>The records of a listing have distinct keys, and every key fits into a cursor.\<close>

definition listable :: "('a \<Rightarrow> time \<times> uuid) \<Rightarrow> 'a list \<Rightarrow> bool" where
  "listable key xs \<longleftrightarrow> distinct (map key xs) \<and> (\<forall>x \<in> set xs. cursorTime (fst (key x)) \<and> snd (key x) \<noteq> 0)"

lemma listable_filter: "listable key xs \<Longrightarrow> listable key (filter P xs)"
  by (auto simp: listable_def distinct_map_filter)

lemma select_first:
  "page_Cursor page = [] \<Longrightarrow> selectPage unmarshal None page key matches xs = Inr (newestFirst key (filter matches xs))"
  by (simp add: selectPage_def decodeCursor_def zeroCursor_def afterCursor_def)

lemma select_after:
  assumes "readsBack unmarshal" and "listable key xs" and "newestFirst key (filter matches xs) = A @ y # B"
    and "page_Cursor page = encodeCursor (fst (key y)) (snd (key y))"
  shows "selectPage unmarshal None page key matches xs = Inr B"
proof -
  have "y \<in> set (newestFirst key (filter matches xs))" using assms(3) by simp
  with assms(2) have y: "cursorTime (fst (key y))" "snd (key y) \<noteq> 0" by (auto simp: listable_def)
  have "filter (\<lambda>x. matches x \<and> key x < key y) xs = filter (\<lambda>x. key x < key y) (filter matches xs)"
    by (simp add: conj_commute)
  then have "newestFirst key (filter (\<lambda>x. matches x \<and> key x < key y) xs) = filter (\<lambda>x. key x < key y) (A @ y # B)"
    by (simp add: filter_newestFirst assms(3) [symmetric])
  also have "\<dots> = B"
    using newestFirst_sorted [of key "filter matches xs"] listable_filter [OF assms(2), of matches] assms(3)
    by (intro filter_after) (simp add: listable_def newer_iff)
  finally show ?thesis using y
    by (simp add: selectPage_def assms(4) decode_encode [OF assms(1) y] afterCursor_iff)
qed

lemma pageItems_split:
  assumes "limit > 0"
  obtains (last_page) "pageItems limit xs = xs" and "\<not> end_HasMore (pageEndOf key limit xs)"
  | (more) init y rest where "xs = init @ y # rest" and "pageItems limit xs = init @ [y]"
      and "end_HasMore (pageEndOf key limit xs)"
      and "end_NextCursor (pageEndOf key limit xs) = encodeCursor (fst (key y)) (snd (key y))"
proof (cases "int (length xs) > limit")
  case True
  then have items: "pageItems limit xs = take (nat limit) xs" by (simp add: pageItems_def)
  have ne: "take (nat limit) xs \<noteq> []" using True assms by auto
  then obtain init y where iy: "take (nat limit) xs = init @ [y]" by (metis rev_exhaust)
  show thesis
  proof (rule more)
    show "xs = init @ y # drop (nat limit) xs" using append_take_drop_id [of "nat limit" xs] iy by simp
    show "pageItems limit xs = init @ [y]" using items iy by simp
    show "end_HasMore (pageEndOf key limit xs)" using True by (simp add: pageEndOf_def Let_def)
    show "end_NextCursor (pageEndOf key limit xs) = encodeCursor (fst (key y)) (snd (key y))"
      using True items iy by (simp add: pageEndOf_def Let_def split: prod.split)
  qed
next
  case False
  then show thesis by (intro last_page) (simp_all add: pageItems_def pageEndOf_def Let_def)
qed

lemma followPages_from:
  assumes "readsBack unmarshal" and "listable key xs" and "limit > 0"
    and "newestFirst key (filter matches xs) = A @ B"
    and "selectPage unmarshal None \<lparr>page_Cursor = cursor, page_Limit = limit\<rparr> key matches xs = Inr B"
    and "length B < fuel"
  shows "followPages fuel (\<lambda>c. listPage unmarshal None (\<lambda>_. None) \<lparr>page_Cursor = c, page_Limit = limit\<rparr> key matches view xs) cursor
    = Inr (map view B)"
  using assms(4-6)
proof (induction fuel arbitrary: A B cursor)
  case (Suc fuel)
  have collect: "CollectPage (listPage unmarshal None (\<lambda>_. None) \<lparr>page_Cursor = cursor, page_Limit = limit\<rparr> key matches view xs)
      = Inr (map view (pageItems limit B), pageEndOf key limit B)"
    using CollectPage_listPage [OF Suc.prems(2)] assms(3) by simp
  show ?case
  proof (cases rule: pageItems_split [OF assms(3), of B key, case_names last_page more])
    case last_page
    then show ?thesis by (simp add: collect)
  next
    case (more init y rest)
    let ?c = "encodeCursor (fst (key y)) (snd (key y))"
    have L: "newestFirst key (filter matches xs) = (A @ init) @ y # rest" using Suc.prems(1) more(1) by simp
    have sel: "selectPage unmarshal None \<lparr>page_Cursor = ?c, page_Limit = limit\<rparr> key matches xs = Inr rest"
      by (rule select_after [OF assms(1,2) L]) simp
    have "length rest < fuel" using Suc.prems(3) more(1) by simp
    moreover have "newestFirst key (filter matches xs) = (A @ init @ [y]) @ rest" using L by simp
    ultimately have "followPages fuel (\<lambda>c. listPage unmarshal None (\<lambda>_. None) \<lparr>page_Cursor = c, page_Limit = limit\<rparr> key matches view xs) ?c
        = Inr (map view rest)"
      using Suc.IH [OF _ sel] by blast
    with more show ?thesis by (simp add: collect)
  qed
qed simp

lemma parseInt_FormatInt [simp]: "parseInt (FormatInt n) = n"
proof (cases "n < 0")
  case True
  then show ?thesis by (simp add: parseInt_def FormatInt_def)
next
  case False
  obtain c ds where d: "decimal (nat n) = c # ds" using decimal_nonempty [of "nat n"] by (cases "decimal (nat n)") auto
  with decimal_no_minus [of "nat n" ds] have "c \<noteq> CHR ''-''" by auto
  with False d decVal_decimal [of "nat n"] show ?thesis by (simp add: parseInt_def FormatInt_def)
qed

lemma FormatInt_no_comma: "c \<in> set (FormatInt n) \<Longrightarrow> c \<noteq> CHR '',''"
  by (auto simp: FormatInt_def split: if_splits dest: decimal_digits)

lemma chars_toBytes [simp]: "map (\<lambda>b. char_of (unat b)) (toBytes s) = s"
  by (induction s) (simp_all add: toBytes_def unat_of_char)

lemma readsBack_readCursor: "readsBack readCursor"
proof (unfold readsBack_def, intro allI impI)
  fix c :: pageCursor
  let ?tail = "'','' @ [CHR 0x22] @ ''id'' @ [CHR 0x22] @ '':'' @ [CHR 0x22] @ UUID_String (cur_ID c) @ [CHR 0x22] @ ''}''"
  have s: "drop 5 (map (\<lambda>b. char_of (unat b)) (toBytes (cursorJSON c))) = FormatInt (cur_UnixNano c) @ ?tail"
    by (simp add: cursorJSON_def)
  have "takeWhile (\<lambda>c. c \<noteq> CHR '','') (FormatInt (cur_UnixNano c) @ ?tail) = FormatInt (cur_UnixNano c)"
    and r: "dropWhile (\<lambda>c. c \<noteq> CHR '','') (FormatInt (cur_UnixNano c) @ ?tail) = ?tail"
    using FormatInt_no_comma by (subst takeWhile_append2 dropWhile_append2, auto)+
  moreover have "take 36 (drop 7 ?tail) = UUID_String (cur_ID c)" by (simp add: length_UUID_String)
  moreover have "\<lparr>cur_UnixNano = cur_UnixNano c, cur_ID = cur_ID c\<rparr> = c" by (cases c) simp
  ultimately show "readCursor (toBytes (cursorJSON c)) = Some c"
    by (simp only: readCursor_def s Let_def ParseUUID_UUID_String sum.case parseInt_FormatInt simp_thms if_True)
qed

end
