(* ===== verification/MemListing.thy ===== *)
theory MemListing
  imports MemTenancy Paging
begin

text \<open>
  The listings of the in-memory store: one definition per streaming method of \<^verbatim>\<open>memory/store.go\<close>, each an
  instance of the shared page of \<^verbatim>\<open>Paging\<close>. A map is iterated in some order, sorted away before anything
  is yielded; defensive copies are the values themselves. \<open>ctxErr\<close> is the error of the context at each check
  between two items, where a listing makes one.
\<close>

section \<open>Pages\<close>

definition Users :: "unmarshalFn \<Rightarrow> error option \<Rightarrow> pageRequest \<Rightarrow> store \<Rightarrow> user pageEvent result list" where
  "Users unmarshal ce page s =
    listPage unmarshal ce (\<lambda>_. None) page (\<lambda>x. (usr_CreatedAt x, usr_ID x)) (\<lambda>_. True) (\<lambda>x. x) (map snd (st_users s))"

definition Emails :: "unmarshalFn \<Rightarrow> error option \<Rightarrow> uuid \<Rightarrow> pageRequest \<Rightarrow> store \<Rightarrow> emailAddress pageEvent result list" where
  "Emails unmarshal ce userID page s =
    listPage unmarshal ce (\<lambda>_. None) page (\<lambda>x. (eml_CreatedAt x, eml_ID x)) (\<lambda>x. eml_UserID x = userID) (\<lambda>x. x)
      (map snd (st_emailAddresses s))"

definition patPage :: "unmarshalFn \<Rightarrow> error option \<Rightarrow> (nat \<Rightarrow> error option) \<Rightarrow> pageRequest \<Rightarrow> (pat \<Rightarrow> bool) \<Rightarrow> store
    \<Rightarrow> pat pageEvent result list" where
  "patPage unmarshal ce ctxErr page matches s =
    listPage unmarshal ce ctxErr page (\<lambda>x. (pat_CreatedAt x, pat_ID x)) matches (\<lambda>x. x\<lparr>pat_Digest := []\<rparr>) (map snd (st_pats s))"

definition storeWorkspacePATs :: "unmarshalFn \<Rightarrow> error option \<Rightarrow> (nat \<Rightarrow> error option) \<Rightarrow> uuid \<Rightarrow> pageRequest \<Rightarrow> store
    \<Rightarrow> pat pageEvent result list" where
  "storeWorkspacePATs unmarshal ce ctxErr workspaceID page =
    patPage unmarshal ce ctxErr page (\<lambda>x. workspaceID \<noteq> 0 \<and> pat_WorkspaceID x = workspaceID)"

definition storePATs :: "unmarshalFn \<Rightarrow> error option \<Rightarrow> (nat \<Rightarrow> error option) \<Rightarrow> uuid \<Rightarrow> pageRequest \<Rightarrow> store
    \<Rightarrow> pat pageEvent result list" where
  "storePATs unmarshal ce ctxErr userID page = patPage unmarshal ce ctxErr page (\<lambda>x. pat_UserID x = userID)"

definition storeSessions :: "unmarshalFn \<Rightarrow> error option \<Rightarrow> (nat \<Rightarrow> error option) \<Rightarrow> uuid \<Rightarrow> pageRequest \<Rightarrow> store
    \<Rightarrow> session pageEvent result list" where
  "storeSessions unmarshal ce ctxErr userID page s =
    listPage unmarshal ce ctxErr page (\<lambda>x. (ses_CreatedAt x, ses_ID x)) (\<lambda>x. ses_UserID x = userID) (\<lambda>x. x\<lparr>ses_Digest := []\<rparr>)
      (map snd (st_sessions s))"

definition storeWorkspaceDomains :: "unmarshalFn \<Rightarrow> error option \<Rightarrow> (nat \<Rightarrow> error option) \<Rightarrow> uuid \<Rightarrow> pageRequest \<Rightarrow> store
    \<Rightarrow> workspaceDomain pageEvent result list" where
  "storeWorkspaceDomains unmarshal ce ctxErr workspaceID page s =
    listPage unmarshal ce ctxErr page (\<lambda>x. (dom_CreatedAt x, dom_ID x)) (\<lambda>x. dom_WorkspaceID x = workspaceID) (\<lambda>x. x)
      (map snd (st_domains s))"

text \<open>The zero user lists every workspace.\<close>

definition workspacesPage :: "unmarshalFn \<Rightarrow> error option \<Rightarrow> uuid \<Rightarrow> pageRequest \<Rightarrow> store \<Rightarrow> workspace pageEvent result list" where
  "workspacesPage unmarshal ce userID page s =
    listPage unmarshal ce (\<lambda>_. None) page (\<lambda>x. (wsp_CreatedAt x, wsp_ID x)) (\<lambda>_. True) (\<lambda>x. x)
      (map snd (filter (\<lambda>(i, _). userID = 0 \<or> has userID (membersOf s i)) (st_workspaces s)))"

definition Workspaces :: "unmarshalFn \<Rightarrow> error option \<Rightarrow> pageRequest \<Rightarrow> store \<Rightarrow> workspace pageEvent result list" where
  "Workspaces unmarshal ce page = workspacesPage unmarshal ce 0 page"

definition UserWorkspaces :: "unmarshalFn \<Rightarrow> error option \<Rightarrow> uuid \<Rightarrow> pageRequest \<Rightarrow> store \<Rightarrow> workspace pageEvent result list" where
  "UserWorkspaces unmarshal ce userID page = workspacesPage unmarshal ce userID page"

text \<open>This listing reads the last item of a page that has a successor without looking whether the page is empty.\<close>

definition WorkspaceInvitations :: "unmarshalFn \<Rightarrow> error option \<Rightarrow> uuid \<Rightarrow> pageRequest \<Rightarrow> store
    \<Rightarrow> workspaceInvitation pageEvent result list" where
  "WorkspaceInvitations unmarshal ce workspaceID page s =
    (case selectPage unmarshal ce page (\<lambda>x. (inv_CreatedAt x, inv_ID x)) (\<lambda>x. inv_WorkspaceID x = workspaceID) (map snd (st_invitations s)) of
       Inl e \<Rightarrow> [Inl e]
     | Inr selected \<Rightarrow>
         if page_Limit page = 0 \<and> selected \<noteq> [] then [Inl RuntimePanic]
         else yieldPage (\<lambda>_. None) (\<lambda>x. (inv_CreatedAt x, inv_ID x)) (\<lambda>x. x) (page_Limit page) selected)"

definition Memberships :: "unmarshalFn \<Rightarrow> error option \<Rightarrow> uuid \<Rightarrow> pageRequest \<Rightarrow> store \<Rightarrow> membership pageEvent result list" where
  "Memberships unmarshal ce workspaceID page s =
    listPage unmarshal ce (\<lambda>_. None) page (\<lambda>x. (mbr_CreatedAt x, mbr_UserID x)) (\<lambda>_. True) normalizeMembership
      (map snd (membersOf s workspaceID))"

definition storeSSOIdentities :: "unmarshalFn \<Rightarrow> error option \<Rightarrow> (nat \<Rightarrow> error option) \<Rightarrow> uuid \<Rightarrow> pageRequest \<Rightarrow> store
    \<Rightarrow> ssoIdentity pageEvent result list" where
  "storeSSOIdentities unmarshal ce ctxErr userID page s =
    listPage unmarshal ce ctxErr page (\<lambda>x. (sso_CreatedAt x, sso_ID x)) (\<lambda>x. sso_UserID x = userID) (\<lambda>x. x)
      (map snd (st_ssoIdentities s))"

definition auditEvents :: "unmarshalFn \<Rightarrow> error option \<Rightarrow> pageRequest \<Rightarrow> (auditEvent \<Rightarrow> bool) \<Rightarrow> store
    \<Rightarrow> auditEvent pageEvent result list" where
  "auditEvents unmarshal ce page matches s =
    listPage unmarshal ce (\<lambda>_. None) page (\<lambda>x. (aud_OccurredAt x, aud_ID x)) matches (\<lambda>x. x) (st_audits s)"

definition storeAuditEvents :: "unmarshalFn \<Rightarrow> error option \<Rightarrow> uuid \<Rightarrow> pageRequest \<Rightarrow> store \<Rightarrow> auditEvent pageEvent result list" where
  "storeAuditEvents unmarshal ce workspaceID page = auditEvents unmarshal ce page (\<lambda>x. aud_WorkspaceID x = workspaceID)"

definition storeInstanceAuditEvents :: "unmarshalFn \<Rightarrow> error option \<Rightarrow> pageRequest \<Rightarrow> store \<Rightarrow> auditEvent pageEvent result list" where
  "storeInstanceAuditEvents unmarshal ce page = auditEvents unmarshal ce page (\<lambda>_. True)"

section \<open>Unpaged streams, oldest first\<close>

definition streamOldest :: "error option \<Rightarrow> ('a \<Rightarrow> time \<times> uuid) \<Rightarrow> 'a list \<Rightarrow> 'a result list" where
  "streamOldest ce key xs = (case ce of Some e \<Rightarrow> [Inl e] | None \<Rightarrow> map Inr (oldestFirst key xs))"

definition InstanceAdministrators :: "error option \<Rightarrow> store \<Rightarrow> instanceAdministrator result list" where
  "InstanceAdministrators ce s = streamOldest ce (\<lambda>x. (iad_CreatedAt x, iad_UserID x)) (map snd (st_admins s))"

definition SCIMUsersByUser :: "error option \<Rightarrow> uuid \<Rightarrow> store \<Rightarrow> scimUser result list" where
  "SCIMUsersByUser ce userID s =
    streamOldest ce (\<lambda>x. (susr_CreatedAt x, susr_ID x)) (filter (\<lambda>x. susr_UserID x = userID) (map snd (st_scimUsers s)))"

definition AcceptedWorkspaceInvitations :: "error option \<Rightarrow> uuid \<Rightarrow> store \<Rightarrow> workspaceInvitation result list" where
  "AcceptedWorkspaceInvitations ce userID s =
    streamOldest ce (\<lambda>x. (inv_CreatedAt x, inv_ID x)) (filter (\<lambda>x. inv_AcceptedUserID x = userID) (map snd (st_invitations s)))"

definition listedUser :: "uuid \<Rightarrow> time \<Rightarrow> user" where
  "listedUser i created = \<lparr>usr_ID = i, usr_Email = [], usr_DisplayName = [], usr_Disabled = False, usr_LastSeenAt = None,
     usr_CreatedAt = created, usr_UpdatedAt = created\<rparr>"

definition listedStore :: store where
  "listedStore = New\<lparr>st_users := [(4, listedUser 4 10), (5, listedUser 5 30), (6, listedUser 6 30)]\<rparr>"

section \<open>Properties\<close>

text \<open>
  C26: a caller who follows the cursors of any listing of the store, starting with an empty cursor and with
  any positive page size, is served every matching record exactly once, newest first, and reaches the
  end after at most one page more than there are records. Two records may be equally old; no record may
  carry the epoch itself or a time outside the 64-bit range, which a cursor cannot express.
\<close>

theorem pages_enumerate:
  assumes "readsBack unmarshal" and "listable key xs" and "limit > 0" and "length (filter matches xs) < fuel"
  shows "followPages fuel (\<lambda>c. listPage unmarshal None (\<lambda>_. None) \<lparr>page_Cursor = c, page_Limit = limit\<rparr> key matches view xs) []
      = Inr (map view (newestFirst key (filter matches xs)))
    \<and> mset (newestFirst key (filter matches xs)) = mset (filter matches xs)
    \<and> sorted_wrt (\<lambda>x y. newer (fst (key x)) (snd (key x)) (fst (key y)) (snd (key y))) (newestFirst key (filter matches xs))"
proof -
  have "length (newestFirst key (filter matches xs)) < fuel" using assms(4) by (simp add: newestFirst_def)
  then show ?thesis
    using followPages_from [OF assms(1-3), of matches "[]" _ "[]" fuel view] newestFirst_sorted [of key "filter matches xs"]
      listable_filter [OF assms(2), of matches]
    by (simp add: select_first listable_def)
qed

theorem pages_enumerate_witness:
  "followPages 4 (\<lambda>c. Users readCursor None \<lparr>page_Cursor = c, page_Limit = 1\<rparr> listedStore) []
     = Inr [listedUser 6 30, listedUser 5 30, listedUser 4 10]"
proof -
  let ?key = "\<lambda>x. (usr_CreatedAt x, usr_ID x)" and ?xs = "map snd (st_users listedStore)"
  have "listable ?key ?xs" by (simp add: listable_def listedStore_def listedUser_def cursorTime_def)
  moreover have "length (filter (\<lambda>_. True) ?xs) < 4" by (simp add: listedStore_def)
  ultimately have "followPages 4 (\<lambda>c. listPage readCursor None (\<lambda>_. None) \<lparr>page_Cursor = c, page_Limit = 1\<rparr> ?key (\<lambda>_. True) (\<lambda>x. x) ?xs) []
      = Inr (map (\<lambda>x. x) (newestFirst ?key (filter (\<lambda>_. True) ?xs)))"
    using pages_enumerate [OF readsBack_readCursor, of ?key ?xs 1 "\<lambda>_. True" 4 "\<lambda>x. x"] by simp
  moreover have "newestFirst ?key (filter (\<lambda>_. True) ?xs) = [listedUser 6 30, listedUser 5 30, listedUser 4 10]"
    by (simp add: listedStore_def newestFirst_def) (simp add: listedUser_def less_eq_prod_def)
  ultimately show ?thesis by (simp add: Users_def)
qed

end
