(* ===== verification/MemSCIM.thy ===== *)
theory MemSCIM
  imports MemListing
begin

text \<open>
  The SCIM part of the in-memory store (\<^verbatim>\<open>memory/scim.go\<close>): provisioning configurations and their bearer
  credentials, directory users and groups, and the memberships they carry into workspaces. Three methods
  write into the member map of a workspace without creating it, which panics when there is none; the
  model keeps the panic and what was written before it.
\<close>

section \<open>Writes that may panic\<close>

text \<open>As \<^const>\<open>mutate\<close>, for an effect that reports whether it panicked.\<close>

definition mutatePanic :: "hashFn \<Rightarrow> error option \<Rightarrow> (store \<Rightarrow> 'x result) \<Rightarrow> ('x \<Rightarrow> store \<Rightarrow> bool \<times> store) \<Rightarrow> commit \<Rightarrow> store
    \<Rightarrow> unit result \<times> store" where
  "mutatePanic sha ctxErr guard effect commit s =
    (case ctxErr of Some e \<Rightarrow> (Inl e, s) | None \<Rightarrow>
     (case guard s of Inl e \<Rightarrow> (Inl e, s) | Inr x \<Rightarrow>
      (case prepareCommitLocked commit s of
         (Inl e, s1) \<Rightarrow> (Inl e, s1)
       | (Inr previous, s1) \<Rightarrow>
          (case effect x s1 of (panicked, s2) \<Rightarrow>
             if panicked then (Inl RuntimePanic, s2) else finishCommitLocked sha commit previous s2))))"

text \<open>The same call when nothing panics.\<close>

definition checked :: "hashFn \<Rightarrow> error option \<Rightarrow> (store \<Rightarrow> 'x result) \<Rightarrow> ('x \<Rightarrow> store \<Rightarrow> bool \<times> store) \<Rightarrow> commit \<Rightarrow> store
    \<Rightarrow> unit result \<times> store" where
  "checked sha ce guard effect = mutate sha ce guard (writes (\<lambda>x s. snd (effect x s)))"

text \<open>\<^verbatim>\<open>s.memberships[workspace][user] = ...\<close>, in a loop.\<close>

fun setMembers :: "membership list \<Rightarrow> store \<Rightarrow> bool \<times> store" where
  "setMembers [] s = (False, s)"
| "setMembers (m # ms) s =
    (if has (mbr_WorkspaceID m) (st_memberships s)
     then setMembers ms (putMember (mbr_WorkspaceID m) (mbr_UserID m) (normalizeMembership m) s)
     else (True, s))"

text \<open>The same loop where the source creates a missing member map.\<close>

fun upsertMembers :: "membership list \<Rightarrow> store \<Rightarrow> store" where
  "upsertMembers [] s = s"
| "upsertMembers (m # ms) s = upsertMembers ms (putMember (mbr_WorkspaceID m) (mbr_UserID m) (normalizeMembership m) s)"

section \<open>Configurations and credentials\<close>

definition storeCreateSCIMConfiguration :: "hashFn \<Rightarrow> error option \<Rightarrow> scimConfiguration \<Rightarrow> scimCredential \<Rightarrow> commit \<Rightarrow> store
    \<Rightarrow> unit result \<times> store" where
  "storeCreateSCIMConfiguration sha ce configuration credential commit =
    mutate sha ce (\<lambda>s.
        require (has (scfg_WorkspaceID configuration) (st_workspaces s)) ErrNotFound (
        require (\<not> has (scfg_ID configuration) (st_scimConfigurations s)) ErrConflict (
        require (\<not> has (scrd_Prefix credential) (st_scimCredentialKeys s)) ErrConflict (Inr ()))))
     (writes (\<lambda>_ s. s\<lparr>
        st_scimConfigurations := put (scfg_ID configuration) configuration (st_scimConfigurations s),
        st_scimCredentials := put (scrd_ID credential) credential (st_scimCredentials s),
        st_scimCredentialKeys := put (scrd_Prefix credential) (scrd_ID credential) (st_scimCredentialKeys s)\<rparr>)) commit"

definition storeSCIMConfiguration :: "error option \<Rightarrow> uuid \<Rightarrow> store \<Rightarrow> scimConfiguration result \<times> store" where
  "storeSCIMConfiguration ce i = reads ce (\<lambda>s. orErr ErrNotFound (lookup (st_scimConfigurations s) i))"

definition storeSCIMConfigurations :: "error option \<Rightarrow> uuid \<Rightarrow> store \<Rightarrow> scimConfiguration result list" where
  "storeSCIMConfigurations ce workspaceID s =
    streamOldest ce (\<lambda>x. (scfg_CreatedAt x, scfg_ID x)) (filter (\<lambda>x. scfg_WorkspaceID x = workspaceID) (map snd (st_scimConfigurations s)))"

definition storeSCIMCredentials :: "error option \<Rightarrow> uuid \<Rightarrow> store \<Rightarrow> scimCredential result list" where
  "storeSCIMCredentials ce configurationID s =
    streamOldest ce (\<lambda>x. (scrd_CreatedAt x, scrd_ID x))
      (map (\<lambda>x. x\<lparr>scrd_Digest := []\<rparr>) (filter (\<lambda>x. scrd_ConfigurationID x = configurationID) (map snd (st_scimCredentials s))))"

definition storeUpdateSCIMConfiguration :: "hashFn \<Rightarrow> error option \<Rightarrow> scimConfiguration \<Rightarrow> membership list \<Rightarrow> commit \<Rightarrow> store
    \<Rightarrow> unit result \<times> store" where
  "storeUpdateSCIMConfiguration sha ce configuration memberships commit =
    mutate sha ce (\<lambda>s. case lookup (st_scimConfigurations s) (scfg_ID configuration) of
        None \<Rightarrow> Inl ErrNotFound
      | Some current \<Rightarrow> require (scfg_WorkspaceID current = scfg_WorkspaceID configuration) ErrNotFound (Inr ()))
     (writes (\<lambda>_ s. upsertMembers memberships
        (s\<lparr>st_scimConfigurations := put (scfg_ID configuration) configuration (st_scimConfigurations s)\<rparr>))) commit"

definition zeroSCIMCredential :: scimCredential where
  "zeroSCIMCredential = \<lparr>scrd_ID = 0, scrd_ConfigurationID = 0, scrd_Prefix = [], scrd_Digest = [], scrd_CreatedAt = zeroTime,
     scrd_ExpiresAt = None, scrd_LastUsedAt = None, scrd_RevokedAt = None\<rparr>"

definition SCIMConfigurationByCredentialPrefix :: "error option \<Rightarrow> string \<Rightarrow> store \<Rightarrow> (scimConfiguration \<times> scimCredential) result \<times> store" where
  "SCIMConfigurationByCredentialPrefix ce prefix = reads ce (\<lambda>s.
     case lookup (st_scimCredentialKeys s) prefix of
       None \<Rightarrow> Inl ErrNotFound
     | Some credentialID \<Rightarrow>
        (let credential = (case lookup (st_scimCredentials s) credentialID of None \<Rightarrow> zeroSCIMCredential | Some c \<Rightarrow> c)
         in case lookup (st_scimConfigurations s) (scrd_ConfigurationID credential) of
              None \<Rightarrow> Inl ErrNotFound
            | Some configuration \<Rightarrow> Inr (configuration, credential)))"

definition SaveSCIMCredential :: "hashFn \<Rightarrow> error option \<Rightarrow> scimCredential \<Rightarrow> commit \<Rightarrow> store \<Rightarrow> unit result \<times> store" where
  "SaveSCIMCredential sha ce credential commit =
    mutate sha ce (\<lambda>s.
        require (has (scrd_ConfigurationID credential) (st_scimConfigurations s)) ErrNotFound (
        require (\<not> has (scrd_ID credential) (st_scimCredentials s)) ErrConflict (
        require (\<not> has (scrd_Prefix credential) (st_scimCredentialKeys s)) ErrConflict (Inr ()))))
     (writes (\<lambda>_ s. s\<lparr>
        st_scimCredentials := put (scrd_ID credential) credential (st_scimCredentials s),
        st_scimCredentialKeys := put (scrd_Prefix credential) (scrd_ID credential) (st_scimCredentialKeys s)\<rparr>)) commit"

definition storeRevokeSCIMCredential :: "hashFn \<Rightarrow> error option \<Rightarrow> uuid \<Rightarrow> uuid \<Rightarrow> time \<Rightarrow> commit \<Rightarrow> store \<Rightarrow> unit result \<times> store" where
  "storeRevokeSCIMCredential sha ce configurationID i revokedAt commit =
    mutate sha ce (\<lambda>s. case lookup (st_scimCredentials s) i of
        None \<Rightarrow> Inl ErrNotFound
      | Some credential \<Rightarrow> require (scrd_ConfigurationID credential = configurationID) ErrNotFound (Inr credential))
     (writes (\<lambda>credential s. s\<lparr>st_scimCredentials := put i (credential\<lparr>scrd_RevokedAt := Some revokedAt\<rparr>) (st_scimCredentials s)\<rparr>)) commit"

definition TouchSCIMCredential :: "hashFn \<Rightarrow> error option \<Rightarrow> uuid \<Rightarrow> time \<Rightarrow> commit \<Rightarrow> store \<Rightarrow> unit result \<times> store" where
  "TouchSCIMCredential sha ce i usedAt commit =
    mutate sha ce (\<lambda>s. orErr ErrNotFound (lookup (st_scimCredentials s) i))
     (writes (\<lambda>credential s. s\<lparr>st_scimCredentials := put i (credential\<lparr>scrd_LastUsedAt := Some usedAt\<rparr>) (st_scimCredentials s)\<rparr>)) commit"

definition storeDisableSCIMConfiguration :: "hashFn \<Rightarrow> error option \<Rightarrow> uuid \<Rightarrow> time \<Rightarrow> commit \<Rightarrow> store \<Rightarrow> unit result \<times> store" where
  "storeDisableSCIMConfiguration sha ce i disabledAt commit =
    mutate sha ce (\<lambda>s. orErr ErrNotFound (lookup (st_scimConfigurations s) i))
     (writes (\<lambda>configuration s. s\<lparr>
        st_scimConfigurations := put i (configuration\<lparr>scfg_Enabled := False, scfg_UpdatedAt := disabledAt\<rparr>) (st_scimConfigurations s),
        st_scimCredentials := mapv (\<lambda>_ c. if scrd_ConfigurationID c = i \<and> scrd_RevokedAt c = None
          then c\<lparr>scrd_RevokedAt := Some disabledAt\<rparr> else c) (st_scimCredentials s)\<rparr>)) commit"

section \<open>Directory users\<close>

definition scimUserConflictLocked :: "scimUser \<Rightarrow> uuid \<Rightarrow> store \<Rightarrow> bool" where
  "scimUserConflictLocked link exceptID s =
    ((case lookup (st_scimUserNames s) (scimKey (susr_ConfigurationID link) (susr_UserName link)) of
        None \<Rightarrow> False | Some i \<Rightarrow> i \<noteq> exceptID)
   \<or> (susr_ExternalID link \<noteq> [] \<and>
      (case lookup (st_scimExternalIDs s) (scimKey (susr_ConfigurationID link) (susr_ExternalID link)) of
        None \<Rightarrow> False | Some i \<Rightarrow> i \<noteq> exceptID)))"

definition CreateSCIMUser :: "hashFn \<Rightarrow> error option \<Rightarrow> user \<Rightarrow> emailAddress \<Rightarrow> membership \<Rightarrow> scimUser \<Rightarrow> commit \<Rightarrow> store
    \<Rightarrow> unit result \<times> store" where
  "CreateSCIMUser sha ce user email membership link commit =
    mutate sha ce (\<lambda>s. case lookup (st_scimConfigurations s) (susr_ConfigurationID link) of
        None \<Rightarrow> Inl ErrNotFound
      | Some configuration \<Rightarrow>
          require (scfg_WorkspaceID configuration = mbr_WorkspaceID membership) ErrNotFound (
          require (\<not> (has (usr_ID user) (st_users s) \<or> scimUserConflictLocked link 0 s)) ErrConflict (
          require (\<not> has (eml_Address email) (st_emailIDs s)) ErrConflict (Inr ()))))
     (writes (\<lambda>_ s. putSCIMUserLocked link
        (putMember (mbr_WorkspaceID membership) (usr_ID user) (normalizeMembership membership) (s\<lparr>
          st_users := put (usr_ID user) user (st_users s),
          st_emailAddresses := put (eml_ID email) email (st_emailAddresses s),
          st_emailIDs := put (eml_Address email) (eml_ID email) (st_emailIDs s),
          st_emails := (if eml_VerifiedAt email \<noteq> None then put (eml_Address email) (usr_ID user) (st_emails s) else st_emails s)\<rparr>)))) commit"

definition AdoptSCIMUser :: "hashFn \<Rightarrow> error option \<Rightarrow> membership \<Rightarrow> scimUser \<Rightarrow> commit \<Rightarrow> store \<Rightarrow> unit result \<times> store" where
  "AdoptSCIMUser sha ce membership link commit =
    mutate sha ce (\<lambda>s. case lookup (st_scimConfigurations s) (susr_ConfigurationID link) of
        None \<Rightarrow> Inl ErrNotFound
      | Some configuration \<Rightarrow>
          require (scfg_WorkspaceID configuration = mbr_WorkspaceID membership) ErrNotFound (
          require (has (susr_UserID link) (st_users s)) ErrNotFound (
          require (has (mbr_UserID membership) (membersOf s (mbr_WorkspaceID membership))) ErrNotFound (
          require (\<not> scimUserConflictLocked link 0 s) ErrConflict (Inr ())))))
     (writes (\<lambda>_ s. putSCIMUserLocked link
        (putMember (mbr_WorkspaceID membership) (mbr_UserID membership) (normalizeMembership membership) s))) commit"

definition storeSCIMUser :: "error option \<Rightarrow> uuid \<Rightarrow> uuid \<Rightarrow> store \<Rightarrow> scimUser result \<times> store" where
  "storeSCIMUser ce configurationID i = reads ce (\<lambda>s. case lookup (st_scimUsers s) i of
     None \<Rightarrow> Inl ErrNotFound
   | Some link \<Rightarrow> require (susr_ConfigurationID link = configurationID) ErrNotFound (Inr link))"

definition zeroSCIMUser :: scimUser where
  "zeroSCIMUser = \<lparr>susr_ID = 0, susr_ConfigurationID = 0, susr_UserID = 0, susr_Schemas = [], susr_ExternalID = [], susr_UserName = [],
     susr_DisplayName = [], susr_Emails = [], susr_Attributes = [], susr_Active = False, susr_CreatedAt = zeroTime,
     susr_UpdatedAt = zeroTime, susr_DeprovisionedAt = None\<rparr>"

definition scimUserByKey :: "error option \<Rightarrow> (store \<Rightarrow> (string, uuid) dict) \<Rightarrow> string \<Rightarrow> store \<Rightarrow> scimUser result \<times> store" where
  "scimUserByKey ce index key = reads ce (\<lambda>s. case lookup (index s) key of
     None \<Rightarrow> Inl ErrNotFound
   | Some i \<Rightarrow> Inr (case lookup (st_scimUsers s) i of None \<Rightarrow> zeroSCIMUser | Some link \<Rightarrow> link))"

definition SCIMUserByExternalID :: "error option \<Rightarrow> uuid \<Rightarrow> string \<Rightarrow> store \<Rightarrow> scimUser result \<times> store" where
  "SCIMUserByExternalID ce configurationID externalID = scimUserByKey ce st_scimExternalIDs (scimKey configurationID (TrimSpace externalID))"

definition SCIMUserByUserName :: "error option \<Rightarrow> uuid \<Rightarrow> string \<Rightarrow> store \<Rightarrow> scimUser result \<times> store" where
  "SCIMUserByUserName ce configurationID userName = scimUserByKey ce st_scimUserNames (scimKey configurationID (ToLower (TrimSpace userName)))"

definition updateSCIMUserGuard :: "scimUser \<Rightarrow> store \<Rightarrow> scimUser result" where
  "updateSCIMUserGuard link s = (case lookup (st_scimUsers s) (susr_ID link) of
     None \<Rightarrow> Inl ErrNotFound
   | Some current \<Rightarrow>
       require (susr_ConfigurationID current = susr_ConfigurationID link \<and> susr_UserID current = susr_UserID link) ErrNotFound (
       require (\<not> scimUserConflictLocked link (susr_ID link) s) ErrConflict (Inr current)))"

definition updateSCIMUserEffect :: "scimUser \<Rightarrow> membership \<Rightarrow> bool \<Rightarrow> scimUser \<Rightarrow> store \<Rightarrow> bool \<times> store" where
  "updateSCIMUserEffect link membership revokeWorkspacePATs current s =
    (case setMembers [membership] (putSCIMUserLocked link (deleteSCIMUserIndexesLocked current s)) of
       (panicked, s1) \<Rightarrow> (panicked,
         if revokeWorkspacePATs \<and> \<not> panicked
         then s1\<lparr>st_pats := mapv (\<lambda>_ p. if pat_UserID p = susr_UserID link \<and> pat_WorkspaceID p = mbr_WorkspaceID membership
                  \<and> pat_RevokedAt p = None then p\<lparr>pat_RevokedAt := Some (susr_UpdatedAt link)\<rparr> else p) (st_pats s1)\<rparr>
         else s1))"

definition storeUpdateSCIMUser :: "hashFn \<Rightarrow> error option \<Rightarrow> scimUser \<Rightarrow> membership \<Rightarrow> bool \<Rightarrow> commit \<Rightarrow> store \<Rightarrow> unit result \<times> store" where
  "storeUpdateSCIMUser sha ce link membership revokeWorkspacePATs commit =
    mutatePanic sha ce (updateSCIMUserGuard link) (updateSCIMUserEffect link membership revokeWorkspacePATs) commit"

text \<open>\<^verbatim>\<open>strings.EqualFold\<close> on ASCII text.\<close>

definition EqualFold :: "string \<Rightarrow> string \<Rightarrow> bool" where
  "EqualFold a b = (ToLower a = ToLower b)"

record scimFilter =
  sflt_Attribute :: string
  sflt_Value :: string

definition matchSCIMUser :: "scimUser \<Rightarrow> scimFilter \<Rightarrow> bool" where
  "matchSCIMUser link flt =
    (if sflt_Attribute flt = [] then True
     else if sflt_Attribute flt = ''id'' then UUID_String (susr_ID link) = sflt_Value flt
     else if sflt_Attribute flt = ''externalId'' then susr_ExternalID link = sflt_Value flt
     else if sflt_Attribute flt = ''userName'' then susr_UserName link = ToLower (TrimSpace (sflt_Value flt))
     else if sflt_Attribute flt = ''active'' then
       (EqualFold (sflt_Value flt) ''true'' \<and> susr_Active link) \<or> (EqualFold (sflt_Value flt) ''false'' \<and> \<not> susr_Active link)
     else if sflt_Attribute flt = ''emails.value'' then
       list_ex (\<lambda>email. seml_Value email = ToLower (TrimSpace (sflt_Value flt))) (susr_Emails link)
     else False)"

definition storeSCIMUsers :: "unmarshalFn \<Rightarrow> error option \<Rightarrow> (nat \<Rightarrow> error option) \<Rightarrow> uuid \<Rightarrow> scimFilter \<Rightarrow> pageRequest \<Rightarrow> store
    \<Rightarrow> scimUser pageEvent result list" where
  "storeSCIMUsers unmarshal ce ctxErr configurationID flt page s =
    listPage unmarshal ce ctxErr page (\<lambda>x. (susr_CreatedAt x, susr_ID x))
      (\<lambda>x. susr_ConfigurationID x = configurationID \<and> susr_DeprovisionedAt x = None \<and> matchSCIMUser x flt) (\<lambda>x. x)
      (map snd (st_scimUsers s))"

section \<open>Directory groups\<close>

definition dropGroupKey :: "scimGroup option \<Rightarrow> store \<Rightarrow> store" where
  "dropGroupKey current s = (case current of
     None \<Rightarrow> s
   | Some g \<Rightarrow> if sgrp_ExternalID g \<noteq> []
       then s\<lparr>st_scimGroupExternal := del (scimKey (sgrp_ConfigurationID g) (sgrp_ExternalID g)) (st_scimGroupExternal s)\<rparr> else s)"

definition upsertSCIMGroupGuard :: "scimGroup \<Rightarrow> store \<Rightarrow> scimGroup option result" where
  "upsertSCIMGroupGuard grp s =
    require (has (sgrp_ConfigurationID grp) (st_scimConfigurations s)) ErrNotFound (
    require (case lookup (st_scimGroups s) (sgrp_ID grp) of None \<Rightarrow> True
      | Some current \<Rightarrow> sgrp_ConfigurationID current = sgrp_ConfigurationID grp) ErrConflict (
    require (\<not> (sgrp_ExternalID grp \<noteq> [] \<and>
      (case lookup (st_scimGroupExternal s) (scimKey (sgrp_ConfigurationID grp) (sgrp_ExternalID grp)) of
         None \<Rightarrow> False | Some i \<Rightarrow> i \<noteq> sgrp_ID grp))) ErrConflict (
    Inr (lookup (st_scimGroups s) (sgrp_ID grp)))))"

definition upsertSCIMGroupEffect :: "scimGroup \<Rightarrow> membership list \<Rightarrow> scimGroup option \<Rightarrow> store \<Rightarrow> bool \<times> store" where
  "upsertSCIMGroupEffect grp memberships current s =
    (let s1 = dropGroupKey current s;
         s2 = s1\<lparr>st_scimGroups := put (sgrp_ID grp) grp (st_scimGroups s1)\<rparr>;
         s3 = (if sgrp_ExternalID grp \<noteq> []
               then s2\<lparr>st_scimGroupExternal := put (scimKey (sgrp_ConfigurationID grp) (sgrp_ExternalID grp)) (sgrp_ID grp)
                 (st_scimGroupExternal s2)\<rparr> else s2)
     in setMembers memberships s3)"

definition UpsertSCIMGroup :: "hashFn \<Rightarrow> error option \<Rightarrow> scimGroup \<Rightarrow> membership list \<Rightarrow> commit \<Rightarrow> store \<Rightarrow> unit result \<times> store" where
  "UpsertSCIMGroup sha ce grp memberships commit =
    mutatePanic sha ce (upsertSCIMGroupGuard grp) (upsertSCIMGroupEffect grp memberships) commit"

definition storeSCIMGroup :: "error option \<Rightarrow> uuid \<Rightarrow> uuid \<Rightarrow> store \<Rightarrow> scimGroup result \<times> store" where
  "storeSCIMGroup ce configurationID i = reads ce (\<lambda>s. case lookup (st_scimGroups s) i of
     None \<Rightarrow> Inl ErrNotFound
   | Some grp \<Rightarrow> require (sgrp_ConfigurationID grp = configurationID \<and> sgrp_DeletedAt grp = None) ErrNotFound (Inr grp))"

definition zeroSCIMGroup :: scimGroup where
  "zeroSCIMGroup = \<lparr>sgrp_ID = 0, sgrp_ConfigurationID = 0, sgrp_ExternalID = [], sgrp_DisplayName = [], sgrp_MemberIDs = [],
     sgrp_CreatedAt = zeroTime, sgrp_UpdatedAt = zeroTime, sgrp_DeletedAt = None\<rparr>"

definition SCIMGroupByExternalID :: "error option \<Rightarrow> uuid \<Rightarrow> string \<Rightarrow> store \<Rightarrow> scimGroup result \<times> store" where
  "SCIMGroupByExternalID ce configurationID externalID = reads ce (\<lambda>s.
     case lookup (st_scimGroupExternal s) (scimKey configurationID (TrimSpace externalID)) of
       None \<Rightarrow> Inl ErrNotFound
     | Some i \<Rightarrow>
        (let grp = (case lookup (st_scimGroups s) i of None \<Rightarrow> zeroSCIMGroup | Some g \<Rightarrow> g)
         in require (sgrp_DeletedAt grp = None) ErrNotFound (Inr grp)))"

definition deleteSCIMGroupGuard :: "scimGroup \<Rightarrow> store \<Rightarrow> scimGroup result" where
  "deleteSCIMGroupGuard grp s = (case lookup (st_scimGroups s) (sgrp_ID grp) of
     None \<Rightarrow> Inl ErrNotFound
   | Some current \<Rightarrow> require (sgrp_ConfigurationID current = sgrp_ConfigurationID grp) ErrNotFound (Inr current))"

definition deleteSCIMGroupEffect :: "scimGroup \<Rightarrow> membership list \<Rightarrow> scimGroup \<Rightarrow> store \<Rightarrow> bool \<times> store" where
  "deleteSCIMGroupEffect grp memberships current s =
    setMembers memberships (dropGroupKey (Some current) (s\<lparr>st_scimGroups := put (sgrp_ID grp) grp (st_scimGroups s)\<rparr>))"

definition storeDeleteSCIMGroup :: "hashFn \<Rightarrow> error option \<Rightarrow> scimGroup \<Rightarrow> membership list \<Rightarrow> commit \<Rightarrow> store \<Rightarrow> unit result \<times> store" where
  "storeDeleteSCIMGroup sha ce grp memberships commit =
    mutatePanic sha ce (deleteSCIMGroupGuard grp) (deleteSCIMGroupEffect grp memberships) commit"

definition matchSCIMGroup :: "scimGroup \<Rightarrow> scimFilter \<Rightarrow> bool" where
  "matchSCIMGroup grp flt =
    (if sflt_Attribute flt = [] then True
     else if sflt_Attribute flt = ''id'' then UUID_String (sgrp_ID grp) = sflt_Value flt
     else if sflt_Attribute flt = ''externalId'' then sgrp_ExternalID grp = sflt_Value flt
     else if sflt_Attribute flt = ''displayName'' then sgrp_DisplayName grp = sflt_Value flt
     else False)"

definition storeSCIMGroups :: "unmarshalFn \<Rightarrow> error option \<Rightarrow> (nat \<Rightarrow> error option) \<Rightarrow> uuid \<Rightarrow> scimFilter \<Rightarrow> pageRequest \<Rightarrow> store
    \<Rightarrow> scimGroup pageEvent result list" where
  "storeSCIMGroups unmarshal ce ctxErr configurationID flt page s =
    listPage unmarshal ce ctxErr page (\<lambda>x. (sgrp_CreatedAt x, sgrp_ID x))
      (\<lambda>x. sgrp_ConfigurationID x = configurationID \<and> sgrp_DeletedAt x = None \<and> matchSCIMGroup x flt) (\<lambda>x. x)
      (map snd (st_scimGroups s))"

section \<open>The contract\<close>

lemma mutatePanic_checked:
  assumes "mutatePanic sha ce guard effect c s = (r, s')" and "r \<noteq> Inl RuntimePanic"
  shows "checked sha ce guard effect c s = (r, s')"
  using assms
  by (auto simp: mutatePanic_def checked_def mutate_def writes_def split: option.splits sum.splits prod.splits if_splits)

lemma setMembers_silent: "auditSame (snd (setMembers ms s)) s"
proof (induction ms arbitrary: s)
  case (Cons m ms)
  have "auditSame (putMember (mbr_WorkspaceID m) (mbr_UserID m) (normalizeMembership m) s) s" by (simp add: effect_defs)
  with Cons.IH [of "putMember (mbr_WorkspaceID m) (mbr_UserID m) (normalizeMembership m) s"]
  show ?case by (auto simp: auditSame_refl simp del: has_iff intro: auditSame_trans)
qed (simp add: auditSame_refl)

lemma upsertMembers_silent: "auditSame (upsertMembers ms s) s"
proof (induction ms arbitrary: s)
  case (Cons m ms)
  have "auditSame (putMember (mbr_WorkspaceID m) (mbr_UserID m) (normalizeMembership m) s) s" by (simp add: effect_defs)
  with Cons.IH show ?case by (auto intro: auditSame_trans)
qed (simp add: auditSame_refl)

declare putSCIMUserLocked_def [effect_defs] deleteSCIMUserIndexesLocked_def [effect_defs] dropGroupKey_def [effect_defs]

interpretation create_scim_configuration: mutator "\<lambda>sha ce c. storeCreateSCIMConfiguration sha ce x y c" for x y
  unfolding storeCreateSCIMConfiguration_def by (rule mutator_writes) (simp add: effect_defs)

interpretation update_scim_configuration: mutator "\<lambda>sha ce c. storeUpdateSCIMConfiguration sha ce x ms c" for x ms
  unfolding storeUpdateSCIMConfiguration_def
  by (rule mutator_writes, rule auditSame_trans [OF upsertMembers_silent]) (simp add: effect_defs)

interpretation save_scim_credential: mutator "\<lambda>sha ce c. SaveSCIMCredential sha ce x c" for x
  unfolding SaveSCIMCredential_def by (rule mutator_writes) (simp add: effect_defs)

interpretation revoke_scim_credential: mutator "\<lambda>sha ce c. storeRevokeSCIMCredential sha ce i j t c" for i j t
  unfolding storeRevokeSCIMCredential_def by (rule mutator_writes) (simp add: effect_defs)

interpretation touch_scim_credential: mutator "\<lambda>sha ce c. TouchSCIMCredential sha ce i t c" for i t
  unfolding TouchSCIMCredential_def by (rule mutator_writes) (simp add: effect_defs)

interpretation disable_scim_configuration: mutator "\<lambda>sha ce c. storeDisableSCIMConfiguration sha ce i t c" for i t
  unfolding storeDisableSCIMConfiguration_def by (rule mutator_writes) (simp add: effect_defs)

interpretation create_scim_user: mutator "\<lambda>sha ce c. CreateSCIMUser sha ce u e m x c" for u e m x
  unfolding CreateSCIMUser_def by (rule mutator_writes) (simp add: effect_defs)

interpretation adopt_scim_user: mutator "\<lambda>sha ce c. AdoptSCIMUser sha ce m x c" for m x
  unfolding AdoptSCIMUser_def by (rule mutator_writes) (simp add: effect_defs)

text \<open>The three methods that may panic keep the contract whenever they do not.\<close>

lemma checked_mutator:
  assumes "\<And>x s. auditSame (snd (effect x s)) s"
  shows "mutator (\<lambda>sha ce c. checked sha ce guard effect c)"
  unfolding checked_def by (rule mutator_writes) (rule assms)

lemma update_scim_user_silent: "auditSame (snd (updateSCIMUserEffect x m b y s)) s"
proof -
  let ?s = "putSCIMUserLocked x (deleteSCIMUserIndexesLocked y s)"
  have "auditSame (snd (setMembers [m] ?s)) ?s" by (rule setMembers_silent)
  then show ?thesis by (simp add: updateSCIMUserEffect_def effect_defs split: prod.split)
qed

lemma upsert_scim_group_silent: "auditSame (snd (upsertSCIMGroupEffect x ms y s)) s"
  unfolding upsertSCIMGroupEffect_def Let_def
  by (rule auditSame_trans [OF setMembers_silent]) (simp add: effect_defs split: option.split)

lemma delete_scim_group_silent: "auditSame (snd (deleteSCIMGroupEffect x ms y s)) s"
  unfolding deleteSCIMGroupEffect_def
  by (rule auditSame_trans [OF setMembers_silent]) (simp add: effect_defs)

interpretation update_scim_user: mutator "\<lambda>sha ce c. checked sha ce (updateSCIMUserGuard x) (updateSCIMUserEffect x m b) c" for x m b
  by (rule checked_mutator) (rule update_scim_user_silent)

interpretation upsert_scim_group: mutator "\<lambda>sha ce c. checked sha ce (upsertSCIMGroupGuard x) (upsertSCIMGroupEffect x ms) c" for x ms
  by (rule checked_mutator) (rule upsert_scim_group_silent)

interpretation delete_scim_group: mutator "\<lambda>sha ce c. checked sha ce (deleteSCIMGroupGuard x) (deleteSCIMGroupEffect x ms) c" for x ms
  by (rule checked_mutator) (rule delete_scim_group_silent)

lemma panicking_contracts:
  "storeUpdateSCIMUser sha ce x m b c s = (r, s') \<Longrightarrow> r \<noteq> Inl RuntimePanic \<Longrightarrow> keepsContract sha c s (outcomeOf (\<lambda>_. True) r) s'"
  "UpsertSCIMGroup sha ce y ms c s = (r, s') \<Longrightarrow> r \<noteq> Inl RuntimePanic \<Longrightarrow> keepsContract sha c s (outcomeOf (\<lambda>_. True) r) s'"
  "storeDeleteSCIMGroup sha ce y ms c s = (r, s') \<Longrightarrow> r \<noteq> Inl RuntimePanic \<Longrightarrow> keepsContract sha c s (outcomeOf (\<lambda>_. True) r) s'"
  unfolding storeUpdateSCIMUser_def UpsertSCIMGroup_def storeDeleteSCIMGroup_def
  by ((drule (1) mutatePanic_checked, erule contracts)+)

end
