(* ===== verification/MemOAuth.thy ===== *)
theory MemOAuth
  imports MemSCIM
begin

text \<open>
  The OAuth part of the in-memory store (\<^verbatim>\<open>memory/oauth.go\<close>): issuers, protected resources, clients, initial
  access tokens, grants with their codes, and access, client and refresh tokens.
\<close>

section \<open>Grants and their tokens\<close>

definition revokeOAuthGrantLocked :: "uuid \<Rightarrow> time \<Rightarrow> store \<Rightarrow> store" where
  "revokeOAuthGrantLocked grantID at s =
    (case lookup (st_oauthGrants s) grantID of
       None \<Rightarrow> s
     | Some grant \<Rightarrow> s\<lparr>
         st_oauthGrants := put grantID (grant\<lparr>ogr_RevokedAt := Some at, ogr_UpdatedAt := at\<rparr>) (st_oauthGrants s),
         st_oauthAccessTokens := mapv (\<lambda>_ t. if oat_GrantID t = grantID \<and> oat_RevokedAt t = None
           then t\<lparr>oat_RevokedAt := Some at\<rparr> else t) (st_oauthAccessTokens s),
         st_oauthRefreshTokens := mapv (\<lambda>_ t. if ort_GrantID t = grantID \<and> ort_RevokedAt t = None
           then t\<lparr>ort_RevokedAt := Some at\<rparr> else t) (st_oauthRefreshTokens s)\<rparr>)"

text \<open>The loop over the grants when an issuer, a resource or a client is disabled.\<close>

definition revokeGrantsWhere :: "(oauthGrant \<Rightarrow> bool) \<Rightarrow> time \<Rightarrow> store \<Rightarrow> store" where
  "revokeGrantsWhere matches at s =
    foldl (\<lambda>s (i, grant). if matches grant then revokeOAuthGrantLocked i at s else s) s (st_oauthGrants s)"

definition oauthClientKey :: "uuid \<Rightarrow> string \<Rightarrow> string" where
  "oauthClientKey issuerID clientID = UUID_String issuerID @ [CHR 0x00] @ clientID"

section \<open>Issuers\<close>

definition storeCreateOAuthIssuer :: "hashFn \<Rightarrow> error option \<Rightarrow> oauthIssuer \<Rightarrow> commit \<Rightarrow> store \<Rightarrow> unit result \<times> store" where
  "storeCreateOAuthIssuer sha ce issuer commit =
    mutate sha ce (\<lambda>s.
        require (\<not> has (ois_ID issuer) (st_oauthIssuers s)) ErrConflict (
        require (\<not> has (ois_Issuer issuer) (st_oauthIssuerURLs s)) ErrConflict (Inr ())))
     (writes (\<lambda>_ s. s\<lparr>
        st_oauthIssuers := put (ois_ID issuer) issuer (st_oauthIssuers s),
        st_oauthIssuerURLs := put (ois_Issuer issuer) (ois_ID issuer) (st_oauthIssuerURLs s)\<rparr>)) commit"

definition storeUpdateOAuthIssuer :: "hashFn \<Rightarrow> error option \<Rightarrow> oauthIssuer \<Rightarrow> commit \<Rightarrow> store \<Rightarrow> unit result \<times> store" where
  "storeUpdateOAuthIssuer sha ce issuer commit =
    mutate sha ce (\<lambda>s. case lookup (st_oauthIssuers s) (ois_ID issuer) of
        None \<Rightarrow> Inl ErrNotFound
      | Some current \<Rightarrow> require (ois_Issuer current = ois_Issuer issuer) ErrNotFound (Inr ()))
     (writes (\<lambda>_ s. s\<lparr>st_oauthIssuers := put (ois_ID issuer) issuer (st_oauthIssuers s)\<rparr>)) commit"

definition storeSetOAuthIssuerDisabled :: "hashFn \<Rightarrow> error option \<Rightarrow> uuid \<Rightarrow> bool \<Rightarrow> time \<Rightarrow> commit \<Rightarrow> store \<Rightarrow> unit result \<times> store" where
  "storeSetOAuthIssuerDisabled sha ce issuerID disabled at commit =
    mutate sha ce (\<lambda>s. orErr ErrNotFound (lookup (st_oauthIssuers s) issuerID))
     (writes (\<lambda>issuer s.
        let s1 = s\<lparr>st_oauthIssuers := put issuerID (issuer\<lparr>ois_DisabledAt := (if disabled then Some at else None), ois_UpdatedAt := at\<rparr>)
              (st_oauthIssuers s)\<rparr>
        in if disabled then revokeGrantsWhere (\<lambda>g. ogr_IssuerID g = issuerID) at s1 else s1)) commit"

definition OAuthIssuerByID :: "error option \<Rightarrow> uuid \<Rightarrow> store \<Rightarrow> oauthIssuer result \<times> store" where
  "OAuthIssuerByID ce i = reads ce (\<lambda>s. orErr ErrNotFound (lookup (st_oauthIssuers s) i))"

text \<open>A lookup through an index reads the zero record when the index is stale.\<close>

definition throughIndex :: "'v \<Rightarrow> ('k, uuid) dict \<Rightarrow> (uuid, 'v) dict \<Rightarrow> 'k \<Rightarrow> 'v result" where
  "throughIndex zero index records key = (case lookup index key of
     None \<Rightarrow> Inl ErrNotFound
   | Some i \<Rightarrow> Inr (case lookup records i of None \<Rightarrow> zero | Some v \<Rightarrow> v))"

definition zeroIssuer :: oauthIssuer where
  "zeroIssuer = \<lparr>ois_ID = 0, ois_Issuer = [], ois_OIDCEnabled = False, ois_CIMDMode = [], ois_CIMDAllowedOrigins = [],
     ois_DCRMode = [], ois_DCRAllowClientSecrets = False, ois_DCROpenRegistrationLimit = 0, ois_CodeTTL = 0,
     ois_AccessTokenTTL = 0, ois_RefreshTokenTTL = 0, ois_CreatedAt = zeroTime, ois_UpdatedAt = zeroTime, ois_DisabledAt = None\<rparr>"

definition OAuthIssuerByURL :: "error option \<Rightarrow> string \<Rightarrow> store \<Rightarrow> oauthIssuer result \<times> store" where
  "OAuthIssuerByURL ce raw = reads ce (\<lambda>s. throughIndex zeroIssuer (st_oauthIssuerURLs s) (st_oauthIssuers s) raw)"

definition storeOAuthIssuers :: "unmarshalFn \<Rightarrow> error option \<Rightarrow> pageRequest \<Rightarrow> store \<Rightarrow> oauthIssuer pageEvent result list" where
  "storeOAuthIssuers unmarshal ce page s =
    listPage unmarshal ce (\<lambda>_. None) page (\<lambda>x. (ois_CreatedAt x, ois_ID x)) (\<lambda>_. True) (\<lambda>x. x) (map snd (st_oauthIssuers s))"

section \<open>Protected resources\<close>

definition storeCreateOAuthProtectedResource :: "hashFn \<Rightarrow> error option \<Rightarrow> oauthProtectedResource \<Rightarrow> commit \<Rightarrow> store \<Rightarrow> unit result \<times> store" where
  "storeCreateOAuthProtectedResource sha ce resource commit =
    mutate sha ce (\<lambda>s.
        require (has (ors_IssuerID resource) (st_oauthIssuers s)) ErrNotFound (
        require (has (ors_WorkspaceID resource) (st_workspaces s)) ErrNotFound (
        require (\<not> has (ors_ID resource) (st_oauthResources s)) ErrConflict (
        require (\<not> has (ors_Resource resource) (st_oauthResourceURIs s)) ErrConflict (Inr ())))))
     (writes (\<lambda>_ s. s\<lparr>
        st_oauthResources := put (ors_ID resource) resource (st_oauthResources s),
        st_oauthResourceURIs := put (ors_Resource resource) (ors_ID resource) (st_oauthResourceURIs s)\<rparr>)) commit"

definition storeSetOAuthProtectedResourceDisabled :: "hashFn \<Rightarrow> error option \<Rightarrow> uuid \<Rightarrow> bool \<Rightarrow> time \<Rightarrow> commit \<Rightarrow> store
    \<Rightarrow> unit result \<times> store" where
  "storeSetOAuthProtectedResourceDisabled sha ce resourceID disabled at commit =
    mutate sha ce (\<lambda>s. orErr ErrNotFound (lookup (st_oauthResources s) resourceID))
     (writes (\<lambda>resource s.
        let s1 = s\<lparr>st_oauthResources := put resourceID (resource\<lparr>ors_DisabledAt := (if disabled then Some at else None), ors_UpdatedAt := at\<rparr>)
              (st_oauthResources s)\<rparr>
        in if disabled then revokeGrantsWhere (\<lambda>g. ogr_ResourceID g = resourceID) at s1 else s1)) commit"

definition OAuthProtectedResourceByID :: "error option \<Rightarrow> uuid \<Rightarrow> store \<Rightarrow> oauthProtectedResource result \<times> store" where
  "OAuthProtectedResourceByID ce i = reads ce (\<lambda>s. orErr ErrNotFound (lookup (st_oauthResources s) i))"

definition zeroResource :: oauthProtectedResource where
  "zeroResource = \<lparr>ors_ID = 0, ors_IssuerID = 0, ors_WorkspaceID = 0, ors_Resource = [], ors_Scopes = [], ors_CreatedAt = zeroTime,
     ors_UpdatedAt = zeroTime, ors_DisabledAt = None\<rparr>"

definition OAuthProtectedResourceByURI :: "error option \<Rightarrow> string \<Rightarrow> store \<Rightarrow> oauthProtectedResource result \<times> store" where
  "OAuthProtectedResourceByURI ce uri = reads ce (\<lambda>s. throughIndex zeroResource (st_oauthResourceURIs s) (st_oauthResources s) uri)"

definition storeOAuthProtectedResources :: "unmarshalFn \<Rightarrow> error option \<Rightarrow> uuid \<Rightarrow> pageRequest \<Rightarrow> store
    \<Rightarrow> oauthProtectedResource pageEvent result list" where
  "storeOAuthProtectedResources unmarshal ce workspaceID page s =
    listPage unmarshal ce (\<lambda>_. None) page (\<lambda>x. (ors_CreatedAt x, ors_ID x)) (\<lambda>x. ors_WorkspaceID x = workspaceID) (\<lambda>x. x)
      (map snd (st_oauthResources s))"

section \<open>Clients and initial access tokens\<close>

definition OAuthDCROpen :: string where
  "OAuthDCROpen = ''open''"

definition OAuthClientDCR :: string where
  "OAuthClientDCR = ''dcr''"

text \<open>The active dynamically registered clients of an issuer.\<close>

definition activeDCRClients :: "uuid \<Rightarrow> store \<Rightarrow> nat" where
  "activeDCRClients issuerID s = Prelude.count (\<lambda>_ existing. ocl_IssuerID existing = issuerID \<and> ocl_Source existing = OAuthClientDCR
     \<and> ocl_DisabledAt existing = None) (st_oauthClients s)"

definition createOAuthClientGuard :: "oauthClient \<Rightarrow> uuid \<Rightarrow> time \<Rightarrow> store \<Rightarrow> oauthInitialAccessToken option result" where
  "createOAuthClientGuard client initialAccessTokenID usedAt s =
    (case lookup (st_oauthIssuers s) (ocl_IssuerID client) of
       None \<Rightarrow> Inl ErrNotFound
     | Some issuer \<Rightarrow>
        require (\<not> (ocl_Source client = OAuthClientDCR \<and> ois_DCRMode issuer = OAuthDCROpen
          \<and> int (activeDCRClients (ocl_IssuerID client) s) \<ge> ois_DCROpenRegistrationLimit issuer)) ErrConflict (
        require (\<not> has (ocl_ID client) (st_oauthClients s)) ErrConflict (
        require (\<not> has (oauthClientKey (ocl_IssuerID client) (ocl_ClientID client)) (st_oauthClientKeys s)) ErrConflict (
        if initialAccessTokenID = 0 then Inr None
        else (case lookup (st_oauthInitialTokens s) initialAccessTokenID of
            None \<Rightarrow> Inl ErrNotFound
          | Some initial \<Rightarrow>
             require (oit_IssuerID initial = ocl_IssuerID client) ErrNotFound (
             require (oit_RevokedAt initial = None \<and> usedAt < oit_ExpiresAt initial
               \<and> oit_RegistrationCount initial < oit_MaxRegistrations initial) ErrConflict (Inr (Some initial))))))))"

definition CreateOAuthClient :: "hashFn \<Rightarrow> error option \<Rightarrow> oauthClient \<Rightarrow> uuid \<Rightarrow> time \<Rightarrow> commit \<Rightarrow> store \<Rightarrow> unit result \<times> store" where
  "CreateOAuthClient sha ce client initialAccessTokenID usedAt commit =
    mutate sha ce (createOAuthClientGuard client initialAccessTokenID usedAt)
     (writes (\<lambda>initial s.
        let s1 = s\<lparr>st_oauthClients := put (ocl_ID client) client (st_oauthClients s),
              st_oauthClientKeys := put (oauthClientKey (ocl_IssuerID client) (ocl_ClientID client)) (ocl_ID client) (st_oauthClientKeys s)\<rparr>
        in (case initial of
              None \<Rightarrow> s1
            | Some token \<Rightarrow> s1\<lparr>st_oauthInitialTokens := put initialAccessTokenID
                (token\<lparr>oit_RegistrationCount := oit_RegistrationCount token + 1\<rparr>) (st_oauthInitialTokens s1)\<rparr>))) commit"

definition UpsertOAuthCIMDClient :: "hashFn \<Rightarrow> error option \<Rightarrow> oauthClient \<Rightarrow> commit \<Rightarrow> store \<Rightarrow> unit result \<times> store" where
  "UpsertOAuthCIMDClient sha ce client commit =
    mutate sha ce (\<lambda>s.
        require (has (ocl_IssuerID client) (st_oauthIssuers s)) ErrNotFound (
        case lookup (st_oauthClientKeys s) (oauthClientKey (ocl_IssuerID client) (ocl_ClientID client)) of
          None \<Rightarrow> Inr ()
        | Some i \<Rightarrow> require (i = ocl_ID client) ErrConflict (Inr ())))
     (writes (\<lambda>_ s. s\<lparr>
        st_oauthClients := put (ocl_ID client) client (st_oauthClients s),
        st_oauthClientKeys := put (oauthClientKey (ocl_IssuerID client) (ocl_ClientID client)) (ocl_ID client) (st_oauthClientKeys s)\<rparr>)) commit"

text \<open>The three slices are \<open>None\<close> when nil: a nil digest or key set is left alone, a nil metadata hash clears the old one.\<close>

definition storeRotateOAuthClientCredentials :: "hashFn \<Rightarrow> error option \<Rightarrow> uuid \<Rightarrow> bytes option \<Rightarrow> bytes option \<Rightarrow> bytes option \<Rightarrow> time
    \<Rightarrow> commit \<Rightarrow> store \<Rightarrow> unit result \<times> store" where
  "storeRotateOAuthClientCredentials sha ce clientRecordID secretDigest jwks metadataHash at commit =
    mutate sha ce (\<lambda>s. orErr ErrNotFound (lookup (st_oauthClients s) clientRecordID))
     (writes (\<lambda>client s.
        let c1 = (case secretDigest of None \<Rightarrow> client | Some d \<Rightarrow> client\<lparr>ocl_SecretDigest := d\<rparr>);
            c2 = (case jwks of None \<Rightarrow> c1
                  | Some j \<Rightarrow> c1\<lparr>ocl_JWKS := j, ocl_MetadataHash := (case metadataHash of None \<Rightarrow> [] | Some h \<Rightarrow> h)\<rparr>)
        in s\<lparr>st_oauthClients := put clientRecordID (c2\<lparr>ocl_UpdatedAt := at\<rparr>) (st_oauthClients s)\<rparr>)) commit"

definition storeSetOAuthClientDisabled :: "hashFn \<Rightarrow> error option \<Rightarrow> uuid \<Rightarrow> bool \<Rightarrow> time \<Rightarrow> commit \<Rightarrow> store \<Rightarrow> unit result \<times> store" where
  "storeSetOAuthClientDisabled sha ce clientRecordID disabled at commit =
    mutate sha ce (\<lambda>s. orErr ErrNotFound (lookup (st_oauthClients s) clientRecordID))
     (writes (\<lambda>client s.
        let s1 = s\<lparr>st_oauthClients := put clientRecordID (client\<lparr>ocl_DisabledAt := (if disabled then Some at else None), ocl_UpdatedAt := at\<rparr>)
              (st_oauthClients s)\<rparr>
        in if disabled then revokeGrantsWhere (\<lambda>g. ogr_ClientRecordID g = clientRecordID) at s1 else s1)) commit"

definition OAuthClientByID :: "error option \<Rightarrow> uuid \<Rightarrow> store \<Rightarrow> oauthClient result \<times> store" where
  "OAuthClientByID ce i = reads ce (\<lambda>s. orErr ErrNotFound (lookup (st_oauthClients s) i))"

definition zeroClient :: oauthClient where
  "zeroClient = \<lparr>ocl_ID = 0, ocl_IssuerID = 0, ocl_ClientID = [], ocl_Source = [], ocl_Name = [], ocl_ApplicationType = [],
     ocl_RedirectURIs = [], ocl_SectorIdentifier = [], ocl_GrantTypes = [], ocl_ResponseTypes = [], ocl_Scopes = [],
     ocl_ClientCredentialsResources = [], ocl_TokenEndpointAuthMethod = [], ocl_JWKSURI = [], ocl_JWKS = [], ocl_Trusted = False,
     ocl_SecretDigest = [], ocl_MetadataHash = [], ocl_MetadataExpiresAt = None, ocl_CreatedAt = zeroTime, ocl_UpdatedAt = zeroTime,
     ocl_DisabledAt = None\<rparr>"

definition OAuthClientByClientID :: "error option \<Rightarrow> uuid \<Rightarrow> string \<Rightarrow> store \<Rightarrow> oauthClient result \<times> store" where
  "OAuthClientByClientID ce issuerID clientID =
    reads ce (\<lambda>s. throughIndex zeroClient (st_oauthClientKeys s) (st_oauthClients s) (oauthClientKey issuerID clientID))"

definition storeOAuthClients :: "unmarshalFn \<Rightarrow> error option \<Rightarrow> uuid \<Rightarrow> pageRequest \<Rightarrow> store \<Rightarrow> oauthClient pageEvent result list" where
  "storeOAuthClients unmarshal ce issuerID page s =
    listPage unmarshal ce (\<lambda>_. None) page (\<lambda>x. (ocl_CreatedAt x, ocl_ID x)) (\<lambda>x. ocl_IssuerID x = issuerID)
      (\<lambda>x. x\<lparr>ocl_SecretDigest := []\<rparr>) (map snd (st_oauthClients s))"

definition storeCreateOAuthInitialAccessToken :: "hashFn \<Rightarrow> error option \<Rightarrow> oauthInitialAccessToken \<Rightarrow> commit \<Rightarrow> store \<Rightarrow> unit result \<times> store" where
  "storeCreateOAuthInitialAccessToken sha ce token commit =
    mutate sha ce (\<lambda>s.
        require (has (oit_IssuerID token) (st_oauthIssuers s)) ErrNotFound (
        require (\<not> has (oit_ID token) (st_oauthInitialTokens s)) ErrConflict (
        require (\<not> has (oit_Prefix token) (st_oauthInitialKeys s)) ErrConflict (Inr ()))))
     (writes (\<lambda>_ s. s\<lparr>
        st_oauthInitialTokens := put (oit_ID token) token (st_oauthInitialTokens s),
        st_oauthInitialKeys := put (oit_Prefix token) (oit_ID token) (st_oauthInitialKeys s)\<rparr>)) commit"

definition zeroInitialToken :: oauthInitialAccessToken where
  "zeroInitialToken = \<lparr>oit_ID = 0, oit_IssuerID = 0, oit_Prefix = [], oit_Digest = [], oit_MaxRegistrations = 0,
     oit_RegistrationCount = 0, oit_CreatedAt = zeroTime, oit_ExpiresAt = zeroTime, oit_RevokedAt = None\<rparr>"

definition OAuthInitialAccessTokenByPrefix :: "error option \<Rightarrow> string \<Rightarrow> store \<Rightarrow> oauthInitialAccessToken result \<times> store" where
  "OAuthInitialAccessTokenByPrefix ce prefix =
    reads ce (\<lambda>s. throughIndex zeroInitialToken (st_oauthInitialKeys s) (st_oauthInitialTokens s) prefix)"

definition storeOAuthInitialAccessTokens :: "error option \<Rightarrow> uuid \<Rightarrow> store \<Rightarrow> oauthInitialAccessToken result list" where
  "storeOAuthInitialAccessTokens ce issuerID s =
    streamOldest ce (\<lambda>x. (oit_CreatedAt x, oit_ID x))
      (map (\<lambda>x. x\<lparr>oit_Digest := []\<rparr>) (filter (\<lambda>x. oit_IssuerID x = issuerID) (map snd (st_oauthInitialTokens s))))"

definition storeRevokeOAuthInitialAccessToken :: "hashFn \<Rightarrow> error option \<Rightarrow> uuid \<Rightarrow> time \<Rightarrow> commit \<Rightarrow> store \<Rightarrow> unit result \<times> store" where
  "storeRevokeOAuthInitialAccessToken sha ce i at commit =
    mutate sha ce (\<lambda>s. orErr ErrNotFound (lookup (st_oauthInitialTokens s) i))
     (writes (\<lambda>token s. s\<lparr>st_oauthInitialTokens := put i (token\<lparr>oit_RevokedAt := Some at\<rparr>) (st_oauthInitialTokens s)\<rparr>)) commit"

section \<open>Grants, codes and tokens\<close>

definition CreateOAuthGrantAndCode :: "hashFn \<Rightarrow> error option \<Rightarrow> oauthGrant \<Rightarrow> oauthAuthorizationCode \<Rightarrow> commit \<Rightarrow> store \<Rightarrow> unit result \<times> store" where
  "CreateOAuthGrantAndCode sha ce grant code commit =
    mutate sha ce (\<lambda>s.
        require (has (ogr_ClientRecordID grant) (st_oauthClients s)) ErrNotFound (
        require (has (ogr_ResourceID grant) (st_oauthResources s)) ErrNotFound (
        require (\<not> has (ogr_ID grant) (st_oauthGrants s)) ErrConflict (
        require (\<not> has (oco_ID code) (st_oauthCodes s)) ErrConflict (
        require (\<not> has (oco_Prefix code) (st_oauthCodeKeys s)) ErrConflict (Inr ()))))))
     (writes (\<lambda>_ s. s\<lparr>
        st_oauthGrants := put (ogr_ID grant) grant (st_oauthGrants s),
        st_oauthCodes := put (oco_ID code) code (st_oauthCodes s),
        st_oauthCodeKeys := put (oco_Prefix code) (oco_ID code) (st_oauthCodeKeys s)\<rparr>)) commit"

definition OAuthGrantByID :: "error option \<Rightarrow> uuid \<Rightarrow> store \<Rightarrow> oauthGrant result \<times> store" where
  "OAuthGrantByID ce i = reads ce (\<lambda>s. orErr ErrNotFound (lookup (st_oauthGrants s) i))"

definition storeRevokeOAuthGrant :: "hashFn \<Rightarrow> error option \<Rightarrow> uuid \<Rightarrow> time \<Rightarrow> commit \<Rightarrow> store \<Rightarrow> unit result \<times> store" where
  "storeRevokeOAuthGrant sha ce grantID at commit =
    mutate sha ce (\<lambda>s. require (has grantID (st_oauthGrants s)) ErrNotFound (Inr ()))
     (writes (\<lambda>_ s. revokeOAuthGrantLocked grantID at s)) commit"

definition storeOAuthGrants :: "unmarshalFn \<Rightarrow> error option \<Rightarrow> uuid \<Rightarrow> uuid \<Rightarrow> pageRequest \<Rightarrow> store \<Rightarrow> oauthGrant pageEvent result list" where
  "storeOAuthGrants unmarshal ce userID workspaceID page s =
    listPage unmarshal ce (\<lambda>_. None) page (\<lambda>x. (ogr_CreatedAt x, ogr_ID x))
      (\<lambda>x. (userID = 0 \<or> ogr_UserID x = userID) \<and> (workspaceID = 0 \<or> ogr_WorkspaceID x = workspaceID)) (\<lambda>x. x)
      (map snd (st_oauthGrants s))"

definition zeroCode :: oauthAuthorizationCode where
  "zeroCode = \<lparr>oco_ID = 0, oco_Prefix = [], oco_Digest = [], oco_GrantID = 0, oco_ClientRecordID = 0, oco_RedirectURI = [],
     oco_ResourceID = 0, oco_Scopes = [], oco_CodeChallenge = [], oco_Nonce = [], oco_CreatedAt = zeroTime, oco_ExpiresAt = zeroTime,
     oco_UsedAt = None\<rparr>"

definition OAuthAuthorizationCodeByPrefix :: "error option \<Rightarrow> string \<Rightarrow> store \<Rightarrow> oauthAuthorizationCode result \<times> store" where
  "OAuthAuthorizationCodeByPrefix ce prefix = reads ce (\<lambda>s. throughIndex zeroCode (st_oauthCodeKeys s) (st_oauthCodes s) prefix)"

definition putAccessToken :: "oauthAccessToken \<Rightarrow> store \<Rightarrow> store" where
  "putAccessToken access s = s\<lparr>
     st_oauthAccessTokens := put (oat_ID access) access (st_oauthAccessTokens s),
     st_oauthAccessKeys := put (oat_Prefix access) (oat_ID access) (st_oauthAccessKeys s)\<rparr>"

definition putRefreshToken :: "oauthRefreshToken \<Rightarrow> store \<Rightarrow> store" where
  "putRefreshToken refresh s = s\<lparr>
     st_oauthRefreshTokens := put (ort_ID refresh) refresh (st_oauthRefreshTokens s),
     st_oauthRefreshKeys := put (ort_Prefix refresh) (ort_ID refresh) (st_oauthRefreshKeys s)\<rparr>"

definition consumeOAuthAuthorizationCodeGuard :: "uuid \<Rightarrow> time \<Rightarrow> oauthAccessToken \<Rightarrow> oauthRefreshToken option \<Rightarrow> store
    \<Rightarrow> oauthAuthorizationCode result" where
  "consumeOAuthAuthorizationCodeGuard codeID usedAt access refresh s =
    (case lookup (st_oauthCodes s) codeID of
       None \<Rightarrow> Inl ErrNotFound
     | Some code \<Rightarrow>
        require (oco_UsedAt code = None \<and> usedAt < oco_ExpiresAt code) ErrConflict (
        require (\<not> has (oat_Prefix access) (st_oauthAccessKeys s)) ErrConflict (
        require (\<not> (case refresh of None \<Rightarrow> False | Some r \<Rightarrow> has (ort_Prefix r) (st_oauthRefreshKeys s))) ErrConflict (
        Inr code))))"

definition ConsumeOAuthAuthorizationCode :: "hashFn \<Rightarrow> error option \<Rightarrow> uuid \<Rightarrow> time \<Rightarrow> oauthAccessToken \<Rightarrow> oauthRefreshToken option
    \<Rightarrow> commit \<Rightarrow> store \<Rightarrow> unit result \<times> store" where
  "ConsumeOAuthAuthorizationCode sha ce codeID usedAt access refresh commit =
    mutate sha ce (consumeOAuthAuthorizationCodeGuard codeID usedAt access refresh)
     (writes (\<lambda>code s.
        let s1 = putAccessToken access
              (s\<lparr>st_oauthCodes := put codeID (code\<lparr>oco_UsedAt := Some usedAt\<rparr>) (st_oauthCodes s)\<rparr>)
        in (case refresh of None \<Rightarrow> s1 | Some r \<Rightarrow> putRefreshToken r s1))) commit"

definition zeroAccessToken :: oauthAccessToken where
  "zeroAccessToken = \<lparr>oat_ID = 0, oat_Prefix = [], oat_Digest = [], oat_GrantID = 0, oat_ClientRecordID = 0, oat_UserID = 0,
     oat_WorkspaceID = 0, oat_ResourceID = 0, oat_Scopes = [], oat_CreatedAt = zeroTime, oat_ExpiresAt = zeroTime, oat_RevokedAt = None\<rparr>"

definition OAuthAccessTokenByPrefix :: "error option \<Rightarrow> string \<Rightarrow> store \<Rightarrow> oauthAccessToken result \<times> store" where
  "OAuthAccessTokenByPrefix ce prefix =
    reads ce (\<lambda>s. throughIndex zeroAccessToken (st_oauthAccessKeys s) (st_oauthAccessTokens s) prefix)"

definition CreateOAuthClientAccessToken :: "hashFn \<Rightarrow> error option \<Rightarrow> oauthClientAccessToken \<Rightarrow> commit \<Rightarrow> store \<Rightarrow> unit result \<times> store" where
  "CreateOAuthClientAccessToken sha ce value commit =
    mutate sha ce (\<lambda>s. require (\<not> has (oct_Prefix value) (st_oauthClientTokenKeys s)) ErrConflict (Inr ()))
     (writes (\<lambda>_ s. s\<lparr>
        st_oauthClientTokens := put (oct_ID value) value (st_oauthClientTokens s),
        st_oauthClientTokenKeys := put (oct_Prefix value) (oct_ID value) (st_oauthClientTokenKeys s)\<rparr>)) commit"

definition zeroClientAccessToken :: oauthClientAccessToken where
  "zeroClientAccessToken = \<lparr>oct_ID = 0, oct_Prefix = [], oct_Digest = [], oct_ClientRecordID = 0, oct_IssuerID = 0, oct_ResourceID = 0,
     oct_WorkspaceID = 0, oct_Scopes = [], oct_CreatedAt = zeroTime, oct_ExpiresAt = zeroTime, oct_RevokedAt = None\<rparr>"

definition OAuthClientAccessTokenByPrefix :: "error option \<Rightarrow> string \<Rightarrow> store \<Rightarrow> oauthClientAccessToken result \<times> store" where
  "OAuthClientAccessTokenByPrefix ce prefix =
    reads ce (\<lambda>s. throughIndex zeroClientAccessToken (st_oauthClientTokenKeys s) (st_oauthClientTokens s) prefix)"

definition RevokeOAuthClientAccessToken :: "hashFn \<Rightarrow> error option \<Rightarrow> uuid \<Rightarrow> time \<Rightarrow> commit \<Rightarrow> store \<Rightarrow> unit result \<times> store" where
  "RevokeOAuthClientAccessToken sha ce i at commit =
    mutate sha ce (\<lambda>s. orErr ErrNotFound (lookup (st_oauthClientTokens s) i))
     (writes (\<lambda>token s. s\<lparr>st_oauthClientTokens := put i (token\<lparr>oct_RevokedAt := Some at\<rparr>) (st_oauthClientTokens s)\<rparr>)) commit"

definition zeroRefreshToken :: oauthRefreshToken where
  "zeroRefreshToken = \<lparr>ort_ID = 0, ort_FamilyID = 0, ort_Prefix = [], ort_Digest = [], ort_GrantID = 0, ort_ClientRecordID = 0,
     ort_UserID = 0, ort_WorkspaceID = 0, ort_ResourceID = 0, ort_Scopes = [], ort_CreatedAt = zeroTime, ort_ExpiresAt = zeroTime,
     ort_UsedAt = None, ort_ReplacedByID = 0, ort_RevokedAt = None\<rparr>"

definition OAuthRefreshTokenByPrefix :: "error option \<Rightarrow> string \<Rightarrow> store \<Rightarrow> oauthRefreshToken result \<times> store" where
  "OAuthRefreshTokenByPrefix ce prefix =
    reads ce (\<lambda>s. throughIndex zeroRefreshToken (st_oauthRefreshKeys s) (st_oauthRefreshTokens s) prefix)"

definition rotateOAuthRefreshTokenGuard :: "uuid \<Rightarrow> time \<Rightarrow> oauthAccessToken \<Rightarrow> oauthRefreshToken \<Rightarrow> store \<Rightarrow> oauthRefreshToken result" where
  "rotateOAuthRefreshTokenGuard previousID usedAt access refresh s =
    (case lookup (st_oauthRefreshTokens s) previousID of
       None \<Rightarrow> Inl ErrNotFound
     | Some previousToken \<Rightarrow>
        require (ort_UsedAt previousToken = None \<and> ort_RevokedAt previousToken = None \<and> usedAt < ort_ExpiresAt previousToken) ErrConflict (
        require (ort_FamilyID previousToken = ort_FamilyID refresh \<and> ort_GrantID previousToken = ort_GrantID refresh) ErrConflict (
        require (\<not> has (oat_Prefix access) (st_oauthAccessKeys s)) ErrConflict (
        require (\<not> has (ort_Prefix refresh) (st_oauthRefreshKeys s)) ErrConflict (Inr previousToken)))))"

definition RotateOAuthRefreshToken :: "hashFn \<Rightarrow> error option \<Rightarrow> uuid \<Rightarrow> time \<Rightarrow> oauthAccessToken \<Rightarrow> oauthRefreshToken \<Rightarrow> commit \<Rightarrow> store
    \<Rightarrow> unit result \<times> store" where
  "RotateOAuthRefreshToken sha ce previousID usedAt access refresh commit =
    mutate sha ce (rotateOAuthRefreshTokenGuard previousID usedAt access refresh)
     (writes (\<lambda>previousToken s. putRefreshToken refresh (putAccessToken access
        (s\<lparr>st_oauthRefreshTokens := put previousID (previousToken\<lparr>ort_UsedAt := Some usedAt, ort_ReplacedByID := ort_ID refresh\<rparr>)
          (st_oauthRefreshTokens s)\<rparr>)))) commit"

definition RevokeOAuthAccessToken :: "hashFn \<Rightarrow> error option \<Rightarrow> uuid \<Rightarrow> time \<Rightarrow> commit \<Rightarrow> store \<Rightarrow> unit result \<times> store" where
  "RevokeOAuthAccessToken sha ce i at commit =
    mutate sha ce (\<lambda>s. orErr ErrNotFound (lookup (st_oauthAccessTokens s) i))
     (writes (\<lambda>token s. if oat_RevokedAt token = None
        then s\<lparr>st_oauthAccessTokens := put i (token\<lparr>oat_RevokedAt := Some at\<rparr>) (st_oauthAccessTokens s)\<rparr> else s)) commit"

definition familyGrants :: "uuid \<Rightarrow> store \<Rightarrow> string list" where
  "familyGrants familyID s = map (\<lambda>t. UUID_String (ort_GrantID t)) (filter (\<lambda>t. ort_FamilyID t = familyID) (map snd (st_oauthRefreshTokens s)))"

definition RevokeOAuthRefreshFamily :: "hashFn \<Rightarrow> error option \<Rightarrow> uuid \<Rightarrow> time \<Rightarrow> commit \<Rightarrow> store \<Rightarrow> unit result \<times> store" where
  "RevokeOAuthRefreshFamily sha ce familyID at commit =
    mutate sha ce (\<lambda>s. let grants = familyGrants familyID s in require (grants \<noteq> []) ErrNotFound (Inr grants))
     (writes (\<lambda>grants s. s\<lparr>
        st_oauthRefreshTokens := mapv (\<lambda>_ t. if ort_FamilyID t = familyID \<and> ort_RevokedAt t = None
          then t\<lparr>ort_RevokedAt := Some at\<rparr> else t) (st_oauthRefreshTokens s),
        st_oauthAccessTokens := mapv (\<lambda>_ t. if UUID_String (oat_GrantID t) \<in> set grants \<and> oat_RevokedAt t = None
          then t\<lparr>oat_RevokedAt := Some at\<rparr> else t) (st_oauthAccessTokens s)\<rparr>)) commit"

section \<open>The contract\<close>

declare putAccessToken_def [effect_defs] putRefreshToken_def [effect_defs]

lemma revokeOAuthGrantLocked_silent: "auditSame (revokeOAuthGrantLocked i at s) s"
  by (simp add: revokeOAuthGrantLocked_def effect_defs split: option.split)

lemma revokeGrantsWhere_silent: "auditSame (revokeGrantsWhere P at s) s"
  unfolding revokeGrantsWhere_def
  by (rule auditSame_foldl) (simp add: auditSame_refl revokeOAuthGrantLocked_silent split: prod.split)

lemmas revoke_frames = revokeGrantsWhere_silent [unfolded auditSame_def]

interpretation create_oauth_issuer: mutator "\<lambda>sha ce c. storeCreateOAuthIssuer sha ce x c" for x
  unfolding storeCreateOAuthIssuer_def by (rule mutator_writes) (simp add: effect_defs)

interpretation update_oauth_issuer: mutator "\<lambda>sha ce c. storeUpdateOAuthIssuer sha ce x c" for x
  unfolding storeUpdateOAuthIssuer_def by (rule mutator_writes) (simp add: effect_defs)

interpretation set_oauth_issuer_disabled: mutator "\<lambda>sha ce c. storeSetOAuthIssuerDisabled sha ce i b t c" for i b t
  unfolding storeSetOAuthIssuerDisabled_def Let_def
  by (rule mutator_writes) (simp add: effect_defs revoke_frames)

interpretation create_oauth_resource: mutator "\<lambda>sha ce c. storeCreateOAuthProtectedResource sha ce x c" for x
  unfolding storeCreateOAuthProtectedResource_def by (rule mutator_writes) (simp add: effect_defs)

interpretation set_oauth_resource_disabled: mutator "\<lambda>sha ce c. storeSetOAuthProtectedResourceDisabled sha ce i b t c" for i b t
  unfolding storeSetOAuthProtectedResourceDisabled_def Let_def
  by (rule mutator_writes) (simp add: effect_defs revoke_frames)

interpretation create_oauth_client: mutator "\<lambda>sha ce c. CreateOAuthClient sha ce x i t c" for x i t
  unfolding CreateOAuthClient_def Let_def by (rule mutator_writes) (simp add: effect_defs split: option.split)

interpretation upsert_oauth_cimd_client: mutator "\<lambda>sha ce c. UpsertOAuthCIMDClient sha ce x c" for x
  unfolding UpsertOAuthCIMDClient_def by (rule mutator_writes) (simp add: effect_defs)

interpretation rotate_oauth_client: mutator "\<lambda>sha ce c. storeRotateOAuthClientCredentials sha ce i d j h t c" for i d j h t
  unfolding storeRotateOAuthClientCredentials_def Let_def by (rule mutator_writes) (simp add: effect_defs)

interpretation set_oauth_client_disabled: mutator "\<lambda>sha ce c. storeSetOAuthClientDisabled sha ce i b t c" for i b t
  unfolding storeSetOAuthClientDisabled_def Let_def
  by (rule mutator_writes) (simp add: effect_defs revoke_frames)

interpretation create_oauth_initial_token: mutator "\<lambda>sha ce c. storeCreateOAuthInitialAccessToken sha ce x c" for x
  unfolding storeCreateOAuthInitialAccessToken_def by (rule mutator_writes) (simp add: effect_defs)

interpretation revoke_oauth_initial_token: mutator "\<lambda>sha ce c. storeRevokeOAuthInitialAccessToken sha ce i t c" for i t
  unfolding storeRevokeOAuthInitialAccessToken_def by (rule mutator_writes) (simp add: effect_defs)

interpretation create_oauth_grant: mutator "\<lambda>sha ce c. CreateOAuthGrantAndCode sha ce g x c" for g x
  unfolding CreateOAuthGrantAndCode_def by (rule mutator_writes) (simp add: effect_defs)

interpretation revoke_oauth_grant: mutator "\<lambda>sha ce c. storeRevokeOAuthGrant sha ce i t c" for i t
  unfolding storeRevokeOAuthGrant_def by (rule mutator_writes) (rule revokeOAuthGrantLocked_silent)

interpretation consume_oauth_code: mutator "\<lambda>sha ce c. ConsumeOAuthAuthorizationCode sha ce i t a r c" for i t a r
  unfolding ConsumeOAuthAuthorizationCode_def Let_def by (rule mutator_writes) (simp add: effect_defs split: option.split)

interpretation create_oauth_client_token: mutator "\<lambda>sha ce c. CreateOAuthClientAccessToken sha ce x c" for x
  unfolding CreateOAuthClientAccessToken_def by (rule mutator_writes) (simp add: effect_defs)

interpretation revoke_oauth_client_token: mutator "\<lambda>sha ce c. RevokeOAuthClientAccessToken sha ce i t c" for i t
  unfolding RevokeOAuthClientAccessToken_def by (rule mutator_writes) (simp add: effect_defs)

interpretation rotate_oauth_refresh: mutator "\<lambda>sha ce c. RotateOAuthRefreshToken sha ce i t a r c" for i t a r
  unfolding RotateOAuthRefreshToken_def by (rule mutator_writes) (simp add: effect_defs)

interpretation revoke_oauth_access: mutator "\<lambda>sha ce c. RevokeOAuthAccessToken sha ce i t c" for i t
  unfolding RevokeOAuthAccessToken_def by (rule mutator_writes) (simp add: effect_defs)

interpretation revoke_oauth_family: mutator "\<lambda>sha ce c. RevokeOAuthRefreshFamily sha ce i t c" for i t
  unfolding RevokeOAuthRefreshFamily_def by (rule mutator_writes) (simp add: effect_defs)

end
