(* ===== verification/MemSystem.thy ===== *)
theory MemSystem
  imports MemOAuth
begin

text \<open>
  The in-memory store as a transition system: one rule per mutating method, called with any arguments,
  any context and any commit, and the stores reachable from the empty one. The rules cover every
  mutating method of \<^verbatim>\<open>memory/store.go\<close>, \<^verbatim>\<open>memory/scim.go\<close> and \<^verbatim>\<open>memory/oauth.go\<close>; of the three SCIM methods
  that can panic, the calls that do not. Invariants are proved by cases on the rules, each case by the
  facts of the method's interpretation.
\<close>

section \<open>Steps\<close>

text \<open>A call of any method but \<^verbatim>\<open>CreateWorkspaceDomain\<close>, with its commit and its outcome.\<close>

inductive atomicCall :: "hashFn \<Rightarrow> commit \<Rightarrow> store \<Rightarrow> outcome \<Rightarrow> store \<Rightarrow> bool" for sha c where
  call_bootstrap: "Bootstrap sha ce u e p w m a c s = (r, s') \<Longrightarrow> atomicCall sha c s (outcomeOf (\<lambda>_. True) r) s'"
| call_create_user: "storeCreateUser sha ce u e p m c s = (r, s') \<Longrightarrow> atomicCall sha c s (outcomeOf (\<lambda>_. True) r) s'"
| call_create_signup: "CreateSignup sha ce u e v p w m c s = (r, s') \<Longrightarrow> atomicCall sha c s (outcomeOf (\<lambda>_. True) r) s'"
| call_set_user_disabled: "SetUserDisabled sha ce i d t c s = (r, s') \<Longrightarrow> atomicCall sha c s (outcomeOf (\<lambda>_. True) r) s'"
| call_update_user: "UpdateUser sha ce u c s = (r, s') \<Longrightarrow> atomicCall sha c s (outcomeOf (\<lambda>_. True) r) s'"
| call_change_password: "storeChangePassword sha ce p t c s = (r, s') \<Longrightarrow> atomicCall sha c s (outcomeOf (\<lambda>_. True) r) s'"
| call_rehash_password: "RehashPassword sha ce p h c s = (r, s') \<Longrightarrow> atomicCall sha c s (outcomeOf (\<lambda>_. True) r) s'"
| call_record_authentication: "RecordAuthentication sha ce i t c s = (r, s') \<Longrightarrow> atomicCall sha c s (outcomeOf (\<lambda>_. True) r) s'"
| call_record_password_authentication: "RecordPasswordAuthentication sha ce i h t c s = (r, s') \<Longrightarrow> atomicCall sha c s (outcomeOf (\<lambda>_. True) r) s'"
| call_record_login_failure: "RecordLoginFailure sha ce i t n l c s = (r, s') \<Longrightarrow> atomicCall sha c s (outcomeOf (\<lambda>_. True) r) s'"
| call_create_password_reset: "CreatePasswordReset sha ce x c s = (r, s') \<Longrightarrow> atomicCall sha c s (outcomeOf (\<lambda>_. True) r) s'"
| call_complete_password_reset: "storeCompletePasswordReset sha ce i p t c s = (r, s') \<Longrightarrow> atomicCall sha c s (outcomeOf (\<lambda>_. True) r) s'"
| call_create_email_authentication: "CreateEmailAuthentication sha ce x c s = (r, s') \<Longrightarrow> atomicCall sha c s (outcomeOf (\<lambda>_. True) r) s'"
| call_consume_email_authentication: "ConsumeEmailAuthentication sha ce i j t b c s = (r, s') \<Longrightarrow> atomicCall sha c s (outcomeOf (\<lambda>_. True) r) s'"
| call_save_email: "SaveEmail sha ce e v c s = (r, s') \<Longrightarrow> atomicCall sha c s (outcomeOf (\<lambda>_. True) r) s'"
| call_reissue_email_verification: "ReissueEmailVerification sha ce i v c s = (r, s') \<Longrightarrow> atomicCall sha c s (outcomeOf (\<lambda>_. True) r) s'"
| call_verify_email: "storeVerifyEmail sha ce i t c s = (r, s') \<Longrightarrow> atomicCall sha c s (outcomeOf (\<lambda>_. True) r) s'"
| call_set_primary_email: "storeSetPrimaryEmail sha ce i j c s = (r, s') \<Longrightarrow> atomicCall sha c s (outcomeOf (\<lambda>_. True) r) s'"
| call_remove_email: "storeRemoveEmail sha ce i j c s = (r, s') \<Longrightarrow> atomicCall sha c s (outcomeOf (\<lambda>_. True) r) s'"
| call_save_totp_enrollment: "SaveTOTPEnrollment sha ce f c s = (r, s') \<Longrightarrow> atomicCall sha c s (outcomeOf (\<lambda>_. True) r) s'"
| call_activate_totp: "ActivateTOTP sha ce f cs c s = (r, s') \<Longrightarrow> atomicCall sha c s (outcomeOf (\<lambda>_. True) r) s'"
| call_use_totp: "UseTOTP sha ce i n c s = (r, s') \<Longrightarrow> atomicCall sha c s (outcomeOf (\<lambda>b. b) r) s'"
| call_consume_recovery_code: "ConsumeRecoveryCode sha ce i d t c s = (r, s') \<Longrightarrow> atomicCall sha c s (outcomeOf (\<lambda>b. b) r) s'"
| call_disable_totp: "storeDisableTOTP sha ce i c s = (r, s') \<Longrightarrow> atomicCall sha c s (outcomeOf (\<lambda>_. True) r) s'"
| call_replace_recovery_codes: "ReplaceRecoveryCodes sha ce i cs c s = (r, s') \<Longrightarrow> atomicCall sha c s (outcomeOf (\<lambda>_. True) r) s'"
| call_reset_second_factor: "storeResetSecondFactor sha ce i t c s = (r, s') \<Longrightarrow> atomicCall sha c s (outcomeOf (\<lambda>_. True) r) s'"
| call_save_passkey: "SavePasskey sha ce x c s = (r, s') \<Longrightarrow> atomicCall sha c s (outcomeOf (\<lambda>_. True) r) s'"
| call_touch_passkey: "TouchPasskey sha ce i d d2 t c s = (r, s') \<Longrightarrow> atomicCall sha c s (outcomeOf (\<lambda>_. True) r) s'"
| call_delete_passkey: "DeletePasskey sha ce i j c s = (r, s') \<Longrightarrow> atomicCall sha c s (outcomeOf (\<lambda>_. True) r) s'"
| call_create_pat: "storeCreatePAT sha ce x c s = (r, s') \<Longrightarrow> atomicCall sha c s (outcomeOf (\<lambda>_. True) r) s'"
| call_touch_pat: "TouchPAT sha ce i t c s = (r, s') \<Longrightarrow> atomicCall sha c s (outcomeOf (\<lambda>_. True) r) s'"
| call_revoke_pat: "storeRevokePAT sha ce i j t c s = (r, s') \<Longrightarrow> atomicCall sha c s (outcomeOf (\<lambda>_. True) r) s'"
| call_revoke_user_credentials: "RevokeUserCredentials sha ce i t c s = (r, s') \<Longrightarrow> atomicCall sha c s (outcomeOf (\<lambda>_. True) r) s'"
| call_anonymize_user: "storeAnonymizeUser sha ce i t c s = (r, s') \<Longrightarrow> atomicCall sha c s (outcomeOf (\<lambda>_. True) r) s'"
| call_create_session: "storeCreateSession sha ce x d c s = (r, s') \<Longrightarrow> atomicCall sha c s (outcomeOf (\<lambda>_. True) r) s'"
| call_touch_session: "TouchSession sha ce i t c s = (r, s') \<Longrightarrow> atomicCall sha c s (outcomeOf (\<lambda>_. True) r) s'"
| call_revoke_session: "storeRevokeSession sha ce i t c s = (r, s') \<Longrightarrow> atomicCall sha c s (outcomeOf (\<lambda>_. True) r) s'"
| call_revoke_user_sessions: "RevokeUserSessions sha ce i t c s = (r, s') \<Longrightarrow> atomicCall sha c s (outcomeOf (\<lambda>_. True) r) s'"
| call_confirm_workspace_domain: "storeConfirmWorkspaceDomain sha ce i t c s = (r, s') \<Longrightarrow> atomicCall sha c s (outcomeOf (\<lambda>_. True) r) s'"
| call_update_workspace_domain_policy: "storeUpdateWorkspaceDomainPolicy sha ce i y t c s = (r, s') \<Longrightarrow> atomicCall sha c s (outcomeOf (\<lambda>_. True) r) s'"
| call_delete_workspace_domain: "storeDeleteWorkspaceDomain sha ce i c s = (r, s') \<Longrightarrow> atomicCall sha c s (outcomeOf (\<lambda>_. True) r) s'"
| call_jit_provision_sso_user: "JITProvisionSSOUser sha ce u e m x c s = (r, s') \<Longrightarrow> atomicCall sha c s (outcomeOf (\<lambda>_. True) r) s'"
| call_create_workspace: "storeCreateWorkspace sha ce w m c s = (r, s') \<Longrightarrow> atomicCall sha c s (outcomeOf (\<lambda>_. True) r) s'"
| call_update_workspace: "storeUpdateWorkspace sha ce w c s = (r, s') \<Longrightarrow> atomicCall sha c s (outcomeOf (\<lambda>_. True) r) s'"
| call_set_workspace_disabled: "storeSetWorkspaceDisabled sha ce i b t c s = (r, s') \<Longrightarrow> atomicCall sha c s (outcomeOf (\<lambda>_. True) r) s'"
| call_upsert_membership: "UpsertMembership sha ce m c s = (r, s') \<Longrightarrow> atomicCall sha c s (outcomeOf (\<lambda>_. True) r) s'"
| call_remove_membership: "storeRemoveMembership sha ce i j t c s = (r, s') \<Longrightarrow> atomicCall sha c s (outcomeOf (\<lambda>_. True) r) s'"
| call_create_workspace_invitation: "CreateWorkspaceInvitation sha ce x c s = (r, s') \<Longrightarrow> atomicCall sha c s (outcomeOf (\<lambda>_. True) r) s'"
| call_accept_workspace_invitation: "storeAcceptWorkspaceInvitation sha ce i j t m c s = (r, s') \<Longrightarrow> atomicCall sha c s (outcomeOf (\<lambda>_. True) r) s'"
| call_register_invited_user: "RegisterInvitedUser sha ce i u e p m t c s = (r, s') \<Longrightarrow> atomicCall sha c s (outcomeOf (\<lambda>_. True) r) s'"
| call_revoke_workspace_invitation: "storeRevokeWorkspaceInvitation sha ce i j t c s = (r, s') \<Longrightarrow> atomicCall sha c s (outcomeOf (\<lambda>_. True) r) s'"
| call_set_instance_role: "storeSetInstanceRole sha ce a c s = (r, s') \<Longrightarrow> atomicCall sha c s (outcomeOf (\<lambda>_. True) r) s'"
| call_remove_instance_role: "storeRemoveInstanceRole sha ce i c s = (r, s') \<Longrightarrow> atomicCall sha c s (outcomeOf (\<lambda>_. True) r) s'"
| call_link_sso: "LinkSSO sha ce x c s = (r, s') \<Longrightarrow> atomicCall sha c s (outcomeOf (\<lambda>_. True) r) s'"
| call_touch_sso: "TouchSSO sha ce i j t c s = (r, s') \<Longrightarrow> atomicCall sha c s (outcomeOf (\<lambda>_. True) r) s'"
| call_unlink_sso: "UnlinkSSO sha ce i j c s = (r, s') \<Longrightarrow> atomicCall sha c s (outcomeOf (\<lambda>_. True) r) s'"
| call_append_audit: "AppendAudit sha ce c s = (r, s') \<Longrightarrow> atomicCall sha c s (outcomeOf (\<lambda>_. True) r) s'"
| call_create_scim_configuration: "storeCreateSCIMConfiguration sha ce x y c s = (r, s') \<Longrightarrow> atomicCall sha c s (outcomeOf (\<lambda>_. True) r) s'"
| call_update_scim_configuration: "storeUpdateSCIMConfiguration sha ce x ms c s = (r, s') \<Longrightarrow> atomicCall sha c s (outcomeOf (\<lambda>_. True) r) s'"
| call_save_scim_credential: "SaveSCIMCredential sha ce x c s = (r, s') \<Longrightarrow> atomicCall sha c s (outcomeOf (\<lambda>_. True) r) s'"
| call_revoke_scim_credential: "storeRevokeSCIMCredential sha ce i j t c s = (r, s') \<Longrightarrow> atomicCall sha c s (outcomeOf (\<lambda>_. True) r) s'"
| call_touch_scim_credential: "TouchSCIMCredential sha ce i t c s = (r, s') \<Longrightarrow> atomicCall sha c s (outcomeOf (\<lambda>_. True) r) s'"
| call_disable_scim_configuration: "storeDisableSCIMConfiguration sha ce i t c s = (r, s') \<Longrightarrow> atomicCall sha c s (outcomeOf (\<lambda>_. True) r) s'"
| call_create_scim_user: "CreateSCIMUser sha ce u e m x c s = (r, s') \<Longrightarrow> atomicCall sha c s (outcomeOf (\<lambda>_. True) r) s'"
| call_adopt_scim_user: "AdoptSCIMUser sha ce m x c s = (r, s') \<Longrightarrow> atomicCall sha c s (outcomeOf (\<lambda>_. True) r) s'"
| call_update_scim_user: "storeUpdateSCIMUser sha ce x m b c s = (r, s') \<Longrightarrow> r \<noteq> Inl RuntimePanic \<Longrightarrow> atomicCall sha c s (outcomeOf (\<lambda>_. True) r) s'"
| call_upsert_scim_group: "UpsertSCIMGroup sha ce x ms c s = (r, s') \<Longrightarrow> r \<noteq> Inl RuntimePanic \<Longrightarrow> atomicCall sha c s (outcomeOf (\<lambda>_. True) r) s'"
| call_delete_scim_group: "storeDeleteSCIMGroup sha ce x ms c s = (r, s') \<Longrightarrow> r \<noteq> Inl RuntimePanic \<Longrightarrow> atomicCall sha c s (outcomeOf (\<lambda>_. True) r) s'"
| call_create_oauth_issuer: "storeCreateOAuthIssuer sha ce x c s = (r, s') \<Longrightarrow> atomicCall sha c s (outcomeOf (\<lambda>_. True) r) s'"
| call_update_oauth_issuer: "storeUpdateOAuthIssuer sha ce x c s = (r, s') \<Longrightarrow> atomicCall sha c s (outcomeOf (\<lambda>_. True) r) s'"
| call_set_oauth_issuer_disabled: "storeSetOAuthIssuerDisabled sha ce i b t c s = (r, s') \<Longrightarrow> atomicCall sha c s (outcomeOf (\<lambda>_. True) r) s'"
| call_create_oauth_resource: "storeCreateOAuthProtectedResource sha ce x c s = (r, s') \<Longrightarrow> atomicCall sha c s (outcomeOf (\<lambda>_. True) r) s'"
| call_set_oauth_resource_disabled: "storeSetOAuthProtectedResourceDisabled sha ce i b t c s = (r, s') \<Longrightarrow> atomicCall sha c s (outcomeOf (\<lambda>_. True) r) s'"
| call_create_oauth_client: "CreateOAuthClient sha ce x i t c s = (r, s') \<Longrightarrow> atomicCall sha c s (outcomeOf (\<lambda>_. True) r) s'"
| call_upsert_oauth_cimd_client: "UpsertOAuthCIMDClient sha ce x c s = (r, s') \<Longrightarrow> atomicCall sha c s (outcomeOf (\<lambda>_. True) r) s'"
| call_rotate_oauth_client: "storeRotateOAuthClientCredentials sha ce i d j h t c s = (r, s') \<Longrightarrow> atomicCall sha c s (outcomeOf (\<lambda>_. True) r) s'"
| call_set_oauth_client_disabled: "storeSetOAuthClientDisabled sha ce i b t c s = (r, s') \<Longrightarrow> atomicCall sha c s (outcomeOf (\<lambda>_. True) r) s'"
| call_create_oauth_initial_token: "storeCreateOAuthInitialAccessToken sha ce x c s = (r, s') \<Longrightarrow> atomicCall sha c s (outcomeOf (\<lambda>_. True) r) s'"
| call_revoke_oauth_initial_token: "storeRevokeOAuthInitialAccessToken sha ce i t c s = (r, s') \<Longrightarrow> atomicCall sha c s (outcomeOf (\<lambda>_. True) r) s'"
| call_create_oauth_grant: "CreateOAuthGrantAndCode sha ce g x c s = (r, s') \<Longrightarrow> atomicCall sha c s (outcomeOf (\<lambda>_. True) r) s'"
| call_revoke_oauth_grant: "storeRevokeOAuthGrant sha ce i t c s = (r, s') \<Longrightarrow> atomicCall sha c s (outcomeOf (\<lambda>_. True) r) s'"
| call_consume_oauth_code: "ConsumeOAuthAuthorizationCode sha ce i t a f c s = (r, s') \<Longrightarrow> atomicCall sha c s (outcomeOf (\<lambda>_. True) r) s'"
| call_create_oauth_client_token: "CreateOAuthClientAccessToken sha ce x c s = (r, s') \<Longrightarrow> atomicCall sha c s (outcomeOf (\<lambda>_. True) r) s'"
| call_revoke_oauth_client_token: "RevokeOAuthClientAccessToken sha ce i t c s = (r, s') \<Longrightarrow> atomicCall sha c s (outcomeOf (\<lambda>_. True) r) s'"
| call_rotate_oauth_refresh: "RotateOAuthRefreshToken sha ce i t a f c s = (r, s') \<Longrightarrow> atomicCall sha c s (outcomeOf (\<lambda>_. True) r) s'"
| call_revoke_oauth_access: "RevokeOAuthAccessToken sha ce i t c s = (r, s') \<Longrightarrow> atomicCall sha c s (outcomeOf (\<lambda>_. True) r) s'"
| call_revoke_oauth_family: "RevokeOAuthRefreshFamily sha ce i t c s = (r, s') \<Longrightarrow> atomicCall sha c s (outcomeOf (\<lambda>_. True) r) s'"

inductive storeCall :: "hashFn \<Rightarrow> commit \<Rightarrow> store \<Rightarrow> outcome \<Rightarrow> store \<Rightarrow> bool" for sha c where
  call_atomic: "atomicCall sha c s out s' \<Longrightarrow> storeCall sha c s out s'"
| call_create_workspace_domain: "CreateWorkspaceDomain sha ce x t c s = (r, s') \<Longrightarrow> storeCall sha c s (outcomeOf (\<lambda>_. True) r) s'"

text \<open>
  A step of the store: a call whose commit satisfies a condition, the issuance of an email (which
  commits nothing), or the test hook that makes the audit log fail. A run is a sequence of steps.
\<close>

inductive storeStep :: "hashFn \<Rightarrow> (commit \<Rightarrow> bool) \<Rightarrow> store \<Rightarrow> store \<Rightarrow> bool" for sha ok where
  mutation: "ok c \<Longrightarrow> storeCall sha c s out s' \<Longrightarrow> storeStep sha ok s s'"
| issuance: "ClaimEmailIssuance ce a p t n s = (r, s') \<Longrightarrow> storeStep sha ok s s'"
| failure: "storeStep sha ok s (SetAuditFailure e s)"

definition storeRun :: "hashFn \<Rightarrow> (commit \<Rightarrow> bool) \<Rightarrow> store \<Rightarrow> store \<Rightarrow> bool" where
  "storeRun sha ok = (storeStep sha ok)\<^sup>*\<^sup>*"

definition reachableStore :: "hashFn \<Rightarrow> store \<Rightarrow> bool" where
  "reachableStore sha = storeRun sha commitOk New"

lemma storeRun_induct [consumes 1, case_names start step]:
  assumes "storeRun sha ok s t" and "P s" and "\<And>x y. P x \<Longrightarrow> storeStep sha ok x y \<Longrightarrow> P y"
  shows "P t"
  using assms(1) unfolding storeRun_def by (induction rule: rtranclp_induct) (use assms in blast)+

section \<open>The stale claim of a domain\<close>

text \<open>\<^verbatim>\<open>CreateWorkspaceDomain\<close> is a mutator run on the store without the stale claim it replaces.\<close>

definition withoutHolder :: "workspaceDomain \<Rightarrow> store \<Rightarrow> store" where
  "withoutHolder d s = (case lookup (st_domainNames s) (dom_Domain d) of None \<Rightarrow> s
     | Some holderID \<Rightarrow> s\<lparr>st_domains := del holderID (st_domains s)\<rparr>)"

definition insertDomain :: "hashFn \<Rightarrow> error option \<Rightarrow> workspaceDomain \<Rightarrow> commit \<Rightarrow> store \<Rightarrow> unit result \<times> store" where
  "insertDomain sha ce d c = mutate sha ce (\<lambda>_. Inr ()) (writes (\<lambda>_ s. s\<lparr>
     st_domains := put (dom_ID d) d (st_domains s),
     st_domainNames := put (dom_Domain d) (dom_ID d) (st_domainNames s)\<rparr>)) c"

interpretation insert_domain: mutator "\<lambda>sha ce c. insertDomain sha ce d c" for d
  unfolding insertDomain_def by (rule mutator_writes) (simp add: effect_defs)

lemma insertDomain_eq:
  "insertDomain sha None d c s = (case prepareCommitLocked c s of
      (Inl e, s1) \<Rightarrow> (Inl e, s1)
    | (Inr previous, s1) \<Rightarrow> finishCommitLocked sha c previous (s1\<lparr>
        st_domains := put (dom_ID d) d (st_domains s1),
        st_domainNames := put (dom_Domain d) (dom_ID d) (st_domainNames s1)\<rparr>))"
  by (auto simp: insertDomain_def mutate_def writes_def split: prod.splits sum.splits)

lemma CreateWorkspaceDomain_cases:
  assumes "CreateWorkspaceDomain sha ce d t c s = (r, s')"
  shows "(\<exists>e. r = Inl e) \<and> s' = s \<or> insertDomain sha None d c (withoutHolder d s) = (r, s')"
  using assms
  by (auto simp: CreateWorkspaceDomain_def insertDomain_eq withoutHolder_def Let_def simp del: has_iff
    split: if_splits option.splits)

lemma withoutHolder_audit: "auditSame (withoutHolder d s) s"
  by (simp add: withoutHolder_def auditSame_def split: option.split)

lemma create_domain_audit_invariant:
  assumes "CreateWorkspaceDomain sha ce d t c s = (r, s')" and "commitOk c" and "auditOk sha s"
  shows "auditOk sha s'"
  using CreateWorkspaceDomain_cases [OF assms(1)]
proof
  assume "insertDomain sha None d c (withoutHolder d s) = (r, s')"
  moreover have "auditOk sha (withoutHolder d s)"
    using assms(3) withoutHolder_audit [of d s] by (simp add: auditOk_def auditSame_def)
  ultimately show ?thesis using insert_domain.audit_invariant assms(2) by blast
qed (use assms(3) in simp)

section \<open>The audit log of every reachable store\<close>

lemma atomicCall_contract: "atomicCall sha c s out s' \<Longrightarrow> keepsContract sha c s out s'"
  by (induction rule: atomicCall.induct) ((erule contracts | erule (1) panicking_contracts)+)

lemma atomicCall_audit:
  "atomicCall sha c s out s' \<Longrightarrow> commitOk c \<Longrightarrow> auditOk sha s \<Longrightarrow> auditOk sha s'"
  using atomicCall_contract by (simp add: keepsContract_def)

lemma storeCall_audit:
  "storeCall sha c s out s' \<Longrightarrow> commitOk c \<Longrightarrow> auditOk sha s \<Longrightarrow> auditOk sha s'"
  by (induction rule: storeCall.induct) (erule (2) atomicCall_audit create_domain_audit_invariant)+

lemma auditOk_New: "auditOk sha New"
  by (simp add: auditOk_def New_def auditChainGenesis_def)

lemma issuance_frame:
  assumes "ClaimEmailIssuance ce a p t n s = (r, s')"
  shows "\<exists>k. s' = s\<lparr>st_emailIssuance := k\<rparr>"
  using assms by (auto simp: ClaimEmailIssuance_def Let_def intro: exI [of _ "st_emailIssuance s"]
    split: option.splits if_splits)

lemma storeStep_audit: "storeStep sha commitOk s s' \<Longrightarrow> auditOk sha s \<Longrightarrow> auditOk sha s'"
proof (induction rule: storeStep.induct)
  case (mutation c s out s')
  then show ?case using storeCall_audit by blast
next
  case (issuance ce a p t n s r s')
  then show ?case using issuance_frame [OF issuance(1)] by (auto simp: auditOk_def)
next
  case (failure s e)
  then show ?case by (simp add: SetAuditFailure_def auditOk_def)
qed

lemma storeRun_audit: "storeRun sha commitOk s s' \<Longrightarrow> auditOk sha s \<Longrightarrow> auditOk sha s'"
  by (induction rule: storeRun_induct) (auto intro: storeStep_audit)

lemma reachable_audit: "reachableStore sha s \<Longrightarrow> auditOk sha s"
  unfolding reachableStore_def by (erule storeRun_audit) (rule auditOk_New)

section \<open>Refusals and successes\<close>

lemma atomicCall_refused:
  "atomicCall sha c s (Refused e) s' \<Longrightarrow> s' = s\<lparr>st_ceremonies := st_ceremonies s'\<rparr>
     \<or> hookRejects c e \<and> s' = s\<lparr>st_ceremonies := st_ceremonies s', st_oauthClientKeys := []\<rparr>"
  using atomicCall_contract [of sha c s "Refused e" s'] by (simp add: keepsContract_def)

lemma atomicCall_audits:
  "atomicCall sha c s out s' \<Longrightarrow> st_audits s' = st_audits s @ (if out = Committed then [stamped sha c s] else [])"
  using atomicCall_contract [of sha c s out s'] by (simp add: keepsContract_def)

lemma atomicCall_ceremonies:
  "atomicCall sha c s out s' \<Longrightarrow>
     st_ceremonies s' = st_ceremonies s \<or> st_ceremonies s' = st_ceremonies (snd (prepareCommitLocked c s))"
  using atomicCall_contract [of sha c s out s'] by (simp add: keepsContract_def)

lemma atomicCall_consumed:
  "atomicCall sha c s Committed s' \<Longrightarrow>
     (\<exists>previous s1. prepareCommitLocked c s = (Inr previous, s1) \<and> st_ceremonies s' = st_ceremonies s1)"
  using atomicCall_contract [of sha c s Committed s'] by (simp add: keepsContract_def)

end
