(* ===== verification/MemRevocation.thy ===== *)
theory MemRevocation
  imports MemSystem
begin

text \<open>
  What a step of the store can never undo. \<open>mutate_relates\<close> lifts a relation between the states around
  a method's effect to the whole method; with it, every call of the store is shown to keep users, revoked
  sessions and tokens, used email authentications and closed invitations as they are. On top of it: the
  methods that revoke leave no live credential behind.
\<close>

section \<open>Relations kept by a mutator\<close>

lemma mutate_relates:
  assumes run: "mutate sha ce guard effect c s = (r, s')" and silent: "silent effect"
    and kept: "\<And>k. P s (s\<lparr>st_ceremonies := k\<rparr>)" "\<And>k. P s (s\<lparr>st_ceremonies := k, st_oauthClientKeys := []\<rparr>)"
    and audit: "\<And>b e u. P s b \<Longrightarrow> P s (commitAudit sha e u b)"
    and step: "\<And>x k. guard s = Inr x \<Longrightarrow> P s (snd (effect x (s\<lparr>st_ceremonies := k\<rparr>)))"
  shows "P s s'"
proof (cases r)
  case (Inl e)
  with mutate_Inl [of sha ce guard effect c s e s'] run silent
  have "s' = s\<lparr>st_ceremonies := st_ceremonies s'\<rparr>
      \<or> s' = s\<lparr>st_ceremonies := st_ceremonies s', st_oauthClientKeys := []\<rparr>" by blast
  then show ?thesis using kept by metis
next
  case (Inr y)
  with mutate_Inr [of sha ce guard effect c s y s'] run obtain x previous s1 s2 where
    g: "guard s = Inr x" and p: "prepareCommitLocked c s = (Inr previous, s1)" and e: "effect x s1 = (y, s2)"
    and s': "s' = commitAudit sha (cmt_Audit c) (cmt_Unchained c) s2" by blast
  have "s1 = s\<lparr>st_ceremonies := st_ceremonies s1\<rparr>" by (rule prepare_cases(1) [OF p])
  with step [OF g, of "st_ceremonies s1"] e have "P s s2" by simp
  then show ?thesis unfolding s' by (rule audit)
qed

lemma commitAudit_data [simp]:
  "st_users (commitAudit sha e u s) = st_users s" "st_sessions (commitAudit sha e u s) = st_sessions s"
  "st_pats (commitAudit sha e u s) = st_pats s" "st_emailAuths (commitAudit sha e u s) = st_emailAuths s"
  "st_invitations (commitAudit sha e u s) = st_invitations s" "st_oauthGrants (commitAudit sha e u s) = st_oauthGrants s"
  "st_oauthAccessTokens (commitAudit sha e u s) = st_oauthAccessTokens s"
  "st_oauthRefreshTokens (commitAudit sha e u s) = st_oauthRefreshTokens s"
  "st_memberships (commitAudit sha e u s) = st_memberships s" "st_workspaces (commitAudit sha e u s) = st_workspaces s"
  "st_admins (commitAudit sha e u s) = st_admins s" "st_passwords (commitAudit sha e u s) = st_passwords s"
  "st_emails (commitAudit sha e u s) = st_emails s" "st_throttles (commitAudit sha e u s) = st_throttles s"
  "st_passwordResets (commitAudit sha e u s) = st_passwordResets s" "st_totp (commitAudit sha e u s) = st_totp s"
  "st_recovery (commitAudit sha e u s) = st_recovery s" "st_passkeys (commitAudit sha e u s) = st_passkeys s"
  "st_emailAddresses (commitAudit sha e u s) = st_emailAddresses s" "st_ssoIdentities (commitAudit sha e u s) = st_ssoIdentities s"
  "st_domains (commitAudit sha e u s) = st_domains s" "st_auditFailure (commitAudit sha e u s) = st_auditFailure s"
  "st_emailIDs (commitAudit sha e u s) = st_emailIDs s" "st_ssoKeys (commitAudit sha e u s) = st_ssoKeys s"
  "st_domainNames (commitAudit sha e u s) = st_domainNames s" "st_patPrefixes (commitAudit sha e u s) = st_patPrefixes s"
  "st_emailVerifications (commitAudit sha e u s) = st_emailVerifications s"
  "st_oauthCodes (commitAudit sha e u s) = st_oauthCodes s" "st_oauthInitialTokens (commitAudit sha e u s) = st_oauthInitialTokens s"
  "st_scimCredentials (commitAudit sha e u s) = st_scimCredentials s"
  "st_scimCredentialKeys (commitAudit sha e u s) = st_scimCredentialKeys s" "st_oauthAccessKeys (commitAudit sha e u s) = st_oauthAccessKeys s"
  "st_oauthRefreshKeys (commitAudit sha e u s) = st_oauthRefreshKeys s" "st_oauthClients (commitAudit sha e u s) = st_oauthClients s"
  "st_oauthClientTokenKeys (commitAudit sha e u s) = st_oauthClientTokenKeys s"
  "st_oauthClientTokens (commitAudit sha e u s) = st_oauthClientTokens s" "st_oauthIssuers (commitAudit sha e u s) = st_oauthIssuers s"
  by (simp_all add: commitAudit_def Let_def)

section \<open>What stays dead\<close>

definition permanent :: "store \<Rightarrow> store \<Rightarrow> bool" where
  "permanent s s' \<longleftrightarrow>
     stays (\<lambda>_. True) (st_users s) (st_users s')
   \<and> (\<forall>u. stays (\<lambda>x. ses_UserID x = u \<and> ses_RevokedAt x \<noteq> None) (st_sessions s) (st_sessions s'))
   \<and> (\<forall>u. stays (\<lambda>x. pat_UserID x = u \<and> pat_RevokedAt x \<noteq> None) (st_pats s) (st_pats s'))
   \<and> stays (\<lambda>x. ogr_RevokedAt x \<noteq> None) (st_oauthGrants s) (st_oauthGrants s')
   \<and> stays (\<lambda>x. oco_UsedAt x \<noteq> None) (st_oauthCodes s) (st_oauthCodes s')
   \<and> stays (\<lambda>x. oit_RevokedAt x \<noteq> None) (st_oauthInitialTokens s) (st_oauthInitialTokens s')
   \<and> staysSealed scrd_Prefix (\<lambda>x. scrd_RevokedAt x \<noteq> None) (st_scimCredentialKeys s) (st_scimCredentials s)
       (st_scimCredentialKeys s') (st_scimCredentials s')
   \<and> staysSealed oat_Prefix (\<lambda>x. oat_RevokedAt x \<noteq> None) (st_oauthAccessKeys s) (st_oauthAccessTokens s)
       (st_oauthAccessKeys s') (st_oauthAccessTokens s')
   \<and> staysSealed ort_Prefix (\<lambda>x. ort_RevokedAt x \<noteq> None) (st_oauthRefreshKeys s) (st_oauthRefreshTokens s)
       (st_oauthRefreshKeys s') (st_oauthRefreshTokens s')
   \<and> staysSealed ort_Prefix (\<lambda>x. ort_UsedAt x \<noteq> None) (st_oauthRefreshKeys s) (st_oauthRefreshTokens s)
       (st_oauthRefreshKeys s') (st_oauthRefreshTokens s')
   \<and> staysSealed oct_Prefix (\<lambda>x. oct_RevokedAt x \<noteq> None) (st_oauthClientTokenKeys s) (st_oauthClientTokens s)
       (st_oauthClientTokenKeys s') (st_oauthClientTokens s')
   \<and> stays (\<lambda>x. eac_UsedAt x \<noteq> None) (st_emailAuths s) (st_emailAuths s')
   \<and> stays (\<lambda>x. \<not> pendingInvitation x) (st_invitations s) (st_invitations s')"

lemma permanent_refl: "permanent s s"
  by (simp add: permanent_def)

lemma permanent_trans: "permanent a b \<Longrightarrow> permanent b c \<Longrightarrow> permanent a c"
  unfolding permanent_def by (blast intro: stays_trans staysSealed_trans)

lemma mutate_permanent:
  assumes "mutate sha ce guard effect c s = (r, s')" and "silent effect"
    and "\<And>x k. guard s = Inr x \<Longrightarrow> permanent s (snd (effect x (s\<lparr>st_ceremonies := k\<rparr>)))"
  shows "permanent s s'"
  by (rule mutate_relates [OF assms(1,2)]) (use assms(3) in \<open>simp_all add: permanent_def\<close>)

lemma writes_permanent:
  assumes "mutate sha ce guard (writes f) c s = (r, s')" and "\<And>x s. auditSame (f x s) s"
    and "\<And>x k. guard s = Inr x \<Longrightarrow> permanent s (f x (s\<lparr>st_ceremonies := k\<rparr>))"
  shows "permanent s s'"
  by (rule mutate_permanent [OF assms(1)]) (use assms(2,3) in \<open>simp_all add: silent_def writes_def\<close>)

text \<open>The methods whose effect is a plain write.\<close>

lemmas call_defs =
  Bootstrap_def storeCreateUser_def CreateSignup_def SetUserDisabled_def UpdateUser_def
  storeChangePassword_def RehashPassword_def RecordAuthentication_def RecordPasswordAuthentication_def
  CreatePasswordReset_def storeCompletePasswordReset_def CreateEmailAuthentication_def
  ConsumeEmailAuthentication_def SaveEmail_def ReissueEmailVerification_def storeVerifyEmail_def
  storeSetPrimaryEmail_def storeRemoveEmail_def SaveTOTPEnrollment_def ActivateTOTP_def storeDisableTOTP_def
  ReplaceRecoveryCodes_def storeResetSecondFactor_def SavePasskey_def TouchPasskey_def DeletePasskey_def
  storeCreatePAT_def TouchPAT_def storeRevokePAT_def RevokeUserCredentials_def storeCreateSession_def
  TouchSession_def storeRevokeSession_def RevokeUserSessions_def storeConfirmWorkspaceDomain_def
  storeUpdateWorkspaceDomainPolicy_def storeDeleteWorkspaceDomain_def JITProvisionSSOUser_def
  storeCreateWorkspace_def storeUpdateWorkspace_def UpsertMembership_def storeRemoveMembership_def
  CreateWorkspaceInvitation_def storeAcceptWorkspaceInvitation_def RegisterInvitedUser_def
  storeRevokeWorkspaceInvitation_def storeSetInstanceRole_def storeRemoveInstanceRole_def LinkSSO_def
  TouchSSO_def UnlinkSSO_def AppendAudit_def
  storeCreateSCIMConfiguration_def SaveSCIMCredential_def storeRevokeSCIMCredential_def TouchSCIMCredential_def
  storeDisableSCIMConfiguration_def CreateSCIMUser_def AdoptSCIMUser_def
  storeCreateOAuthIssuer_def storeUpdateOAuthIssuer_def storeCreateOAuthProtectedResource_def UpsertOAuthCIMDClient_def
  storeRotateOAuthClientCredentials_def storeCreateOAuthInitialAccessToken_def storeRevokeOAuthInitialAccessToken_def
  CreateOAuthGrantAndCode_def CreateOAuthClientAccessToken_def RevokeOAuthClientAccessToken_def RevokeOAuthAccessToken_def
  RevokeOAuthRefreshFamily_def

lemmas permanent_rules = stays_put_new stays_put_old stays_put_sat stays_mapv staysSealed_new staysSealed_old staysSealed_dead
  staysSealed_mapv

lemma permanent_record_login_failure: "RecordLoginFailure sha ce u t n l c s = (r, s') \<Longrightarrow> permanent s s'"
  unfolding RecordLoginFailure_def
  by (erule mutate_permanent) (simp_all add: silent_def permanent_def effect_defs)

lemma permanent_use_totp: "UseTOTP sha ce u n c s = (r, s') \<Longrightarrow> permanent s s'"
proof -
  have "permanent s s'" if "useTOTPFresh sha ce u n c s = (r, s')"
    using that unfolding useTOTPFresh_def
    by (rule mutate_permanent) (simp_all add: silent_def permanent_def effect_defs stays_put_sat)
  then show "UseTOTP sha ce u n c s = (r, s') \<Longrightarrow> permanent s s'"
    by (auto simp: UseTOTP_def intro: permanent_refl split: if_splits)
qed

lemma permanent_consume_recovery_code: "ConsumeRecoveryCode sha ce u d t c s = (r, s') \<Longrightarrow> permanent s s'"
proof -
  have "permanent s s'" if "consumeRecoveryFound sha ce u d t c s = (r, s')"
    using that unfolding consumeRecoveryFound_def
    by (rule mutate_permanent) (simp_all add: silent_def permanent_def effect_defs stays_put_sat)
  then show "ConsumeRecoveryCode sha ce u d t c s = (r, s') \<Longrightarrow> permanent s s'"
    by (auto simp: ConsumeRecoveryCode_def intro: permanent_refl split: if_splits)
qed

lemma permanent_revoke: "permanent s (revokeUserCredentialsLocked u w t s)"
  by (auto simp: permanent_def revokeUserCredentialsLocked_def intro: stays_mapv staysSealed_mapv)

lemma permanent_foldl: "(\<And>s x. permanent s (f s x)) \<Longrightarrow> permanent s (foldl f s xs)"
proof (induction xs arbitrary: s)
  case (Cons x xs)
  from Cons.prems have "permanent s (f s x)" .
  moreover from Cons have "permanent (f s x) (foldl f (f s x) xs)" by blast
  ultimately have "permanent s (foldl f (f s x) xs)" by (rule permanent_trans)
  then show ?case by simp
qed (simp add: permanent_refl)

lemma permanent_revoke_members:
  assumes "permanent s a"
  shows "permanent s (if b then foldl (\<lambda>s (u, _). revokeUserCredentialsLocked u w t s) a ms else a)"
proof -
  have "permanent a (foldl (\<lambda>s (u, _). revokeUserCredentialsLocked u w t s) a ms)"
    by (rule permanent_foldl) (simp add: permanent_revoke split: prod.split)
  from permanent_trans [OF assms this] assms show ?thesis by simp
qed

lemma permanent_set_workspace_disabled: "storeSetWorkspaceDisabled sha ce w b t c s = (r, s') \<Longrightarrow> permanent s s'"
  unfolding storeSetWorkspaceDisabled_def
  by (erule writes_permanent, rule setWorkspaceDisabled_silent, unfold Let_def, rule permanent_revoke_members)
     (simp add: permanent_def)

lemma permanent_anonymizeEmails:
  "foldl (anonymizeEmail u t) (x, s) es = (y, s') \<Longrightarrow> permanent s s'"
proof (induction es arbitrary: x s)
  case (Cons e es)
  obtain x1 s1 where 1: "anonymizeEmail u t (x, s) e = (x1, s1)" by (cases "anonymizeEmail u t (x, s) e")
  then have "permanent s s1" by (auto simp: anonymizeEmail_def Let_def permanent_def split: prod.splits if_splits)
  moreover from Cons 1 have "permanent s1 s'" by simp
  ultimately show ?case by (rule permanent_trans)
qed (simp add: permanent_refl)

lemma permanent_anonymizeLink: "permanent s (anonymizeLink u t s l)"
  by (simp add: anonymizeLink_def putSCIMUserLocked_def deleteSCIMUserIndexesLocked_def permanent_def split: prod.splits)

lemma permanent_anonymizeEffect:
  assumes "has u (st_users s)"
  shows "permanent s (anonymizeEffect u t x s)"
proof -
  obtain x1 s1 where 1: "foldl (anonymizeEmail u t) (x\<lparr>usr_DisplayName := [], usr_Disabled := True, usr_UpdatedAt := t\<rparr>, s)
      (st_emailAddresses s) = (x1, s1)" (is "?f = _") by (cases ?f)
  define s2 where "s2 = s1\<lparr>st_users := put u x1 (st_users s1),
      st_ssoIdentities := mapv (\<lambda>_ x. if sso_UserID x = u then x\<lparr>sso_Email := []\<rparr> else x) (st_ssoIdentities s1),
      st_pats := mapv (\<lambda>_ p. if pat_UserID p = u then p\<lparr>pat_Name := []\<rparr> else p) (st_pats s1),
      st_sessions := mapv (\<lambda>_ x. if ses_UserID x = u then x\<lparr>ses_UserAgent := [], ses_IPAddress := []\<rparr> else x)
        (st_sessions s1)\<rparr>"
  have "permanent s1 s2"
    by (auto simp: s2_def permanent_def intro: stays_put_sat stays_mapv)
  moreover have "permanent s2 (foldl (anonymizeLink u t) s2 (st_scimUsers s1))" (is "permanent _ ?s3")
    by (rule permanent_foldl) (rule permanent_anonymizeLink)
  moreover have "permanent ?s3 (?s3\<lparr>st_invitations := mapv (\<lambda>i x. if inv_AcceptedUserID x = u
        then x\<lparr>inv_Email := anonymizedAddress i\<rparr> else x) (st_invitations ?s3),
      st_totp := del u (st_totp ?s3), st_recovery := del u (st_recovery ?s3),
      st_passkeys := del u (st_passkeys ?s3)\<rparr>)" (is "permanent _ ?s4")
    by (simp add: permanent_def) (rule stays_mapv, simp add: pendingInvitation_def)
  moreover note permanent_revoke [of ?s4 u 0 t]
  moreover have "permanent s (revokeUserSessionsLocked u t s)" for s
    by (auto simp: permanent_def revokeUserSessionsLocked_def intro: stays_mapv staysSealed_mapv)
  ultimately have "permanent s (revokeUserSessionsLocked u t (revokeUserCredentialsLocked u 0 t ?s4))"
    using permanent_anonymizeEmails [OF 1] by (meson permanent_trans)
  then show ?thesis by (simp add: anonymizeEffect_def 1 Let_def flip: s2_def)
qed

lemma permanent_anonymize_user: "storeAnonymizeUser sha ce u t c s = (r, s') \<Longrightarrow> permanent s s'"
  unfolding storeAnonymizeUser_def
  apply (erule writes_permanent)
   apply (rule anonymizeEffect_silent)
  subgoal for x k
    using permanent_anonymizeEffect [of u "s\<lparr>st_ceremonies := k\<rparr>" t x]
    by (simp add: permanent_def require_def split: option.splits if_splits)
  done

text \<open>The SCIM methods that write memberships, and the OAuth methods that revoke grants or mint tokens.\<close>

lemma permanent_putMember [simp]: "permanent s (putMember w u m a) \<longleftrightarrow> permanent s a"
  by (simp add: permanent_def putMember_def)

lemma permanent_setMembers: "permanent s a \<Longrightarrow> permanent s (snd (setMembers ms a))"
  by (induction ms arbitrary: a) simp_all

lemma permanent_upsertMembers: "permanent s a \<Longrightarrow> permanent s (upsertMembers ms a)"
  by (induction ms arbitrary: a) simp_all

lemma permanent_update_scim_configuration: "storeUpdateSCIMConfiguration sha ce x ms c s = (r, s') \<Longrightarrow> permanent s s'"
  unfolding storeUpdateSCIMConfiguration_def
  by (erule writes_permanent, rule auditSame_trans [OF upsertMembers_silent], simp add: effect_defs,
    rule permanent_upsertMembers) (simp add: permanent_def)

lemma checked_permanent:
  assumes "mutatePanic sha ce guard effect c s = (r, s')" and "r \<noteq> Inl RuntimePanic"
    and "\<And>x s. auditSame (snd (effect x s)) s" and "\<And>x k. permanent s (snd (effect x (s\<lparr>st_ceremonies := k\<rparr>)))"
  shows "permanent s s'"
  using mutatePanic_checked [OF assms(1,2)] assms(3,4) unfolding checked_def by (rule writes_permanent)

lemma permanent_revokeOAuthGrantLocked: "permanent s (revokeOAuthGrantLocked i t s)"
  by (auto simp: permanent_def revokeOAuthGrantLocked_def intro: permanent_rules split: option.split)

lemma permanent_revokeGrantsWhere: "permanent s a \<Longrightarrow> permanent s (if b then revokeGrantsWhere P t a else a)"
proof -
  have "permanent a (revokeGrantsWhere P t a)" unfolding revokeGrantsWhere_def
    by (rule permanent_foldl) (simp add: permanent_refl permanent_revokeOAuthGrantLocked split: prod.split)
  then show "permanent s a \<Longrightarrow> permanent s (if b then revokeGrantsWhere P t a else a)" by (simp add: permanent_trans)
qed

lemma permanent_revoking:
  "storeSetOAuthIssuerDisabled sha ce i b t c s = (r, s') \<Longrightarrow> permanent s s'"
  "storeSetOAuthProtectedResourceDisabled sha ce i b t c s = (r, s') \<Longrightarrow> permanent s s'"
  "storeSetOAuthClientDisabled sha ce i b t c s = (r, s') \<Longrightarrow> permanent s s'"
  "storeRevokeOAuthGrant sha ce i t c s = (r, s') \<Longrightarrow> permanent s s'"
  unfolding storeSetOAuthIssuerDisabled_def storeSetOAuthProtectedResourceDisabled_def storeSetOAuthClientDisabled_def
    storeRevokeOAuthGrant_def Let_def
  subgoal by (erule writes_permanent, simp add: effect_defs revoke_frames, rule permanent_revokeGrantsWhere) (simp add: permanent_def)
  subgoal by (erule writes_permanent, simp add: effect_defs revoke_frames, rule permanent_revokeGrantsWhere) (simp add: permanent_def)
  subgoal by (erule writes_permanent, simp add: effect_defs revoke_frames, rule permanent_revokeGrantsWhere) (simp add: permanent_def)
  subgoal by (erule writes_permanent, rule revokeOAuthGrantLocked_silent, rule permanent_trans [OF _ permanent_revokeOAuthGrantLocked])
     (simp add: permanent_def)
  done

lemma permanent_putAccessToken:
  assumes "permanent s a" and "lookup (st_oauthAccessKeys a) (oat_Prefix x) = None"
  shows "permanent s (putAccessToken x a)"
proof -
  from assms(2) have "permanent a (putAccessToken x a)" by (simp add: permanent_def putAccessToken_def staysSealed_new)
  with assms(1) show ?thesis by (rule permanent_trans)
qed

lemma permanent_putRefreshToken:
  assumes "permanent s a" and "lookup (st_oauthRefreshKeys a) (ort_Prefix x) = None"
  shows "permanent s (putRefreshToken x a)"
proof -
  from assms(2) have "permanent a (putRefreshToken x a)" by (simp add: permanent_def putRefreshToken_def staysSealed_new)
  with assms(1) show ?thesis by (rule permanent_trans)
qed

lemma permanent_consume_oauth_code: "ConsumeOAuthAuthorizationCode sha ce i t a f c s = (r, s') \<Longrightarrow> permanent s s'"
  unfolding ConsumeOAuthAuthorizationCode_def Let_def
proof (erule writes_permanent)
  fix code k
  assume g: "consumeOAuthAuthorizationCodeGuard i t a f s = Inr code"
  let ?s = "s\<lparr>st_ceremonies := k\<rparr>"
  let ?s1 = "?s\<lparr>st_oauthCodes := put i (code\<lparr>oco_UsedAt := Some t\<rparr>) (st_oauthCodes ?s)\<rparr>"
  have "permanent s ?s1" by (simp add: permanent_def stays_put_sat)
  moreover have "lookup (st_oauthAccessKeys ?s1) (oat_Prefix a) = None"
    using g by (auto simp: consumeOAuthAuthorizationCodeGuard_def require_def split: option.splits if_splits)
  ultimately have 1: "permanent s (putAccessToken a ?s1)" by (rule permanent_putAccessToken)
  show "permanent s (case f of None \<Rightarrow> putAccessToken a ?s1 | Some y \<Rightarrow> putRefreshToken y (putAccessToken a ?s1))"
  proof (cases f)
    case (Some y)
    with g have "lookup (st_oauthRefreshKeys (putAccessToken a ?s1)) (ort_Prefix y) = None"
      by (auto simp: consumeOAuthAuthorizationCodeGuard_def require_def putAccessToken_def split: option.splits if_splits)
    from permanent_putRefreshToken [OF 1 this] Some show ?thesis by simp
  qed (use 1 in simp)
qed (simp add: effect_defs split: option.split)

lemma permanent_rotate_oauth_refresh: "RotateOAuthRefreshToken sha ce i t a f c s = (r, s') \<Longrightarrow> permanent s s'"
  unfolding RotateOAuthRefreshToken_def
proof (erule writes_permanent)
  fix x k
  assume g: "rotateOAuthRefreshTokenGuard i t a f s = Inr x"
  let ?s = "s\<lparr>st_ceremonies := k\<rparr>"
  let ?s1 = "?s\<lparr>st_oauthRefreshTokens := put i (x\<lparr>ort_UsedAt := Some t, ort_ReplacedByID := ort_ID f\<rparr>) (st_oauthRefreshTokens ?s)\<rparr>"
  from g have x: "lookup (st_oauthRefreshTokens s) i = Some x" "lookup (st_oauthAccessKeys s) (oat_Prefix a) = None"
    "lookup (st_oauthRefreshKeys s) (ort_Prefix f) = None"
    by (auto simp: rotateOAuthRefreshTokenGuard_def require_def split: option.splits if_splits)
  have "permanent s ?s1" using x(1) by (simp add: permanent_def staysSealed_dead staysSealed_old)
  then have "permanent s (putAccessToken a ?s1)" using x(2) by (simp add: permanent_putAccessToken)
  then show "permanent s (putRefreshToken f (putAccessToken a ?s1))"
    by (rule permanent_putRefreshToken) (simp add: putAccessToken_def x(3))
qed (simp add: effect_defs)

lemma permanent_update_scim_user:
  "storeUpdateSCIMUser sha ce x m b c s = (r, s') \<Longrightarrow> r \<noteq> Inl RuntimePanic \<Longrightarrow> permanent s s'"
  unfolding storeUpdateSCIMUser_def
proof (erule (1) checked_permanent [OF _ _ update_scim_user_silent])
  fix y k
  let ?a = "putSCIMUserLocked x (deleteSCIMUserIndexesLocked y (s\<lparr>st_ceremonies := k\<rparr>))"
  have "permanent s ?a" by (simp add: permanent_def effect_defs)
  then have "permanent s (snd (setMembers [m] ?a))" by (rule permanent_setMembers)
  moreover have "permanent a (a\<lparr>st_pats := mapv (\<lambda>_ p. if pat_UserID p = susr_UserID x \<and> pat_WorkspaceID p = mbr_WorkspaceID m
      \<and> pat_RevokedAt p = None then p\<lparr>pat_RevokedAt := Some (susr_UpdatedAt x)\<rparr> else p) (st_pats a)\<rparr>)" for a
    by (auto simp: permanent_def intro: permanent_rules)
  ultimately show "permanent s (snd (updateSCIMUserEffect x m b y (s\<lparr>st_ceremonies := k\<rparr>)))"
    unfolding updateSCIMUserEffect_def by (auto split: prod.split intro: permanent_trans)
qed

lemma permanent_scim_groups:
  "UpsertSCIMGroup sha ce x ms c s = (r, s') \<Longrightarrow> r \<noteq> Inl RuntimePanic \<Longrightarrow> permanent s s'"
  "storeDeleteSCIMGroup sha ce x ms c s = (r, s') \<Longrightarrow> r \<noteq> Inl RuntimePanic \<Longrightarrow> permanent s s'"
  unfolding UpsertSCIMGroup_def storeDeleteSCIMGroup_def
  subgoal by (erule (1) checked_permanent [OF _ _ upsert_scim_group_silent], unfold upsertSCIMGroupEffect_def Let_def,
      rule permanent_setMembers) (simp add: permanent_def effect_defs split: option.split)
  subgoal by (erule (1) checked_permanent [OF _ _ delete_scim_group_silent], unfold deleteSCIMGroupEffect_def,
      rule permanent_setMembers) (simp add: permanent_def effect_defs)
  done

lemma permanent_create_oauth_client: "CreateOAuthClient sha ce x i t c s = (r, s') \<Longrightarrow> permanent s s'"
  unfolding CreateOAuthClient_def Let_def
  by (erule writes_permanent)
    (auto simp: permanent_def createOAuthClientGuard_def require_def effect_defs split: option.splits if_splits
      intro: permanent_rules)

lemmas permanent_special = permanent_record_login_failure permanent_use_totp permanent_consume_recovery_code
  permanent_set_workspace_disabled permanent_anonymize_user permanent_update_scim_configuration permanent_revoking
  permanent_consume_oauth_code permanent_rotate_oauth_refresh permanent_create_oauth_client

lemmas permanent_panicking = permanent_update_scim_user permanent_scim_groups

lemma atomicCall_permanent: "atomicCall sha c s out s' \<Longrightarrow> permanent s s'"
  apply (induction rule: atomicCall.induct)
  unfolding call_defs
  by ((erule permanent_special | erule (1) permanent_panicking | (erule writes_permanent,
    (simp add: effect_defs split: option.split prod.split; fail),
    (auto simp: permanent_def effect_defs pendingInvitation_def
      intro: permanent_rules split: option.splits if_splits prod.splits; fail)))+)

lemma storeCall_permanent: "storeCall sha c s out s' \<Longrightarrow> permanent s s'"
proof (induction rule: storeCall.induct)
  case (call_create_workspace_domain ce x t s r s')
  have "permanent s s'" if "insertDomain sha None x c s = (r, s')" for s
    using that unfolding insertDomain_def
    by (rule writes_permanent) (simp_all add: effect_defs permanent_def)
  moreover have "permanent s (withoutHolder x s)"
    by (simp add: withoutHolder_def permanent_def split: option.split)
  ultimately show ?case using CreateWorkspaceDomain_cases [OF call_create_workspace_domain]
    by (meson permanent_refl permanent_trans)
qed (rule atomicCall_permanent)

end
