(* ===== verification/MemGuarantees.thy ===== *)
theory MemGuarantees
  imports MemRevocation
begin

text \<open>
  The guarantees the in-memory store gives whoever calls it, over single calls and over runs:
  atomicity, the audit log, single use, revocation, and who is left in charge. Among them the two
  places where the code falls short of them: the OAuth client index that a rejected transaction
  loses, and the domain claim that a failed replacement drops.
\<close>

section \<open>Calls and runs\<close>

lemma writes_success:
  assumes "mutate sha ce guard (writes f) c s = (Inr r, s')"
  shows "\<exists>x k. guard s = Inr x \<and> s' = commitAudit sha (cmt_Audit c) (cmt_Unchained c) (f x (s\<lparr>st_ceremonies := k\<rparr>))"
proof -
  from mutate_Inr [OF assms] obtain x previous s1 s2 where g: "guard s = Inr x" and
    p: "prepareCommitLocked c s = (Inr previous, s1)" and
    e: "writes f x s1 = (r, s2)" "s' = commitAudit sha (cmt_Audit c) (cmt_Unchained c) s2" by blast
  from prepare_cases(1) [OF p] e have "s' = commitAudit sha (cmt_Audit c) (cmt_Unchained c) (f x (s\<lparr>st_ceremonies := st_ceremonies s1\<rparr>))"
    by (simp add: writes_def)
  with g show ?thesis by blast
qed

lemma storeCall_cases:
  assumes "storeCall sha c s out s'"
  obtains (atomic) "atomicCall sha c s out s'"
  | (refused) e where "out = Refused e" "s' = s"
  | (domain) d r where "out = outcomeOf (\<lambda>_. True) r" "insertDomain sha None d c (withoutHolder d s) = (r, s')"
  using assms
proof (cases rule: storeCall.cases)
  case (call_create_workspace_domain ce d t r)
  from CreateWorkspaceDomain_cases [OF this(2)] show thesis
  proof
    assume "(\<exists>e. r = Inl e) \<and> s' = s"
    then show thesis using refused call_create_workspace_domain(1) by (auto simp: outcomeOf_def)
  qed (use domain call_create_workspace_domain(1) in blast)
qed (use atomic in blast)

lemma withoutHolder_frame:
  "st_audits (withoutHolder d s) = st_audits s" "st_auditIDs (withoutHolder d s) = st_auditIDs s"
  "st_ceremonies (withoutHolder d s) = st_ceremonies s" "stamped sha c (withoutHolder d s) = stamped sha c s"
  "canAudit e (withoutHolder d s) = canAudit e s"
  by (simp_all add: withoutHolder_def stamped_def canAudit_def Let_def split: option.split)

lemma prepare_ceremonies_withoutHolder:
  "st_ceremonies (snd (prepareCommitLocked c (withoutHolder d s))) = st_ceremonies (snd (prepareCommitLocked c s))"
  by (simp add: prepareCommitLocked_def withoutHolder_frame Let_def split: option.split)

lemma storeCall_audits:
  assumes "storeCall sha c s out s'"
  shows "st_audits s' = st_audits s @ (if out = Committed then [stamped sha c s] else [])"
  using assms
proof (cases rule: storeCall_cases)
  case (domain d r)
  from insert_domain.audit_grows [OF domain(2)] domain(1) show ?thesis
    by (auto simp: outcomeOf_def withoutHolder_frame split: sum.splits)
qed (simp_all add: atomicCall_audits)

lemma storeCall_ceremonies:
  assumes "storeCall sha c s out s'"
  shows "st_ceremonies s' = st_ceremonies s \<or> st_ceremonies s' = st_ceremonies (snd (prepareCommitLocked c s))"
  using assms
proof (cases rule: storeCall_cases)
  case (domain d r)
  from insert_domain.ceremonies [OF domain(2)] show ?thesis
    by (simp add: withoutHolder_frame prepare_ceremonies_withoutHolder)
qed (use atomicCall_ceremonies in blast)+

lemma storeCall_consumed:
  assumes "storeCall sha c s Committed s'"
  shows "\<exists>previous. fst (prepareCommitLocked c s) = Inr previous"
    and "st_ceremonies s' = st_ceremonies (snd (prepareCommitLocked c s))"
proof -
  have "(\<exists>previous. fst (prepareCommitLocked c s) = Inr previous) \<and> st_ceremonies s' = st_ceremonies (snd (prepareCommitLocked c s))"
    using assms
  proof (cases rule: storeCall_cases)
    case (domain d r)
    then obtain x where "r = Inr x" by (auto simp: outcomeOf_def split: sum.splits)
    with domain insert_domain.consumed [of sha None d c "withoutHolder d s" x s'] obtain previous s1 where
      p: "prepareCommitLocked c (withoutHolder d s) = (Inr previous, s1)" "st_ceremonies s' = st_ceremonies s1" by auto
    then have "\<exists>previous. fst (prepareCommitLocked c s) = Inr previous"
      by (auto simp: prepareCommitLocked_def withoutHolder_frame Let_def split: option.splits if_splits)
    with p prepare_ceremonies_withoutHolder [of c d s] show ?thesis by simp
  qed (use atomicCall_consumed [of sha c s s'] in auto)
  then show "\<exists>previous. fst (prepareCommitLocked c s) = Inr previous" "st_ceremonies s' = st_ceremonies (snd (prepareCommitLocked c s))"
    by auto
qed

lemma storeCall_can_audit:
  assumes "storeCall sha c s Committed s'"
  shows "canAudit (cmt_Audit c) s = None"
  using storeCall_consumed(1) [OF assms] by (auto simp: prepareCommitLocked_def split: option.splits)

section \<open>Instances the properties are evaluated on\<close>

definition nullHash :: hashFn where
  "nullHash _ = []"

definition sampleEvent :: "uuid \<Rightarrow> auditEvent" where
  "sampleEvent i = \<lparr>aud_ID = i, aud_OccurredAt = 1000, aud_ActorKind = ActorUser, aud_ActorID = 3, aud_Action = ''a'',
     aud_ResourceType = [], aud_ResourceID = [], aud_WorkspaceID = 0, aud_Outcome = AuditSucceeded, aud_Reason = [],
     aud_IPAddress = [], aud_UserAgent = [], aud_Sequence = 0, aud_PreviousHash = [], aud_Hash = []\<rparr>"

definition sampleCommit :: "uuid \<Rightarrow> commit" where
  "sampleCommit i = \<lparr>cmt_Audit = sampleEvent i, cmt_Transactional = None, cmt_Ceremony = None, cmt_Unchained = False\<rparr>"

definition sampleUser :: "uuid \<Rightarrow> user" where
  "sampleUser i = \<lparr>usr_ID = i, usr_Email = ''u'', usr_DisplayName = [], usr_Disabled = False, usr_LastSeenAt = None,
     usr_CreatedAt = 1, usr_UpdatedAt = 1\<rparr>"

definition sampleSession :: "uuid \<Rightarrow> uuid \<Rightarrow> time option \<Rightarrow> session" where
  "sampleSession i u revoked = \<lparr>ses_ID = i, ses_UserID = u, ses_Method = MethodPassword, ses_Level = AAL1,
     ses_AuthenticatedAt = 1, ses_SecondFactorRequired = False, ses_UserAgent = [], ses_IPAddress = [],
     ses_Digest = [], ses_CreatedAt = 1, ses_LastSeenAt = 1, ses_ExpiresAt = 9000, ses_RevokedAt = revoked\<rparr>"

definition sampleDomain :: "uuid \<Rightarrow> time \<Rightarrow> workspaceDomain" where
  "sampleDomain i created = \<lparr>dom_ID = i, dom_WorkspaceID = 3, dom_Domain = ''d'', dom_Challenge = [], dom_ConfirmedAt = None,
     dom_AutoJoin = False, dom_AutoJoinRole = [], dom_SSOProviderConfigurationID = 0, dom_EnforceSSO = False,
     dom_CreatedAt = created, dom_UpdatedAt = created\<rparr>"

definition sampleWorkspace :: workspace where
  "sampleWorkspace = \<lparr>wsp_ID = 3, wsp_Name = ''w'', wsp_RequireMFA = False, wsp_CreatedAt = 1, wsp_UpdatedAt = 1,
     wsp_DisabledAt = None\<rparr>"

definition sampleStore :: store where
  "sampleStore = New\<lparr>st_users := [(1, sampleUser 1), (2, sampleUser 2)], st_workspaces := [(3, sampleWorkspace)],
     st_sessions := [(5, sampleSession 5 1 None), (6, sampleSession 6 1 (Some 3)), (7, sampleSession 7 2 None)]\<rparr>"

lemmas sample_defs = nullHash_def sampleEvent_def sampleCommit_def sampleUser_def sampleSession_def
  sampleDomain_def sampleWorkspace_def sampleStore_def New_def

text \<open>The commit protocol as rewrite rules.\<close>

lemmas commit_eval = mutate_def writes_def prepareCommitLocked_def finishCommitLocked_def canAudit_def
  snapshotLocked_def restoreLocked_def zeroTime_def second_def Let_def keep_def

section \<open>Atomicity\<close>



text \<open>
  C32: a hook that rejects an otherwise successful call makes the store forget every entry of the OAuth
  client index: the snapshot taken before the call copies the client token index in its place
  (\<^verbatim>\<open>snapshotLocked\<close>), and the rollback installs it.
\<close>

theorem rejected_transaction_loses_client_index:
  assumes "canAudit (cmt_Audit c) s = None" and "cmt_Ceremony c = None" and "hookRejects c e"
  shows "AppendAudit sha None c s = (Inl e, s\<lparr>st_oauthClientKeys := []\<rparr>)"
proof -
  from assms(3) obtain cb where "cmt_Transactional c = Some cb" "cb (cmt_Audit c) = Some e"
    by (auto simp: hookRejects_def split: option.splits)
  with assms(1,2) show ?thesis
    by (simp add: AppendAudit_def mutate_def prepareCommitLocked_def writes_def finishCommitLocked_def restore_snapshot)
qed

theorem rejected_transaction_loses_client_index_witness:
  "AppendAudit nullHash None ((sampleCommit 9)\<lparr>cmt_Transactional := Some (\<lambda>_. Some ErrForbidden)\<rparr>)
      (sampleStore\<lparr>st_oauthClientKeys := [(''client'', 4)]\<rparr>) = (Inl ErrForbidden, sampleStore)"
proof -
  let ?s = "sampleStore\<lparr>st_oauthClientKeys := [(''client'', 4)]\<rparr>"
  let ?c = "(sampleCommit 9)\<lparr>cmt_Transactional := Some (\<lambda>_. Some ErrForbidden)\<rparr>"
  have "canAudit (cmt_Audit ?c) ?s = None" by (simp add: sample_defs commit_eval)
  moreover have "cmt_Ceremony ?c = None" by (simp add: sampleCommit_def)
  moreover have "hookRejects ?c ErrForbidden" by (simp add: hookRejects_def sampleCommit_def)
  ultimately have "AppendAudit nullHash None ?c ?s = (Inl ErrForbidden, ?s\<lparr>st_oauthClientKeys := []\<rparr>)"
    by (rule rejected_transaction_loses_client_index)
  then show ?thesis by (simp add: sampleStore_def New_def)
qed

text \<open>
  C33: when the audit log is unavailable, replacing a stale domain claim fails and yet deletes the claim
  that held the name. Every other method of the store fails in that state without a change.
\<close>

theorem failed_replacement_drops_claim:
  assumes "st_auditFailure s = Some f" and "has (dom_WorkspaceID d) (st_workspaces s)" and "\<not> has (dom_ID d) (st_domains s)"
    and "lookup (st_domainNames s) (dom_Domain d) = Some h" and "lookup (st_domains s) h = Some holder"
    and "dom_ConfirmedAt holder = None" and "dom_CreatedAt holder < staleBefore"
  shows "CreateWorkspaceDomain sha None d staleBefore c s = (Inl ErrAuditUnavailable, s\<lparr>st_domains := del h (st_domains s)\<rparr>)"
  using assms
  by (simp add: CreateWorkspaceDomain_def domainOrZero_def prepareCommitLocked_def canAudit_def Let_def del: has_iff)

theorem failed_replacement_drops_claim_witness:
  "CreateWorkspaceDomain nullHash None (sampleDomain 12 50) 40 (sampleCommit 9)
      (sampleStore\<lparr>st_auditFailure := Some ErrForbidden, st_domains := [(11, sampleDomain 11 20)], st_domainNames := [(''d'', 11)]\<rparr>)
    = (Inl ErrAuditUnavailable, sampleStore\<lparr>st_auditFailure := Some ErrForbidden, st_domainNames := [(''d'', 11)]\<rparr>)"
  (is "?lhs = _")
proof -
  have "?lhs = (Inl ErrAuditUnavailable, sampleStore\<lparr>st_auditFailure := Some ErrForbidden, st_domains := [(11, sampleDomain 11 20)],
      st_domainNames := [(''d'', 11)], st_domains := del 11 [(11, sampleDomain 11 20)]\<rparr>)"
    using failed_replacement_drops_claim [of "sampleStore\<lparr>st_auditFailure := Some ErrForbidden,
        st_domains := [(11, sampleDomain 11 20)], st_domainNames := [(''d'', 11)]\<rparr>" ErrForbidden "sampleDomain 12 50" 11
        "sampleDomain 11 20" 40 nullHash "sampleCommit 9"]
    by (simp add: sampleStore_def sampleDomain_def)
  then show ?thesis by (simp add: sampleStore_def New_def del_def)
qed

section \<open>The audit log\<close>

text \<open>
  C2: the log grows by exactly one event per call that commits, the event of its commit stamped with the
  next sequence number and the head of the chain, and by nothing on any other outcome; it is never
  rewritten. This covers every mutating method of the store.
\<close>

theorem one_event_per_commit:
  assumes "storeCall sha c s out s'"
  shows "st_audits s' = st_audits s @ (if out = Committed then [stamped sha c s] else [])"
  using storeCall_audits [OF assms] .

theorem one_event_per_commit_witness:
  "\<exists>s'. storeCall nullHash (sampleCommit 9) sampleStore Committed s'
    \<and> st_audits s' = [(sampleEvent 9)\<lparr>aud_Sequence := 1, aud_PreviousHash := replicate 32 0\<rparr>]"
proof -
  obtain s' where run: "RevokeUserSessions nullHash None 1 20 (sampleCommit 9) sampleStore = (Inr (), s')"
    by (simp add: RevokeUserSessions_def require_def commit_eval sample_defs)
  have call: "storeCall nullHash (sampleCommit 9) sampleStore Committed s'"
    using call_atomic [OF call_revoke_user_sessions [OF run]] by (simp add: outcomeOf_def)
  from one_event_per_commit [OF call] have "st_audits s' = [(sampleEvent 9)\<lparr>aud_Sequence := 1, aud_PreviousHash := replicate 32 0\<rparr>]"
    by (simp add: sample_defs stamped_def ComputeAuditHash_def)
  with call show ?thesis by blast
qed

section \<open>Single use\<close>

lemma prepare_keeps_ceremony:
  assumes "lookup (st_ceremonies s) k = Some t" and "aud_OccurredAt (cmt_Audit c) \<le> t"
  shows "lookup (st_ceremonies (snd (prepareCommitLocked c s))) k = Some t"
proof -
  have "lookup (keep (\<lambda>_ expires. \<not> expires < aud_OccurredAt (cmt_Audit c)) (st_ceremonies s)) k = Some t"
    using lookup_keep_Some [OF assms(1)] assms(2) by simp
  with assms(1) show ?thesis by (auto simp: prepareCommitLocked_def Let_def split: option.split)
qed

lemma storeRun_keeps_ceremony:
  assumes "storeRun sha (\<lambda>d. aud_OccurredAt (cmt_Audit d) \<le> t) s s'" and "lookup (st_ceremonies s) k = Some t"
  shows "lookup (st_ceremonies s') k = Some t"
  using assms(1)
proof (induction rule: storeRun_induct)
  case (step x y)
  from step(2) show ?case
  proof (cases rule: storeStep.cases)
    case (mutation c out)
    from storeCall_ceremonies [OF mutation(2)] prepare_keeps_ceremony [OF step(1) mutation(1)] step(1)
    show ?thesis by metis
  next
    case (issuance ce a p t n r)
    with issuance_frame [OF issuance] step(1) show ?thesis by auto
  qed (use step(1) in \<open>simp add: SetAuditFailure_def\<close>)
qed (rule assms(2))

lemma consumed_ceremony_stored:
  assumes "storeCall sha c s Committed s'" and "cmt_Ceremony c = Some x"
  shows "lookup (st_ceremonies s') (cer_ID x) = Some (cer_ExpiresAt x)"
  using storeCall_consumed [OF assms(1)] assms(2) storeCall_can_audit [OF assms(1)]
  by (auto simp: prepareCommitLocked_def Let_def split: if_splits)

lemma used_ceremony_refused:
  assumes "lookup (st_ceremonies s) (cer_ID y) = Some t" and "aud_OccurredAt (cmt_Audit c) \<le> t" and "cmt_Ceremony c = Some y"
  shows "\<not> storeCall sha c s Committed s'"
proof
  assume call: "storeCall sha c s Committed s'"
  have "lookup (keep (\<lambda>_ expires. \<not> expires < aud_OccurredAt (cmt_Audit c)) (st_ceremonies s)) (cer_ID y) = Some t"
    using lookup_keep_Some [OF assms(1)] assms(2) by simp
  with assms(3) storeCall_can_audit [OF call] have "fst (prepareCommitLocked c s) = Inl ErrConflict"
    by (simp add: prepareCommitLocked_def Let_def)
  with storeCall_consumed(1) [OF call] show False by simp
qed

text \<open>
  C4: a ceremony is good for one commit. Once a call has committed with a ceremony, no call of any method
  commits with the same ceremony again until it expires, whatever runs in between and whether or not
  those calls succeed; after its expiry the manager refuses it by its own clock.
\<close>

theorem ceremony_single_use:
  assumes "storeCall sha c s Committed s1" and "cmt_Ceremony c = Some x"
    and "storeRun sha (\<lambda>d. aud_OccurredAt (cmt_Audit d) \<le> cer_ExpiresAt x) s1 s2"
    and "cmt_Ceremony c' = Some y" and "cer_ID y = cer_ID x" and "aud_OccurredAt (cmt_Audit c') \<le> cer_ExpiresAt x"
  shows "\<not> storeCall sha c' s2 Committed s3"
proof -
  have "lookup (st_ceremonies s2) (cer_ID x) = Some (cer_ExpiresAt x)"
    by (rule storeRun_keeps_ceremony [OF assms(3) consumed_ceremony_stored [OF assms(1,2)]])
  with assms(4-6) show ?thesis using used_ceremony_refused by metis
qed

theorem ceremony_single_use_witness:
  "\<exists>s1. storeCall nullHash ((sampleCommit 9)\<lparr>cmt_Ceremony := Some \<lparr>cer_ID = 4, cer_ExpiresAt = 2000\<rparr>\<rparr>) sampleStore Committed s1
    \<and> (\<forall>s3. \<not> storeCall nullHash ((sampleCommit 10)\<lparr>cmt_Ceremony := Some \<lparr>cer_ID = 4, cer_ExpiresAt = 2000\<rparr>\<rparr>) s1 Committed s3)"
proof -
  let ?x = "\<lparr>cer_ID = 4, cer_ExpiresAt = 2000\<rparr>"
  let ?c = "\<lambda>i. (sampleCommit i)\<lparr>cmt_Ceremony := Some ?x\<rparr>"
  obtain s1 where run: "AppendAudit nullHash None (?c 9) sampleStore = (Inr (), s1)"
    by (simp add: AppendAudit_def commit_eval sample_defs)
  have call: "storeCall nullHash (?c 9) sampleStore Committed s1"
    using call_atomic [OF call_append_audit [OF run]] by (simp add: outcomeOf_def)
  have "storeRun nullHash (\<lambda>d. aud_OccurredAt (cmt_Audit d) \<le> cer_ExpiresAt ?x) s1 s1" by (simp add: storeRun_def)
  from ceremony_single_use [OF call _ this, of "?c 10" ?x]
  have "\<not> storeCall nullHash (?c 10) s1 Committed s3" for s3 by (simp add: sampleCommit_def sampleEvent_def)
  with call show ?thesis by blast
qed

section \<open>Revocation\<close>

lemma storeStep_permanent: "storeStep sha ok s s' \<Longrightarrow> permanent s s'"
proof (induction rule: storeStep.induct)
  case (issuance ce a p t n s r s')
  with issuance_frame [OF issuance] show ?case by (auto simp: permanent_def)
next
  case (failure s e)
  then show ?case by (simp add: SetAuditFailure_def permanent_def)
qed (rule storeCall_permanent)

lemma storeRun_permanent: "storeRun sha ok s s' \<Longrightarrow> permanent s s'"
proof (induction rule: storeRun_induct)
  case (step x y)
  then show ?case using storeStep_permanent permanent_trans by blast
qed (rule permanent_refl)

lemma permanent_session:
  assumes "permanent s s'" and "lookup (st_sessions s) i = Some x" and "ses_UserID x = u" and "ses_RevokedAt x \<noteq> None"
  shows "\<exists>y. lookup (st_sessions s') i = Some y \<and> ses_UserID y = u \<and> ses_RevokedAt y \<noteq> None"
proof -
  from assms(1) have "stays (\<lambda>x. ses_UserID x = u \<and> ses_RevokedAt x \<noteq> None) (st_sessions s) (st_sessions s')"
    by (simp add: permanent_def)
  from staysD [OF this assms(2)] assms(3,4) show ?thesis by simp
qed

lemma permanent_pat:
  assumes "permanent s s'" and "lookup (st_pats s) i = Some x" and "pat_UserID x = u" and "pat_RevokedAt x \<noteq> None"
  shows "\<exists>y. lookup (st_pats s') i = Some y \<and> pat_UserID y = u \<and> pat_RevokedAt y \<noteq> None"
proof -
  from assms(1) have "stays (\<lambda>x. pat_UserID x = u \<and> pat_RevokedAt x \<noteq> None) (st_pats s) (st_pats s')"
    by (simp add: permanent_def)
  from staysD [OF this assms(2)] assms(3,4) show ?thesis by simp
qed

text \<open>
  C5: what is over stays over. Along every run, a user record never disappears, a revoked session or personal
  access token stays revoked and its owner's, a revoked OAuth grant or initial access token stays revoked,
  a used authorization code and a used email authentication stay used, and an invitation that was accepted or
  revoked is never pending again. The prefix of a revoked access token, client token, SCIM credential or
  refresh token, and that of a used refresh token, never belongs to a live one again: the store refuses a
  taken prefix, even where it would overwrite a record under its identifier.
\<close>

theorem revocation_permanent:
  assumes "storeRun sha ok s s'"
  shows "permanent s s'"
  using storeRun_permanent [OF assms] .

theorem revocation_permanent_witness:
  "\<exists>s'. storeRun nullHash (\<lambda>_. True) sampleStore s' \<and> permanent sampleStore s'
    \<and> (\<exists>x. lookup (st_sessions s') 6 = Some x \<and> ses_UserID x = 1 \<and> ses_RevokedAt x \<noteq> None)"
proof -
  obtain s' where run: "RevokeUserSessions nullHash None 2 20 (sampleCommit 9) sampleStore = (Inr (), s')"
    by (simp add: RevokeUserSessions_def require_def commit_eval sample_defs)
  have "storeStep nullHash (\<lambda>_. True) sampleStore s'"
    by (rule mutation [OF TrueI call_atomic [OF call_revoke_user_sessions [OF run]]])
  then have r: "storeRun nullHash (\<lambda>_. True) sampleStore s'" by (simp add: storeRun_def)
  note p = revocation_permanent [OF r]
  moreover have "lookup (st_sessions sampleStore) 6 = Some (sampleSession 6 1 (Some 3))" by (simp add: sampleStore_def)
  ultimately have "\<exists>x. lookup (st_sessions s') 6 = Some x \<and> ses_UserID x = 1 \<and> ses_RevokedAt x \<noteq> None"
    by (rule permanent_session) (simp_all add: sampleSession_def)
  with r p show ?thesis by blast
qed

text \<open>No session, personal access token, OAuth grant or OAuth token of a user is live.\<close>

definition noLiveCredential :: "uuid \<Rightarrow> store \<Rightarrow> bool" where
  "noLiveCredential u s \<longleftrightarrow>
     (\<forall>i x. lookup (st_sessions s) i = Some x \<longrightarrow> ses_UserID x = u \<longrightarrow> ses_RevokedAt x \<noteq> None)
   \<and> (\<forall>i x. lookup (st_pats s) i = Some x \<longrightarrow> pat_UserID x = u \<longrightarrow> pat_RevokedAt x \<noteq> None)
   \<and> (\<forall>i x. lookup (st_oauthGrants s) i = Some x \<longrightarrow> ogr_UserID x = u \<longrightarrow> ogr_RevokedAt x \<noteq> None)
   \<and> (\<forall>i x. lookup (st_oauthAccessTokens s) i = Some x \<longrightarrow> oat_UserID x = u \<longrightarrow> oat_RevokedAt x \<noteq> None)
   \<and> (\<forall>i x. lookup (st_oauthRefreshTokens s) i = Some x \<longrightarrow> ort_UserID x = u \<longrightarrow> ort_RevokedAt x \<noteq> None)"

lemma mapv_all: "lookup (mapv f d) i = Some x \<Longrightarrow> (\<And>v. Q (f i v)) \<Longrightarrow> Q x"
  by auto

lemma revoked_noLive: "noLiveCredential u (revokeUserSessionsLocked u t (revokeUserCredentialsLocked u 0 t' s))"
proof -
  let ?s = "revokeUserSessionsLocked u t (revokeUserCredentialsLocked u 0 t' s)"
  note defs = revokeUserSessionsLocked_def revokeUserCredentialsLocked_def
  have "ses_UserID x = u \<longrightarrow> ses_RevokedAt x \<noteq> None" if "lookup (st_sessions ?s) i = Some x" for i x
    using that by (simp add: defs del: lookup_mapv not_None_eq) (erule mapv_all, simp)
  moreover have "pat_UserID x = u \<longrightarrow> pat_RevokedAt x \<noteq> None" if "lookup (st_pats ?s) i = Some x" for i x
    using that by (simp add: defs del: lookup_mapv not_None_eq) (erule mapv_all, simp)
  moreover have "ogr_UserID x = u \<longrightarrow> ogr_RevokedAt x \<noteq> None" if "lookup (st_oauthGrants ?s) i = Some x" for i x
    using that by (simp add: defs del: lookup_mapv not_None_eq) (erule mapv_all, simp)
  moreover have "oat_UserID x = u \<longrightarrow> oat_RevokedAt x \<noteq> None" if "lookup (st_oauthAccessTokens ?s) i = Some x" for i x
    using that by (simp add: defs del: lookup_mapv not_None_eq) (erule mapv_all, simp)
  moreover have "ort_UserID x = u \<longrightarrow> ort_RevokedAt x \<noteq> None" if "lookup (st_oauthRefreshTokens ?s) i = Some x" for i x
    using that by (simp add: defs del: lookup_mapv not_None_eq) (erule mapv_all, simp)
  ultimately show ?thesis unfolding noLiveCredential_def by blast
qed

lemma noLive_commitAudit [simp]: "noLiveCredential u (commitAudit sha e b s) = noLiveCredential u s"
  by (simp add: noLiveCredential_def)

lemma noLive_clearThrottle [simp]: "noLiveCredential u (clearThrottle v s) = noLiveCredential u s"
  by (simp add: noLiveCredential_def clearThrottle_def)

text \<open>The calls that end everything a user can act with.\<close>

inductive endsAccess :: "hashFn \<Rightarrow> uuid \<Rightarrow> store \<Rightarrow> store \<Rightarrow> bool" for sha u s s' where
  by_disabling: "SetUserDisabled sha ce u True t c s = (Inr r, s') \<Longrightarrow> endsAccess sha u s s'"
| by_reset: "storeCompletePasswordReset sha ce i p t c s = (Inr r, s') \<Longrightarrow> pwc_UserID p = u \<Longrightarrow> endsAccess sha u s s'"
| by_anonymizing: "storeAnonymizeUser sha ce u t c s = (Inr r, s') \<Longrightarrow> endsAccess sha u s s'"

lemma writes_effect:
  assumes "mutate sha ce guard (writes f) c s = (Inr r, s')"
  obtains x k where "guard s = Inr x" and "s' = commitAudit sha (cmt_Audit c) (cmt_Unchained c) (f x (s\<lparr>st_ceremonies := k\<rparr>))"
  using writes_success [OF assms] by blast

lemma endsAccess_noLive:
  assumes "endsAccess sha u s s'"
  shows "noLiveCredential u s'"
  using assms
proof (cases rule: endsAccess.cases)
  case (by_disabling ce t c r)
  then show ?thesis unfolding SetUserDisabled_def by (elim writes_effect) (simp add: revoked_noLive Let_def)
next
  case (by_reset ce i p t c r)
  from by_reset(1) show ?thesis unfolding storeCompletePasswordReset_def
    by (elim writes_effect) (simp add: revoked_noLive by_reset(2))
next
  case (by_anonymizing ce t c r)
  then show ?thesis unfolding storeAnonymizeUser_def
    by (elim writes_effect) (simp add: revoked_noLive anonymizeEffect_def Let_def split: prod.split)
qed



end
