(* ===== verification/MemIndex.thy ===== *)
theory MemIndex
  imports MemRevocation
begin

text \<open>
  The secondary indexes of the in-memory store. Every personal access token, SCIM credential, OAuth issuer,
  resource, initial access token, code, access token, client token and refresh token is found through its
  index, in every store a run from the empty one reaches. The index of OAuth clients is not among them: a
  rejected transaction loses it.
\<close>

definition prefixesIndexed :: "store \<Rightarrow> bool" where
  "prefixesIndexed s \<longleftrightarrow>
     indexed pat_Prefix (st_patPrefixes s) (st_pats s)
   \<and> indexed scrd_Prefix (st_scimCredentialKeys s) (st_scimCredentials s)
   \<and> indexed ois_Issuer (st_oauthIssuerURLs s) (st_oauthIssuers s)
   \<and> indexed ors_Resource (st_oauthResourceURIs s) (st_oauthResources s)
   \<and> indexed oit_Prefix (st_oauthInitialKeys s) (st_oauthInitialTokens s)
   \<and> indexed oco_Prefix (st_oauthCodeKeys s) (st_oauthCodes s)
   \<and> indexed oat_Prefix (st_oauthAccessKeys s) (st_oauthAccessTokens s)
   \<and> indexed oct_Prefix (st_oauthClientTokenKeys s) (st_oauthClientTokens s)
   \<and> indexed ort_Prefix (st_oauthRefreshKeys s) (st_oauthRefreshTokens s)"

lemma prefixesIndexed_New: "prefixesIndexed New"
  by (simp add: prefixesIndexed_def indexed_def New_def)

lemma commitAudit_indexes [simp]:
  "st_oauthIssuerURLs (commitAudit sha e u s) = st_oauthIssuerURLs s" "st_oauthResourceURIs (commitAudit sha e u s) = st_oauthResourceURIs s"
  "st_oauthResources (commitAudit sha e u s) = st_oauthResources s" "st_oauthInitialKeys (commitAudit sha e u s) = st_oauthInitialKeys s"
  "st_oauthCodeKeys (commitAudit sha e u s) = st_oauthCodeKeys s"
  by (simp_all add: commitAudit_def Let_def)

lemma mutate_indexed:
  assumes "mutate sha ce guard effect c s = (r, s')" and "silent effect"
    and "\<And>x k. guard s = Inr x \<Longrightarrow> prefixesIndexed s \<Longrightarrow> prefixesIndexed (snd (effect x (s\<lparr>st_ceremonies := k\<rparr>)))"
  shows "prefixesIndexed s \<longrightarrow> prefixesIndexed s'"
  by (rule mutate_relates [OF assms(1,2)]) (use assms(3) in \<open>simp_all add: prefixesIndexed_def\<close>)

lemma writes_indexed:
  assumes "mutate sha ce guard (writes f) c s = (r, s')" and "\<And>x s. auditSame (f x s) s"
    and "\<And>x k. guard s = Inr x \<Longrightarrow> prefixesIndexed s \<Longrightarrow> prefixesIndexed (f x (s\<lparr>st_ceremonies := k\<rparr>))"
  shows "prefixesIndexed s \<longrightarrow> prefixesIndexed s'"
  by (rule mutate_indexed [OF assms(1)]) (use assms(2,3) in \<open>simp_all add: silent_def writes_def\<close>)

section \<open>The methods that are not plain writes\<close>

lemma indexed_foldl: "(\<And>s x. prefixesIndexed s \<Longrightarrow> prefixesIndexed (f s x)) \<Longrightarrow> prefixesIndexed s \<Longrightarrow> prefixesIndexed (foldl f s xs)"
  by (induction xs arbitrary: s) simp_all

lemma indexed_revoke: "prefixesIndexed s \<Longrightarrow> prefixesIndexed (revokeUserCredentialsLocked u w t s)"
  by (simp add: prefixesIndexed_def revokeUserCredentialsLocked_def indexed_mapv)

lemma indexed_revokeOAuthGrantLocked: "prefixesIndexed s \<Longrightarrow> prefixesIndexed (revokeOAuthGrantLocked i t s)"
  by (simp add: prefixesIndexed_def revokeOAuthGrantLocked_def indexed_mapv split: option.split)

lemma indexed_revokeGrantsWhere: "prefixesIndexed s \<Longrightarrow> prefixesIndexed (revokeGrantsWhere P t s)"
  unfolding revokeGrantsWhere_def
  by (erule indexed_foldl [rotated]) (simp add: indexed_revokeOAuthGrantLocked split: prod.split)

lemma indexed_putMember [simp]: "prefixesIndexed (putMember w u m s) \<longleftrightarrow> prefixesIndexed s"
  by (simp add: prefixesIndexed_def putMember_def)

lemma indexed_setMembers: "prefixesIndexed s \<Longrightarrow> prefixesIndexed (snd (setMembers ms s))"
  by (induction ms arbitrary: s) simp_all

lemma indexed_upsertMembers: "prefixesIndexed s \<Longrightarrow> prefixesIndexed (upsertMembers ms s)"
  by (induction ms arbitrary: s) simp_all

lemma indexed_anonymizeEmails:
  "foldl (anonymizeEmail u t) (x, s) es = (y, s') \<Longrightarrow> prefixesIndexed s \<Longrightarrow> prefixesIndexed s'"
proof (induction es arbitrary: x s)
  case (Cons e es)
  obtain x1 s1 where 1: "anonymizeEmail u t (x, s) e = (x1, s1)" by (cases "anonymizeEmail u t (x, s) e")
  with Cons.prems(2) have "prefixesIndexed s1"
    by (auto simp: anonymizeEmail_def Let_def prefixesIndexed_def split: prod.splits if_splits)
  with Cons 1 show ?case by simp
qed simp

lemma indexed_anonymizeEffect:
  assumes "prefixesIndexed s"
  shows "prefixesIndexed (anonymizeEffect u t x s)"
proof -
  obtain x1 s1 where 1: "foldl (anonymizeEmail u t) (x\<lparr>usr_DisplayName := [], usr_Disabled := True, usr_UpdatedAt := t\<rparr>, s)
      (st_emailAddresses s) = (x1, s1)" (is "?f = _") by (cases ?f)
  have ok: "prefixesIndexed s1" by (rule indexed_anonymizeEmails [OF 1 assms])
  have link: "prefixesIndexed a \<Longrightarrow> prefixesIndexed (anonymizeLink u t a l)" for a l
    by (simp add: anonymizeLink_def putSCIMUserLocked_def deleteSCIMUserIndexesLocked_def prefixesIndexed_def split: prod.splits)
  have links: "prefixesIndexed a \<Longrightarrow> prefixesIndexed (foldl (anonymizeLink u t) a ls)" for a ls
    by (rule indexed_foldl) (auto intro: link)
  have sessions: "prefixesIndexed (revokeUserSessionsLocked u t a) \<longleftrightarrow> prefixesIndexed a" for a
    by (simp add: revokeUserSessionsLocked_def prefixesIndexed_def)
  have tail: "prefixesIndexed (a\<lparr>st_invitations := i, st_totp := p, st_recovery := q, st_passkeys := z\<rparr>) \<longleftrightarrow> prefixesIndexed a" for a i p q z
    by (simp add: prefixesIndexed_def)
  show ?thesis
    unfolding anonymizeEffect_def 1 Let_def prod.case sessions
    by (rule indexed_revoke, subst tail, rule links) (use ok in \<open>simp add: prefixesIndexed_def indexed_mapv\<close>)
qed

lemma checked_indexed:
  assumes "mutatePanic sha ce guard effect c s = (r, s')" and "r \<noteq> Inl RuntimePanic"
    and "\<And>x s. auditSame (snd (effect x s)) s"
    and "\<And>x k. prefixesIndexed s \<Longrightarrow> prefixesIndexed (snd (effect x (s\<lparr>st_ceremonies := k\<rparr>)))"
  shows "prefixesIndexed s \<longrightarrow> prefixesIndexed s'"
  using mutatePanic_checked [OF assms(1,2)] assms(3,4) unfolding checked_def by (rule writes_indexed)

lemma indexed_factors:
  "RecordLoginFailure sha ce u t n l c s = (r, s') \<Longrightarrow> prefixesIndexed s \<longrightarrow> prefixesIndexed s'"
  "UseTOTP sha ce u n c s = (q, s') \<Longrightarrow> prefixesIndexed s \<longrightarrow> prefixesIndexed s'"
  "ConsumeRecoveryCode sha ce u d t c s = (q, s') \<Longrightarrow> prefixesIndexed s \<longrightarrow> prefixesIndexed s'"
proof -
  have 1: "useTOTPFresh sha ce u n c s = (q, s') \<Longrightarrow> prefixesIndexed s \<longrightarrow> prefixesIndexed s'"
    unfolding useTOTPFresh_def
    by (erule mutate_indexed) (simp_all add: silent_def prefixesIndexed_def effect_defs)
  have 2: "consumeRecoveryFound sha ce u d t c s = (q, s') \<Longrightarrow> prefixesIndexed s \<longrightarrow> prefixesIndexed s'"
    unfolding consumeRecoveryFound_def
    by (erule mutate_indexed) (simp_all add: silent_def prefixesIndexed_def effect_defs)
  show "RecordLoginFailure sha ce u t n l c s = (r, s') \<Longrightarrow> prefixesIndexed s \<longrightarrow> prefixesIndexed s'"
    unfolding RecordLoginFailure_def
    by (erule mutate_indexed) (simp_all add: silent_def prefixesIndexed_def effect_defs)
  show "UseTOTP sha ce u n c s = (q, s') \<Longrightarrow> prefixesIndexed s \<longrightarrow> prefixesIndexed s'"
    using 1 by (auto simp: UseTOTP_def split: if_splits)
  show "ConsumeRecoveryCode sha ce u d t c s = (q, s') \<Longrightarrow> prefixesIndexed s \<longrightarrow> prefixesIndexed s'"
    using 2 by (auto simp: ConsumeRecoveryCode_def split: if_splits)
qed

lemma indexed_ceremonies [simp]: "prefixesIndexed (s\<lparr>st_ceremonies := k\<rparr>) = prefixesIndexed s"
  by (simp add: prefixesIndexed_def)

lemma indexed_users:
  "storeSetWorkspaceDisabled sha ce w b t c s = (r, s') \<Longrightarrow> prefixesIndexed s \<longrightarrow> prefixesIndexed s'"
  "storeAnonymizeUser sha ce u t c s = (r, s') \<Longrightarrow> prefixesIndexed s \<longrightarrow> prefixesIndexed s'"
  "storeUpdateSCIMConfiguration sha ce x ms c s = (r, s') \<Longrightarrow> prefixesIndexed s \<longrightarrow> prefixesIndexed s'"
proof -
  have members: "prefixesIndexed a \<Longrightarrow> prefixesIndexed (if b then foldl (\<lambda>s (u, _). revokeUserCredentialsLocked u w t s) a ms else a)"
    for a and ms :: "(uuid \<times> membership) list"
    by (cases b) (auto intro!: indexed_foldl indexed_revoke)
  show "storeSetWorkspaceDisabled sha ce w b t c s = (r, s') \<Longrightarrow> prefixesIndexed s \<longrightarrow> prefixesIndexed s'"
    unfolding storeSetWorkspaceDisabled_def
    by (erule writes_indexed, rule setWorkspaceDisabled_silent, unfold Let_def, rule members) (simp add: prefixesIndexed_def)
  show "storeAnonymizeUser sha ce u t c s = (r, s') \<Longrightarrow> prefixesIndexed s \<longrightarrow> prefixesIndexed s'"
    unfolding storeAnonymizeUser_def
    by (erule writes_indexed, rule anonymizeEffect_silent, rule indexed_anonymizeEffect) simp
  show "storeUpdateSCIMConfiguration sha ce x ms c s = (r, s') \<Longrightarrow> prefixesIndexed s \<longrightarrow> prefixesIndexed s'"
    unfolding storeUpdateSCIMConfiguration_def
    by (erule writes_indexed, rule auditSame_trans [OF upsertMembers_silent], simp add: effect_defs,
      rule indexed_upsertMembers) (simp add: prefixesIndexed_def)
qed

lemma indexed_scim:
  "storeUpdateSCIMUser sha ce x m b c s = (r, s') \<Longrightarrow> r \<noteq> Inl RuntimePanic \<Longrightarrow> prefixesIndexed s \<longrightarrow> prefixesIndexed s'"
  "UpsertSCIMGroup sha ce y ms c s = (r, s') \<Longrightarrow> r \<noteq> Inl RuntimePanic \<Longrightarrow> prefixesIndexed s \<longrightarrow> prefixesIndexed s'"
  "storeDeleteSCIMGroup sha ce y ms c s = (r, s') \<Longrightarrow> r \<noteq> Inl RuntimePanic \<Longrightarrow> prefixesIndexed s \<longrightarrow> prefixesIndexed s'"
  unfolding storeUpdateSCIMUser_def UpsertSCIMGroup_def storeDeleteSCIMGroup_def
proof (erule (1) checked_indexed [OF _ _ update_scim_user_silent])
  fix y k
  assume "prefixesIndexed s"
  then have "prefixesIndexed (putSCIMUserLocked x (deleteSCIMUserIndexesLocked y (s\<lparr>st_ceremonies := k\<rparr>)))"
    by (simp add: prefixesIndexed_def effect_defs)
  then have "prefixesIndexed (snd (setMembers [m] (putSCIMUserLocked x (deleteSCIMUserIndexesLocked y (s\<lparr>st_ceremonies := k\<rparr>)))))"
    by (rule indexed_setMembers)
  then show "prefixesIndexed (snd (updateSCIMUserEffect x m b y (s\<lparr>st_ceremonies := k\<rparr>)))"
    unfolding updateSCIMUserEffect_def by (auto split: prod.split simp: prefixesIndexed_def intro: indexed_mapv)
next
  show "mutatePanic sha ce (upsertSCIMGroupGuard y) (upsertSCIMGroupEffect y ms) c s = (r, s') \<Longrightarrow> r \<noteq> Inl RuntimePanic
    \<Longrightarrow> prefixesIndexed s \<longrightarrow> prefixesIndexed s'"
    by (erule (1) checked_indexed [OF _ _ upsert_scim_group_silent], unfold upsertSCIMGroupEffect_def Let_def,
      rule indexed_setMembers) (simp add: prefixesIndexed_def effect_defs split: option.split)
  show "mutatePanic sha ce (deleteSCIMGroupGuard y) (deleteSCIMGroupEffect y ms) c s = (r, s') \<Longrightarrow> r \<noteq> Inl RuntimePanic
    \<Longrightarrow> prefixesIndexed s \<longrightarrow> prefixesIndexed s'"
    by (erule (1) checked_indexed [OF _ _ delete_scim_group_silent], unfold deleteSCIMGroupEffect_def,
      rule indexed_setMembers) (simp add: prefixesIndexed_def effect_defs)
qed

lemma indexed_disabling:
  "storeSetOAuthIssuerDisabled sha ce i b t c s = (r, s') \<Longrightarrow> prefixesIndexed s \<longrightarrow> prefixesIndexed s'"
  "storeSetOAuthProtectedResourceDisabled sha ce i b t c s = (r, s') \<Longrightarrow> prefixesIndexed s \<longrightarrow> prefixesIndexed s'"
  "storeSetOAuthClientDisabled sha ce i b t c s = (r, s') \<Longrightarrow> prefixesIndexed s \<longrightarrow> prefixesIndexed s'"
  "storeRevokeOAuthGrant sha ce i t c s = (r, s') \<Longrightarrow> prefixesIndexed s \<longrightarrow> prefixesIndexed s'"
proof -
  have rev: "prefixesIndexed a \<Longrightarrow> prefixesIndexed (if b then revokeGrantsWhere P t a else a)" for a P
    by (simp add: indexed_revokeGrantsWhere)
  show "storeSetOAuthIssuerDisabled sha ce i b t c s = (r, s') \<Longrightarrow> prefixesIndexed s \<longrightarrow> prefixesIndexed s'"
    unfolding storeSetOAuthIssuerDisabled_def Let_def
    by (erule writes_indexed, simp add: effect_defs revoke_frames, rule rev)
      (auto simp: prefixesIndexed_def intro: indexed_old split: option.splits)
  show "storeSetOAuthProtectedResourceDisabled sha ce i b t c s = (r, s') \<Longrightarrow> prefixesIndexed s \<longrightarrow> prefixesIndexed s'"
    unfolding storeSetOAuthProtectedResourceDisabled_def Let_def
    by (erule writes_indexed, simp add: effect_defs revoke_frames, rule rev)
      (auto simp: prefixesIndexed_def intro: indexed_old split: option.splits)
  show "storeSetOAuthClientDisabled sha ce i b t c s = (r, s') \<Longrightarrow> prefixesIndexed s \<longrightarrow> prefixesIndexed s'"
    unfolding storeSetOAuthClientDisabled_def Let_def
    by (erule writes_indexed, simp add: effect_defs revoke_frames, rule rev) (simp add: prefixesIndexed_def)
  show "storeRevokeOAuthGrant sha ce i t c s = (r, s') \<Longrightarrow> prefixesIndexed s \<longrightarrow> prefixesIndexed s'"
    unfolding storeRevokeOAuthGrant_def
    by (erule writes_indexed, rule revokeOAuthGrantLocked_silent, rule indexed_revokeOAuthGrantLocked) simp
qed

lemma indexed_putAccessToken:
  "prefixesIndexed s \<Longrightarrow> lookup (st_oauthAccessKeys s) (oat_Prefix x) = None \<Longrightarrow> prefixesIndexed (putAccessToken x s)"
  by (simp add: prefixesIndexed_def putAccessToken_def indexed_new)

lemma indexed_putRefreshToken:
  "prefixesIndexed s \<Longrightarrow> lookup (st_oauthRefreshKeys s) (ort_Prefix x) = None \<Longrightarrow> prefixesIndexed (putRefreshToken x s)"
  by (simp add: prefixesIndexed_def putRefreshToken_def indexed_new)

lemma consume_guardD:
  assumes "consumeOAuthAuthorizationCodeGuard i t a f s = Inr code"
  shows "lookup (st_oauthCodes s) i = Some code" and "oco_UsedAt code = None" and "t < oco_ExpiresAt code"
    and "lookup (st_oauthAccessKeys s) (oat_Prefix a) = None" and "f = Some y \<Longrightarrow> lookup (st_oauthRefreshKeys s) (ort_Prefix y) = None"
  using assms by (auto simp: consumeOAuthAuthorizationCodeGuard_def require_def split: option.splits if_splits)

lemma rotate_guardD:
  assumes "rotateOAuthRefreshTokenGuard i t a f s = Inr x"
  shows "lookup (st_oauthRefreshTokens s) i = Some x" and "ort_UsedAt x = None" and "ort_RevokedAt x = None" and "t < ort_ExpiresAt x"
    and "ort_FamilyID f = ort_FamilyID x" and "ort_GrantID f = ort_GrantID x"
    and "lookup (st_oauthAccessKeys s) (oat_Prefix a) = None" and "lookup (st_oauthRefreshKeys s) (ort_Prefix f) = None"
  using assms by (auto simp: rotateOAuthRefreshTokenGuard_def require_def split: option.splits if_splits)

lemma indexed_tokens:
  "ConsumeOAuthAuthorizationCode sha ce i t a f c s = (r, s') \<Longrightarrow> prefixesIndexed s \<longrightarrow> prefixesIndexed s'"
  "RotateOAuthRefreshToken sha ce i t a g c s = (r, s') \<Longrightarrow> prefixesIndexed s \<longrightarrow> prefixesIndexed s'"
  unfolding ConsumeOAuthAuthorizationCode_def RotateOAuthRefreshToken_def Let_def
proof (erule writes_indexed)
  fix code k
  assume g: "consumeOAuthAuthorizationCodeGuard i t a f s = Inr code" and s: "prefixesIndexed s"
  let ?s = "s\<lparr>st_ceremonies := k\<rparr>"
  let ?s1 = "putAccessToken a (?s\<lparr>st_oauthCodes := put i (code\<lparr>oco_UsedAt := Some t\<rparr>) (st_oauthCodes ?s)\<rparr>)"
  have 1: "prefixesIndexed ?s1"
    by (rule indexed_putAccessToken) (use s consume_guardD(1,4) [OF g] in \<open>simp_all add: prefixesIndexed_def indexed_old\<close>)
  show "prefixesIndexed (case f of None \<Rightarrow> ?s1 | Some y \<Rightarrow> putRefreshToken y ?s1)"
  proof (cases f)
    case (Some y)
    have "lookup (st_oauthRefreshKeys ?s1) (ort_Prefix y) = None"
      using consume_guardD(5) [OF g Some] by (simp add: putAccessToken_def)
    from indexed_putRefreshToken [OF 1 this] Some show ?thesis by simp
  qed (use 1 in simp)
next
  show "auditSame (case f of None \<Rightarrow> putAccessToken a (s\<lparr>st_oauthCodes := put i (x\<lparr>oco_UsedAt := Some t\<rparr>) (st_oauthCodes s)\<rparr>)
      | Some y \<Rightarrow> putRefreshToken y (putAccessToken a (s\<lparr>st_oauthCodes := put i (x\<lparr>oco_UsedAt := Some t\<rparr>) (st_oauthCodes s)\<rparr>))) s" for x s
    by (simp add: effect_defs split: option.split)
  assume "mutate sha ce (rotateOAuthRefreshTokenGuard i t a g) (writes (\<lambda>x s. putRefreshToken g (putAccessToken a
    (s\<lparr>st_oauthRefreshTokens := put i (x\<lparr>ort_UsedAt := Some t, ort_ReplacedByID := ort_ID g\<rparr>) (st_oauthRefreshTokens s)\<rparr>)))) c s = (r, s')"
  then show "prefixesIndexed s \<longrightarrow> prefixesIndexed s'"
  proof (rule writes_indexed)
    fix x k
    assume g: "rotateOAuthRefreshTokenGuard i t a g s = Inr x" and s: "prefixesIndexed s"
    let ?s = "s\<lparr>st_ceremonies := k\<rparr>"
    let ?s1 = "?s\<lparr>st_oauthRefreshTokens := put i (x\<lparr>ort_UsedAt := Some t, ort_ReplacedByID := ort_ID g\<rparr>) (st_oauthRefreshTokens ?s)\<rparr>"
    have "prefixesIndexed ?s1" using s rotate_guardD(1) [OF g] by (simp add: prefixesIndexed_def indexed_old)
    then have "prefixesIndexed (putAccessToken a ?s1)" using rotate_guardD(7) [OF g] by (simp add: indexed_putAccessToken)
    then show "prefixesIndexed (putRefreshToken g (putAccessToken a ?s1))"
      by (rule indexed_putRefreshToken) (simp add: putAccessToken_def rotate_guardD(8) [OF g])
  qed (simp add: effect_defs)
qed

lemma indexed_create_client: "CreateOAuthClient sha ce x i t c s = (r, s') \<Longrightarrow> prefixesIndexed s \<longrightarrow> prefixesIndexed s'"
  unfolding CreateOAuthClient_def Let_def
  by (erule writes_indexed)
    (auto simp: prefixesIndexed_def createOAuthClientGuard_def require_def effect_defs split: option.splits if_splits
      intro: indexed_old)

section \<open>Every call and every run\<close>

lemmas indexed_special = indexed_factors indexed_users indexed_disabling indexed_tokens indexed_create_client

lemma atomicCall_indexed: "atomicCall sha c s out s' \<Longrightarrow> prefixesIndexed s \<longrightarrow> prefixesIndexed s'"
  apply (induction rule: atomicCall.induct)
  unfolding call_defs
  by ((erule indexed_special | erule (1) indexed_scim | (erule writes_indexed,
    (simp add: effect_defs split: option.split prod.split; fail),
    (auto simp: prefixesIndexed_def effect_defs
      intro: indexed_new indexed_old indexed_mapv split: option.splits if_splits prod.splits; fail)))+)

lemma storeCall_indexed: "storeCall sha c s out s' \<Longrightarrow> prefixesIndexed s \<longrightarrow> prefixesIndexed s'"
proof (induction rule: storeCall.induct)
  case (call_create_workspace_domain ce x t s r s')
  have "prefixesIndexed s \<longrightarrow> prefixesIndexed s'" if "insertDomain sha None x c s = (r, s')" for s
    using that unfolding insertDomain_def
    by (rule writes_indexed) (simp_all add: effect_defs prefixesIndexed_def)
  moreover have "prefixesIndexed (withoutHolder x s) = prefixesIndexed s"
    by (simp add: withoutHolder_def prefixesIndexed_def split: option.split)
  ultimately show ?case using CreateWorkspaceDomain_cases [OF call_create_workspace_domain] by blast
qed (rule atomicCall_indexed)

lemma storeStep_indexed: "storeStep sha ok s s' \<Longrightarrow> prefixesIndexed s \<longrightarrow> prefixesIndexed s'"
proof (induction rule: storeStep.induct)
  case (issuance ce a p t n s r s')
  with issuance_frame [OF issuance] show ?case by (auto simp: prefixesIndexed_def)
next
  case (failure s e)
  then show ?case by (simp add: SetAuditFailure_def prefixesIndexed_def)
qed (rule storeCall_indexed)

lemma storeRun_indexed: "storeRun sha ok s s' \<Longrightarrow> prefixesIndexed s \<Longrightarrow> prefixesIndexed s'"
  by (induction rule: storeRun_induct) (use storeStep_indexed in blast)+

lemma reachable_indexed: "reachableStore sha s \<Longrightarrow> prefixesIndexed s"
  unfolding reachableStore_def by (erule storeRun_indexed) (rule prefixesIndexed_New)

end
