(* ===== verification/Manager.thy ===== *)
theory Manager
  imports Roles Utf8 MemGuarantees MemIndex MemListing
begin

text \<open>
  The Manager's machinery (\<^verbatim>\<open>config.go\<close>, \<^verbatim>\<open>internal.go\<close>, \<^verbatim>\<open>events.go\<close> and the helpers of \<^verbatim>\<open>auth.go\<close>): its
  configuration and ports, the world its operations act on, identifiers, digests, audit events, and the
  commits through which every mutation reaches the store. The store is the in-memory one.

  What an operation cannot control is a function of how often it was asked: the clock, the random source,
  the salts of the password hash, the answers of the providers, the context's error, and, between two calls
  of the store, whatever other requests do to it (\<open>m_others\<close>). A theorem about an operation
  therefore holds for every clock, every randomness and every interleaving with other requests. Two loops of
  the code have no bound of their own, the draw of an unbiased code and the walk through the pages of a
  listing; \<open>m_fuel\<close> bounds them, and running out of it is the error \<open>OutOfFuel\<close>.

  Observation (\<^verbatim>\<open>observe\<close>) and the event listeners are write-only: an event handed to the listeners is
  recorded by its metadata, and the operations' own readings of the clock for durations are not counted. A
  transaction hook may answer anything; besides the audit event of its transaction it is given the
  operation's name and the metadata of the change, whose identifier tells changes apart.
\<close>

section \<open>Ports and configuration\<close>

type_synonym stepUpPolicy = string
type_synonym stepUpScope = string

definition StepUpPolicyRequired :: stepUpPolicy where "StepUpPolicyRequired = ''required''"
definition StepUpPolicyUserCapable :: stepUpPolicy where "StepUpPolicyUserCapable = ''user_capable''"
definition StepUpPolicyNone :: stepUpPolicy where "StepUpPolicyNone = ''none''"

definition StepUpScopePAT :: stepUpScope where "StepUpScopePAT = ''pat''"
definition StepUpScopeWorkspace :: stepUpScope where "StepUpScopeWorkspace = ''workspace''"
definition StepUpScopeAccount :: stepUpScope where "StepUpScopeAccount = ''account''"
definition StepUpScopeAdmin :: stepUpScope where "StepUpScopeAdmin = ''admin''"

lemmas step_up_names = StepUpPolicyRequired_def StepUpPolicyUserCapable_def StepUpPolicyNone_def
  StepUpScopePAT_def StepUpScopeWorkspace_def StepUpScopeAccount_def StepUpScopeAdmin_def

declare step_up_names [exec_simps]

record stepUpPolicies =
  sup_Default :: stepUpPolicy
  sup_PAT :: stepUpPolicy
  sup_Workspace :: stepUpPolicy
  sup_Account :: stepUpPolicy
  sup_Admin :: stepUpPolicy

definition resolve :: "stepUpPolicies \<Rightarrow> stepUpPolicies" where
  "resolve p = (let dflt = (if sup_Default p = [] then StepUpPolicyRequired else sup_Default p);
                    fill = (\<lambda>field. if field = [] then dflt else field)
     in \<lparr>sup_Default = dflt, sup_PAT = fill (sup_PAT p), sup_Workspace = fill (sup_Workspace p),
         sup_Account = fill (sup_Account p), sup_Admin = fill (sup_Admin p)\<rparr>)"

definition policyFor :: "stepUpPolicies \<Rightarrow> stepUpScope \<Rightarrow> stepUpPolicy" where
  "policyFor p scope =
    (if scope = StepUpScopePAT then sup_PAT p
     else if scope = StepUpScopeWorkspace then sup_Workspace p
     else if scope = StepUpScopeAccount then sup_Account p
     else if scope = StepUpScopeAdmin then sup_Admin p
     else StepUpPolicyRequired)"

text \<open>
  The providers a host plugs in. Where an answer may differ from call to call (a fresh secret, a network
  round trip) the first argument counts the calls.
\<close>

record totpProvider =
  tp_Generate :: "nat \<Rightarrow> string \<Rightarrow> (string \<times> string) result"
  tp_Validate :: "string \<Rightarrow> string \<Rightarrow> time \<Rightarrow> int \<times> bool"

record passkeyUser =
  pku_User :: user
  pku_Credentials :: "passkey result list"

text \<open>
  A discoverable assertion: the provider may resolve credential identifiers, any finite number of times,
  and answers in the end.
\<close>

datatype assertion =
    Asserted "(bytes \<times> bytes) result"
  | Resolve bytes "passkeyUser result \<Rightarrow> assertion"

record discoverableProvider =
  dp_BeginDiscoverableAuthentication :: "nat \<Rightarrow> (bytes \<times> bytes) result"
  dp_FinishDiscoverableAuthentication :: "nat \<Rightarrow> bytes \<Rightarrow> bytes \<Rightarrow> assertion"

record passkeyProvider =
  pp_BeginRegistration :: "nat \<Rightarrow> passkeyUser \<Rightarrow> (bytes \<times> bytes) result"
  pp_FinishRegistration :: "nat \<Rightarrow> passkeyUser \<Rightarrow> bytes \<Rightarrow> bytes \<Rightarrow> (bytes \<times> bytes) result"
  pp_BeginAuthentication :: "nat \<Rightarrow> passkeyUser \<Rightarrow> (bytes \<times> bytes) result"
  pp_BeginDecoyAuthentication :: "nat \<Rightarrow> bytes \<Rightarrow> (bytes \<times> bytes) result"
  pp_FinishAuthentication :: "nat \<Rightarrow> passkeyUser \<Rightarrow> bytes \<Rightarrow> bytes \<Rightarrow> (bytes \<times> bytes) result"
  pp_Discoverable :: "discoverableProvider option"

record ssoClaims =
  clm_Issuer :: string
  clm_Subject :: string
  clm_Email :: string
  clm_EmailVerified :: bool
  clm_ACR :: string
  clm_AMR :: "string list"

record ssoProvider =
  sp_Kind :: string
  sp_Begin :: "nat \<Rightarrow> bool \<Rightarrow> (string \<times> bytes) result"
  sp_Finish :: "nat \<Rightarrow> bytes \<Rightarrow> bytes \<Rightarrow> ssoClaims result"

record ssoAssurancePolicy =
  sap_AcceptedACR :: "string list"
  sap_RequiredAMR :: "string list"
  sap_TrustUnverified :: bool

record ceremonyContinuation =
  ccn_ID :: uuid
  ccn_UserID :: uuid
  ccn_Operation :: string
  ccn_Name :: string
  ccn_ExpiresAt :: time
  ccn_Session :: bytes

record ssoContinuation =
  scn_ID :: uuid
  scn_ProviderConfigurationID :: uuid
  scn_Operation :: string
  scn_UserID :: uuid
  scn_ExpiresAt :: time
  scn_Session :: bytes

text \<open>
  What the operations use of the standard library and of third-party packages and this development does
  not define: address and IP syntax, the IDNA and public-suffix tables, AES-GCM, and the JSON codec.
\<close>

record library =
  lib_ParseAddress :: "string \<Rightarrow> string option"
  lib_ParseIP :: "string \<Rightarrow> bool"
  lib_ToASCII :: "string \<Rightarrow> string option"
  lib_PublicSuffix :: "string \<Rightarrow> string"
  lib_GCMSeal :: "bytes \<Rightarrow> bytes \<Rightarrow> bytes \<Rightarrow> bytes"
  lib_GCMOpen :: "bytes \<Rightarrow> bytes \<Rightarrow> bytes \<Rightarrow> bytes option"
  lib_MarshalCeremony :: "ceremonyContinuation \<Rightarrow> bytes"
  lib_UnmarshalCeremony :: "bytes \<Rightarrow> ceremonyContinuation option"
  lib_MarshalSSO :: "ssoContinuation \<Rightarrow> bytes"
  lib_UnmarshalSSO :: "bytes \<Rightarrow> ssoContinuation option"
  lib_UnmarshalCursor :: unmarshalFn

type_synonym eventName = string

record eventMeta =
  evt_ID :: uuid
  evt_Name :: eventName
  evt_Operation :: string
  evt_OccurredAt :: time
  evt_ActorID :: uuid
  evt_WorkspaceID :: uuid
  evt_AuditID :: uuid

text \<open>A hook answers with an error, with none, or by panicking (\<open>RuntimePanic\<close>).\<close>

type_synonym transactionHook = "string \<Rightarrow> eventMeta \<Rightarrow> auditEvent \<Rightarrow> error option"

record manager =
  m_sha :: hashFn
  m_clock :: "nat \<Rightarrow> time"
  m_random :: "nat \<Rightarrow> byte option"
  m_others :: "nat \<Rightarrow> store \<Rightarrow> store"
  m_ctxErr :: "nat \<Rightarrow> error option"
  m_fuel :: nat
  m_request :: requestMetadata
  m_library :: library
  m_Hash :: "nat \<Rightarrow> string \<Rightarrow> string result"
  m_Verify :: "string \<Rightarrow> string \<Rightarrow> (bool \<times> bool) result"
  m_totp :: "totpProvider option"
  m_passkeys :: "passkeyProvider option"
  m_sealKey :: bytes
  m_digestKey :: bytes
  m_patPepper :: bytes
  m_patPrefix :: string
  m_recoveryPepper :: bytes
  m_readSealKeys :: "bytes list"
  m_readDigestKeys :: "bytes list"
  m_readPATPeppers :: "bytes list"
  m_readRecoveryPeppers :: "bytes list"
  m_stepUpMaxAge :: duration
  m_patTouchInterval :: duration
  m_stepUp :: stepUpPolicies
  m_ceremonyTTL :: duration
  m_minPasswordLen :: int
  m_passwordPolicy :: "(string \<Rightarrow> error option) option"
  m_maxFailedLogins :: int
  m_lockoutDuration :: duration
  m_adminPermissions :: "(instanceRole, permission list) dict"
  m_workspaceRoles :: roleCatalog
  m_emailVerificationTTL :: duration
  m_passwordResetTTL :: duration
  m_emailAuthTTL :: duration
  m_invitationTTL :: duration
  m_domainClaimTTL :: duration
  m_sessionTTL :: duration
  m_sessionIdleTimeout :: duration
  m_sessionTouchInterval :: duration
  m_emailIssuanceCooldown :: duration
  m_ssoProviders :: "(uuid, ssoProvider) dict"
  m_ssoAssurance :: "(uuid, ssoAssurancePolicy) dict"
  m_hooks :: "transactionHook list"
  m_credentialStore :: bool
  m_privacyStore :: bool
  m_oauthStore :: bool
  m_scimStore :: bool
  m_signupStore :: bool
  m_signup :: "bool option"
  m_sessionStore :: bool
  m_emailThrottle :: bool
  m_domainStore :: bool
  m_domainVerifier :: "(nat \<Rightarrow> string \<Rightarrow> string \<Rightarrow> error option) option"
  m_trustActorDomains :: bool
  m_dummyHash :: string

section \<open>The world of an operation\<close>

text \<open>
  The store, the state of the identifier generator, how often each source was asked, and the events
  handed to the listeners.
\<close>

record world =
  w_store :: store
  w_ticks :: nat
  w_drawn :: nat
  w_calls :: nat
  w_asked :: nat
  w_idUnixMilli :: int
  w_idSequence :: "16 word"
  w_events :: "eventMeta list"

type_synonym 'a op = "world \<Rightarrow> 'a result \<times> world"

text \<open>\<^verbatim>\<open>x, err := f()\<close> where the code goes on to look at the error, and a pure result.\<close>

definition tryE :: "'a op \<Rightarrow> 'a result op" where
  "tryE f w = (case f w of (r, w') \<Rightarrow> (Inr r, w'))"

definition liftR :: "'a result \<Rightarrow> 'a op" where
  "liftR r w = (r, w)"

definition failIf :: "bool \<Rightarrow> error \<Rightarrow> unit op" where
  "failIf b e = (if b then fail e else ret ())"

text \<open>A call of the store: the other requests come first, then the method under the context's error.\<close>

definition callStore :: "manager \<Rightarrow> (error option \<Rightarrow> store \<Rightarrow> 'a result \<times> store) \<Rightarrow> 'a op" where
  "callStore m f w = (case f (m_ctxErr m (w_calls w)) (m_others m (w_calls w) (w_store w)) of
     (r, s) \<Rightarrow> (r, w\<lparr>w_store := s, w_calls := w_calls w + 1\<rparr>))"

definition now :: "manager \<Rightarrow> time op" where
  "now m w = (Inr (m_clock m (w_ticks w)), w\<lparr>w_ticks := w_ticks w + 1\<rparr>)"

definition asking :: "(nat \<Rightarrow> 'a result) \<Rightarrow> 'a op" where
  "asking f w = (f (w_asked w), w\<lparr>w_asked := w_asked w + 1\<rparr>)"

definition randomBytes :: "manager \<Rightarrow> nat \<Rightarrow> bytes op" where
  "randomBytes m n w =
    (let drawn = map (m_random m) [w_drawn w ..< w_drawn w + n];
         w' = w\<lparr>w_drawn := w_drawn w + n\<rparr>
     in if None \<in> set drawn then (Inl (OtherError ''read secure randomness''), w') else (Inr (map the drawn), w'))"

section \<open>Identifiers\<close>

definition UnixMilli :: "time \<Rightarrow> int" where
  "UnixMilli t = t div 1000000"

definition nextID :: "int \<Rightarrow> world \<Rightarrow> world" where
  "nextID milli w =
    (if milli > w_idUnixMilli w then w\<lparr>w_idUnixMilli := milli, w_idSequence := 0\<rparr>
     else if w_idSequence w = 0x0fff then w\<lparr>w_idUnixMilli := w_idUnixMilli w + 1, w_idSequence := 0\<rparr>
     else w\<lparr>w_idSequence := w_idSequence w + 1\<rparr>)"

definition idBytes :: "64 word \<Rightarrow> 16 word \<Rightarrow> bytes \<Rightarrow> bytes" where
  "idBytes timestamp sequence b =
     map (\<lambda>index. ucast (drop_bit (8 * (5 - index)) timestamp)) [0..<6]
     @ [0x70 OR ucast (drop_bit 8 sequence), ucast sequence, (b ! 8 AND 0x3f) OR 0x80] @ drop 9 b"

definition newID :: "manager \<Rightarrow> uuid op" where
  "newID m = (bindE (now m) (\<lambda>t.
   bindE ((\<lambda>w. (Inr (), nextID (UnixMilli t) w))) (\<lambda>_.
   bindE (randomBytes m 16) (\<lambda>b.
   (\<lambda>w. (Inr (bytesUuid (idBytes (of_int (w_idUnixMilli w)) (w_idSequence w) b)), w))))))"

section \<open>Digests and sealed data\<close>

text \<open>HMAC (RFC 2104) over a hash with 64-byte blocks.\<close>

definition hmacKey :: "hashFn \<Rightarrow> bytes \<Rightarrow> bytes" where
  "hmacKey sha key = (let k = (if length key > 64 then sha key else key) in k @ replicate (64 - length k) 0)"

definition hmac :: "hashFn \<Rightarrow> bytes \<Rightarrow> bytes \<Rightarrow> bytes" where
  "hmac sha key message =
     sha (map (\<lambda>b. b XOR 0x5c) (hmacKey sha key) @ sha (map (\<lambda>b. b XOR 0x36) (hmacKey sha key) @ message))"

definition digest :: "hashFn \<Rightarrow> bytes \<Rightarrow> string \<Rightarrow> bytes" where
  "digest sha key value = hmac sha key (toBytes value)"

definition tokenDigest :: "manager \<Rightarrow> string \<Rightarrow> bytes" where
  "tokenDigest m value = digest (m_sha m) (m_digestKey m) value"

definition matchDigestRing :: "hashFn \<Rightarrow> bytes \<Rightarrow> bytes list \<Rightarrow> string \<Rightarrow> bool" where
  "matchDigestRing sha stored keys value = list_ex (\<lambda>key. stored = digest sha key value) keys"

definition matchTokenDigest :: "manager \<Rightarrow> bytes \<Rightarrow> string \<Rightarrow> bool" where
  "matchTokenDigest m stored value = matchDigestRing (m_sha m) stored (m_readDigestKeys m) value"

text \<open>
  AES-GCM with a 12-byte nonce in front. A key of any other length than 16, 24 or 32 bytes makes no
  cipher.
\<close>

definition newGCM :: "bytes \<Rightarrow> bytes result" where
  "newGCM key = (if length key \<in> {16, 24, 32} then Inr key else Inl (OtherError ''create cipher''))"

definition seal :: "manager \<Rightarrow> bytes \<Rightarrow> bytes op" where
  "seal m plaintext = (bindE (liftR (newGCM (m_sealKey m))) (\<lambda>gcm.
   bindE (randomBytes m 12) (\<lambda>nonce.
   ret (nonce @ lib_GCMSeal (m_library m) gcm nonce plaintext))))"

fun openRing :: "library \<Rightarrow> bytes list \<Rightarrow> bytes \<Rightarrow> bytes result" where
  "openRing lib [] ciphertext = Inl ErrInvalidCredentials"
| "openRing lib (key # keys) ciphertext = (case newGCM key of
     Inl e \<Rightarrow> Inl e
   | Inr gcm \<Rightarrow>
       if length ciphertext < 12 then Inl ErrInvalidCredentials
       else (case lib_GCMOpen lib gcm (take 12 ciphertext) (drop 12 ciphertext) of
           Some plaintext \<Rightarrow> Inr plaintext
         | None \<Rightarrow> openRing lib keys ciphertext))"

definition managerOpen :: "manager \<Rightarrow> bytes \<Rightarrow> bytes result" where
  "managerOpen m ciphertext = openRing (m_library m) (m_readSealKeys m) ciphertext"

section \<open>Events, hooks and commits\<close>

definition emit :: "eventMeta \<Rightarrow> unit op" where
  "emit meta w = (Inr (), w\<lparr>w_events := w_events w @ [meta]\<rparr>)"

definition zeroAudit :: auditEvent where
  "zeroAudit = \<lparr>aud_ID = 0, aud_OccurredAt = zeroTime, aud_ActorKind = ActorUnset, aud_ActorID = 0, aud_Action = [],
     aud_ResourceType = [], aud_ResourceID = [], aud_WorkspaceID = 0, aud_Outcome = AuditSucceeded, aud_Reason = [],
     aud_IPAddress = [], aud_UserAgent = [], aud_Sequence = 0, aud_PreviousHash = [], aud_Hash = []\<rparr>"

definition newEventMeta :: "manager \<Rightarrow> eventName \<Rightarrow> string \<Rightarrow> uuid \<Rightarrow> uuid \<Rightarrow> auditEvent \<Rightarrow> eventMeta op" where
  "newEventMeta m name operation actorID workspaceID audit = (bindE (newID m) (\<lambda>i.
   bindE (now m) (\<lambda>t.
   ret \<lparr>evt_ID = i, evt_Name = name, evt_Operation = operation, evt_OccurredAt = t, evt_ActorID = actorID,
          evt_WorkspaceID = workspaceID, evt_AuditID = aud_ID audit\<rparr>)))"

text \<open>The event is emitted unless its metadata cannot be made; the operation goes on either way.\<close>

definition emitNew :: "manager \<Rightarrow> eventName \<Rightarrow> string \<Rightarrow> uuid \<Rightarrow> uuid \<Rightarrow> auditEvent \<Rightarrow> unit op" where
  "emitNew m name operation actorID workspaceID audit = (bindE (tryE (newEventMeta m name operation actorID workspaceID audit)) (\<lambda>r.
   (case r of Inl _ \<Rightarrow> ret () | Inr meta \<Rightarrow> emit meta)))"

definition safeEventCall :: "error option \<Rightarrow> error option \<times> bool" where
  "safeEventCall answer = (if answer = Some RuntimePanic then (Some (OtherError ''callback panic''), True) else (answer, False))"

definition mapTransactionError :: "error \<Rightarrow> error" where
  "mapTransactionError err =
    (if list_ex (errorsIs err) [ErrInvalidCredentials, ErrUnauthorized, ErrForbidden, ErrStepUpRequired, ErrConflict,
          ErrNotFound, ErrInvalidInput, ErrExpired, ErrAuditUnavailable, ContextCanceled, ContextDeadlineExceeded]
     then err else ErrTransactionRejected)"

fun applyHooks :: "transactionHook list \<Rightarrow> string \<Rightarrow> eventMeta \<Rightarrow> auditEvent \<Rightarrow> error option" where
  "applyHooks [] operation change tx = None"
| "applyHooks (hook # hooks) operation change tx = (case fst (safeEventCall (hook operation change tx)) of
     Some err \<Rightarrow> Some (mapTransactionError err)
   | None \<Rightarrow> applyHooks hooks operation change tx)"

text \<open>Several changes of one transaction are offered to the hooks one after the other.\<close>

fun applyChanges :: "transactionHook list \<Rightarrow> (string \<times> eventMeta) list \<Rightarrow> auditEvent \<Rightarrow> error option" where
  "applyChanges hooks [] tx = None"
| "applyChanges hooks ((operation, change) # changes) tx = (case applyHooks hooks operation change tx of
     Some err \<Rightarrow> Some err
   | None \<Rightarrow> applyChanges hooks changes tx)"

definition auditOnly :: "auditEvent \<Rightarrow> commit" where
  "auditOnly event = \<lparr>cmt_Audit = event, cmt_Transactional = None, cmt_Ceremony = None, cmt_Unchained = False\<rparr>"

definition commitOf :: "manager \<Rightarrow> auditEvent \<Rightarrow> (string \<times> eventMeta) list \<Rightarrow> commit" where
  "commitOf m event changes = (auditOnly event)\<lparr>cmt_Transactional := Some (applyChanges (m_hooks m) changes)\<rparr>"

definition transactionalCommit :: "manager \<Rightarrow> auditEvent \<Rightarrow> string \<Rightarrow> eventMeta \<Rightarrow> commit" where
  "transactionalCommit m event operation change =
    (auditOnly event)\<lparr>cmt_Transactional := Some (applyHooks (m_hooks m) operation change)\<rparr>"

definition mapAuditError :: "error \<Rightarrow> error" where
  "mapAuditError err = (if errorsIs err ErrAuditUnavailable then ErrAuditUnavailable else err)"

definition emitAuditUnavailable :: "manager \<Rightarrow> string \<Rightarrow> unit op" where
  "emitAuditUnavailable m operation = emitNew m ''audit.unavailable'' operation 0 0 zeroAudit"

definition mapStoreError :: "manager \<Rightarrow> string \<Rightarrow> error \<Rightarrow> 'a op" where
  "mapStoreError m operation err = (let mapped = mapAuditError err in
     if errorsIs mapped ErrAuditUnavailable then (bindE (emitAuditUnavailable m operation) (\<lambda>_.
      fail mapped)) else fail mapped)"

text \<open>\<^verbatim>\<open>if err := store.Call(...); err != nil { return m.mapStoreError(ctx, operation, err) }\<close>\<close>

definition orMapped :: "manager \<Rightarrow> string \<Rightarrow> 'a op \<Rightarrow> 'a op" where
  "orMapped m operation f = (bindE (tryE f) (\<lambda>r.
   (case r of Inr x \<Rightarrow> ret x | Inl err \<Rightarrow> mapStoreError m operation err)))"

definition emitAuthenticationSucceeded :: "manager \<Rightarrow> string \<Rightarrow> auditEvent \<Rightarrow> authentication \<Rightarrow> unit op" where
  "emitAuthenticationSucceeded m operation audit authn =
     emitNew m ''authentication.succeeded'' operation (auth_UserID authn) (auth_WorkspaceID authn) audit"

definition emitAuthenticationFailed :: "manager \<Rightarrow> string \<Rightarrow> auditEvent \<Rightarrow> uuid \<Rightarrow> unit op" where
  "emitAuthenticationFailed m operation audit userID = emitNew m ''authentication.failed'' operation userID 0 audit"

section \<open>Audit events\<close>

definition sanitizeRequestMetadata :: "requestMetadata \<Rightarrow> requestMetadata" where
  "sanitizeRequestMetadata metadata =
    \<lparr>req_IPAddress = sanitizeAuditField (req_IPAddress metadata) maxAuditIPLength,
     req_UserAgent = sanitizeAuditField (req_UserAgent metadata) maxAuditUserAgentLength\<rparr>"

text \<open>\<^verbatim>\<open>WithRequestMetadata\<close> sanitizes what it puts into the context.\<close>

definition requestMetadataFromContext :: "manager \<Rightarrow> requestMetadata" where
  "requestMetadataFromContext m = sanitizeRequestMetadata (m_request m)"

definition newAudit :: "manager \<Rightarrow> uuid \<Rightarrow> string \<Rightarrow> string \<Rightarrow> string \<Rightarrow> uuid \<Rightarrow> auditOutcome \<Rightarrow> string \<Rightarrow> auditEvent op" where
  "newAudit m actor action resourceType resourceID workspaceID outcome reason = (bindE (newID m) (\<lambda>i.
   bindE (now m) (\<lambda>t.
   ret \<lparr>aud_ID = i, aud_OccurredAt = t - t mod 1000, aud_ActorKind = ActorUser, aud_ActorID = actor, aud_Action = action,
          aud_ResourceType = resourceType, aud_ResourceID = resourceID, aud_WorkspaceID = workspaceID,
          aud_Outcome = outcome, aud_Reason = reason,
          aud_IPAddress = req_IPAddress (requestMetadataFromContext m),
          aud_UserAgent = req_UserAgent (requestMetadataFromContext m),
          aud_Sequence = 0, aud_PreviousHash = [], aud_Hash = []\<rparr>)))"

definition recordAuthenticationAudit :: "manager \<Rightarrow> uuid \<Rightarrow> string \<Rightarrow> auditOutcome \<Rightarrow> string \<Rightarrow> auditEvent op" where
  "recordAuthenticationAudit m actor action outcome reason = (bindE (newAudit m actor action ''user'' (UUID_String actor) 0 outcome reason) (\<lambda>event.
   bindE (orMapped m action (if outcome = AuditSucceeded \<and> actor \<noteq> 0
       then (bindE (now m) (\<lambda>t.
        callStore m (\<lambda>ce. RecordAuthentication (m_sha m) ce actor t (auditOnly event))))
       else callStore m (\<lambda>ce. AppendAudit (m_sha m) ce (auditOnly event)))) (\<lambda>_.
   ret event)))"

definition appendAuthenticationAudit :: "manager \<Rightarrow> uuid \<Rightarrow> string \<Rightarrow> auditOutcome \<Rightarrow> string \<Rightarrow> unit op" where
  "appendAuthenticationAudit m actor action outcome reason = (bindE (recordAuthenticationAudit m actor action outcome reason) (\<lambda>_.
   ret ()))"

text \<open>The failure is audited, then answered with an error.\<close>

definition refuse :: "manager \<Rightarrow> uuid \<Rightarrow> string \<Rightarrow> string \<Rightarrow> error \<Rightarrow> 'a op" where
  "refuse m actor action reason err = (bindE (appendAuthenticationAudit m actor action AuditFailed reason) (\<lambda>_.
   fail err))"

definition recordAuthenticationFailure :: "manager \<Rightarrow> uuid \<Rightarrow> string \<Rightarrow> bool \<Rightarrow> auditEvent op" where
  "recordAuthenticationFailure m userID action countFailure =
    (if \<not> countFailure \<or> m_maxFailedLogins m \<le> 0
     then recordAuthenticationAudit m userID action AuditFailed ''invalid_credentials''
     else (bindE (newAudit m userID action ''user'' (UUID_String userID) 0 AuditFailed ''invalid_credentials'') (\<lambda>event.
      bindE (now m) (\<lambda>t.
      bindE (now m) (\<lambda>t'.
      bindE (orMapped m action (callStore m (\<lambda>ce. RecordLoginFailure (m_sha m) ce userID t (m_maxFailedLogins m)
          (t' + m_lockoutDuration m) (auditOnly event)))) (\<lambda>throttle.
      bindE ((if thr_LockedUntil throttle \<noteq> None \<and> thr_FailedAttempts throttle = m_maxFailedLogins m
        then emitNew m ''user.locked'' action userID 0 event else ret ())) (\<lambda>_.
      ret event)))))))"

definition requireUnlocked :: "manager \<Rightarrow> uuid \<Rightarrow> string \<Rightarrow> unit op" where
  "requireUnlocked m userID action =
    (if m_maxFailedLogins m \<le> 0 then ret ()
     else (bindE (tryE (callStore m (\<lambda>ce. LoginThrottleByUserID ce userID))) (\<lambda>r.
      (case r of
          Inl err \<Rightarrow> if errorsIs err ErrNotFound then ret () else fail err
        | Inr throttle \<Rightarrow>
           (case thr_LockedUntil throttle of
              None \<Rightarrow> ret ()
            | Some lockedUntil \<Rightarrow> (bindE (now m) (\<lambda>t.
             (if t < lockedUntil then refuse m userID action ''locked'' ErrLocked else ret ()))))))))"

section \<open>Input\<close>

definition normalizeEmail :: "string \<Rightarrow> string" where
  "normalizeEmail value = ToLower (TrimSpace value)"

definition validEmail :: "manager \<Rightarrow> string \<Rightarrow> string result" where
  "validEmail m value = (let normalized = normalizeEmail value in
     if lib_ParseAddress (m_library m) normalized \<noteq> Some normalized \<or> length normalized > 320
     then Inl (ValidationError ''email'' ''format'') else Inr normalized)"

definition validatePassword :: "manager \<Rightarrow> string \<Rightarrow> unit result" where
  "validatePassword m password = (let len = int (length (runes password)) in
     if len < m_minPasswordLen m then Inl (ValidationError ''password'' ''too_short'')
     else if len > 1024 then Inl (ValidationError ''password'' ''too_long'')
     else case m_passwordPolicy m of
         None \<Rightarrow> Inr ()
       | Some policy \<Rightarrow> (case policy password of Some err \<Rightarrow> Inl err | None \<Rightarrow> Inr ()))"

definition hashPassword :: "manager \<Rightarrow> string \<Rightarrow> string op" where
  "hashPassword m password = asking (\<lambda>n. m_Hash m n password)"

definition normalizePage :: "pageRequest \<Rightarrow> pageRequest result" where
  "normalizePage page = (let page' = (if page_Limit page = 0 then page\<lparr>page_Limit := 50\<rparr> else page) in
     if page_Limit page' < 1 \<or> page_Limit page' > 100 then Inl ErrInvalidInput else Inr page')"

text \<open>A stream that fails before it starts yields the error and ends (\<^verbatim>\<open>errorSeq\<close>).\<close>

definition errorSeq :: "error \<Rightarrow> 'a result list" where
  "errorSeq err = [Inl err]"

definition stream :: "'a result list op \<Rightarrow> world \<Rightarrow> 'a result list \<times> world" where
  "stream f w = (case f w of (Inl err, w') \<Rightarrow> (errorSeq err, w') | (Inr xs, w') \<Rightarrow> (xs, w'))"

text \<open>A stream of the store: what it yields is read at once; the context is asked before it and before each item.\<close>

definition readStream :: "manager \<Rightarrow> (error option \<Rightarrow> (nat \<Rightarrow> error option) \<Rightarrow> store \<Rightarrow> 'a result list) \<Rightarrow> 'a result list op" where
  "readStream m f w = callStore m (\<lambda>ce s. (Inr (f ce (\<lambda>k. m_ctxErr m (w_calls w + Suc k)) s), s)) w"

text \<open>
  A mutation with its audit event and the metadata of its change: the hooks are asked within the
  transaction, and the event is emitted once it is committed.
\<close>

definition committing :: "manager \<Rightarrow> string \<Rightarrow> auditEvent \<Rightarrow> string \<Rightarrow> eventMeta \<Rightarrow> (commit \<Rightarrow> 'a op) \<Rightarrow> 'a op" where
  "committing m operation event change meta call = (bindE (orMapped m operation (call (transactionalCommit m event change meta))) (\<lambda>x.
   bindE (emit meta) (\<lambda>_.
   ret x)))"

end
