(* ===== verification/ManagerRuns.thy ===== *)
theory ManagerRuns
  imports Manager
begin

text \<open>
  Every operation of the Manager acts on the store only through the store's methods, so what it does to the
  store is a run of the store: what holds along every run (the audit chain, revocation, single use) holds
  across operations, however they interleave. The environment of an operation is an interface: the other
  requests, too, only run the store.
\<close>

section \<open>Environments\<close>

named_theorems run_rules \<open>that the steps of an operation run the store\<close>

text \<open>
  The identifier generator only moves forward: its state is a number, the milliseconds and the sequence
  below them.
\<close>

definition idKey :: "world \<Rightarrow> int" where
  "idKey w = w_idUnixMilli w * 4096 + uint (w_idSequence w)"

definition generatorOk :: "world \<Rightarrow> bool" where
  "generatorOk w \<longleftrightarrow> 0 \<le> w_idUnixMilli w \<and> w_idSequence w \<le> 0x0fff"

definition runs :: "manager \<Rightarrow> world \<Rightarrow> world \<Rightarrow> bool" where
  "runs m w w' \<longleftrightarrow> storeRun (m_sha m) commitOk (w_store w) (w_store w') \<and> w_ticks w \<le> w_ticks w'
     \<and> (generatorOk w \<longrightarrow> generatorOk w' \<and> idKey w \<le> idKey w')"

lemma storeRun_refl: "storeRun sha ok s s"
  by (simp add: storeRun_def)

lemma storeRun_trans: "storeRun sha ok a b \<Longrightarrow> storeRun sha ok b c \<Longrightarrow> storeRun sha ok a c"
  unfolding storeRun_def by (rule rtranclp_trans)

lemma storeRun_step: "storeStep sha ok a b \<Longrightarrow> storeRun sha ok a b"
  by (simp add: storeRun_def r_into_rtranclp)

lemma runs_refl: "runs m w w"
  by (simp add: runs_def storeRun_refl)

lemma runs_trans: "runs m a b \<Longrightarrow> runs m b c \<Longrightarrow> runs m a c"
  by (auto simp: runs_def intro: storeRun_trans)

lemma nextID_key:
  assumes "generatorOk w"
  shows "generatorOk (nextID t w) \<and> idKey w < idKey (nextID t w)"
proof -
  have bound: "uint (w_idSequence w) \<le> 4095" using assms by (simp add: generatorOk_def word_le_def)
  consider "t > w_idUnixMilli w" | "\<not> t > w_idUnixMilli w" "w_idSequence w = 0x0fff"
    | "\<not> t > w_idUnixMilli w" "w_idSequence w \<noteq> 0x0fff" by blast
  then show ?thesis
  proof cases
    case 3
    then have "uint (w_idSequence w) \<noteq> uint (0x0fff :: 16 word)" by (simp only: word_uint_eq_iff not_False_eq_True)
    with bound have "uint (w_idSequence w) < 4095" by simp
    then have "uint (w_idSequence w + 1) = uint (w_idSequence w) + 1" by (simp add: uint_word_ariths)
    with 3 assms \<open>uint (w_idSequence w) < 4095\<close> show ?thesis
      by (simp add: nextID_def generatorOk_def idKey_def word_le_def)
  qed (use assms bound in \<open>simp_all add: nextID_def generatorOk_def idKey_def\<close>)
qed

lemma ret_runs [run_rules]: "relates (runs m) (ret x)"
  by (rule relates_ret) (rule runs_refl)

lemma fail_runs [run_rules]: "relates (runs m) (fail e)"
  by (rule relates_fail) (rule runs_refl)

lemma bindE_runs [run_rules]: "relates (runs m) f \<Longrightarrow> (\<And>x. relates (runs m) (k x)) \<Longrightarrow> relates (runs m) (bindE f k)"
  by (rule relates_bindE) (rule runs_trans)

lemma tryE_runs [run_rules]: "relates (runs m) f \<Longrightarrow> relates (runs m) (tryE f)"
  by (auto simp: relates_def tryE_def split: prod.split) (metis snd_conv)

lemma pure_runs [run_rules]: "relates (runs m) (liftR r)" "relates (runs m) (failIf b e)"
  "relates (runs m) (emit meta)" "relates (runs m) (asking f)" "relates (runs m) (now m)"
  "relates (runs m) (randomBytes m n)" "relates (runs m) (\<lambda>w. (g w, w))"
  by (simp_all add: relates_def runs_def liftR_def failIf_def ret_def fail_def emit_def asking_def now_def randomBytes_def
    generatorOk_def idKey_def storeRun_refl Let_def)

lemma nextID_runs [run_rules]: "relates (runs m) (\<lambda>w. (Inr (), nextID t w))"
proof -
  have "w_store (nextID t w) = w_store w" and "w_ticks (nextID t w) = w_ticks w" for w by (simp_all add: nextID_def)
  then show ?thesis using nextID_key [of _ t] by (simp add: relates_def runs_def storeRun_refl less_imp_le)
qed

lemma case_runs [run_rules]:
  "(b \<Longrightarrow> relates (runs m) f) \<Longrightarrow> (\<not> b \<Longrightarrow> relates (runs m) g) \<Longrightarrow> relates (runs m) (if b then f else g)"
  "(\<And>e. relates (runs m) (p e)) \<Longrightarrow> (\<And>x. relates (runs m) (q x)) \<Longrightarrow> relates (runs m) (case_sum p q r)"
  "relates (runs m) f \<Longrightarrow> (\<And>x. relates (runs m) (q x)) \<Longrightarrow> relates (runs m) (case_option f q z)"
  "(\<And>x y. relates (runs m) (k x y)) \<Longrightarrow> relates (runs m) (case_prod k pr)"
  "(\<And>x. relates (runs m) (q x)) \<Longrightarrow> relates (runs m) (Let v q)"
  by (auto split: sum.split option.split prod.split simp: Let_def)

lemma commitOk_commits [run_rules]:
  "commitOk (auditOnly event)" "commitOk (commitOf m event changes)" "commitOk (transactionalCommit m event operation change)"
  "commitOk c \<Longrightarrow> commitOk (c\<lparr>cmt_Ceremony := z\<rparr>)"
  by (simp_all add: commitOk_def auditOnly_def commitOf_def transactionalCommit_def)

locale environment =
  fixes m :: manager
  assumes others_run: "storeRun (m_sha m) commitOk s (m_others m n s)"
begin

lemma callStore_runs:
  assumes "\<And>ce s r s'. f ce s = (r, s') \<Longrightarrow> storeRun (m_sha m) commitOk s s'"
  shows "relates (runs m) (callStore m f)"
  unfolding relates_def runs_def callStore_def generatorOk_def idKey_def
  by (auto split: prod.split) (metis assms others_run storeRun_trans)

lemma callStore_reads: "(\<And>ce s. snd (f ce s) = s) \<Longrightarrow> relates (runs m) (callStore m f)"
  by (rule callStore_runs) (metis snd_conv storeRun_refl)

lemma callStore_calls:
  assumes "\<And>ce s r s'. f ce s = (r, s') \<Longrightarrow> \<exists>out. storeCall (m_sha m) c s out s'" and "commitOk c"
  shows "relates (runs m) (callStore m f)"
  by (rule callStore_runs) (meson assms storeRun_step storeStep.mutation)

lemma callStore_atomic:
  assumes "\<And>ce s r s'. f ce s = (r, s') \<Longrightarrow> \<exists>out. atomicCall (m_sha m) c s out s'" and "commitOk c"
  shows "relates (runs m) (callStore m f)"
  by (rule callStore_calls [OF _ assms(2)]) (meson assms(1) storeCall.call_atomic)

lemma stream_runs: "relates (runs m) f \<Longrightarrow> relates (runs m) (stream f)"
  by (simp add: relates_def stream_def split: prod.split sum.split) (metis snd_conv)

text \<open>The methods of the store the operations call.\<close>

lemma mutators_run [run_rules]:
  "commitOk c \<Longrightarrow> relates (runs m) (callStore m (\<lambda>ce. Bootstrap (m_sha m) ce usr eml pwd wsp mbr adm c))"
  "commitOk c \<Longrightarrow> relates (runs m) (callStore m (\<lambda>ce. storeCreateUser (m_sha m) ce usr eml pwd mbr c))"
  "commitOk c \<Longrightarrow> relates (runs m) (callStore m (\<lambda>ce. CreateSignup (m_sha m) ce usr eml ev pwd wsp mbr c))"
  "commitOk c \<Longrightarrow> relates (runs m) (callStore m (\<lambda>ce. SetUserDisabled (m_sha m) ce i b t c))"
  "commitOk c \<Longrightarrow> relates (runs m) (callStore m (\<lambda>ce. UpdateUser (m_sha m) ce usr c))"
  "commitOk c \<Longrightarrow> relates (runs m) (callStore m (\<lambda>ce. storeChangePassword (m_sha m) ce pwd t c))"
  "commitOk c \<Longrightarrow> relates (runs m) (callStore m (\<lambda>ce. RehashPassword (m_sha m) ce pwd h c))"
  "commitOk c \<Longrightarrow> relates (runs m) (callStore m (\<lambda>ce. RecordAuthentication (m_sha m) ce i t c))"
  "commitOk c \<Longrightarrow> relates (runs m) (callStore m (\<lambda>ce. RecordPasswordAuthentication (m_sha m) ce i h t c))"
  "commitOk c \<Longrightarrow> relates (runs m) (callStore m (\<lambda>ce. RecordLoginFailure (m_sha m) ce i t n t2 c))"
  "commitOk c \<Longrightarrow> relates (runs m) (callStore m (\<lambda>ce. CreatePasswordReset (m_sha m) ce prc c))"
  "commitOk c \<Longrightarrow> relates (runs m) (callStore m (\<lambda>ce. storeCompletePasswordReset (m_sha m) ce i pwd t c))"
  "commitOk c \<Longrightarrow> relates (runs m) (callStore m (\<lambda>ce. CreateEmailAuthentication (m_sha m) ce eac c))"
  "commitOk c \<Longrightarrow> relates (runs m) (callStore m (\<lambda>ce. ConsumeEmailAuthentication (m_sha m) ce i j t b c))"
  "commitOk c \<Longrightarrow> relates (runs m) (callStore m (\<lambda>ce. SaveEmail (m_sha m) ce eml evc c))"
  "commitOk c \<Longrightarrow> relates (runs m) (callStore m (\<lambda>ce. ReissueEmailVerification (m_sha m) ce i evc c))"
  "commitOk c \<Longrightarrow> relates (runs m) (callStore m (\<lambda>ce. storeVerifyEmail (m_sha m) ce i t c))"
  "commitOk c \<Longrightarrow> relates (runs m) (callStore m (\<lambda>ce. storeSetPrimaryEmail (m_sha m) ce i j c))"
  "commitOk c \<Longrightarrow> relates (runs m) (callStore m (\<lambda>ce. storeRemoveEmail (m_sha m) ce i j c))"
  "commitOk c \<Longrightarrow> relates (runs m) (callStore m (\<lambda>ce. SaveTOTPEnrollment (m_sha m) ce fct c))"
  "commitOk c \<Longrightarrow> relates (runs m) (callStore m (\<lambda>ce. ActivateTOTP (m_sha m) ce fct rcs c))"
  "commitOk c \<Longrightarrow> relates (runs m) (callStore m (\<lambda>ce. UseTOTP (m_sha m) ce i n c))"
  "commitOk c \<Longrightarrow> relates (runs m) (callStore m (\<lambda>ce. ConsumeRecoveryCode (m_sha m) ce i d t c))"
  "commitOk c \<Longrightarrow> relates (runs m) (callStore m (\<lambda>ce. storeDisableTOTP (m_sha m) ce i c))"
  "commitOk c \<Longrightarrow> relates (runs m) (callStore m (\<lambda>ce. ReplaceRecoveryCodes (m_sha m) ce i rcs c))"
  "commitOk c \<Longrightarrow> relates (runs m) (callStore m (\<lambda>ce. storeResetSecondFactor (m_sha m) ce i t c))"
  "commitOk c \<Longrightarrow> relates (runs m) (callStore m (\<lambda>ce. SavePasskey (m_sha m) ce pk c))"
  "commitOk c \<Longrightarrow> relates (runs m) (callStore m (\<lambda>ce. TouchPasskey (m_sha m) ce i d d2 t c))"
  "commitOk c \<Longrightarrow> relates (runs m) (callStore m (\<lambda>ce. DeletePasskey (m_sha m) ce i j c))"
  "commitOk c \<Longrightarrow> relates (runs m) (callStore m (\<lambda>ce. storeCreatePAT (m_sha m) ce tok c))"
  "commitOk c \<Longrightarrow> relates (runs m) (callStore m (\<lambda>ce. TouchPAT (m_sha m) ce i t c))"
  "commitOk c \<Longrightarrow> relates (runs m) (callStore m (\<lambda>ce. storeRevokePAT (m_sha m) ce i j t c))"
  "commitOk c \<Longrightarrow> relates (runs m) (callStore m (\<lambda>ce. RevokeUserCredentials (m_sha m) ce i t c))"
  "commitOk c \<Longrightarrow> relates (runs m) (callStore m (\<lambda>ce. storeAnonymizeUser (m_sha m) ce i t c))"
  "commitOk c \<Longrightarrow> relates (runs m) (callStore m (\<lambda>ce. storeCreateSession (m_sha m) ce ses d c))"
  "commitOk c \<Longrightarrow> relates (runs m) (callStore m (\<lambda>ce. TouchSession (m_sha m) ce i t c))"
  "commitOk c \<Longrightarrow> relates (runs m) (callStore m (\<lambda>ce. storeRevokeSession (m_sha m) ce i t c))"
  "commitOk c \<Longrightarrow> relates (runs m) (callStore m (\<lambda>ce. RevokeUserSessions (m_sha m) ce i t c))"
  "commitOk c \<Longrightarrow> relates (runs m) (callStore m (\<lambda>ce. storeConfirmWorkspaceDomain (m_sha m) ce i t c))"
  "commitOk c \<Longrightarrow> relates (runs m) (callStore m (\<lambda>ce. storeUpdateWorkspaceDomainPolicy (m_sha m) ce i dpi t c))"
  "commitOk c \<Longrightarrow> relates (runs m) (callStore m (\<lambda>ce. storeDeleteWorkspaceDomain (m_sha m) ce i c))"
  "commitOk c \<Longrightarrow> relates (runs m) (callStore m (\<lambda>ce. JITProvisionSSOUser (m_sha m) ce usr eml mbr sso c))"
  "commitOk c \<Longrightarrow> relates (runs m) (callStore m (\<lambda>ce. storeCreateWorkspace (m_sha m) ce wsp mbr c))"
  "commitOk c \<Longrightarrow> relates (runs m) (callStore m (\<lambda>ce. storeUpdateWorkspace (m_sha m) ce wsp c))"
  "commitOk c \<Longrightarrow> relates (runs m) (callStore m (\<lambda>ce. storeSetWorkspaceDisabled (m_sha m) ce i b t c))"
  "commitOk c \<Longrightarrow> relates (runs m) (callStore m (\<lambda>ce. UpsertMembership (m_sha m) ce mbr c))"
  "commitOk c \<Longrightarrow> relates (runs m) (callStore m (\<lambda>ce. storeRemoveMembership (m_sha m) ce i j t c))"
  "commitOk c \<Longrightarrow> relates (runs m) (callStore m (\<lambda>ce. CreateWorkspaceInvitation (m_sha m) ce invn c))"
  "commitOk c \<Longrightarrow> relates (runs m) (callStore m (\<lambda>ce. storeAcceptWorkspaceInvitation (m_sha m) ce i j t mbr c))"
  "commitOk c \<Longrightarrow> relates (runs m) (callStore m (\<lambda>ce. RegisterInvitedUser (m_sha m) ce i usr eml pwd mbr t c))"
  "commitOk c \<Longrightarrow> relates (runs m) (callStore m (\<lambda>ce. storeRevokeWorkspaceInvitation (m_sha m) ce i j t c))"
  "commitOk c \<Longrightarrow> relates (runs m) (callStore m (\<lambda>ce. storeSetInstanceRole (m_sha m) ce adm c))"
  "commitOk c \<Longrightarrow> relates (runs m) (callStore m (\<lambda>ce. storeRemoveInstanceRole (m_sha m) ce i c))"
  "commitOk c \<Longrightarrow> relates (runs m) (callStore m (\<lambda>ce. LinkSSO (m_sha m) ce sso c))"
  "commitOk c \<Longrightarrow> relates (runs m) (callStore m (\<lambda>ce. TouchSSO (m_sha m) ce i j t c))"
  "commitOk c \<Longrightarrow> relates (runs m) (callStore m (\<lambda>ce. UnlinkSSO (m_sha m) ce i j c))"
  "commitOk c \<Longrightarrow> relates (runs m) (callStore m (\<lambda>ce. AppendAudit (m_sha m) ce c))"
  by (rule callStore_atomic, rule exI, erule atomicCall.intros, assumption)+

lemma domain_runs [run_rules]:
  "commitOk c \<Longrightarrow> relates (runs m) (callStore m (\<lambda>ce. CreateWorkspaceDomain (m_sha m) ce dmn t c))"
  by (rule callStore_calls, rule exI, erule storeCall.call_create_workspace_domain, assumption)

lemma issuance_runs [run_rules]: "relates (runs m) (callStore m (\<lambda>ce. ClaimEmailIssuance ce h h2 t t2))"
  by (rule callStore_runs) (blast intro: storeRun_step storeStep.issuance)

lemmas read_defs = AuditChainHead_def ChainedAuditEvents_def UserByEmail_def UserByID_def PasswordByUserID_def
  LoginThrottleByUserID_def PasswordResetByID_def EmailAuthenticationByID_def EmailVerificationByID_def EmailByAddress_def
  TOTPByUserID_def CountUnusedRecoveryCodes_def PasskeyByCredentialID_def PATByPrefix_def
  PATByID_def SessionByID_def WorkspaceDomainByID_def ConfirmedWorkspaceDomainByName_def WorkspaceByID_def
  Membership_def WorkspaceInvitationByID_def PendingWorkspaceInvitation_def storeInstanceAdministrator_def SSOIdentity_def

lemma readers_run [run_rules]:
  "relates (runs m) (callStore m (\<lambda>ce. AuditChainHead ce))"
  "relates (runs m) (callStore m (\<lambda>ce. ChainedAuditEvents ce n))"
  "relates (runs m) (callStore m (\<lambda>ce. UserByEmail ce h))"
  "relates (runs m) (callStore m (\<lambda>ce. UserByID ce i))"
  "relates (runs m) (callStore m (\<lambda>ce. PasswordByUserID ce i))"
  "relates (runs m) (callStore m (\<lambda>ce. LoginThrottleByUserID ce i))"
  "relates (runs m) (callStore m (\<lambda>ce. PasswordResetByID ce i))"
  "relates (runs m) (callStore m (\<lambda>ce. EmailAuthenticationByID ce i))"
  "relates (runs m) (callStore m (\<lambda>ce. EmailVerificationByID ce i))"
  "relates (runs m) (callStore m (\<lambda>ce. EmailByAddress ce h))"
  "relates (runs m) (callStore m (\<lambda>ce. TOTPByUserID ce i))"
  "relates (runs m) (callStore m (\<lambda>ce. CountUnusedRecoveryCodes ce i))"
  "relates (runs m) (callStore m (\<lambda>ce. PasskeyByCredentialID ce d))"
  "relates (runs m) (callStore m (\<lambda>ce. PATByPrefix ce h))"
  "relates (runs m) (callStore m (\<lambda>ce. PATByID ce i))"
  "relates (runs m) (callStore m (\<lambda>ce. SessionByID ce i))"
  "relates (runs m) (callStore m (\<lambda>ce. WorkspaceDomainByID ce i))"
  "relates (runs m) (callStore m (\<lambda>ce. ConfirmedWorkspaceDomainByName ce h))"
  "relates (runs m) (callStore m (\<lambda>ce. WorkspaceByID ce i))"
  "relates (runs m) (callStore m (\<lambda>ce. Membership ce i j))"
  "relates (runs m) (callStore m (\<lambda>ce. WorkspaceInvitationByID ce i))"
  "relates (runs m) (callStore m (\<lambda>ce. PendingWorkspaceInvitation ce i h))"
  "relates (runs m) (callStore m (\<lambda>ce. storeInstanceAdministrator ce i))"
  "relates (runs m) (callStore m (\<lambda>ce. SSOIdentity ce i h h2))"
  by (rule callStore_reads, simp add: read_defs reads_def split: option.split)+

lemma streams_run [run_rules]: "relates (runs m) (readStream m f)"
proof -
  have "relates (runs m) (callStore m (\<lambda>ce s. (Inr (f ce ctx s), s)))" for ctx by (rule callStore_reads) simp
  then show ?thesis unfolding relates_def readStream_def by blast
qed

section \<open>The machinery\<close>

lemma newID_runs [run_rules]: "relates (runs m) (newID m)"
  unfolding newID_def by (intro run_rules)

lemma newEventMeta_runs [run_rules]: "relates (runs m) (newEventMeta m a b c d e)"
  unfolding newEventMeta_def by (intro run_rules)

lemma emitNew_runs [run_rules]: "relates (runs m) (emitNew m a b c d e)"
  unfolding emitNew_def by (intro run_rules)

lemma emitters_run [run_rules]: "relates (runs m) (emitAuditUnavailable m a)"
  "relates (runs m) (emitAuthenticationSucceeded m a b d)" "relates (runs m) (emitAuthenticationFailed m a b e)"
  unfolding emitAuditUnavailable_def emitAuthenticationSucceeded_def emitAuthenticationFailed_def by (intro run_rules)+

lemma mapStoreError_runs [run_rules]: "relates (runs m) (mapStoreError m a e)"
  unfolding mapStoreError_def by (intro run_rules)

lemma orMapped_runs [run_rules]: "relates (runs m) f \<Longrightarrow> relates (runs m) (orMapped m a f)"
  unfolding orMapped_def by (intro run_rules)

lemma committing_runs [run_rules]:
  "(\<And>c. commitOk c \<Longrightarrow> relates (runs m) (f c)) \<Longrightarrow> relates (runs m) (committing m a b d e f)"
  unfolding committing_def by (intro run_rules) (simp add: run_rules)

lemma newAudit_runs [run_rules]: "relates (runs m) (newAudit m a b c d e f g)"
  unfolding newAudit_def by (intro run_rules)

lemma seal_runs [run_rules]: "relates (runs m) (seal m p)"
  unfolding seal_def by (intro run_rules)

lemma recordAuthenticationAudit_runs [run_rules]: "relates (runs m) (recordAuthenticationAudit m a b c d)"
  unfolding recordAuthenticationAudit_def by (intro run_rules)

lemma appendAuthenticationAudit_runs [run_rules]: "relates (runs m) (appendAuthenticationAudit m a b c d)"
  unfolding appendAuthenticationAudit_def by (intro run_rules)

lemma refuse_runs [run_rules]: "relates (runs m) (refuse m a b c d)"
  unfolding refuse_def by (intro run_rules)

lemma recordAuthenticationFailure_runs [run_rules]: "relates (runs m) (recordAuthenticationFailure m a b c)"
  unfolding recordAuthenticationFailure_def by (intro run_rules)

lemma requireUnlocked_runs [run_rules]: "relates (runs m) (requireUnlocked m a b)"
  unfolding requireUnlocked_def by (intro run_rules)

lemma hashPassword_runs [run_rules]: "relates (runs m) (hashPassword m p)"
  unfolding hashPassword_def by (intro run_rules)

end

text \<open>A Manager that serves one request at a time is in such an environment.\<close>

interpretation alone: environment "m\<lparr>m_others := \<lambda>_ s. s\<rparr>" for m
  by unfold_locales (simp add: storeRun_refl)

end
