(* ===== verification/Identifiers.thy ===== *)
theory Identifiers
  imports ManagerRuns
begin

text \<open>
  The identifiers the Manager mints (\<^verbatim>\<open>newID\<close> of \<^verbatim>\<open>internal.go\<close>): each is a UUIDv7, and they grow with every
  minting, also when the clock stands still or goes back and whatever happens between two mintings.
\<close>

section \<open>The layout\<close>

lemma ucast_drop_bit_byte: "(ucast (drop_bit k (x :: 64 word)) :: byte) = of_nat (unat x div 2 ^ k)"
proof -
  have "unat x div 2 ^ k = unat (drop_bit k x)" by (simp only: unat_drop_bit_eq) (rule drop_bit_eq_div [symmetric])
  then show ?thesis by (simp only: of_nat_unat)
qed

lemma timestamp_bytes:
  "map (\<lambda>index. ucast (drop_bit (8 * (5 - index)) (x :: 64 word))) [0..<6] = natBytes 6 (unat x)"
proof -
  have u: "[0..<6] = [0, 1, 2, 3, 4, 5 :: nat]" by (simp add: upt_rec)
  have n: "natBytes 6 k = [of_nat (k div 2 ^ 40), of_nat (k div 2 ^ 32), of_nat (k div 2 ^ 24), of_nat (k div 2 ^ 16),
      of_nat (k div 2 ^ 8), of_nat k]" for k
  proof -
    have "(6 :: nat) = Suc (Suc (Suc (Suc (Suc (Suc 0)))))" by simp
    then show ?thesis by (simp only: natBytes.simps) (simp add: div_mult2_eq [symmetric])
  qed
  show ?thesis unfolding u n by (simp add: ucast_drop_bit_byte)
qed

lemma version_byte:
  assumes "(x :: byte) < 16"
  shows "unat (0x70 OR x) = 0x70 + unat x" and "(0x70 OR x) AND 0xf0 = 0x70"
proof -
  have "take_bit 4 x = x" using assms
    by (simp add: take_bit_eq_mod word_mod_def word_less_def word_uint_eq_iff uint_word_of_int)
  then have x: "x = x AND 0x0f" by (simp add: take_bit_eq_mask mask_eq_exp_minus_1)
  then have "x AND 0xf0 = x AND (0x0f AND 0xf0)" by (metis and.assoc)
  then show "(0x70 OR x) AND 0xf0 = 0x70" by (simp add: bit.conj_disj_distrib2)
  from x have "0x70 AND x = x AND (0x0f AND 0x70)" by (metis and.assoc and.commute)
  then have "0x70 AND x = 0" by simp
  then have "0x70 + x = 0x70 OR x" by (rule disjunctive_add_eq_or)
  moreover have "unat x < 16" using assms by (simp add: word_less_nat_alt)
  ultimately show "unat (0x70 OR x) = 0x70 + unat x" by (simp add: unat_word_ariths flip: \<open>0x70 + x = 0x70 OR x\<close>)
qed

lemma sequence_bytes:
  assumes "(sq :: 16 word) \<le> 0x0fff"
  shows "(ucast (drop_bit 8 sq) :: byte) < 16"
    and "256 * unat (ucast (drop_bit 8 sq) :: byte) + unat (ucast sq :: byte) = unat sq"
proof -
  have "unat sq \<le> 4095" using assms by (simp add: word_le_nat_alt)
  moreover have byte: "unat (ucast y :: byte) = unat y mod 256" for y :: "16 word"
    by (simp add: unsigned_ucast_eq take_bit_eq_mod)
  moreover have "unat (drop_bit 8 sq) = unat sq div 256" by (simp only: unat_drop_bit_eq) (simp add: drop_bit_eq_div)
  ultimately show "(ucast (drop_bit 8 sq) :: byte) < 16"
    and "256 * unat (ucast (drop_bit 8 sq) :: byte) + unat (ucast sq :: byte) = unat sq"
    by (simp_all only: word_less_nat_alt byte) (simp_all add: div_less_iff_less_mult)
qed

lemma bytesNat_append2: "bytesNat (xs @ ys) = bytesNat xs * 256 ^ length ys + bytesNat ys"
  by (induction xs) (simp_all add: bytesNat_Cons power_add algebra_simps, simp add: bytesNat_def)

lemma length_idBytes: "length b = 16 \<Longrightarrow> length (idBytes ts sq b) = 16"
  by (simp add: idBytes_def)

text \<open>The upper half of an identifier: milliseconds, version, sequence.\<close>

definition idUpper :: "64 word \<Rightarrow> 16 word \<Rightarrow> nat" where
  "idUpper ts sq = unat ts mod 2 ^ 48 * 65536 + 0x7000 + unat sq"

lemma idBytes_value:
  assumes "length b = 16" and "sq \<le> 0x0fff"
  obtains low where "low < 2 ^ 64" and "bytesNat (idBytes ts sq b) = idUpper ts sq * 2 ^ 64 + low"
proof
  let ?hi = "[0x70 OR ucast (drop_bit 8 sq), ucast sq] :: bytes" and ?lo = "((b ! 8 AND 0x3f) OR 0x80) # drop 9 b"
  have split: "idBytes ts sq b = natBytes 6 (unat ts) @ ?hi @ ?lo" by (simp only: idBytes_def timestamp_bytes) simp
  have "bytesNat ?hi = 256 * (0x70 + unat (ucast (drop_bit 8 sq) :: byte)) + unat (ucast sq :: byte)"
    using version_byte(1) [OF sequence_bytes(1) [OF assms(2)]] by (simp add: bytesNat_Cons) (simp add: bytesNat_def)
  then have hi: "bytesNat ?hi = 0x7000 + unat sq" using sequence_bytes(2) [OF assms(2)] by simp
  have lo: "length ?lo = 8" using assms(1) by simp
  show "bytesNat ?lo < 2 ^ 64" using bytesNat_bound [of ?lo] lo by simp
  show "bytesNat (idBytes ts sq b) = idUpper ts sq * 2 ^ 64 + bytesNat ?lo"
    unfolding split bytesNat_append2 hi bytesNat_natBytes length_append lo idUpper_def by simp
qed

lemma idBytes_v7:
  assumes "length b = 16" and "sq \<le> 0x0fff"
  shows "validUUIDv7 (bytesUuid (idBytes ts sq b))"
proof -
  have "((b ! 8 AND 0x3f) OR 0x80) AND 0xc0 = 0x80" by (simp add: bit.conj_disj_distrib2 and.assoc)
  with version_byte(2) [OF sequence_bytes(1) [OF assms(2)]] show ?thesis
    by (simp add: validUUIDv7_def uuidBytes_bytesUuid length_idBytes assms(1)) (simp add: idBytes_def nth_append)
qed

lemma idBytes_less:
  assumes "length b = 16" "sq \<le> 0x0fff" and "length b' = 16" "sq' \<le> 0x0fff" and "idUpper ts sq < idUpper ts' sq'"
  shows "bytesUuid (idBytes ts sq b) < bytesUuid (idBytes ts' sq' b')"
proof -
  obtain l where l: "l < 2 ^ 64" "bytesNat (idBytes ts sq b) = idUpper ts sq * 2 ^ 64 + l" by (rule idBytes_value [OF assms(1,2)])
  obtain l' where l': "bytesNat (idBytes ts' sq' b') = idUpper ts' sq' * 2 ^ 64 + l'" by (rule idBytes_value [OF assms(3,4)])
  have "(idUpper ts sq + 1) * 2 ^ 64 \<le> idUpper ts' sq' * 2 ^ 64" using assms(5) by (intro mult_le_mono1) simp
  then have less: "bytesNat (idBytes ts sq b) < bytesNat (idBytes ts' sq' b')" using l l' by simp
  have "bytesNat (idBytes ts sq b) < 2 ^ 128" and "bytesNat (idBytes ts' sq' b') < 2 ^ 128"
    using bytesNat_bound [of "idBytes ts sq b"] bytesNat_bound [of "idBytes ts' sq' b'"] assms(1,3) by (simp_all add: length_idBytes)
  with less show ?thesis by (simp add: bytesUuid_def word_less_nat_alt unat_of_nat)
qed

section \<open>Minting\<close>

lemma randomBytes_length: "randomBytes m n w = (Inr b, w') \<Longrightarrow> length b = n"
  by (auto simp: randomBytes_def Let_def split: if_splits)

lemma newID_cases:
  assumes "newID m w = (Inr i, w')"
  obtains t b where "length b = 16" and "i = bytesUuid (idBytes (of_int (w_idUnixMilli w')) (w_idSequence w') b)"
    and "idKey w' = idKey (nextID t w)" and "w_idUnixMilli w' = w_idUnixMilli (nextID t w)" and "w_idSequence w' = w_idSequence (nextID t w)"
    and "runs m w w'"
proof -
  obtain b w1 where b: "randomBytes m 16 w1 = (Inr b, w')" and w1: "w1 = nextID (UnixMilli (m_clock m (w_ticks w))) (w\<lparr>w_ticks := w_ticks w + 1\<rparr>)"
    and i: "i = bytesUuid (idBytes (of_int (w_idUnixMilli w')) (w_idSequence w') b)"
    using assms by (auto simp: newID_def bindE_Inr now_def)
  have same: "w_idUnixMilli w' = w_idUnixMilli w1" "w_idSequence w' = w_idSequence w1"
    using b by (auto simp: randomBytes_def Let_def split: if_splits)
  have new: "w_idUnixMilli w1 = w_idUnixMilli (nextID (UnixMilli (m_clock m (w_ticks w))) w)"
    "w_idSequence w1 = w_idSequence (nextID (UnixMilli (m_clock m (w_ticks w))) w)" unfolding w1 by (simp_all add: nextID_def)
  have "relates (runs m) (newID m)"
    unfolding newID_def by (intro bindE_runs pure_runs nextID_runs)
  then have "runs m w w'" using assms by (rule relatesD)
  then show thesis
    using same new by (intro that [where t = "UnixMilli (m_clock m (w_ticks w))", OF randomBytes_length [OF b] i]) (simp_all add: idKey_def)
qed

lemma idUpper_key:
  assumes "generatorOk w" and "w_idUnixMilli w < 2 ^ 48"
  shows "int (idUpper (of_int (w_idUnixMilli w)) (w_idSequence w)) = w_idUnixMilli w * 65536 + 0x7000 + uint (w_idSequence w)"
proof -
  have "unat (of_int (w_idUnixMilli w) :: 64 word) = nat (w_idUnixMilli w)"
    using assms by (simp add: generatorOk_def unat_eq_nat_uint uint_word_of_int)
  moreover have "nat (w_idUnixMilli w) mod 2 ^ 48 = nat (w_idUnixMilli w)" using assms by (simp add: generatorOk_def)
  moreover have "int (unat (w_idSequence w)) = uint (w_idSequence w)" by simp
  moreover have "int (nat (w_idUnixMilli w)) = w_idUnixMilli w" using assms by (simp add: generatorOk_def)
  ultimately show ?thesis by (simp only: idUpper_def of_nat_add of_nat_mult of_nat_numeral)
qed

lemma idUpper_less:
  assumes "generatorOk w" "generatorOk w'" and "idKey w < idKey w'" and "w_idUnixMilli w' < 2 ^ 48"
  shows "idUpper (of_int (w_idUnixMilli w)) (w_idSequence w) < idUpper (of_int (w_idUnixMilli w')) (w_idSequence w')"
proof -
  have s: "uint (w_idSequence w) \<le> 4095" "0 \<le> uint (w_idSequence w)" "uint (w_idSequence w') \<le> 4095" "0 \<le> uint (w_idSequence w')"
    using assms(1,2) by (simp_all add: generatorOk_def word_le_def)
  with assms(3) have le: "w_idUnixMilli w \<le> w_idUnixMilli w'" unfolding idKey_def by linarith
  with assms(4) have "w_idUnixMilli w < 2 ^ 48" by simp
  note keys = idUpper_key [OF assms(1) this] idUpper_key [OF assms(2,4)]
  from assms(3) le s have "w_idUnixMilli w * 65536 + uint (w_idSequence w) < w_idUnixMilli w' * 65536 + uint (w_idSequence w')"
    by (cases "w_idUnixMilli w = w_idUnixMilli w'") (simp add: idKey_def, linarith)
  with keys show ?thesis by linarith
qed

lemma newID_later:
  assumes "generatorOk w" and "newID m w = (Inr i, w1)" and "runs m w1 w2" and "newID m w2 = (Inr j, w3)"
    and "w_idUnixMilli w3 < 2 ^ 48"
  shows "validUUIDv7 i \<and> validUUIDv7 j \<and> i < j"
proof -
  from assms(2) obtain t b where i: "length b = 16" "i = bytesUuid (idBytes (of_int (w_idUnixMilli w1)) (w_idSequence w1) b)"
    and r1: "runs m w w1" by (rule newID_cases)
  from assms(4) obtain t' b' where j: "length b' = 16" "j = bytesUuid (idBytes (of_int (w_idUnixMilli w3)) (w_idSequence w3) b')"
    and k: "idKey w3 = idKey (nextID t' w2)" and r3: "runs m w2 w3" by (rule newID_cases)
  from assms(1) r1 have g1: "generatorOk w1" by (simp add: runs_def)
  with assms(3) have g2: "generatorOk w2" and le: "idKey w1 \<le> idKey w2" by (simp_all add: runs_def)
  with r3 have g3: "generatorOk w3" by (simp add: runs_def)
  have "idKey w1 < idKey w3" using nextID_key [OF g2, of t'] le k by simp
  note less = idUpper_less [OF g1 g3 this assms(5)]
  from g1 g3 have "w_idSequence w1 \<le> 0x0fff" "w_idSequence w3 \<le> 0x0fff" by (simp_all add: generatorOk_def)
  with i j show ?thesis using idBytes_less [OF i(1) _ j(1) _ less] by (simp add: idBytes_v7)
qed

end
