(* ===== verification/ManagerGates.thy ===== *)
theory ManagerGates
  imports Identifiers
begin

text \<open>
  The gates every operation passes: step-up and interactivity (\<^verbatim>\<open>auth.go\<close>), workspace authorization
  (\<^verbatim>\<open>rbac.go\<close>, \<^verbatim>\<open>lifecycle.go\<close>), instance administration (\<^verbatim>\<open>admin.go\<close>), the single-sign-on policy of a
  domain (\<^verbatim>\<open>domain.go\<close>) and the cooldown of issued emails (\<^verbatim>\<open>email.go\<close>).
\<close>

section \<open>Authentication contexts\<close>

definition Interactive :: "authentication \<Rightarrow> bool" where
  "Interactive a = (auth_Method a \<in> {MethodPassword, MethodTOTP, MethodPasskey, MethodSSO, MethodEmail})"

definition HasScope :: "authentication \<Rightarrow> string \<Rightarrow> bool" where
  "HasScope a required = (required = [] \<or> list_ex (\<lambda>scope. scope = required \<or> scope = ''*'') (auth_Scopes a))"

definition zeroAuthentication :: authentication where
  "zeroAuthentication = \<lparr>auth_UserID = 0, auth_Method = MethodNone, auth_Level = 0, auth_AuthenticatedAt = zeroTime,
     auth_SecondFactorRequired = False, auth_WorkspaceID = 0, auth_Scopes = [], auth_CredentialDigest = []\<rparr>"

section \<open>Step-up\<close>

definition requireActiveUser :: "manager \<Rightarrow> uuid \<Rightarrow> unit op" where
  "requireActiveUser m userID = (bindE (tryE (callStore m (\<lambda>ce. UserByID ce userID))) (\<lambda>r.
   (case r of Inl _ \<Rightarrow> fail ErrForbidden | Inr user \<Rightarrow> failIf (usr_Disabled user) ErrForbidden)))"

definition RequireStepUp :: "manager \<Rightarrow> authentication \<Rightarrow> unit op" where
  "RequireStepUp m authn = (bindE (failIf (auth_UserID authn = 0) ErrUnauthorized) (\<lambda>_.
   bindE (now m) (\<lambda>t.
   let age = timeSub t (auth_AuthenticatedAt authn) in
   failIf (\<not> Interactive authn \<or> auth_Level authn < AAL2 \<or> auth_SecondFactorRequired authn \<or> age < 0
       \<or> age > m_stepUpMaxAge m) ErrStepUpRequired)))"

definition requireRecentInteractive :: "manager \<Rightarrow> authentication \<Rightarrow> unit op" where
  "requireRecentInteractive m authn = (bindE (failIf (auth_UserID authn = 0) ErrUnauthorized) (\<lambda>_.
   bindE (now m) (\<lambda>t.
   let age = timeSub t (auth_AuthenticatedAt authn) in
   bindE (failIf (\<not> Interactive authn \<or> auth_SecondFactorRequired authn \<or> age < 0 \<or> age > m_stepUpMaxAge m) ErrStepUpRequired) (\<lambda>_.
   requireActiveUser m (auth_UserID authn)))))"

definition requireInteractive :: "manager \<Rightarrow> authentication \<Rightarrow> unit op" where
  "requireInteractive m authn = (bindE (failIf (auth_UserID authn = 0) ErrUnauthorized) (\<lambda>_.
   bindE (failIf (\<not> Interactive authn \<or> auth_SecondFactorRequired authn) ErrStepUpRequired) (\<lambda>_.
   requireActiveUser m (auth_UserID authn))))"

text \<open>The first yield of the passkey stream settles the question, a credential or an error alike.\<close>

definition stepUpCapable :: "manager \<Rightarrow> uuid \<Rightarrow> bool op" where
  "stepUpCapable m userID =
    (if userID = 0 then ret False
     else (bindE (tryE (callStore m (\<lambda>ce. TOTPByUserID ce userID))) (\<lambda>r.
      (if (case r of Inl err \<Rightarrow> \<not> errorsIs err ErrNotFound | Inr factor \<Rightarrow> otp_Active factor) then ret True
        else case m_passkeys m of None \<Rightarrow> ret False
        | Some _ \<Rightarrow> (bindE (readStream m (\<lambda>ce ctxErr. storePasskeys ce ctxErr userID)) (\<lambda>keys.
         ret (keys \<noteq> [])))))))"

definition RequireStepUpFor :: "manager \<Rightarrow> authentication \<Rightarrow> stepUpScope \<Rightarrow> unit op" where
  "RequireStepUpFor m authn scope = (let policy = policyFor (m_stepUp m) scope in (bindE ((if policy = StepUpPolicyRequired then ret True
       else if policy = StepUpPolicyUserCapable then stepUpCapable m (auth_UserID authn) else ret False)) (\<lambda>full.
   (if full then (bindE (RequireStepUp m authn) (\<lambda>_.
     requireActiveUser m (auth_UserID authn))) else requireInteractive m authn))))"

definition denyStepUp :: "manager \<Rightarrow> authentication \<Rightarrow> string \<Rightarrow> error \<Rightarrow> 'a op" where
  "denyStepUp m authn operation err =
    (if \<not> errorsIs err ErrStepUpRequired then fail err
     else (bindE (emitNew m ''step_up.denied'' operation (auth_UserID authn) (auth_WorkspaceID authn) zeroAudit) (\<lambda>_.
      fail err)))"

definition requireScopedStepUp :: "manager \<Rightarrow> authentication \<Rightarrow> stepUpScope \<Rightarrow> string \<Rightarrow> unit op" where
  "requireScopedStepUp m authn scope operation = (bindE (tryE (RequireStepUpFor m authn scope)) (\<lambda>r.
   (case r of Inl err \<Rightarrow> denyStepUp m authn operation err | Inr _ \<Rightarrow> ret ())))"

section \<open>Workspaces\<close>

definition emitAuthorizationDenied :: "manager \<Rightarrow> authentication \<Rightarrow> uuid \<Rightarrow> unit op" where
  "emitAuthorizationDenied m authn workspaceID =
     emitNew m ''authorization.denied'' ''rbac.authorize'' (auth_UserID authn) workspaceID zeroAudit"

definition deny :: "manager \<Rightarrow> authentication \<Rightarrow> uuid \<Rightarrow> 'a op" where
  "deny m authn workspaceID = (bindE (emitAuthorizationDenied m authn workspaceID) (\<lambda>_.
   fail ErrForbidden))"

text \<open>\<^verbatim>\<open>if err != nil || user.Disabled { return ErrForbidden }\<close>\<close>

definition enabledUser :: "manager \<Rightarrow> uuid \<Rightarrow> user op" where
  "enabledUser m userID = (bindE (tryE (callStore m (\<lambda>ce. UserByID ce userID))) (\<lambda>r.
   (case r of Inl _ \<Rightarrow> fail ErrForbidden | Inr user \<Rightarrow> if usr_Disabled user then fail ErrForbidden else ret user)))"

text \<open>A missing record answers like a refusal; any other error is passed on.\<close>

definition orForbidden :: "'a op \<Rightarrow> 'a op" where
  "orForbidden f = (bindE (tryE f) (\<lambda>r.
   (case r of Inr x \<Rightarrow> ret x | Inl err \<Rightarrow> if errorsIs err ErrNotFound then fail ErrForbidden else fail err)))"

definition Authorize :: "manager \<Rightarrow> authentication \<Rightarrow> uuid \<Rightarrow> role \<Rightarrow> unit op" where
  "Authorize m authn workspaceID minimumRole = (bindE (failIf (auth_UserID authn = 0) ErrUnauthorized) (\<lambda>_.
   bindE (failIf (auth_SecondFactorRequired authn) ErrStepUpRequired) (\<lambda>_.
   bindE (failIf (workspaceID = 0) ErrInvalidInput) (\<lambda>_.
   bindE (enabledUser m (auth_UserID authn)) (\<lambda>_.
   bindE (liftR (normalizeRole (m_workspaceRoles m) minimumRole)) (\<lambda>required.
   bindE ((if auth_Scopes authn \<noteq> [] \<and> \<not> HasScope authn ''*'' then deny m authn workspaceID
      else if auth_WorkspaceID authn \<noteq> 0 \<and> auth_WorkspaceID authn \<noteq> workspaceID then deny m authn workspaceID
      else ret ())) (\<lambda>_.
   bindE (orForbidden (callStore m (\<lambda>ce. WorkspaceByID ce workspaceID))) (\<lambda>workspace.
   bindE (failIf (wsp_DisabledAt workspace \<noteq> None) ErrForbidden) (\<lambda>_.
   bindE (failIf (wsp_RequireMFA workspace \<and> Interactive authn \<and> auth_Level authn < AAL2) ErrStepUpRequired) (\<lambda>_.
   bindE (tryE (callStore m (\<lambda>ce. Membership ce workspaceID (auth_UserID authn)))) (\<lambda>r.
   (case r of
        Inl err \<Rightarrow> if errorsIs err ErrNotFound then deny m authn workspaceID else fail err
      | Inr membership \<Rightarrow>
          if mbr_Status membership \<noteq> MembershipActive \<or> \<not> roleIncludes (m_workspaceRoles m) (mbr_Role membership) required
          then deny m authn workspaceID else ret ()))))))))))))"

definition AuthorizePermission :: "manager \<Rightarrow> authentication \<Rightarrow> uuid \<Rightarrow> permission \<Rightarrow> unit op" where
  "AuthorizePermission m authn workspaceID permission = (bindE (failIf (auth_UserID authn = 0) ErrUnauthorized) (\<lambda>_.
   bindE (failIf (auth_SecondFactorRequired authn) ErrStepUpRequired) (\<lambda>_.
   bindE (failIf (workspaceID = 0 \<or> \<not> workspacePermissionPattern permission) ErrInvalidInput) (\<lambda>_.
   bindE ((if auth_Scopes authn \<noteq> [] \<and> \<not> HasScope authn permission then deny m authn workspaceID else ret ())) (\<lambda>_.
   bindE (enabledUser m (auth_UserID authn)) (\<lambda>_.
   bindE ((if auth_WorkspaceID authn \<noteq> 0 \<and> auth_WorkspaceID authn \<noteq> workspaceID then deny m authn workspaceID else ret ())) (\<lambda>_.
   bindE (orForbidden (callStore m (\<lambda>ce. WorkspaceByID ce workspaceID))) (\<lambda>workspace.
   bindE (failIf (wsp_DisabledAt workspace \<noteq> None) ErrForbidden) (\<lambda>_.
   bindE (failIf (wsp_RequireMFA workspace \<and> Interactive authn \<and> auth_Level authn < AAL2) ErrStepUpRequired) (\<lambda>_.
   bindE (orForbidden (callStore m (\<lambda>ce. Membership ce workspaceID (auth_UserID authn)))) (\<lambda>membership.
   failIf (mbr_Status membership \<noteq> MembershipActive \<or> \<not> roleAllows (m_workspaceRoles m) (mbr_Role membership) permission)
       ErrForbidden)))))))))))"

definition authorizeWorkspaceMutation :: "manager \<Rightarrow> authentication \<Rightarrow> uuid \<Rightarrow> permission \<Rightarrow> string \<Rightarrow> unit op" where
  "authorizeWorkspaceMutation m actor workspaceID permission operation = (bindE (requireScopedStepUp m actor StepUpScopeWorkspace operation) (\<lambda>_.
   bindE (failIf (\<not> validUUIDv7 workspaceID) ErrInvalidInput) (\<lambda>_.
   bindE (enabledUser m (auth_UserID actor)) (\<lambda>_.
   bindE (failIf (auth_WorkspaceID actor \<noteq> 0 \<and> auth_WorkspaceID actor \<noteq> workspaceID) ErrForbidden) (\<lambda>_.
   bindE (orForbidden (callStore m (\<lambda>ce. WorkspaceByID ce workspaceID))) (\<lambda>workspace.
   bindE (failIf (wsp_DisabledAt workspace \<noteq> None \<and> operation \<noteq> ''workspace.enable'') ErrForbidden) (\<lambda>_.
   bindE (orForbidden (callStore m (\<lambda>ce. Membership ce workspaceID (auth_UserID actor)))) (\<lambda>membership.
   failIf (mbr_Status membership \<noteq> MembershipActive \<or> \<not> roleAllows (m_workspaceRoles m) (mbr_Role membership) permission)
       ErrForbidden))))))))"

section \<open>Instance administration\<close>

definition PermissionAdminAccess :: permission where "PermissionAdminAccess = ''admin.access''"
definition PermissionAuditRead :: permission where "PermissionAuditRead = ''admin.audit.read''"
definition PermissionSettingsRead :: permission where "PermissionSettingsRead = ''admin.settings.read''"
definition PermissionSettingsWrite :: permission where "PermissionSettingsWrite = ''admin.settings.write''"
definition PermissionUsersRead :: permission where "PermissionUsersRead = ''admin.users.read''"
definition PermissionUsersWrite :: permission where "PermissionUsersWrite = ''admin.users.write''"
definition PermissionWorkspacesRead :: permission where "PermissionWorkspacesRead = ''admin.workspaces.read''"
definition PermissionWorkspacesWrite :: permission where "PermissionWorkspacesWrite = ''admin.workspaces.write''"
definition PermissionRBACRead :: permission where "PermissionRBACRead = ''admin.rbac.read''"
definition PermissionRBACWrite :: permission where "PermissionRBACWrite = ''admin.rbac.write''"
definition PermissionInstanceRolesRead :: permission where "PermissionInstanceRolesRead = ''admin.instance_roles.read''"
definition PermissionInstanceRolesWrite :: permission where "PermissionInstanceRolesWrite = ''admin.instance_roles.write''"

lemmas admin_permission_names = PermissionAdminAccess_def PermissionAuditRead_def PermissionSettingsRead_def
  PermissionSettingsWrite_def PermissionUsersRead_def PermissionUsersWrite_def PermissionWorkspacesRead_def
  PermissionWorkspacesWrite_def PermissionRBACRead_def PermissionRBACWrite_def PermissionInstanceRolesRead_def
  PermissionInstanceRolesWrite_def

declare admin_permission_names [exec_simps]

definition defaultAdminPermissions :: "(instanceRole, permission list) dict" where
  "defaultAdminPermissions = [
     (InstanceRoleRoot, [PermissionAdminAccess, PermissionAuditRead, PermissionSettingsRead, PermissionSettingsWrite,
        PermissionUsersRead, PermissionUsersWrite, PermissionWorkspacesRead, PermissionWorkspacesWrite,
        PermissionRBACRead, PermissionRBACWrite, PermissionInstanceRolesRead, PermissionInstanceRolesWrite]),
     (InstanceRoleDeveloper, [PermissionAdminAccess, PermissionAuditRead, PermissionSettingsRead, PermissionSettingsWrite,
        PermissionUsersRead, PermissionWorkspacesRead, PermissionRBACRead]),
     (InstanceRoleSupport, [PermissionAdminAccess, PermissionAuditRead, PermissionUsersRead, PermissionUsersWrite,
        PermissionWorkspacesRead]),
     (InstanceRoleMarketing, [PermissionAdminAccess, PermissionSettingsRead, PermissionUsersRead, PermissionWorkspacesRead]),
     (InstanceRoleSales, [PermissionAdminAccess, PermissionUsersRead, PermissionWorkspacesRead])]"

definition selectedPermissions :: "(instanceRole, permission list) dict \<Rightarrow> instanceRole \<Rightarrow> permission list \<Rightarrow> permission list" where
  "selectedPermissions overrides r defaults = (case lookup overrides r of Some configured \<Rightarrow> configured | None \<Rightarrow> defaults)"

definition buildAdminPermissions :: "(instanceRole, permission list) dict \<Rightarrow> (instanceRole, permission list) dict result" where
  "buildAdminPermissions overrides =
    (if list_ex (\<lambda>(r, defaults). list_ex (\<lambda>p. p \<notin> set defaults) (selectedPermissions overrides r defaults)) defaultAdminPermissions
     then Inl ErrInvalidInput
     else if list_ex (\<lambda>(r, _). \<not> has r defaultAdminPermissions) overrides then Inl ErrInvalidInput
     else Inr (mapv (selectedPermissions overrides) defaultAdminPermissions))"

definition hasAdminPermission :: "manager \<Rightarrow> instanceRole \<Rightarrow> permission \<Rightarrow> bool" where
  "hasAdminPermission m r permission =
    (case lookup (m_adminPermissions m) r of None \<Rightarrow> False | Some permissions \<Rightarrow> permission \<in> set permissions)"

definition AuthorizeAdmin :: "manager \<Rightarrow> authentication \<Rightarrow> permission \<Rightarrow> unit op" where
  "AuthorizeAdmin m actor permission = (bindE (failIf (auth_UserID actor = 0) ErrUnauthorized) (\<lambda>_.
   let instanceCredential = (auth_WorkspaceID actor = 0 \<and> (auth_Scopes actor = [] \<or> HasScope actor ''*'')) in
   bindE (tryE (callStore m (\<lambda>ce. UserByID ce (auth_UserID actor)))) (\<lambda>user.
   bindE (tryE (callStore m (\<lambda>ce. storeInstanceAdministrator ce (auth_UserID actor)))) (\<lambda>admin.
   let allowed = (instanceCredential
           \<and> (case user of Inl _ \<Rightarrow> False | Inr u \<Rightarrow> \<not> usr_Disabled u)
           \<and> (case admin of Inl _ \<Rightarrow> False | Inr a \<Rightarrow> hasAdminPermission m (iad_Role a) permission)) in
   bindE (newAudit m (auth_UserID actor) ''admin.access'' ''permission'' permission 0
       (if allowed then AuditSucceeded else AuditFailed) (if allowed then [] else ''forbidden'')) (\<lambda>event.
   bindE (orMapped m ''admin.access'' (callStore m (\<lambda>ce. AppendAudit (m_sha m) ce (auditOnly event)))) (\<lambda>_.
   bindE ((case admin of Inl err \<Rightarrow> failIf (\<not> errorsIs err ErrNotFound) err | Inr _ \<Rightarrow> ret ())) (\<lambda>_.
   bindE ((case user of Inl err \<Rightarrow> failIf (\<not> errorsIs err ErrNotFound) err | Inr _ \<Rightarrow> ret ())) (\<lambda>_.
   failIf (\<not> allowed) ErrForbidden))))))))"

text \<open>A \<^verbatim>\<open>TrustedRequest\<close> is its one field: whether the peer is local.\<close>

definition RequireAdminMutation :: "manager \<Rightarrow> authentication \<Rightarrow> bool \<Rightarrow> unit op" where
  "RequireAdminMutation m actor local = (bindE (failIf (auth_UserID actor = 0 \<or> \<not> Interactive actor) ErrUnauthorized) (\<lambda>_.
   (if local then ret () else RequireStepUp m actor)))"

definition requireAdminMutation :: "manager \<Rightarrow> authentication \<Rightarrow> bool \<Rightarrow> string \<Rightarrow> unit op" where
  "requireAdminMutation m actor local operation = (bindE (failIf (auth_UserID actor = 0 \<or> \<not> Interactive actor) ErrUnauthorized) (\<lambda>_.
   (if local then ret () else requireScopedStepUp m actor StepUpScopeAdmin operation)))"

section \<open>Domains and issued emails\<close>

definition canonicalDomainForLookup :: "manager \<Rightarrow> string \<Rightarrow> string" where
  "canonicalDomainForLookup m domain = (let lowered = ToLower (TrimSpace domain) in
     case lib_ToASCII (m_library m) lowered of Some ascii \<Rightarrow> ascii | None \<Rightarrow> lowered)"

text \<open>\<open>email[at+1:]\<close> after the last \<open>@\<close>, if there is one and something follows it.\<close>

definition addressDomain :: "string \<Rightarrow> string option" where
  "addressDomain email = (let rest = rev (takeWhile (\<lambda>c. c \<noteq> CHR ''@'') (rev email)) in
     if CHR ''@'' \<notin> set email \<or> rest = [] then None else Some rest)"

definition domainRequiresSSO :: "manager \<Rightarrow> string \<Rightarrow> string \<Rightarrow> unit op" where
  "domainRequiresSSO m email action =
    (if \<not> m_domainStore m then ret ()
     else case addressDomain email of
         None \<Rightarrow> ret ()
       | Some name \<Rightarrow> (bindE (tryE (callStore m (\<lambda>ce. ConfirmedWorkspaceDomainByName ce (canonicalDomainForLookup m name)))) (\<lambda>r.
        (case r of
             Inl err \<Rightarrow> if errorsIs err ErrNotFound then ret () else fail err
           | Inr domain \<Rightarrow> if dom_EnforceSSO domain then refuse m 0 action ''sso_required'' ErrSSORequired else ret ()))))"

definition allowEmailIssuance :: "manager \<Rightarrow> string \<Rightarrow> string \<Rightarrow> bool op" where
  "allowEmailIssuance m address purpose =
    (if m_emailIssuanceCooldown m \<le> 0 \<or> \<not> m_emailThrottle m then ret True
     else (let key = b64Encode (tokenDigest m (''email-issuance:'' @ address)) in
      bindE (now m) (\<lambda>t.
      callStore m (\<lambda>ce. ClaimEmailIssuance ce key purpose t (t - m_emailIssuanceCooldown m)))))"

section \<open>HTTP\<close>

definition HTTPStatus :: "error option \<Rightarrow> nat" where
  "HTTPStatus e = (case e of None \<Rightarrow> 200 | Some err \<Rightarrow>
     if errorsIs err ErrInvalidCredentials \<or> errorsIs err ErrUnauthorized \<or> errorsIs err ErrExpired
       \<or> errorsIs err ErrPasskeyCloneDetected \<or> errorsIs err ErrNoPasskey then 401
     else if errorsIs err ErrForbidden \<or> errorsIs err ErrStepUpRequired \<or> errorsIs err ErrSSORequired then 403
     else if errorsIs err ErrNotFound then 404
     else if errorsIs err ErrConflict then 409
     else if errorsIs err ErrInvalidInput then 400
     else if errorsIs err ErrDomainVerification \<or> errorsIs err ErrTransactionRejected then 422
     else if errorsIs err ErrLocked then 429
     else if errorsIs err ErrNotSupported then 501
     else if errorsIs err ErrAuditUnavailable then 503
     else 500)"

section \<open>The gates run the store\<close>

context environment
begin

lemma active_runs [run_rules]: "relates (runs m) (requireActiveUser m u)"
  unfolding requireActiveUser_def by (intro run_rules)

lemma step_up_runs [run_rules]: "relates (runs m) (RequireStepUp m a)" "relates (runs m) (requireRecentInteractive m a)"
  "relates (runs m) (requireInteractive m a)" "relates (runs m) (stepUpCapable m u)"
  unfolding RequireStepUp_def requireRecentInteractive_def requireInteractive_def stepUpCapable_def by (intro run_rules)+

lemma RequireStepUpFor_runs [run_rules]: "relates (runs m) (RequireStepUpFor m a scope)"
  unfolding RequireStepUpFor_def by (intro run_rules)

lemma requireScopedStepUp_runs [run_rules]: "relates (runs m) (requireScopedStepUp m a scope operation)"
  unfolding requireScopedStepUp_def denyStepUp_def by (intro run_rules)

lemma deny_runs [run_rules]: "relates (runs m) (deny m a w)"
  unfolding deny_def emitAuthorizationDenied_def by (intro run_rules)

lemma enabledUser_runs [run_rules]: "relates (runs m) (enabledUser m u)"
  unfolding enabledUser_def by (intro run_rules)

lemma orForbidden_runs [run_rules]: "relates (runs m) f \<Longrightarrow> relates (runs m) (orForbidden f)"
  unfolding orForbidden_def by (intro run_rules)

lemma authorize_runs [run_rules]: "relates (runs m) (Authorize m a w r)" "relates (runs m) (AuthorizePermission m a w p)"
  "relates (runs m) (authorizeWorkspaceMutation m a w p operation)" "relates (runs m) (AuthorizeAdmin m a p)"
  "relates (runs m) (RequireAdminMutation m a b)" "relates (runs m) (requireAdminMutation m a b operation)"
  unfolding Authorize_def AuthorizePermission_def authorizeWorkspaceMutation_def AuthorizeAdmin_def
    RequireAdminMutation_def requireAdminMutation_def by (intro run_rules)+

lemma email_gates_run [run_rules]: "relates (runs m) (domainRequiresSSO m e a)" "relates (runs m) (allowEmailIssuance m e a)"
  unfolding domainRequiresSSO_def allowEmailIssuance_def by (intro run_rules)+

end

end
