(* ===== verification/ManagerSession.thy ===== *)
theory ManagerSession
  imports ManagerGates
begin

text \<open>
  Sessions (\<^verbatim>\<open>session.go\<close>), personal access tokens (\<^verbatim>\<open>pat.go\<close>) and the reading of the audit log (\<^verbatim>\<open>audit.go\<close>).
  An issued credential is the stored record without its digest, together with the raw token.
\<close>

section \<open>Sessions\<close>

definition sessionTokenPrefix :: string where "sessionTokenPrefix = ''cbs''"

definition CreateSession :: "manager \<Rightarrow> authentication \<Rightarrow> (session \<times> string) op" where
  "CreateSession m actor = (bindE (failIf (\<not> m_sessionStore m) ErrNotSupported) (\<lambda>_.
   bindE (failIf (auth_UserID actor = 0) ErrUnauthorized) (\<lambda>_.
   bindE (failIf (\<not> Interactive actor) ErrForbidden) (\<lambda>_.
   bindE (requireActiveUser m (auth_UserID actor)) (\<lambda>_.
   bindE (newID m) (\<lambda>i.
   bindE (randomBytes m 32) (\<lambda>secret.
   let raw = sessionTokenPrefix @ ''_'' @ UUID_String i @ ''_'' @ b64Encode secret in
   let metadata = requestMetadataFromContext m in
   bindE (now m) (\<lambda>t.
   let session = \<lparr>ses_ID = i, ses_UserID = auth_UserID actor, ses_Method = auth_Method actor, ses_Level = auth_Level actor,
           ses_AuthenticatedAt = auth_AuthenticatedAt actor, ses_SecondFactorRequired = auth_SecondFactorRequired actor,
           ses_UserAgent = req_UserAgent metadata, ses_IPAddress = req_IPAddress metadata,
           ses_Digest = tokenDigest m (''session:'' @ raw), ses_CreatedAt = t, ses_LastSeenAt = t,
           ses_ExpiresAt = t + m_sessionTTL m, ses_RevokedAt = None\<rparr> in
   bindE (newAudit m (auth_UserID actor) ''session.create'' ''session'' (UUID_String i) 0 AuditSucceeded []) (\<lambda>event.
   bindE (newEventMeta m ''session.created'' ''auth.session.create'' (auth_UserID actor) 0 event) (\<lambda>meta.
   let scrubbed = session\<lparr>ses_Digest := []\<rparr> in
   bindE (tryE (callStore m (\<lambda>ce. storeCreateSession (m_sha m) ce session (auth_CredentialDigest actor)
       (transactionalCommit m event ''session.creation'' meta)))) (\<lambda>r.
   (case r of
        Inl err \<Rightarrow>
          if errorsIs err ErrConflict \<and> auth_CredentialDigest actor \<noteq> []
          then refuse m (auth_UserID actor) ''session.create'' ''stale_credential'' ErrInvalidCredentials
          else mapStoreError m ''auth.session.create'' err
      | Inr _ \<Rightarrow> (bindE (emit meta) (\<lambda>_.
       ret (scrubbed, raw)))))))))))))))"

text \<open>A token that names no stored session is answered like one that is wrong.\<close>

definition sessionByToken :: "manager \<Rightarrow> string \<Rightarrow> session op" where
  "sessionByToken m raw = (case parseSecretToken sessionTokenPrefix raw of
       None \<Rightarrow> fail ErrInvalidCredentials
     | Some sessionID \<Rightarrow> (bindE (tryE (callStore m (\<lambda>ce. SessionByID ce sessionID))) (\<lambda>r.
      (case r of
             Inl err \<Rightarrow> if errorsIs err ErrNotFound then fail ErrInvalidCredentials else fail err
           | Inr session \<Rightarrow> ret session))))"

definition rejectSession :: "manager \<Rightarrow> session \<Rightarrow> string \<Rightarrow> error \<Rightarrow> 'a op" where
  "rejectSession m session reason err = refuse m (ses_UserID session) ''session.authenticate'' reason err"

definition AuthenticateSession :: "manager \<Rightarrow> string \<Rightarrow> (authentication \<times> session) op" where
  "AuthenticateSession m raw = (bindE (failIf (\<not> m_sessionStore m) ErrNotSupported) (\<lambda>_.
   bindE (sessionByToken m raw) (\<lambda>session.
   bindE ((if \<not> matchTokenDigest m (ses_Digest session) (''session:'' @ raw)
      then rejectSession m session ''invalid_credentials'' ErrInvalidCredentials else ret ())) (\<lambda>_.
   bindE ((if ses_RevokedAt session \<noteq> None then rejectSession m session ''revoked'' ErrInvalidCredentials else ret ())) (\<lambda>_.
   bindE (now m) (\<lambda>t1.
   bindE ((if \<not> t1 < ses_ExpiresAt session then rejectSession m session ''expired'' ErrExpired else ret ())) (\<lambda>_.
   bindE ((if m_sessionIdleTimeout m > 0
      then (bindE (now m) (\<lambda>t2.
       (if \<not> t2 < ses_LastSeenAt session + m_sessionIdleTimeout m then rejectSession m session ''idle'' ErrExpired else ret ())))
      else ret ())) (\<lambda>_.
   bindE (tryE (callStore m (\<lambda>ce. UserByID ce (ses_UserID session)))) (\<lambda>user.
   bindE ((case user of
        Inl userErr \<Rightarrow> if \<not> errorsIs userErr ErrNotFound then fail userErr else rejectSession m session ''user_disabled'' ErrInvalidCredentials
      | Inr u \<Rightarrow> if usr_Disabled u then rejectSession m session ''user_disabled'' ErrInvalidCredentials else ret ())) (\<lambda>_.
   bindE (now m) (\<lambda>t.
   let authn = zeroAuthentication\<lparr>auth_UserID := ses_UserID session, auth_Method := ses_Method session,
           auth_Level := ses_Level session, auth_AuthenticatedAt := ses_AuthenticatedAt session,
           auth_SecondFactorRequired := ses_SecondFactorRequired session\<rparr> in
   (if m_sessionTouchInterval m > 0 \<and> t < ses_LastSeenAt session + m_sessionTouchInterval m
      then ret (authn, session\<lparr>ses_Digest := []\<rparr>)
      else (bindE (newAudit m (ses_UserID session) ''session.authenticate'' ''session'' (UUID_String (ses_ID session)) 0
          AuditSucceeded []) (\<lambda>event.
       bindE (tryE (callStore m (\<lambda>ce. TouchSession (m_sha m) ce (ses_ID session) t (auditOnly event)))) (\<lambda>r.
       (case r of
           Inl err \<Rightarrow>
             if errorsIs err ErrConflict then fail ErrInvalidCredentials
             else mapStoreError m ''auth.session.authenticate'' err
         | Inr _ \<Rightarrow> ret (authn, session\<lparr>ses_LastSeenAt := t, ses_Digest := []\<rparr>)))))))))))))))))"

definition SignOut :: "manager \<Rightarrow> string \<Rightarrow> unit op" where
  "SignOut m raw = (bindE (failIf (\<not> m_sessionStore m) ErrNotSupported) (\<lambda>_.
   bindE (sessionByToken m raw) (\<lambda>session.
   bindE ((if \<not> matchTokenDigest m (ses_Digest session) (''session:'' @ raw)
      then refuse m (ses_UserID session) ''session.sign_out'' ''invalid_credentials'' ErrInvalidCredentials else ret ())) (\<lambda>_.
   (if ses_RevokedAt session \<noteq> None then ret ()
      else (bindE (newAudit m (ses_UserID session) ''session.sign_out'' ''session'' (UUID_String (ses_ID session)) 0
          AuditSucceeded []) (\<lambda>event.
       bindE (newEventMeta m ''session.revoked'' ''auth.session.sign_out'' (ses_UserID session) 0 event) (\<lambda>meta.
       bindE (now m) (\<lambda>t.
       committing m ''auth.session.sign_out'' event ''session.revocation'' meta
          (\<lambda>c. callStore m (\<lambda>ce. storeRevokeSession (m_sha m) ce (ses_ID session) t c)))))))))))"

definition Sessions :: "manager \<Rightarrow> authentication \<Rightarrow> uuid \<Rightarrow> pageRequest \<Rightarrow> world \<Rightarrow> session pageEvent result list \<times> world" where
  "Sessions m actor userID0 page0 = stream (bindE (failIf (\<not> m_sessionStore m) ErrNotSupported) (\<lambda>_.
   bindE (failIf (auth_UserID actor = 0) ErrUnauthorized) (\<lambda>_.
   let userID = (if userID0 = 0 then auth_UserID actor else userID0) in
   bindE ((if userID = auth_UserID actor then requireRecentInteractive m actor
      else (bindE (requireScopedStepUp m actor StepUpScopeAccount ''auth.session.list'') (\<lambda>_.
       AuthorizeAdmin m actor PermissionUsersRead)))) (\<lambda>_.
   bindE (liftR (normalizePage page0)) (\<lambda>page.
   readStream m (\<lambda>ce ctxErr. storeSessions (lib_UnmarshalCursor (m_library m)) ce ctxErr userID page))))))"

definition RevokeSession :: "manager \<Rightarrow> authentication \<Rightarrow> uuid \<Rightarrow> unit op" where
  "RevokeSession m actor sessionID = (bindE (failIf (\<not> m_sessionStore m) ErrNotSupported) (\<lambda>_.
   bindE (requireScopedStepUp m actor StepUpScopeAccount ''auth.session.revoke'') (\<lambda>_.
   bindE (failIf (sessionID = 0) ErrInvalidInput) (\<lambda>_.
   bindE (callStore m (\<lambda>ce. SessionByID ce sessionID)) (\<lambda>session.
   bindE (failIf (ses_UserID session \<noteq> auth_UserID actor) ErrNotFound) (\<lambda>_.
   bindE (newAudit m (auth_UserID actor) ''session.revoke'' ''session'' (UUID_String sessionID) 0 AuditSucceeded []) (\<lambda>event.
   bindE (newEventMeta m ''session.revoked'' ''auth.session.revoke'' (auth_UserID actor) 0 event) (\<lambda>meta.
   bindE (now m) (\<lambda>t.
   committing m ''auth.session.revoke'' event ''session.revocation'' meta
       (\<lambda>c. callStore m (\<lambda>ce. storeRevokeSession (m_sha m) ce sessionID t c)))))))))))"

definition managerRevokeUserSessions :: "manager \<Rightarrow> authentication \<Rightarrow> bool \<Rightarrow> uuid \<Rightarrow> unit op" where
  "managerRevokeUserSessions m actor local userID0 = (bindE (failIf (\<not> m_sessionStore m) ErrNotSupported) (\<lambda>_.
   let userID = (if userID0 = 0 then auth_UserID actor else userID0) in
   bindE (failIf (\<not> validUUIDv7 userID) ErrInvalidInput) (\<lambda>_.
   bindE ((if userID = auth_UserID actor then requireScopedStepUp m actor StepUpScopeAccount ''auth.session.revoke_all''
      else (bindE (requireAdminMutation m actor local ''auth.session.revoke_all'') (\<lambda>_.
       AuthorizeAdmin m actor PermissionUsersWrite)))) (\<lambda>_.
   bindE (newAudit m (auth_UserID actor) ''session.revoke_all'' ''user'' (UUID_String userID) 0 AuditSucceeded []) (\<lambda>event.
   bindE (newEventMeta m ''session.user_revoked'' ''auth.session.revoke_all'' (auth_UserID actor) 0 event) (\<lambda>meta.
   bindE (now m) (\<lambda>t.
   committing m ''auth.session.revoke_all'' event ''session.user_revocation'' meta
       (\<lambda>c. callStore m (\<lambda>ce. RevokeUserSessions (m_sha m) ce userID t c)))))))))"

section \<open>Personal access tokens\<close>

definition defaultPATPrefix :: string where "defaultPATPrefix = ''cbp''"

definition validTokenMarker :: "string \<Rightarrow> bool" where
  "validTokenMarker marker = (marker \<noteq> [] \<and> length marker \<le> 16
     \<and> list_all (\<lambda>c. (CHR ''a'' \<le> c \<and> c \<le> CHR ''z'') \<or> (CHR ''0'' \<le> c \<and> c \<le> CHR ''9'')) marker)"

fun collectScopes :: "string list \<Rightarrow> string list \<Rightarrow> string list result" where
  "collectScopes [] result = Inr (sort result)"
| "collectScopes (scope0 # scopes) result = (let scope = TrimSpace scope0 in
     if scope \<noteq> ''*'' \<and> \<not> workspacePermissionPattern scope then Inl (ValidationError ''scopes'' ''format'')
     else if scope \<in> set result then collectScopes scopes result
     else collectScopes scopes (result @ [scope]))"

definition normalizeScopes :: "string list \<Rightarrow> string list result" where
  "normalizeScopes scopes =
    (if scopes = [] then Inl (ValidationError ''scopes'' ''required'') else collectScopes scopes [])"

record createPATInput =
  cpi_Name :: string
  cpi_WorkspaceID :: uuid
  cpi_Scopes :: "string list"
  cpi_ExpiresAt :: "time option"

definition CreatePAT :: "manager \<Rightarrow> authentication \<Rightarrow> createPATInput \<Rightarrow> (pat \<times> string) op" where
  "CreatePAT m actor input = (bindE (requireScopedStepUp m actor StepUpScopePAT ''auth.pat.create'') (\<lambda>_.
   let name = TrimSpace (cpi_Name input) in
   bindE (failIf (name = [] \<or> length name > 100) (ValidationError ''name'' ''length'')) (\<lambda>_.
   bindE ((case cpi_ExpiresAt input of
        None \<Rightarrow> ret ()
      | Some expiresAt \<Rightarrow> (bindE (now m) (\<lambda>t.
       failIf (\<not> t < expiresAt) (ValidationError ''expires_at'' ''past''))))) (\<lambda>_.
   bindE ((if cpi_WorkspaceID input \<noteq> 0 then AuthorizePermission m actor (cpi_WorkspaceID input) PermissionWorkspaceAccess else ret ())) (\<lambda>_.
   bindE (liftR (normalizeScopes (cpi_Scopes input))) (\<lambda>scopes.
   bindE (randomBytes m 6) (\<lambda>prefixBytes.
   bindE (randomBytes m 32) (\<lambda>secret.
   let prefix = hexEncode prefixBytes in
   let raw = m_patPrefix m @ ''_'' @ prefix @ ''_'' @ b64Encode secret in
   bindE (newID m) (\<lambda>i.
   bindE (now m) (\<lambda>t.
   let token = \<lparr>pat_ID = i, pat_UserID = auth_UserID actor, pat_Name = name, pat_Prefix = prefix,
           pat_Digest = digest (m_sha m) (m_patPepper m) raw, pat_WorkspaceID = cpi_WorkspaceID input, pat_Scopes = scopes,
           pat_CreatedAt = t, pat_ExpiresAt = cpi_ExpiresAt input, pat_LastUsedAt = None, pat_RevokedAt = None\<rparr> in
   bindE (newAudit m (auth_UserID actor) ''pat.create'' ''pat'' (UUID_String i) (cpi_WorkspaceID input) AuditSucceeded []) (\<lambda>event.
   bindE (newEventMeta m ''pat.created'' ''auth.pat.create'' (auth_UserID actor) (cpi_WorkspaceID input) event) (\<lambda>meta.
   bindE (committing m ''auth.pat.create'' event ''pat.creation'' meta
       (\<lambda>c. callStore m (\<lambda>ce. storeCreatePAT (m_sha m) ce token c))) (\<lambda>_.
   ret (token\<lparr>pat_Digest := []\<rparr>, raw))))))))))))))"

definition recordUnknownPATRejection :: "manager \<Rightarrow> auditEvent op" where
  "recordUnknownPATRejection m = (bindE (newAudit m 0 ''auth.pat'' ''user'' (UUID_String 0) 0 AuditFailed ''invalid_credentials'') (\<lambda>event.
   bindE (orMapped m ''auth.pat'' (callStore m (\<lambda>ce. AppendAudit (m_sha m) ce ((auditOnly event)\<lparr>cmt_Unchained := True\<rparr>)))) (\<lambda>_.
   ret event)))"

text \<open>A rejection: the two events, then the answer.\<close>

definition rejectPAT :: "manager \<Rightarrow> uuid \<Rightarrow> uuid \<Rightarrow> auditEvent \<Rightarrow> 'a op" where
  "rejectPAT m actor workspaceID audit = (bindE (emitNew m ''pat.rejected'' ''auth.pat.authenticate'' actor workspaceID audit) (\<lambda>_.
   bindE (emitAuthenticationFailed m ''auth.pat.authenticate'' audit actor) (\<lambda>_.
   fail ErrInvalidCredentials)))"

definition AuthenticatePAT :: "manager \<Rightarrow> string \<Rightarrow> authentication op" where
  "AuthenticatePAT m raw = (bindE ((case parsePAT (m_patPrefix m) raw of
          None \<Rightarrow> ret None
        | Some prefix \<Rightarrow> (bindE (tryE (callStore m (\<lambda>ce. PATByPrefix ce prefix))) (\<lambda>r.
         ret (case r of Inl _ \<Rightarrow> None | Inr token \<Rightarrow> Some token))))) (\<lambda>found.
   bindE (now m) (\<lambda>t.
   let valid = (case found of None \<Rightarrow> False | Some token \<Rightarrow>
           matchDigestRing (m_sha m) (pat_Digest token) (m_readPATPeppers m) raw
           \<and> \<not> (pat_RevokedAt token \<noteq> None
                \<or> (case pat_ExpiresAt token of None \<Rightarrow> False | Some expiresAt \<Rightarrow> \<not> t < expiresAt))) in
   let token = (case found of None \<Rightarrow> zeroPAT | Some token \<Rightarrow> token) in
   bindE ((if \<not> valid
      then (let actor = (if pat_ID token \<noteq> 0 then pat_UserID token else 0) in
       bindE ((if actor = 0 then recordUnknownPATRejection m
          else recordAuthenticationAudit m actor ''auth.pat'' AuditFailed ''invalid_credentials'')) (\<lambda>audit.
       rejectPAT m actor 0 audit))
      else ret ())) (\<lambda>_.
   bindE (tryE (callStore m (\<lambda>ce. UserByID ce (pat_UserID token)))) (\<lambda>user.
   bindE ((if (case user of Inl _ \<Rightarrow> True | Inr u \<Rightarrow> usr_Disabled u)
      then (bindE (recordAuthenticationAudit m (pat_UserID token) ''auth.pat'' AuditFailed ''invalid_credentials'') (\<lambda>audit.
       rejectPAT m (pat_UserID token) (pat_WorkspaceID token) audit))
      else ret ())) (\<lambda>_.
   bindE ((if pat_WorkspaceID token \<noteq> 0
      then (bindE (tryE (AuthorizePermission m
            (zeroAuthentication\<lparr>auth_UserID := pat_UserID token, auth_WorkspaceID := pat_WorkspaceID token\<rparr>)
            (pat_WorkspaceID token) PermissionWorkspaceAccess)) (\<lambda>r.
       (case r of Inl _ \<Rightarrow> fail ErrInvalidCredentials | Inr _ \<Rightarrow> ret ())))
      else ret ())) (\<lambda>_.
   let authn = zeroAuthentication\<lparr>auth_UserID := pat_UserID token, auth_Method := MethodPAT, auth_Level := AAL1,
           auth_AuthenticatedAt := t, auth_WorkspaceID := pat_WorkspaceID token, auth_Scopes := pat_Scopes token\<rparr> in
   (if m_patTouchInterval m > 0
         \<and> (case pat_LastUsedAt token of None \<Rightarrow> False | Some lastUsedAt \<Rightarrow> t < lastUsedAt + m_patTouchInterval m)
      then ret authn
      else (bindE (newAudit m (pat_UserID token) ''auth.pat'' ''pat'' (UUID_String (pat_ID token)) (pat_WorkspaceID token)
          AuditSucceeded []) (\<lambda>event.
       bindE (orMapped m ''auth.pat.authenticate'' (callStore m (\<lambda>ce. TouchPAT (m_sha m) ce (pat_ID token) t (auditOnly event)))) (\<lambda>_.
       bindE (emitNew m ''pat.authenticated'' ''auth.pat.authenticate'' (pat_UserID token) (pat_WorkspaceID token) event) (\<lambda>_.
       bindE (emitAuthenticationSucceeded m ''auth.pat.authenticate'' event authn) (\<lambda>_.
       ret authn)))))))))))))"

definition RevokePAT :: "manager \<Rightarrow> authentication \<Rightarrow> uuid \<Rightarrow> unit op" where
  "RevokePAT m actor patID = (bindE (requireScopedStepUp m actor StepUpScopePAT ''auth.pat.revoke'') (\<lambda>_.
   bindE (failIf (patID = 0) ErrInvalidInput) (\<lambda>_.
   bindE (newAudit m (auth_UserID actor) ''pat.revoke'' ''pat'' (UUID_String patID) 0 AuditSucceeded []) (\<lambda>event.
   bindE (newEventMeta m ''pat.revoked'' ''auth.pat.revoke'' (auth_UserID actor) 0 event) (\<lambda>meta.
   bindE (now m) (\<lambda>t.
   committing m ''auth.pat.revoke'' event ''pat.revocation'' meta
       (\<lambda>c. callStore m (\<lambda>ce. storeRevokePAT (m_sha m) ce (auth_UserID actor) patID t c))))))))"

definition PATs :: "manager \<Rightarrow> authentication \<Rightarrow> uuid \<Rightarrow> pageRequest \<Rightarrow> world \<Rightarrow> pat pageEvent result list \<times> world" where
  "PATs m actor userID0 page0 = stream (bindE (failIf (auth_UserID actor = 0) ErrUnauthorized) (\<lambda>_.
   let userID = (if userID0 = 0 then auth_UserID actor else userID0) in
   bindE ((if userID = auth_UserID actor then requireInteractive m actor else AuthorizeAdmin m actor PermissionUsersRead)) (\<lambda>_.
   bindE (liftR (normalizePage page0)) (\<lambda>page.
   readStream m (\<lambda>ce ctxErr. storePATs (lib_UnmarshalCursor (m_library m)) ce ctxErr userID page)))))"

text \<open>
  A page joined with the accounts its items name: an item whose account is gone is left out, any other
  error ends the stream. Each account is looked up when its item is reached.
\<close>

fun joinUsers :: "manager \<Rightarrow> ('a \<Rightarrow> uuid) \<Rightarrow> ('a \<Rightarrow> user \<Rightarrow> 'b) \<Rightarrow> 'a pageEvent result list \<Rightarrow> 'b pageEvent result list op" where
  "joinUsers m owner pair [] = ret []"
| "joinUsers m owner pair (Inl err # events) = ret [Inl err]"
| "joinUsers m owner pair (Inr (EndEvent pe) # events) = (bindE (joinUsers m owner pair events) (\<lambda>rest.
 ret (Inr (EndEvent pe) # rest)))"
| "joinUsers m owner pair (Inr (ItemEvent x) # events) = (bindE (tryE (callStore m (\<lambda>ce. UserByID ce (owner x)))) (\<lambda>r.
 (case r of
        Inl userErr \<Rightarrow> if errorsIs userErr ErrNotFound then joinUsers m owner pair events else ret [Inl userErr]
      | Inr user \<Rightarrow> (bindE (joinUsers m owner pair events) (\<lambda>rest.
       ret (Inr (ItemEvent (pair x user)) # rest))))))"

definition WorkspacePATs :: "manager \<Rightarrow> authentication \<Rightarrow> uuid \<Rightarrow> pageRequest \<Rightarrow> world
    \<Rightarrow> (pat \<times> user) pageEvent result list \<times> world" where
  "WorkspacePATs m actor workspaceID page0 = stream (bindE (AuthorizePermission m actor workspaceID PermissionWorkspaceCredentialsManage) (\<lambda>_.
   bindE (liftR (normalizePage page0)) (\<lambda>page.
   bindE (readStream m (\<lambda>ce ctxErr. storeWorkspacePATs (lib_UnmarshalCursor (m_library m)) ce ctxErr workspaceID page)) (\<lambda>events.
   joinUsers m pat_UserID (\<lambda>token user. (token\<lparr>pat_Digest := []\<rparr>, user)) events))))"

definition RevokeWorkspacePAT :: "manager \<Rightarrow> authentication \<Rightarrow> uuid \<Rightarrow> uuid \<Rightarrow> unit op" where
  "RevokeWorkspacePAT m actor workspaceID patID = (bindE (authorizeWorkspaceMutation m actor workspaceID PermissionWorkspaceCredentialsManage ''pat.workspace.revoke'') (\<lambda>_.
   bindE (failIf (patID = 0) ErrInvalidInput) (\<lambda>_.
   bindE (orMapped m ''auth.pat.workspace_revoke'' (callStore m (\<lambda>ce. PATByID ce patID))) (\<lambda>token.
   bindE (failIf (pat_WorkspaceID token \<noteq> workspaceID) ErrNotFound) (\<lambda>_.
   bindE (newAudit m (auth_UserID actor) ''pat.revoke'' ''pat'' (UUID_String patID) workspaceID AuditSucceeded []) (\<lambda>event.
   bindE (newEventMeta m ''pat.revoked'' ''auth.pat.workspace_revoke'' (auth_UserID actor) workspaceID event) (\<lambda>meta.
   bindE (now m) (\<lambda>t.
   committing m ''auth.pat.workspace_revoke'' event ''pat.revocation'' meta
       (\<lambda>c. callStore m (\<lambda>ce. storeRevokePAT (m_sha m) ce (pat_UserID token) patID t c))))))))))"

section \<open>The audit log\<close>

text \<open>The head is read after the events: what other requests append in between, the loop has not seen.\<close>

definition VerifyAuditChainFrom :: "manager \<Rightarrow> authentication \<Rightarrow> auditChainCheckpoint \<Rightarrow> auditChainReport op" where
  "VerifyAuditChainFrom m actor checkpoint = (bindE (AuthorizeAdmin m actor PermissionAuditRead) (\<lambda>_.
   bindE (failIf (\<not> checkpointValid checkpoint) ErrInvalidInput) (\<lambda>_.
   let previous0 = (if chk_Sequence checkpoint > 0 then chk_Hash checkpoint else auditChainGenesis) in
   let sequence0 = (if chk_Sequence checkpoint > 0 then chk_Sequence checkpoint else 0) in
   bindE (callStore m (\<lambda>ce. ChainedAuditEvents ce sequence0)) (\<lambda>events.
   bindE (liftR (verifyEvents (m_sha m) sequence0 previous0 events)) (\<lambda>(sequence, previous).
   bindE (callStore m (\<lambda>ce. AuditChainHead ce)) (\<lambda>(headSequence, headHash).
   bindE (failIf (headSequence \<noteq> sequence \<or> headHash \<noteq> previous) ErrAuditCompromised) (\<lambda>_.
   ret \<lparr>rep_Events = sequence, rep_HeadSequence = headSequence, rep_HeadHash = headHash\<rparr>)))))))"

definition VerifyAuditChain :: "manager \<Rightarrow> authentication \<Rightarrow> auditChainReport op" where
  "VerifyAuditChain m actor = VerifyAuditChainFrom m actor \<lparr>chk_Sequence = 0, chk_Hash = []\<rparr>"

definition AuditEvents :: "manager \<Rightarrow> authentication \<Rightarrow> uuid \<Rightarrow> pageRequest \<Rightarrow> world \<Rightarrow> auditEvent pageEvent result list \<times> world" where
  "AuditEvents m actor workspaceID page0 = stream (bindE (requireScopedStepUp m actor StepUpScopeWorkspace ''audit.workspace.list'') (\<lambda>_.
   bindE (AuthorizePermission m actor workspaceID PermissionWorkspaceAuditRead) (\<lambda>_.
   bindE (liftR (normalizePage page0)) (\<lambda>page.
   readStream m (\<lambda>ce ctxErr. storeAuditEvents (lib_UnmarshalCursor (m_library m)) ce workspaceID page)))))"

definition InstanceAuditEvents :: "manager \<Rightarrow> authentication \<Rightarrow> pageRequest \<Rightarrow> world \<Rightarrow> auditEvent pageEvent result list \<times> world" where
  "InstanceAuditEvents m actor page0 = stream (bindE (AuthorizeAdmin m actor PermissionAuditRead) (\<lambda>_.
   bindE (liftR (normalizePage page0)) (\<lambda>page.
   readStream m (\<lambda>ce ctxErr. storeInstanceAuditEvents (lib_UnmarshalCursor (m_library m)) ce page))))"

section \<open>The operations run the store\<close>

text \<open>What a call returned may be used to show that the rest runs the store.\<close>

lemma relates_bindE_result:
  assumes trans: "\<And>a b c. R a b \<Longrightarrow> R b c \<Longrightarrow> R a c"
    and "relates R f" and "\<And>s x s'. f s = (Inr x, s') \<Longrightarrow> relates R (k x)"
  shows "relates R (bindE f k)"
proof (unfold relates_def, intro allI)
  fix s
  obtain r s' where f: "f s = (r, s')" by (cases "f s")
  with assms(2) have R1: "R s s'" by (metis relates_def snd_conv)
  show "R s (snd (bindE f k s))"
  proof (cases r)
    case (Inr x)
    with assms(3) f have "R s' (snd (k x s'))" by (simp add: relates_def)
    with R1 have "R s (snd (k x s'))" by (rule trans)
    with Inr f show ?thesis by (simp add: bindE_def)
  qed (use f R1 in \<open>simp add: bindE_def\<close>)
qed

context environment
begin

lemma sessions_run [run_rules]: "relates (runs m) (CreateSession m a)" "relates (runs m) (sessionByToken m raw)"
  "relates (runs m) (RevokeSession m a i)" "relates (runs m) (managerRevokeUserSessions m a b i)"
  unfolding CreateSession_def sessionByToken_def RevokeSession_def managerRevokeUserSessions_def by (intro run_rules; assumption)+

lemma session_tokens_run [run_rules]: "relates (runs m) (AuthenticateSession m raw)" "relates (runs m) (SignOut m raw)"
  unfolding AuthenticateSession_def SignOut_def rejectSession_def by (intro run_rules; assumption)+

lemma tokens_run [run_rules]: "relates (runs m) (CreatePAT m a pin)" "relates (runs m) (rejectPAT m u w aev)"
  "relates (runs m) (RevokePAT m a i)" "relates (runs m) (RevokeWorkspacePAT m a w i)"
  unfolding CreatePAT_def rejectPAT_def RevokePAT_def RevokeWorkspacePAT_def by (intro run_rules; assumption)+

text \<open>The one event written outside the chain carries no sequence number.\<close>

lemma unchained_runs [run_rules]: "relates (runs m) (recordUnknownPATRejection m)"
proof -
  have "commitOk ((auditOnly event)\<lparr>cmt_Unchained := True\<rparr>)"
    if "newAudit m u a t i ws out r w = (Inr event, w')" for u a t i ws out r w w' event
    using that by (auto simp: newAudit_def bindE_Inr commitOk_def auditOnly_def)
  then show ?thesis unfolding recordUnknownPATRejection_def
    by (intro relates_bindE_result [where R = "runs m", OF runs_trans newAudit_runs] run_rules)
qed

lemma AuthenticatePAT_runs [run_rules]: "relates (runs m) (AuthenticatePAT m raw)"
  unfolding AuthenticatePAT_def by (intro run_rules)

lemma joinUsers_runs [run_rules]: "relates (runs m) (joinUsers m owner pair events)"
proof (induction events)
  case (Cons e events)
  then show ?case
    by (cases e; (cases "projr e")?) (auto intro!: run_rules)
qed (simp add: run_rules)

lemma audit_runs [run_rules]: "relates (runs m) (VerifyAuditChainFrom m a chk)" "relates (runs m) (VerifyAuditChain m a)"
  unfolding VerifyAuditChain_def VerifyAuditChainFrom_def by (intro run_rules; assumption)+

lemma session_streams_run [run_rules]: "relates (runs m) (Sessions m a u page)" "relates (runs m) (PATs m a u page)"
  "relates (runs m) (WorkspacePATs m a w page)" "relates (runs m) (AuditEvents m a w page)"
  "relates (runs m) (InstanceAuditEvents m a page)"
  unfolding Sessions_def PATs_def WorkspacePATs_def AuditEvents_def InstanceAuditEvents_def
  by (intro run_rules stream_runs)+

end

end
