(* ===== verification/ManagerAuth.thy ===== *)
theory ManagerAuth
  imports ManagerSession
begin

text \<open>
  Accounts and passwords (\<^verbatim>\<open>auth.go\<close>), role grants (\<^verbatim>\<open>rbac.go\<close>) and instance administrators (\<^verbatim>\<open>admin.go\<close>).
  A message wrapped around an error keeps what the error matches, so wrapped errors are the errors
  themselves.
\<close>

section \<open>Accounts\<close>

record bootstrapInput =
  bsi_Email :: string
  bsi_DisplayName :: string
  bsi_Password :: string
  bsi_WorkspaceName :: string

record createUserInput =
  cui_Email :: string
  cui_DisplayName :: string
  cui_Password :: string
  cui_Role :: role

text \<open>The records of a new account, as every operation that creates one fills them.\<close>

definition newUser :: "uuid \<Rightarrow> string \<Rightarrow> string \<Rightarrow> time \<Rightarrow> user" where
  "newUser i email displayName t = \<lparr>usr_ID = i, usr_Email = email, usr_DisplayName = displayName, usr_Disabled = False,
     usr_LastSeenAt = None, usr_CreatedAt = t, usr_UpdatedAt = t\<rparr>"

definition newPrimaryEmail :: "uuid \<Rightarrow> uuid \<Rightarrow> string \<Rightarrow> time option \<Rightarrow> time \<Rightarrow> emailAddress" where
  "newPrimaryEmail i userID email verifiedAt t = \<lparr>eml_ID = i, eml_UserID = userID, eml_Address = email, eml_Primary = True,
     eml_VerifiedAt = verifiedAt, eml_CreatedAt = t, eml_UpdatedAt = t\<rparr>"

definition newWorkspace :: "uuid \<Rightarrow> string \<Rightarrow> bool \<Rightarrow> time \<Rightarrow> workspace" where
  "newWorkspace i name requireMFA t = \<lparr>wsp_ID = i, wsp_Name = name, wsp_RequireMFA = requireMFA, wsp_CreatedAt = t,
     wsp_UpdatedAt = t, wsp_DisabledAt = None\<rparr>"

definition localMembership :: "uuid \<Rightarrow> uuid \<Rightarrow> role \<Rightarrow> membershipStatus \<Rightarrow> time \<Rightarrow> time \<Rightarrow> membership" where
  "localMembership workspaceID userID r status createdAt t = \<lparr>mbr_WorkspaceID = workspaceID, mbr_UserID = userID, mbr_Role = r,
     mbr_Status = status, mbr_ProvisioningSource = ProvisioningSourceLocal, mbr_CreatedAt = createdAt, mbr_UpdatedAt = t\<rparr>"

definition passwordOf :: "uuid \<Rightarrow> string \<Rightarrow> time \<Rightarrow> passwordCredential" where
  "passwordOf userID hash t = \<lparr>pwc_UserID = userID, pwc_Hash = hash, pwc_UpdatedAt = t\<rparr>"

definition managerBootstrap :: "manager \<Rightarrow> bootstrapInput \<Rightarrow> (authentication \<times> workspace) op" where
  "managerBootstrap m input = (bindE (liftR (validEmail m (bsi_Email input))) (\<lambda>email.
   bindE (failIf (TrimSpace (bsi_DisplayName input) = []) (ValidationError ''display_name'' ''required'')) (\<lambda>_.
   bindE (failIf (TrimSpace (bsi_WorkspaceName input) = []) (ValidationError ''workspace_name'' ''required'')) (\<lambda>_.
   bindE (liftR (validatePassword m (bsi_Password input))) (\<lambda>_.
   bindE (hashPassword m (bsi_Password input)) (\<lambda>hash.
   bindE (newID m) (\<lambda>userID.
   bindE (newID m) (\<lambda>emailID.
   bindE (newID m) (\<lambda>workspaceID.
   bindE (now m) (\<lambda>t.
   let user = (newUser userID email (TrimSpace (bsi_DisplayName input)) t)\<lparr>usr_LastSeenAt := Some t\<rparr> in
   let primaryEmail = newPrimaryEmail emailID userID email (Some t) t in
   let workspace = newWorkspace workspaceID (TrimSpace (bsi_WorkspaceName input)) False t in
   let membership = localMembership workspaceID userID RoleAdmin MembershipActive t t in
   let instanceAdmin = \<lparr>iad_UserID = userID, iad_Role = InstanceRoleRoot, iad_CreatedAt = t, iad_UpdatedAt = t\<rparr> in
   bindE (newAudit m userID ''instance.bootstrap'' ''workspace'' (UUID_String workspaceID) workspaceID AuditSucceeded []) (\<lambda>event.
   bindE (newEventMeta m ''user.created'' ''auth.bootstrap'' userID workspaceID event) (\<lambda>userMeta.
   bindE (newEventMeta m ''workspace.created'' ''auth.bootstrap'' userID workspaceID event) (\<lambda>workspaceMeta.
   bindE (newEventMeta m ''bootstrap.completed'' ''auth.bootstrap'' userID workspaceID event) (\<lambda>bootstrapMeta.
   let commit = commitOf m event [(''user.create'', userMeta), (''workspace.create'', workspaceMeta)] in
   bindE (orMapped m ''auth.bootstrap'' (callStore m (\<lambda>ce. Bootstrap (m_sha m) ce user primaryEmail (passwordOf userID hash t)
       workspace membership instanceAdmin commit))) (\<lambda>_.
   bindE (emit userMeta) (\<lambda>_.
   bindE (emit workspaceMeta) (\<lambda>_.
   bindE (emit bootstrapMeta) (\<lambda>_.
   ret (zeroAuthentication\<lparr>auth_UserID := userID, auth_Method := MethodPassword, auth_Level := AAL1,
            auth_AuthenticatedAt := t, auth_CredentialDigest := CredentialFingerprint (m_sha m) hash\<rparr>, workspace)))))))))))))))))))"

definition CreateUser :: "manager \<Rightarrow> authentication \<Rightarrow> uuid \<Rightarrow> createUserInput \<Rightarrow> user op" where
  "CreateUser m actor workspaceID input = (bindE (requireScopedStepUp m actor StepUpScopeWorkspace ''auth.user.create'') (\<lambda>_.
   bindE (AuthorizePermission m actor workspaceID PermissionWorkspaceUsersWrite) (\<lambda>_.
   bindE (liftR (validEmail m (cui_Email input))) (\<lambda>email.
   bindE (failIf (TrimSpace (cui_DisplayName input) = []) (ValidationError ''display_name'' ''required'')) (\<lambda>_.
   bindE (liftR (normalizeRole (m_workspaceRoles m) (cui_Role input))) (\<lambda>r.
   bindE (liftR (validatePassword m (cui_Password input))) (\<lambda>_.
   bindE (hashPassword m (cui_Password input)) (\<lambda>hash.
   bindE (newID m) (\<lambda>i.
   bindE (newID m) (\<lambda>emailID.
   bindE (now m) (\<lambda>t.
   let user = newUser i email (TrimSpace (cui_DisplayName input)) t in
   let primaryEmail = newPrimaryEmail emailID i email (Some t) t in
   let membership = localMembership workspaceID i r MembershipActive t t in
   bindE (newAudit m (auth_UserID actor) ''user.create'' ''user'' (UUID_String i) workspaceID AuditSucceeded []) (\<lambda>event.
   bindE (newEventMeta m ''user.created'' ''auth.user.create'' (auth_UserID actor) workspaceID event) (\<lambda>meta.
   bindE (committing m ''auth.user.create'' event ''user.create'' meta
       (\<lambda>c. callStore m (\<lambda>ce. storeCreateUser (m_sha m) ce user primaryEmail (passwordOf i hash t) membership c))) (\<lambda>_.
   ret user))))))))))))))"

section \<open>Passwords\<close>

definition failPassword :: "manager \<Rightarrow> uuid \<Rightarrow> auditEvent \<Rightarrow> 'a op" where
  "failPassword m userID audit = (bindE (emitAuthenticationFailed m ''auth.password.authenticate'' audit userID) (\<lambda>_.
   fail ErrInvalidCredentials))"

definition failStalePassword :: "manager \<Rightarrow> uuid \<Rightarrow> error \<Rightarrow> 'a op" where
  "failStalePassword m userID cause =
    (if \<not> errorsIs cause ErrInvalidCredentials then fail cause
     else (bindE (recordAuthenticationAudit m userID ''auth.password'' AuditFailed ''stale_credential'') (\<lambda>audit.
      failPassword m userID audit)))"

definition confirmPasswordCurrent :: "manager \<Rightarrow> uuid \<Rightarrow> string \<Rightarrow> string \<Rightarrow> string op" where
  "confirmPasswordCurrent m userID password verifiedHash = (bindE (tryE (callStore m (\<lambda>ce. PasswordByUserID ce userID))) (\<lambda>r.
   (case r of
        Inl err \<Rightarrow> if errorsIs err ErrNotFound then fail ErrInvalidCredentials else fail err
      | Inr credential \<Rightarrow>
          if pwc_Hash credential = verifiedHash then ret verifiedHash
          else (bindE (liftR (m_Verify m password (pwc_Hash credential))) (\<lambda>(matches, rehash).
           bindE (failIf (\<not> matches) ErrInvalidCredentials) (\<lambda>_.
           ret (pwc_Hash credential)))))))"

definition recordPasswordAuthentication :: "manager \<Rightarrow> uuid \<Rightarrow> string \<Rightarrow> auditEvent op" where
  "recordPasswordAuthentication m userID currentHash = (bindE (newAudit m userID ''auth.password'' ''user'' (UUID_String userID) 0 AuditSucceeded []) (\<lambda>event.
   bindE (now m) (\<lambda>t.
   bindE (tryE (callStore m (\<lambda>ce. RecordPasswordAuthentication (m_sha m) ce userID currentHash t (auditOnly event)))) (\<lambda>r.
   (case r of
        Inl storeErr \<Rightarrow> if errorsIs storeErr ErrConflict then fail ErrConflict else mapStoreError m ''auth.password'' storeErr
      | Inr _ \<Rightarrow> ret event)))))"

text \<open>The loop of the guarded finalization: two retries, each against the hash the password still verifies.\<close>

definition confirmOrFail :: "manager \<Rightarrow> uuid \<Rightarrow> string \<Rightarrow> string \<Rightarrow> string op" where
  "confirmOrFail m userID password currentHash = (bindE (tryE (confirmPasswordCurrent m userID password currentHash)) (\<lambda>r.
   (case r of Inl staleErr \<Rightarrow> failStalePassword m userID staleErr | Inr refreshed \<Rightarrow> ret refreshed)))"

fun finalizePassword :: "manager \<Rightarrow> uuid \<Rightarrow> string \<Rightarrow> string \<Rightarrow> nat \<Rightarrow> (auditEvent \<times> string) op" where
  "finalizePassword m userID password currentHash retries = (bindE (tryE (recordPasswordAuthentication m userID currentHash)) (\<lambda>r.
   (case r of
        Inr recorded \<Rightarrow> ret (recorded, currentHash)
      | Inl auditErr \<Rightarrow>
          if \<not> errorsIs auditErr ErrConflict then fail auditErr
          else case retries of
              0 \<Rightarrow> failStalePassword m userID ErrInvalidCredentials
            | Suc n \<Rightarrow> (bindE (confirmOrFail m userID password currentHash) (\<lambda>refreshed.
             finalizePassword m userID password refreshed n)))))"

declare finalizePassword.simps [simp del]

definition rehashPassword :: "manager \<Rightarrow> uuid \<Rightarrow> string \<Rightarrow> string \<Rightarrow> string op" where
  "rehashPassword m userID password hash = (bindE (hashPassword m password) (\<lambda>newHash.
   bindE (newAudit m userID ''password.rehash'' ''user'' (UUID_String userID) 0 AuditSucceeded []) (\<lambda>event.
   bindE (newEventMeta m ''password.rehashed'' ''auth.password.authenticate'' userID 0 event) (\<lambda>meta.
   bindE (now m) (\<lambda>t.
   bindE (tryE (callStore m (\<lambda>ce. RehashPassword (m_sha m) ce (passwordOf userID newHash t) hash (auditOnly event)))) (\<lambda>r.
   (case r of
        Inl replaceErr \<Rightarrow> if errorsIs replaceErr ErrConflict then ret hash else mapStoreError m ''auth.password.rehash'' replaceErr
      | Inr _ \<Rightarrow> (bindE (emit meta) (\<lambda>_.
       ret newHash)))))))))"

text \<open>
  What a sign-in looks up: the account, the hash to verify against (the dummy hash where there is none),
  the throttle, and an infrastructure error that is answered only after the password was verified.
\<close>

record passwordLookup =
  pwl_User :: "user option"
  pwl_Hash :: string
  pwl_LockedUntil :: "time option"
  pwl_Error :: "error option"

definition lookupPassword :: "manager \<Rightarrow> string \<Rightarrow> passwordLookup op" where
  "lookupPassword m normalized = (bindE (tryE (callStore m (\<lambda>ce. UserByEmail ce normalized))) (\<lambda>u.
   (case u of
        Inl lookupErr \<Rightarrow> ret \<lparr>pwl_User = None, pwl_Hash = m_dummyHash m, pwl_LockedUntil = None,
          pwl_Error = (if errorsIs lookupErr ErrNotFound then None else Some lookupErr)\<rparr>
      | Inr user \<Rightarrow> (bindE (tryE (callStore m (\<lambda>ce. PasswordByUserID ce (usr_ID user)))) (\<lambda>c.
       let hash = (case c of Inr credential \<Rightarrow> pwc_Hash credential | Inl _ \<Rightarrow> m_dummyHash m) in
       let infrastructureErr = (case c of Inr _ \<Rightarrow> None | Inl err \<Rightarrow> if errorsIs err ErrNotFound then None else Some err) in
       (if m_maxFailedLogins m > 0 \<and> infrastructureErr = None
           then (bindE (tryE (callStore m (\<lambda>ce. LoginThrottleByUserID ce (usr_ID user)))) (\<lambda>h.
            ret \<lparr>pwl_User = Some user, pwl_Hash = hash,
               pwl_LockedUntil = (case h of Inr throttle \<Rightarrow> thr_LockedUntil throttle | Inl _ \<Rightarrow> None),
               pwl_Error = (case h of Inr _ \<Rightarrow> None | Inl err \<Rightarrow> if errorsIs err ErrNotFound then None else Some err)\<rparr>))
           else ret \<lparr>pwl_User = Some user, pwl_Hash = hash, pwl_LockedUntil = None, pwl_Error = infrastructureErr\<rparr>))))))"

text \<open>What follows a verified password: rehash, pending second factor, guarded finalization.\<close>

definition completePassword :: "manager \<Rightarrow> uuid \<Rightarrow> string \<Rightarrow> string \<Rightarrow> bool \<Rightarrow> authentication op" where
  "completePassword m userID password hash rehash = (bindE ((if rehash then rehashPassword m userID password hash else ret hash)) (\<lambda>currentHash.
   bindE (tryE (callStore m (\<lambda>ce. TOTPByUserID ce userID))) (\<lambda>f.
   let requiresSecondFactor = (case f of Inr factor \<Rightarrow> otp_Active factor | Inl _ \<Rightarrow> False) in
   bindE ((case f of Inl factorErr \<Rightarrow> failIf (\<not> errorsIs factorErr ErrNotFound) factorErr | Inr _ \<Rightarrow> ret ())) (\<lambda>_.
   bindE ((if requiresSecondFactor
        then (bindE (confirmOrFail m userID password currentHash) (\<lambda>refreshed.
         bindE (newAudit m userID ''auth.password'' ''user'' (UUID_String userID) 0 AuditSucceeded []) (\<lambda>event.
         bindE (orMapped m ''auth.password'' (callStore m (\<lambda>ce. AppendAudit (m_sha m) ce (auditOnly event)))) (\<lambda>_.
         ret (event, refreshed)))))
        else finalizePassword m userID password currentHash 2)) (\<lambda>(audit, finalHash).
   bindE (now m) (\<lambda>t.
   let authn = zeroAuthentication\<lparr>auth_UserID := userID, auth_Method := MethodPassword, auth_Level := AAL1,
           auth_AuthenticatedAt := t, auth_SecondFactorRequired := requiresSecondFactor,
           auth_CredentialDigest := CredentialFingerprint (m_sha m) finalHash\<rparr> in
   bindE (emitAuthenticationSucceeded m ''auth.password.authenticate'' audit authn) (\<lambda>_.
   ret authn)))))))"

definition AuthenticatePassword :: "manager \<Rightarrow> string \<Rightarrow> string \<Rightarrow> authentication op" where
  "AuthenticatePassword m email password = (let normalized = normalizeEmail email in
   bindE (domainRequiresSSO m normalized ''auth.password'') (\<lambda>_.
   bindE (lookupPassword m normalized) (\<lambda>found.
   bindE (liftR (m_Verify m password (pwl_Hash found))) (\<lambda>(matches, rehash).
   bindE ((case pwl_Error found of Some err \<Rightarrow> fail err | None \<Rightarrow> ret ())) (\<lambda>_.
   let userID = (case pwl_User found of Some user \<Rightarrow> usr_ID user | None \<Rightarrow> 0) in
   bindE ((case pwl_LockedUntil found of
        None \<Rightarrow> ret ()
      | Some lockedUntil \<Rightarrow> (bindE (now m) (\<lambda>t.
       (if t < lockedUntil
           then (bindE (recordAuthenticationAudit m userID ''auth.password'' AuditFailed ''locked'') (\<lambda>audit.
            failPassword m userID audit))
           else ret ()))))) (\<lambda>_.
   (if (case pwl_User found of None \<Rightarrow> True | Some user \<Rightarrow> \<not> matches \<or> usr_Disabled user)
      then (bindE (recordAuthenticationFailure m userID ''auth.password''
          (case pwl_User found of None \<Rightarrow> False | Some user \<Rightarrow> \<not> usr_Disabled user \<and> \<not> matches)) (\<lambda>audit.
       failPassword m userID audit))
      else completePassword m userID password (pwl_Hash found) rehash)))))))"

definition ChangePassword :: "manager \<Rightarrow> authentication \<Rightarrow> string \<Rightarrow> string \<Rightarrow> unit op" where
  "ChangePassword m actor currentPassword newPassword = (let userID = auth_UserID actor in
   bindE (requireRecentInteractive m actor) (\<lambda>_.
   bindE (requireUnlocked m userID ''password.change'') (\<lambda>_.
   bindE (liftR (validatePassword m newPassword)) (\<lambda>_.
   bindE (tryE (callStore m (\<lambda>ce. PasswordByUserID ce userID))) (\<lambda>c.
   (case c of
        Inl _ \<Rightarrow> fail ErrInvalidCredentials
      | Inr credential \<Rightarrow> (bindE (liftR (m_Verify m currentPassword (pwc_Hash credential))) (\<lambda>(matches, rehash).
       bindE ((if \<not> matches
           then (bindE (recordAuthenticationFailure m userID ''password.change'' True) (\<lambda>failedAudit.
            bindE (emitAuthenticationFailed m ''auth.password.change'' failedAudit userID) (\<lambda>_.
            fail ErrInvalidCredentials)))
           else ret ())) (\<lambda>_.
       bindE (hashPassword m newPassword) (\<lambda>hash.
       bindE (now m) (\<lambda>t.
       bindE (newAudit m userID ''password.change'' ''user'' (UUID_String userID) 0 AuditSucceeded []) (\<lambda>event.
       bindE (newEventMeta m ''password.changed'' ''auth.password.change'' userID 0 event) (\<lambda>meta.
       bindE ((if m_sessionStore m
            then (bindE (newEventMeta m ''session.user_revoked'' ''auth.password.change'' userID 0 event) (\<lambda>sessionMeta.
             ret [sessionMeta]))
            else ret [])) (\<lambda>sessionMetas.
       let commit = commitOf m event
                ((''password.change'', meta) # map (\<lambda>sm. (''session.user_revocation'', sm)) sessionMetas) in
       bindE (orMapped m ''auth.password.change'' (callStore m (\<lambda>ce. storeChangePassword (m_sha m) ce (passwordOf userID hash t) t commit))) (\<lambda>_.
       bindE (emit meta) (\<lambda>_.
       (case sessionMetas of [] \<Rightarrow> ret () | sm # _ \<Rightarrow> emit sm)))))))))))))))))"

section \<open>Roles\<close>

text \<open>A membership that a directory provisions is not changed locally.\<close>

definition locallyManaged :: "membership \<Rightarrow> bool" where
  "locallyManaged previous = (mbr_ProvisioningSource previous = [] \<or> mbr_ProvisioningSource previous = ProvisioningSourceLocal)"

definition GrantRole :: "manager \<Rightarrow> authentication \<Rightarrow> uuid \<Rightarrow> uuid \<Rightarrow> role \<Rightarrow> unit op" where
  "GrantRole m actor workspaceID userID role0 = (bindE (requireScopedStepUp m actor StepUpScopeWorkspace ''rbac.role.grant'') (\<lambda>_.
   bindE (AuthorizePermission m actor workspaceID PermissionWorkspaceRBACWrite) (\<lambda>_.
   bindE (liftR (normalizeRole (m_workspaceRoles m) role0)) (\<lambda>r.
   bindE (callStore m (\<lambda>ce. UserByID ce userID)) (\<lambda>_.
   bindE (now m) (\<lambda>t0.
   bindE (tryE (callStore m (\<lambda>ce. Membership ce workspaceID userID))) (\<lambda>p.
   bindE ((case p of
          Inr previous \<Rightarrow> (bindE (failIf (\<not> locallyManaged previous) ErrConflict) (\<lambda>_.
           ret (mbr_Status previous, mbr_CreatedAt previous)))
        | Inl lookupErr \<Rightarrow> (bindE (failIf (\<not> errorsIs lookupErr ErrNotFound) lookupErr) (\<lambda>_.
         ret (MembershipActive, t0))))) (\<lambda>(status, createdAt).
   bindE (now m) (\<lambda>t.
   bindE (newAudit m (auth_UserID actor) ''membership.role.set'' ''user'' (UUID_String userID) workspaceID AuditSucceeded []) (\<lambda>event.
   bindE (newEventMeta m ''role.granted'' ''rbac.role.grant'' (auth_UserID actor) workspaceID event) (\<lambda>meta.
   committing m ''rbac.role.grant'' event ''role.grant'' meta
       (\<lambda>c. callStore m (\<lambda>ce. UpsertMembership (m_sha m) ce (localMembership workspaceID userID r status createdAt t) c)))))))))))))"

definition InstanceAdministrator :: "manager \<Rightarrow> authentication \<Rightarrow> uuid \<Rightarrow> instanceAdministrator op" where
  "InstanceAdministrator m actor userID = (bindE (AuthorizeAdmin m actor PermissionInstanceRolesRead) (\<lambda>_.
   bindE (failIf (\<not> validUUIDv7 userID) ErrInvalidInput) (\<lambda>_.
   callStore m (\<lambda>ce. storeInstanceAdministrator ce userID))))"

definition managerInstanceAdministrators :: "manager \<Rightarrow> authentication \<Rightarrow> world \<Rightarrow> instanceAdministrator result list \<times> world" where
  "managerInstanceAdministrators m actor = stream (bindE (AuthorizeAdmin m actor PermissionInstanceRolesRead) (\<lambda>_.
   readStream m (\<lambda>ce ctxErr. InstanceAdministrators ce)))"

definition SetInstanceRole :: "manager \<Rightarrow> authentication \<Rightarrow> bool \<Rightarrow> uuid \<Rightarrow> instanceRole \<Rightarrow> unit op" where
  "SetInstanceRole m actor local userID r = (bindE (AuthorizeAdmin m actor PermissionInstanceRolesWrite) (\<lambda>_.
   bindE (requireAdminMutation m actor local ''admin.instance_role.set'') (\<lambda>_.
   bindE (failIf (\<not> has r defaultAdminPermissions) ErrInvalidInput) (\<lambda>_.
   bindE (failIf (userID = 0) ErrInvalidInput) (\<lambda>_.
   bindE (failIf (userID = auth_UserID actor \<and> r \<noteq> InstanceRoleRoot) ErrForbidden) (\<lambda>_.
   bindE (callStore m (\<lambda>ce. UserByID ce userID)) (\<lambda>_.
   bindE (tryE (callStore m (\<lambda>ce. storeInstanceAdministrator ce userID))) (\<lambda>p.
   bindE ((case p of Inr _ \<Rightarrow> ret () | Inl lookupErr \<Rightarrow> failIf (\<not> errorsIs lookupErr ErrNotFound) lookupErr)) (\<lambda>_.
   bindE (now m) (\<lambda>t.
   let admin = \<lparr>iad_UserID = userID, iad_Role = r, iad_CreatedAt = t, iad_UpdatedAt = t\<rparr> in
   bindE (newAudit m (auth_UserID actor) ''admin.instance_role.set'' ''user'' (UUID_String userID) 0 AuditSucceeded []) (\<lambda>event.
   bindE (newEventMeta m ''instance_role.changed'' ''admin.instance_role.set'' (auth_UserID actor) 0 event) (\<lambda>meta.
   committing m ''admin.instance_role.set'' event ''instance_role.change'' meta
       (\<lambda>c. callStore m (\<lambda>ce. storeSetInstanceRole (m_sha m) ce admin c))))))))))))))"

definition RemoveInstanceRole :: "manager \<Rightarrow> authentication \<Rightarrow> bool \<Rightarrow> uuid \<Rightarrow> unit op" where
  "RemoveInstanceRole m actor local userID = (bindE (AuthorizeAdmin m actor PermissionInstanceRolesWrite) (\<lambda>_.
   bindE (requireAdminMutation m actor local ''admin.instance_role.remove'') (\<lambda>_.
   bindE (failIf (userID = auth_UserID actor) ErrForbidden) (\<lambda>_.
   bindE (newAudit m (auth_UserID actor) ''admin.instance_role.remove'' ''user'' (UUID_String userID) 0 AuditSucceeded []) (\<lambda>event.
   bindE (newEventMeta m ''instance_role.removed'' ''admin.instance_role.remove'' (auth_UserID actor) 0 event) (\<lambda>meta.
   committing m ''admin.instance_role.remove'' event ''instance_role.remove'' meta
       (\<lambda>c. callStore m (\<lambda>ce. storeRemoveInstanceRole (m_sha m) ce userID c))))))))"

section \<open>The operations run the store\<close>

context environment
begin

lemma accounts_run [run_rules]: "relates (runs m) (managerBootstrap m bsi)" "relates (runs m) (CreateUser m a w cui)"
  unfolding managerBootstrap_def CreateUser_def Let_def by (intro run_rules; assumption)+

lemma failPassword_runs [run_rules]: "relates (runs m) (failPassword m u aev)" "relates (runs m) (failStalePassword m u e)"
  unfolding failStalePassword_def failPassword_def by (intro run_rules)+

lemma confirm_runs [run_rules]: "relates (runs m) (confirmPasswordCurrent m u p h)" "relates (runs m) (confirmOrFail m u p h)"
  unfolding confirmOrFail_def confirmPasswordCurrent_def by (intro run_rules)+

lemma recordPassword_runs [run_rules]: "relates (runs m) (recordPasswordAuthentication m u h)"
  "relates (runs m) (rehashPassword m u p h)" "relates (runs m) (lookupPassword m p)"
  unfolding recordPasswordAuthentication_def rehashPassword_def lookupPassword_def by (intro run_rules)+

lemma finalizePassword_runs [run_rules]: "relates (runs m) (finalizePassword m u p h n)"
proof (induction n arbitrary: h)
  case 0
  show ?case by (subst finalizePassword.simps) (simp only: nat.case, intro run_rules)
next
  case (Suc n)
  show ?case by (subst finalizePassword.simps) (simp only: nat.case, intro run_rules Suc)
qed

lemma password_runs [run_rules]: "relates (runs m) (completePassword m u p h b)" "relates (runs m) (AuthenticatePassword m e p)"
  unfolding AuthenticatePassword_def completePassword_def by (intro run_rules)+

lemma ChangePassword_runs [run_rules]: "relates (runs m) (ChangePassword m a p p')"
  unfolding ChangePassword_def Let_def by (intro run_rules) (auto split: list.split intro: run_rules)

lemma roles_run [run_rules]: "relates (runs m) (GrantRole m a w u r)" "relates (runs m) (InstanceAdministrator m a u)"
  "relates (runs m) (SetInstanceRole m a b u r)" "relates (runs m) (RemoveInstanceRole m a b u)"
  unfolding GrantRole_def InstanceAdministrator_def SetInstanceRole_def RemoveInstanceRole_def
  by (intro run_rules; assumption)+

lemma managerInstanceAdministrators_runs [run_rules]: "relates (runs m) (managerInstanceAdministrators m a)"
  unfolding managerInstanceAdministrators_def by (intro run_rules stream_runs)

end

end
