(* ===== verification/ManagerEmail.thy ===== *)
theory ManagerEmail
  imports ManagerAuth
begin

text \<open>
  The flows that rest on an email address: verification and the user's addresses (\<^verbatim>\<open>email.go\<close>), magic links
  (\<^verbatim>\<open>magiclink.go\<close>), one-time codes (\<^verbatim>\<open>emailotp.go\<close>), password resets (\<^verbatim>\<open>reset.go\<close>), registration (\<^verbatim>\<open>signup.go\<close>), and
  the sealed continuations (\<^verbatim>\<open>internal.go\<close>) a ceremony hands to its client.
\<close>

section \<open>Continuations\<close>

definition passkeyDiscoverable :: string where "passkeyDiscoverable = ''passkey_discoverable''"
definition emailOTPOperation :: string where "emailOTPOperation = ''email_otp''"

definition consumption :: "ceremonyContinuation \<Rightarrow> ceremonyConsumption option" where
  "consumption c = (if ccn_ID c = 0 then None else Some \<lparr>cer_ID = ccn_ID c, cer_ExpiresAt = ccn_ExpiresAt c\<rparr>)"

definition encodeContinuation :: "manager \<Rightarrow> ceremonyContinuation \<Rightarrow> string op" where
  "encodeContinuation m state = (bindE (seal m (lib_MarshalCeremony (m_library m) state)) (\<lambda>ciphertext.
   ret (b64Encode ciphertext)))"

text \<open>Whatever is wrong with the text of a continuation is answered alike.\<close>

definition unsealContinuation :: "manager \<Rightarrow> string \<Rightarrow> bytes result" where
  "unsealContinuation m raw = (case b64Decode raw of
      None \<Rightarrow> Inl ErrInvalidCredentials
    | Some ciphertext \<Rightarrow> (case managerOpen m ciphertext of Inl _ \<Rightarrow> Inl ErrInvalidCredentials | Inr payload \<Rightarrow> Inr payload))"

definition decodeContinuation :: "manager \<Rightarrow> string \<Rightarrow> string \<Rightarrow> ceremonyContinuation op" where
  "decodeContinuation m raw operation = (bindE (liftR (unsealContinuation m raw)) (\<lambda>payload.
   (case lib_UnmarshalCeremony (m_library m) payload of
        None \<Rightarrow> fail ErrInvalidCredentials
      | Some state \<Rightarrow> (bindE (failIf (ccn_Operation state \<noteq> operation) ErrInvalidCredentials) (\<lambda>_.
       bindE (failIf (ccn_UserID state = 0 \<and> operation \<noteq> passkeyDiscoverable) ErrInvalidCredentials) (\<lambda>_.
       bindE (now m) (\<lambda>t.
       bindE (failIf (\<not> t < ccn_ExpiresAt state) ErrExpired) (\<lambda>_.
       ret state))))))))"

section \<open>The addresses of a user\<close>

definition emailVerificationPrefix :: string where "emailVerificationPrefix = ''cbe''"

definition secretToken :: "string \<Rightarrow> uuid \<Rightarrow> bytes \<Rightarrow> string" where
  "secretToken prefix i secret = prefix @ ''_'' @ UUID_String i @ ''_'' @ b64Encode secret"

record issuedEmailVerification =
  iev_Email :: "emailAddress option"
  iev_Token :: string
  iev_Deliverable :: bool

text \<open>The answer for an address that gets no mail.\<close>

definition noEmailVerification :: issuedEmailVerification where
  "noEmailVerification = \<lparr>iev_Email = None, iev_Token = [], iev_Deliverable = False\<rparr>"

definition parseEmailVerification :: "string \<Rightarrow> uuid option" where
  "parseEmailVerification raw = parseSecretToken emailVerificationPrefix raw"

definition BeginEmailAddition :: "manager \<Rightarrow> authentication \<Rightarrow> string \<Rightarrow> issuedEmailVerification op" where
  "BeginEmailAddition m actor address0 = (bindE (requireRecentInteractive m actor) (\<lambda>_.
   bindE (liftR (validEmail m address0)) (\<lambda>address.
   bindE (newID m) (\<lambda>i.
   bindE (randomBytes m 32) (\<lambda>secret.
   let raw = secretToken emailVerificationPrefix i secret in
   bindE (now m) (\<lambda>t.
   let email = \<lparr>eml_ID = i, eml_UserID = auth_UserID actor, eml_Address = address, eml_Primary = False,
           eml_VerifiedAt = None, eml_CreatedAt = t, eml_UpdatedAt = t\<rparr> in
   let verification = \<lparr>evc_EmailID = i, evc_Digest = tokenDigest m (''email-verification:'' @ raw),
           evc_ExpiresAt = t + m_emailVerificationTTL m\<rparr> in
   bindE (newAudit m (auth_UserID actor) ''email.add'' ''email'' (UUID_String i) 0 AuditSucceeded []) (\<lambda>event.
   bindE (newEventMeta m ''email.added'' ''auth.email.add.begin'' (auth_UserID actor) 0 event) (\<lambda>meta.
   bindE (committing m ''auth.email.add.begin'' event ''email.add'' meta
       (\<lambda>c. callStore m (\<lambda>ce. SaveEmail (m_sha m) ce email verification c))) (\<lambda>_.
   ret \<lparr>iev_Email = Some email, iev_Token = raw, iev_Deliverable = True\<rparr>)))))))))"

text \<open>An anonymous request is audited as failed and answered with the value that sends nothing.\<close>

definition decoy :: "manager \<Rightarrow> uuid \<Rightarrow> string \<Rightarrow> string \<Rightarrow> 'a \<Rightarrow> 'a op" where
  "decoy m actor action reason answer = (bindE (appendAuthenticationAudit m actor action AuditFailed reason) (\<lambda>_.
   ret answer))"

definition ResendEmailVerification :: "manager \<Rightarrow> string \<Rightarrow> issuedEmailVerification op" where
  "ResendEmailVerification m address = (let normalized = normalizeEmail address in
   bindE (domainRequiresSSO m normalized ''email.verification.resend'') (\<lambda>_.
   bindE (allowEmailIssuance m normalized ''email.verification.resend'') (\<lambda>allowed.
   (if \<not> allowed then decoy m 0 ''email.verification.resend'' ''throttled'' noEmailVerification
      else (bindE (tryE (callStore m (\<lambda>ce. EmailByAddress ce normalized))) (\<lambda>e.
       bindE (newID m) (\<lambda>decoyID.
       bindE (randomBytes m 32) (\<lambda>secret.
       (case e of
           Inl lookupErr \<Rightarrow>
             if \<not> errorsIs lookupErr ErrNotFound then fail lookupErr
             else decoy m 0 ''email.verification.resend'' ''unknown_email'' noEmailVerification
         | Inr email \<Rightarrow>
             if eml_VerifiedAt email \<noteq> None
             then decoy m (eml_UserID email) ''email.verification.resend'' ''already_verified'' noEmailVerification
             else (let raw = secretToken emailVerificationPrefix (eml_ID email) secret in
              bindE (now m) (\<lambda>t.
              let verification = \<lparr>evc_EmailID = eml_ID email, evc_Digest = tokenDigest m (''email-verification:'' @ raw),
                     evc_ExpiresAt = t + m_emailVerificationTTL m\<rparr> in
              bindE (newAudit m (eml_UserID email) ''email.verification.resend'' ''email'' (UUID_String (eml_ID email)) 0
                 AuditSucceeded []) (\<lambda>event.
              bindE (newEventMeta m ''email.verification_resent'' ''auth.email.verification.resend'' (eml_UserID email) 0 event) (\<lambda>meta.
              bindE (orMapped m ''auth.email.verification.resend'' (callStore m (\<lambda>ce. ReissueEmailVerification (m_sha m) ce
                 (eml_ID email) verification (auditOnly event)))) (\<lambda>_.
              bindE (emit meta) (\<lambda>_.
              ret \<lparr>iev_Email = Some (email\<lparr>eml_UpdatedAt := t\<rparr>), iev_Token = raw, iev_Deliverable = True\<rparr>)))))))))))))))"

definition ConfirmEmail :: "manager \<Rightarrow> string \<Rightarrow> emailAddress op" where
  "ConfirmEmail m raw = (case parseEmailVerification raw of
      None \<Rightarrow> fail ErrInvalidCredentials
    | Some emailID \<Rightarrow> (bindE (tryE (callStore m (\<lambda>ce. EmailVerificationByID ce emailID))) (\<lambda>r.
     (case r of
           Inl lookupErr \<Rightarrow> if errorsIs lookupErr ErrNotFound then fail ErrInvalidCredentials else fail lookupErr
         | Inr (email, verification) \<Rightarrow> (bindE (failIf (eml_VerifiedAt email \<noteq> None) ErrConflict) (\<lambda>_.
          bindE (now m) (\<lambda>t.
          bindE ((if \<not> t < evc_ExpiresAt verification
              then refuse m (eml_UserID email) ''email.verify'' ''expired'' ErrExpired else ret ())) (\<lambda>_.
          bindE ((if \<not> matchTokenDigest m (evc_Digest verification) (''email-verification:'' @ raw)
              then refuse m (eml_UserID email) ''email.verify'' ''invalid_credentials'' ErrInvalidCredentials else ret ())) (\<lambda>_.
          bindE (now m) (\<lambda>verifiedAt.
          bindE (newAudit m (eml_UserID email) ''email.verify'' ''email'' (UUID_String (eml_ID email)) 0 AuditSucceeded []) (\<lambda>event.
          bindE (newEventMeta m ''email.confirmed'' ''auth.email.add.confirm'' (eml_UserID email) 0 event) (\<lambda>meta.
          bindE (committing m ''auth.email.add.confirm'' event ''email.confirm'' meta
               (\<lambda>c. callStore m (\<lambda>ce. storeVerifyEmail (m_sha m) ce (eml_ID email) verifiedAt c))) (\<lambda>_.
          ret (email\<lparr>eml_VerifiedAt := Some verifiedAt, eml_UpdatedAt := verifiedAt\<rparr>))))))))))))))"

definition SetPrimaryEmail :: "manager \<Rightarrow> authentication \<Rightarrow> uuid \<Rightarrow> unit op" where
  "SetPrimaryEmail m actor emailID = (bindE (requireScopedStepUp m actor StepUpScopeAccount ''auth.email.primary.set'') (\<lambda>_.
   bindE (failIf (\<not> validUUIDv7 emailID) ErrInvalidInput) (\<lambda>_.
   bindE (newAudit m (auth_UserID actor) ''email.primary.set'' ''email'' (UUID_String emailID) 0 AuditSucceeded []) (\<lambda>event.
   bindE (newEventMeta m ''email.primary_changed'' ''auth.email.primary.set'' (auth_UserID actor) 0 event) (\<lambda>meta.
   committing m ''auth.email.primary.set'' event ''email.primary.change'' meta
       (\<lambda>c. callStore m (\<lambda>ce. storeSetPrimaryEmail (m_sha m) ce (auth_UserID actor) emailID c)))))))"

definition RemoveEmail :: "manager \<Rightarrow> authentication \<Rightarrow> uuid \<Rightarrow> unit op" where
  "RemoveEmail m actor emailID = (bindE (requireScopedStepUp m actor StepUpScopeAccount ''auth.email.remove'') (\<lambda>_.
   bindE (failIf (\<not> validUUIDv7 emailID) ErrInvalidInput) (\<lambda>_.
   bindE (newAudit m (auth_UserID actor) ''email.remove'' ''email'' (UUID_String emailID) 0 AuditSucceeded []) (\<lambda>event.
   bindE (newEventMeta m ''email.removed'' ''auth.email.remove'' (auth_UserID actor) 0 event) (\<lambda>meta.
   committing m ''auth.email.remove'' event ''email.remove'' meta
       (\<lambda>c. callStore m (\<lambda>ce. storeRemoveEmail (m_sha m) ce (auth_UserID actor) emailID c)))))))"

definition managerEmails :: "manager \<Rightarrow> authentication \<Rightarrow> uuid \<Rightarrow> pageRequest \<Rightarrow> world \<Rightarrow> emailAddress pageEvent result list \<times> world" where
  "managerEmails m actor userID0 page0 = stream (bindE (failIf (auth_UserID actor = 0) ErrUnauthorized) (\<lambda>_.
   let userID = (if userID0 = 0 then auth_UserID actor else userID0) in
   bindE ((if userID = auth_UserID actor then requireRecentInteractive m actor else AuthorizeAdmin m actor PermissionUsersRead)) (\<lambda>_.
   bindE (liftR (normalizePage page0)) (\<lambda>page.
   readStream m (\<lambda>ce ctxErr. Emails (lib_UnmarshalCursor (m_library m)) ce userID page)))))"

text \<open>
  \<^verbatim>\<open>userEmails\<close> with a consumer that stops at the first address that satisfies a predicate: the items of
  one page up to that address, then the next page while the page says there is one.
\<close>

fun scanEmails :: "(emailAddress \<Rightarrow> bool) \<Rightarrow> pageEnd \<Rightarrow> emailAddress pageEvent result list \<Rightarrow> (emailAddress option \<times> pageEnd) result" where
  "scanEmails P pe [] = Inr (None, pe)"
| "scanEmails P pe (Inl err # events) = Inl err"
| "scanEmails P pe (Inr (ItemEvent email) # events) = (if P email then Inr (Some email, pe) else scanEmails P pe events)"
| "scanEmails P pe (Inr (EndEvent pe') # events) = scanEmails P pe' events"

fun findEmail :: "manager \<Rightarrow> nat \<Rightarrow> uuid \<Rightarrow> string \<Rightarrow> (emailAddress \<Rightarrow> bool) \<Rightarrow> emailAddress option op" where
  "findEmail m 0 userID cursor P = fail OutOfFuel"
| "findEmail m (Suc fuel) userID cursor P = (bindE (readStream m (\<lambda>ce ctxErr. Emails (lib_UnmarshalCursor (m_library m)) ce userID \<lparr>page_Cursor = cursor, page_Limit = 100\<rparr>)) (\<lambda>events.
 bindE (liftR (scanEmails P zeroEnd events)) (\<lambda>(found, pe).
 (if found \<noteq> None \<or> \<not> end_HasMore pe \<or> end_NextCursor pe = [] then ret found
      else findEmail m fuel userID (end_NextCursor pe) P))))"

definition ownsVerifiedEmail :: "manager \<Rightarrow> uuid \<Rightarrow> string \<Rightarrow> bool op" where
  "ownsVerifiedEmail m userID address = (bindE (findEmail m (m_fuel m) userID [] (\<lambda>email. eml_Address email = address \<and> eml_VerifiedAt email \<noteq> None)) (\<lambda>found.
   ret (found \<noteq> None)))"

definition emailAddressByID :: "manager \<Rightarrow> uuid \<Rightarrow> uuid \<Rightarrow> string op" where
  "emailAddressByID m userID emailID = (bindE (findEmail m (m_fuel m) userID [] (\<lambda>email. eml_ID email = emailID)) (\<lambda>found.
   (case found of Some email \<Rightarrow> ret (eml_Address email) | None \<Rightarrow> fail ErrNotFound)))"

definition verifiedEmailID :: "manager \<Rightarrow> uuid \<Rightarrow> string \<Rightarrow> uuid op" where
  "verifiedEmailID m userID address = (bindE (findEmail m (m_fuel m) userID [] (\<lambda>email. eml_Address email = address \<and> eml_VerifiedAt email \<noteq> None)) (\<lambda>found.
   (case found of Some email \<Rightarrow> ret (eml_ID email) | None \<Rightarrow> fail ErrNotFound)))"

section \<open>Magic links\<close>

definition emailAuthenticationPrefix :: string where "emailAuthenticationPrefix = ''cbl''"

record issuedEmailAuthentication =
  iea_UserID :: uuid
  iea_EmailID :: uuid
  iea_Token :: string
  iea_ExpiresAt :: time
  iea_Deliverable :: bool

definition noEmailAuthentication :: issuedEmailAuthentication where
  "noEmailAuthentication = \<lparr>iea_UserID = 0, iea_EmailID = 0, iea_Token = [], iea_ExpiresAt = zeroTime, iea_Deliverable = False\<rparr>"

definition emailProof :: "uuid \<Rightarrow> uuid \<Rightarrow> uuid \<Rightarrow> bytes \<Rightarrow> time \<Rightarrow> time \<Rightarrow> emailAuthenticationCredential" where
  "emailProof i userID emailID dgst t expiresAt = \<lparr>eac_ID = i, eac_UserID = userID, eac_EmailID = emailID, eac_Digest = dgst,
     eac_CreatedAt = t, eac_ExpiresAt = expiresAt, eac_UsedAt = None\<rparr>"

definition BeginEmailAuthentication :: "manager \<Rightarrow> string \<Rightarrow> issuedEmailAuthentication op" where
  "BeginEmailAuthentication m email = (let normalized = normalizeEmail email in
   bindE (domainRequiresSSO m normalized ''email_authentication.request'') (\<lambda>_.
   bindE (allowEmailIssuance m normalized ''email_authentication.request'') (\<lambda>allowed.
   (if \<not> allowed then decoy m 0 ''email_authentication.request'' ''throttled'' noEmailAuthentication
      else (bindE (tryE (callStore m (\<lambda>ce. UserByEmail ce normalized))) (\<lambda>u.
       bindE (newID m) (\<lambda>i.
       bindE (randomBytes m 32) (\<lambda>secret.
       let raw = secretToken emailAuthenticationPrefix i secret in
       (case u of
           Inl lookupErr \<Rightarrow>
             if \<not> errorsIs lookupErr ErrNotFound then fail lookupErr
             else decoy m 0 ''email_authentication.request'' ''unknown_email'' noEmailAuthentication
         | Inr user \<Rightarrow>
             if usr_Disabled user
             then decoy m (usr_ID user) ''email_authentication.request'' ''user_disabled'' noEmailAuthentication
             else (bindE (tryE (verifiedEmailID m (usr_ID user) normalized)) (\<lambda>e.
              (case e of
                  Inl err \<Rightarrow>
                    if errorsIs err ErrNotFound
                    then decoy m (usr_ID user) ''email_authentication.request'' ''unverified_email'' noEmailAuthentication
                    else fail err
                | Inr emailID \<Rightarrow> (bindE (now m) (\<lambda>t.
                 let credential = emailProof i (usr_ID user) emailID (tokenDigest m (''email-authentication:'' @ raw)) t
                          (t + m_emailAuthTTL m) in
                 bindE (newAudit m (usr_ID user) ''email_authentication.request'' ''user'' (UUID_String (usr_ID user)) 0
                      AuditSucceeded []) (\<lambda>event.
                 bindE (newEventMeta m ''email_authentication.requested'' ''auth.email_link.begin'' (usr_ID user) 0 event) (\<lambda>meta.
                 bindE (orMapped m ''auth.email_link.begin'' (callStore m (\<lambda>ce. CreateEmailAuthentication (m_sha m) ce credential
                      (auditOnly event)))) (\<lambda>_.
                 bindE (emit meta) (\<lambda>_.
                 ret \<lparr>iea_UserID = usr_ID user, iea_EmailID = emailID, iea_Token = raw,
                      iea_ExpiresAt = eac_ExpiresAt credential, iea_Deliverable = True\<rparr>))))))))))))))))))"

text \<open>
  What the completion of a link and of a code share: the account must be enabled, its address must still be
  one of its addresses and outside every domain that enforces single sign-on, and the account unlocked.
\<close>

definition proofOwner :: "manager \<Rightarrow> string \<Rightarrow> emailAuthenticationCredential \<Rightarrow> user op" where
  "proofOwner m action credential = (bindE (tryE (callStore m (\<lambda>ce. UserByID ce (eac_UserID credential)))) (\<lambda>u.
   (case u of
        Inl _ \<Rightarrow> refuse m (eac_UserID credential) action ''user_disabled'' ErrInvalidCredentials
      | Inr user \<Rightarrow>
          if usr_Disabled user then refuse m (eac_UserID credential) action ''user_disabled'' ErrInvalidCredentials
          else (bindE (tryE (emailAddressByID m (usr_ID user) (eac_EmailID credential))) (\<lambda>a.
           (case a of
               Inl addressErr \<Rightarrow> if errorsIs addressErr ErrNotFound then fail ErrInvalidCredentials else fail addressErr
             | Inr address \<Rightarrow> (bindE (domainRequiresSSO m address action) (\<lambda>_.
              bindE (requireUnlocked m (usr_ID user) action) (\<lambda>_.
              ret user)))))))))"

definition consumeProof :: "manager \<Rightarrow> string \<Rightarrow> string \<Rightarrow> uuid \<Rightarrow> uuid \<Rightarrow> authentication op" where
  "consumeProof m action operation i userID = (bindE (tryE (callStore m (\<lambda>ce. TOTPByUserID ce userID))) (\<lambda>f.
   let requiresSecondFactor = (case f of Inr factor \<Rightarrow> otp_Active factor | Inl _ \<Rightarrow> False) in
   bindE ((case f of Inl factorErr \<Rightarrow> failIf (\<not> errorsIs factorErr ErrNotFound) factorErr | Inr _ \<Rightarrow> ret ())) (\<lambda>_.
   bindE (now m) (\<lambda>t.
   bindE (newAudit m userID action ''user'' (UUID_String userID) 0 AuditSucceeded []) (\<lambda>event.
   bindE (tryE (callStore m (\<lambda>ce. ConsumeEmailAuthentication (m_sha m) ce i userID t (\<not> requiresSecondFactor) (auditOnly event)))) (\<lambda>r.
   (case r of
        Inl err \<Rightarrow> if errorsIs err ErrConflict then fail ErrInvalidCredentials else mapStoreError m operation err
      | Inr _ \<Rightarrow> (let authn = zeroAuthentication\<lparr>auth_UserID := userID, auth_Method := MethodEmail, auth_Level := AAL1,
                auth_AuthenticatedAt := t, auth_SecondFactorRequired := requiresSecondFactor\<rparr> in
       bindE (emitAuthenticationSucceeded m operation event authn) (\<lambda>_.
       ret authn)))))))))"

definition CompleteEmailAuthentication :: "manager \<Rightarrow> string \<Rightarrow> authentication op" where
  "CompleteEmailAuthentication m raw = (case parseSecretToken emailAuthenticationPrefix raw of
      None \<Rightarrow> fail ErrInvalidCredentials
    | Some tokenID \<Rightarrow> (bindE (tryE (callStore m (\<lambda>ce. EmailAuthenticationByID ce tokenID))) (\<lambda>r.
     (case r of
           Inl lookupErr \<Rightarrow> if errorsIs lookupErr ErrNotFound then fail ErrInvalidCredentials else fail lookupErr
         | Inr credential \<Rightarrow> (bindE ((if eac_UsedAt credential \<noteq> None
              then refuse m (eac_UserID credential) ''auth.email_link'' ''reused'' ErrInvalidCredentials else ret ())) (\<lambda>_.
          bindE (now m) (\<lambda>t.
          bindE ((if \<not> t < eac_ExpiresAt credential
              then refuse m (eac_UserID credential) ''auth.email_link'' ''expired'' ErrExpired else ret ())) (\<lambda>_.
          bindE ((if \<not> matchTokenDigest m (eac_Digest credential) (''email-authentication:'' @ raw)
              then refuse m (eac_UserID credential) ''auth.email_link'' ''invalid_credentials'' ErrInvalidCredentials else ret ())) (\<lambda>_.
          bindE (proofOwner m ''auth.email_link'' credential) (\<lambda>user.
          consumeProof m ''auth.email_link'' ''auth.email_link.complete'' tokenID (usr_ID user)))))))))))"

section \<open>One-time codes\<close>

text \<open>
  The largest multiple of the modulus that fits into 32 bits; a draw at or above it is repeated. The code is
  printed with eight digits.
\<close>

definition otpModulus :: nat where "otpModulus = 100000000"
definition otpLimit :: nat where "otpLimit = 2 ^ 32 div otpModulus * otpModulus"

definition bigEndian :: "bytes \<Rightarrow> nat" where
  "bigEndian bs = fold (\<lambda>b n. 256 * n + unat b) bs 0"

definition eightDigits :: "nat \<Rightarrow> string" where
  "eightDigits n = (let d = decimal n in replicate (8 - length d) CHR ''0'' @ d)"

fun drawCode :: "manager \<Rightarrow> nat \<Rightarrow> string op" where
  "drawCode m 0 = fail OutOfFuel"
| "drawCode m (Suc fuel) = (bindE (randomBytes m 4) (\<lambda>b.
 let number = bigEndian b in
 (if number < otpLimit then ret (eightDigits (number mod otpModulus)) else drawCode m fuel)))"

definition newEmailOTPCode :: "manager \<Rightarrow> string op" where
  "newEmailOTPCode m = drawCode m (m_fuel m)"

record issuedEmailOTP =
  ieo_UserID :: uuid
  ieo_EmailID :: uuid
  ieo_Code :: string
  ieo_Continuation :: string
  ieo_ExpiresAt :: time
  ieo_Deliverable :: bool

definition noEmailOTP :: issuedEmailOTP where
  "noEmailOTP = \<lparr>ieo_UserID = 0, ieo_EmailID = 0, ieo_Code = [], ieo_Continuation = [], ieo_ExpiresAt = zeroTime, ieo_Deliverable = False\<rparr>"

definition BeginEmailOTP :: "manager \<Rightarrow> string \<Rightarrow> issuedEmailOTP op" where
  "BeginEmailOTP m email = (let normalized = normalizeEmail email in
   bindE (domainRequiresSSO m normalized ''email_otp.request'') (\<lambda>_.
   bindE (allowEmailIssuance m normalized ''email_otp.request'') (\<lambda>allowed.
   (if \<not> allowed then decoy m 0 ''email_otp.request'' ''throttled'' noEmailOTP
      else (bindE (tryE (callStore m (\<lambda>ce. UserByEmail ce normalized))) (\<lambda>u.
       bindE (newID m) (\<lambda>i.
       bindE (newEmailOTPCode m) (\<lambda>code.
       bindE (now m) (\<lambda>t.
       let expiresAt = t + m_emailAuthTTL m in
       bindE (encodeContinuation m \<lparr>ccn_ID = 0, ccn_UserID = i, ccn_Operation = emailOTPOperation,
          ccn_Name = UUID_String i, ccn_ExpiresAt = expiresAt + minute, ccn_Session = []\<rparr>) (\<lambda>continuation.
       let answer = noEmailOTP\<lparr>ieo_Continuation := continuation, ieo_ExpiresAt := expiresAt\<rparr> in
       (case u of
           Inl lookupErr \<Rightarrow>
             if \<not> errorsIs lookupErr ErrNotFound then fail lookupErr
             else decoy m 0 ''email_otp.request'' ''unknown_email'' answer
         | Inr user \<Rightarrow>
             if usr_Disabled user then decoy m (usr_ID user) ''email_otp.request'' ''user_disabled'' answer
             else (bindE (tryE (verifiedEmailID m (usr_ID user) normalized)) (\<lambda>e.
              (case e of
                  Inl err \<Rightarrow>
                    if errorsIs err ErrNotFound then decoy m (usr_ID user) ''email_otp.request'' ''unverified_email'' answer
                    else fail err
                | Inr emailID \<Rightarrow> (let credential = emailProof i (usr_ID user) emailID
                          (tokenDigest m (''email-otp:'' @ UUID_String i @ '':'' @ code)) t expiresAt in
                 bindE (newAudit m (usr_ID user) ''email_otp.request'' ''user'' (UUID_String (usr_ID user)) 0 AuditSucceeded []) (\<lambda>event.
                 bindE (newEventMeta m ''email_authentication.requested'' ''auth.email_otp.begin'' (usr_ID user) 0 event) (\<lambda>meta.
                 bindE (orMapped m ''auth.email_otp.begin'' (callStore m (\<lambda>ce. CreateEmailAuthentication (m_sha m) ce credential
                      (auditOnly event)))) (\<lambda>_.
                 bindE (emit meta) (\<lambda>_.
                 ret (answer\<lparr>ieo_UserID := usr_ID user, ieo_EmailID := emailID, ieo_Code := code, ieo_Deliverable := True\<rparr>))))))))))))))))))))"

definition CompleteEmailOTP :: "manager \<Rightarrow> string \<Rightarrow> string \<Rightarrow> authentication op" where
  "CompleteEmailOTP m continuation code = (bindE (decodeContinuation m continuation emailOTPOperation) (\<lambda>state.
   (case ParseUUID (ccn_Name state) of
        Inl _ \<Rightarrow> fail ErrInvalidCredentials
      | Inr credentialID \<Rightarrow> (bindE (tryE (callStore m (\<lambda>ce. EmailAuthenticationByID ce credentialID))) (\<lambda>r.
       (case r of
             Inl lookupErr \<Rightarrow>
               if errorsIs lookupErr ErrNotFound
               then refuse m 0 ''auth.email_otp'' ''invalid_credentials'' ErrInvalidCredentials else fail lookupErr
           | Inr credential \<Rightarrow> (bindE ((if eac_UsedAt credential \<noteq> None
                then refuse m (eac_UserID credential) ''auth.email_otp'' ''reused'' ErrInvalidCredentials else ret ())) (\<lambda>_.
            bindE (now m) (\<lambda>t.
            bindE ((if \<not> t < eac_ExpiresAt credential
                then refuse m (eac_UserID credential) ''auth.email_otp'' ''expired'' ErrExpired else ret ())) (\<lambda>_.
            bindE (proofOwner m ''auth.email_otp'' credential) (\<lambda>user.
            bindE ((if \<not> matchTokenDigest m (eac_Digest credential) (''email-otp:'' @ UUID_String (eac_ID credential) @ '':'' @ code)
                then (bindE (recordAuthenticationFailure m (usr_ID user) ''auth.email_otp'' True) (\<lambda>audit.
                 bindE (emitAuthenticationFailed m ''auth.email_otp.complete'' audit (usr_ID user)) (\<lambda>_.
                 fail ErrInvalidCredentials)))
                else ret ())) (\<lambda>_.
            consumeProof m ''auth.email_otp'' ''auth.email_otp.complete'' (eac_ID credential) (usr_ID user)))))))))))))"

section \<open>Password resets\<close>

definition passwordResetPrefix :: string where "passwordResetPrefix = ''cbr''"

record issuedPasswordReset =
  ipr_UserID :: uuid
  ipr_Token :: string
  ipr_ExpiresAt :: time
  ipr_Deliverable :: bool

definition noPasswordReset :: issuedPasswordReset where
  "noPasswordReset = \<lparr>ipr_UserID = 0, ipr_Token = [], ipr_ExpiresAt = zeroTime, ipr_Deliverable = False\<rparr>"

definition BeginPasswordReset :: "manager \<Rightarrow> string \<Rightarrow> issuedPasswordReset op" where
  "BeginPasswordReset m email = (let normalized = normalizeEmail email in
   bindE (domainRequiresSSO m normalized ''password.reset.request'') (\<lambda>_.
   bindE (allowEmailIssuance m normalized ''password.reset.request'') (\<lambda>allowed.
   (if \<not> allowed then decoy m 0 ''password.reset.request'' ''throttled'' noPasswordReset
      else (bindE (tryE (callStore m (\<lambda>ce. UserByEmail ce normalized))) (\<lambda>u.
       bindE (newID m) (\<lambda>i.
       bindE (randomBytes m 32) (\<lambda>secret.
       let raw = secretToken passwordResetPrefix i secret in
       (case u of
           Inl lookupErr \<Rightarrow>
             if \<not> errorsIs lookupErr ErrNotFound then fail lookupErr
             else decoy m 0 ''password.reset.request'' ''unknown_email'' noPasswordReset
         | Inr user \<Rightarrow>
             if usr_Disabled user then decoy m (usr_ID user) ''password.reset.request'' ''user_disabled'' noPasswordReset
             else (bindE (now m) (\<lambda>t.
              let credential = \<lparr>prc_ID = i, prc_UserID = usr_ID user, prc_Digest = tokenDigest m (''password-reset:'' @ raw),
                     prc_CreatedAt = t, prc_ExpiresAt = t + m_passwordResetTTL m, prc_UsedAt = None\<rparr> in
              bindE (newAudit m (usr_ID user) ''password.reset.request'' ''user'' (UUID_String (usr_ID user)) 0 AuditSucceeded []) (\<lambda>event.
              bindE (newEventMeta m ''password.reset_requested'' ''auth.password.reset.begin'' (usr_ID user) 0 event) (\<lambda>meta.
              bindE (orMapped m ''auth.password.reset.begin'' (callStore m (\<lambda>ce. CreatePasswordReset (m_sha m) ce credential
                 (auditOnly event)))) (\<lambda>_.
              bindE (emit meta) (\<lambda>_.
              ret \<lparr>ipr_UserID = usr_ID user, ipr_Token = raw, ipr_ExpiresAt = prc_ExpiresAt credential, ipr_Deliverable = True\<rparr>)))))))))))))))"

definition CompletePasswordReset :: "manager \<Rightarrow> string \<Rightarrow> string \<Rightarrow> user op" where
  "CompletePasswordReset m raw newPassword = (case parseSecretToken passwordResetPrefix raw of
      None \<Rightarrow> fail ErrInvalidCredentials
    | Some resetID \<Rightarrow> (bindE (tryE (callStore m (\<lambda>ce. PasswordResetByID ce resetID))) (\<lambda>r.
     (case r of
           Inl lookupErr \<Rightarrow> if errorsIs lookupErr ErrNotFound then fail ErrInvalidCredentials else fail lookupErr
         | Inr credential \<Rightarrow> (bindE ((if prc_UsedAt credential \<noteq> None
              then refuse m (prc_UserID credential) ''password.reset.complete'' ''reused'' ErrInvalidCredentials else ret ())) (\<lambda>_.
          bindE (now m) (\<lambda>t0.
          bindE ((if \<not> t0 < prc_ExpiresAt credential
              then refuse m (prc_UserID credential) ''password.reset.complete'' ''expired'' ErrExpired else ret ())) (\<lambda>_.
          bindE ((if \<not> matchTokenDigest m (prc_Digest credential) (''password-reset:'' @ raw)
              then refuse m (prc_UserID credential) ''password.reset.complete'' ''invalid_credentials'' ErrInvalidCredentials
              else ret ())) (\<lambda>_.
          bindE (liftR (validatePassword m newPassword)) (\<lambda>_.
          bindE (tryE (callStore m (\<lambda>ce. UserByID ce (prc_UserID credential)))) (\<lambda>u.
          (case u of
                Inl _ \<Rightarrow> refuse m (prc_UserID credential) ''password.reset.complete'' ''user_disabled'' ErrInvalidCredentials
              | Inr user \<Rightarrow>
                  if usr_Disabled user
                  then refuse m (prc_UserID credential) ''password.reset.complete'' ''user_disabled'' ErrInvalidCredentials
                  else (bindE (domainRequiresSSO m (normalizeEmail (usr_Email user)) ''password.reset.complete'') (\<lambda>_.
                   bindE (hashPassword m newPassword) (\<lambda>hash.
                   bindE (now m) (\<lambda>t.
                   bindE (newAudit m (usr_ID user) ''password.reset.complete'' ''user'' (UUID_String (usr_ID user)) 0
                      AuditSucceeded []) (\<lambda>event.
                   bindE (newEventMeta m ''password.reset_completed'' ''auth.password.reset.complete'' (usr_ID user) 0 event) (\<lambda>resetMeta.
                   bindE (newEventMeta m ''user.credentials_revoked'' ''auth.password.reset.complete'' (usr_ID user) 0 event) (\<lambda>revokeMeta.
                   bindE (tryE (callStore m (\<lambda>ce. storeCompletePasswordReset (m_sha m) ce resetID (passwordOf (usr_ID user) hash t) t
                      (commitOf m event [(''password.change'', resetMeta), (''user.credentials.revocation'', revokeMeta)])))) (\<lambda>c.
                   (case c of
                       Inl err \<Rightarrow>
                         if errorsIs err ErrConflict then fail ErrInvalidCredentials
                         else mapStoreError m ''auth.password.reset.complete'' err
                     | Inr _ \<Rightarrow> (bindE (emit resetMeta) (\<lambda>_.
                      bindE (emit revokeMeta) (\<lambda>_.
                      ret user))))))))))))))))))))))))"

section \<open>Registration\<close>

record signUpInput =
  sui_Email :: string
  sui_DisplayName :: string
  sui_Password :: string
  sui_WorkspaceName :: string

record signUpResult =
  sur_User :: "user option"
  sur_Workspace :: "workspace option"
  sur_Authentication :: authentication
  sur_EmailVerification :: issuedEmailVerification
  sur_ExistingAccount :: bool

definition signUpCollision :: "manager \<Rightarrow> uuid \<Rightarrow> signUpResult op" where
  "signUpCollision m ownerID = decoy m ownerID ''signup'' ''email_taken''
     \<lparr>sur_User = None, sur_Workspace = None, sur_Authentication = zeroAuthentication,
      sur_EmailVerification = noEmailVerification, sur_ExistingAccount = True\<rparr>"

text \<open>\<open>m_signup\<close> holds the flag \<^verbatim>\<open>AutoVerifyEmail\<close> where registration is configured.\<close>

definition SignUp :: "manager \<Rightarrow> signUpInput \<Rightarrow> signUpResult op" where
  "SignUp m input = (case m_signup m of
      None \<Rightarrow> fail ErrNotSupported
    | Some autoVerify \<Rightarrow> (bindE (failIf (\<not> m_signupStore m) ErrNotSupported) (\<lambda>_.
     bindE (liftR (validEmail m (sui_Email input))) (\<lambda>email.
     bindE (domainRequiresSSO m email ''signup'') (\<lambda>_.
     let displayName = TrimSpace (sui_DisplayName input) in
     bindE (failIf (displayName = []) (ValidationError ''display_name'' ''required'')) (\<lambda>_.
     let workspaceName = TrimSpace (sui_WorkspaceName input) in
     bindE (failIf (workspaceName = []) (ValidationError ''workspace_name'' ''required'')) (\<lambda>_.
     bindE (liftR (validatePassword m (sui_Password input))) (\<lambda>_.
     bindE (hashPassword m (sui_Password input)) (\<lambda>hash.
     bindE (newID m) (\<lambda>userID.
     bindE (newID m) (\<lambda>emailID.
     bindE (newID m) (\<lambda>workspaceID.
     bindE (now m) (\<lambda>t.
     bindE ((if autoVerify then ret [] else (bindE (randomBytes m 32) (\<lambda>secret.
       ret (secretToken emailVerificationPrefix emailID secret))))) (\<lambda>rawToken.
     let verification = (if autoVerify then None else Some \<lparr>evc_EmailID = emailID,
           evc_Digest = tokenDigest m (''email-verification:'' @ rawToken), evc_ExpiresAt = t + m_emailVerificationTTL m\<rparr>) in
     bindE (tryE (callStore m (\<lambda>ce. UserByEmail ce email))) (\<lambda>e.
     (case e of
        Inr existing \<Rightarrow> signUpCollision m (usr_ID existing)
      | Inl lookupErr \<Rightarrow> (bindE (failIf (\<not> errorsIs lookupErr ErrNotFound) lookupErr) (\<lambda>_.
       let user = newUser userID email displayName t in
       let primaryEmail = newPrimaryEmail emailID userID email (if autoVerify then Some t else None) t in
       let workspace = newWorkspace workspaceID workspaceName False t in
       let membership = localMembership workspaceID userID RoleAdmin MembershipActive t t in
       bindE (newAudit m userID ''signup'' ''workspace'' (UUID_String workspaceID) workspaceID AuditSucceeded []) (\<lambda>event.
       bindE (newEventMeta m ''user.created'' ''auth.signup'' userID workspaceID event) (\<lambda>userMeta.
       bindE (newEventMeta m ''workspace.created'' ''auth.signup'' userID workspaceID event) (\<lambda>workspaceMeta.
       bindE (newEventMeta m ''signup.completed'' ''auth.signup'' userID workspaceID event) (\<lambda>signupMeta.
       bindE (tryE (callStore m (\<lambda>ce. CreateSignup (m_sha m) ce user primaryEmail verification (passwordOf userID hash t) workspace
            membership (commitOf m event [(''user.create'', userMeta), (''workspace.create'', workspaceMeta)])))) (\<lambda>c.
       (case c of
             Inl err \<Rightarrow> if errorsIs err ErrConflict then signUpCollision m 0 else mapStoreError m ''auth.signup'' err
           | Inr _ \<Rightarrow> (bindE (emit userMeta) (\<lambda>_.
            bindE (emit workspaceMeta) (\<lambda>_.
            bindE (emit signupMeta) (\<lambda>_.
            ret \<lparr>sur_User = Some user, sur_Workspace = Some workspace,
                 sur_Authentication = (if autoVerify then zeroAuthentication\<lparr>auth_UserID := userID, auth_Method := MethodPassword,
                   auth_Level := AAL1, auth_AuthenticatedAt := t, auth_CredentialDigest := CredentialFingerprint (m_sha m) hash\<rparr>
                   else zeroAuthentication),
                 sur_EmailVerification = (if autoVerify then noEmailVerification
                   else \<lparr>iev_Email = Some primaryEmail, iev_Token = rawToken, iev_Deliverable = True\<rparr>),
                 sur_ExistingAccount = False\<rparr>))))))))))))))))))))))))))))"

section \<open>The operations run the store\<close>

context environment
begin

lemma continuations_run [run_rules]: "relates (runs m) (encodeContinuation m st)" "relates (runs m) (decodeContinuation m raw h)"
  unfolding encodeContinuation_def decodeContinuation_def by (intro run_rules)+

lemma decoy_runs [run_rules]: "relates (runs m) (decoy m u h h2 x)"
  unfolding decoy_def by (intro run_rules)

lemma emails_run [run_rules]: "relates (runs m) (BeginEmailAddition m a h)" "relates (runs m) (ResendEmailVerification m h)"
  "relates (runs m) (ConfirmEmail m raw)" "relates (runs m) (SetPrimaryEmail m a i)" "relates (runs m) (RemoveEmail m a i)"
  "relates (runs m) (managerEmails m a u page)"
  unfolding BeginEmailAddition_def ResendEmailVerification_def ConfirmEmail_def SetPrimaryEmail_def RemoveEmail_def managerEmails_def
  by (intro run_rules stream_runs; assumption)+

lemma findEmail_runs [run_rules]: "relates (runs m) (findEmail m n u cur P)"
proof (induction n arbitrary: cur)
  case (Suc n)
  show ?case unfolding findEmail.simps by (intro run_rules Suc)
qed (simp add: run_rules)

lemma addresses_run [run_rules]: "relates (runs m) (ownsVerifiedEmail m u h)" "relates (runs m) (emailAddressByID m u i)"
  "relates (runs m) (verifiedEmailID m u h)"
  unfolding ownsVerifiedEmail_def emailAddressByID_def verifiedEmailID_def by (intro run_rules)+

lemma proofs_run [run_rules]: "relates (runs m) (proofOwner m h eac)" "relates (runs m) (consumeProof m h h2 i j)"
  unfolding proofOwner_def consumeProof_def by (intro run_rules)+

lemma links_run [run_rules]: "relates (runs m) (BeginEmailAuthentication m h)" "relates (runs m) (CompleteEmailAuthentication m raw)"
  unfolding BeginEmailAuthentication_def CompleteEmailAuthentication_def by (intro run_rules)+

lemma drawCode_runs [run_rules]: "relates (runs m) (drawCode m n)"
proof (induction n)
  case (Suc n)
  show ?case unfolding drawCode.simps by (intro run_rules Suc)
qed (simp add: run_rules)

lemma codes_run [run_rules]: "relates (runs m) (newEmailOTPCode m)" "relates (runs m) (BeginEmailOTP m h)"
  "relates (runs m) (CompleteEmailOTP m h h2)"
  unfolding newEmailOTPCode_def BeginEmailOTP_def CompleteEmailOTP_def by (intro run_rules)+

lemma resets_run [run_rules]: "relates (runs m) (BeginPasswordReset m h)" "relates (runs m) (CompletePasswordReset m raw h)"
  unfolding BeginPasswordReset_def CompletePasswordReset_def by (intro run_rules)+

lemma signup_runs [run_rules]: "relates (runs m) (signUpCollision m u)" "relates (runs m) (SignUp m sui)"
  unfolding signUpCollision_def SignUp_def by (intro run_rules)+

end

end
