(* ===== verification/ManagerTenancy.thy ===== *)
theory ManagerTenancy
  imports ManagerEmail
begin

text \<open>
  Workspaces, users and memberships (\<^verbatim>\<open>lifecycle.go\<close>), invitations (\<^verbatim>\<open>invitation.go\<close>) and verified domains
  (\<^verbatim>\<open>domain.go\<close>).
\<close>

section \<open>Workspaces\<close>

definition validName :: "string \<Rightarrow> string \<Rightarrow> string result" where
  "validName field value = (let name = TrimSpace value in
     if name = [] \<or> length name > 200 then Inl (ValidationError field ''length'') else Inr name)"

definition CreateWorkspace :: "manager \<Rightarrow> authentication \<Rightarrow> string \<Rightarrow> bool \<Rightarrow> workspace op" where
  "CreateWorkspace m actor inputName requireMFA = (bindE (requireScopedStepUp m actor StepUpScopeWorkspace ''workspace.create'') (\<lambda>_.
   bindE (enabledUser m (auth_UserID actor)) (\<lambda>_.
   bindE (liftR (validName ''name'' inputName)) (\<lambda>name.
   bindE (newID m) (\<lambda>i.
   bindE (now m) (\<lambda>t.
   let workspace = newWorkspace i name requireMFA t in
   let owner = localMembership i (auth_UserID actor) RoleAdmin MembershipActive t t in
   bindE (newAudit m (auth_UserID actor) ''workspace.create'' ''workspace'' (UUID_String i) i AuditSucceeded []) (\<lambda>audit.
   bindE (newEventMeta m ''workspace.created'' ''workspace.create'' (auth_UserID actor) i audit) (\<lambda>meta.
   bindE (committing m ''workspace.create'' audit ''workspace.create'' meta
       (\<lambda>c. callStore m (\<lambda>ce. storeCreateWorkspace (m_sha m) ce workspace owner c))) (\<lambda>_.
   ret workspace)))))))))"

definition updateWorkspace :: "manager \<Rightarrow> authentication \<Rightarrow> uuid \<Rightarrow> string \<Rightarrow> bool option \<Rightarrow> string \<Rightarrow> workspace op" where
  "updateWorkspace m actor workspaceID inputName requireMFA operation = (bindE (failIf (\<not> validUUIDv7 workspaceID) ErrInvalidInput) (\<lambda>_.
   bindE (liftR (validName ''name'' inputName)) (\<lambda>name.
   bindE (callStore m (\<lambda>ce. WorkspaceByID ce workspaceID)) (\<lambda>previous.
   bindE (now m) (\<lambda>t.
   let workspace = previous\<lparr>wsp_Name := name, wsp_UpdatedAt := t,
           wsp_RequireMFA := (case requireMFA of Some b \<Rightarrow> b | None \<Rightarrow> wsp_RequireMFA previous)\<rparr> in
   bindE (newAudit m (auth_UserID actor) operation ''workspace'' (UUID_String workspaceID) workspaceID AuditSucceeded []) (\<lambda>audit.
   bindE (newEventMeta m ''workspace.updated'' operation (auth_UserID actor) workspaceID audit) (\<lambda>meta.
   bindE (committing m operation audit operation meta (\<lambda>c. callStore m (\<lambda>ce. storeUpdateWorkspace (m_sha m) ce workspace c))) (\<lambda>_.
   ret workspace))))))))"

definition UpdateWorkspace :: "manager \<Rightarrow> authentication \<Rightarrow> uuid \<Rightarrow> string \<Rightarrow> bool option \<Rightarrow> workspace op" where
  "UpdateWorkspace m actor workspaceID inputName requireMFA = (bindE (authorizeWorkspaceMutation m actor workspaceID PermissionWorkspaceSettingsWrite ''workspace.update'') (\<lambda>_.
   updateWorkspace m actor workspaceID inputName requireMFA ''workspace.update''))"

definition AdminUpdateWorkspace :: "manager \<Rightarrow> authentication \<Rightarrow> bool \<Rightarrow> uuid \<Rightarrow> string \<Rightarrow> bool option \<Rightarrow> workspace op" where
  "AdminUpdateWorkspace m actor local workspaceID inputName requireMFA = (bindE (AuthorizeAdmin m actor PermissionWorkspacesWrite) (\<lambda>_.
   bindE (requireAdminMutation m actor local ''admin.workspace.update'') (\<lambda>_.
   updateWorkspace m actor workspaceID inputName requireMFA ''admin.workspace.update'')))"

definition setWorkspaceDisabled :: "manager \<Rightarrow> authentication \<Rightarrow> bool \<Rightarrow> uuid \<Rightarrow> bool \<Rightarrow> bool \<Rightarrow> unit op" where
  "setWorkspaceDisabled m actor local workspaceID disabled administrative = (
     let verb = (if disabled then ''workspace.disable'' else ''workspace.enable'');
         name = (if disabled then ''workspace.disabled'' else ''workspace.enabled'');
         operation = (if administrative then ''admin.'' @ verb else verb)
     in (bindE ((if administrative
        then (bindE (AuthorizeAdmin m actor PermissionWorkspacesWrite) (\<lambda>_.
         bindE (requireAdminMutation m actor local operation) (\<lambda>_.
         failIf (\<not> validUUIDv7 workspaceID) ErrInvalidInput)))
        else authorizeWorkspaceMutation m actor workspaceID PermissionWorkspaceSettingsWrite operation)) (\<lambda>_.
      bindE (callStore m (\<lambda>ce. WorkspaceByID ce workspaceID)) (\<lambda>previous.
      (if (wsp_DisabledAt previous \<noteq> None) = disabled then ret ()
        else (bindE (now m) (\<lambda>t.
         bindE (newAudit m (auth_UserID actor) operation ''workspace'' (UUID_String workspaceID) workspaceID AuditSucceeded []) (\<lambda>audit.
         bindE (newEventMeta m name operation (auth_UserID actor) workspaceID audit) (\<lambda>meta.
         committing m operation audit operation meta
            (\<lambda>c. callStore m (\<lambda>ce. storeSetWorkspaceDisabled (m_sha m) ce workspaceID disabled t c)))))))))))"

definition DisableWorkspace :: "manager \<Rightarrow> authentication \<Rightarrow> uuid \<Rightarrow> unit op" where
  "DisableWorkspace m actor workspaceID = setWorkspaceDisabled m actor False workspaceID True False"

definition EnableWorkspace :: "manager \<Rightarrow> authentication \<Rightarrow> uuid \<Rightarrow> unit op" where
  "EnableWorkspace m actor workspaceID = setWorkspaceDisabled m actor False workspaceID False False"

definition AdminDisableWorkspace :: "manager \<Rightarrow> authentication \<Rightarrow> bool \<Rightarrow> uuid \<Rightarrow> unit op" where
  "AdminDisableWorkspace m actor local workspaceID = setWorkspaceDisabled m actor local workspaceID True True"

definition AdminEnableWorkspace :: "manager \<Rightarrow> authentication \<Rightarrow> bool \<Rightarrow> uuid \<Rightarrow> unit op" where
  "AdminEnableWorkspace m actor local workspaceID = setWorkspaceDisabled m actor local workspaceID False True"

section \<open>Users\<close>

definition setUserDisabled :: "manager \<Rightarrow> authentication \<Rightarrow> bool \<Rightarrow> uuid \<Rightarrow> bool \<Rightarrow> unit op" where
  "setUserDisabled m actor local userID disabled = (
     let action = (if disabled then ''user.disable'' else ''user.enable'');
         name = (if disabled then ''user.disabled'' else ''user.enabled'');
         operation = ''admin.'' @ action
     in (bindE (AuthorizeAdmin m actor PermissionUsersWrite) (\<lambda>_.
      bindE (requireAdminMutation m actor local operation) (\<lambda>_.
      bindE (failIf (\<not> validUUIDv7 userID) ErrInvalidInput) (\<lambda>_.
      bindE (callStore m (\<lambda>ce. UserByID ce userID)) (\<lambda>user.
      (if usr_Disabled user = disabled then ret ()
        else (bindE (newAudit m (auth_UserID actor) action ''user'' (UUID_String userID) 0 AuditSucceeded []) (\<lambda>audit.
         bindE (newEventMeta m name operation (auth_UserID actor) 0 audit) (\<lambda>meta.
         bindE (now m) (\<lambda>t.
         committing m operation audit action meta
            (\<lambda>c. callStore m (\<lambda>ce. SetUserDisabled (m_sha m) ce userID disabled t c)))))))))))))"

definition DisableUser :: "manager \<Rightarrow> authentication \<Rightarrow> bool \<Rightarrow> uuid \<Rightarrow> unit op" where
  "DisableUser m actor local userID = setUserDisabled m actor local userID True"

definition EnableUser :: "manager \<Rightarrow> authentication \<Rightarrow> bool \<Rightarrow> uuid \<Rightarrow> unit op" where
  "EnableUser m actor local userID = setUserDisabled m actor local userID False"

definition updateUserProfile :: "manager \<Rightarrow> authentication \<Rightarrow> uuid \<Rightarrow> string \<Rightarrow> string \<Rightarrow> user op" where
  "updateUserProfile m actor userID inputName operation = (bindE (failIf (\<not> validUUIDv7 userID) ErrInvalidInput) (\<lambda>_.
   bindE (liftR (validName ''display_name'' inputName)) (\<lambda>displayName.
   bindE (callStore m (\<lambda>ce. UserByID ce userID)) (\<lambda>previous.
   bindE (now m) (\<lambda>t.
   let user = previous\<lparr>usr_DisplayName := displayName, usr_UpdatedAt := t\<rparr> in
   bindE (newAudit m (auth_UserID actor) operation ''user'' (UUID_String userID) 0 AuditSucceeded []) (\<lambda>audit.
   bindE (newEventMeta m ''user.profile_updated'' operation (auth_UserID actor) 0 audit) (\<lambda>meta.
   bindE (committing m operation audit operation meta (\<lambda>c. callStore m (\<lambda>ce. UpdateUser (m_sha m) ce user c))) (\<lambda>_.
   ret user))))))))"

definition managerUpdateUser :: "manager \<Rightarrow> authentication \<Rightarrow> string \<Rightarrow> user op" where
  "managerUpdateUser m actor inputName = (bindE (requireRecentInteractive m actor) (\<lambda>_.
   updateUserProfile m actor (auth_UserID actor) inputName ''user.profile.update''))"

definition AdminUpdateUser :: "manager \<Rightarrow> authentication \<Rightarrow> bool \<Rightarrow> uuid \<Rightarrow> string \<Rightarrow> user op" where
  "AdminUpdateUser m actor local userID inputName = (bindE (AuthorizeAdmin m actor PermissionUsersWrite) (\<lambda>_.
   bindE (requireAdminMutation m actor local ''admin.user.profile.update'') (\<lambda>_.
   updateUserProfile m actor userID inputName ''admin.user.profile.update'')))"

section \<open>Memberships\<close>

definition upsertLocalMembership :: "manager \<Rightarrow> authentication \<Rightarrow> uuid \<Rightarrow> uuid \<Rightarrow> role \<Rightarrow> membershipStatus \<Rightarrow> bool \<Rightarrow> membership op" where
  "upsertLocalMembership m actor workspaceID userID role0 status add = (
     let operation = (if add then ''membership.add'' else ''membership.status.set'');
         name = (if add then ''membership.added'' else ''membership.status_changed'')
     in (bindE (authorizeWorkspaceMutation m actor workspaceID PermissionWorkspaceUsersWrite operation) (\<lambda>_.
      bindE ((if add then AuthorizePermission m actor workspaceID PermissionWorkspaceRBACWrite else ret ())) (\<lambda>_.
      bindE (liftR (normalizeRole (m_workspaceRoles m) role0)) (\<lambda>r.
      bindE (callStore m (\<lambda>ce. UserByID ce userID)) (\<lambda>_.
      bindE (tryE (callStore m (\<lambda>ce. Membership ce workspaceID userID))) (\<lambda>p.
      bindE ((case p of
            Inr current \<Rightarrow> (bindE (failIf (mbr_ProvisioningSource current \<noteq> ProvisioningSourceLocal) ErrConflict) (\<lambda>_.
             bindE (failIf add ErrConflict) (\<lambda>_.
             ret (Some current))))
          | Inl lookupErr \<Rightarrow> (bindE (failIf (\<not> errorsIs lookupErr ErrNotFound) lookupErr) (\<lambda>_.
           bindE (failIf (\<not> add) ErrNotFound) (\<lambda>_.
           ret None))))) (\<lambda>previous.
      bindE (now m) (\<lambda>t.
      let membership = localMembership workspaceID userID r status
             (case previous of Some current \<Rightarrow> mbr_CreatedAt current | None \<Rightarrow> t) t in
      bindE (newAudit m (auth_UserID actor) operation ''membership'' (UUID_String userID) workspaceID AuditSucceeded []) (\<lambda>audit.
      bindE (newEventMeta m name operation (auth_UserID actor) workspaceID audit) (\<lambda>meta.
      bindE (committing m operation audit operation meta (\<lambda>c. callStore m (\<lambda>ce. UpsertMembership (m_sha m) ce membership c))) (\<lambda>_.
      ret membership))))))))))))"

definition AddMembership :: "manager \<Rightarrow> authentication \<Rightarrow> uuid \<Rightarrow> uuid \<Rightarrow> role \<Rightarrow> membership op" where
  "AddMembership m actor workspaceID userID r = upsertLocalMembership m actor workspaceID userID r MembershipActive True"

definition SetMembershipStatus :: "manager \<Rightarrow> authentication \<Rightarrow> uuid \<Rightarrow> uuid \<Rightarrow> membershipStatus \<Rightarrow> membership op" where
  "SetMembershipStatus m actor workspaceID userID status = (bindE (failIf (status \<noteq> MembershipActive \<and> status \<noteq> MembershipSuspended) ErrInvalidInput) (\<lambda>_.
   bindE (authorizeWorkspaceMutation m actor workspaceID PermissionWorkspaceUsersWrite ''membership.status.set'') (\<lambda>_.
   bindE (callStore m (\<lambda>ce. Membership ce workspaceID userID)) (\<lambda>current.
   upsertLocalMembership m actor workspaceID userID (mbr_Role current) status False))))"

definition RemoveMembership :: "manager \<Rightarrow> authentication \<Rightarrow> uuid \<Rightarrow> uuid \<Rightarrow> unit op" where
  "RemoveMembership m actor workspaceID userID = (bindE (authorizeWorkspaceMutation m actor workspaceID PermissionWorkspaceUsersWrite ''membership.remove'') (\<lambda>_.
   bindE (callStore m (\<lambda>ce. Membership ce workspaceID userID)) (\<lambda>previous.
   bindE (failIf (mbr_ProvisioningSource previous \<noteq> ProvisioningSourceLocal) ErrConflict) (\<lambda>_.
   bindE (newAudit m (auth_UserID actor) ''membership.remove'' ''membership'' (UUID_String userID) workspaceID AuditSucceeded []) (\<lambda>audit.
   bindE (newEventMeta m ''membership.removed'' ''membership.remove'' (auth_UserID actor) workspaceID audit) (\<lambda>meta.
   bindE (now m) (\<lambda>t.
   committing m ''membership.remove'' audit ''membership.remove'' meta
       (\<lambda>c. callStore m (\<lambda>ce. storeRemoveMembership (m_sha m) ce workspaceID userID t c)))))))))"

section \<open>Reading\<close>

definition managerUser :: "manager \<Rightarrow> authentication \<Rightarrow> uuid \<Rightarrow> user op" where
  "managerUser m actor userID0 = (bindE (failIf (auth_UserID actor = 0) ErrUnauthorized) (\<lambda>_.
   let userID = (if userID0 = 0 then auth_UserID actor else userID0) in
   bindE ((if userID = auth_UserID actor then requireRecentInteractive m actor
      else (bindE (failIf (\<not> validUUIDv7 userID) ErrInvalidInput) (\<lambda>_.
       AuthorizeAdmin m actor PermissionUsersRead)))) (\<lambda>_.
   callStore m (\<lambda>ce. UserByID ce userID))))"

text \<open>A member reads the workspace as such, anyone else as an administrator; the refusal is the member's.\<close>

definition managerWorkspace :: "manager \<Rightarrow> authentication \<Rightarrow> uuid \<Rightarrow> workspace op" where
  "managerWorkspace m actor workspaceID = (bindE (failIf (\<not> validUUIDv7 workspaceID) ErrInvalidInput) (\<lambda>_.
   bindE (tryE (AuthorizePermission m actor workspaceID PermissionWorkspaceAccess)) (\<lambda>r.
   bindE ((case r of
        Inr _ \<Rightarrow> ret ()
      | Inl err \<Rightarrow> (bindE (tryE (AuthorizeAdmin m actor PermissionWorkspacesRead)) (\<lambda>a.
       (case a of Inl _ \<Rightarrow> fail err | Inr _ \<Rightarrow> ret ()))))) (\<lambda>_.
   callStore m (\<lambda>ce. WorkspaceByID ce workspaceID)))))"

definition managerMembership :: "manager \<Rightarrow> authentication \<Rightarrow> uuid \<Rightarrow> uuid \<Rightarrow> membership op" where
  "managerMembership m actor workspaceID userID0 = (bindE (failIf (\<not> validUUIDv7 workspaceID) ErrInvalidInput) (\<lambda>_.
   let userID = (if userID0 = 0 then auth_UserID actor else userID0) in
   bindE (failIf (userID \<noteq> auth_UserID actor \<and> \<not> validUUIDv7 userID) ErrInvalidInput) (\<lambda>_.
   bindE (AuthorizePermission m actor workspaceID
       (if userID = auth_UserID actor then PermissionWorkspaceAccess else PermissionWorkspaceUsersRead)) (\<lambda>_.
   callStore m (\<lambda>ce. Membership ce workspaceID userID)))))"

definition managerUsers :: "manager \<Rightarrow> authentication \<Rightarrow> pageRequest \<Rightarrow> world \<Rightarrow> user pageEvent result list \<times> world" where
  "managerUsers m actor page0 = stream (bindE (AuthorizeAdmin m actor PermissionUsersRead) (\<lambda>_.
   bindE (liftR (normalizePage page0)) (\<lambda>page.
   readStream m (\<lambda>ce ctxErr. Users (lib_UnmarshalCursor (m_library m)) ce page))))"

definition managerWorkspaces :: "manager \<Rightarrow> authentication \<Rightarrow> pageRequest \<Rightarrow> world \<Rightarrow> workspace pageEvent result list \<times> world" where
  "managerWorkspaces m actor page0 = stream (bindE (AuthorizeAdmin m actor PermissionWorkspacesRead) (\<lambda>_.
   bindE (liftR (normalizePage page0)) (\<lambda>page.
   readStream m (\<lambda>ce ctxErr. Workspaces (lib_UnmarshalCursor (m_library m)) ce page))))"

definition managerUserWorkspaces :: "manager \<Rightarrow> authentication \<Rightarrow> pageRequest \<Rightarrow> world \<Rightarrow> workspace pageEvent result list \<times> world" where
  "managerUserWorkspaces m actor page0 = stream (bindE (failIf (auth_UserID actor = 0) ErrUnauthorized) (\<lambda>_.
   bindE (enabledUser m (auth_UserID actor)) (\<lambda>_.
   bindE (liftR (normalizePage page0)) (\<lambda>page.
   readStream m (\<lambda>ce ctxErr. UserWorkspaces (lib_UnmarshalCursor (m_library m)) ce (auth_UserID actor) page)))))"

definition managerMemberships :: "manager \<Rightarrow> authentication \<Rightarrow> uuid \<Rightarrow> pageRequest \<Rightarrow> world \<Rightarrow> membership pageEvent result list \<times> world" where
  "managerMemberships m actor workspaceID page0 = stream (bindE (AuthorizePermission m actor workspaceID PermissionWorkspaceUsersRead) (\<lambda>_.
   bindE (liftR (normalizePage page0)) (\<lambda>page.
   readStream m (\<lambda>ce ctxErr. Memberships (lib_UnmarshalCursor (m_library m)) ce workspaceID page))))"

definition WorkspaceMembers :: "manager \<Rightarrow> authentication \<Rightarrow> uuid \<Rightarrow> pageRequest \<Rightarrow> world
    \<Rightarrow> (user \<times> membership) pageEvent result list \<times> world" where
  "WorkspaceMembers m actor workspaceID page0 = stream (bindE (AuthorizePermission m actor workspaceID PermissionWorkspaceUsersRead) (\<lambda>_.
   bindE (liftR (normalizePage page0)) (\<lambda>page.
   bindE (readStream m (\<lambda>ce ctxErr. Memberships (lib_UnmarshalCursor (m_library m)) ce workspaceID page)) (\<lambda>events.
   joinUsers m mbr_UserID (\<lambda>membership user. (user, membership)) events))))"

section \<open>Invitations\<close>

definition invitationPrefix :: string where "invitationPrefix = ''cbi''"

definition scrubInvitation :: "workspaceInvitation \<Rightarrow> workspaceInvitation" where
  "scrubInvitation invitation = invitation\<lparr>inv_Digest := []\<rparr>"

text \<open>\<^verbatim>\<open>if _, err := lookup(); err == nil { return ErrConflict } else if !errors.Is(err, ErrNotFound) { return err }\<close>\<close>

definition mustBeAbsent :: "'a op \<Rightarrow> unit op" where
  "mustBeAbsent f = (bindE (tryE f) (\<lambda>r.
   (case r of Inr _ \<Rightarrow> fail ErrConflict | Inl err \<Rightarrow> failIf (\<not> errorsIs err ErrNotFound) err)))"

definition InviteToWorkspace :: "manager \<Rightarrow> authentication \<Rightarrow> uuid \<Rightarrow> string \<Rightarrow> role \<Rightarrow> (workspaceInvitation \<times> string) op" where
  "InviteToWorkspace m actor workspaceID inputEmail inputRole = (bindE (requireScopedStepUp m actor StepUpScopeWorkspace ''workspace.invitation.create'') (\<lambda>_.
   bindE (AuthorizePermission m actor workspaceID PermissionWorkspaceUsersWrite) (\<lambda>_.
   bindE (liftR (validEmail m inputEmail)) (\<lambda>email.
   bindE (liftR (normalizeRole (m_workspaceRoles m) inputRole)) (\<lambda>r.
   bindE (tryE (callStore m (\<lambda>ce. UserByEmail ce email))) (\<lambda>u.
   bindE ((case u of
        Inr user \<Rightarrow> mustBeAbsent (callStore m (\<lambda>ce. Membership ce workspaceID (usr_ID user)))
      | Inl lookupErr \<Rightarrow> failIf (\<not> errorsIs lookupErr ErrNotFound) lookupErr)) (\<lambda>_.
   bindE (mustBeAbsent (callStore m (\<lambda>ce. PendingWorkspaceInvitation ce workspaceID email))) (\<lambda>_.
   bindE (newID m) (\<lambda>i.
   bindE (randomBytes m 32) (\<lambda>secret.
   let raw = secretToken invitationPrefix i secret in
   bindE (now m) (\<lambda>t.
   let invitation = \<lparr>inv_ID = i, inv_WorkspaceID = workspaceID, inv_Email = email, inv_Role = r,
           inv_InvitedBy = auth_UserID actor, inv_Digest = tokenDigest m (''workspace-invitation:'' @ raw), inv_CreatedAt = t,
           inv_ExpiresAt = t + m_invitationTTL m, inv_AcceptedAt = None, inv_AcceptedUserID = 0, inv_RevokedAt = None\<rparr> in
   bindE (newAudit m (auth_UserID actor) ''workspace.invitation.create'' ''workspace_invitation'' (UUID_String i) workspaceID
       AuditSucceeded []) (\<lambda>event.
   bindE (newEventMeta m ''workspace.invitation_created'' ''workspace.invitation.create'' (auth_UserID actor) workspaceID event) (\<lambda>meta.
   bindE (committing m ''workspace.invitation.create'' event ''workspace.invitation.create'' meta
       (\<lambda>c. callStore m (\<lambda>ce. CreateWorkspaceInvitation (m_sha m) ce invitation c))) (\<lambda>_.
   ret (scrubInvitation invitation, raw)))))))))))))))"

definition usableInvitation :: "manager \<Rightarrow> string \<Rightarrow> string \<Rightarrow> workspaceInvitation op" where
  "usableInvitation m raw action = (case parseSecretToken invitationPrefix raw of
      None \<Rightarrow> fail ErrInvalidCredentials
    | Some invitationID \<Rightarrow> (bindE (tryE (callStore m (\<lambda>ce. WorkspaceInvitationByID ce invitationID))) (\<lambda>r.
     (case r of
           Inl lookupErr \<Rightarrow> if errorsIs lookupErr ErrNotFound then fail ErrInvalidCredentials else fail lookupErr
         | Inr invitation \<Rightarrow> (bindE ((if inv_RevokedAt invitation \<noteq> None \<or> inv_AcceptedAt invitation \<noteq> None
              then refuse m 0 action ''invalid_credentials'' ErrInvalidCredentials else ret ())) (\<lambda>_.
          bindE (now m) (\<lambda>t.
          bindE ((if \<not> t < inv_ExpiresAt invitation then refuse m 0 action ''expired'' ErrExpired else ret ())) (\<lambda>_.
          bindE ((if \<not> matchTokenDigest m (inv_Digest invitation) (''workspace-invitation:'' @ raw)
              then refuse m 0 action ''invalid_credentials'' ErrInvalidCredentials else ret ())) (\<lambda>_.
          bindE (callStore m (\<lambda>ce. WorkspaceByID ce (inv_WorkspaceID invitation))) (\<lambda>workspace.
          bindE (failIf (wsp_DisabledAt workspace \<noteq> None) ErrForbidden) (\<lambda>_.
          ret (scrubInvitation invitation))))))))))))"

definition AcceptInvitation :: "manager \<Rightarrow> authentication \<Rightarrow> string \<Rightarrow> membership op" where
  "AcceptInvitation m actor raw = (bindE (requireRecentInteractive m actor) (\<lambda>_.
   bindE (usableInvitation m raw ''workspace.invitation.accept'') (\<lambda>invitation.
   bindE (ownsVerifiedEmail m (auth_UserID actor) (inv_Email invitation)) (\<lambda>owned.
   bindE ((if \<not> owned then refuse m (auth_UserID actor) ''workspace.invitation.accept'' ''email_mismatch'' ErrForbidden else ret ())) (\<lambda>_.
   bindE (mustBeAbsent (callStore m (\<lambda>ce. Membership ce (inv_WorkspaceID invitation) (auth_UserID actor)))) (\<lambda>_.
   bindE (now m) (\<lambda>t.
   let membership = localMembership (inv_WorkspaceID invitation) (auth_UserID actor) (inv_Role invitation) MembershipActive t t in
   bindE (newAudit m (auth_UserID actor) ''workspace.invitation.accept'' ''workspace_invitation''
       (UUID_String (inv_ID invitation)) (inv_WorkspaceID invitation) AuditSucceeded []) (\<lambda>event.
   bindE (newEventMeta m ''workspace.invitation_accepted'' ''workspace.invitation.accept'' (auth_UserID actor)
       (inv_WorkspaceID invitation) event) (\<lambda>invitationMeta.
   bindE (newEventMeta m ''membership.added'' ''workspace.invitation.accept'' (auth_UserID actor)
       (inv_WorkspaceID invitation) event) (\<lambda>membershipMeta.
   bindE (orMapped m ''workspace.invitation.accept'' (callStore m (\<lambda>ce. storeAcceptWorkspaceInvitation (m_sha m) ce (inv_ID invitation)
       (auth_UserID actor) t membership
       (commitOf m event [(''membership.change'', membershipMeta), (''workspace.invitation.accept'', invitationMeta)])))) (\<lambda>_.
   bindE (emit membershipMeta) (\<lambda>_.
   bindE (emit invitationMeta) (\<lambda>_.
   ret membership)))))))))))))"

definition RegisterFromInvitation :: "manager \<Rightarrow> string \<Rightarrow> string \<Rightarrow> string \<Rightarrow> (authentication \<times> user) op" where
  "RegisterFromInvitation m raw inputName password = (bindE (usableInvitation m raw ''workspace.invitation.register'') (\<lambda>invitation.
   bindE (domainRequiresSSO m (inv_Email invitation) ''workspace.invitation.register'') (\<lambda>_.
   let displayName = TrimSpace inputName in
   bindE (failIf (displayName = []) (ValidationError ''display_name'' ''required'')) (\<lambda>_.
   bindE (liftR (validatePassword m password)) (\<lambda>_.
   bindE (mustBeAbsent (callStore m (\<lambda>ce. UserByEmail ce (inv_Email invitation)))) (\<lambda>_.
   bindE (hashPassword m password) (\<lambda>hash.
   bindE (newID m) (\<lambda>userID.
   bindE (newID m) (\<lambda>emailID.
   bindE (now m) (\<lambda>t.
   let user = (newUser userID (inv_Email invitation) displayName t)\<lparr>usr_LastSeenAt := Some t\<rparr> in
   let primaryEmail = newPrimaryEmail emailID userID (inv_Email invitation) (Some t) t in
   let membership = localMembership (inv_WorkspaceID invitation) userID (inv_Role invitation) MembershipActive t t in
   bindE (newAudit m userID ''workspace.invitation.register'' ''workspace_invitation'' (UUID_String (inv_ID invitation))
       (inv_WorkspaceID invitation) AuditSucceeded []) (\<lambda>event.
   bindE (newEventMeta m ''user.created'' ''workspace.invitation.register'' userID (inv_WorkspaceID invitation) event) (\<lambda>userMeta.
   bindE (newEventMeta m ''workspace.invitation_accepted'' ''workspace.invitation.register'' userID
       (inv_WorkspaceID invitation) event) (\<lambda>invitationMeta.
   bindE (orMapped m ''workspace.invitation.register'' (callStore m (\<lambda>ce. RegisterInvitedUser (m_sha m) ce (inv_ID invitation) user
       primaryEmail (passwordOf userID hash t) membership t
       (commitOf m event [(''user.create'', userMeta), (''workspace.invitation.accept'', invitationMeta)])))) (\<lambda>_.
   bindE (emit userMeta) (\<lambda>_.
   bindE (emit invitationMeta) (\<lambda>_.
   let authn = zeroAuthentication\<lparr>auth_UserID := userID, auth_Method := MethodPassword, auth_Level := AAL1,
           auth_AuthenticatedAt := t, auth_CredentialDigest := CredentialFingerprint (m_sha m) hash\<rparr> in
   bindE (emitAuthenticationSucceeded m ''workspace.invitation.register'' event authn) (\<lambda>_.
   ret (authn, user))))))))))))))))))"

definition RevokeInvitation :: "manager \<Rightarrow> authentication \<Rightarrow> uuid \<Rightarrow> uuid \<Rightarrow> unit op" where
  "RevokeInvitation m actor workspaceID invitationID = (bindE (requireScopedStepUp m actor StepUpScopeWorkspace ''workspace.invitation.revoke'') (\<lambda>_.
   bindE (AuthorizePermission m actor workspaceID PermissionWorkspaceUsersWrite) (\<lambda>_.
   bindE (failIf (\<not> validUUIDv7 invitationID) ErrInvalidInput) (\<lambda>_.
   bindE (now m) (\<lambda>t.
   bindE (callStore m (\<lambda>ce. WorkspaceInvitationByID ce invitationID)) (\<lambda>invitation.
   bindE (failIf (inv_WorkspaceID invitation \<noteq> workspaceID) ErrNotFound) (\<lambda>_.
   bindE (newAudit m (auth_UserID actor) ''workspace.invitation.revoke'' ''workspace_invitation'' (UUID_String invitationID)
       workspaceID AuditSucceeded []) (\<lambda>event.
   bindE (newEventMeta m ''workspace.invitation_revoked'' ''workspace.invitation.revoke'' (auth_UserID actor) workspaceID event) (\<lambda>meta.
   committing m ''workspace.invitation.revoke'' event ''workspace.invitation.revoke'' meta
       (\<lambda>c. callStore m (\<lambda>ce. storeRevokeWorkspaceInvitation (m_sha m) ce workspaceID invitationID t c)))))))))))"

definition scrubEvent :: "workspaceInvitation pageEvent result \<Rightarrow> workspaceInvitation pageEvent result" where
  "scrubEvent e = (case e of Inr (ItemEvent invitation) \<Rightarrow> Inr (ItemEvent (scrubInvitation invitation)) | _ \<Rightarrow> e)"

definition managerWorkspaceInvitations :: "manager \<Rightarrow> authentication \<Rightarrow> uuid \<Rightarrow> pageRequest \<Rightarrow> world
    \<Rightarrow> workspaceInvitation pageEvent result list \<times> world" where
  "managerWorkspaceInvitations m actor workspaceID page0 = stream (bindE (AuthorizePermission m actor workspaceID PermissionWorkspaceUsersRead) (\<lambda>_.
   bindE (liftR (normalizePage page0)) (\<lambda>page.
   bindE (readStream m (\<lambda>ce ctxErr. WorkspaceInvitations (lib_UnmarshalCursor (m_library m)) ce workspaceID page)) (\<lambda>events.
   ret (map scrubEvent events)))))"

section \<open>Domains\<close>

definition domainChallengePrefix :: string where "domainChallengePrefix = ''credbound-domain-verification=''"

definition domainLabels :: "string \<Rightarrow> string list" where
  "domainLabels s = SplitN CHR ''.'' (Suc (length s)) s"

definition labelOk :: "string \<Rightarrow> bool" where
  "labelOk label = (label \<noteq> [] \<and> length label \<le> 63 \<and> hd label \<noteq> CHR ''-'' \<and> last label \<noteq> CHR ''-''
     \<and> list_all (\<lambda>c. (CHR ''a'' \<le> c \<and> c \<le> CHR ''z'') \<or> (CHR ''0'' \<le> c \<and> c \<le> CHR ''9'') \<or> c = CHR ''-'') label)"

definition validWorkspaceDomainName :: "manager \<Rightarrow> string \<Rightarrow> string result" where
  "validWorkspaceDomainName m value = (let normalized = ToLower (TrimSpace value) in
     if normalized = [] then Inl (ValidationError ''domain'' ''required'')
     else if length normalized > 253 \<or> CHR ''.'' \<notin> set normalized \<or> lib_ParseIP (m_library m) normalized
     then Inl (ValidationError ''domain'' ''format'')
     else if \<not> list_all labelOk (domainLabels normalized) then Inl (ValidationError ''domain'' ''format'')
     else if normalized = lib_PublicSuffix (m_library m) normalized then Inl (ValidationError ''domain'' ''format'')
     else Inr normalized)"

definition managerCreateWorkspaceDomain :: "manager \<Rightarrow> authentication \<Rightarrow> uuid \<Rightarrow> string \<Rightarrow> (workspaceDomain \<times> string) op" where
  "managerCreateWorkspaceDomain m actor workspaceID domain = (bindE (failIf (\<not> m_domainStore m) ErrNotSupported) (\<lambda>_.
   bindE (authorizeWorkspaceMutation m actor workspaceID PermissionWorkspaceSettingsWrite ''workspace.domain.create'') (\<lambda>_.
   bindE (liftR (validWorkspaceDomainName m domain)) (\<lambda>name.
   bindE (newID m) (\<lambda>i.
   bindE (randomBytes m 32) (\<lambda>secret.
   let challenge = domainChallengePrefix @ b64Encode secret in
   bindE (now m) (\<lambda>t.
   let claim = \<lparr>dom_ID = i, dom_WorkspaceID = workspaceID, dom_Domain = name, dom_Challenge = challenge, dom_ConfirmedAt = None,
           dom_AutoJoin = False, dom_AutoJoinRole = [], dom_SSOProviderConfigurationID = 0, dom_EnforceSSO = False,
           dom_CreatedAt = t, dom_UpdatedAt = t\<rparr> in
   bindE (newAudit m (auth_UserID actor) ''workspace.domain.create'' ''workspace_domain'' (UUID_String i) workspaceID
       AuditSucceeded []) (\<lambda>event.
   bindE (newEventMeta m ''workspace.domain.created'' ''workspace.domain.create'' (auth_UserID actor) workspaceID event) (\<lambda>meta.
   bindE (committing m ''workspace.domain.create'' event ''workspace.domain.create'' meta
       (\<lambda>c. callStore m (\<lambda>ce. CreateWorkspaceDomain (m_sha m) ce claim (t - m_domainClaimTTL m) c))) (\<lambda>_.
   ret (claim, challenge)))))))))))"

definition authorizedWorkspaceDomain :: "manager \<Rightarrow> authentication \<Rightarrow> uuid \<Rightarrow> string \<Rightarrow> workspaceDomain op" where
  "authorizedWorkspaceDomain m actor domainID operation = (bindE (requireScopedStepUp m actor StepUpScopeWorkspace operation) (\<lambda>_.
   bindE (failIf (\<not> validUUIDv7 domainID) ErrInvalidInput) (\<lambda>_.
   bindE (callStore m (\<lambda>ce. WorkspaceDomainByID ce domainID)) (\<lambda>domain.
   bindE (authorizeWorkspaceMutation m actor (dom_WorkspaceID domain) PermissionWorkspaceSettingsWrite operation) (\<lambda>_.
   ret domain)))))"

definition ConfirmWorkspaceDomain :: "manager \<Rightarrow> authentication \<Rightarrow> uuid \<Rightarrow> unit op" where
  "ConfirmWorkspaceDomain m actor domainID = (bindE (failIf (\<not> m_domainStore m) ErrNotSupported) (\<lambda>_.
   bindE (failIf (m_domainVerifier m = None \<and> \<not> m_trustActorDomains m) ErrNotSupported) (\<lambda>_.
   bindE (authorizedWorkspaceDomain m actor domainID ''workspace.domain.confirm'') (\<lambda>domain.
   bindE (failIf (dom_ConfirmedAt domain \<noteq> None) ErrConflict) (\<lambda>_.
   bindE ((case m_domainVerifier m of
        None \<Rightarrow> ret ()
      | Some verify \<Rightarrow> asking (\<lambda>n. case verify n (dom_Domain domain) (dom_Challenge domain) of
            Some _ \<Rightarrow> Inl ErrDomainVerification | None \<Rightarrow> Inr ()))) (\<lambda>_.
   bindE (now m) (\<lambda>t.
   bindE (newAudit m (auth_UserID actor) ''workspace.domain.confirm'' ''workspace_domain'' (UUID_String (dom_ID domain))
       (dom_WorkspaceID domain) AuditSucceeded []) (\<lambda>event.
   bindE (newEventMeta m ''workspace.domain.confirmed'' ''workspace.domain.confirm'' (auth_UserID actor) (dom_WorkspaceID domain) event) (\<lambda>meta.
   committing m ''workspace.domain.confirm'' event ''workspace.domain.confirm'' meta
       (\<lambda>c. callStore m (\<lambda>ce. storeConfirmWorkspaceDomain (m_sha m) ce (dom_ID domain) t c)))))))))))"

definition UpdateWorkspaceDomainPolicy :: "manager \<Rightarrow> authentication \<Rightarrow> uuid \<Rightarrow> workspaceDomainPolicyInput \<Rightarrow> unit op" where
  "UpdateWorkspaceDomainPolicy m actor domainID input0 = (bindE (failIf (\<not> m_domainStore m) ErrNotSupported) (\<lambda>_.
   bindE (authorizedWorkspaceDomain m actor domainID ''workspace.domain.policy_update'') (\<lambda>domain.
   bindE (failIf (dom_ConfirmedAt domain = None) ErrConflict) (\<lambda>_.
   bindE (liftR (normalizeRole (m_workspaceRoles m) (if dpi_AutoJoinRole input0 = [] then RoleMember else dpi_AutoJoinRole input0))) (\<lambda>r.
   let input = input0\<lparr>dpi_AutoJoinRole := r\<rparr> in
   bindE (failIf ((dpi_AutoJoin input \<or> dpi_EnforceSSO input \<or> dpi_SSOProviderConfigurationID input \<noteq> 0)
       \<and> \<not> has (dpi_SSOProviderConfigurationID input) (m_ssoProviders m)) (ValidationError ''sso_provider_configuration_id'' ''unknown'')) (\<lambda>_.
   bindE (now m) (\<lambda>t.
   bindE (newAudit m (auth_UserID actor) ''workspace.domain.policy_update'' ''workspace_domain'' (UUID_String (dom_ID domain))
       (dom_WorkspaceID domain) AuditSucceeded []) (\<lambda>event.
   bindE (newEventMeta m ''workspace.domain.policy_updated'' ''workspace.domain.policy_update'' (auth_UserID actor)
       (dom_WorkspaceID domain) event) (\<lambda>meta.
   committing m ''workspace.domain.policy_update'' event ''workspace.domain.policy_update'' meta
       (\<lambda>c. callStore m (\<lambda>ce. storeUpdateWorkspaceDomainPolicy (m_sha m) ce (dom_ID domain) input t c)))))))))))"

definition RemoveWorkspaceDomain :: "manager \<Rightarrow> authentication \<Rightarrow> uuid \<Rightarrow> unit op" where
  "RemoveWorkspaceDomain m actor domainID = (bindE (failIf (\<not> m_domainStore m) ErrNotSupported) (\<lambda>_.
   bindE (authorizedWorkspaceDomain m actor domainID ''workspace.domain.remove'') (\<lambda>domain.
   bindE (newAudit m (auth_UserID actor) ''workspace.domain.remove'' ''workspace_domain'' (UUID_String (dom_ID domain))
       (dom_WorkspaceID domain) AuditSucceeded []) (\<lambda>event.
   bindE (newEventMeta m ''workspace.domain.removed'' ''workspace.domain.remove'' (auth_UserID actor) (dom_WorkspaceID domain) event) (\<lambda>meta.
   committing m ''workspace.domain.remove'' event ''workspace.domain.remove'' meta
       (\<lambda>c. callStore m (\<lambda>ce. storeDeleteWorkspaceDomain (m_sha m) ce (dom_ID domain) c)))))))"

definition WorkspaceDomains :: "manager \<Rightarrow> authentication \<Rightarrow> uuid \<Rightarrow> pageRequest \<Rightarrow> world \<Rightarrow> workspaceDomain pageEvent result list \<times> world" where
  "WorkspaceDomains m actor workspaceID page0 = stream (bindE (failIf (\<not> m_domainStore m) ErrNotSupported) (\<lambda>_.
   bindE (AuthorizePermission m actor workspaceID PermissionWorkspaceAccess) (\<lambda>_.
   bindE (liftR (normalizePage page0)) (\<lambda>page.
   readStream m (\<lambda>ce ctxErr. storeWorkspaceDomains (lib_UnmarshalCursor (m_library m)) ce ctxErr workspaceID page)))))"

section \<open>The operations run the store\<close>

context environment
begin

lemma updateWorkspace_runs [run_rules]: "relates (runs m) (updateWorkspace m a w h rq h2)"
  unfolding updateWorkspace_def by (intro run_rules; assumption)

lemma workspaces_run [run_rules]: "relates (runs m) (CreateWorkspace m a h b)" "relates (runs m) (UpdateWorkspace m a w h rq)"
  "relates (runs m) (AdminUpdateWorkspace m a b w h rq)" "relates (runs m) (setWorkspaceDisabled m a b w d ad)"
  unfolding CreateWorkspace_def UpdateWorkspace_def AdminUpdateWorkspace_def setWorkspaceDisabled_def
  by (intro run_rules; assumption)+

lemma workspace_switches_run [run_rules]: "relates (runs m) (DisableWorkspace m a w)" "relates (runs m) (EnableWorkspace m a w)"
  "relates (runs m) (AdminDisableWorkspace m a b w)" "relates (runs m) (AdminEnableWorkspace m a b w)"
  unfolding DisableWorkspace_def EnableWorkspace_def AdminDisableWorkspace_def AdminEnableWorkspace_def by (intro run_rules)+

lemma users_run [run_rules]: "relates (runs m) (setUserDisabled m a b u d)" "relates (runs m) (DisableUser m a b u)"
  "relates (runs m) (EnableUser m a b u)" "relates (runs m) (updateUserProfile m a u h h2)"
  "relates (runs m) (managerUpdateUser m a h)" "relates (runs m) (AdminUpdateUser m a b u h)"
  unfolding DisableUser_def EnableUser_def setUserDisabled_def managerUpdateUser_def AdminUpdateUser_def updateUserProfile_def
  by (intro run_rules; assumption)+

lemma memberships_run [run_rules]: "relates (runs m) (upsertLocalMembership m a w u r h d)" "relates (runs m) (AddMembership m a w u r)"
  "relates (runs m) (SetMembershipStatus m a w u h)" "relates (runs m) (RemoveMembership m a w u)"
  unfolding AddMembership_def SetMembershipStatus_def upsertLocalMembership_def RemoveMembership_def
  by (intro run_rules; assumption)+

lemma reading_runs [run_rules]: "relates (runs m) (managerUser m a u)" "relates (runs m) (managerWorkspace m a w)"
  "relates (runs m) (managerMembership m a w u)" "relates (runs m) (managerUsers m a page)"
  "relates (runs m) (managerWorkspaces m a page)" "relates (runs m) (managerUserWorkspaces m a page)"
  "relates (runs m) (managerMemberships m a w page)" "relates (runs m) (WorkspaceMembers m a w page)"
  unfolding managerUser_def managerWorkspace_def managerMembership_def managerUsers_def managerWorkspaces_def
    managerUserWorkspaces_def managerMemberships_def WorkspaceMembers_def
  by (intro run_rules stream_runs)+

lemma mustBeAbsent_runs [run_rules]: "relates (runs m) f \<Longrightarrow> relates (runs m) (mustBeAbsent f)"
  unfolding mustBeAbsent_def by (intro run_rules)

lemma usableInvitation_runs [run_rules]: "relates (runs m) (usableInvitation m raw h)"
  unfolding usableInvitation_def by (intro run_rules)

lemma invitations_run [run_rules]: "relates (runs m) (InviteToWorkspace m a w h r)" "relates (runs m) (AcceptInvitation m a raw)"
  "relates (runs m) (RegisterFromInvitation m raw h p)" "relates (runs m) (RevokeInvitation m a w i)"
  "relates (runs m) (managerWorkspaceInvitations m a w page)"
  unfolding InviteToWorkspace_def AcceptInvitation_def RegisterFromInvitation_def RevokeInvitation_def
    managerWorkspaceInvitations_def by (intro run_rules stream_runs; assumption)+

lemma authorizedWorkspaceDomain_runs [run_rules]: "relates (runs m) (authorizedWorkspaceDomain m a i h)"
  unfolding authorizedWorkspaceDomain_def by (intro run_rules)

lemma domains_run [run_rules]: "relates (runs m) (managerCreateWorkspaceDomain m a w h)" "relates (runs m) (ConfirmWorkspaceDomain m a i)"
  "relates (runs m) (UpdateWorkspaceDomainPolicy m a i dpi)" "relates (runs m) (RemoveWorkspaceDomain m a i)"
  "relates (runs m) (WorkspaceDomains m a w page)"
  unfolding managerCreateWorkspaceDomain_def ConfirmWorkspaceDomain_def UpdateWorkspaceDomainPolicy_def RemoveWorkspaceDomain_def
    WorkspaceDomains_def by (intro run_rules stream_runs; assumption)+

end

end
