(* ===== verification/ManagerFactors.thy ===== *)
theory ManagerFactors
  imports ManagerTenancy
begin

text \<open>
  Second factors: TOTP and recovery codes (\<^verbatim>\<open>totp.go\<close>) and passkeys (\<^verbatim>\<open>passkey.go\<close>). A provider is asked as often as the
  code asks it; the lazy sequence of credentials a passkey provider is handed is read where the provider
  is called. Payloads of events beyond their metadata are not modelled.
\<close>

section \<open>TOTP\<close>

record totpEnrollment =
  ten_URI :: string

record totpStatus =
  tst_Enrolled :: bool
  tst_Active :: bool
  tst_UnusedRecoveryCodes :: nat
  tst_CreatedAt :: time
  tst_UpdatedAt :: time

definition ofBytes :: "bytes \<Rightarrow> string" where
  "ofBytes bs = map (\<lambda>b. char_of (unat b)) bs"

text \<open>Base 32 without padding: five bits to a character, the last group filled with zeros.\<close>

definition base32Digit :: "bool list \<Rightarrow> char" where
  "base32Digit bs = ''ABCDEFGHIJKLMNOPQRSTUVWXYZ234567'' ! (horner_sum of_bool 2 (rev (bs @ replicate (5 - length bs) False)))"

fun base32Groups :: "bool list \<Rightarrow> string" where
  "base32Groups (a # b # c # d # e # bs) = base32Digit [a, b, c, d, e] # base32Groups bs"
| "base32Groups [] = []"
| "base32Groups bs = [base32Digit bs]"

definition base32Encode :: "bytes \<Rightarrow> string" where
  "base32Encode bs = base32Groups (concat (map (\<lambda>b. map (\<lambda>i. bit b (7 - i)) [0..<8]) bs))"

definition upperChar :: "char \<Rightarrow> char" where
  "upperChar c = (let n = of_char c :: nat in if 97 \<le> n \<and> n \<le> 122 then char_of (n - 32) else c)"

definition normalizeRecoveryCode :: "string \<Rightarrow> string" where
  "normalizeRecoveryCode code = map upperChar (filter (\<lambda>c. c \<noteq> CHR ''-'' \<and> c \<noteq> CHR '' '') (TrimSpace code))"

definition recoveryCodeCount :: nat where "recoveryCodeCount = 10"

definition formatRecoveryCode :: "string \<Rightarrow> string" where
  "formatRecoveryCode encoded = take 4 encoded @ ''-'' @ take 4 (drop 4 encoded) @ ''-'' @ take 4 (drop 8 encoded) @ ''-'' @ drop 12 encoded"

fun drawRecoveryCodes :: "manager \<Rightarrow> uuid \<Rightarrow> nat \<Rightarrow> (string list \<times> recoveryCode list) op" where
  "drawRecoveryCodes m userID 0 = ret ([], [])"
| "drawRecoveryCodes m userID (Suc n) = (bindE (randomBytes m 10) (\<lambda>raw.
 let code = formatRecoveryCode (base32Encode raw) in
 bindE (drawRecoveryCodes m userID n) (\<lambda>(codes, records).
 ret (code # codes, \<lparr>rcv_UserID = userID, rcv_Digest = digest (m_sha m) (m_recoveryPepper m) (normalizeRecoveryCode code),
            rcv_UsedAt = None\<rparr> # records))))"

definition generateRecoveryCodes :: "manager \<Rightarrow> uuid \<Rightarrow> (string list \<times> recoveryCode list) op" where
  "generateRecoveryCodes m userID = drawRecoveryCodes m userID recoveryCodeCount"

text \<open>The provider, where one is configured.\<close>

definition requireTOTPProvider :: "manager \<Rightarrow> totpProvider op" where
  "requireTOTPProvider m = (case m_totp m of None \<Rightarrow> fail ErrNotSupported | Some totp \<Rightarrow> ret totp)"

definition decryptTOTPSecret :: "manager \<Rightarrow> totpFactor \<Rightarrow> string result" where
  "decryptTOTPSecret m factor = (case managerOpen m (otp_EncryptedSecret factor) of Inl err \<Rightarrow> Inl err | Inr plaintext \<Rightarrow> Inr (ofBytes plaintext))"

definition promoteTOTP :: "manager \<Rightarrow> authentication \<Rightarrow> authentication op" where
  "promoteTOTP m actor = (bindE (now m) (\<lambda>t.
   ret (zeroAuthentication\<lparr>auth_UserID := auth_UserID actor, auth_Method := MethodTOTP, auth_Level := AAL2,
          auth_AuthenticatedAt := t, auth_CredentialDigest := auth_CredentialDigest actor\<rparr>)))"

definition BeginTOTPEnrollment :: "manager \<Rightarrow> authentication \<Rightarrow> totpEnrollment op" where
  "BeginTOTPEnrollment m actor = (bindE (requireTOTPProvider m) (\<lambda>totp.
   bindE (requireRecentInteractive m actor) (\<lambda>_.
   let userID = auth_UserID actor in
   bindE (callStore m (\<lambda>ce. UserByID ce userID)) (\<lambda>user.
   bindE (asking (\<lambda>n. tp_Generate totp n (usr_Email user))) (\<lambda>(secret, uri).
   bindE (seal m (toBytes secret)) (\<lambda>encrypted.
   bindE (now m) (\<lambda>t.
   let factor = \<lparr>otp_UserID = userID, otp_EncryptedSecret = encrypted, otp_Active = False, otp_LastUsedStep = 0,
           otp_CreatedAt = t, otp_UpdatedAt = t\<rparr> in
   bindE (newAudit m userID ''totp.enrollment.begin'' ''user'' (UUID_String userID) 0 AuditSucceeded []) (\<lambda>event.
   bindE (newEventMeta m ''totp.enrollment_started'' ''auth.totp.enroll.begin'' userID 0 event) (\<lambda>meta.
   bindE (committing m ''auth.totp.enroll.begin'' event ''totp.enrollment'' meta
       (\<lambda>c. callStore m (\<lambda>ce. SaveTOTPEnrollment (m_sha m) ce factor c))) (\<lambda>_.
   ret \<lparr>ten_URI = uri\<rparr>))))))))))"

definition ConfirmTOTPEnrollment :: "manager \<Rightarrow> authentication \<Rightarrow> string \<Rightarrow> string list op" where
  "ConfirmTOTPEnrollment m actor code = (bindE (requireTOTPProvider m) (\<lambda>totp.
   bindE (requireRecentInteractive m actor) (\<lambda>_.
   let userID = auth_UserID actor in
   bindE (tryE (callStore m (\<lambda>ce. TOTPByUserID ce userID))) (\<lambda>f.
   (case f of
        Inl _ \<Rightarrow> fail ErrNotFound
      | Inr factor \<Rightarrow> (bindE (failIf (otp_Active factor) ErrNotFound) (\<lambda>_.
       bindE (liftR (decryptTOTPSecret m factor)) (\<lambda>secret.
       bindE (now m) (\<lambda>t.
       let (step, valid) = tp_Validate totp (TrimSpace code) secret t in
       bindE ((if valid then ret () else refuse m userID ''totp.enrollment.confirm'' ''invalid_credentials'' ErrInvalidCredentials)) (\<lambda>_.
       bindE (generateRecoveryCodes m userID) (\<lambda>(codes, records).
       bindE (now m) (\<lambda>t2.
       let factor' = factor\<lparr>otp_Active := True, otp_LastUsedStep := step, otp_UpdatedAt := t2\<rparr> in
       bindE (newAudit m userID ''totp.enrollment.confirm'' ''user'' (UUID_String userID) 0 AuditSucceeded []) (\<lambda>event.
       bindE (newEventMeta m ''totp.activated'' ''auth.totp.enroll.confirm'' userID 0 event) (\<lambda>meta.
       bindE (committing m ''auth.totp.enroll.confirm'' event ''totp.activation'' meta
            (\<lambda>c. callStore m (\<lambda>ce. ActivateTOTP (m_sha m) ce factor' records c))) (\<lambda>_.
       ret codes)))))))))))))))"

text \<open>A recovery code is tried under every pepper of the ring until one consumes it.\<close>

fun consumeUnderRing :: "manager \<Rightarrow> uuid \<Rightarrow> string \<Rightarrow> auditEvent \<Rightarrow> bytes list \<Rightarrow> bool op" where
  "consumeUnderRing m userID normalized event [] = ret False"
| "consumeUnderRing m userID normalized event (pepper # peppers) = (bindE (now m) (\<lambda>t.
 bindE (orMapped m ''auth.totp.verify'' (callStore m (\<lambda>ce. ConsumeRecoveryCode (m_sha m) ce userID
        (digest (m_sha m) pepper (normalizeRecoveryCode normalized)) t (auditOnly event)))) (\<lambda>used.
 (if used then ret True else consumeUnderRing m userID normalized event peppers))))"

definition finishTOTP :: "manager \<Rightarrow> authentication \<Rightarrow> eventName \<Rightarrow> auditEvent \<Rightarrow> authentication op" where
  "finishTOTP m actor name event = (bindE (promoteTOTP m actor) (\<lambda>promoted.
   bindE (emitNew m name ''auth.totp.verify'' (auth_UserID actor) 0 event) (\<lambda>_.
   bindE (emitAuthenticationSucceeded m ''auth.totp.verify'' event promoted) (\<lambda>_.
   ret promoted))))"

definition verifyTOTPStep :: "manager \<Rightarrow> authentication \<Rightarrow> int \<Rightarrow> authentication op" where
  "verifyTOTPStep m actor step = (let userID = auth_UserID actor in
   bindE (newAudit m userID ''auth.totp'' ''user'' (UUID_String userID) 0 AuditSucceeded []) (\<lambda>event.
   bindE (orMapped m ''auth.totp.verify'' (callStore m (\<lambda>ce. UseTOTP (m_sha m) ce userID step (auditOnly event)))) (\<lambda>used.
   (if used then finishTOTP m actor ''totp.verified'' event
      else (bindE (recordAuthenticationAudit m userID ''auth.totp'' AuditFailed ''invalid_credentials'') (\<lambda>failedAudit.
       bindE (emitNew m ''totp.replay_rejected'' ''auth.totp.verify'' userID 0 failedAudit) (\<lambda>_.
       bindE (emitAuthenticationFailed m ''auth.totp.verify'' failedAudit userID) (\<lambda>_.
       fail ErrInvalidCredentials))))))))"

definition verifyRecoveryCode :: "manager \<Rightarrow> authentication \<Rightarrow> string \<Rightarrow> authentication op" where
  "verifyRecoveryCode m actor normalized = (let userID = auth_UserID actor in
   bindE (newAudit m userID ''auth.recovery_code'' ''user'' (UUID_String userID) 0 AuditSucceeded []) (\<lambda>event.
   bindE (consumeUnderRing m userID normalized event (m_readRecoveryPeppers m)) (\<lambda>used.
   (if used then finishTOTP m actor ''recovery_code.consumed'' event
      else (bindE (recordAuthenticationFailure m userID ''auth.totp'' True) (\<lambda>failedAudit.
       bindE (emitAuthenticationFailed m ''auth.totp.verify'' failedAudit userID) (\<lambda>_.
       fail ErrInvalidCredentials)))))))"

definition VerifyTOTP :: "manager \<Rightarrow> authentication \<Rightarrow> string \<Rightarrow> authentication op" where
  "VerifyTOTP m actor code = (bindE (requireTOTPProvider m) (\<lambda>totp.
   let userID = auth_UserID actor in
   bindE (failIf (userID = 0 \<or> \<not> Interactive actor) ErrUnauthorized) (\<lambda>_.
   bindE (requireUnlocked m userID ''auth.totp'') (\<lambda>_.
   bindE (requireActiveUser m userID) (\<lambda>_.
   bindE (tryE (callStore m (\<lambda>ce. TOTPByUserID ce userID))) (\<lambda>f.
   (case f of
        Inl _ \<Rightarrow> fail ErrInvalidCredentials
      | Inr factor \<Rightarrow> (bindE (failIf (\<not> otp_Active factor) ErrInvalidCredentials) (\<lambda>_.
       bindE (liftR (decryptTOTPSecret m factor)) (\<lambda>secret.
       let normalized = TrimSpace code in
       bindE (now m) (\<lambda>t.
       let (step, valid) = tp_Validate totp normalized secret t in
       (if valid then verifyTOTPStep m actor step else verifyRecoveryCode m actor normalized))))))))))))"

definition DisableTOTP :: "manager \<Rightarrow> authentication \<Rightarrow> string \<Rightarrow> unit op" where
  "DisableTOTP m actor code = (bindE (requireTOTPProvider m) (\<lambda>_.
   bindE (VerifyTOTP m actor code) (\<lambda>promoted.
   bindE (requireScopedStepUp m promoted StepUpScopeAccount ''auth.totp.disable'') (\<lambda>_.
   let userID = auth_UserID actor in
   bindE (newAudit m userID ''totp.disable'' ''user'' (UUID_String userID) 0 AuditSucceeded []) (\<lambda>event.
   bindE (newEventMeta m ''totp.disabled'' ''auth.totp.disable'' userID 0 event) (\<lambda>meta.
   committing m ''auth.totp.disable'' event ''totp.disable'' meta
       (\<lambda>c. callStore m (\<lambda>ce. storeDisableTOTP (m_sha m) ce userID c))))))))"

definition RegenerateRecoveryCodes :: "manager \<Rightarrow> authentication \<Rightarrow> string list op" where
  "RegenerateRecoveryCodes m actor = (bindE (requireTOTPProvider m) (\<lambda>_.
   bindE (requireScopedStepUp m actor StepUpScopeAccount ''auth.totp.recovery.regenerate'') (\<lambda>_.
   let userID = auth_UserID actor in
   bindE (callStore m (\<lambda>ce. TOTPByUserID ce userID)) (\<lambda>factor.
   bindE (failIf (\<not> otp_Active factor) ErrNotFound) (\<lambda>_.
   bindE (generateRecoveryCodes m userID) (\<lambda>(codes, records).
   bindE (newAudit m userID ''totp.recovery.regenerate'' ''user'' (UUID_String userID) 0 AuditSucceeded []) (\<lambda>event.
   bindE (newEventMeta m ''recovery_codes.regenerated'' ''auth.totp.recovery.regenerate'' userID 0 event) (\<lambda>meta.
   bindE (committing m ''auth.totp.recovery.regenerate'' event ''totp.recovery.regeneration'' meta
       (\<lambda>c. callStore m (\<lambda>ce. ReplaceRecoveryCodes (m_sha m) ce userID records c))) (\<lambda>_.
   ret codes)))))))))"

definition TOTPStatus :: "manager \<Rightarrow> authentication \<Rightarrow> uuid \<Rightarrow> totpStatus op" where
  "TOTPStatus m actor userID0 = (bindE (failIf (auth_UserID actor = 0) ErrUnauthorized) (\<lambda>_.
   let userID = (if userID0 = 0 then auth_UserID actor else userID0) in
   bindE ((if userID = auth_UserID actor then requireRecentInteractive m actor else AuthorizeAdmin m actor PermissionUsersRead)) (\<lambda>_.
   bindE (tryE (callStore m (\<lambda>ce. TOTPByUserID ce userID))) (\<lambda>f.
   (case f of
        Inl err \<Rightarrow> if errorsIs err ErrNotFound
          then ret \<lparr>tst_Enrolled = False, tst_Active = False, tst_UnusedRecoveryCodes = 0, tst_CreatedAt = zeroTime, tst_UpdatedAt = zeroTime\<rparr>
          else fail err
      | Inr factor \<Rightarrow> (bindE ((if otp_Active factor then callStore m (\<lambda>ce. CountUnusedRecoveryCodes ce userID) else ret 0)) (\<lambda>remaining.
       ret \<lparr>tst_Enrolled = True, tst_Active = otp_Active factor, tst_UnusedRecoveryCodes = remaining,
               tst_CreatedAt = otp_CreatedAt factor, tst_UpdatedAt = otp_UpdatedAt factor\<rparr>)))))))"

section \<open>Passkeys\<close>

definition passkeyRegistration :: string where "passkeyRegistration = ''passkey_registration''"
definition passkeyAuthentication :: string where "passkeyAuthentication = ''passkey_authentication''"

record passkeyChallenge =
  pch_Options :: bytes
  pch_Continuation :: string

definition requirePasskeyProvider :: "manager \<Rightarrow> passkeyProvider op" where
  "requirePasskeyProvider m = (case m_passkeys m of None \<Rightarrow> fail ErrNotSupported | Some provider \<Rightarrow> ret provider)"

definition discoverablePasskeys :: "manager \<Rightarrow> discoverableProvider op" where
  "discoverablePasskeys m = (bindE (requirePasskeyProvider m) (\<lambda>provider.
   (case pp_Discoverable provider of
        None \<Rightarrow> fail ErrNotSupported
      | Some discoverable \<Rightarrow> (bindE (failIf (\<not> m_credentialStore m) ErrNotSupported) (\<lambda>_.
       ret discoverable)))))"

text \<open>
  \<^verbatim>\<open>passkeyUser\<close>: the account, and the credentials of the account with their material decrypted, up to
  the first that cannot be read.
\<close>

fun openCredentials :: "manager \<Rightarrow> passkey result list \<Rightarrow> passkey result list" where
  "openCredentials m [] = []"
| "openCredentials m (Inl err # passkeys) = [Inl err]"
| "openCredentials m (Inr passkey # passkeys) = (case managerOpen m (pk_CredentialJSON passkey) of
     Inl err \<Rightarrow> [Inl err]
   | Inr plaintext \<Rightarrow> Inr (passkey\<lparr>pk_CredentialJSON := plaintext\<rparr>) # openCredentials m passkeys)"

definition passkeyAccount :: "manager \<Rightarrow> uuid \<Rightarrow> user op" where
  "passkeyAccount m userID = callStore m (\<lambda>ce. UserByID ce userID)"

definition withCredentials :: "manager \<Rightarrow> uuid \<Rightarrow> user \<Rightarrow> passkeyUser op" where
  "withCredentials m userID user = (bindE (readStream m (\<lambda>ce ctxErr. storePasskeys ce ctxErr userID)) (\<lambda>passkeys.
   ret \<lparr>pku_User = user, pku_Credentials = openCredentials m passkeys\<rparr>))"

definition presenting :: "manager \<Rightarrow> uuid \<Rightarrow> user \<Rightarrow> (nat \<Rightarrow> passkeyUser \<Rightarrow> 'a result) \<Rightarrow> 'a op" where
  "presenting m userID user ask = (bindE (withCredentials m userID user) (\<lambda>account.
   asking (\<lambda>n. ask n account)))"

definition passkeyContinuation :: "manager \<Rightarrow> uuid \<Rightarrow> uuid \<Rightarrow> string \<Rightarrow> string \<Rightarrow> bytes \<Rightarrow> string op" where
  "passkeyContinuation m ceremonyID userID operation name session = (bindE (now m) (\<lambda>t.
   encodeContinuation m \<lparr>ccn_ID = ceremonyID, ccn_UserID = userID, ccn_Operation = operation, ccn_Name = name,
       ccn_ExpiresAt = t + m_ceremonyTTL m, ccn_Session = session\<rparr>))"

definition BeginPasskeyRegistration :: "manager \<Rightarrow> authentication \<Rightarrow> string \<Rightarrow> passkeyChallenge op" where
  "BeginPasskeyRegistration m actor name0 = (bindE (requirePasskeyProvider m) (\<lambda>provider.
   bindE (requireRecentInteractive m actor) (\<lambda>_.
   let name = TrimSpace name0 in
   bindE (failIf (name = [] \<or> length name > 100) ErrInvalidInput) (\<lambda>_.
   let userID = auth_UserID actor in
   bindE (passkeyAccount m userID) (\<lambda>user.
   bindE (presenting m userID user (pp_BeginRegistration provider)) (\<lambda>(options, session).
   bindE (newID m) (\<lambda>ceremonyID.
   bindE (passkeyContinuation m ceremonyID userID passkeyRegistration name session) (\<lambda>continuation.
   ret \<lparr>pch_Options = options, pch_Continuation = continuation\<rparr>))))))))"

definition FinishPasskeyRegistration :: "manager \<Rightarrow> authentication \<Rightarrow> string \<Rightarrow> bytes \<Rightarrow> passkey op" where
  "FinishPasskeyRegistration m actor continuation response = (bindE (requirePasskeyProvider m) (\<lambda>provider.
   bindE (requireRecentInteractive m actor) (\<lambda>_.
   bindE (decodeContinuation m continuation passkeyRegistration) (\<lambda>state.
   let userID = auth_UserID actor in
   bindE (failIf (ccn_UserID state \<noteq> userID) ErrInvalidCredentials) (\<lambda>_.
   bindE (passkeyAccount m userID) (\<lambda>user.
   bindE (tryE (presenting m userID user (\<lambda>n account. pp_FinishRegistration provider n account (ccn_Session state) response))) (\<lambda>r.
   (case r of
        Inl _ \<Rightarrow> refuse m userID ''passkey.registration'' ''invalid_credentials'' ErrInvalidCredentials
      | Inr (credentialID, credentialJSON) \<Rightarrow> (bindE (failIf (credentialID = [] \<or> credentialJSON = []) ErrInvalidInput) (\<lambda>_.
       bindE (seal m credentialJSON) (\<lambda>encrypted.
       bindE (newID m) (\<lambda>i.
       bindE (now m) (\<lambda>t.
       let passkey = \<lparr>pk_ID = i, pk_UserID = userID, pk_Name = ccn_Name state, pk_CredentialID = credentialID,
                pk_CredentialJSON = encrypted, pk_CreatedAt = t, pk_LastUsedAt = None\<rparr> in
       bindE (newAudit m userID ''passkey.create'' ''passkey'' (UUID_String i) 0 AuditSucceeded []) (\<lambda>event.
       bindE (newEventMeta m ''passkey.registered'' ''auth.passkey.registration.finish'' userID 0 event) (\<lambda>meta.
       bindE (committing m ''auth.passkey.registration.finish'' event ''passkey.registration'' meta
            (\<lambda>c. callStore m (\<lambda>ce. SavePasskey (m_sha m) ce passkey (c\<lparr>cmt_Ceremony := consumption state\<rparr>)))) (\<lambda>_.
       ret (passkey\<lparr>pk_CredentialJSON := []\<rparr>)))))))))))))))))"

definition decoyPasskeyChallenge :: "manager \<Rightarrow> passkeyProvider \<Rightarrow> string \<Rightarrow> passkeyChallenge op" where
  "decoyPasskeyChallenge m provider normalizedEmail = (let seed = digest (m_sha m) (m_digestKey m) (''passkey-decoy:'' @ normalizedEmail) in
   bindE (tryE (asking (\<lambda>n. pp_BeginDecoyAuthentication provider n seed))) (\<lambda>r.
   (case r of
        Inl _ \<Rightarrow> fail ErrInvalidCredentials
      | Inr (options, session) \<Rightarrow> (bindE (passkeyContinuation m 0 0 passkeyAuthentication [] session) (\<lambda>continuation.
       ret \<lparr>pch_Options = options, pch_Continuation = continuation\<rparr>)))))"

definition BeginPasskeyAuthentication :: "manager \<Rightarrow> string \<Rightarrow> passkeyChallenge op" where
  "BeginPasskeyAuthentication m email = (bindE (requirePasskeyProvider m) (\<lambda>provider.
   bindE (domainRequiresSSO m (normalizeEmail email) ''passkey.authentication.begin'') (\<lambda>_.
   let normalized = normalizeEmail email in
   bindE (tryE (callStore m (\<lambda>ce. UserByEmail ce normalized))) (\<lambda>u.
   (case u of
        Inl err \<Rightarrow> if errorsIs err ErrNotFound then decoyPasskeyChallenge m provider normalized else fail err
      | Inr record \<Rightarrow>
          if usr_Disabled record then decoyPasskeyChallenge m provider normalized
          else (bindE (passkeyAccount m (usr_ID record)) (\<lambda>user.
           bindE (tryE (presenting m (usr_ID record) user (pp_BeginAuthentication provider))) (\<lambda>r.
           (case r of
               Inl err \<Rightarrow> if errorsIs err ErrNoPasskey then decoyPasskeyChallenge m provider normalized else fail ErrInvalidCredentials
             | Inr (options, session) \<Rightarrow> (bindE (newID m) (\<lambda>ceremonyID.
              bindE (passkeyContinuation m ceremonyID (usr_ID record) passkeyAuthentication [] session) (\<lambda>continuation.
              ret \<lparr>pch_Options = options, pch_Continuation = continuation\<rparr>))))))))))))"

fun credentialOwner :: "bytes \<Rightarrow> passkey result list \<Rightarrow> uuid" where
  "credentialOwner credentialID [] = 0"
| "credentialOwner credentialID (Inl err # passkeys) = 0"
| "credentialOwner credentialID (Inr passkey # passkeys) =
    (if pk_CredentialID passkey = credentialID then pk_ID passkey else credentialOwner credentialID passkeys)"

definition passkeyIDByCredential :: "manager \<Rightarrow> uuid \<Rightarrow> bytes \<Rightarrow> uuid op" where
  "passkeyIDByCredential m userID credentialID = (bindE (readStream m (\<lambda>ce ctxErr. storePasskeys ce ctxErr userID)) (\<lambda>passkeys.
   ret (credentialOwner credentialID passkeys)))"

definition commitPasskeyAuthentication :: "manager \<Rightarrow> string \<Rightarrow> ceremonyContinuation \<Rightarrow> uuid \<Rightarrow> bytes \<Rightarrow> bytes \<Rightarrow> authentication op" where
  "commitPasskeyAuthentication m operation state userID credentialID credentialJSON = (bindE (newAudit m userID ''auth.passkey'' ''user'' (UUID_String userID) 0 AuditSucceeded []) (\<lambda>event.
   bindE (now m) (\<lambda>t.
   bindE (seal m credentialJSON) (\<lambda>encrypted.
   bindE (passkeyIDByCredential m userID credentialID) (\<lambda>_.
   bindE (tryE (callStore m (\<lambda>ce. TouchPasskey (m_sha m) ce userID credentialID encrypted t
            ((auditOnly event)\<lparr>cmt_Ceremony := consumption state\<rparr>)))) (\<lambda>r.
   (case r of
        Inl err \<Rightarrow> if errorsIs err ErrConflict then fail ErrInvalidCredentials else mapStoreError m operation err
      | Inr _ \<Rightarrow> (let authn = zeroAuthentication\<lparr>auth_UserID := userID, auth_Method := MethodPasskey, auth_Level := AAL2,
                auth_AuthenticatedAt := t\<rparr> in
       bindE (emitNew m ''passkey.authenticated'' operation userID 0 event) (\<lambda>_.
       bindE (emitAuthenticationSucceeded m operation event authn) (\<lambda>_.
       ret authn))))))))))"

definition failPasskey :: "manager \<Rightarrow> string \<Rightarrow> uuid \<Rightarrow> error \<Rightarrow> 'a op" where
  "failPasskey m operation userID err = (let reason = (if errorsIs err ErrPasskeyCloneDetected then ''cloned_authenticator'' else ''invalid_credentials'') in
   bindE (recordAuthenticationAudit m userID ''auth.passkey'' AuditFailed reason) (\<lambda>audit.
   bindE (emitAuthenticationFailed m operation audit userID) (\<lambda>_.
   fail ErrInvalidCredentials)))"

text \<open>The account is looked up again before the ceremony is committed, and so is its domain.\<close>

definition passkeyOwner :: "manager \<Rightarrow> uuid \<Rightarrow> string \<Rightarrow> unit op" where
  "passkeyOwner m userID action = (bindE (tryE (callStore m (\<lambda>ce. UserByID ce userID))) (\<lambda>r.
   (case r of
        Inl _ \<Rightarrow> fail ErrInvalidCredentials
      | Inr record \<Rightarrow> (bindE (failIf (usr_Disabled record) ErrInvalidCredentials) (\<lambda>_.
       domainRequiresSSO m (normalizeEmail (usr_Email record)) action)))))"

definition FinishPasskeyAuthentication :: "manager \<Rightarrow> string \<Rightarrow> bytes \<Rightarrow> authentication op" where
  "FinishPasskeyAuthentication m continuation response = (bindE (requirePasskeyProvider m) (\<lambda>provider.
   bindE (decodeContinuation m continuation passkeyAuthentication) (\<lambda>state.
   let userID = ccn_UserID state in
   bindE (tryE (passkeyAccount m userID)) (\<lambda>u.
   (case u of
        Inl _ \<Rightarrow> fail ErrInvalidCredentials
      | Inr user \<Rightarrow> (bindE (passkeyOwner m userID ''passkey.authentication.finish'') (\<lambda>_.
       bindE (tryE (presenting m userID user (\<lambda>n account. pp_FinishAuthentication provider n account (ccn_Session state) response))) (\<lambda>r.
       (case r of
             Inl err \<Rightarrow> failPasskey m ''auth.passkey.authentication.finish'' userID err
           | Inr (credentialID, credentialJSON) \<Rightarrow>
               commitPasskeyAuthentication m ''auth.passkey.authentication.finish'' state userID credentialID credentialJSON)))))))))"

definition BeginDiscoverablePasskeyAuthentication :: "manager \<Rightarrow> passkeyChallenge op" where
  "BeginDiscoverablePasskeyAuthentication m = (bindE (discoverablePasskeys m) (\<lambda>provider.
   bindE (tryE (asking (dp_BeginDiscoverableAuthentication provider))) (\<lambda>r.
   (case r of
        Inl _ \<Rightarrow> fail ErrInvalidCredentials
      | Inr (options, session) \<Rightarrow> (bindE (newID m) (\<lambda>ceremonyID.
       bindE (passkeyContinuation m ceremonyID 0 passkeyDiscoverable [] session) (\<lambda>continuation.
       ret \<lparr>pch_Options = options, pch_Continuation = continuation\<rparr>)))))))"

text \<open>The \<^verbatim>\<open>lookup\<close> closure, and the account it resolved last.\<close>

definition lookupCredential :: "manager \<Rightarrow> bytes \<Rightarrow> (uuid \<times> passkeyUser) op" where
  "lookupCredential m credentialID = (bindE (callStore m (\<lambda>ce. PasskeyByCredentialID ce credentialID)) (\<lambda>passkey.
   bindE (passkeyAccount m (pk_UserID passkey)) (\<lambda>user.
   bindE (withCredentials m (pk_UserID passkey) user) (\<lambda>account.
   ret (pk_UserID passkey, account)))))"

primrec resolveAssertion :: "manager \<Rightarrow> assertion \<Rightarrow> uuid \<Rightarrow> (uuid \<times> (bytes \<times> bytes) result) op" where
  "resolveAssertion m (Asserted answer) = (\<lambda>resolved. ret (resolved, answer))"
| "resolveAssertion m (Resolve credentialID continue) = (\<lambda>resolved. (bindE (tryE (lookupCredential m credentialID)) (\<lambda>r.
 (case r of
        Inl err \<Rightarrow> resolveAssertion m (continue (Inl err)) resolved
      | Inr (owner, account) \<Rightarrow> resolveAssertion m (continue (Inr account)) owner))))"

definition FinishDiscoverablePasskeyAuthentication :: "manager \<Rightarrow> string \<Rightarrow> bytes \<Rightarrow> authentication op" where
  "FinishDiscoverablePasskeyAuthentication m continuation response = (bindE (discoverablePasskeys m) (\<lambda>provider.
   bindE (decodeContinuation m continuation passkeyDiscoverable) (\<lambda>state.
   bindE (asking (\<lambda>n. Inr (dp_FinishDiscoverableAuthentication provider n (ccn_Session state) response))) (\<lambda>a.
   bindE (resolveAssertion m a 0) (\<lambda>(resolvedUserID, r).
   (case r of
        Inl err \<Rightarrow>
          if resolvedUserID = 0 then fail ErrInvalidCredentials
          else failPasskey m ''auth.passkey.discoverable.finish'' resolvedUserID err
      | Inr (credentialID, credentialJSON) \<Rightarrow> (bindE (failIf (resolvedUserID = 0) ErrInvalidCredentials) (\<lambda>_.
       bindE (passkeyOwner m resolvedUserID ''passkey.discoverable.finish'') (\<lambda>_.
       commitPasskeyAuthentication m ''auth.passkey.discoverable.finish'' state resolvedUserID credentialID credentialJSON)))))))))"

definition managerDeletePasskey :: "manager \<Rightarrow> authentication \<Rightarrow> uuid \<Rightarrow> unit op" where
  "managerDeletePasskey m actor passkeyID = (bindE (requireScopedStepUp m actor StepUpScopeAccount ''auth.passkey.delete'') (\<lambda>_.
   bindE (failIf (passkeyID = 0) ErrInvalidInput) (\<lambda>_.
   let userID = auth_UserID actor in
   bindE (newAudit m userID ''passkey.delete'' ''passkey'' (UUID_String passkeyID) 0 AuditSucceeded []) (\<lambda>event.
   bindE (newEventMeta m ''passkey.deleted'' ''auth.passkey.delete'' userID 0 event) (\<lambda>meta.
   committing m ''auth.passkey.delete'' event ''passkey.deletion'' meta
       (\<lambda>c. callStore m (\<lambda>ce. DeletePasskey (m_sha m) ce userID passkeyID c)))))))"

fun scrubPasskeys :: "passkey result list \<Rightarrow> passkey result list" where
  "scrubPasskeys [] = []"
| "scrubPasskeys (Inl err # passkeys) = [Inl err]"
| "scrubPasskeys (Inr passkey # passkeys) = Inr (passkey\<lparr>pk_CredentialJSON := []\<rparr>) # scrubPasskeys passkeys"

definition Passkeys :: "manager \<Rightarrow> authentication \<Rightarrow> uuid \<Rightarrow> world \<Rightarrow> passkey result list \<times> world" where
  "Passkeys m actor userID0 = stream (bindE (failIf (auth_UserID actor = 0) ErrUnauthorized) (\<lambda>_.
   let userID = (if userID0 = 0 then auth_UserID actor else userID0) in
   bindE ((if userID = auth_UserID actor then requireRecentInteractive m actor else AuthorizeAdmin m actor PermissionUsersRead)) (\<lambda>_.
   bindE (readStream m (\<lambda>ce ctxErr. storePasskeys ce ctxErr userID)) (\<lambda>passkeys.
   ret (scrubPasskeys passkeys)))))"

section \<open>The operations run the store\<close>

context environment
begin

lemma promoteTOTP_runs [run_rules]: "relates (runs m) (promoteTOTP m a)" "relates (runs m) (finishTOTP m a nm aev)"
  unfolding finishTOTP_def promoteTOTP_def by (intro run_rules)+

lemma providers_run [run_rules]: "relates (runs m) (requireTOTPProvider m)" "relates (runs m) (requirePasskeyProvider m)"
  "relates (runs m) (discoverablePasskeys m)"
  unfolding discoverablePasskeys_def requirePasskeyProvider_def requireTOTPProvider_def by (intro run_rules)+

lemma drawRecoveryCodes_runs [run_rules]: "relates (runs m) (drawRecoveryCodes m u n)"
proof (induction n)
  case (Suc n)
  show ?case unfolding drawRecoveryCodes.simps by (intro run_rules Suc)
qed (simp add: run_rules)

lemma generateRecoveryCodes_runs [run_rules]: "relates (runs m) (generateRecoveryCodes m u)"
  unfolding generateRecoveryCodes_def by (intro run_rules)

lemma consumeUnderRing_runs [run_rules]: "relates (runs m) (consumeUnderRing m u h aev peppers)"
proof (induction peppers)
  case (Cons pepper peppers)
  show ?case unfolding consumeUnderRing.simps by (intro run_rules Cons)
qed (simp add: run_rules)

lemma verifiers_run [run_rules]: "relates (runs m) (verifyTOTPStep m a n)" "relates (runs m) (verifyRecoveryCode m a h)"
  unfolding verifyTOTPStep_def verifyRecoveryCode_def by (intro run_rules)+

lemma totp_runs [run_rules]: "relates (runs m) (BeginTOTPEnrollment m a)" "relates (runs m) (ConfirmTOTPEnrollment m a h)"
  "relates (runs m) (VerifyTOTP m a h)" "relates (runs m) (RegenerateRecoveryCodes m a)" "relates (runs m) (TOTPStatus m a u)"
  unfolding BeginTOTPEnrollment_def ConfirmTOTPEnrollment_def VerifyTOTP_def RegenerateRecoveryCodes_def TOTPStatus_def
  by (intro run_rules; assumption)+

lemma DisableTOTP_runs [run_rules]: "relates (runs m) (DisableTOTP m a h)"
  unfolding DisableTOTP_def by (intro run_rules; assumption)+

lemma presenting_runs [run_rules]: "relates (runs m) (passkeyAccount m u)" "relates (runs m) (withCredentials m u usr)"
  "relates (runs m) (presenting m u usr f)" "relates (runs m) (passkeyIDByCredential m u d)"
  unfolding presenting_def withCredentials_def passkeyAccount_def passkeyIDByCredential_def by (intro run_rules)+

lemma challenges_run [run_rules]: "relates (runs m) (passkeyContinuation m i u h h2 d)"
  "relates (runs m) (decoyPasskeyChallenge m prov h)"
  unfolding decoyPasskeyChallenge_def passkeyContinuation_def by (intro run_rules)+

lemma registrations_run [run_rules]: "relates (runs m) (BeginPasskeyRegistration m a h)"
  "relates (runs m) (FinishPasskeyRegistration m a h d)" "relates (runs m) (BeginPasskeyAuthentication m h)"
  unfolding BeginPasskeyRegistration_def FinishPasskeyRegistration_def BeginPasskeyAuthentication_def
  by (intro run_rules; assumption)+

lemma passkey_ends_run [run_rules]: "relates (runs m) (commitPasskeyAuthentication m h ccn u d d2)"
  "relates (runs m) (failPasskey m h u e)" "relates (runs m) (passkeyOwner m u h)" "relates (runs m) (lookupCredential m d)"
  unfolding commitPasskeyAuthentication_def failPasskey_def passkeyOwner_def lookupCredential_def by (intro run_rules)+

lemma resolveAssertion_runs [run_rules]: "relates (runs m) (resolveAssertion m asr u)"
proof (induction asr arbitrary: u)
  case (Resolve d k)
  have "relates (runs m) (resolveAssertion m (k r) v)" for r v by (rule Resolve) simp
  then show ?case unfolding resolveAssertion.simps by (intro run_rules)
qed (simp add: run_rules)

lemma passkeys_run [run_rules]: "relates (runs m) (FinishPasskeyAuthentication m h d)"
  "relates (runs m) (BeginDiscoverablePasskeyAuthentication m)" "relates (runs m) (FinishDiscoverablePasskeyAuthentication m h d)"
  "relates (runs m) (managerDeletePasskey m a i)" "relates (runs m) (Passkeys m a u)"
  unfolding FinishPasskeyAuthentication_def BeginDiscoverablePasskeyAuthentication_def FinishDiscoverablePasskeyAuthentication_def
    managerDeletePasskey_def Passkeys_def
  by (intro run_rules stream_runs; assumption)+

end

end
