(* ===== verification/ManagerSSO.thy ===== *)
theory ManagerSSO
  imports ManagerFactors
begin

text \<open>
  Single sign-on (\<^verbatim>\<open>sso.go\<close>, \<^verbatim>\<open>SSOAssurancePolicy\<close> of \<^verbatim>\<open>types.go\<close>): sealed continuations, sign-in, linking, step-up and
  just-in-time provisioning through a confirmed domain.
\<close>

section \<open>Continuations and assurance\<close>

definition ssoLogin :: string where "ssoLogin = ''login''"
definition ssoLink :: string where "ssoLink = ''link''"
definition ssoStepUp :: string where "ssoStepUp = ''step_up''"

definition ssoConsumption :: "ssoContinuation \<Rightarrow> ceremonyConsumption option" where
  "ssoConsumption c = (if scn_ID c = 0 then None else Some \<lparr>cer_ID = scn_ID c, cer_ExpiresAt = scn_ExpiresAt c\<rparr>)"

definition encodeSSOContinuation :: "manager \<Rightarrow> ssoContinuation \<Rightarrow> string op" where
  "encodeSSOContinuation m state = (bindE (seal m (lib_MarshalSSO (m_library m) state)) (\<lambda>ciphertext.
   ret (b64Encode ciphertext)))"

definition decodeSSOContinuation :: "manager \<Rightarrow> string \<Rightarrow> ssoContinuation op" where
  "decodeSSOContinuation m raw = (bindE (liftR (unsealContinuation m raw)) (\<lambda>payload.
   (case lib_UnmarshalSSO (m_library m) payload of
        None \<Rightarrow> fail ErrInvalidCredentials
      | Some state \<Rightarrow> (bindE (failIf (\<not> validUUIDv7 (scn_ProviderConfigurationID state) \<or> scn_Session state = []) ErrInvalidCredentials) (\<lambda>_.
       bindE (failIf (scn_Operation state \<noteq> ssoLogin \<and> scn_Operation state \<noteq> ssoLink \<and> scn_Operation state \<noteq> ssoStepUp) ErrInvalidCredentials) (\<lambda>_.
       bindE (failIf ((scn_Operation state = ssoLink \<or> scn_Operation state = ssoStepUp) \<and> scn_UserID state = 0) ErrInvalidCredentials) (\<lambda>_.
       bindE (now m) (\<lambda>t.
       bindE (failIf (\<not> t < scn_ExpiresAt state) ErrExpired) (\<lambda>_.
       ret state)))))))))"

definition satisfiedBy :: "ssoAssurancePolicy \<Rightarrow> ssoClaims \<Rightarrow> bool" where
  "satisfiedBy p claims =
    (if sap_TrustUnverified p then True
     else if length (sap_AcceptedACR p) > 0 \<and> clm_ACR claims \<notin> set (sap_AcceptedACR p) then False
     else list_all (\<lambda>required. required \<in> set (clm_AMR claims)) (sap_RequiredAMR p))"

section \<open>Beginning a ceremony\<close>

record ssoChallenge =
  sch_RedirectURL :: string
  sch_Continuation :: string

definition beginSSO :: "manager \<Rightarrow> authentication \<Rightarrow> uuid \<Rightarrow> string \<Rightarrow> ssoChallenge op" where
  "beginSSO m actor providerConfigurationID operation = (case lookup (m_ssoProviders m) providerConfigurationID of
     None \<Rightarrow> fail ErrNotFound
   | Some provider \<Rightarrow> (bindE (asking (\<lambda>n. sp_Begin provider n (operation = ssoStepUp))) (\<lambda>(redirectURL, session).
    bindE (failIf (TrimSpace redirectURL = [] \<or> session = []) ErrInvalidInput) (\<lambda>_.
    bindE (newID m) (\<lambda>ceremonyID.
    bindE (now m) (\<lambda>t.
    bindE (encodeSSOContinuation m \<lparr>scn_ID = ceremonyID, scn_ProviderConfigurationID = providerConfigurationID,
         scn_Operation = operation, scn_UserID = auth_UserID actor, scn_ExpiresAt = t + m_ceremonyTTL m, scn_Session = session\<rparr>) (\<lambda>continuation.
    bindE (emitNew m ''sso.challenge_issued'' ''auth.sso.begin'' (auth_UserID actor) 0 zeroAudit) (\<lambda>_.
    ret \<lparr>sch_RedirectURL = redirectURL, sch_Continuation = continuation\<rparr>))))))))"

definition BeginSSO :: "manager \<Rightarrow> uuid \<Rightarrow> ssoChallenge op" where
  "BeginSSO m providerConfigurationID = beginSSO m zeroAuthentication providerConfigurationID ssoLogin"

definition BeginSSOLink :: "manager \<Rightarrow> authentication \<Rightarrow> uuid \<Rightarrow> ssoChallenge op" where
  "BeginSSOLink m actor providerConfigurationID = (bindE (requireRecentInteractive m actor) (\<lambda>_.
   beginSSO m actor providerConfigurationID ssoLink))"

definition BeginSSOStepUp :: "manager \<Rightarrow> authentication \<Rightarrow> uuid \<Rightarrow> ssoChallenge op" where
  "BeginSSOStepUp m actor providerConfigurationID = (bindE (requireRecentInteractive m actor) (\<lambda>_.
   beginSSO m actor providerConfigurationID ssoStepUp))"

section \<open>Finishing a ceremony\<close>

definition ssoAuthentication :: "uuid \<Rightarrow> assuranceLevel \<Rightarrow> time \<Rightarrow> authentication" where
  "ssoAuthentication userID level t = zeroAuthentication\<lparr>auth_UserID := userID, auth_Method := MethodSSO, auth_Level := level,
     auth_AuthenticatedAt := t\<rparr>"

definition ssoIdentityOf :: "uuid \<Rightarrow> uuid \<Rightarrow> ssoProvider \<Rightarrow> ssoContinuation \<Rightarrow> ssoClaims \<Rightarrow> time \<Rightarrow> ssoIdentity" where
  "ssoIdentityOf i userID provider state claims t = \<lparr>sso_ID = i, sso_UserID = userID,
     sso_ProviderConfigurationID = scn_ProviderConfigurationID state, sso_ProviderKind = sp_Kind provider,
     sso_Issuer = clm_Issuer claims, sso_Subject = clm_Subject claims, sso_Email = clm_Email claims, sso_CreatedAt = t,
     sso_LastUsedAt = Some t\<rparr>"

definition finishSSOLink :: "manager \<Rightarrow> ssoProvider \<Rightarrow> ssoContinuation \<Rightarrow> ssoClaims \<Rightarrow> assuranceLevel \<Rightarrow> authentication op" where
  "finishSSOLink m provider state claims level = (bindE (newID m) (\<lambda>i.
   bindE (now m) (\<lambda>t.
   let userID = scn_UserID state in
   let identity = ssoIdentityOf i userID provider state claims t in
   bindE (newAudit m userID ''sso.link'' ''sso_identity'' (UUID_String i) 0 AuditSucceeded []) (\<lambda>event.
   bindE (newEventMeta m ''sso.linked'' ''auth.sso.finish'' userID 0 event) (\<lambda>meta.
   bindE (committing m ''auth.sso.link'' event ''sso.link'' meta
       (\<lambda>c. callStore m (\<lambda>ce. LinkSSO (m_sha m) ce identity (c\<lparr>cmt_Ceremony := ssoConsumption state\<rparr>)))) (\<lambda>_.
   ret (ssoAuthentication userID level t)))))))"

text \<open>What a sign-in of an unknown identity needs before an account is made for it.\<close>

definition orInvalid :: "'a op \<Rightarrow> 'a op" where
  "orInvalid f = (bindE (tryE f) (\<lambda>r.
   (case r of
        Inr x \<Rightarrow> ret x
      | Inl err \<Rightarrow> if errorsIs err ErrNotFound then fail ErrInvalidCredentials else fail err)))"

definition joinableDomain :: "manager \<Rightarrow> ssoContinuation \<Rightarrow> ssoClaims \<Rightarrow> workspaceDomain op" where
  "joinableDomain m state claims = (bindE (failIf (\<not> m_domainStore m \<or> \<not> clm_EmailVerified claims \<or> clm_Email claims = []) ErrInvalidCredentials) (\<lambda>_.
   (case addressDomain (clm_Email claims) of
        None \<Rightarrow> fail ErrInvalidCredentials
      | Some name \<Rightarrow> (bindE (orInvalid (callStore m (\<lambda>ce. ConfirmedWorkspaceDomainByName ce name))) (\<lambda>domain.
       bindE (failIf (\<not> dom_AutoJoin domain \<or> dom_SSOProviderConfigurationID domain \<noteq> scn_ProviderConfigurationID state) ErrInvalidCredentials) (\<lambda>_.
       bindE (orInvalid (callStore m (\<lambda>ce. WorkspaceByID ce (dom_WorkspaceID domain)))) (\<lambda>workspace.
       bindE (failIf (wsp_DisabledAt workspace \<noteq> None) ErrInvalidCredentials) (\<lambda>_.
       bindE (tryE (callStore m (\<lambda>ce. UserByEmail ce (clm_Email claims)))) (\<lambda>r.
       bindE ((case r of
             Inr _ \<Rightarrow> fail ErrInvalidCredentials
           | Inl ownerErr \<Rightarrow> failIf (\<not> errorsIs ownerErr ErrNotFound) ownerErr)) (\<lambda>_.
       ret domain))))))))))"

definition finishSSOJIT :: "manager \<Rightarrow> ssoProvider \<Rightarrow> ssoContinuation \<Rightarrow> ssoClaims \<Rightarrow> assuranceLevel \<Rightarrow> authentication op" where
  "finishSSOJIT m provider state claims level = (bindE (joinableDomain m state claims) (\<lambda>domain.
   bindE (newID m) (\<lambda>userID.
   bindE (newID m) (\<lambda>emailID.
   bindE (newID m) (\<lambda>identityID.
   bindE (now m) (\<lambda>t.
   let r = (if dom_AutoJoinRole domain = [] then RoleMember else dom_AutoJoinRole domain) in
   let user = (newUser userID (clm_Email claims) (clm_Email claims) t)\<lparr>usr_LastSeenAt := Some t\<rparr> in
   let primaryEmail = newPrimaryEmail emailID userID (clm_Email claims) (Some t) t in
   let membership = (localMembership (dom_WorkspaceID domain) userID r MembershipActive t t)
           \<lparr>mbr_ProvisioningSource := ''jit:'' @ UUID_String (dom_ID domain)\<rparr> in
   let identity = ssoIdentityOf identityID userID provider state claims t in
   bindE (newAudit m userID ''auth.sso'' ''sso_identity'' (UUID_String identityID) (dom_WorkspaceID domain) AuditSucceeded []) (\<lambda>event.
   bindE (newEventMeta m ''user.created'' ''auth.sso.finish'' userID (dom_WorkspaceID domain) event) (\<lambda>userMeta.
   bindE (newEventMeta m ''sso.linked'' ''auth.sso.finish'' userID (dom_WorkspaceID domain) event) (\<lambda>linkMeta.
   bindE (newEventMeta m ''sso.jit_provisioned'' ''auth.sso.finish'' userID (dom_WorkspaceID domain) event) (\<lambda>jitMeta.
   bindE (tryE (callStore m (\<lambda>ce. JITProvisionSSOUser (m_sha m) ce user primaryEmail membership identity
            ((commitOf m event [(''user.create'', userMeta), (''sso.link'', linkMeta)])\<lparr>cmt_Ceremony := ssoConsumption state\<rparr>)))) (\<lambda>r.
   (case r of
        Inl err \<Rightarrow> if errorsIs err ErrConflict then fail ErrInvalidCredentials else mapStoreError m ''auth.sso.finish'' err
      | Inr _ \<Rightarrow> (bindE (emit userMeta) (\<lambda>_.
       bindE (emit linkMeta) (\<lambda>_.
       bindE (emit jitMeta) (\<lambda>_.
       let authn = ssoAuthentication userID level t in
       bindE (emitAuthenticationSucceeded m ''auth.sso.finish'' event authn) (\<lambda>_.
       ret authn)))))))))))))))))"

text \<open>A failed ceremony is audited where it named an actor.\<close>

definition failSSO :: "manager \<Rightarrow> uuid \<Rightarrow> string \<Rightarrow> error \<Rightarrow> 'a op" where
  "failSSO m userID reason err = (bindE ((if userID = 0 then ret ()
      else (bindE (recordAuthenticationAudit m userID ''auth.sso'' AuditFailed reason) (\<lambda>audit.
       emitAuthenticationFailed m ''auth.sso.finish'' audit userID)))) (\<lambda>_.
   fail err))"

definition assuredLevel :: "manager \<Rightarrow> ssoContinuation \<Rightarrow> ssoClaims \<Rightarrow> assuranceLevel op" where
  "assuredLevel m state claims = (case lookup (m_ssoAssurance m) (scn_ProviderConfigurationID state) of
     None \<Rightarrow> ret AAL1
   | Some policy \<Rightarrow>
       if \<not> satisfiedBy policy claims then failSSO m (scn_UserID state) ''assurance_policy'' ErrStepUpRequired
       else ret AAL2)"

definition finishLinkedSSO :: "manager \<Rightarrow> ssoContinuation \<Rightarrow> ssoIdentity \<Rightarrow> assuranceLevel \<Rightarrow> authentication op" where
  "finishLinkedSSO m state identity level = (bindE (failIf (scn_Operation state = ssoStepUp \<and> sso_UserID identity \<noteq> scn_UserID state) ErrInvalidCredentials) (\<lambda>_.
   bindE (tryE (callStore m (\<lambda>ce. UserByID ce (sso_UserID identity)))) (\<lambda>u.
   (case u of
        Inl _ \<Rightarrow> fail ErrInvalidCredentials
      | Inr user \<Rightarrow> (bindE (failIf (usr_Disabled user) ErrInvalidCredentials) (\<lambda>_.
       bindE (now m) (\<lambda>t.
       bindE (newAudit m (usr_ID user) ''auth.sso'' ''sso_identity'' (UUID_String (sso_ID identity)) 0 AuditSucceeded []) (\<lambda>event.
       bindE (tryE (callStore m (\<lambda>ce. TouchSSO (m_sha m) ce (usr_ID user) (sso_ID identity) t
                 ((auditOnly event)\<lparr>cmt_Ceremony := ssoConsumption state\<rparr>)))) (\<lambda>r.
       (case r of
             Inl err \<Rightarrow> if errorsIs err ErrConflict then fail ErrInvalidCredentials else mapStoreError m ''auth.sso.finish'' err
           | Inr _ \<Rightarrow> (let authn = ssoAuthentication (usr_ID user) level t in
            bindE (emitNew m ''sso.authenticated'' ''auth.sso.finish'' (usr_ID user) 0 event) (\<lambda>_.
            bindE (emitAuthenticationSucceeded m ''auth.sso.finish'' event authn) (\<lambda>_.
            ret authn)))))))))))))"

definition finishClaims :: "manager \<Rightarrow> ssoProvider \<Rightarrow> ssoContinuation \<Rightarrow> ssoClaims \<Rightarrow> authentication op" where
  "finishClaims m provider state asserted = (let claims0 = asserted\<lparr>clm_Issuer := TrimSpace (clm_Issuer asserted), clm_Subject := TrimSpace (clm_Subject asserted)\<rparr> in
   bindE (failIf (clm_Issuer claims0 = [] \<or> clm_Subject claims0 = [] \<or> length (clm_Issuer claims0) > 500 \<or> length (clm_Subject claims0) > 500)
       ErrInvalidCredentials) (\<lambda>_.
   bindE (assuredLevel m state claims0) (\<lambda>level.
   bindE ((if clm_Email claims0 \<noteq> []
       then (case validEmail m (clm_Email claims0) of
           Inl _ \<Rightarrow> fail ErrInvalidCredentials
         | Inr normalizedEmail \<Rightarrow> ret (claims0\<lparr>clm_Email := normalizedEmail\<rparr>))
       else ret claims0)) (\<lambda>claims.
   (if scn_Operation state = ssoLink then finishSSOLink m provider state claims level
      else (bindE (tryE (callStore m (\<lambda>ce. SSOIdentity ce (scn_ProviderConfigurationID state) (clm_Issuer claims) (clm_Subject claims)))) (\<lambda>found.
       (case found of
           Inl lookupErr \<Rightarrow>
             if \<not> errorsIs lookupErr ErrNotFound then fail lookupErr
             else if scn_Operation state = ssoLogin then finishSSOJIT m provider state claims level
             else fail ErrInvalidCredentials
         | Inr identity \<Rightarrow> finishLinkedSSO m state identity level))))))))"

definition FinishSSO :: "manager \<Rightarrow> string \<Rightarrow> bytes \<Rightarrow> authentication op" where
  "FinishSSO m continuation response = (bindE (decodeSSOContinuation m continuation) (\<lambda>state.
   (case lookup (m_ssoProviders m) (scn_ProviderConfigurationID state) of
        None \<Rightarrow> fail ErrInvalidCredentials
      | Some provider \<Rightarrow> (bindE (tryE (asking (\<lambda>n. sp_Finish provider n (scn_Session state) response))) (\<lambda>r.
       (case r of
             Inl _ \<Rightarrow> failSSO m (scn_UserID state) ''invalid_credentials'' ErrInvalidCredentials
           | Inr claims \<Rightarrow> finishClaims m provider state claims))))))"

section \<open>Linked identities\<close>

definition managerUnlinkSSO :: "manager \<Rightarrow> authentication \<Rightarrow> uuid \<Rightarrow> unit op" where
  "managerUnlinkSSO m actor identityID = (bindE (requireScopedStepUp m actor StepUpScopeAccount ''auth.sso.unlink'') (\<lambda>_.
   bindE (failIf (\<not> validUUIDv7 identityID) ErrInvalidInput) (\<lambda>_.
   let userID = auth_UserID actor in
   bindE (newAudit m userID ''sso.unlink'' ''sso_identity'' (UUID_String identityID) 0 AuditSucceeded []) (\<lambda>event.
   bindE (newEventMeta m ''sso.unlinked'' ''auth.sso.unlink'' userID 0 event) (\<lambda>meta.
   committing m ''auth.sso.unlink'' event ''sso.unlink'' meta
       (\<lambda>c. callStore m (\<lambda>ce. UnlinkSSO (m_sha m) ce userID identityID c)))))))"

definition SSOIdentities :: "manager \<Rightarrow> authentication \<Rightarrow> uuid \<Rightarrow> pageRequest \<Rightarrow> world \<Rightarrow> ssoIdentity pageEvent result list \<times> world" where
  "SSOIdentities m actor userID0 page0 = stream (bindE (failIf (auth_UserID actor = 0) ErrUnauthorized) (\<lambda>_.
   let userID = (if userID0 = 0 then auth_UserID actor else userID0) in
   bindE ((if userID = auth_UserID actor then requireRecentInteractive m actor else AuthorizeAdmin m actor PermissionUsersRead)) (\<lambda>_.
   bindE (liftR (normalizePage page0)) (\<lambda>page.
   readStream m (\<lambda>ce ctxErr. storeSSOIdentities (lib_UnmarshalCursor (m_library m)) ce ctxErr userID page)))))"

section \<open>The operations run the store\<close>

context environment
begin

lemma sso_continuations_run [run_rules]: "relates (runs m) (encodeSSOContinuation m scn)" "relates (runs m) (decodeSSOContinuation m raw)"
  unfolding encodeSSOContinuation_def decodeSSOContinuation_def by (intro run_rules)+

lemma beginSSO_runs [run_rules]: "relates (runs m) (beginSSO m a i h)"
  unfolding beginSSO_def by (intro run_rules)

lemma begins_run [run_rules]: "relates (runs m) (BeginSSO m i)" "relates (runs m) (BeginSSOLink m a i)" "relates (runs m) (BeginSSOStepUp m a i)"
  unfolding BeginSSO_def BeginSSOLink_def BeginSSOStepUp_def by (intro run_rules)+

lemma orInvalid_runs [run_rules]: "relates (runs m) f \<Longrightarrow> relates (runs m) (orInvalid f)"
  unfolding orInvalid_def by (intro run_rules)

lemma joinableDomain_runs [run_rules]: "relates (runs m) (joinableDomain m scn clm)"
  unfolding joinableDomain_def by (intro run_rules)

lemma sso_ends_run [run_rules]: "relates (runs m) (finishSSOLink m prov scn clm lvl)" "relates (runs m) (finishSSOJIT m prov scn clm lvl)"
  "relates (runs m) (failSSO m u h e)" "relates (runs m) (finishLinkedSSO m scn sso lvl)"
  unfolding finishSSOLink_def finishSSOJIT_def failSSO_def finishLinkedSSO_def by (intro run_rules; assumption)+

lemma assuredLevel_runs [run_rules]: "relates (runs m) (assuredLevel m scn clm)"
  unfolding assuredLevel_def by (intro run_rules)

lemma finishClaims_runs [run_rules]: "relates (runs m) (finishClaims m prov scn clm)"
  unfolding finishClaims_def by (intro run_rules)

lemma sso_run [run_rules]: "relates (runs m) (FinishSSO m h d)" "relates (runs m) (managerUnlinkSSO m a i)"
  "relates (runs m) (SSOIdentities m a u page)"
  unfolding FinishSSO_def managerUnlinkSSO_def SSOIdentities_def by (intro run_rules stream_runs; assumption)+

end

end
