(* ===== verification/ManagerPrivacy.thy ===== *)
theory ManagerPrivacy
  imports ManagerSSO MemOAuth
begin

text \<open>
  Revocation, recovery and erasure (\<^verbatim>\<open>revocation.go\<close>), audit events of the host (\<^verbatim>\<open>client_audit.go\<close>) and the export of a
  user's data (\<^verbatim>\<open>export.go\<close>). A trusted local request is a boolean. The export follows cursors without a
  bound of its own; \<open>m_fuel\<close> bounds it.
\<close>

section \<open>Revocation and erasure\<close>

definition managerRevokeUserCredentials :: "manager \<Rightarrow> authentication \<Rightarrow> bool \<Rightarrow> uuid \<Rightarrow> unit op" where
  "managerRevokeUserCredentials m actor local userID0 = (let userID = (if userID0 = 0 then auth_UserID actor else userID0) in
   bindE (failIf (\<not> validUUIDv7 userID) ErrInvalidInput) (\<lambda>_.
   bindE ((if userID = auth_UserID actor then requireScopedStepUp m actor StepUpScopeAccount ''auth.credentials.revoke''
      else (bindE (requireAdminMutation m actor local ''auth.credentials.revoke'') (\<lambda>_.
       AuthorizeAdmin m actor PermissionUsersWrite)))) (\<lambda>_.
   bindE (newAudit m (auth_UserID actor) ''user.credentials.revoke'' ''user'' (UUID_String userID) 0 AuditSucceeded []) (\<lambda>event.
   bindE (newEventMeta m ''user.credentials_revoked'' ''auth.credentials.revoke'' (auth_UserID actor) 0 event) (\<lambda>meta.
   bindE (now m) (\<lambda>t.
   committing m ''auth.credentials.revoke'' event ''user.credentials.revocation'' meta
       (\<lambda>c. callStore m (\<lambda>ce. RevokeUserCredentials (m_sha m) ce userID t c))))))))"

definition AdminResetSecondFactor :: "manager \<Rightarrow> authentication \<Rightarrow> bool \<Rightarrow> uuid \<Rightarrow> unit op" where
  "AdminResetSecondFactor m actor local userID = (bindE (failIf (\<not> validUUIDv7 userID) ErrInvalidInput) (\<lambda>_.
   bindE (failIf (userID = auth_UserID actor) ErrInvalidInput) (\<lambda>_.
   bindE (requireAdminMutation m actor local ''admin.second_factor.reset'') (\<lambda>_.
   bindE (AuthorizeAdmin m actor PermissionUsersWrite) (\<lambda>_.
   bindE (newAudit m (auth_UserID actor) ''user.second_factor.reset'' ''user'' (UUID_String userID) 0 AuditSucceeded []) (\<lambda>event.
   bindE (newEventMeta m ''user.second_factor_reset'' ''admin.second_factor.reset'' (auth_UserID actor) 0 event) (\<lambda>meta.
   bindE (now m) (\<lambda>t.
   committing m ''admin.second_factor.reset'' event ''user.second_factor.reset'' meta
       (\<lambda>c. callStore m (\<lambda>ce. storeResetSecondFactor (m_sha m) ce userID t c))))))))))"

definition AnonymizeUser :: "manager \<Rightarrow> authentication \<Rightarrow> bool \<Rightarrow> uuid \<Rightarrow> unit op" where
  "AnonymizeUser m actor local userID = (bindE (failIf (\<not> validUUIDv7 userID) ErrInvalidInput) (\<lambda>_.
   bindE (requireAdminMutation m actor local ''admin.user.anonymize'') (\<lambda>_.
   bindE (AuthorizeAdmin m actor PermissionUsersWrite) (\<lambda>_.
   bindE (newAudit m (auth_UserID actor) ''user.anonymize'' ''user'' (UUID_String userID) 0 AuditSucceeded []) (\<lambda>event.
   bindE (newEventMeta m ''user.anonymized'' ''admin.user.anonymize'' (auth_UserID actor) 0 event) (\<lambda>meta.
   bindE (now m) (\<lambda>t.
   committing m ''admin.user.anonymize'' event ''user.anonymize'' meta
       (\<lambda>c. callStore m (\<lambda>ce. storeAnonymizeUser (m_sha m) ce userID t c)))))))))"

section \<open>Audit events of the host\<close>

record auditInput =
  ain_Action :: string
  ain_ResourceType :: string
  ain_ResourceID :: string
  ain_WorkspaceID :: uuid
  ain_Outcome :: auditOutcome
  ain_Reason :: string

definition validAuditName :: "string \<Rightarrow> bool" where
  "validAuditName value =
    (if value = [] \<or> length value > 100 then False
     else list_all (\<lambda>c. let n = of_char c :: nat in 97 \<le> n \<and> n \<le> 122 \<or> 48 \<le> n \<and> n \<le> 57 \<or> c \<in> set ''._:-'') value)"

text \<open>The two outcomes are the type; the text of any other outcome is refused by the code.\<close>

definition RecordAudit :: "manager \<Rightarrow> authentication \<Rightarrow> auditInput \<Rightarrow> unit op" where
  "RecordAudit m actor input = (bindE (failIf (auth_UserID actor = 0) ErrUnauthorized) (\<lambda>_.
   let action = TrimSpace (ain_Action input) in
   let resourceType = TrimSpace (ain_ResourceType input) in
   let resourceID = TrimSpace (ain_ResourceID input) in
   let reason = TrimSpace (ain_Reason input) in
   bindE (failIf (\<not> validAuditName action \<or> \<not> validAuditName resourceType \<or> resourceID = [] \<or> length resourceID > 200 \<or> length reason > 500)
       ErrInvalidInput) (\<lambda>_.
   bindE ((if ain_WorkspaceID input \<noteq> 0 then AuthorizePermission m actor (ain_WorkspaceID input) PermissionWorkspaceAccess
      else AuthorizeAdmin m actor PermissionAdminAccess)) (\<lambda>_.
   bindE (newAudit m (auth_UserID actor) action resourceType resourceID (ain_WorkspaceID input) (ain_Outcome input) reason) (\<lambda>event.
   bindE (newEventMeta m ''client_audit.recorded'' ''audit.record'' (auth_UserID actor) (ain_WorkspaceID input) event) (\<lambda>meta.
   committing m ''audit.record'' event ''client_audit.record'' meta (\<lambda>c. callStore m (\<lambda>ce. AppendAudit (m_sha m) ce c))))))))"

section \<open>Export\<close>

record userDataExport =
  uex_User :: user
  uex_Emails :: "emailAddress list"
  uex_Workspaces :: "(workspace \<times> membership) list"
  uex_SSOIdentities :: "ssoIdentity list"
  uex_Passkeys :: "passkey list"
  uex_PATs :: "pat list"
  uex_Sessions :: "session list"
  uex_SCIMUsers :: "scimUser list"
  uex_Invitations :: "workspaceInvitation list"
  uex_OAuthGrants :: "oauthGrant list"

text \<open>The events of one page: the items so far, and the end the page announced.\<close>

fun drainPage :: "'a list \<Rightarrow> pageEnd \<Rightarrow> 'a pageEvent result list \<Rightarrow> ('a list \<times> pageEnd) result" where
  "drainPage items pe [] = Inr (items, pe)"
| "drainPage items pe (Inl err # events) = Inl err"
| "drainPage items pe (Inr (ItemEvent x) # events) = drainPage (items @ [x]) pe events"
| "drainPage items pe (Inr (EndEvent pe') # events) = drainPage items pe' events"

type_synonym 'a pageQuery = "pageRequest \<Rightarrow> error option \<Rightarrow> (nat \<Rightarrow> error option) \<Rightarrow> store \<Rightarrow> 'a pageEvent result list"

fun drainFrom :: "manager \<Rightarrow> nat \<Rightarrow> 'a pageQuery \<Rightarrow> string \<Rightarrow> 'a list \<Rightarrow> 'a list op" where
  "drainFrom m 0 query cursor items = fail OutOfFuel"
| "drainFrom m (Suc fuel) query cursor items = (bindE (readStream m (query \<lparr>page_Cursor = cursor, page_Limit = 100\<rparr>)) (\<lambda>events.
 bindE (liftR (drainPage items zeroEnd events)) (\<lambda>(items', pe).
 (if \<not> end_HasMore pe \<or> end_NextCursor pe = [] then ret items'
      else drainFrom m fuel query (end_NextCursor pe) items'))))"

definition drainPages :: "manager \<Rightarrow> 'a pageQuery \<Rightarrow> 'a list op" where
  "drainPages m query = drainFrom m (m_fuel m) query [] []"

text \<open>A stream read to its end, or to its first error.\<close>

fun drainStream :: "'a result list \<Rightarrow> 'a list result" where
  "drainStream [] = Inr []"
| "drainStream (Inl err # xs) = Inl err"
| "drainStream (Inr x # xs) = (case drainStream xs of Inl err \<Rightarrow> Inl err | Inr rest \<Rightarrow> Inr (x # rest))"

fun affiliations :: "manager \<Rightarrow> uuid \<Rightarrow> workspace list \<Rightarrow> (workspace \<times> membership) list op" where
  "affiliations m userID [] = ret []"
| "affiliations m userID (workspace # workspaces) = (bindE (tryE (callStore m (\<lambda>ce. Membership ce (wsp_ID workspace) userID))) (\<lambda>r.
 (case r of
        Inl err \<Rightarrow> if errorsIs err ErrNotFound then affiliations m userID workspaces else fail err
      | Inr membership \<Rightarrow> (bindE (affiliations m userID workspaces) (\<lambda>rest.
       ret ((workspace, membership) # rest))))))"

definition ExportUserData :: "manager \<Rightarrow> authentication \<Rightarrow> uuid \<Rightarrow> userDataExport op" where
  "ExportUserData m actor userID0 = (bindE (failIf (auth_UserID actor = 0) ErrUnauthorized) (\<lambda>_.
   let userID = (if userID0 = 0 then auth_UserID actor else userID0) in
   bindE ((if userID = auth_UserID actor then requireRecentInteractive m actor
      else (bindE (requireScopedStepUp m actor StepUpScopeAccount ''user.data.export'') (\<lambda>_.
       AuthorizeAdmin m actor PermissionUsersRead)))) (\<lambda>_.
   bindE (callStore m (\<lambda>ce. UserByID ce userID)) (\<lambda>user.
   bindE (drainPages m (\<lambda>page ce ctxErr. Emails (lib_UnmarshalCursor (m_library m)) ce userID page)) (\<lambda>emails.
   bindE (drainPages m (\<lambda>page ce ctxErr. UserWorkspaces (lib_UnmarshalCursor (m_library m)) ce userID page)) (\<lambda>workspaces.
   bindE (affiliations m userID workspaces) (\<lambda>affiliated.
   bindE (drainPages m (\<lambda>page ce ctxErr. storeSSOIdentities (lib_UnmarshalCursor (m_library m)) ce ctxErr userID page)) (\<lambda>identities.
   bindE (readStream m (\<lambda>ce ctxErr. storePasskeys ce ctxErr userID)) (\<lambda>yielded.
   bindE (liftR (drainStream (scrubPasskeys yielded))) (\<lambda>passkeys.
   bindE (drainPages m (\<lambda>page ce ctxErr. storePATs (lib_UnmarshalCursor (m_library m)) ce ctxErr userID page)) (\<lambda>tokens.
   bindE ((if m_sessionStore m
       then drainPages m (\<lambda>page ce ctxErr. storeSessions (lib_UnmarshalCursor (m_library m)) ce ctxErr userID page) else ret [])) (\<lambda>sessions.
   bindE ((if m_privacyStore m
       then (bindE (readStream m (\<lambda>ce ctxErr. SCIMUsersByUser ce userID)) (\<lambda>l.
        bindE (liftR (drainStream l)) (\<lambda>links.
        bindE (readStream m (\<lambda>ce ctxErr. AcceptedWorkspaceInvitations ce userID)) (\<lambda>i.
        bindE (liftR (drainStream i)) (\<lambda>invitations.
        ret (links, map (\<lambda>invitation. invitation\<lparr>inv_Digest := []\<rparr>) invitations))))))
       else ret ([], []))) (\<lambda>(links, invitations).
   bindE ((if m_oauthStore m
       then drainPages m (\<lambda>page ce ctxErr. storeOAuthGrants (lib_UnmarshalCursor (m_library m)) ce userID 0 page) else ret [])) (\<lambda>grants.
   ret \<lparr>uex_User = user, uex_Emails = emails, uex_Workspaces = affiliated, uex_SSOIdentities = identities,
          uex_Passkeys = passkeys, uex_PATs = map (\<lambda>token. token\<lparr>pat_Digest := []\<rparr>) tokens,
          uex_Sessions = map (\<lambda>session. session\<lparr>ses_Digest := []\<rparr>) sessions, uex_SCIMUsers = links,
          uex_Invitations = invitations, uex_OAuthGrants = grants\<rparr>))))))))))))))"

section \<open>The operations run the store\<close>

context environment
begin

lemma revocations_run [run_rules]: "relates (runs m) (managerRevokeUserCredentials m a b u)"
  "relates (runs m) (AdminResetSecondFactor m a b u)" "relates (runs m) (AnonymizeUser m a b u)" "relates (runs m) (RecordAudit m a ain)"
  unfolding managerRevokeUserCredentials_def AdminResetSecondFactor_def AnonymizeUser_def RecordAudit_def
  by (intro run_rules; assumption)+

lemma drainFrom_runs [run_rules]: "relates (runs m) (drainFrom m n qry cur xs)"
proof (induction n arbitrary: cur xs)
  case (Suc n)
  show ?case unfolding drainFrom.simps by (intro run_rules Suc)
qed (simp add: run_rules)

lemma drainPages_runs [run_rules]: "relates (runs m) (drainPages m qry)"
  unfolding drainPages_def by (intro run_rules)

lemma affiliations_run [run_rules]: "relates (runs m) (affiliations m u wsps)"
proof (induction wsps)
  case (Cons wsp wsps)
  show ?case unfolding affiliations.simps by (intro run_rules Cons)
qed (simp add: run_rules)

lemma ExportUserData_runs [run_rules]: "relates (runs m) (ExportUserData m a u)"
  unfolding ExportUserData_def by (intro run_rules)

end

end
