(* ===== verification/ManagerLogic.thy ===== *)
theory ManagerLogic
  imports ManagerPrivacy
begin

text \<open>
  How theorems about the Manager's operations are proved: what a returned value says about the steps of an
  operation (\<open>success\<close>), what was true of the store at some moment of an operation (\<open>sometime\<close>),
  and what an operation does when no other request interferes and the context is alive (\<open>quiet\<close>). The
  instances the properties are evaluated on stand at the end.
\<close>

section \<open>Returned values\<close>

named_theorems success \<open>when a step of an operation returns a value\<close>

lemma success_steps [success]:
  "bindE f k w = (Inr y, w'') \<longleftrightarrow> (\<exists>x w'. f w = (Inr x, w') \<and> k x w' = (Inr y, w''))"
  "failIf b e w = (Inr u, w') \<longleftrightarrow> \<not> b \<and> w' = w"
  "tryE f w = (Inr r, w') \<longleftrightarrow> f w = (r, w')"
  "liftR r w = (Inr x, w') \<longleftrightarrow> r = Inr x \<and> w' = w"
  "now m w = (Inr t, w') \<longleftrightarrow> t = m_clock m (w_ticks w) \<and> w' = w\<lparr>w_ticks := w_ticks w + 1\<rparr>"
  "emit meta w = (Inr u, w') \<longleftrightarrow> w' = w\<lparr>w_events := w_events w @ [meta]\<rparr>"
  by (auto simp: bindE_Inr failIf_def tryE_def liftR_def now_def emit_def split: prod.splits)

lemma success_cases [success]:
  "(if b then f else g) w = (Inr y, w') \<longleftrightarrow> b \<and> f w = (Inr y, w') \<or> \<not> b \<and> g w = (Inr y, w')"
  "case_sum p q r w = (Inr y, w') \<longleftrightarrow> (\<exists>e. r = Inl e \<and> p e w = (Inr y, w')) \<or> (\<exists>x. r = Inr x \<and> q x w = (Inr y, w'))"
  "case_option f h z w = (Inr y, w') \<longleftrightarrow> z = None \<and> f w = (Inr y, w') \<or> (\<exists>x. z = Some x \<and> h x w = (Inr y, w'))"
  "case_prod k pr w = (Inr y, w') \<longleftrightarrow> (\<exists>a b. pr = (a, b) \<and> k a b w = (Inr y, w'))"
  by (auto split: sum.splits option.splits prod.splits)

lemma success_refusals [success]:
  "mapStoreError m op err w \<noteq> (Inr y, w')" "refuse m a b c err w \<noteq> (Inr y, w')" "deny m authn ws w \<noteq> (Inr y, w')"
  "denyStepUp m authn op err w \<noteq> (Inr y, w')" "rejectSession m ses reason err w \<noteq> (Inr y, w')"
  "failPassword m u aev w \<noteq> (Inr y, w')" "failStalePassword m u err w \<noteq> (Inr y, w')" "failPasskey m op u err w \<noteq> (Inr y, w')"
  "failSSO m u reason err w \<noteq> (Inr y, w')"
  by (auto simp: mapStoreError_def refuse_def deny_def denyStepUp_def rejectSession_def failPassword_def failStalePassword_def
    failPasskey_def failSSO_def Let_def success)

lemma success_calls [success]:
  "orMapped m op f w = (Inr x, w') \<longleftrightarrow> f w = (Inr x, w')"
  "committing m op event change meta call w = (Inr x, w') \<longleftrightarrow>
     (\<exists>w1. call (transactionalCommit m event change meta) w = (Inr x, w1) \<and> w' = w1\<lparr>w_events := w_events w1 @ [meta]\<rparr>)"
  by (auto simp: orMapped_def committing_def success)

lemma success_lookups [success]:
  "enabledUser m u w = (Inr usr, w') \<longleftrightarrow> callStore m (\<lambda>ce. UserByID ce u) w = (Inr usr, w') \<and> \<not> usr_Disabled usr"
  "requireActiveUser m u w = (Inr y, w') \<longleftrightarrow> (\<exists>usr. callStore m (\<lambda>ce. UserByID ce u) w = (Inr usr, w') \<and> \<not> usr_Disabled usr)"
  "orForbidden f w = (Inr x, w') \<longleftrightarrow> f w = (Inr x, w')"
  "orInvalid g w = (Inr z, w') \<longleftrightarrow> g w = (Inr z, w')"
  by (auto simp: enabledUser_def requireActiveUser_def orForbidden_def orInvalid_def success)

section \<open>Moments\<close>

definition sometime :: "manager \<Rightarrow> world \<Rightarrow> world \<Rightarrow> (store \<Rightarrow> bool) \<Rightarrow> bool" where
  "sometime m w w' P \<longleftrightarrow>
     (\<exists>s. storeRun (m_sha m) commitOk (w_store w) s \<and> storeRun (m_sha m) commitOk s (w_store w') \<and> P s)"

lemma sometime_widen: "runs m a b \<Longrightarrow> sometime m b c P \<Longrightarrow> runs m c d \<Longrightarrow> sometime m a d P"
  unfolding sometime_def runs_def by (meson storeRun_trans)

lemma sometime_mono: "sometime m a b P \<Longrightarrow> (\<And>s. P s \<Longrightarrow> Q s) \<Longrightarrow> sometime m a b Q"
  unfolding sometime_def by blast

context environment
begin

text \<open>A value read from the store was true of it at that moment; a call that writes happened at one.\<close>

lemma read_sometime:
  assumes "callStore m (\<lambda>ce. reads ce g) w = (Inr x, w')"
  shows "sometime m w w' (\<lambda>s. g s = Inr x)"
proof -
  let ?s = "m_others m (w_calls w) (w_store w)"
  from assms have "g ?s = Inr x" "w_store w' = ?s" by (auto simp: callStore_def reads_def split: option.splits prod.splits)
  then show ?thesis unfolding sometime_def using others_run storeRun_refl by metis
qed

lemma call_moment:
  assumes "callStore m f w = (r, w')"
  obtains ce s where "f ce s = (r, w_store w')" and "storeRun (m_sha m) commitOk (w_store w) s"
  using assms others_run that by (force simp: callStore_def split: prod.splits)

end

section \<open>Undisturbed requests\<close>

definition quiet :: "manager \<Rightarrow> bool" where
  "quiet m \<longleftrightarrow> (\<forall>n s. m_others m n s = s) \<and> (\<forall>n. m_ctxErr m n = None)"

lemma quiet_environment: "quiet m \<Longrightarrow> environment m"
  by unfold_locales (simp add: quiet_def storeRun_refl)

lemma quiet_callStore:
  "quiet m \<Longrightarrow> callStore m f w = (case f None (w_store w) of (r, s) \<Rightarrow> (r, w\<lparr>w_store := s, w_calls := w_calls w + 1\<rparr>))"
  by (simp add: quiet_def callStore_def)

text \<open>Undisturbed up to a call of the store.\<close>

definition calm :: "manager \<Rightarrow> nat \<Rightarrow> bool" where
  "calm m k \<longleftrightarrow> (\<forall>n. m_ctxErr m n = None) \<and> (\<forall>n s. n < k \<longrightarrow> m_others m n s = s)"

lemma calm_callStore:
  "calm m k \<Longrightarrow> w_calls w < k
    \<Longrightarrow> callStore m f w = (case f None (w_store w) of (r, s) \<Rightarrow> (r, w\<lparr>w_store := s, w_calls := w_calls w + 1\<rparr>))"
  by (simp add: calm_def callStore_def)

lemma calm_reads:
  "calm m k \<Longrightarrow> w_calls w < k \<Longrightarrow> callStore m (\<lambda>ce. reads ce g) w = (g (w_store w), w\<lparr>w_calls := w_calls w + 1\<rparr>)"
  by (simp add: calm_callStore reads_def)

lemma quiet_calm: "quiet m \<Longrightarrow> calm m k"
  by (simp add: quiet_def calm_def)

lemma quiet_reads:
  "quiet m \<Longrightarrow> callStore m (\<lambda>ce. reads ce g) w = (g (w_store w), w\<lparr>w_calls := w_calls w + 1\<rparr>)"
  by (simp add: quiet_callStore reads_def)

lemma quiet_readStream:
  "quiet m \<Longrightarrow> readStream m f w = (Inr (f None (\<lambda>_. None) (w_store w)), w\<lparr>w_calls := w_calls w + 1\<rparr>)"
  by (simp add: readStream_def quiet_callStore) (simp add: quiet_def)

text \<open>With randomness at hand an audit event can be made, and a plain event appended where the log takes it.\<close>

definition entropic :: "manager \<Rightarrow> bool" where
  "entropic m \<longleftrightarrow> None \<notin> range (m_random m)"

lemma randomBytes_succeeds:
  assumes "entropic m"
  shows "\<exists>b. randomBytes m n w = (Inr b, w\<lparr>w_drawn := w_drawn w + n\<rparr>) \<and> length b = n"
proof -
  have "None \<notin> set (map (m_random m) [w_drawn w ..< w_drawn w + n])" using assms by (force simp: entropic_def)
  then show ?thesis by (simp add: randomBytes_def Let_def)
qed

lemma newID_succeeds:
  assumes "entropic m" and "generatorOk w"
  shows "\<exists>i w'. newID m w = (Inr i, w') \<and> validUUIDv7 i \<and> w_store w' = w_store w \<and> w_calls w' = w_calls w \<and> generatorOk w'"
proof -
  let ?w = "nextID (UnixMilli (m_clock m (w_ticks w))) (w\<lparr>w_ticks := w_ticks w + 1\<rparr>)"
  obtain b where b: "randomBytes m 16 ?w = (Inr b, ?w\<lparr>w_drawn := w_drawn ?w + 16\<rparr>)" "length b = 16"
    using randomBytes_succeeds [OF assms(1), of 16 ?w] by auto
  have "generatorOk (w\<lparr>w_ticks := w_ticks w + 1\<rparr>)" using assms(2) by (simp add: generatorOk_def)
  then have ok: "generatorOk ?w" using nextID_key by blast
  then have v: "validUUIDv7 (bytesUuid (idBytes (of_int (w_idUnixMilli ?w)) (w_idSequence ?w) b))"
    by (intro idBytes_v7 b(2)) (simp add: generatorOk_def)
  have "newID m w = (Inr (bytesUuid (idBytes (of_int (w_idUnixMilli ?w)) (w_idSequence ?w) b)), ?w\<lparr>w_drawn := w_drawn ?w + 16\<rparr>)"
    by (simp add: newID_def bindE_def now_def b(1) [simplified])
  moreover have "w_store ?w = w_store w" "w_calls ?w = w_calls w" by (simp_all add: nextID_def)
  ultimately show ?thesis using v ok by (auto simp: generatorOk_def)
qed

lemma newAudit_succeeds:
  assumes "entropic m" and "generatorOk w"
  shows "\<exists>event w' n. newAudit m actor action rt ri ws outcome reason w = (Inr event, w') \<and> w_store w' = w_store w \<and> w_calls w' = w_calls w \<and> generatorOk w'
    \<and> validUUIDv7 (aud_ID event) \<and> aud_Action event = action \<and> aud_OccurredAt event = m_clock m n - m_clock m n mod 1000"
proof -
  obtain i w1 where "newID m w = (Inr i, w1)" "validUUIDv7 i" "w_store w1 = w_store w" "w_calls w1 = w_calls w" "generatorOk w1"
    using newID_succeeds [OF assms] by blast
  then show ?thesis by (auto simp: newAudit_def bindE_def now_def ret_def generatorOk_def)
qed

lemma AppendAudit_succeeds: "canAudit event s = None \<Longrightarrow> \<exists>s'. AppendAudit sha None (auditOnly event) s = (Inr (), s')"
  by (simp add: AppendAudit_def commit_eval auditOnly_def)

lemma not_v7: "\<not> validUUIDv7 0" "\<not> validUUIDv7 9"
  by (simp_all add: validUUIDv7_def) code_simp+

text \<open>The same Manager, undisturbed.\<close>

definition undisturbed :: "manager \<Rightarrow> manager" where
  "undisturbed m = m\<lparr>m_others := \<lambda>_ s. s, m_ctxErr := \<lambda>_. None\<rparr>"

lemma undisturbed_quiet: "quiet (undisturbed m)"
  by (simp add: quiet_def undisturbed_def)

lemma undisturbed_sha [simp]: "m_sha (undisturbed m) = m_sha m"
  by (simp add: undisturbed_def)

section \<open>Instances the properties are evaluated on\<close>

text \<open>A cipher that writes the key in front of the plaintext, and formats that read back what they write.\<close>

definition demoLibrary :: library where
  "demoLibrary = \<lparr>lib_ParseAddress = Some, lib_ParseIP = (\<lambda>_. False), lib_ToASCII = Some, lib_PublicSuffix = (\<lambda>_. []),
     lib_GCMSeal = (\<lambda>key nonce plaintext. of_nat (length key) # key @ plaintext),
     lib_GCMOpen = (\<lambda>key nonce ciphertext.
        if take (Suc (length key)) ciphertext = of_nat (length key) # key then Some (drop (Suc (length key)) ciphertext) else None),
     lib_MarshalCeremony = (\<lambda>state. uuidBytes (ccn_ID state) @ uuidBytes (ccn_UserID state)
        @ [of_int (ccn_ExpiresAt state), of_nat (length (ccn_Operation state))] @ toBytes (ccn_Operation state) @ ccn_Session state),
     lib_UnmarshalCeremony = (\<lambda>payload. let n = unat (payload ! 33) in Some
        \<lparr>ccn_ID = bytesUuid (take 16 payload), ccn_UserID = bytesUuid (take 16 (drop 16 payload)),
         ccn_Operation = ofBytes (take n (drop 34 payload)), ccn_Name = [], ccn_ExpiresAt = uint (payload ! 32),
         ccn_Session = drop (34 + n) payload\<rparr>),
     lib_MarshalSSO = (\<lambda>_. []), lib_UnmarshalSSO = (\<lambda>_. None), lib_UnmarshalCursor = readCursor\<rparr>"

definition demoManager :: manager where
  "demoManager = \<lparr>m_sha = (\<lambda>_. [1]), m_clock = (\<lambda>n. 1000000 * int n + 1000000), m_random = (\<lambda>_. Some 7),
     m_others = (\<lambda>_ s. s), m_ctxErr = (\<lambda>_. None), m_fuel = 9, m_request = \<lparr>req_IPAddress = [], req_UserAgent = []\<rparr>,
     m_library = demoLibrary, m_Hash = (\<lambda>_ password. Inr (CHR ''h'' # password)),
     m_Verify = (\<lambda>password hash. Inr (hash = CHR ''h'' # password, False)), m_totp = None, m_passkeys = None,
     m_sealKey = replicate 16 5, m_digestKey = [2], m_patPepper = [3], m_patPrefix = ''cbp'', m_recoveryPepper = [4],
     m_readSealKeys = [replicate 16 5], m_readDigestKeys = [[2]], m_readPATPeppers = [[3]], m_readRecoveryPeppers = [[4]],
     m_stepUpMaxAge = 1000000000000, m_patTouchInterval = 0,
     m_stepUp = \<lparr>sup_Default = StepUpPolicyRequired, sup_PAT = StepUpPolicyRequired, sup_Workspace = StepUpPolicyRequired,
       sup_Account = StepUpPolicyRequired, sup_Admin = StepUpPolicyRequired\<rparr>,
     m_ceremonyTTL = 300000000000, m_minPasswordLen = 1, m_passwordPolicy = None, m_maxFailedLogins = 5,
     m_lockoutDuration = 900000000000, m_adminPermissions = defaultAdminPermissions,
     m_workspaceRoles = (case buildRoleCatalog [] of Inr catalog \<Rightarrow> catalog | Inl _ \<Rightarrow> \<lparr>cat_roles = [], cat_permissions = {}\<rparr>),
     m_emailVerificationTTL = 1000, m_passwordResetTTL = 1000, m_emailAuthTTL = 1000, m_invitationTTL = 1000, m_domainClaimTTL = 1000,
     m_sessionTTL = 1000000000000, m_sessionIdleTimeout = 0, m_sessionTouchInterval = 0, m_emailIssuanceCooldown = 0,
     m_ssoProviders = [], m_ssoAssurance = [], m_hooks = [], m_credentialStore = True, m_privacyStore = True, m_oauthStore = True, m_scimStore = True,
     m_signupStore = True, m_signup = None, m_sessionStore = True, m_emailThrottle = True, m_domainStore = True,
     m_domainVerifier = None, m_trustActorDomains = False, m_dummyHash = ''-''\<rparr>"

definition demoWorld :: "store \<Rightarrow> world" where
  "demoWorld s = \<lparr>w_store = s, w_ticks = 0, w_drawn = 0, w_calls = 0, w_asked = 0, w_idUnixMilli = 0, w_idSequence = 0, w_events = []\<rparr>"

lemma demo_quiet: "quiet demoManager"
  by (simp add: quiet_def demoManager_def)

end
