(* ===== verification/MemKeys.thy ===== *)
theory MemKeys
  imports MemIndex MemGuarantees
begin

text \<open>
  The well-formedness of the store's tables: every record lies under its own identifier. A locale carries a
  predicate of the store through the commit protocol; the predicate is shown for every method and so for
  every run.
\<close>

section \<open>Predicates the commit protocol keeps\<close>

locale kept =
  fixes P :: "store \<Rightarrow> bool"
  assumes bookkeeping: "P (s\<lparr>st_ceremonies := k\<rparr>) = P s" "P (s\<lparr>st_oauthClientKeys := q\<rparr>) = P s"
    and audit: "P (commitAudit sha e u s) = P s"
begin

lemma mutate_keeps:
  assumes "mutate sha ce guard effect c s = (r, s')" and "silent effect"
    and "\<And>x k. guard s = Inr x \<Longrightarrow> P s \<Longrightarrow> P (snd (effect x (s\<lparr>st_ceremonies := k\<rparr>)))"
  shows "P s \<longrightarrow> P s'"
proof (rule mutate_relates [OF assms(1,2)])
  show "P s \<longrightarrow> P (s\<lparr>st_ceremonies := k, st_oauthClientKeys := []\<rparr>)" for k by (simp only: bookkeeping) simp
qed (use assms(3) in \<open>simp_all add: bookkeeping audit\<close>)

lemma writes_keeps:
  assumes "mutate sha ce guard (writes f) c s = (r, s')" and "\<And>x s. auditSame (f x s) s"
    and "\<And>x k. guard s = Inr x \<Longrightarrow> P s \<Longrightarrow> P (f x (s\<lparr>st_ceremonies := k\<rparr>))"
  shows "P s \<longrightarrow> P s'"
  by (rule mutate_keeps [OF assms(1)]) (use assms(2,3) in \<open>simp_all add: silent_def writes_def\<close>)

lemma checked_keeps:
  assumes "mutatePanic sha ce guard effect c s = (r, s')" and "r \<noteq> Inl RuntimePanic"
    and "\<And>x s. auditSame (snd (effect x s)) s" and "\<And>x k. P s \<Longrightarrow> P (snd (effect x (s\<lparr>st_ceremonies := k\<rparr>)))"
  shows "P s \<longrightarrow> P s'"
  using mutatePanic_checked [OF assms(1,2)] assms(3,4) unfolding checked_def by (rule writes_keeps)

lemma foldl_keeps: "(\<And>s x. P s \<Longrightarrow> P (f s x)) \<Longrightarrow> P s \<Longrightarrow> P (foldl f s xs)"
  by (induction xs arbitrary: s) simp_all

end

section \<open>Records under their identifiers\<close>

definition keyed :: "('v \<Rightarrow> 'k) \<Rightarrow> ('k, 'v) dict \<Rightarrow> bool" where
  "keyed f d \<longleftrightarrow> (\<forall>k v. lookup d k = Some v \<longrightarrow> f v = k)"

lemma keyed_Nil [simp]: "keyed f []"
  by (simp add: keyed_def)

lemma keyedD: "keyed f d \<Longrightarrow> lookup d k = Some v \<Longrightarrow> f v = k"
  by (simp add: keyed_def)

lemma keyed_put: "keyed f d \<Longrightarrow> f v = k \<Longrightarrow> keyed f (put k v d)"
  by (simp add: keyed_def)

lemma keyed_del: "keyed f d \<Longrightarrow> keyed f (del k d)"
  by (simp add: keyed_def)

lemma keyed_mapv: "keyed f d \<Longrightarrow> (\<And>k v. f (g k v) = f v) \<Longrightarrow> keyed f (mapv g d)"
  by (auto simp: keyed_def)

definition recordsKeyed :: "store \<Rightarrow> bool" where
  "recordsKeyed s \<longleftrightarrow> keyed ses_ID (st_sessions s) \<and> keyed pat_ID (st_pats s) \<and> keyed wsp_ID (st_workspaces s)
   \<and> keyed dom_ID (st_domains s) \<and> keyed inv_ID (st_invitations s) \<and> keyed sso_ID (st_ssoIdentities s)
   \<and> keyed ogr_ID (st_oauthGrants s) \<and> keyed oco_ID (st_oauthCodes s) \<and> keyed oat_ID (st_oauthAccessTokens s)
   \<and> keyed ort_ID (st_oauthRefreshTokens s)"

lemma recordsKeyed_New: "recordsKeyed New"
  by (simp add: recordsKeyed_def New_def)

interpretation keys: kept recordsKeyed
  by unfold_locales (simp_all add: recordsKeyed_def commitAudit_def Let_def)

lemmas keyed_rules = keyed_put keyed_del keyed_mapv

section \<open>The methods that are not plain writes\<close>

lemma keys_revoke: "recordsKeyed s \<Longrightarrow> recordsKeyed (revokeUserCredentialsLocked u w t s)"
  by (auto simp: recordsKeyed_def revokeUserCredentialsLocked_def intro!: keyed_mapv)

lemma keys_revokeSessions: "recordsKeyed s \<Longrightarrow> recordsKeyed (revokeUserSessionsLocked u t s)"
  by (auto simp: recordsKeyed_def revokeUserSessionsLocked_def intro!: keyed_mapv)

lemma keys_revokeOAuthGrantLocked: "recordsKeyed s \<Longrightarrow> recordsKeyed (revokeOAuthGrantLocked i t s)"
  by (auto simp: recordsKeyed_def revokeOAuthGrantLocked_def intro!: keyed_mapv keyed_put dest: keyedD split: option.split)

lemma keys_revokeGrantsWhere: "recordsKeyed s \<Longrightarrow> recordsKeyed (revokeGrantsWhere P t s)"
  unfolding revokeGrantsWhere_def
  by (erule keys.foldl_keeps [rotated]) (simp add: keys_revokeOAuthGrantLocked split: prod.split)

lemma keys_putMember [simp]: "recordsKeyed (putMember w u m s) \<longleftrightarrow> recordsKeyed s"
  by (simp add: recordsKeyed_def putMember_def)

lemma keys_setMembers: "recordsKeyed s \<Longrightarrow> recordsKeyed (snd (setMembers ms s))"
  by (induction ms arbitrary: s) simp_all

lemma keys_upsertMembers: "recordsKeyed s \<Longrightarrow> recordsKeyed (upsertMembers ms s)"
  by (induction ms arbitrary: s) simp_all

lemma keys_anonymizeEmails:
  "foldl (anonymizeEmail u t) (x, s) es = (y, s') \<Longrightarrow> recordsKeyed s \<Longrightarrow> recordsKeyed s'"
proof (induction es arbitrary: x s)
  case (Cons e es)
  obtain x1 s1 where 1: "anonymizeEmail u t (x, s) e = (x1, s1)" by (cases "anonymizeEmail u t (x, s) e")
  with Cons.prems(2) have "recordsKeyed s1"
    by (auto simp: anonymizeEmail_def Let_def recordsKeyed_def split: prod.splits if_splits)
  with Cons 1 show ?case by simp
qed simp

lemma keys_anonymizeEffect:
  assumes "recordsKeyed s"
  shows "recordsKeyed (anonymizeEffect u t x s)"
proof -
  obtain x1 s1 where 1: "foldl (anonymizeEmail u t) (x\<lparr>usr_DisplayName := [], usr_Disabled := True, usr_UpdatedAt := t\<rparr>, s)
      (st_emailAddresses s) = (x1, s1)" (is "?f = _") by (cases ?f)
  have ok: "recordsKeyed s1" by (rule keys_anonymizeEmails [OF 1 assms])
  have link: "recordsKeyed a \<Longrightarrow> recordsKeyed (anonymizeLink u t a l)" for a l
    by (simp add: anonymizeLink_def putSCIMUserLocked_def deleteSCIMUserIndexesLocked_def recordsKeyed_def split: prod.splits)
  have links: "recordsKeyed a \<Longrightarrow> recordsKeyed (foldl (anonymizeLink u t) a ls)" for a ls
    by (rule keys.foldl_keeps) (auto intro: link)
  have tail: "recordsKeyed a \<Longrightarrow> recordsKeyed (a\<lparr>st_invitations := mapv (\<lambda>i x. if inv_AcceptedUserID x = u
      then x\<lparr>inv_Email := anonymizedAddress i\<rparr> else x) (st_invitations a), st_totp := p, st_recovery := q, st_passkeys := z\<rparr>)" for a p q z
    by (auto simp: recordsKeyed_def intro!: keyed_mapv)
  show ?thesis
    unfolding anonymizeEffect_def 1 Let_def prod.case
    by (rule keys_revokeSessions, rule keys_revoke, rule tail, rule links)
      (use ok in \<open>auto simp: recordsKeyed_def intro!: keyed_mapv\<close>)
qed

lemma keys_factors:
  "RecordLoginFailure sha ce u t n l c s = (r, s') \<Longrightarrow> recordsKeyed s \<longrightarrow> recordsKeyed s'"
  "UseTOTP sha ce u n c s = (q, s') \<Longrightarrow> recordsKeyed s \<longrightarrow> recordsKeyed s'"
  "ConsumeRecoveryCode sha ce u d t c s = (q, s') \<Longrightarrow> recordsKeyed s \<longrightarrow> recordsKeyed s'"
proof -
  have 1: "useTOTPFresh sha ce u n c s = (q, s') \<Longrightarrow> recordsKeyed s \<longrightarrow> recordsKeyed s'"
    unfolding useTOTPFresh_def by (erule keys.mutate_keeps) (simp_all add: silent_def recordsKeyed_def effect_defs)
  have 2: "consumeRecoveryFound sha ce u d t c s = (q, s') \<Longrightarrow> recordsKeyed s \<longrightarrow> recordsKeyed s'"
    unfolding consumeRecoveryFound_def by (erule keys.mutate_keeps) (simp_all add: silent_def recordsKeyed_def effect_defs)
  show "RecordLoginFailure sha ce u t n l c s = (r, s') \<Longrightarrow> recordsKeyed s \<longrightarrow> recordsKeyed s'"
    unfolding RecordLoginFailure_def by (erule keys.mutate_keeps) (simp_all add: silent_def recordsKeyed_def effect_defs)
  show "UseTOTP sha ce u n c s = (q, s') \<Longrightarrow> recordsKeyed s \<longrightarrow> recordsKeyed s'"
    using 1 by (auto simp: UseTOTP_def split: if_splits)
  show "ConsumeRecoveryCode sha ce u d t c s = (q, s') \<Longrightarrow> recordsKeyed s \<longrightarrow> recordsKeyed s'"
    using 2 by (auto simp: ConsumeRecoveryCode_def split: if_splits)
qed

lemma keys_users:
  "storeSetWorkspaceDisabled sha ce w b t c s = (r, s') \<Longrightarrow> recordsKeyed s \<longrightarrow> recordsKeyed s'"
  "storeAnonymizeUser sha ce u t c s = (r, s') \<Longrightarrow> recordsKeyed s \<longrightarrow> recordsKeyed s'"
  "storeUpdateSCIMConfiguration sha ce x ms c s = (r, s') \<Longrightarrow> recordsKeyed s \<longrightarrow> recordsKeyed s'"
proof -
  have members: "recordsKeyed a \<Longrightarrow> recordsKeyed (if b then foldl (\<lambda>s (u, _). revokeUserCredentialsLocked u w t s) a ms else a)"
    for a and ms :: "(uuid \<times> membership) list"
    by (cases b) (auto intro!: keys.foldl_keeps keys_revoke)
  show "storeSetWorkspaceDisabled sha ce w b t c s = (r, s') \<Longrightarrow> recordsKeyed s \<longrightarrow> recordsKeyed s'"
    unfolding storeSetWorkspaceDisabled_def
    by (erule keys.writes_keeps, rule setWorkspaceDisabled_silent, unfold Let_def, rule members)
      (auto simp: recordsKeyed_def intro!: keyed_put dest: keyedD split: option.splits)
  show "storeAnonymizeUser sha ce u t c s = (r, s') \<Longrightarrow> recordsKeyed s \<longrightarrow> recordsKeyed s'"
    unfolding storeAnonymizeUser_def
    by (erule keys.writes_keeps, rule anonymizeEffect_silent, rule keys_anonymizeEffect) (simp add: keys.bookkeeping)
  show "storeUpdateSCIMConfiguration sha ce x ms c s = (r, s') \<Longrightarrow> recordsKeyed s \<longrightarrow> recordsKeyed s'"
    unfolding storeUpdateSCIMConfiguration_def
    by (erule keys.writes_keeps, rule auditSame_trans [OF upsertMembers_silent], simp add: effect_defs,
      rule keys_upsertMembers) (simp add: recordsKeyed_def)
qed

lemma keys_scim:
  "storeUpdateSCIMUser sha ce x m b c s = (r, s') \<Longrightarrow> r \<noteq> Inl RuntimePanic \<Longrightarrow> recordsKeyed s \<longrightarrow> recordsKeyed s'"
  "UpsertSCIMGroup sha ce y ms c s = (r, s') \<Longrightarrow> r \<noteq> Inl RuntimePanic \<Longrightarrow> recordsKeyed s \<longrightarrow> recordsKeyed s'"
  "storeDeleteSCIMGroup sha ce y ms c s = (r, s') \<Longrightarrow> r \<noteq> Inl RuntimePanic \<Longrightarrow> recordsKeyed s \<longrightarrow> recordsKeyed s'"
  unfolding storeUpdateSCIMUser_def UpsertSCIMGroup_def storeDeleteSCIMGroup_def
proof (erule (1) keys.checked_keeps [OF _ _ update_scim_user_silent])
  fix y k
  assume "recordsKeyed s"
  then have "recordsKeyed (putSCIMUserLocked x (deleteSCIMUserIndexesLocked y (s\<lparr>st_ceremonies := k\<rparr>)))"
    by (simp add: recordsKeyed_def effect_defs)
  then have "recordsKeyed (snd (setMembers [m] (putSCIMUserLocked x (deleteSCIMUserIndexesLocked y (s\<lparr>st_ceremonies := k\<rparr>)))))"
    by (rule keys_setMembers)
  then show "recordsKeyed (snd (updateSCIMUserEffect x m b y (s\<lparr>st_ceremonies := k\<rparr>)))"
    unfolding updateSCIMUserEffect_def by (auto split: prod.split simp: recordsKeyed_def intro!: keyed_mapv)
next
  show "mutatePanic sha ce (upsertSCIMGroupGuard y) (upsertSCIMGroupEffect y ms) c s = (r, s') \<Longrightarrow> r \<noteq> Inl RuntimePanic
    \<Longrightarrow> recordsKeyed s \<longrightarrow> recordsKeyed s'"
    by (erule (1) keys.checked_keeps [OF _ _ upsert_scim_group_silent], unfold upsertSCIMGroupEffect_def Let_def,
      rule keys_setMembers) (simp add: recordsKeyed_def effect_defs split: option.split)
  show "mutatePanic sha ce (deleteSCIMGroupGuard y) (deleteSCIMGroupEffect y ms) c s = (r, s') \<Longrightarrow> r \<noteq> Inl RuntimePanic
    \<Longrightarrow> recordsKeyed s \<longrightarrow> recordsKeyed s'"
    by (erule (1) keys.checked_keeps [OF _ _ delete_scim_group_silent], unfold deleteSCIMGroupEffect_def,
      rule keys_setMembers) (simp add: recordsKeyed_def effect_defs)
qed

lemma keys_disabling:
  "storeSetOAuthIssuerDisabled sha ce i b t c s = (r, s') \<Longrightarrow> recordsKeyed s \<longrightarrow> recordsKeyed s'"
  "storeSetOAuthProtectedResourceDisabled sha ce i b t c s = (r, s') \<Longrightarrow> recordsKeyed s \<longrightarrow> recordsKeyed s'"
  "storeSetOAuthClientDisabled sha ce i b t c s = (r, s') \<Longrightarrow> recordsKeyed s \<longrightarrow> recordsKeyed s'"
  "storeRevokeOAuthGrant sha ce i t c s = (r, s') \<Longrightarrow> recordsKeyed s \<longrightarrow> recordsKeyed s'"
proof -
  have rev: "recordsKeyed a \<Longrightarrow> recordsKeyed (if b then revokeGrantsWhere P t a else a)" for a P
    by (simp add: keys_revokeGrantsWhere)
  show "storeSetOAuthIssuerDisabled sha ce i b t c s = (r, s') \<Longrightarrow> recordsKeyed s \<longrightarrow> recordsKeyed s'"
    unfolding storeSetOAuthIssuerDisabled_def Let_def
    by (erule keys.writes_keeps, simp add: effect_defs revoke_frames, rule rev) (simp add: recordsKeyed_def)
  show "storeSetOAuthProtectedResourceDisabled sha ce i b t c s = (r, s') \<Longrightarrow> recordsKeyed s \<longrightarrow> recordsKeyed s'"
    unfolding storeSetOAuthProtectedResourceDisabled_def Let_def
    by (erule keys.writes_keeps, simp add: effect_defs revoke_frames, rule rev) (simp add: recordsKeyed_def)
  show "storeSetOAuthClientDisabled sha ce i b t c s = (r, s') \<Longrightarrow> recordsKeyed s \<longrightarrow> recordsKeyed s'"
    unfolding storeSetOAuthClientDisabled_def Let_def
    by (erule keys.writes_keeps, simp add: effect_defs revoke_frames, rule rev) (simp add: recordsKeyed_def)
  show "storeRevokeOAuthGrant sha ce i t c s = (r, s') \<Longrightarrow> recordsKeyed s \<longrightarrow> recordsKeyed s'"
    unfolding storeRevokeOAuthGrant_def
    by (erule keys.writes_keeps, rule revokeOAuthGrantLocked_silent, rule keys_revokeOAuthGrantLocked) (simp add: keys.bookkeeping)
qed

lemma keys_tokens:
  "ConsumeOAuthAuthorizationCode sha ce i t a f c s = (r, s') \<Longrightarrow> recordsKeyed s \<longrightarrow> recordsKeyed s'"
  "RotateOAuthRefreshToken sha ce i t a g c s = (r, s') \<Longrightarrow> recordsKeyed s \<longrightarrow> recordsKeyed s'"
  "CreateOAuthClient sha ce x j t c s = (r, s') \<Longrightarrow> recordsKeyed s \<longrightarrow> recordsKeyed s'"
  unfolding ConsumeOAuthAuthorizationCode_def RotateOAuthRefreshToken_def CreateOAuthClient_def Let_def
  subgoal
    by (erule keys.writes_keeps, simp add: effect_defs split: option.split)
      (auto simp: recordsKeyed_def effect_defs intro!: keyed_put split: option.split dest!: consume_guardD(1) dest: keyedD)
  subgoal
    by (erule keys.writes_keeps, simp add: effect_defs)
      (auto simp: recordsKeyed_def effect_defs intro!: keyed_put dest!: rotate_guardD(1) dest: keyedD)
  subgoal
    by (erule keys.writes_keeps, simp add: effect_defs split: option.split)
      (auto simp: recordsKeyed_def effect_defs split: option.splits)
  done

section \<open>Every call and every run\<close>

lemmas keys_special = keys_factors keys_users keys_disabling keys_tokens

lemma atomicCall_keys: "atomicCall sha c s out s' \<Longrightarrow> recordsKeyed s \<longrightarrow> recordsKeyed s'"
  apply (induction rule: atomicCall.induct)
  unfolding call_defs
  by ((erule keys_special | erule (1) keys_scim | (erule keys.writes_keeps,
    (simp add: effect_defs split: option.split prod.split; fail),
    (auto simp: recordsKeyed_def effect_defs require_def intro!: keyed_put keyed_del keyed_mapv dest: keyedD
      split: option.splits if_splits prod.splits; fail)))+)

lemma storeCall_keys: "storeCall sha c s out s' \<Longrightarrow> recordsKeyed s \<longrightarrow> recordsKeyed s'"
proof (induction rule: storeCall.induct)
  case (call_create_workspace_domain ce x t s r s')
  have "recordsKeyed s \<longrightarrow> recordsKeyed s'" if "insertDomain sha None x c s = (r, s')" for s
    using that unfolding insertDomain_def
    by (rule keys.writes_keeps) (auto simp: effect_defs recordsKeyed_def intro!: keyed_put)
  moreover have "recordsKeyed s \<longrightarrow> recordsKeyed (withoutHolder x s)"
    by (auto simp: withoutHolder_def recordsKeyed_def intro!: keyed_del split: option.split)
  ultimately show ?case using CreateWorkspaceDomain_cases [OF call_create_workspace_domain] by blast
qed (rule atomicCall_keys)

lemma storeStep_keys: "storeStep sha ok s s' \<Longrightarrow> recordsKeyed s \<longrightarrow> recordsKeyed s'"
proof (induction rule: storeStep.induct)
  case (issuance ce a p t n s r s')
  with issuance_frame [OF issuance] show ?case by (auto simp: recordsKeyed_def)
next
  case (failure s e)
  then show ?case by (simp add: SetAuditFailure_def recordsKeyed_def)
qed (rule storeCall_keys)

lemma storeRun_keys: "storeRun sha ok s s' \<Longrightarrow> recordsKeyed s \<Longrightarrow> recordsKeyed s'"
  by (induction rule: storeRun_induct) (use storeStep_keys in blast)+



end
