(* ===== verification/OAuthPolicy.thy ===== *)
theory OAuthPolicy
  imports ManagerPrivacy
begin

text \<open>
  The rules of \<^verbatim>\<open>oauth.go\<close> on what an administrator or a client may ask for: URLs, origins and redirect
  URIs, grant and response types, scopes, PKCE, and the policy of an issuer. \<^verbatim>\<open>net/url\<close>, IP syntax and
  the JSON codec are the fields of a record of the standard library; \<^verbatim>\<open>path.Clean\<close> and
  \<^verbatim>\<open>url.PathUnescape\<close> are defined. The iteration order of a Go map is a field, too: which key of a
  map comes first, from call to call.
\<close>

section \<open>Configuration\<close>

text \<open>What \<^verbatim>\<open>oauth.go\<close> reads of a parsed URL.\<close>

record parsedURL =
  url_Scheme :: string
  url_Host :: string
  url_HasUser :: bool
  url_Fragment :: string
  url_Path :: string
  url_EscapedPath :: string
  url_RawQuery :: string
  url_Hostname :: string
  url_String :: string

record oauthClientMetadata =
  ocm_ClientID :: string
  ocm_Name :: string
  ocm_ApplicationType :: string
  ocm_AuthMethod :: string
  ocm_JWKSURI :: string
  ocm_SectorIdentifier :: string
  ocm_RedirectURIs :: "string list"
  ocm_GrantTypes :: "string list"
  ocm_ResponseTypes :: "string list"
  ocm_Scopes :: "string list"
  ocm_ClientCredentialsResources :: "string list"
  ocm_JWKS :: bytes

record oauthAuthorizationContinuation =
  oac_UserID :: uuid
  oac_ClientRecordID :: uuid
  oac_ResourceID :: uuid
  oac_RedirectURI :: string
  oac_Scopes :: "string list"
  oac_State :: string
  oac_CodeChallenge :: string
  oac_Nonce :: string
  oac_MetadataHash :: bytes
  oac_AuthTime :: time
  oac_AuthMethod :: authMethod
  oac_AAL :: assuranceLevel
  oac_MaxAge :: duration
  oac_ExpiresAt :: time

record oauthClientMetadataDocument =
  ocd_ClientID :: string
  ocd_ClientName :: string
  ocd_ApplicationType :: string
  ocd_RedirectURIs :: "string list"
  ocd_GrantTypes :: "string list"
  ocd_ResponseTypes :: "string list"
  ocd_Scope :: string
  ocd_TokenEndpointAuthMethod :: string
  ocd_JWKSURI :: string
  ocd_JWKS :: bytes
  ocd_FetchedAt :: time
  ocd_ExpiresAt :: time

record oidcClaims =
  oid_Issuer :: string
  oid_Subject :: string
  oid_Audience :: string
  oid_ExpiresAt :: int
  oid_IssuedAt :: int
  oid_AuthTime :: int
  oid_Nonce :: string
  oid_ACR :: string
  oid_AMR :: "authMethod list"
  oid_Email :: string
  oid_EmailVerified :: "bool option"

record oidcSigner =
  osg_SignIDToken :: "nat \<Rightarrow> oidcClaims \<Rightarrow> string result"
  osg_JWKS :: "nat \<Rightarrow> bytes result"
  osg_Algorithms :: "string list"

text \<open>
  \<^verbatim>\<open>Config.OAuth\<close>. A fetch, an assertion (whose identifier may be used once) and a signature may answer
  differently from call to call.
\<close>

record oauthConfig =
  oau_Pepper :: bytes
  oau_MetadataFetcher :: "(nat \<Rightarrow> string \<Rightarrow> oauthClientMetadataDocument result) option"
  oau_ClientAssertions :: "(nat \<Rightarrow> oauthClient \<Rightarrow> string \<Rightarrow> string \<Rightarrow> time \<Rightarrow> error option) option"
  oau_OIDCSigner :: "oidcSigner option"

record oauthLibrary =
  olb_Parse :: "string \<Rightarrow> parsedURL option"
  olb_ParseIP :: "string \<Rightarrow> bool option"
  olb_FirstKey :: "nat \<Rightarrow> string list \<Rightarrow> nat"
  olb_ValidJSON :: "bytes \<Rightarrow> bool"
  olb_MarshalMetadata :: "oauthClientMetadata \<Rightarrow> bytes"
  olb_MarshalContinuation :: "oauthAuthorizationContinuation \<Rightarrow> bytes option"
  olb_UnmarshalContinuation :: "bytes \<Rightarrow> oauthAuthorizationContinuation option"

record oauthModule =
  omd_config :: "oauthConfig option"
  omd_library :: oauthLibrary

definition OAuthCIMDDisabled :: string where "OAuthCIMDDisabled = ''disabled''"
definition OAuthCIMDAllowlist :: string where "OAuthCIMDAllowlist = ''allowlist''"
definition OAuthCIMDPublicWeb :: string where "OAuthCIMDPublicWeb = ''public_web''"
definition OAuthDCRDisabled :: string where "OAuthDCRDisabled = ''disabled''"
definition OAuthDCRProtected :: string where "OAuthDCRProtected = ''protected''"
definition OAuthClientPreRegistered :: string where "OAuthClientPreRegistered = ''pre_registered''"
definition OAuthClientCIMD :: string where "OAuthClientCIMD = ''cimd''"
definition OAuthApplicationWeb :: string where "OAuthApplicationWeb = ''web''"
definition OAuthApplicationNative :: string where "OAuthApplicationNative = ''native''"
definition OAuthAuthNone :: string where "OAuthAuthNone = ''none''"
definition OAuthAuthPrivateKeyJWT :: string where "OAuthAuthPrivateKeyJWT = ''private_key_jwt''"
definition OAuthAuthClientSecretBasic :: string where "OAuthAuthClientSecretBasic = ''client_secret_basic''"

section \<open>Strings and paths\<close>

definition alphanumeric :: "char \<Rightarrow> bool" where
  "alphanumeric c \<longleftrightarrow> CHR ''A'' \<le> c \<and> c \<le> CHR ''Z'' \<or> CHR ''a'' \<le> c \<and> c \<le> CHR ''z'' \<or> CHR ''0'' \<le> c \<and> c \<le> CHR ''9''"

definition oauthScopePattern :: "string \<Rightarrow> bool" where
  "oauthScopePattern s = (case s of [] \<Rightarrow> False | c # cs \<Rightarrow>
     alphanumeric c \<and> length cs \<le> 127 \<and> list_all (\<lambda>d. alphanumeric d \<or> d \<in> set ''._~+:/-'') cs)"

definition pkceVerifierPattern :: "string \<Rightarrow> bool" where
  "pkceVerifierPattern s \<longleftrightarrow> 43 \<le> length s \<and> length s \<le> 128 \<and> list_all (\<lambda>c. alphanumeric c \<or> c \<in> set ''._~-'') s"

definition TrimSuffix :: "string \<Rightarrow> string \<Rightarrow> string" where
  "TrimSuffix s suffix = (if suffix \<noteq> [] \<and> drop (length s - length suffix) s = suffix \<and> length suffix \<le> length s
     then take (length s - length suffix) s else s)"

fun Split :: "char \<Rightarrow> string \<Rightarrow> string list" where
  "Split sep [] = [[]]"
| "Split sep (c # cs) = (if c = sep then [] # Split sep cs else (c # hd (Split sep cs)) # tl (Split sep cs))"

fun Join :: "string list \<Rightarrow> string \<Rightarrow> string" where
  "Join [] sep = []"
| "Join [x] sep = x"
| "Join (x # y # ys) sep = x @ sep @ Join (y # ys) sep"

fun fieldsFrom :: "string \<Rightarrow> string \<Rightarrow> string list" where
  "fieldsFrom cur [] = (if cur = [] then [] else [cur])"
| "fieldsFrom cur (c # cs) = (if isSpace c then (if cur = [] then fieldsFrom [] cs else cur # fieldsFrom [] cs)
     else fieldsFrom (cur @ [c]) cs)"

definition Fields :: "string \<Rightarrow> string list" where
  "Fields s = fieldsFrom [] s"

fun PathUnescape :: "string \<Rightarrow> string option" where
  "PathUnescape [] = Some []"
| "PathUnescape (c # cs) = (if c \<noteq> CHR ''%'' then map_option ((#) c) (PathUnescape cs)
     else case cs of
         x # y # rest \<Rightarrow> (case (hexVal x, hexVal y) of
             (Some a, Some b) \<Rightarrow> map_option ((#) (char_of (16 * a + b))) (PathUnescape rest)
           | _ \<Rightarrow> None)
       | _ \<Rightarrow> None)"

text \<open>\<^verbatim>\<open>path.Clean\<close>: the segments that remain, last one first.\<close>

fun cleanSegments :: "bool \<Rightarrow> string list \<Rightarrow> string list \<Rightarrow> string list" where
  "cleanSegments rooted out [] = rev out"
| "cleanSegments rooted out (segment # segments) =
    (if segment = [] \<or> segment = ''.'' then cleanSegments rooted out segments
     else if segment = ''..''
       then (case out of
           [] \<Rightarrow> cleanSegments rooted (if rooted then [] else [''..'']) segments
         | parent # rest \<Rightarrow> cleanSegments rooted (if parent = ''..'' then ''..'' # out else rest) segments)
     else cleanSegments rooted (segment # out) segments)"

definition Clean :: "string \<Rightarrow> string" where
  "Clean p = (if p = [] then ''.''
     else let rooted = (hd p = CHR ''/''); cleaned = Join (cleanSegments rooted [] (Split CHR ''/'' p)) ''/''
       in if rooted then CHR ''/'' # cleaned else if cleaned = [] then ''.'' else cleaned)"

section \<open>URLs\<close>

definition validatePublicHTTPSURL :: "oauthLibrary \<Rightarrow> string \<Rightarrow> bool \<Rightarrow> parsedURL result" where
  "validatePublicHTTPSURL lib raw requirePath =
    (if raw = [] \<or> raw \<noteq> TrimSpace raw \<or> length raw > 2048 then Inl ErrInvalidInput
     else case olb_Parse lib raw of
         None \<Rightarrow> Inl ErrInvalidInput
       | Some value \<Rightarrow>
           if url_Scheme value \<noteq> ''https'' \<or> url_Host value = [] \<or> url_HasUser value \<or> url_Fragment value \<noteq> []
           then Inl ErrInvalidInput
           else if requirePath \<and> (url_EscapedPath value = [] \<or> url_EscapedPath value = ''/'') then Inl ErrInvalidInput
           else Inr value)"

definition validateIssuerURL :: "oauthLibrary \<Rightarrow> string \<Rightarrow> string result" where
  "validateIssuerURL lib raw = (case validatePublicHTTPSURL lib raw False of
     Inl _ \<Rightarrow> Inl ErrInvalidInput
   | Inr value \<Rightarrow> if url_RawQuery value \<noteq> [] then Inl ErrInvalidInput else Inr (TrimSuffix (url_String value) ''/''))"

definition validateResourceURL :: "oauthLibrary \<Rightarrow> string \<Rightarrow> string result" where
  "validateResourceURL lib raw = (case validatePublicHTTPSURL lib raw False of
     Inl _ \<Rightarrow> Inl ErrInvalidInput
   | Inr value \<Rightarrow> if url_RawQuery value \<noteq> [] then Inl ErrInvalidInput else Inr (url_String value))"

fun collectResources :: "oauthLibrary \<Rightarrow> string list \<Rightarrow> string list \<Rightarrow> string list result" where
  "collectResources lib [] result = Inr (sort result)"
| "collectResources lib (entry # raw) result = (case validateResourceURL lib entry of
     Inl _ \<Rightarrow> Inl ErrInvalidInput
   | Inr value \<Rightarrow> collectResources lib raw (if value \<in> set result then result else result @ [value]))"

definition normalizeClientCredentialsResources :: "oauthLibrary \<Rightarrow> string list \<Rightarrow> string list result" where
  "normalizeClientCredentialsResources lib raw =
    (if length raw > 32 then Inl ErrInvalidInput else collectResources lib raw [])"

definition plainSegment :: "string \<Rightarrow> bool" where
  "plainSegment segment = (case PathUnescape segment of
     None \<Rightarrow> False
   | Some decoded \<Rightarrow> decoded \<noteq> ''.'' \<and> decoded \<noteq> ''..'' \<and> CHR ''/'' \<notin> set decoded \<and> CHR 0x5C \<notin> set decoded)"

definition validateCIMDClientID :: "oauthLibrary \<Rightarrow> string \<Rightarrow> parsedURL result" where
  "validateCIMDClientID lib raw = (case validatePublicHTTPSURL lib raw True of
     Inl _ \<Rightarrow> Inl ErrInvalidInput
   | Inr value \<Rightarrow>
       if url_RawQuery value \<noteq> [] then Inl ErrInvalidInput
       else if \<not> list_all plainSegment (Split CHR ''/'' (url_EscapedPath value)) then Inl ErrInvalidInput
       else if Clean (url_EscapedPath value) \<noteq> url_EscapedPath value then Inl ErrInvalidInput
       else Inr value)"

definition normalizeHTTPSOrigin :: "oauthLibrary \<Rightarrow> string \<Rightarrow> string result" where
  "normalizeHTTPSOrigin lib raw = (case validatePublicHTTPSURL lib (TrimSuffix (TrimSpace raw) ''/'') False of
     Inl _ \<Rightarrow> Inl ErrInvalidInput
   | Inr value \<Rightarrow> if url_Path value \<noteq> [] \<or> url_RawQuery value \<noteq> [] then Inl ErrInvalidInput
       else Inr (''https://'' @ ToLower (url_Host value)))"

definition issuerAllowsCIMD :: "oauthIssuer \<Rightarrow> parsedURL \<Rightarrow> bool" where
  "issuerAllowsCIMD issuer clientURL =
    (if ois_CIMDMode issuer = OAuthCIMDDisabled then False
     else if ois_CIMDMode issuer = OAuthCIMDPublicWeb then True
     else ''https://'' @ ToLower (url_Host clientURL) \<in> set (ois_CIMDAllowedOrigins issuer))"

definition isLocalhostName :: "string \<Rightarrow> bool" where
  "isLocalhostName host = EqualFold host ''localhost''"

definition isLoopbackRedirectHost :: "oauthLibrary \<Rightarrow> string \<Rightarrow> bool" where
  "isLoopbackRedirectHost lib host \<longleftrightarrow> isLocalhostName host \<or> olb_ParseIP lib host = Some True"

definition validRedirectURI :: "oauthLibrary \<Rightarrow> string \<Rightarrow> string \<Rightarrow> bool" where
  "validRedirectURI lib applicationType raw =
    (if raw = [] \<or> raw \<noteq> TrimSpace raw \<or> length raw > 2048 then False
     else case olb_Parse lib raw of
         None \<Rightarrow> False
       | Some value \<Rightarrow>
           if url_Host value = [] \<or> url_HasUser value \<or> url_Fragment value \<noteq> [] then False
           else if applicationType = OAuthApplicationWeb then url_Scheme value = ''https''
           else url_Scheme value = ''https'' \<or> url_Scheme value = ''http'' \<and> isLoopbackRedirectHost lib (url_Hostname value))"

definition normalizeRedirectURIs :: "oauthLibrary \<Rightarrow> string \<Rightarrow> string list \<Rightarrow> string list result" where
  "normalizeRedirectURIs lib applicationType input =
    (if input = [] \<or> length input > 20 then Inl ErrInvalidInput
     else if \<not> list_all (validRedirectURI lib applicationType) input then Inl ErrInvalidInput
     else let result = remdups_adj (sort input)
       in if length result \<noteq> length input then Inl ErrInvalidInput else Inr result)"

section \<open>Flows, scopes and PKCE\<close>

definition normalizeOAuthFlowMetadata :: "string list \<Rightarrow> string list \<Rightarrow> (string list \<times> string list) result" where
  "normalizeOAuthFlowMetadata grants0 responses0 =
    (let grants = remdups_adj (sort (if grants0 = [] then [''authorization_code''] else grants0));
         responses = remdups_adj (sort (if responses0 = [] then [''code''] else responses0))
     in if \<not> list_all (\<lambda>grant. grant = ''authorization_code'' \<or> grant = ''refresh_token'' \<or> grant = ''client_credentials'') grants
        then Inl ErrInvalidInput
        else if ''authorization_code'' \<notin> set grants \<and> ''client_credentials'' \<notin> set grants then Inl ErrInvalidInput
        else if ''authorization_code'' \<in> set grants \<and> (length responses \<noteq> 1 \<or> hd responses \<noteq> ''code'') then Inl ErrInvalidInput
        else Inr (grants, responses))"

definition normalizeOptionalOAuthScopes :: "string list \<Rightarrow> string list result" where
  "normalizeOptionalOAuthScopes scopes =
    (if length scopes > 100 then Inl ErrInvalidInput
     else let result = map TrimSpace scopes
       in if \<not> list_all oauthScopePattern result then Inl ErrInvalidInput else Inr (remdups_adj (sort result)))"

definition oauthReservedScope :: "string \<Rightarrow> bool" where
  "oauthReservedScope scope \<longleftrightarrow> scope = ''openid'' \<or> scope = ''profile'' \<or> scope = ''email'' \<or> scope = ''offline_access''"

definition oauthReservedScopeDescription :: "string \<Rightarrow> string" where
  "oauthReservedScopeDescription scope =
    (if scope = ''openid'' then ''Identify the signed-in user''
     else if scope = ''profile'' then ''Read the user'' @ [CHR 0x27] @ ''s basic profile''
     else if scope = ''email'' then ''Read the user'' @ [CHR 0x27] @ ''s primary email address''
     else if scope = ''offline_access'' then ''Keep access when the user is not present''
     else scope)"

fun oauthScopeDefinition :: "oauthScopeDefinition list \<Rightarrow> string \<Rightarrow> oauthScopeDefinition option" where
  "oauthScopeDefinition [] name = None"
| "oauthScopeDefinition (defn # definitions) name =
    (if osd_Name defn = name then Some defn else oauthScopeDefinition definitions name)"

fun collectDefinitions :: "roleCatalog \<Rightarrow> oauthScopeDefinition list \<Rightarrow> oauthScopeDefinition list
    \<Rightarrow> oauthScopeDefinition list result" where
  "collectDefinitions catalog [] result = Inr (sort_key osd_Name result)"
| "collectDefinitions catalog (definition0 # input) result =
    (let name = TrimSpace (osd_Name definition0); description = TrimSpace (osd_Description definition0);
         level = (if osd_MinimumAAL definition0 = 0 then AAL1 else osd_MinimumAAL definition0);
         permissions = uniqueWorkspacePermissions (osd_Permissions definition0)
     in if \<not> oauthScopePattern name \<or> oauthReservedScope name \<or> description = [] \<or> length description > 500
        then Inl ErrInvalidInput
        else if name \<in> set (map osd_Name result) then Inl ErrInvalidInput
        else if level \<noteq> AAL1 \<and> level \<noteq> AAL2 \<or> osd_MaxAuthAge definition0 < 0 then Inl ErrInvalidInput
        else if permissions = [] then Inl ErrInvalidInput
        else if \<not> list_all (\<lambda>permission. permission \<in> cat_permissions catalog) permissions then Inl ErrInvalidInput
        else collectDefinitions catalog input (result @ [definition0\<lparr>osd_Name := name, osd_Description := description,
          osd_MinimumAAL := level, osd_Permissions := permissions\<rparr>]))"

definition normalizeOAuthScopeDefinitions :: "manager \<Rightarrow> oauthScopeDefinition list \<Rightarrow> oauthScopeDefinition list result" where
  "normalizeOAuthScopeDefinitions m input =
    (if input = [] \<or> length input > 100 then Inl ErrInvalidInput else collectDefinitions (m_workspaceRoles m) input [])"

definition oauthClientMetadataHash :: "manager \<Rightarrow> oauthModule \<Rightarrow> oauthClient \<Rightarrow> bytes" where
  "oauthClientMetadataHash m srv client = m_sha m (olb_MarshalMetadata (omd_library srv)
    \<lparr>ocm_ClientID = ocl_ClientID client, ocm_Name = ocl_Name client, ocm_ApplicationType = ocl_ApplicationType client,
     ocm_AuthMethod = ocl_TokenEndpointAuthMethod client, ocm_JWKSURI = ocl_JWKSURI client,
     ocm_SectorIdentifier = ocl_SectorIdentifier client, ocm_RedirectURIs = ocl_RedirectURIs client,
     ocm_GrantTypes = ocl_GrantTypes client, ocm_ResponseTypes = ocl_ResponseTypes client, ocm_Scopes = ocl_Scopes client,
     ocm_ClientCredentialsResources = ocl_ClientCredentialsResources client, ocm_JWKS = ocl_JWKS client\<rparr>)"

text \<open>The hosts of the redirect URIs, each once, in the order in which they are put into the map.\<close>

fun redirectSectors :: "oauthLibrary \<Rightarrow> bool \<Rightarrow> string list \<Rightarrow> string list \<Rightarrow> string list result" where
  "redirectSectors lib oidc [] sectors = Inr sectors"
| "redirectSectors lib oidc (raw # redirects) sectors = (case olb_Parse lib raw of
     None \<Rightarrow> Inl ErrInvalidInput
   | Some parsed \<Rightarrow> (let sector = ToLower (url_Hostname parsed)
       in if sector = [] then (if oidc then Inl ErrInvalidInput else redirectSectors lib oidc redirects sectors)
          else redirectSectors lib oidc redirects (if sector \<in> set sectors then sectors else sectors @ [sector])))"

definition oauthSectorIdentifier :: "oauthLibrary \<Rightarrow> nat \<Rightarrow> string list \<Rightarrow> bool \<Rightarrow> string result" where
  "oauthSectorIdentifier lib n redirects oidc = (case redirectSectors lib oidc redirects [] of
     Inl err \<Rightarrow> Inl err
   | Inr sectors \<Rightarrow>
       if oidc \<and> length sectors \<noteq> 1 then Inl ErrInvalidInput
       else if sectors = [] then Inr [] else Inr (sectors ! (olb_FirstKey lib n sectors mod length sectors)))"

definition validPKCEChallenge :: "string \<Rightarrow> bool" where
  "validPKCEChallenge challenge = (case b64Decode challenge of
     None \<Rightarrow> False
   | Some decoded \<Rightarrow> length decoded = 32 \<and> length challenge = 43)"

definition verifyPKCE :: "hashFn \<Rightarrow> string \<Rightarrow> string \<Rightarrow> bool" where
  "verifyPKCE sha verifier expected \<longleftrightarrow> b64Encode (sha (toBytes verifier)) = expected"

definition freshAuthentication :: "time \<Rightarrow> time \<Rightarrow> duration \<Rightarrow> bool" where
  "freshAuthentication t authenticatedAt maxAge = (let age = timeSub t authenticatedAt in age \<ge> 0 \<and> age \<le> maxAge)"

definition scopesSubset :: "string list \<Rightarrow> string list \<Rightarrow> bool" where
  "scopesSubset requested available = list_all (\<lambda>scope. scope \<in> set available) requested"

definition parseOAuthBearer :: "string \<Rightarrow> string \<Rightarrow> string option" where
  "parseOAuthBearer marker raw =
    (case SplitN CHR ''_'' 3 raw of
       [p0, p1, p2] \<Rightarrow>
         if p0 \<noteq> marker \<or> length p1 \<noteq> 12 \<or> length p2 \<noteq> 43 then None
         else if hexDecode p1 = None then None
         else (case b64Decode p2 of
             None \<Rightarrow> None
           | Some secret \<Rightarrow> if length secret \<noteq> 32 then None else Some p1)
     | _ \<Rightarrow> None)"

section \<open>The policy of an issuer\<close>

record updateOAuthIssuerInput =
  uoi_OIDCEnabled :: bool
  uoi_CIMDMode :: string
  uoi_CIMDAllowedOrigins :: "string list"
  uoi_DCRMode :: string
  uoi_DCRAllowClientSecrets :: bool
  uoi_DCROpenRegistrationLimit :: int
  uoi_CodeTTL :: duration
  uoi_AccessTokenTTL :: duration
  uoi_RefreshTokenTTL :: duration

definition defaultOAuthCodeTTL :: duration where "defaultOAuthCodeTTL = 5 * minute"
definition defaultOAuthAccessTokenTTL :: duration where "defaultOAuthAccessTokenTTL = 15 * minute"
definition defaultOAuthRefreshTTL :: duration where "defaultOAuthRefreshTTL = 30 * 24 * hour"
definition maxOAuthCodeTTL :: duration where "maxOAuthCodeTTL = 10 * minute"
definition maxOAuthAccessTokenTTL :: duration where "maxOAuthAccessTokenTTL = hour"
definition maxOAuthRefreshTTL :: duration where "maxOAuthRefreshTTL = 90 * 24 * hour"

fun normalizeOrigins :: "oauthLibrary \<Rightarrow> string list \<Rightarrow> string list \<Rightarrow> string list result" where
  "normalizeOrigins lib [] origins = Inr (remdups_adj (sort origins))"
| "normalizeOrigins lib (raw # input) origins = (case normalizeHTTPSOrigin lib raw of
     Inl err \<Rightarrow> Inl err
   | Inr origin \<Rightarrow> normalizeOrigins lib input (origins @ [origin]))"

definition signsWell :: "oauthConfig \<Rightarrow> bool" where
  "signsWell c = (case oau_OIDCSigner c of
     None \<Rightarrow> False
   | Some signer \<Rightarrow> osg_Algorithms signer \<noteq> [] \<and> list_all (\<lambda>algorithm. algorithm \<noteq> [] \<and> algorithm \<noteq> ''none'') (osg_Algorithms signer))"

definition normalizeOAuthIssuerPolicy :: "oauthLibrary \<Rightarrow> oauthConfig \<Rightarrow> updateOAuthIssuerInput \<Rightarrow> updateOAuthIssuerInput result" where
  "normalizeOAuthIssuerPolicy lib c input =
    (let cimd = (if uoi_CIMDMode input = [] then OAuthCIMDDisabled else uoi_CIMDMode input);
         dcr = (if uoi_DCRMode input = [] then OAuthDCRDisabled else uoi_DCRMode input);
         limit = (if dcr = OAuthDCROpen \<and> uoi_DCROpenRegistrationLimit input = 0 then 1000 else uoi_DCROpenRegistrationLimit input);
         codeTTL = (if uoi_CodeTTL input = 0 then defaultOAuthCodeTTL else uoi_CodeTTL input);
         accessTTL = (if uoi_AccessTokenTTL input = 0 then defaultOAuthAccessTokenTTL else uoi_AccessTokenTTL input);
         refreshTTL = (if uoi_RefreshTokenTTL input = 0 then defaultOAuthRefreshTTL else uoi_RefreshTokenTTL input)
     in if cimd \<noteq> OAuthCIMDDisabled \<and> cimd \<noteq> OAuthCIMDAllowlist \<and> cimd \<noteq> OAuthCIMDPublicWeb then Inl ErrInvalidInput
        else if dcr \<noteq> OAuthDCRDisabled \<and> dcr \<noteq> OAuthDCRProtected \<and> dcr \<noteq> OAuthDCROpen then Inl ErrInvalidInput
        else if dcr \<noteq> OAuthDCRProtected \<and> uoi_DCRAllowClientSecrets input then Inl ErrInvalidInput
        else if (if dcr = OAuthDCROpen then limit < 1 \<or> limit > 100000 else limit \<noteq> 0) then Inl ErrInvalidInput
        else if uoi_OIDCEnabled input \<and> \<not> signsWell c then Inl ErrInvalidInput
        else case normalizeOrigins lib (uoi_CIMDAllowedOrigins input) [] of
            Inl err \<Rightarrow> Inl err
          | Inr origins \<Rightarrow>
              if cimd = OAuthCIMDAllowlist \<and> origins = [] then Inl ErrInvalidInput
              else if codeTTL \<le> 0 \<or> codeTTL > maxOAuthCodeTTL \<or> accessTTL \<le> 0 \<or> accessTTL > maxOAuthAccessTokenTTL
                \<or> refreshTTL \<le> 0 \<or> refreshTTL > maxOAuthRefreshTTL then Inl ErrInvalidInput
              else Inr (input\<lparr>uoi_CIMDMode := cimd, uoi_DCRMode := dcr, uoi_DCROpenRegistrationLimit := limit,
                uoi_CIMDAllowedOrigins := origins, uoi_CodeTTL := codeTTL, uoi_AccessTokenTTL := accessTTL,
                uoi_RefreshTokenTTL := refreshTTL\<rparr>))"

end
