(* ===== verification/ManagerOAuth.thy ===== *)
theory ManagerOAuth
  imports OAuthPolicy
begin

text \<open>
  The authorization server of \<^verbatim>\<open>oauth.go\<close> and \<^verbatim>\<open>oauth_events.go\<close>: issuers, protected resources, the
  registration and resolution of clients, and the two steps of an authorization. The module's configuration
  is an argument beside the Manager; \<^verbatim>\<open>requireOAuth\<close> answers it. The clone functions are the identity.
\<close>

section \<open>Shared steps\<close>

definition requireOAuth :: "manager \<Rightarrow> oauthModule \<Rightarrow> oauthConfig op" where
  "requireOAuth m srv = (case omd_config srv of
     None \<Rightarrow> fail ErrNotSupported
   | Some c \<Rightarrow> if m_oauthStore m then ret c else fail ErrNotSupported)"

text \<open>\<^verbatim>\<open>if err != nil { return e }\<close>, and \<^verbatim>\<open>if err != nil || bad(x) { return e }\<close>.\<close>

definition orError :: "error \<Rightarrow> 'a op \<Rightarrow> 'a op" where
  "orError e f = (bindE (tryE f) (\<lambda>r.
   (case r of Inr x \<Rightarrow> ret x | Inl _ \<Rightarrow> fail e)))"

definition screened :: "error \<Rightarrow> ('a \<Rightarrow> bool) \<Rightarrow> 'a op \<Rightarrow> 'a op" where
  "screened e bad f = (bindE (orError e f) (\<lambda>x.
   bindE (failIf (bad x) e) (\<lambda>_.
   ret x)))"

record oauthChange =
  och_EventMeta :: eventMeta
  och_IssuerID :: uuid
  och_ClientRecordID :: uuid
  och_ClientSource :: string
  och_GrantID :: uuid
  och_TokenID :: uuid
  och_ResourceID :: uuid
  och_Scopes :: "string list"

definition newOAuthChange :: "manager \<Rightarrow> eventName \<Rightarrow> string \<Rightarrow> auditEvent \<Rightarrow> oauthClient \<Rightarrow> uuid \<Rightarrow> uuid \<Rightarrow> uuid \<Rightarrow> uuid
    \<Rightarrow> string list \<Rightarrow> (oauthChange \<times> commit) op" where
  "newOAuthChange m name operation audit client grantID tokenID resourceID workspaceID scopes = (bindE (newEventMeta m name operation (aud_ActorID audit) workspaceID audit) (\<lambda>meta.
   let change = \<lparr>och_EventMeta = meta, och_IssuerID = ocl_IssuerID client, och_ClientRecordID = ocl_ID client,
           och_ClientSource = ocl_Source client, och_GrantID = grantID, och_TokenID = tokenID, och_ResourceID = resourceID,
           och_Scopes = scopes\<rparr> in
   ret (change, transactionalCommit m audit ''oauth.change'' meta)))"

definition emitOAuthChange :: "oauthChange \<Rightarrow> unit op" where
  "emitOAuthChange change = emit (och_EventMeta change)"

definition newOAuthBearer :: "manager \<Rightarrow> string \<Rightarrow> (string \<times> string) op" where
  "newOAuthBearer m marker = (bindE (randomBytes m 6) (\<lambda>prefixBytes.
   bindE (randomBytes m 32) (\<lambda>secret.
   let prefix = hexEncode prefixBytes in
   ret (prefix, marker @ ''_'' @ prefix @ ''_'' @ b64Encode secret))))"

definition oauthDigest :: "manager \<Rightarrow> oauthConfig \<Rightarrow> string \<Rightarrow> string \<Rightarrow> bytes" where
  "oauthDigest m c purpose raw = digest (m_sha m) (oau_Pepper c) (purpose @ [CHR 0x00] @ raw)"

definition publicOAuthClient :: "oauthClient \<Rightarrow> oauthClient" where
  "publicOAuthClient client = client\<lparr>ocl_SecretDigest := []\<rparr>"

record oauthClientRegistrationInput =
  ori_Name :: string
  ori_ApplicationType :: string
  ori_RedirectURIs :: "string list"
  ori_GrantTypes :: "string list"
  ori_ResponseTypes :: "string list"
  ori_Scopes :: "string list"
  ori_ClientCredentialsResources :: "string list"
  ori_TokenEndpointAuthMethod :: string
  ori_JWKSURI :: string
  ori_JWKS :: bytes
  ori_Trusted :: bool

section \<open>Clients\<close>

text \<open>What the client_credentials grant asks of a registration.\<close>

definition clientCredentialsRule :: "string \<Rightarrow> string list \<Rightarrow> string list \<Rightarrow> string list \<Rightarrow> unit result" where
  "clientCredentialsRule source grants scopes resources =
    (if ''client_credentials'' \<in> set grants
     then (if source \<noteq> OAuthClientPreRegistered then Inl ErrInvalidInput
           else if scopes = [] then Inl ErrInvalidInput
           else if resources = [] then Inl ErrInvalidInput
           else Inr ())
     else if resources \<noteq> [] then Inl ErrInvalidInput
     else Inr ())"

text \<open>What the way a client authenticates asks of its registration.\<close>

definition authMethodRule :: "oauthLibrary \<Rightarrow> string \<Rightarrow> string list \<Rightarrow> bool \<Rightarrow> string \<Rightarrow> bytes \<Rightarrow> unit result" where
  "authMethodRule lib authMethod grants allowSecret jwksURI jwks =
    (if authMethod \<noteq> OAuthAuthNone \<and> authMethod \<noteq> OAuthAuthPrivateKeyJWT \<and> authMethod \<noteq> OAuthAuthClientSecretBasic then Inl ErrInvalidInput
     else if authMethod = OAuthAuthNone \<and> ''client_credentials'' \<in> set grants then Inl ErrInvalidInput
     else if authMethod = OAuthAuthPrivateKeyJWT \<and> jwks = [] \<and> jwksURI = [] then Inl ErrInvalidInput
     else if authMethod = OAuthAuthClientSecretBasic \<and> \<not> allowSecret then Inl ErrInvalidInput
     else if jwksURI \<noteq> [] \<and> (case validatePublicHTTPSURL lib jwksURI False of Inl _ \<Rightarrow> True | Inr _ \<Rightarrow> False) then Inl ErrInvalidInput
     else if length jwks > 32 * 1024 \<or> jwks \<noteq> [] \<and> \<not> olb_ValidJSON lib jwks then Inl ErrInvalidInput
     else Inr ())"

definition newOAuthClient :: "manager \<Rightarrow> oauthModule \<Rightarrow> oauthConfig \<Rightarrow> oauthIssuer \<Rightarrow> string \<Rightarrow> oauthClientRegistrationInput \<Rightarrow> bool
    \<Rightarrow> (oauthClient \<times> string) op" where
  "newOAuthClient m srv c issuer source input allowSecret = (let name = TrimSpace (ori_Name input) in
   bindE (failIf (name = [] \<or> length name > 200) ErrInvalidInput) (\<lambda>_.
   bindE (failIf (ori_ApplicationType input \<noteq> OAuthApplicationWeb \<and> ori_ApplicationType input \<noteq> OAuthApplicationNative) ErrInvalidInput) (\<lambda>_.
   bindE (liftR (normalizeRedirectURIs (omd_library srv) (ori_ApplicationType input) (ori_RedirectURIs input))) (\<lambda>redirects.
   bindE (liftR (normalizeOAuthFlowMetadata (ori_GrantTypes input) (ori_ResponseTypes input))) (\<lambda>(grants, responses).
   bindE (liftR (normalizeOptionalOAuthScopes (ori_Scopes input))) (\<lambda>scopes.
   bindE (liftR (normalizeClientCredentialsResources (omd_library srv) (ori_ClientCredentialsResources input))) (\<lambda>ccResources.
   bindE (liftR (clientCredentialsRule source grants scopes ccResources)) (\<lambda>_.
   bindE (asking (\<lambda>n. oauthSectorIdentifier (omd_library srv) n redirects (ois_OIDCEnabled issuer))) (\<lambda>sectorIdentifier.
   let authMethod = (if ori_TokenEndpointAuthMethod input = [] then OAuthAuthNone else ori_TokenEndpointAuthMethod input) in
   bindE (liftR (authMethodRule (omd_library srv) authMethod grants allowSecret (ori_JWKSURI input) (ori_JWKS input))) (\<lambda>_.
   bindE (newID m) (\<lambda>i.
   bindE (now m) (\<lambda>t.
   let client = \<lparr>ocl_ID = i, ocl_IssuerID = ois_ID issuer, ocl_ClientID = UUID_String i, ocl_Source = source, ocl_Name = name,
           ocl_ApplicationType = ori_ApplicationType input, ocl_RedirectURIs = redirects, ocl_SectorIdentifier = sectorIdentifier,
           ocl_GrantTypes = grants, ocl_ResponseTypes = responses, ocl_Scopes = scopes, ocl_ClientCredentialsResources = ccResources,
           ocl_TokenEndpointAuthMethod = authMethod, ocl_JWKSURI = ori_JWKSURI input, ocl_JWKS = ori_JWKS input,
           ocl_Trusted = (ori_Trusted input \<and> source = OAuthClientPreRegistered), ocl_SecretDigest = [], ocl_MetadataHash = [],
           ocl_MetadataExpiresAt = None, ocl_CreatedAt = t, ocl_UpdatedAt = t, ocl_DisabledAt = None\<rparr> in
   let hashed = client\<lparr>ocl_MetadataHash := oauthClientMetadataHash m srv client\<rparr> in
   (if authMethod = OAuthAuthClientSecretBasic
      then (bindE (randomBytes m 32) (\<lambda>secret.
       let rawSecret = ''cbos_'' @ b64Encode secret in
       ret (hashed\<lparr>ocl_SecretDigest := oauthDigest m c ''client-secret'' rawSecret\<rparr>, rawSecret)))
      else ret (hashed, []))))))))))))))"

definition oauthClientFromMetadata :: "manager \<Rightarrow> oauthModule \<Rightarrow> oauthConfig \<Rightarrow> oauthIssuer \<Rightarrow> oauthClientMetadataDocument \<Rightarrow> oauthClient op" where
  "oauthClientFromMetadata m srv c issuer document = (bindE (failIf (case validateCIMDClientID (omd_library srv) (ocd_ClientID document) of
         Inl _ \<Rightarrow> True | Inr clientURL \<Rightarrow> \<not> issuerAllowsCIMD issuer clientURL) ErrInvalidCredentials) (\<lambda>_.
   bindE (failIf (ocd_FetchedAt document = zeroTime \<or> ocd_ExpiresAt document = zeroTime
       \<or> \<not> ocd_ExpiresAt document > ocd_FetchedAt document) ErrInvalidInput) (\<lambda>_.
   bindE (now m) (\<lambda>t.
   bindE (failIf (\<not> ocd_ExpiresAt document > t) ErrInvalidInput) (\<lambda>_.
   bindE (newOAuthClient m srv c issuer OAuthClientCIMD
       \<lparr>ori_Name = ocd_ClientName document, ori_ApplicationType = ocd_ApplicationType document,
        ori_RedirectURIs = ocd_RedirectURIs document, ori_GrantTypes = ocd_GrantTypes document,
        ori_ResponseTypes = ocd_ResponseTypes document, ori_Scopes = Fields (ocd_Scope document),
        ori_ClientCredentialsResources = [], ori_TokenEndpointAuthMethod = ocd_TokenEndpointAuthMethod document,
        ori_JWKSURI = ocd_JWKSURI document, ori_JWKS = ocd_JWKS document, ori_Trusted = False\<rparr> False) (\<lambda>(client, secret).
   bindE (now m) (\<lambda>t'.
   let cached = client\<lparr>ocl_ClientID := ocd_ClientID document, ocl_MetadataExpiresAt := Some (ocd_ExpiresAt document),
           ocl_CreatedAt := ocd_FetchedAt document, ocl_UpdatedAt := t'\<rparr> in
   ret (cached\<lparr>ocl_MetadataHash := oauthClientMetadataHash m srv cached\<rparr>))))))))"

definition emitOAuthCIMDRejected :: "manager \<Rightarrow> oauthIssuer \<Rightarrow> string \<Rightarrow> string \<Rightarrow> unit op" where
  "emitOAuthCIMDRejected m issuer clientID reason = (bindE (tryE ((bindE (newAudit m 0 ''oauth.cimd.reject'' ''oauth_client'' clientID 0 AuditFailed reason) (\<lambda>event.
     let audit = event\<lparr>aud_ActorKind := ActorSystem\<rparr> in
     let client = zeroClient\<lparr>ocl_IssuerID := ois_ID issuer, ocl_ClientID := clientID, ocl_Source := OAuthClientCIMD\<rparr> in
     bindE (newOAuthChange m ''oauth.cimd.rejected'' ''oauth.cimd.reject'' audit client 0 0 0 0 []) (\<lambda>(change, commit).
     bindE (callStore m (\<lambda>ce. AppendAudit (m_sha m) ce commit)) (\<lambda>_.
     emitOAuthChange change)))))) (\<lambda>r.
   ret ()))"

definition rejectCIMD :: "manager \<Rightarrow> oauthIssuer \<Rightarrow> string \<Rightarrow> string \<Rightarrow> 'a op" where
  "rejectCIMD m issuer clientID reason = (bindE (emitOAuthCIMDRejected m issuer clientID reason) (\<lambda>_.
   fail ErrInvalidCredentials))"

definition saveCIMDClient :: "manager \<Rightarrow> oauthClient \<Rightarrow> oauthClient \<Rightarrow> oauthClient op" where
  "saveCIMDClient m client resolved0 = (let changed = (ocl_ID client \<noteq> 0 \<and> ocl_MetadataHash client \<noteq> ocl_MetadataHash resolved0) in
   let name = (if changed then ''oauth.cimd.changed'' else ''oauth.cimd.resolved'') in
   let action = (if changed then ''oauth.cimd.change'' else ''oauth.cimd.resolve'') in
   let resolved = (if ocl_ID client \<noteq> 0 then resolved0\<lparr>ocl_ID := ocl_ID client, ocl_CreatedAt := ocl_CreatedAt client\<rparr> else resolved0) in
   bindE (newAudit m 0 action ''oauth_client'' (UUID_String (ocl_ID resolved)) 0 AuditSucceeded []) (\<lambda>event.
   let audit = event\<lparr>aud_ActorKind := ActorSystem\<rparr> in
   bindE (newOAuthChange m name action audit resolved 0 0 0 0 (ocl_Scopes resolved)) (\<lambda>(change, commit).
   bindE (orMapped m ''oauth.cimd.resolve'' (callStore m (\<lambda>ce. UpsertOAuthCIMDClient (m_sha m) ce resolved commit))) (\<lambda>_.
   bindE (emitOAuthChange change) (\<lambda>_.
   ret resolved)))))"

definition fetchCIMDClient :: "manager \<Rightarrow> oauthModule \<Rightarrow> oauthConfig \<Rightarrow> oauthIssuer \<Rightarrow> string \<Rightarrow> oauthClient \<Rightarrow> oauthClient op" where
  "fetchCIMDClient m srv c issuer clientID client = (case oau_MetadataFetcher c of
     None \<Rightarrow> fail ErrInvalidCredentials
   | Some fetch \<Rightarrow>
      if ois_CIMDMode issuer = OAuthCIMDDisabled then fail ErrInvalidCredentials
      else if (case validateCIMDClientID (omd_library srv) clientID of
          Inl _ \<Rightarrow> True | Inr clientURL \<Rightarrow> \<not> issuerAllowsCIMD issuer clientURL)
        then rejectCIMD m issuer clientID ''policy_rejected''
      else (bindE (tryE (asking (\<lambda>n. fetch n clientID))) (\<lambda>fetched.
       (case fetched of
           Inl _ \<Rightarrow> rejectCIMD m issuer clientID ''metadata_fetch_failed''
         | Inr document \<Rightarrow> (bindE (tryE (oauthClientFromMetadata m srv c issuer document)) (\<lambda>r.
          (case r of
                Inl _ \<Rightarrow> rejectCIMD m issuer clientID ''metadata_invalid''
              | Inr resolved \<Rightarrow> if ocl_ClientID resolved \<noteq> clientID then rejectCIMD m issuer clientID ''metadata_invalid''
                  else saveCIMDClient m client resolved)))))))"

definition resolveOAuthClient :: "manager \<Rightarrow> oauthModule \<Rightarrow> oauthConfig \<Rightarrow> oauthIssuer \<Rightarrow> string \<Rightarrow> oauthClient op" where
  "resolveOAuthClient m srv c issuer clientID0 = (let clientID = TrimSpace clientID0 in
   bindE (failIf (clientID = [] \<or> length clientID > 2048) ErrInvalidCredentials) (\<lambda>_.
   bindE (tryE (callStore m (\<lambda>ce. OAuthClientByClientID ce (ois_ID issuer) clientID))) (\<lambda>r.
   (case r of
        Inr client \<Rightarrow>
          (if ocl_Source client \<noteq> OAuthClientCIMD then ret client
           else (case ocl_MetadataExpiresAt client of
               None \<Rightarrow> ret client
             | Some expiresAt \<Rightarrow> (bindE (now m) (\<lambda>t.
              (if t < expiresAt then ret client else fetchCIMDClient m srv c issuer clientID client)))))
      | Inl err \<Rightarrow> if errorsIs err ErrNotFound then fetchCIMDClient m srv c issuer clientID zeroClient else fail err))))"

definition ValidateOAuthAuthorizationRedirect :: "manager \<Rightarrow> oauthModule \<Rightarrow> string \<Rightarrow> string \<Rightarrow> string \<Rightarrow> unit op" where
  "ValidateOAuthAuthorizationRedirect m srv issuerURL0 clientID redirectURI = (bindE (requireOAuth m srv) (\<lambda>c.
   bindE (liftR (validateIssuerURL (omd_library srv) issuerURL0)) (\<lambda>issuerURL.
   bindE (screened ErrInvalidCredentials (\<lambda>issuer. ois_DisabledAt issuer \<noteq> None) (callStore m (\<lambda>ce. OAuthIssuerByURL ce issuerURL))) (\<lambda>issuer.
   bindE (screened ErrInvalidCredentials (\<lambda>client. ocl_DisabledAt client \<noteq> None) (resolveOAuthClient m srv c issuer clientID)) (\<lambda>client.
   failIf (redirectURI \<notin> set (ocl_RedirectURIs client)) ErrInvalidInput)))))"

section \<open>Issuers and resources\<close>

definition CreateOAuthIssuer :: "manager \<Rightarrow> oauthModule \<Rightarrow> authentication \<Rightarrow> bool \<Rightarrow> string \<Rightarrow> updateOAuthIssuerInput \<Rightarrow> oauthIssuer op" where
  "CreateOAuthIssuer m srv actor local rawIssuer input = (bindE (requireOAuth m srv) (\<lambda>c.
   bindE (AuthorizeAdmin m actor PermissionSettingsWrite) (\<lambda>_.
   bindE (requireAdminMutation m actor local ''oauth.issuer.create'') (\<lambda>_.
   bindE (liftR (validateIssuerURL (omd_library srv) rawIssuer)) (\<lambda>issuerURL.
   bindE (liftR (normalizeOAuthIssuerPolicy (omd_library srv) c input)) (\<lambda>policy.
   bindE (newID m) (\<lambda>i.
   bindE (now m) (\<lambda>t.
   let issuer = \<lparr>ois_ID = i, ois_Issuer = issuerURL, ois_OIDCEnabled = uoi_OIDCEnabled policy, ois_CIMDMode = uoi_CIMDMode policy,
           ois_CIMDAllowedOrigins = uoi_CIMDAllowedOrigins policy, ois_DCRMode = uoi_DCRMode policy,
           ois_DCRAllowClientSecrets = uoi_DCRAllowClientSecrets policy,
           ois_DCROpenRegistrationLimit = uoi_DCROpenRegistrationLimit policy, ois_CodeTTL = uoi_CodeTTL policy,
           ois_AccessTokenTTL = uoi_AccessTokenTTL policy, ois_RefreshTokenTTL = uoi_RefreshTokenTTL policy,
           ois_CreatedAt = t, ois_UpdatedAt = t, ois_DisabledAt = None\<rparr> in
   bindE (newAudit m (auth_UserID actor) ''oauth.issuer.create'' ''oauth_issuer'' (UUID_String i) 0 AuditSucceeded []) (\<lambda>event.
   bindE (orMapped m ''oauth.issuer.create'' (callStore m (\<lambda>ce. storeCreateOAuthIssuer (m_sha m) ce issuer (auditOnly event)))) (\<lambda>_.
   ret issuer))))))))))"

definition UpdateOAuthIssuer :: "manager \<Rightarrow> oauthModule \<Rightarrow> authentication \<Rightarrow> bool \<Rightarrow> uuid \<Rightarrow> updateOAuthIssuerInput \<Rightarrow> oauthIssuer op" where
  "UpdateOAuthIssuer m srv actor local issuerID input = (bindE (requireOAuth m srv) (\<lambda>c.
   bindE (AuthorizeAdmin m actor PermissionSettingsWrite) (\<lambda>_.
   bindE (requireAdminMutation m actor local ''oauth.issuer.update'') (\<lambda>_.
   bindE (failIf (\<not> validUUIDv7 issuerID) ErrInvalidInput) (\<lambda>_.
   bindE (callStore m (\<lambda>ce. OAuthIssuerByID ce issuerID)) (\<lambda>issuer0.
   bindE (liftR (normalizeOAuthIssuerPolicy (omd_library srv) c input)) (\<lambda>policy.
   bindE (now m) (\<lambda>t.
   let issuer = issuer0\<lparr>ois_OIDCEnabled := uoi_OIDCEnabled policy, ois_CIMDMode := uoi_CIMDMode policy,
           ois_CIMDAllowedOrigins := uoi_CIMDAllowedOrigins policy, ois_DCRMode := uoi_DCRMode policy,
           ois_DCRAllowClientSecrets := uoi_DCRAllowClientSecrets policy,
           ois_DCROpenRegistrationLimit := uoi_DCROpenRegistrationLimit policy, ois_CodeTTL := uoi_CodeTTL policy,
           ois_AccessTokenTTL := uoi_AccessTokenTTL policy, ois_RefreshTokenTTL := uoi_RefreshTokenTTL policy, ois_UpdatedAt := t\<rparr> in
   bindE (newAudit m (auth_UserID actor) ''oauth.issuer.update'' ''oauth_issuer'' (UUID_String (ois_ID issuer)) 0 AuditSucceeded []) (\<lambda>event.
   bindE (orMapped m ''oauth.issuer.update'' (callStore m (\<lambda>ce. storeUpdateOAuthIssuer (m_sha m) ce issuer (auditOnly event)))) (\<lambda>_.
   ret issuer))))))))))"

definition CreateOAuthProtectedResource :: "manager \<Rightarrow> oauthModule \<Rightarrow> authentication \<Rightarrow> uuid \<Rightarrow> uuid \<Rightarrow> string \<Rightarrow> oauthScopeDefinition list
    \<Rightarrow> oauthProtectedResource op" where
  "CreateOAuthProtectedResource m srv actor workspaceID issuerID rawResource definitions = (bindE (requireOAuth m srv) (\<lambda>c.
   bindE (requireScopedStepUp m actor StepUpScopeWorkspace ''oauth.resource.create'') (\<lambda>_.
   bindE (AuthorizePermission m actor workspaceID PermissionOAuthResourceManage) (\<lambda>_.
   bindE (failIf (\<not> validUUIDv7 issuerID) ErrInvalidInput) (\<lambda>_.
   bindE (callStore m (\<lambda>ce. OAuthIssuerByID ce issuerID)) (\<lambda>issuer.
   bindE (failIf (ois_DisabledAt issuer \<noteq> None) ErrForbidden) (\<lambda>_.
   bindE (liftR (validateResourceURL (omd_library srv) rawResource)) (\<lambda>resourceURL.
   bindE (liftR (normalizeOAuthScopeDefinitions m definitions)) (\<lambda>scopes.
   bindE (newID m) (\<lambda>i.
   bindE (now m) (\<lambda>t.
   let resource = \<lparr>ors_ID = i, ors_IssuerID = ois_ID issuer, ors_WorkspaceID = workspaceID, ors_Resource = resourceURL,
           ors_Scopes = scopes, ors_CreatedAt = t, ors_UpdatedAt = t, ors_DisabledAt = None\<rparr> in
   bindE (newAudit m (auth_UserID actor) ''oauth.resource.create'' ''oauth_resource'' (UUID_String i) workspaceID AuditSucceeded []) (\<lambda>event.
   bindE (orMapped m ''oauth.resource.create'' (callStore m (\<lambda>ce. storeCreateOAuthProtectedResource (m_sha m) ce resource (auditOnly event)))) (\<lambda>_.
   ret resource)))))))))))))"

section \<open>Registration\<close>

definition PreRegisterOAuthClient :: "manager \<Rightarrow> oauthModule \<Rightarrow> authentication \<Rightarrow> bool \<Rightarrow> uuid \<Rightarrow> oauthClientRegistrationInput
    \<Rightarrow> (oauthClient \<times> string) op" where
  "PreRegisterOAuthClient m srv actor local issuerID input = (bindE (requireOAuth m srv) (\<lambda>c.
   bindE (AuthorizeAdmin m actor PermissionSettingsWrite) (\<lambda>_.
   bindE (requireAdminMutation m actor local ''oauth.client.pre_register'') (\<lambda>_.
   bindE (callStore m (\<lambda>ce. OAuthIssuerByID ce issuerID)) (\<lambda>issuer.
   bindE (newOAuthClient m srv c issuer OAuthClientPreRegistered input True) (\<lambda>(client, rawSecret).
   bindE (newAudit m (auth_UserID actor) ''oauth.client.pre_register'' ''oauth_client'' (UUID_String (ocl_ID client)) 0 AuditSucceeded []) (\<lambda>event.
   bindE (newOAuthChange m ''oauth.client.registered'' ''oauth.client.pre_register'' event client 0 0 0 0 (ocl_Scopes client)) (\<lambda>(change, commit).
   bindE (now m) (\<lambda>t.
   bindE (orMapped m ''oauth.client.pre_register'' (callStore m (\<lambda>ce. CreateOAuthClient (m_sha m) ce client 0 t commit))) (\<lambda>_.
   bindE (emitOAuthChange change) (\<lambda>_.
   ret (publicOAuthClient client, rawSecret))))))))))))"

definition CreateOAuthInitialAccessToken :: "manager \<Rightarrow> oauthModule \<Rightarrow> authentication \<Rightarrow> bool \<Rightarrow> uuid \<Rightarrow> time \<Rightarrow> int
    \<Rightarrow> (oauthInitialAccessToken \<times> string) op" where
  "CreateOAuthInitialAccessToken m srv actor local issuerID expiresAt registrations = (bindE (requireOAuth m srv) (\<lambda>c.
   bindE (AuthorizeAdmin m actor PermissionSettingsWrite) (\<lambda>_.
   bindE (requireAdminMutation m actor local ''oauth.initial_access_token.create'') (\<lambda>_.
   bindE (callStore m (\<lambda>ce. OAuthIssuerByID ce issuerID)) (\<lambda>issuer.
   bindE (failIf (ois_DCRMode issuer \<noteq> OAuthDCRProtected \<or> ois_DisabledAt issuer \<noteq> None) ErrNotSupported) (\<lambda>_.
   bindE (now m) (\<lambda>t.
   bindE (failIf (\<not> expiresAt > t) ErrInvalidInput) (\<lambda>_.
   bindE (now m) (\<lambda>t'.
   bindE (failIf (expiresAt > t' + 30 * 24 * hour) ErrInvalidInput) (\<lambda>_.
   let maxRegistrations = (if registrations = 0 then 1 else registrations) in
   bindE (failIf (maxRegistrations < 1 \<or> maxRegistrations > 100) ErrInvalidInput) (\<lambda>_.
   bindE (newID m) (\<lambda>i.
   bindE (newOAuthBearer m ''cbi'') (\<lambda>(prefix, raw).
   bindE (now m) (\<lambda>t2.
   let credential = \<lparr>oit_ID = i, oit_IssuerID = ois_ID issuer, oit_Prefix = prefix, oit_Digest = oauthDigest m c ''initial-access-token'' raw,
           oit_MaxRegistrations = maxRegistrations, oit_RegistrationCount = 0, oit_CreatedAt = t2, oit_ExpiresAt = expiresAt,
           oit_RevokedAt = None\<rparr> in
   bindE (newAudit m (auth_UserID actor) ''oauth.initial_access_token.create'' ''oauth_initial_access_token'' (UUID_String i) 0 AuditSucceeded []) (\<lambda>event.
   bindE (orMapped m ''oauth.initial_access_token.create''
       (callStore m (\<lambda>ce. storeCreateOAuthInitialAccessToken (m_sha m) ce credential (auditOnly event)))) (\<lambda>_.
   ret (credential\<lparr>oit_Digest := []\<rparr>, raw)))))))))))))))))"

definition OAuthInitialAccessTokens :: "manager \<Rightarrow> oauthModule \<Rightarrow> authentication \<Rightarrow> uuid \<Rightarrow> world
    \<Rightarrow> oauthInitialAccessToken result list \<times> world" where
  "OAuthInitialAccessTokens m srv actor issuerID = stream (bindE (requireOAuth m srv) (\<lambda>_.
   bindE (AuthorizeAdmin m actor PermissionSettingsRead) (\<lambda>_.
   bindE (failIf (\<not> validUUIDv7 issuerID) ErrInvalidInput) (\<lambda>_.
   readStream m (\<lambda>ce ctxErr. storeOAuthInitialAccessTokens ce issuerID)))))"

definition RevokeOAuthInitialAccessToken :: "manager \<Rightarrow> oauthModule \<Rightarrow> authentication \<Rightarrow> bool \<Rightarrow> uuid \<Rightarrow> unit op" where
  "RevokeOAuthInitialAccessToken m srv actor local tokenID = (bindE (requireOAuth m srv) (\<lambda>_.
   bindE (AuthorizeAdmin m actor PermissionSettingsWrite) (\<lambda>_.
   bindE (requireAdminMutation m actor local ''oauth.initial_access_token.revoke'') (\<lambda>_.
   bindE (failIf (\<not> validUUIDv7 tokenID) ErrInvalidInput) (\<lambda>_.
   bindE (newAudit m (auth_UserID actor) ''oauth.initial_access_token.revoke'' ''oauth_initial_access_token'' (UUID_String tokenID) 0 AuditSucceeded []) (\<lambda>event.
   bindE (now m) (\<lambda>t.
   orMapped m ''oauth.initial_access_token.revoke''
       (callStore m (\<lambda>ce. storeRevokeOAuthInitialAccessToken (m_sha m) ce tokenID t (auditOnly event))))))))))"

text \<open>The initial access token that a protected issuer asks for: the identifier of the token, and who acts.\<close>

definition initialAccessToken :: "manager \<Rightarrow> oauthConfig \<Rightarrow> oauthIssuer \<Rightarrow> string \<Rightarrow> (uuid \<times> actorKind) op" where
  "initialAccessToken m c issuer raw =
    (if ois_DCRMode issuer = OAuthDCRProtected
     then (case parseOAuthBearer ''cbi'' raw of
         None \<Rightarrow> fail ErrInvalidCredentials
       | Some prefix \<Rightarrow> (bindE (tryE (callStore m (\<lambda>ce. OAuthInitialAccessTokenByPrefix ce prefix))) (\<lambda>r.
        bindE (now m) (\<lambda>t.
        (case r of
              Inl _ \<Rightarrow> fail ErrInvalidCredentials
            | Inr credential \<Rightarrow>
                if oit_IssuerID credential = ois_ID issuer \<and> oit_RevokedAt credential = None \<and> t < oit_ExpiresAt credential
                  \<and> oit_RegistrationCount credential < oit_MaxRegistrations credential
                  \<and> oit_Digest credential = oauthDigest m c ''initial-access-token'' raw
                then ret (oit_ID credential, ActorService) else fail ErrInvalidCredentials)))))
     else if raw \<noteq> [] then fail ErrInvalidInput
     else ret (0, ActorSystem))"

definition RegisterOAuthClient :: "manager \<Rightarrow> oauthModule \<Rightarrow> string \<Rightarrow> string \<Rightarrow> oauthClientRegistrationInput \<Rightarrow> (oauthClient \<times> string) op" where
  "RegisterOAuthClient m srv issuerURL0 rawToken input = (bindE (requireOAuth m srv) (\<lambda>c.
   bindE (liftR (validateIssuerURL (omd_library srv) issuerURL0)) (\<lambda>issuerURL.
   bindE (callStore m (\<lambda>ce. OAuthIssuerByURL ce issuerURL)) (\<lambda>issuer.
   bindE (failIf (ois_DisabledAt issuer \<noteq> None \<or> ois_DCRMode issuer = OAuthDCRDisabled) ErrNotSupported) (\<lambda>_.
   bindE (newOAuthClient m srv c issuer OAuthClientDCR (input\<lparr>ori_Trusted := False\<rparr>)
       (ois_DCRMode issuer = OAuthDCRProtected \<and> ois_DCRAllowClientSecrets issuer)) (\<lambda>(client, rawSecret).
   bindE (initialAccessToken m c issuer rawToken) (\<lambda>(initialID, actorKind).
   bindE (newAudit m initialID ''oauth.client.dynamic_register'' ''oauth_client'' (UUID_String (ocl_ID client)) 0 AuditSucceeded []) (\<lambda>event.
   let audit = event\<lparr>aud_ActorKind := actorKind\<rparr> in
   bindE (newOAuthChange m ''oauth.client.registered'' ''oauth.client.dynamic_register'' audit client 0 0 0 0 (ocl_Scopes client)) (\<lambda>(change, commit).
   bindE (now m) (\<lambda>t.
   bindE (orMapped m ''oauth.client.dynamic_register'' (callStore m (\<lambda>ce. CreateOAuthClient (m_sha m) ce client initialID t commit))) (\<lambda>_.
   bindE (emitOAuthChange change) (\<lambda>_.
   ret (publicOAuthClient client, rawSecret)))))))))))))"

section \<open>Authorization\<close>

fun authorizeScope :: "manager \<Rightarrow> authentication \<Rightarrow> uuid \<Rightarrow> permission list \<Rightarrow> unit op" where
  "authorizeScope m actor workspaceID [] = ret ()"
| "authorizeScope m actor workspaceID (permission # permissions) = (bindE (orError ErrForbidden (AuthorizePermission m actor workspaceID permission)) (\<lambda>_.
 authorizeScope m actor workspaceID permissions))"

fun authorizedDefinitions :: "manager \<Rightarrow> authentication \<Rightarrow> oauthIssuer \<Rightarrow> oauthProtectedResource \<Rightarrow> string list \<Rightarrow> string list
    \<Rightarrow> oauthScopeDefinition list op" where
  "authorizedDefinitions m actor issuer resource scopes [] = ret []"
| "authorizedDefinitions m actor issuer resource scopes (scope # rest) =
    (if oauthReservedScope scope then (bindE (failIf ((scope = ''openid'' \<or> scope = ''profile'' \<or> scope = ''email'') \<and> \<not> ois_OIDCEnabled issuer) ErrForbidden) (\<lambda>_.
     bindE (failIf ((scope = ''profile'' \<or> scope = ''email'') \<and> ''openid'' \<notin> set scopes) ErrInvalidInput) (\<lambda>_.
     authorizedDefinitions m actor issuer resource scopes rest)))
     else (case oauthScopeDefinition (ors_Scopes resource) scope of
         None \<Rightarrow> fail ErrForbidden
       | Some defn \<Rightarrow> (bindE (authorizeScope m actor (ors_WorkspaceID resource) (osd_Permissions defn)) (\<lambda>_.
        bindE (authorizedDefinitions m actor issuer resource scopes rest) (\<lambda>definitions.
        ret (defn # definitions))))))"

definition authorizedOAuthScopes :: "manager \<Rightarrow> authentication \<Rightarrow> oauthIssuer \<Rightarrow> oauthProtectedResource \<Rightarrow> string list
    \<Rightarrow> (string list \<times> oauthScopeDefinition list) op" where
  "authorizedOAuthScopes m actor issuer resource requested = (case normalizeOptionalOAuthScopes requested of
     Inl _ \<Rightarrow> fail ErrInvalidInput
   | Inr scopes \<Rightarrow> if scopes = [] then fail ErrInvalidInput else (bindE (authorizedDefinitions m actor issuer resource scopes scopes) (\<lambda>definitions.
    ret (scopes, definitions))))"

definition encodeOAuthContinuation :: "manager \<Rightarrow> oauthModule \<Rightarrow> oauthAuthorizationContinuation \<Rightarrow> string op" where
  "encodeOAuthContinuation m srv value = (case olb_MarshalContinuation (omd_library srv) value of
     None \<Rightarrow> fail (OtherError ''marshal OAuth continuation'')
   | Some payload \<Rightarrow> (bindE (seal m payload) (\<lambda>sealedBytes.
    ret (b64Encode sealedBytes))))"

definition decodeOAuthContinuation :: "manager \<Rightarrow> oauthModule \<Rightarrow> string \<Rightarrow> oauthAuthorizationContinuation op" where
  "decodeOAuthContinuation m srv raw = (case b64Decode raw of
     None \<Rightarrow> fail ErrInvalidCredentials
   | Some sealedBytes \<Rightarrow> (case managerOpen m sealedBytes of
       Inl _ \<Rightarrow> fail ErrInvalidCredentials
     | Inr payload \<Rightarrow> (case olb_UnmarshalContinuation (omd_library srv) payload of
         None \<Rightarrow> fail ErrInvalidCredentials
       | Some value \<Rightarrow>
           if oac_UserID value = 0 \<or> oac_ClientRecordID value = 0 \<or> oac_ResourceID value = 0 then fail ErrInvalidCredentials
           else (bindE (now m) (\<lambda>t.
            bindE (failIf (\<not> t < oac_ExpiresAt value) ErrExpired) (\<lambda>_.
            ret value))))))"

text \<open>Whether an authentication is too weak or too old for a scope.\<close>

definition tooWeak :: "manager \<Rightarrow> authentication \<Rightarrow> oauthScopeDefinition \<Rightarrow> bool op" where
  "tooWeak m actor defn =
    (if osd_MinimumAAL defn > auth_Level actor then ret True
     else if osd_MaxAuthAge defn > 0
       then (bindE (now m) (\<lambda>t.
        ret (\<not> freshAuthentication t (auth_AuthenticatedAt actor) (osd_MaxAuthAge defn))))
     else ret False)"

definition tooOld :: "manager \<Rightarrow> authentication \<Rightarrow> duration \<Rightarrow> bool op" where
  "tooOld m actor maxAge =
    (if maxAge > 0 then (bindE (now m) (\<lambda>t.
     ret (\<not> freshAuthentication t (auth_AuthenticatedAt actor) maxAge))) else ret False)"

fun anyTooWeak :: "manager \<Rightarrow> authentication \<Rightarrow> oauthScopeDefinition list \<Rightarrow> bool op" where
  "anyTooWeak m actor [] = ret False"
| "anyTooWeak m actor (defn # definitions) = (bindE (tooWeak m actor defn) (\<lambda>weak.
 bindE (anyTooWeak m actor definitions) (\<lambda>others.
 ret (weak \<or> others))))"

fun requireAssurance :: "manager \<Rightarrow> authentication \<Rightarrow> oauthScopeDefinition list \<Rightarrow> unit op" where
  "requireAssurance m actor [] = ret ()"
| "requireAssurance m actor (defn # definitions) = (bindE (tooWeak m actor defn) (\<lambda>weak.
 bindE (failIf weak ErrStepUpRequired) (\<lambda>_.
 requireAssurance m actor definitions)))"

record beginOAuthAuthorizationInput =
  boa_Issuer :: string
  boa_ClientID :: string
  boa_RedirectURI :: string
  boa_Resource :: string
  boa_Scopes :: "string list"
  boa_State :: string
  boa_CodeChallenge :: string
  boa_CodeChallengeMethod :: string
  boa_Nonce :: string
  boa_MaxAge :: duration

record oauthConsent =
  ocs_Continuation :: string
  ocs_ClientID :: string
  ocs_ClientName :: string
  ocs_ClientHost :: string
  ocs_RedirectURI :: string
  ocs_RedirectHost :: string
  ocs_Resource :: string
  ocs_WorkspaceID :: uuid
  ocs_Scopes :: "(string \<times> string) list"
  ocs_RequiresStepUp :: bool
  ocs_LocalhostRedirect :: bool

definition consentScopes :: "oauthScopeDefinition list \<Rightarrow> string list \<Rightarrow> (string \<times> string) list" where
  "consentScopes definitions scopes = map (\<lambda>scope. (scope, case oauthScopeDefinition definitions scope of
     Some defn \<Rightarrow> osd_Description defn | None \<Rightarrow> oauthReservedScopeDescription scope)) scopes"

text \<open>\<^verbatim>\<open>u, _ := url.Parse(raw)\<close> followed by \<^verbatim>\<open>u.Hostname()\<close>: a nil pointer where \<open>raw\<close> does not parse.\<close>

definition hostnameOf :: "oauthModule \<Rightarrow> string \<Rightarrow> string op" where
  "hostnameOf srv raw = (case olb_Parse (omd_library srv) raw of None \<Rightarrow> fail RuntimePanic | Some value \<Rightarrow> ret (url_Hostname value))"

definition BeginOAuthAuthorization :: "manager \<Rightarrow> oauthModule \<Rightarrow> authentication \<Rightarrow> beginOAuthAuthorizationInput \<Rightarrow> oauthConsent op" where
  "BeginOAuthAuthorization m srv actor input = (bindE (requireOAuth m srv) (\<lambda>c.
   bindE (failIf (auth_UserID actor = 0 \<or> \<not> Interactive actor) ErrUnauthorized) (\<lambda>_.
   bindE (liftR (validateIssuerURL (omd_library srv) (boa_Issuer input))) (\<lambda>issuerURL.
   bindE (screened ErrInvalidCredentials (\<lambda>issuer. ois_DisabledAt issuer \<noteq> None) (callStore m (\<lambda>ce. OAuthIssuerByURL ce issuerURL))) (\<lambda>issuer.
   bindE (resolveOAuthClient m srv c issuer (boa_ClientID input)) (\<lambda>client.
   bindE (failIf (ocl_DisabledAt client \<noteq> None \<or> ''authorization_code'' \<notin> set (ocl_GrantTypes client)) ErrInvalidCredentials) (\<lambda>_.
   bindE (failIf (list_ex (\<lambda>scope. ocl_Scopes client \<noteq> [] \<and> TrimSpace scope \<notin> set (ocl_Scopes client)) (boa_Scopes input)) ErrForbidden) (\<lambda>_.
   bindE (liftR (validateResourceURL (omd_library srv) (boa_Resource input))) (\<lambda>resourceURL.
   bindE (screened ErrForbidden (\<lambda>resource. ors_IssuerID resource \<noteq> ois_ID issuer \<or> ors_DisabledAt resource \<noteq> None)
       (callStore m (\<lambda>ce. OAuthProtectedResourceByURI ce resourceURL))) (\<lambda>resource.
   bindE (failIf (boa_RedirectURI input \<notin> set (ocl_RedirectURIs client)) ErrInvalidInput) (\<lambda>_.
   bindE (failIf (boa_CodeChallengeMethod input \<noteq> ''S256'' \<or> \<not> validPKCEChallenge (boa_CodeChallenge input)) ErrInvalidInput) (\<lambda>_.
   bindE (failIf (boa_State input = [] \<or> length (boa_State input) > 1024 \<or> length (boa_Nonce input) > 1024) ErrInvalidInput) (\<lambda>_.
   bindE (authorizedOAuthScopes m actor issuer resource (boa_Scopes input)) (\<lambda>(scopes, definitions).
   bindE (anyTooWeak m actor definitions) (\<lambda>weak.
   bindE (tooOld m actor (boa_MaxAge input)) (\<lambda>old.
   bindE (now m) (\<lambda>t.
   bindE (encodeOAuthContinuation m srv \<lparr>oac_UserID = auth_UserID actor, oac_ClientRecordID = ocl_ID client,
       oac_ResourceID = ors_ID resource, oac_RedirectURI = boa_RedirectURI input, oac_Scopes = scopes, oac_State = boa_State input,
       oac_CodeChallenge = boa_CodeChallenge input, oac_Nonce = boa_Nonce input, oac_MetadataHash = ocl_MetadataHash client,
       oac_AuthTime = auth_AuthenticatedAt actor, oac_AuthMethod = auth_Method actor, oac_AAL = auth_Level actor,
       oac_MaxAge = boa_MaxAge input, oac_ExpiresAt = t + m_ceremonyTTL m\<rparr>) (\<lambda>rawContinuation.
   bindE (hostnameOf srv (ocl_ClientID client)) (\<lambda>clientHost.
   bindE (hostnameOf srv (boa_RedirectURI input)) (\<lambda>redirectHost.
   ret \<lparr>ocs_Continuation = rawContinuation, ocs_ClientID = ocl_ClientID client, ocs_ClientName = ocl_Name client,
          ocs_ClientHost = clientHost, ocs_RedirectURI = boa_RedirectURI input, ocs_RedirectHost = redirectHost,
          ocs_Resource = ors_Resource resource, ocs_WorkspaceID = ors_WorkspaceID resource,
          ocs_Scopes = consentScopes definitions scopes, ocs_RequiresStepUp = (weak \<or> old),
          ocs_LocalhostRedirect = isLocalhostName redirectHost\<rparr>))))))))))))))))))))"

record oauthAuthorizationResult =
  oar_RedirectURI :: string
  oar_Code :: string
  oar_State :: string
  oar_Issuer :: string
  oar_Error :: string

text \<open>What a decision is taken on: the client, resource and issuer of a continuation, re-validated for its user.\<close>

definition pendingAuthorization :: "manager \<Rightarrow> authentication \<Rightarrow> oauthAuthorizationContinuation
    \<Rightarrow> (oauthClient \<times> oauthProtectedResource \<times> oauthIssuer) op" where
  "pendingAuthorization m actor continuation = (bindE (failIf (auth_UserID actor = 0 \<or> auth_UserID actor \<noteq> oac_UserID continuation \<or> \<not> Interactive actor) ErrUnauthorized) (\<lambda>_.
   bindE (screened ErrInvalidCredentials (\<lambda>client. ocl_DisabledAt client \<noteq> None \<or> ocl_MetadataHash client \<noteq> oac_MetadataHash continuation)
       (callStore m (\<lambda>ce. OAuthClientByID ce (oac_ClientRecordID continuation)))) (\<lambda>client.
   bindE (screened ErrForbidden (\<lambda>resource. ors_DisabledAt resource \<noteq> None)
       (callStore m (\<lambda>ce. OAuthProtectedResourceByID ce (oac_ResourceID continuation)))) (\<lambda>resource.
   bindE (screened ErrForbidden (\<lambda>issuer. ois_DisabledAt issuer \<noteq> None \<or> ocl_IssuerID client \<noteq> ois_ID issuer)
       (callStore m (\<lambda>ce. OAuthIssuerByID ce (ors_IssuerID resource)))) (\<lambda>issuer.
   bindE (authorizedOAuthScopes m actor issuer resource (oac_Scopes continuation)) (\<lambda>(scopes, definitions).
   bindE (requireAssurance m actor definitions) (\<lambda>_.
   bindE (tooOld m actor (oac_MaxAge continuation)) (\<lambda>old.
   bindE (failIf old ErrStepUpRequired) (\<lambda>_.
   ret (client, resource, issuer))))))))))"

definition denyAuthorization :: "manager \<Rightarrow> authentication \<Rightarrow> oauthAuthorizationContinuation \<Rightarrow> oauthClient \<Rightarrow> oauthProtectedResource
    \<Rightarrow> unit op" where
  "denyAuthorization m actor continuation client resource = (bindE (newAudit m (auth_UserID actor) ''oauth.authorization.denied'' ''oauth_client'' (UUID_String (ocl_ID client))
       (ors_WorkspaceID resource) AuditFailed ''access_denied'') (\<lambda>event.
   bindE (newOAuthChange m ''oauth.authorization.denied'' ''oauth.authorization.denied'' event client 0 0
       (ors_ID resource) (ors_WorkspaceID resource) (oac_Scopes continuation)) (\<lambda>(change, commit).
   bindE (orMapped m ''oauth.authorization.denied'' (callStore m (\<lambda>ce. AppendAudit (m_sha m) ce commit))) (\<lambda>_.
   emitOAuthChange change))))"

definition grantAuthorization :: "manager \<Rightarrow> oauthConfig \<Rightarrow> authentication \<Rightarrow> oauthAuthorizationContinuation \<Rightarrow> oauthClient
    \<Rightarrow> oauthProtectedResource \<Rightarrow> oauthIssuer \<Rightarrow> string op" where
  "grantAuthorization m c actor continuation client resource issuer = (bindE (newID m) (\<lambda>grantID.
   bindE (newID m) (\<lambda>codeID.
   bindE (newOAuthBearer m ''cbc'') (\<lambda>(prefix, rawCode).
   bindE (now m) (\<lambda>t.
   let grant = \<lparr>ogr_ID = grantID, ogr_IssuerID = ois_ID issuer, ogr_ClientRecordID = ocl_ID client, ogr_UserID = auth_UserID actor,
           ogr_WorkspaceID = ors_WorkspaceID resource, ogr_ResourceID = ors_ID resource, ogr_Scopes = oac_Scopes continuation,
           ogr_MetadataHash = ocl_MetadataHash client, ogr_AuthTime = auth_AuthenticatedAt actor, ogr_AuthMethod = auth_Method actor,
           ogr_AAL = auth_Level actor, ogr_CreatedAt = t, ogr_UpdatedAt = t, ogr_RevokedAt = None\<rparr> in
   let code = \<lparr>oco_ID = codeID, oco_Prefix = prefix, oco_Digest = oauthDigest m c ''authorization-code'' rawCode,
           oco_GrantID = grantID, oco_ClientRecordID = ocl_ID client, oco_RedirectURI = oac_RedirectURI continuation,
           oco_ResourceID = ors_ID resource, oco_Scopes = oac_Scopes continuation, oco_CodeChallenge = oac_CodeChallenge continuation,
           oco_Nonce = oac_Nonce continuation, oco_CreatedAt = t, oco_ExpiresAt = t + ois_CodeTTL issuer, oco_UsedAt = None\<rparr> in
   bindE (newAudit m (auth_UserID actor) ''oauth.authorization.granted'' ''oauth_grant'' (UUID_String grantID)
       (ors_WorkspaceID resource) AuditSucceeded []) (\<lambda>event.
   bindE (newOAuthChange m ''oauth.authorization.granted'' ''oauth.authorization.granted'' event client grantID 0
       (ors_ID resource) (ors_WorkspaceID resource) (ogr_Scopes grant)) (\<lambda>(change, commit).
   bindE (orMapped m ''oauth.authorization.granted'' (callStore m (\<lambda>ce. CreateOAuthGrantAndCode (m_sha m) ce grant code commit))) (\<lambda>_.
   bindE (emitOAuthChange change) (\<lambda>_.
   ret rawCode)))))))))"

definition CompleteOAuthAuthorization :: "manager \<Rightarrow> oauthModule \<Rightarrow> authentication \<Rightarrow> string \<Rightarrow> bool \<Rightarrow> oauthAuthorizationResult op" where
  "CompleteOAuthAuthorization m srv actor rawContinuation approved = (bindE (requireOAuth m srv) (\<lambda>c.
   bindE (decodeOAuthContinuation m srv rawContinuation) (\<lambda>continuation.
   bindE (pendingAuthorization m actor continuation) (\<lambda>(client, resource, issuer).
   let baseResult = \<lparr>oar_RedirectURI = oac_RedirectURI continuation, oar_Code = [], oar_State = oac_State continuation,
           oar_Issuer = ois_Issuer issuer, oar_Error = []\<rparr> in
   (if \<not> approved then (bindE (denyAuthorization m actor continuation client resource) (\<lambda>_.
     ret (baseResult\<lparr>oar_Error := ''access_denied''\<rparr>)))
      else (bindE (grantAuthorization m c actor continuation client resource issuer) (\<lambda>rawCode.
       ret (baseResult\<lparr>oar_Code := rawCode\<rparr>))))))))"

section \<open>The operations run the store\<close>

context environment
begin

lemma oauth_mutators_run [run_rules]:
  "commitOk c \<Longrightarrow> relates (runs m) (callStore m (\<lambda>ce. storeCreateOAuthIssuer (m_sha m) ce x c))"
  "commitOk c \<Longrightarrow> relates (runs m) (callStore m (\<lambda>ce. storeUpdateOAuthIssuer (m_sha m) ce x c))"
  "commitOk c \<Longrightarrow> relates (runs m) (callStore m (\<lambda>ce. storeSetOAuthIssuerDisabled (m_sha m) ce i b t c))"
  "commitOk c \<Longrightarrow> relates (runs m) (callStore m (\<lambda>ce. storeCreateOAuthProtectedResource (m_sha m) ce rsc c))"
  "commitOk c \<Longrightarrow> relates (runs m) (callStore m (\<lambda>ce. storeSetOAuthProtectedResourceDisabled (m_sha m) ce i b t c))"
  "commitOk c \<Longrightarrow> relates (runs m) (callStore m (\<lambda>ce. CreateOAuthClient (m_sha m) ce cl i t c))"
  "commitOk c \<Longrightarrow> relates (runs m) (callStore m (\<lambda>ce. UpsertOAuthCIMDClient (m_sha m) ce cl c))"
  "commitOk c \<Longrightarrow> relates (runs m) (callStore m (\<lambda>ce. storeRotateOAuthClientCredentials (m_sha m) ce i d1 d2 d3 t c))"
  "commitOk c \<Longrightarrow> relates (runs m) (callStore m (\<lambda>ce. storeSetOAuthClientDisabled (m_sha m) ce i b t c))"
  "commitOk c \<Longrightarrow> relates (runs m) (callStore m (\<lambda>ce. storeCreateOAuthInitialAccessToken (m_sha m) ce it c))"
  "commitOk c \<Longrightarrow> relates (runs m) (callStore m (\<lambda>ce. storeRevokeOAuthInitialAccessToken (m_sha m) ce i t c))"
  "commitOk c \<Longrightarrow> relates (runs m) (callStore m (\<lambda>ce. CreateOAuthGrantAndCode (m_sha m) ce g cd c))"
  "commitOk c \<Longrightarrow> relates (runs m) (callStore m (\<lambda>ce. storeRevokeOAuthGrant (m_sha m) ce i t c))"
  "commitOk c \<Longrightarrow> relates (runs m) (callStore m (\<lambda>ce. ConsumeOAuthAuthorizationCode (m_sha m) ce i t acc rf c))"
  "commitOk c \<Longrightarrow> relates (runs m) (callStore m (\<lambda>ce. CreateOAuthClientAccessToken (m_sha m) ce ct c))"
  "commitOk c \<Longrightarrow> relates (runs m) (callStore m (\<lambda>ce. RevokeOAuthClientAccessToken (m_sha m) ce i t c))"
  "commitOk c \<Longrightarrow> relates (runs m) (callStore m (\<lambda>ce. RotateOAuthRefreshToken (m_sha m) ce i t acc rt c))"
  "commitOk c \<Longrightarrow> relates (runs m) (callStore m (\<lambda>ce. RevokeOAuthAccessToken (m_sha m) ce i t c))"
  "commitOk c \<Longrightarrow> relates (runs m) (callStore m (\<lambda>ce. RevokeOAuthRefreshFamily (m_sha m) ce i t c))"
  by (rule callStore_atomic, rule exI, erule atomicCall.intros, assumption)+

lemma oauth_readers_run [run_rules]:
  "relates (runs m) (callStore m (\<lambda>ce. OAuthIssuerByID ce i))"
  "relates (runs m) (callStore m (\<lambda>ce. OAuthIssuerByURL ce h))"
  "relates (runs m) (callStore m (\<lambda>ce. OAuthProtectedResourceByID ce i))"
  "relates (runs m) (callStore m (\<lambda>ce. OAuthProtectedResourceByURI ce h))"
  "relates (runs m) (callStore m (\<lambda>ce. OAuthClientByID ce i))"
  "relates (runs m) (callStore m (\<lambda>ce. OAuthClientByClientID ce i h))"
  "relates (runs m) (callStore m (\<lambda>ce. OAuthInitialAccessTokenByPrefix ce h))"
  "relates (runs m) (callStore m (\<lambda>ce. OAuthGrantByID ce i))"
  "relates (runs m) (callStore m (\<lambda>ce. OAuthAuthorizationCodeByPrefix ce h))"
  "relates (runs m) (callStore m (\<lambda>ce. OAuthAccessTokenByPrefix ce h))"
  "relates (runs m) (callStore m (\<lambda>ce. OAuthClientAccessTokenByPrefix ce h))"
  "relates (runs m) (callStore m (\<lambda>ce. OAuthRefreshTokenByPrefix ce h))"
  by (rule callStore_reads, simp add: OAuthIssuerByID_def OAuthIssuerByURL_def OAuthProtectedResourceByID_def OAuthProtectedResourceByURI_def OAuthClientByID_def OAuthClientByClientID_def OAuthInitialAccessTokenByPrefix_def OAuthGrantByID_def OAuthAuthorizationCodeByPrefix_def OAuthAccessTokenByPrefix_def OAuthClientAccessTokenByPrefix_def OAuthRefreshTokenByPrefix_def reads_def split: option.split)+

lemma checks_run [run_rules]: "relates (runs m) f \<Longrightarrow> relates (runs m) (orError e f)"
  "relates (runs m) f \<Longrightarrow> relates (runs m) (screened e bad f)"
  unfolding screened_def orError_def by (intro run_rules; assumption)+

lemma requireOAuth_runs [run_rules]: "relates (runs m) (requireOAuth m srv)"
  unfolding requireOAuth_def by (intro run_rules)

lemma oauth_commits:
  assumes "\<And>change c. commitOk c \<Longrightarrow> relates (runs m) (k change c)"
  shows "relates (runs m) (bindE (newOAuthChange m n op aud cl g tk rs ws sc) (\<lambda>(change, c). k change c))"
proof -
  have "bindE (newOAuthChange m n op aud cl g tk rs ws sc) (\<lambda>(change, c). k change c) =
    bindE (newEventMeta m n op (aud_ActorID aud) ws aud) (\<lambda>meta. k \<lparr>och_EventMeta = meta, och_IssuerID = ocl_IssuerID cl,
      och_ClientRecordID = ocl_ID cl, och_ClientSource = ocl_Source cl, och_GrantID = g, och_TokenID = tk, och_ResourceID = rs,
      och_Scopes = sc\<rparr> (transactionalCommit m aud ''oauth.change'' meta))"
    by (rule ext) (simp add: newOAuthChange_def bindE_def ret_def Let_def split: prod.splits sum.splits)
  then show ?thesis by (simp only:) (rule bindE_runs, rule newEventMeta_runs, rule assms, rule commitOk_commits)
qed

lemma emitOAuthChange_runs [run_rules]: "relates (runs m) (emitOAuthChange ch)"
  unfolding emitOAuthChange_def by (intro run_rules)

lemma newOAuthBearer_runs [run_rules]: "relates (runs m) (newOAuthBearer m mk)"
  unfolding newOAuthBearer_def by (intro run_rules)

lemma newOAuthClient_runs [run_rules]: "relates (runs m) (newOAuthClient m srv c iss src inp sec)"
  unfolding newOAuthClient_def by (intro run_rules)

lemma oauthClientFromMetadata_runs [run_rules]: "relates (runs m) (oauthClientFromMetadata m srv c iss doc)"
  unfolding oauthClientFromMetadata_def by (intro run_rules)

lemma emitOAuthCIMDRejected_runs [run_rules]: "relates (runs m) (emitOAuthCIMDRejected m iss h rs)"
  unfolding emitOAuthCIMDRejected_def by (rule oauth_commits run_rules | assumption)+

lemma rejectCIMD_runs [run_rules]: "relates (runs m) (rejectCIMD m iss h rs)"
  unfolding rejectCIMD_def by (intro run_rules)

lemma saveCIMDClient_runs [run_rules]: "relates (runs m) (saveCIMDClient m cl cl2)"
  unfolding saveCIMDClient_def by (rule oauth_commits run_rules | assumption)+

lemma resolveOAuthClient_runs [run_rules]: "relates (runs m) (resolveOAuthClient m srv c iss h)"
  unfolding resolveOAuthClient_def fetchCIMDClient_def by (intro run_rules)

lemma issuers_run [run_rules]: "relates (runs m) (ValidateOAuthAuthorizationRedirect m srv h h2 h3)"
  "relates (runs m) (CreateOAuthIssuer m srv actor local h uoi)" "relates (runs m) (UpdateOAuthIssuer m srv actor local i uoi)"
  "relates (runs m) (CreateOAuthProtectedResource m srv actor i j h defs)"
  unfolding ValidateOAuthAuthorizationRedirect_def CreateOAuthIssuer_def UpdateOAuthIssuer_def CreateOAuthProtectedResource_def
  by (intro run_rules)+

lemma registrations_run [run_rules]: "relates (runs m) (PreRegisterOAuthClient m srv actor local i inp)"
  "relates (runs m) (initialAccessToken m c iss h)" "relates (runs m) (CreateOAuthInitialAccessToken m srv actor local i t n)"
  "relates (runs m) (OAuthInitialAccessTokens m srv actor i)" "relates (runs m) (RevokeOAuthInitialAccessToken m srv actor local i)"
  unfolding PreRegisterOAuthClient_def initialAccessToken_def CreateOAuthInitialAccessToken_def OAuthInitialAccessTokens_def
    RevokeOAuthInitialAccessToken_def
  by (rule oauth_commits run_rules stream_runs | assumption)+

lemma RegisterOAuthClient_runs [run_rules]: "relates (runs m) (RegisterOAuthClient m srv h h2 inp)"
  unfolding RegisterOAuthClient_def by (rule oauth_commits run_rules | assumption)+

lemma authorizeScope_runs [run_rules]: "relates (runs m) (authorizeScope m actor i perms)"
proof (induction perms)
  case (Cons perm perms)
  show ?case unfolding authorizeScope.simps by (intro run_rules Cons)
qed (simp add: run_rules)

lemma authorizedDefinitions_runs [run_rules]: "relates (runs m) (authorizedDefinitions m actor iss rsc scopes rest)"
proof (induction rest)
  case (Cons scope rest)
  show ?case unfolding authorizedDefinitions.simps by (intro run_rules Cons)
qed (simp add: run_rules)

lemma authorizedOAuthScopes_runs [run_rules]: "relates (runs m) (authorizedOAuthScopes m actor iss rsc scopes)"
  unfolding authorizedOAuthScopes_def by (intro run_rules)

lemma continuations_run [run_rules]: "relates (runs m) (encodeOAuthContinuation m srv ct)"
  "relates (runs m) (decodeOAuthContinuation m srv h)" "relates (runs m) (hostnameOf srv h)"
  unfolding encodeOAuthContinuation_def decodeOAuthContinuation_def hostnameOf_def by (intro run_rules)+

lemma assurance_runs [run_rules]: "relates (runs m) (tooWeak m actor defn)" "relates (runs m) (tooOld m actor d)"
  unfolding tooWeak_def tooOld_def by (intro run_rules)+

lemma anyTooWeak_runs [run_rules]: "relates (runs m) (anyTooWeak m actor defs)"
proof (induction defs)
  case (Cons defn defs)
  show ?case unfolding anyTooWeak.simps by (intro run_rules Cons)
qed (simp add: run_rules)

lemma requireAssurance_runs [run_rules]: "relates (runs m) (requireAssurance m actor defs)"
proof (induction defs)
  case (Cons defn defs)
  show ?case unfolding requireAssurance.simps by (intro run_rules Cons)
qed (simp add: run_rules)

lemma BeginOAuthAuthorization_runs [run_rules]: "relates (runs m) (BeginOAuthAuthorization m srv actor boa)"
  unfolding BeginOAuthAuthorization_def by (intro run_rules)

lemma decisions_run [run_rules]: "relates (runs m) (pendingAuthorization m actor ct)"
  "relates (runs m) (denyAuthorization m actor ct cl rsc)" "relates (runs m) (grantAuthorization m c actor ct cl rsc iss)"
  unfolding pendingAuthorization_def denyAuthorization_def grantAuthorization_def
  by (rule oauth_commits run_rules | assumption)+

lemma CompleteOAuthAuthorization_runs [run_rules]: "relates (runs m) (CompleteOAuthAuthorization m srv actor h b)"
  unfolding CompleteOAuthAuthorization_def by (intro run_rules)

end

end
