(* ===== verification/ManagerOAuthTokens.thy ===== *)
theory ManagerOAuthTokens
  imports ManagerOAuth
begin

text \<open>
  The token endpoint and the bearer check of \<^verbatim>\<open>oauth_tokens.go\<close>: the authentication of a client, the
  exchange of a code, the rotation of a refresh token, the client-credentials grant, revocation, the check a
  resource server runs on every request, UserInfo and the discovery documents. The four requests to the
  endpoint share the fields with which a client authenticates.
\<close>

section \<open>Clients and grants\<close>

record oauthClientProof =
  opr_Issuer :: string
  opr_ClientID :: string
  opr_ClientSecret :: string
  opr_ClientSecretInBody :: bool
  opr_ClientAssertion :: string
  opr_ClientAssertionType :: string

definition provesClient :: "manager \<Rightarrow> oauthConfig \<Rightarrow> oauthIssuer \<Rightarrow> oauthClient \<Rightarrow> oauthClientProof \<Rightarrow> unit op" where
  "provesClient m c issuer client proof =
    (if ocl_TokenEndpointAuthMethod client = OAuthAuthNone
     then failIf (opr_ClientSecret proof \<noteq> [] \<or> opr_ClientAssertion proof \<noteq> []) ErrInvalidCredentials
     else if ocl_TokenEndpointAuthMethod client = OAuthAuthClientSecretBasic
     then failIf (opr_ClientAssertion proof \<noteq> [] \<or> opr_ClientSecret proof = [] \<or> opr_ClientSecretInBody proof
       \<or> ocl_SecretDigest client \<noteq> oauthDigest m c ''client-secret'' (opr_ClientSecret proof)) ErrInvalidCredentials
     else if ocl_TokenEndpointAuthMethod client = OAuthAuthPrivateKeyJWT
     then (case oau_ClientAssertions c of
         None \<Rightarrow> fail ErrInvalidCredentials
       | Some verify \<Rightarrow>
           if opr_ClientSecret proof \<noteq> [] \<or> opr_ClientAssertion proof = [] then fail ErrInvalidCredentials
           else (bindE (now m) (\<lambda>t.
            bindE (asking (\<lambda>n. Inr (verify n client (ois_Issuer issuer @ ''/token'') (opr_ClientAssertion proof) t))) (\<lambda>answer.
            failIf (answer \<noteq> None) ErrInvalidCredentials))))
     else fail ErrInvalidCredentials)"

definition jwtBearerAssertionType :: string where
  "jwtBearerAssertionType = ''urn:ietf:params:oauth:client-assertion-type:jwt-bearer''"

definition authenticateOAuthClient :: "manager \<Rightarrow> oauthModule \<Rightarrow> oauthConfig \<Rightarrow> oauthClientProof \<Rightarrow> (oauthIssuer \<times> oauthClient) op" where
  "authenticateOAuthClient m srv c proof = (bindE (failIf (opr_ClientAssertion proof \<noteq> [] \<and> opr_ClientAssertionType proof \<noteq> jwtBearerAssertionType
       \<or> opr_ClientAssertion proof = [] \<and> opr_ClientAssertionType proof \<noteq> []) ErrInvalidCredentials) (\<lambda>_.
   bindE (orError ErrInvalidCredentials (liftR (validateIssuerURL (omd_library srv) (opr_Issuer proof)))) (\<lambda>issuerURL.
   bindE (screened ErrInvalidCredentials (\<lambda>issuer. ois_DisabledAt issuer \<noteq> None) (callStore m (\<lambda>ce. OAuthIssuerByURL ce issuerURL))) (\<lambda>issuer.
   bindE (screened ErrInvalidCredentials (\<lambda>client. ocl_DisabledAt client \<noteq> None) (resolveOAuthClient m srv c issuer (opr_ClientID proof))) (\<lambda>client.
   bindE (provesClient m c issuer client proof) (\<lambda>_.
   ret (issuer, client)))))))"

text \<open>Every scope of a grant still stands for permissions that its user holds.\<close>

fun authorizeGrantScopes :: "manager \<Rightarrow> authentication \<Rightarrow> oauthProtectedResource \<Rightarrow> string list \<Rightarrow> unit op" where
  "authorizeGrantScopes m actor resource [] = ret ()"
| "authorizeGrantScopes m actor resource (scope # scopes) =
    (if oauthReservedScope scope then authorizeGrantScopes m actor resource scopes
     else (case oauthScopeDefinition (ors_Scopes resource) scope of
         None \<Rightarrow> fail ErrInvalidCredentials
       | Some defn \<Rightarrow> (bindE (authorizeScope m actor (ors_WorkspaceID resource) (osd_Permissions defn)) (\<lambda>_.
        authorizeGrantScopes m actor resource scopes))))"

definition sameResource :: "oauthModule \<Rightarrow> string \<Rightarrow> oauthProtectedResource \<Rightarrow> bool" where
  "sameResource srv resourceURI resource \<longleftrightarrow>
     resourceURI = [] \<or> validateResourceURL (omd_library srv) resourceURI = Inr (ors_Resource resource)"

definition activeOAuthGrant :: "manager \<Rightarrow> oauthModule \<Rightarrow> uuid \<Rightarrow> oauthClient \<Rightarrow> string \<Rightarrow> (oauthGrant \<times> oauthProtectedResource) op" where
  "activeOAuthGrant m srv grantID client resourceURI = (bindE (failIf (ocl_DisabledAt client \<noteq> None) ErrInvalidCredentials) (\<lambda>_.
   bindE (screened ErrInvalidCredentials (\<lambda>grant. ogr_RevokedAt grant \<noteq> None \<or> ogr_ClientRecordID grant \<noteq> ocl_ID client
         \<or> ogr_MetadataHash grant \<noteq> ocl_MetadataHash client) (callStore m (\<lambda>ce. OAuthGrantByID ce grantID))) (\<lambda>grant.
   bindE (screened ErrInvalidCredentials (\<lambda>resource. ors_DisabledAt resource \<noteq> None \<or> ors_WorkspaceID resource \<noteq> ogr_WorkspaceID grant)
       (callStore m (\<lambda>ce. OAuthProtectedResourceByID ce (ogr_ResourceID grant)))) (\<lambda>resource.
   bindE (failIf (\<not> sameResource srv resourceURI resource) ErrInvalidCredentials) (\<lambda>_.
   bindE (screened ErrInvalidCredentials (\<lambda>issuer. ois_DisabledAt issuer \<noteq> None \<or> ois_ID issuer \<noteq> ors_IssuerID resource)
       (callStore m (\<lambda>ce. OAuthIssuerByID ce (ogr_IssuerID grant)))) (\<lambda>issuer.
   bindE (screened ErrInvalidCredentials usr_Disabled (callStore m (\<lambda>ce. UserByID ce (ogr_UserID grant)))) (\<lambda>user.
   bindE (screened ErrInvalidCredentials (\<lambda>workspace. wsp_DisabledAt workspace \<noteq> None)
       (callStore m (\<lambda>ce. WorkspaceByID ce (ogr_WorkspaceID grant)))) (\<lambda>workspace.
   bindE (authorizeGrantScopes m (zeroAuthentication\<lparr>auth_UserID := ogr_UserID grant, auth_WorkspaceID := ogr_WorkspaceID grant\<rparr>)
       resource (ogr_Scopes grant)) (\<lambda>_.
   ret (grant, resource))))))))))"

section \<open>Tokens\<close>

definition newOAuthAccessToken :: "manager \<Rightarrow> oauthConfig \<Rightarrow> oauthGrant \<Rightarrow> duration \<Rightarrow> (oauthAccessToken \<times> string) op" where
  "newOAuthAccessToken m c grant ttl = (bindE (newID m) (\<lambda>i.
   bindE (newOAuthBearer m ''cba'') (\<lambda>(prefix, raw).
   bindE (now m) (\<lambda>t.
   ret (\<lparr>oat_ID = i, oat_Prefix = prefix, oat_Digest = oauthDigest m c ''access-token'' raw, oat_GrantID = ogr_ID grant,
           oat_ClientRecordID = ogr_ClientRecordID grant, oat_UserID = ogr_UserID grant, oat_WorkspaceID = ogr_WorkspaceID grant,
           oat_ResourceID = ogr_ResourceID grant, oat_Scopes = ogr_Scopes grant, oat_CreatedAt = t, oat_ExpiresAt = t + ttl,
           oat_RevokedAt = None\<rparr>, raw)))))"

definition newOAuthRefreshToken :: "manager \<Rightarrow> oauthConfig \<Rightarrow> oauthGrant \<Rightarrow> uuid \<Rightarrow> duration \<Rightarrow> (oauthRefreshToken \<times> string) op" where
  "newOAuthRefreshToken m c grant familyID0 ttl = (bindE (newID m) (\<lambda>i.
   bindE ((if familyID0 = 0 then newID m else ret familyID0)) (\<lambda>familyID.
   bindE (newOAuthBearer m ''cbr'') (\<lambda>(prefix, raw).
   bindE (now m) (\<lambda>t.
   ret (\<lparr>ort_ID = i, ort_FamilyID = familyID, ort_Prefix = prefix, ort_Digest = oauthDigest m c ''refresh-token'' raw,
           ort_GrantID = ogr_ID grant, ort_ClientRecordID = ogr_ClientRecordID grant, ort_UserID = ogr_UserID grant,
           ort_WorkspaceID = ogr_WorkspaceID grant, ort_ResourceID = ogr_ResourceID grant, ort_Scopes = ogr_Scopes grant,
           ort_CreatedAt = t, ort_ExpiresAt = t + ttl, ort_UsedAt = None, ort_ReplacedByID = 0, ort_RevokedAt = None\<rparr>, raw))))))"

definition oauthPairwiseSubject :: "manager \<Rightarrow> oauthConfig \<Rightarrow> uuid \<Rightarrow> string \<Rightarrow> uuid \<Rightarrow> string" where
  "oauthPairwiseSubject m c issuerID sectorIdentifier userID = b64Encode (hmac (m_sha m) (oau_Pepper c)
     (toBytes (''oidc-subject'' @ [CHR 0x00] @ UUID_String issuerID @ [CHR 0x00] @ sectorIdentifier @ [CHR 0x00] @ UUID_String userID)))"

text \<open>The address and whether it is verified; a failure of the listing ends the search.\<close>

definition oauthPrimaryEmail :: "manager \<Rightarrow> uuid \<Rightarrow> (string \<times> bool option) op" where
  "oauthPrimaryEmail m userID = (bindE (tryE (callStore m (\<lambda>ce. UserByID ce userID))) (\<lambda>r.
   (case r of
        Inl _ \<Rightarrow> ret ([], None)
      | Inr user \<Rightarrow> if usr_Email user = [] then ret ([], None)
          else (bindE (tryE (findEmail m (m_fuel m) userID [] (\<lambda>email. eml_Primary email \<and> eml_Address email = usr_Email user))) (\<lambda>found.
           ret (usr_Email user, Some (case found of Inr (Some email) \<Rightarrow> eml_VerifiedAt email \<noteq> None | _ \<Rightarrow> False)))))))"

definition Unix :: "time \<Rightarrow> int" where
  "Unix t = t div second"

definition oauthIDToken :: "manager \<Rightarrow> oauthConfig \<Rightarrow> oauthIssuer \<Rightarrow> oauthClient \<Rightarrow> oauthGrant \<Rightarrow> string \<Rightarrow> time \<Rightarrow> string op" where
  "oauthIDToken m c issuer client grant nonce expiresAt =
    (if ''openid'' \<notin> set (ogr_Scopes grant) then ret []
     else (case oau_OIDCSigner c of
         None \<Rightarrow> fail ErrNotSupported
       | Some signer \<Rightarrow> if \<not> ois_OIDCEnabled issuer then fail ErrNotSupported else (bindE (now m) (\<lambda>t.
        bindE ((if ''email'' \<in> set (ogr_Scopes grant) then oauthPrimaryEmail m (ogr_UserID grant) else ret ([], None))) (\<lambda>(email, verified).
        let claims = \<lparr>oid_Issuer = ois_Issuer issuer,
                 oid_Subject = oauthPairwiseSubject m c (ois_ID issuer) (ocl_SectorIdentifier client) (ogr_UserID grant),
                 oid_Audience = ocl_ClientID client, oid_ExpiresAt = Unix expiresAt, oid_IssuedAt = Unix t,
                 oid_AuthTime = Unix (ogr_AuthTime grant), oid_Nonce = nonce,
                 oid_ACR = ''urn:credbound:aal:'' @ FormatInt (int (ogr_AAL grant)),
                 oid_AMR = (if ogr_AuthMethod grant \<noteq> MethodNone then [ogr_AuthMethod grant] else []),
                 oid_Email = email, oid_EmailVerified = verified\<rparr> in
        asking (\<lambda>n. osg_SignIDToken signer n claims))))))"

record oauthTokenResponse =
  otr_AccessToken :: string
  otr_ExpiresIn :: int
  otr_RefreshToken :: string
  otr_Scope :: string
  otr_IDToken :: string

text \<open>Go's division of a duration by a second rounds towards zero.\<close>

definition wholeSeconds :: "duration \<Rightarrow> int" where
  "wholeSeconds d = (if d \<ge> 0 then d div second else - ((- d) div second))"

definition tokenResponse :: "string \<Rightarrow> duration \<Rightarrow> string \<Rightarrow> string list \<Rightarrow> string \<Rightarrow> oauthTokenResponse" where
  "tokenResponse rawAccess ttl rawRefresh scopes idToken = \<lparr>otr_AccessToken = rawAccess, otr_ExpiresIn = wholeSeconds ttl,
     otr_RefreshToken = rawRefresh, otr_Scope = Join scopes '' '', otr_IDToken = idToken\<rparr>"

definition mapOAuthCredentialStoreError :: "manager \<Rightarrow> string \<Rightarrow> error \<Rightarrow> 'a op" where
  "mapOAuthCredentialStoreError m operation err =
    (if errorsIs err ErrConflict \<or> errorsIs err ErrExpired then fail ErrInvalidCredentials else mapStoreError m operation err)"

definition orCredentialMapped :: "manager \<Rightarrow> string \<Rightarrow> 'a op \<Rightarrow> 'a op" where
  "orCredentialMapped m operation f = (bindE (tryE f) (\<lambda>r.
   (case r of Inr x \<Rightarrow> ret x | Inl err \<Rightarrow> mapOAuthCredentialStoreError m operation err)))"

text \<open>An audit event whose actor is the client.\<close>

definition clientAudit :: "manager \<Rightarrow> oauthClient \<Rightarrow> string \<Rightarrow> string \<Rightarrow> string \<Rightarrow> uuid \<Rightarrow> string \<Rightarrow> auditEvent op" where
  "clientAudit m client action resourceType resourceID workspaceID reason = (bindE (newAudit m (ocl_ID client) action resourceType resourceID workspaceID AuditSucceeded reason) (\<lambda>event.
   ret (event\<lparr>aud_ActorKind := ActorService\<rparr>)))"

section \<open>The authorization code\<close>

text \<open>Best effort: whatever fails, the exchange goes on to refuse the code.\<close>

definition revokeOAuthGrantForCodeReplay :: "manager \<Rightarrow> oauthClient \<Rightarrow> oauthAuthorizationCode \<Rightarrow> unit op" where
  "revokeOAuthGrantForCodeReplay m client code = (bindE (tryE ((bindE (callStore m (\<lambda>ce. OAuthGrantByID ce (oco_GrantID code))) (\<lambda>grant.
     (if ogr_RevokedAt grant \<noteq> None then ret () else (bindE (clientAudit m client ''oauth.code.reuse_detected'' ''oauth_grant'' (UUID_String (ogr_ID grant)) (ogr_WorkspaceID grant) ''reuse_detected'') (\<lambda>audit.
       bindE (newOAuthChange m ''oauth.authorization_code.reuse_detected'' ''oauth.code.reuse_detected'' audit client (ogr_ID grant) 0
            (ogr_ResourceID grant) (ogr_WorkspaceID grant) (ogr_Scopes grant)) (\<lambda>(change, commit).
       bindE (now m) (\<lambda>t.
       bindE (callStore m (\<lambda>ce. storeRevokeOAuthGrant (m_sha m) ce (ogr_ID grant) t commit)) (\<lambda>_.
       emitOAuthChange change)))))))))) (\<lambda>r.
   ret ()))"

record exchangeOAuthAuthorizationCodeInput =
  exi_Proof :: oauthClientProof
  exi_Code :: string
  exi_RedirectURI :: string
  exi_CodeVerifier :: string
  exi_Resource :: string

text \<open>The code that is presented, with the grant it stands for: authentic, unused, fresh and proved.\<close>

definition redeemableCode :: "manager \<Rightarrow> oauthModule \<Rightarrow> oauthConfig \<Rightarrow> oauthClient \<Rightarrow> exchangeOAuthAuthorizationCodeInput
    \<Rightarrow> (oauthAuthorizationCode \<times> oauthGrant \<times> oauthProtectedResource) op" where
  "redeemableCode m srv c client input = (case parseOAuthBearer ''cbc'' (exi_Code input) of
     None \<Rightarrow> fail ErrInvalidCredentials
   | Some prefix \<Rightarrow> if \<not> pkceVerifierPattern (exi_CodeVerifier input) then fail ErrInvalidCredentials else (bindE (screened ErrInvalidCredentials (\<lambda>code. oco_ClientRecordID code \<noteq> ocl_ID client
           \<or> oco_Digest code \<noteq> oauthDigest m c ''authorization-code'' (exi_Code input))
         (callStore m (\<lambda>ce. OAuthAuthorizationCodeByPrefix ce prefix))) (\<lambda>code.
    bindE ((if oco_UsedAt code \<noteq> None then (bindE (revokeOAuthGrantForCodeReplay m client code) (\<lambda>_.
      fail ErrInvalidCredentials)) else ret ())) (\<lambda>_.
    bindE (failIf (oco_RedirectURI code \<noteq> exi_RedirectURI input) ErrInvalidCredentials) (\<lambda>_.
    bindE (now m) (\<lambda>t.
    bindE (failIf (\<not> t < oco_ExpiresAt code \<or> \<not> verifyPKCE (m_sha m) (exi_CodeVerifier input) (oco_CodeChallenge code)) ErrInvalidCredentials) (\<lambda>_.
    bindE (screened ErrInvalidCredentials (\<lambda>(grant, resource). ors_ID resource \<noteq> oco_ResourceID code
           \<or> ogr_Scopes grant \<noteq> oco_Scopes code) (activeOAuthGrant m srv (oco_GrantID code) client (exi_Resource input))) (\<lambda>(grant, resource).
    ret (code, grant, resource)))))))))"

definition ExchangeOAuthAuthorizationCode :: "manager \<Rightarrow> oauthModule \<Rightarrow> exchangeOAuthAuthorizationCodeInput \<Rightarrow> oauthTokenResponse op" where
  "ExchangeOAuthAuthorizationCode m srv input = (bindE (requireOAuth m srv) (\<lambda>c.
   bindE (authenticateOAuthClient m srv c (exi_Proof input)) (\<lambda>(issuer, client).
   bindE (redeemableCode m srv c client input) (\<lambda>(code, grant, resource).
   bindE (newOAuthAccessToken m c grant (ois_AccessTokenTTL issuer)) (\<lambda>(access, rawAccess).
   bindE ((if ''offline_access'' \<in> set (ogr_Scopes grant) \<and> ''refresh_token'' \<in> set (ocl_GrantTypes client)
       then (bindE (newOAuthRefreshToken m c grant 0 (ois_RefreshTokenTTL issuer)) (\<lambda>(value, raw).
        ret (Some value, raw)))
       else ret (None, []))) (\<lambda>(refresh, rawRefresh).
   bindE (clientAudit m client ''oauth.token.issued'' ''oauth_grant'' (UUID_String (ogr_ID grant)) (ogr_WorkspaceID grant) []) (\<lambda>audit.
   bindE (newOAuthChange m ''oauth.token.issued'' ''oauth.token.exchange'' audit client (ogr_ID grant) (oat_ID access)
       (ors_ID resource) (ogr_WorkspaceID grant) (ogr_Scopes grant)) (\<lambda>(change, commit).
   bindE (now m) (\<lambda>t.
   bindE (orCredentialMapped m ''oauth.token.exchange''
       (callStore m (\<lambda>ce. ConsumeOAuthAuthorizationCode (m_sha m) ce (oco_ID code) t access refresh commit))) (\<lambda>_.
   bindE (emitOAuthChange change) (\<lambda>_.
   bindE (oauthIDToken m c issuer client grant (oco_Nonce code) (oat_ExpiresAt access)) (\<lambda>idToken.
   ret (tokenResponse rawAccess (ois_AccessTokenTTL issuer) rawRefresh (ogr_Scopes grant) idToken)))))))))))))"

section \<open>Client credentials\<close>

definition clientCredentialsScopes :: "oauthClient \<Rightarrow> oauthProtectedResource \<Rightarrow> string list \<Rightarrow> string list result" where
  "clientCredentialsScopes client resource requested =
    (let allowed = (\<lambda>scope. \<not> oauthReservedScope scope \<and> oauthScopeDefinition (ors_Scopes resource) scope \<noteq> None
           \<and> scope \<in> set (ocl_Scopes client))
     in if requested = [] then Inr (filter allowed (map osd_Name (ors_Scopes resource)))
        else if list_all (\<lambda>scope. allowed (TrimSpace scope)) requested then Inr (map TrimSpace requested)
        else Inl ErrForbidden)"

definition IssueOAuthClientCredentials :: "manager \<Rightarrow> oauthModule \<Rightarrow> oauthClientProof \<Rightarrow> string \<Rightarrow> string list \<Rightarrow> oauthTokenResponse op" where
  "IssueOAuthClientCredentials m srv proof rawResource requested = (bindE (requireOAuth m srv) (\<lambda>c.
   bindE (authenticateOAuthClient m srv c proof) (\<lambda>(issuer, client).
   bindE (failIf (ocl_TokenEndpointAuthMethod client = OAuthAuthNone \<or> ocl_Source client \<noteq> OAuthClientPreRegistered
       \<or> ''client_credentials'' \<notin> set (ocl_GrantTypes client)) ErrForbidden) (\<lambda>_.
   bindE (liftR (validateResourceURL (omd_library srv) rawResource)) (\<lambda>resourceURL.
   bindE (failIf (resourceURL \<notin> set (ocl_ClientCredentialsResources client)) ErrForbidden) (\<lambda>_.
   bindE (screened ErrForbidden (\<lambda>resource. ors_IssuerID resource \<noteq> ois_ID issuer \<or> ors_DisabledAt resource \<noteq> None)
       (callStore m (\<lambda>ce. OAuthProtectedResourceByURI ce resourceURL))) (\<lambda>resource.
   bindE (liftR (clientCredentialsScopes client resource requested)) (\<lambda>scopes.
   bindE (newID m) (\<lambda>i.
   bindE (newOAuthBearer m ''cba'') (\<lambda>(prefix, raw).
   bindE (now m) (\<lambda>t.
   let token = \<lparr>oct_ID = i, oct_Prefix = prefix, oct_Digest = oauthDigest m c ''access-token'' raw, oct_ClientRecordID = ocl_ID client,
           oct_IssuerID = ois_ID issuer, oct_ResourceID = ors_ID resource, oct_WorkspaceID = ors_WorkspaceID resource, oct_Scopes = scopes,
           oct_CreatedAt = t, oct_ExpiresAt = t + ois_AccessTokenTTL issuer, oct_RevokedAt = None\<rparr> in
   bindE (clientAudit m client ''oauth.token.client_credentials'' ''oauth_client'' (UUID_String (ocl_ID client)) (ors_WorkspaceID resource) []) (\<lambda>audit.
   bindE (orCredentialMapped m ''oauth.token.client_credentials''
       (callStore m (\<lambda>ce. CreateOAuthClientAccessToken (m_sha m) ce token (auditOnly audit)))) (\<lambda>_.
   ret (tokenResponse raw (ois_AccessTokenTTL issuer) [] scopes []))))))))))))))"

section \<open>Refresh tokens\<close>

definition revokeOAuthRefreshFamily :: "manager \<Rightarrow> oauthRefreshToken \<Rightarrow> oauthClient \<Rightarrow> string \<Rightarrow> unit op" where
  "revokeOAuthRefreshFamily m token client reason = (bindE (clientAudit m client ''oauth.refresh_family.revoked'' ''oauth_refresh_family'' (UUID_String (ort_FamilyID token))
       (ort_WorkspaceID token) reason) (\<lambda>audit.
   bindE (newOAuthChange m (if reason = ''reuse_detected'' then ''oauth.refresh_token.reuse_detected'' else ''oauth.token.revoked'')
       ''oauth.refresh_family.revoke'' audit client (ort_GrantID token) (ort_ID token) (ort_ResourceID token) (ort_WorkspaceID token)
       (ort_Scopes token)) (\<lambda>(change, commit).
   bindE (now m) (\<lambda>t.
   bindE (orMapped m ''oauth.refresh_family.revoke'' (callStore m (\<lambda>ce. RevokeOAuthRefreshFamily (m_sha m) ce (ort_FamilyID token) t commit))) (\<lambda>_.
   emitOAuthChange change)))))"

definition refuseReuse :: "manager \<Rightarrow> oauthRefreshToken \<Rightarrow> oauthClient \<Rightarrow> 'a op" where
  "refuseReuse m token client = (bindE (tryE (revokeOAuthRefreshFamily m token client ''reuse_detected'')) (\<lambda>r.
   fail ErrInvalidCredentials))"

record refreshOAuthTokenInput =
  rfi_Proof :: oauthClientProof
  rfi_RefreshToken :: string
  rfi_Resource :: string
  rfi_Scopes :: "string list"

definition narrowedScopes :: "string list \<Rightarrow> string list \<Rightarrow> string list result" where
  "narrowedScopes requested granted =
    (if requested = [] then Inr granted
     else case normalizeOptionalOAuthScopes requested of
         Inl _ \<Rightarrow> Inl ErrInvalidInput
       | Inr scopes \<Rightarrow> if scopesSubset scopes granted then Inr scopes else Inl ErrInvalidInput)"

text \<open>The refresh token that is presented: authentic, unused and fresh, of a grant that is active.\<close>

definition rotatableToken :: "manager \<Rightarrow> oauthModule \<Rightarrow> oauthConfig \<Rightarrow> oauthClient \<Rightarrow> refreshOAuthTokenInput
    \<Rightarrow> (oauthRefreshToken \<times> oauthGrant \<times> oauthProtectedResource) op" where
  "rotatableToken m srv c client input = (case parseOAuthBearer ''cbr'' (rfi_RefreshToken input) of
     None \<Rightarrow> fail ErrInvalidCredentials
   | Some prefix \<Rightarrow> (bindE (screened ErrInvalidCredentials (\<lambda>previous. ort_ClientRecordID previous \<noteq> ocl_ID client
           \<or> ort_Digest previous \<noteq> oauthDigest m c ''refresh-token'' (rfi_RefreshToken input))
         (callStore m (\<lambda>ce. OAuthRefreshTokenByPrefix ce prefix))) (\<lambda>previous.
    bindE ((if ort_UsedAt previous \<noteq> None \<or> ort_RevokedAt previous \<noteq> None then refuseReuse m previous client else ret ())) (\<lambda>_.
    bindE (now m) (\<lambda>t.
    bindE (failIf (\<not> t < ort_ExpiresAt previous) ErrExpired) (\<lambda>_.
    bindE (screened ErrInvalidCredentials (\<lambda>(grant, resource). ors_ID resource \<noteq> ort_ResourceID previous)
         (activeOAuthGrant m srv (ort_GrantID previous) client (rfi_Resource input))) (\<lambda>(grant, resource).
    ret (previous, grant, resource))))))))"

definition RefreshOAuthToken :: "manager \<Rightarrow> oauthModule \<Rightarrow> refreshOAuthTokenInput \<Rightarrow> oauthTokenResponse op" where
  "RefreshOAuthToken m srv input = (bindE (requireOAuth m srv) (\<lambda>c.
   bindE (authenticateOAuthClient m srv c (rfi_Proof input)) (\<lambda>(issuer, client).
   bindE (rotatableToken m srv c client input) (\<lambda>(previous, grant0, resource).
   bindE (liftR (narrowedScopes (rfi_Scopes input) (ort_Scopes previous))) (\<lambda>scopes.
   let grant = grant0\<lparr>ogr_Scopes := scopes\<rparr> in
   bindE (newOAuthAccessToken m c grant (ois_AccessTokenTTL issuer)) (\<lambda>(access, rawAccess).
   bindE (newOAuthRefreshToken m c grant (ort_FamilyID previous) (ois_RefreshTokenTTL issuer)) (\<lambda>(replacement, rawRefresh).
   bindE (clientAudit m client ''oauth.token.refreshed'' ''oauth_grant'' (UUID_String (ogr_ID grant)) (ogr_WorkspaceID grant) []) (\<lambda>audit.
   bindE (newOAuthChange m ''oauth.token.refreshed'' ''oauth.token.refresh'' audit client (ogr_ID grant) (oat_ID access)
       (ors_ID resource) (ogr_WorkspaceID grant) scopes) (\<lambda>(change, commit).
   bindE (now m) (\<lambda>t.
   bindE (tryE (callStore m (\<lambda>ce. RotateOAuthRefreshToken (m_sha m) ce (ort_ID previous) t access replacement commit))) (\<lambda>r.
   bindE ((case r of
        Inr _ \<Rightarrow> ret ()
      | Inl err \<Rightarrow> if errorsIs err ErrConflict \<or> errorsIs err ErrInvalidCredentials then refuseReuse m previous client
          else mapStoreError m ''oauth.token.refresh'' err)) (\<lambda>_.
   bindE (emitOAuthChange change) (\<lambda>_.
   bindE (oauthIDToken m c issuer client grant [] (oat_ExpiresAt access)) (\<lambda>idToken.
   ret (tokenResponse rawAccess (ois_AccessTokenTTL issuer) rawRefresh scopes idToken)))))))))))))))"

section \<open>Revocation\<close>

definition revokeOAuthClientAccessToken :: "manager \<Rightarrow> oauthConfig \<Rightarrow> oauthClient \<Rightarrow> string \<Rightarrow> string \<Rightarrow> time \<Rightarrow> unit op" where
  "revokeOAuthClientAccessToken m c client prefix raw t = (bindE (tryE (callStore m (\<lambda>ce. OAuthClientAccessTokenByPrefix ce prefix))) (\<lambda>r.
   (case r of
        Inl _ \<Rightarrow> ret ()
      | Inr token \<Rightarrow>
          if oct_ClientRecordID token \<noteq> ocl_ID client \<or> oct_RevokedAt token \<noteq> None
            \<or> oct_Digest token \<noteq> oauthDigest m c ''access-token'' raw then ret ()
          else (bindE (clientAudit m client ''oauth.token.revoked'' ''oauth_client_access_token'' (UUID_String (oct_ID token))
              (oct_WorkspaceID token) []) (\<lambda>audit.
           bindE (newOAuthChange m ''oauth.token.revoked'' ''oauth.token.revoke'' audit client 0 (oct_ID token)
              (oct_ResourceID token) (oct_WorkspaceID token) (oct_Scopes token)) (\<lambda>(change, commit).
           bindE (orMapped m ''oauth.token.revoke'' (callStore m (\<lambda>ce. RevokeOAuthClientAccessToken (m_sha m) ce (oct_ID token) t commit))) (\<lambda>_.
           emitOAuthChange change)))))))"

definition revokePresentedAccess :: "manager \<Rightarrow> oauthConfig \<Rightarrow> oauthClient \<Rightarrow> string \<Rightarrow> string \<Rightarrow> time \<Rightarrow> unit op" where
  "revokePresentedAccess m c client prefix raw t = (bindE (tryE (callStore m (\<lambda>ce. OAuthAccessTokenByPrefix ce prefix))) (\<lambda>r.
   (case r of
        Inl _ \<Rightarrow> revokeOAuthClientAccessToken m c client prefix raw t
      | Inr token \<Rightarrow>
          if oat_ClientRecordID token \<noteq> ocl_ID client \<or> oat_Digest token \<noteq> oauthDigest m c ''access-token'' raw
          then revokeOAuthClientAccessToken m c client prefix raw t
          else (bindE (clientAudit m client ''oauth.token.revoked'' ''oauth_access_token'' (UUID_String (oat_ID token)) (oat_WorkspaceID token) []) (\<lambda>audit.
           bindE (newOAuthChange m ''oauth.token.revoked'' ''oauth.token.revoke'' audit client (oat_GrantID token) (oat_ID token)
              (oat_ResourceID token) (oat_WorkspaceID token) (oat_Scopes token)) (\<lambda>(change, commit).
           bindE (orMapped m ''oauth.token.revoke'' (callStore m (\<lambda>ce. RevokeOAuthAccessToken (m_sha m) ce (oat_ID token) t commit))) (\<lambda>_.
           emitOAuthChange change)))))))"

definition RevokeOAuthToken :: "manager \<Rightarrow> oauthModule \<Rightarrow> oauthClientProof \<Rightarrow> string \<Rightarrow> unit op" where
  "RevokeOAuthToken m srv proof raw = (bindE (requireOAuth m srv) (\<lambda>c.
   bindE (authenticateOAuthClient m srv c proof) (\<lambda>(issuer, client).
   bindE (now m) (\<lambda>t.
   (case parseOAuthBearer ''cba'' raw of
        Some prefix \<Rightarrow> revokePresentedAccess m c client prefix raw t
      | None \<Rightarrow> (case parseOAuthBearer ''cbr'' raw of
           None \<Rightarrow> ret ()
         | Some prefix \<Rightarrow> (bindE (tryE (callStore m (\<lambda>ce. OAuthRefreshTokenByPrefix ce prefix))) (\<lambda>r.
          (case r of
                Inl _ \<Rightarrow> ret ()
              | Inr token \<Rightarrow>
                  if ort_ClientRecordID token \<noteq> ocl_ID client \<or> ort_Digest token \<noteq> oauthDigest m c ''refresh-token'' raw then ret ()
                  else revokeOAuthRefreshFamily m token client ''client_revocation'')))))))))"

section \<open>Bearer authentication\<close>

record oauthAuthentication =
  oaa_TokenID :: uuid
  oaa_GrantID :: uuid
  oaa_ClientRecordID :: uuid
  oaa_ClientID :: string
  oaa_UserID :: uuid
  oaa_WorkspaceID :: uuid
  oaa_Resource :: string
  oaa_Scopes :: "string list"
  oaa_AuthenticatedAt :: time

definition authenticateOAuthClientToken :: "manager \<Rightarrow> oauthModule \<Rightarrow> oauthConfig \<Rightarrow> string \<Rightarrow> string \<Rightarrow> string \<Rightarrow> oauthAuthentication op" where
  "authenticateOAuthClientToken m srv c prefix raw resourceURI = (bindE (screened ErrInvalidCredentials (\<lambda>token. oct_RevokedAt token \<noteq> None) (callStore m (\<lambda>ce. OAuthClientAccessTokenByPrefix ce prefix))) (\<lambda>token.
   bindE (now m) (\<lambda>t.
   bindE (failIf (\<not> t < oct_ExpiresAt token \<or> oct_Digest token \<noteq> oauthDigest m c ''access-token'' raw) ErrInvalidCredentials) (\<lambda>_.
   bindE (screened ErrInvalidCredentials (\<lambda>client. ocl_DisabledAt client \<noteq> None \<or> ocl_IssuerID client \<noteq> oct_IssuerID token
         \<or> ocl_Source client \<noteq> OAuthClientPreRegistered) (callStore m (\<lambda>ce. OAuthClientByID ce (oct_ClientRecordID token)))) (\<lambda>client.
   bindE (screened ErrInvalidCredentials (\<lambda>issuer. ois_DisabledAt issuer \<noteq> None) (callStore m (\<lambda>ce. OAuthIssuerByID ce (oct_IssuerID token)))) (\<lambda>issuer.
   bindE (screened ErrInvalidCredentials (\<lambda>resource. ors_DisabledAt resource \<noteq> None \<or> ors_IssuerID resource \<noteq> ois_ID issuer
         \<or> ors_WorkspaceID resource \<noteq> oct_WorkspaceID token) (callStore m (\<lambda>ce. OAuthProtectedResourceByID ce (oct_ResourceID token)))) (\<lambda>resource.
   bindE (failIf (ors_Resource resource \<notin> set (ocl_ClientCredentialsResources client)) ErrInvalidCredentials) (\<lambda>_.
   bindE (failIf (\<not> sameResource srv resourceURI resource) ErrInvalidCredentials) (\<lambda>_.
   bindE (screened ErrInvalidCredentials (\<lambda>workspace. wsp_DisabledAt workspace \<noteq> None)
       (callStore m (\<lambda>ce. WorkspaceByID ce (oct_WorkspaceID token)))) (\<lambda>workspace.
   bindE (now m) (\<lambda>t'.
   ret \<lparr>oaa_TokenID = oct_ID token, oaa_GrantID = 0, oaa_ClientRecordID = ocl_ID client, oaa_ClientID = ocl_ClientID client,
          oaa_UserID = 0, oaa_WorkspaceID = oct_WorkspaceID token, oaa_Resource = ors_Resource resource, oaa_Scopes = oct_Scopes token,
          oaa_AuthenticatedAt = t'\<rparr>)))))))))))"

definition authenticateOAuthUserToken :: "manager \<Rightarrow> oauthModule \<Rightarrow> oauthConfig \<Rightarrow> oauthAccessToken \<Rightarrow> string \<Rightarrow> string \<Rightarrow> oauthAuthentication op" where
  "authenticateOAuthUserToken m srv c token raw resourceURI = (bindE (failIf (oat_RevokedAt token \<noteq> None) ErrInvalidCredentials) (\<lambda>_.
   bindE (now m) (\<lambda>t.
   bindE (failIf (\<not> t < oat_ExpiresAt token \<or> oat_Digest token \<noteq> oauthDigest m c ''access-token'' raw) ErrInvalidCredentials) (\<lambda>_.
   bindE (orError ErrInvalidCredentials (callStore m (\<lambda>ce. OAuthClientByID ce (oat_ClientRecordID token)))) (\<lambda>client.
   bindE (screened ErrInvalidCredentials (\<lambda>(grant, resource). oat_ResourceID token \<noteq> ors_ID resource
         \<or> oat_UserID token \<noteq> ogr_UserID grant \<or> oat_WorkspaceID token \<noteq> ogr_WorkspaceID grant
         \<or> \<not> scopesSubset (oat_Scopes token) (ogr_Scopes grant)) (activeOAuthGrant m srv (oat_GrantID token) client resourceURI)) (\<lambda>(grant, resource).
   bindE (now m) (\<lambda>t'.
   ret \<lparr>oaa_TokenID = oat_ID token, oaa_GrantID = ogr_ID grant, oaa_ClientRecordID = ocl_ID client, oaa_ClientID = ocl_ClientID client,
          oaa_UserID = oat_UserID token, oaa_WorkspaceID = oat_WorkspaceID token, oaa_Resource = ors_Resource resource,
          oaa_Scopes = oat_Scopes token, oaa_AuthenticatedAt = t'\<rparr>)))))))"

definition AuthenticateOAuthAccessToken :: "manager \<Rightarrow> oauthModule \<Rightarrow> string \<Rightarrow> string \<Rightarrow> oauthAuthentication op" where
  "AuthenticateOAuthAccessToken m srv resourceURI raw = (bindE (requireOAuth m srv) (\<lambda>c.
   (case parseOAuthBearer ''cba'' raw of
        None \<Rightarrow> fail ErrInvalidCredentials
      | Some prefix \<Rightarrow> (bindE (tryE (callStore m (\<lambda>ce. OAuthAccessTokenByPrefix ce prefix))) (\<lambda>r.
       (case r of
             Inl err \<Rightarrow> if errorsIs err ErrNotFound then authenticateOAuthClientToken m srv c prefix raw resourceURI
               else fail ErrInvalidCredentials
           | Inr token \<Rightarrow> authenticateOAuthUserToken m srv c token raw resourceURI))))))"

section \<open>OpenID Connect and discovery\<close>

record oidcUserInfo =
  oui_Subject :: string
  oui_Email :: string
  oui_EmailVerified :: "bool option"

definition OAuthUserInfo :: "manager \<Rightarrow> oauthModule \<Rightarrow> string \<Rightarrow> string \<Rightarrow> oidcUserInfo op" where
  "OAuthUserInfo m srv issuerURL0 raw = (bindE (requireOAuth m srv) (\<lambda>c.
   bindE (liftR (validateIssuerURL (omd_library srv) issuerURL0)) (\<lambda>issuerURL.
   bindE (screened ErrNotSupported (\<lambda>issuer. \<not> ois_OIDCEnabled issuer \<or> ois_DisabledAt issuer \<noteq> None)
       (callStore m (\<lambda>ce. OAuthIssuerByURL ce issuerURL))) (\<lambda>issuer.
   bindE ((case parseOAuthBearer ''cba'' raw of None \<Rightarrow> fail ErrInvalidCredentials | Some prefix \<Rightarrow> ret prefix)) (\<lambda>prefix.
   bindE (screened ErrInvalidCredentials (\<lambda>token. oat_RevokedAt token \<noteq> None) (callStore m (\<lambda>ce. OAuthAccessTokenByPrefix ce prefix))) (\<lambda>token.
   bindE (now m) (\<lambda>t.
   bindE (failIf (\<not> t < oat_ExpiresAt token \<or> oat_Digest token \<noteq> oauthDigest m c ''access-token'' raw
       \<or> ''openid'' \<notin> set (oat_Scopes token)) ErrInvalidCredentials) (\<lambda>_.
   bindE (screened ErrInvalidCredentials (\<lambda>grant. ogr_IssuerID grant \<noteq> ois_ID issuer \<or> ogr_RevokedAt grant \<noteq> None)
       (callStore m (\<lambda>ce. OAuthGrantByID ce (oat_GrantID token)))) (\<lambda>grant.
   bindE (orError ErrInvalidCredentials (callStore m (\<lambda>ce. OAuthClientByID ce (oat_ClientRecordID token)))) (\<lambda>client.
   bindE (screened ErrInvalidCredentials usr_Disabled (callStore m (\<lambda>ce. UserByID ce (oat_UserID token)))) (\<lambda>user.
   bindE (screened ErrInvalidCredentials (\<lambda>workspace. wsp_DisabledAt workspace \<noteq> None)
       (callStore m (\<lambda>ce. WorkspaceByID ce (ogr_WorkspaceID grant)))) (\<lambda>workspace.
   bindE ((if ''email'' \<in> set (oat_Scopes token) then oauthPrimaryEmail m (oat_UserID token) else ret ([], None))) (\<lambda>(email, verified).
   ret \<lparr>oui_Subject = oauthPairwiseSubject m c (ois_ID issuer) (ocl_SectorIdentifier client) (oat_UserID token),
          oui_Email = email, oui_EmailVerified = verified\<rparr>)))))))))))))"

record oauthAuthorizationServerMetadata =
  osm_Issuer :: string
  osm_AuthorizationEndpoint :: string
  osm_TokenEndpoint :: string
  osm_RevocationEndpoint :: string
  osm_RegistrationEndpoint :: string
  osm_JWKSURI :: string
  osm_UserInfoEndpoint :: string
  osm_ResponseTypesSupported :: "string list"
  osm_GrantTypesSupported :: "string list"
  osm_TokenEndpointAuthMethodsSupported :: "string list"
  osm_CodeChallengeMethodsSupported :: "string list"
  osm_AuthorizationResponseIssuerParameterSupport :: bool
  osm_ClientIDMetadataDocumentSupported :: bool
  osm_SubjectTypesSupported :: "string list"
  osm_IDTokenSigningAlgValuesSupported :: "string list"

definition getOAuthAuthorizationServerMetadata :: "manager \<Rightarrow> oauthModule \<Rightarrow> string \<Rightarrow> oauthAuthorizationServerMetadata op" where
  "getOAuthAuthorizationServerMetadata m srv issuerURL0 = (bindE (requireOAuth m srv) (\<lambda>c.
   bindE (liftR (validateIssuerURL (omd_library srv) issuerURL0)) (\<lambda>issuerURL.
   bindE (screened ErrNotFound (\<lambda>issuer. ois_DisabledAt issuer \<noteq> None) (callStore m (\<lambda>ce. OAuthIssuerByURL ce issuerURL))) (\<lambda>issuer.
   let base = ois_Issuer issuer in
   ret \<lparr>osm_Issuer = base, osm_AuthorizationEndpoint = base @ ''/authorize'', osm_TokenEndpoint = base @ ''/token'',
          osm_RevocationEndpoint = base @ ''/revoke'',
          osm_RegistrationEndpoint = (if ois_DCRMode issuer \<noteq> OAuthDCRDisabled then base @ ''/register'' else []),
          osm_JWKSURI = (if ois_OIDCEnabled issuer then base @ ''/.well-known/jwks.json'' else []),
          osm_UserInfoEndpoint = (if ois_OIDCEnabled issuer then base @ ''/userinfo'' else []),
          osm_ResponseTypesSupported = [''code''],
          osm_GrantTypesSupported = [''authorization_code'', ''refresh_token'', ''client_credentials''],
          osm_TokenEndpointAuthMethodsSupported = [OAuthAuthNone, OAuthAuthPrivateKeyJWT, OAuthAuthClientSecretBasic],
          osm_CodeChallengeMethodsSupported = [''S256''], osm_AuthorizationResponseIssuerParameterSupport = True,
          osm_ClientIDMetadataDocumentSupported = (ois_CIMDMode issuer \<noteq> OAuthCIMDDisabled),
          osm_SubjectTypesSupported = (if ois_OIDCEnabled issuer then [''pairwise''] else []),
          osm_IDTokenSigningAlgValuesSupported = (if ois_OIDCEnabled issuer
            then (case oau_OIDCSigner c of None \<Rightarrow> [] | Some signer \<Rightarrow> osg_Algorithms signer) else [])\<rparr>))))"

record oauthProtectedResourceMetadata =
  opm_Resource :: string
  opm_AuthorizationServers :: "string list"
  opm_ScopesSupported :: "string list"
  opm_BearerMethods :: "string list"

definition getOAuthProtectedResourceMetadata :: "manager \<Rightarrow> oauthModule \<Rightarrow> string \<Rightarrow> oauthProtectedResourceMetadata op" where
  "getOAuthProtectedResourceMetadata m srv resourceURI0 = (bindE (requireOAuth m srv) (\<lambda>c.
   bindE (liftR (validateResourceURL (omd_library srv) resourceURI0)) (\<lambda>resourceURI.
   bindE (screened ErrNotFound (\<lambda>resource. ors_DisabledAt resource \<noteq> None) (callStore m (\<lambda>ce. OAuthProtectedResourceByURI ce resourceURI))) (\<lambda>resource.
   bindE (screened ErrNotFound (\<lambda>issuer. ois_DisabledAt issuer \<noteq> None) (callStore m (\<lambda>ce. OAuthIssuerByID ce (ors_IssuerID resource)))) (\<lambda>issuer.
   ret \<lparr>opm_Resource = ors_Resource resource, opm_AuthorizationServers = [ois_Issuer issuer],
          opm_ScopesSupported = map osd_Name (ors_Scopes resource), opm_BearerMethods = [''header'']\<rparr>)))))"

definition OAuthJWKS :: "manager \<Rightarrow> oauthModule \<Rightarrow> string \<Rightarrow> bytes op" where
  "OAuthJWKS m srv issuerURL0 = (bindE (requireOAuth m srv) (\<lambda>c.
   bindE (liftR (validateIssuerURL (omd_library srv) issuerURL0)) (\<lambda>issuerURL.
   bindE (screened ErrNotSupported (\<lambda>issuer. \<not> ois_OIDCEnabled issuer \<or> ois_DisabledAt issuer \<noteq> None)
       (callStore m (\<lambda>ce. OAuthIssuerByURL ce issuerURL))) (\<lambda>issuer.
   (case oau_OIDCSigner c of None \<Rightarrow> fail ErrNotSupported | Some signer \<Rightarrow> asking (osg_JWKS signer))))))"

section \<open>The operations run the store\<close>

context environment
begin

lemma clients_run [run_rules]: "relates (runs m) (provesClient m c iss cl pr)" "relates (runs m) (authenticateOAuthClient m srv c pr)"
  unfolding authenticateOAuthClient_def provesClient_def by (intro run_rules)+

lemma authorizeGrantScopes_runs [run_rules]: "relates (runs m) (authorizeGrantScopes m actor rsc scopes)"
proof (induction scopes)
  case (Cons scope scopes)
  show ?case unfolding authorizeGrantScopes.simps by (intro run_rules Cons)
qed (simp add: run_rules)

lemma activeOAuthGrant_runs [run_rules]: "relates (runs m) (activeOAuthGrant m srv i cl h)"
  unfolding activeOAuthGrant_def by (intro run_rules)

lemma new_tokens_run [run_rules]: "relates (runs m) (newOAuthAccessToken m c g ttl)" "relates (runs m) (newOAuthRefreshToken m c g i ttl)"
  "relates (runs m) (oauthPrimaryEmail m i)" "relates (runs m) (clientAudit m cl h h2 h3 i h4)"
  "relates (runs m) (mapOAuthCredentialStoreError m h e)"
  unfolding newOAuthAccessToken_def newOAuthRefreshToken_def oauthPrimaryEmail_def clientAudit_def mapOAuthCredentialStoreError_def
  by (intro run_rules)+

lemma oauthIDToken_runs [run_rules]: "relates (runs m) (oauthIDToken m c iss cl g h t)"
  unfolding oauthIDToken_def by (intro run_rules)

lemma orCredentialMapped_runs [run_rules]: "relates (runs m) f \<Longrightarrow> relates (runs m) (orCredentialMapped m h f)"
  unfolding orCredentialMapped_def by (intro run_rules; assumption)+

lemma oauth_revocations_run [run_rules]: "relates (runs m) (revokeOAuthGrantForCodeReplay m cl cd)"
  "relates (runs m) (revokeOAuthRefreshFamily m rt cl h)" "relates (runs m) (revokeOAuthClientAccessToken m c cl h h2 t)"
  "relates (runs m) (revokePresentedAccess m c cl h h2 t)"
  unfolding revokePresentedAccess_def revokeOAuthGrantForCodeReplay_def revokeOAuthRefreshFamily_def revokeOAuthClientAccessToken_def
  by (rule oauth_commits run_rules | assumption)+

lemma refuseReuse_runs [run_rules]: "relates (runs m) (refuseReuse m rt cl)"
  unfolding refuseReuse_def by (intro run_rules)

lemma presented_run [run_rules]: "relates (runs m) (redeemableCode m srv c cl exi)" "relates (runs m) (rotatableToken m srv c cl rfi)"
  unfolding redeemableCode_def rotatableToken_def by (intro run_rules)+

lemma token_endpoint_runs [run_rules]: "relates (runs m) (ExchangeOAuthAuthorizationCode m srv exi)"
  "relates (runs m) (IssueOAuthClientCredentials m srv pr h hs)" "relates (runs m) (RefreshOAuthToken m srv rfi)"
  "relates (runs m) (RevokeOAuthToken m srv pr h)"
  unfolding ExchangeOAuthAuthorizationCode_def IssueOAuthClientCredentials_def RefreshOAuthToken_def RevokeOAuthToken_def
  by (rule oauth_commits run_rules | assumption)+

lemma bearers_run [run_rules]: "relates (runs m) (AuthenticateOAuthAccessToken m srv h h2)" "relates (runs m) (OAuthUserInfo m srv h h2)"
  "relates (runs m) (getOAuthAuthorizationServerMetadata m srv h)" "relates (runs m) (getOAuthProtectedResourceMetadata m srv h)"
  "relates (runs m) (OAuthJWKS m srv h)"
  unfolding AuthenticateOAuthAccessToken_def authenticateOAuthClientToken_def authenticateOAuthUserToken_def OAuthUserInfo_def
    getOAuthAuthorizationServerMetadata_def getOAuthProtectedResourceMetadata_def OAuthJWKS_def
  by (intro run_rules)+

end

end
