(* ===== verification/ManagerOAuthAdmin.thy ===== *)
theory ManagerOAuthAdmin
  imports ManagerOAuthTokens
begin

text \<open>
  Administration of the authorization server (\<^verbatim>\<open>oauth_admin.go\<close>): disabling and enabling issuers, resources
  and clients, the rotation of a client's credentials, the revocation of a grant, and the listings.
\<close>

definition setOAuthIssuerDisabled :: "manager \<Rightarrow> oauthModule \<Rightarrow> authentication \<Rightarrow> bool \<Rightarrow> uuid \<Rightarrow> bool \<Rightarrow> unit op" where
  "setOAuthIssuerDisabled m srv actor local issuerID disabled = (let operation = (if disabled then ''oauth.issuer.disable'' else ''oauth.issuer.enable'') in
   let name = (if disabled then ''oauth.issuer.disabled'' else ''oauth.issuer.enabled'') in
   bindE (requireOAuth m srv) (\<lambda>_.
   bindE (AuthorizeAdmin m actor PermissionSettingsWrite) (\<lambda>_.
   bindE (requireAdminMutation m actor local operation) (\<lambda>_.
   bindE (failIf (\<not> validUUIDv7 issuerID) ErrInvalidInput) (\<lambda>_.
   bindE (callStore m (\<lambda>ce. OAuthIssuerByID ce issuerID)) (\<lambda>issuer.
   (if (ois_DisabledAt issuer \<noteq> None) = disabled then ret () else (bindE (newAudit m (auth_UserID actor) operation ''oauth_issuer'' (UUID_String issuerID) 0 AuditSucceeded []) (\<lambda>event.
     bindE (newOAuthChange m name operation event (zeroClient\<lparr>ocl_IssuerID := issuerID\<rparr>) 0 0 0 0 []) (\<lambda>(change, commit).
     bindE (now m) (\<lambda>t.
     bindE (orMapped m operation (callStore m (\<lambda>ce. storeSetOAuthIssuerDisabled (m_sha m) ce issuerID disabled t commit))) (\<lambda>_.
     emitOAuthChange change))))))))))))"

definition DisableOAuthIssuer :: "manager \<Rightarrow> oauthModule \<Rightarrow> authentication \<Rightarrow> bool \<Rightarrow> uuid \<Rightarrow> unit op" where
  "DisableOAuthIssuer m srv actor local issuerID = setOAuthIssuerDisabled m srv actor local issuerID True"

definition EnableOAuthIssuer :: "manager \<Rightarrow> oauthModule \<Rightarrow> authentication \<Rightarrow> bool \<Rightarrow> uuid \<Rightarrow> unit op" where
  "EnableOAuthIssuer m srv actor local issuerID = setOAuthIssuerDisabled m srv actor local issuerID False"

definition setOAuthProtectedResourceDisabled :: "manager \<Rightarrow> oauthModule \<Rightarrow> authentication \<Rightarrow> uuid \<Rightarrow> uuid \<Rightarrow> bool \<Rightarrow> unit op" where
  "setOAuthProtectedResourceDisabled m srv actor workspaceID resourceID disabled = (let operation = (if disabled then ''oauth.resource.disable'' else ''oauth.resource.enable'') in
   let name = (if disabled then ''oauth.resource.disabled'' else ''oauth.resource.enabled'') in
   bindE (requireOAuth m srv) (\<lambda>_.
   bindE (authorizeWorkspaceMutation m actor workspaceID PermissionOAuthResourceManage operation) (\<lambda>_.
   bindE (callStore m (\<lambda>ce. OAuthProtectedResourceByID ce resourceID)) (\<lambda>resource.
   bindE (failIf (ors_WorkspaceID resource \<noteq> workspaceID) ErrForbidden) (\<lambda>_.
   (if (ors_DisabledAt resource \<noteq> None) = disabled then ret () else (bindE (newAudit m (auth_UserID actor) operation ''oauth_resource'' (UUID_String resourceID) workspaceID AuditSucceeded []) (\<lambda>event.
     bindE (newOAuthChange m name operation event (zeroClient\<lparr>ocl_IssuerID := ors_IssuerID resource\<rparr>) 0 0 resourceID workspaceID []) (\<lambda>(change, commit).
     bindE (now m) (\<lambda>t.
     bindE (orMapped m operation (callStore m (\<lambda>ce. storeSetOAuthProtectedResourceDisabled (m_sha m) ce resourceID disabled t commit))) (\<lambda>_.
     emitOAuthChange change)))))))))))"

definition DisableOAuthProtectedResource :: "manager \<Rightarrow> oauthModule \<Rightarrow> authentication \<Rightarrow> uuid \<Rightarrow> uuid \<Rightarrow> unit op" where
  "DisableOAuthProtectedResource m srv actor workspaceID resourceID = setOAuthProtectedResourceDisabled m srv actor workspaceID resourceID True"

definition EnableOAuthProtectedResource :: "manager \<Rightarrow> oauthModule \<Rightarrow> authentication \<Rightarrow> uuid \<Rightarrow> uuid \<Rightarrow> unit op" where
  "EnableOAuthProtectedResource m srv actor workspaceID resourceID = setOAuthProtectedResourceDisabled m srv actor workspaceID resourceID False"

definition setOAuthClientDisabled :: "manager \<Rightarrow> oauthModule \<Rightarrow> authentication \<Rightarrow> bool \<Rightarrow> uuid \<Rightarrow> bool \<Rightarrow> unit op" where
  "setOAuthClientDisabled m srv actor local clientRecordID disabled = (let operation = (if disabled then ''oauth.client.disable'' else ''oauth.client.enable'') in
   let name = (if disabled then ''oauth.client.disabled'' else ''oauth.client.enabled'') in
   bindE (requireOAuth m srv) (\<lambda>_.
   bindE (AuthorizeAdmin m actor PermissionSettingsWrite) (\<lambda>_.
   bindE (requireAdminMutation m actor local operation) (\<lambda>_.
   bindE (failIf (\<not> validUUIDv7 clientRecordID) ErrInvalidInput) (\<lambda>_.
   bindE (callStore m (\<lambda>ce. OAuthClientByID ce clientRecordID)) (\<lambda>client.
   (if (ocl_DisabledAt client \<noteq> None) = disabled then ret () else (bindE (newAudit m (auth_UserID actor) operation ''oauth_client'' (UUID_String clientRecordID) 0 AuditSucceeded []) (\<lambda>event.
     bindE (newOAuthChange m name operation event client 0 0 0 0 (ocl_Scopes client)) (\<lambda>(change, commit).
     bindE (now m) (\<lambda>t.
     bindE (orMapped m operation (callStore m (\<lambda>ce. storeSetOAuthClientDisabled (m_sha m) ce clientRecordID disabled t commit))) (\<lambda>_.
     emitOAuthChange change))))))))))))"

definition DisableOAuthClient :: "manager \<Rightarrow> oauthModule \<Rightarrow> authentication \<Rightarrow> bool \<Rightarrow> uuid \<Rightarrow> unit op" where
  "DisableOAuthClient m srv actor local clientRecordID = setOAuthClientDisabled m srv actor local clientRecordID True"

definition EnableOAuthClient :: "manager \<Rightarrow> oauthModule \<Rightarrow> authentication \<Rightarrow> bool \<Rightarrow> uuid \<Rightarrow> unit op" where
  "EnableOAuthClient m srv actor local clientRecordID = setOAuthClientDisabled m srv actor local clientRecordID False"

definition RotateOAuthClientSecret :: "manager \<Rightarrow> oauthModule \<Rightarrow> authentication \<Rightarrow> bool \<Rightarrow> uuid \<Rightarrow> (oauthClient \<times> string) op" where
  "RotateOAuthClientSecret m srv actor local clientRecordID = (bindE (requireOAuth m srv) (\<lambda>c.
   bindE (AuthorizeAdmin m actor PermissionSettingsWrite) (\<lambda>_.
   bindE (requireAdminMutation m actor local ''oauth.client.rotate_secret'') (\<lambda>_.
   bindE (failIf (\<not> validUUIDv7 clientRecordID) ErrInvalidInput) (\<lambda>_.
   bindE (callStore m (\<lambda>ce. OAuthClientByID ce clientRecordID)) (\<lambda>client.
   bindE (failIf (ocl_Source client = OAuthClientCIMD) ErrConflict) (\<lambda>_.
   bindE (failIf (ocl_TokenEndpointAuthMethod client \<noteq> OAuthAuthClientSecretBasic) ErrInvalidInput) (\<lambda>_.
   bindE (randomBytes m 32) (\<lambda>secret.
   let rawSecret = ''cbos_'' @ b64Encode secret in
   let secretDigest = oauthDigest m c ''client-secret'' rawSecret in
   bindE (newAudit m (auth_UserID actor) ''oauth.client.rotate_secret'' ''oauth_client'' (UUID_String clientRecordID) 0 AuditSucceeded []) (\<lambda>event.
   bindE (newOAuthChange m ''oauth.client.secret_rotated'' ''oauth.client.rotate_secret'' event client 0 0 0 0 (ocl_Scopes client)) (\<lambda>(change, commit).
   bindE (now m) (\<lambda>t.
   bindE (orMapped m ''oauth.client.rotate_secret''
       (callStore m (\<lambda>ce. storeRotateOAuthClientCredentials (m_sha m) ce clientRecordID (Some secretDigest) None None t commit))) (\<lambda>_.
   bindE (emitOAuthChange change) (\<lambda>_.
   ret (publicOAuthClient (client\<lparr>ocl_SecretDigest := secretDigest, ocl_UpdatedAt := t\<rparr>), rawSecret)))))))))))))))"

definition ReplaceOAuthClientJWKS :: "manager \<Rightarrow> oauthModule \<Rightarrow> authentication \<Rightarrow> bool \<Rightarrow> uuid \<Rightarrow> bytes \<Rightarrow> unit op" where
  "ReplaceOAuthClientJWKS m srv actor local clientRecordID jwks = (bindE (requireOAuth m srv) (\<lambda>_.
   bindE (AuthorizeAdmin m actor PermissionSettingsWrite) (\<lambda>_.
   bindE (requireAdminMutation m actor local ''oauth.client.replace_jwks'') (\<lambda>_.
   bindE (failIf (\<not> validUUIDv7 clientRecordID) ErrInvalidInput) (\<lambda>_.
   bindE (failIf (jwks = [] \<or> length jwks > 32 * 1024 \<or> \<not> olb_ValidJSON (omd_library srv) jwks) ErrInvalidInput) (\<lambda>_.
   bindE (callStore m (\<lambda>ce. OAuthClientByID ce clientRecordID)) (\<lambda>client.
   bindE (failIf (ocl_Source client = OAuthClientCIMD) ErrConflict) (\<lambda>_.
   bindE (failIf (ocl_TokenEndpointAuthMethod client \<noteq> OAuthAuthPrivateKeyJWT) ErrInvalidInput) (\<lambda>_.
   bindE (failIf (ocl_JWKS client = []) ErrConflict) (\<lambda>_.
   let metadataHash = oauthClientMetadataHash m srv (client\<lparr>ocl_JWKS := jwks\<rparr>) in
   bindE (newAudit m (auth_UserID actor) ''oauth.client.replace_jwks'' ''oauth_client'' (UUID_String clientRecordID) 0 AuditSucceeded []) (\<lambda>event.
   bindE (newOAuthChange m ''oauth.client.jwks_replaced'' ''oauth.client.replace_jwks'' event client 0 0 0 0 (ocl_Scopes client)) (\<lambda>(change, commit).
   bindE (now m) (\<lambda>t.
   bindE (orMapped m ''oauth.client.replace_jwks''
       (callStore m (\<lambda>ce. storeRotateOAuthClientCredentials (m_sha m) ce clientRecordID None (Some jwks) (Some metadataHash) t commit))) (\<lambda>_.
   emitOAuthChange change))))))))))))))"

definition managerRevokeOAuthGrant :: "manager \<Rightarrow> oauthModule \<Rightarrow> authentication \<Rightarrow> uuid \<Rightarrow> unit op" where
  "managerRevokeOAuthGrant m srv actor grantID = (bindE (requireOAuth m srv) (\<lambda>_.
   bindE (failIf (\<not> validUUIDv7 grantID) ErrInvalidInput) (\<lambda>_.
   bindE (callStore m (\<lambda>ce. OAuthGrantByID ce grantID)) (\<lambda>grant.
   bindE ((if ogr_UserID grant = auth_UserID actor then requireScopedStepUp m actor StepUpScopeAccount ''oauth.grant.revoke''
      else authorizeWorkspaceMutation m actor (ogr_WorkspaceID grant) PermissionOAuthResourceManage ''oauth.grant.revoke'')) (\<lambda>_.
   bindE (callStore m (\<lambda>ce. OAuthClientByID ce (ogr_ClientRecordID grant))) (\<lambda>client.
   bindE (newAudit m (auth_UserID actor) ''oauth.consent.revoke'' ''oauth_grant'' (UUID_String grantID) (ogr_WorkspaceID grant) AuditSucceeded []) (\<lambda>event.
   bindE (newOAuthChange m ''oauth.consent.revoked'' ''oauth.grant.revoke'' event client grantID 0 (ogr_ResourceID grant)
       (ogr_WorkspaceID grant) (ogr_Scopes grant)) (\<lambda>(change, commit).
   bindE (now m) (\<lambda>t.
   bindE (orMapped m ''oauth.grant.revoke'' (callStore m (\<lambda>ce. storeRevokeOAuthGrant (m_sha m) ce grantID t commit))) (\<lambda>_.
   emitOAuthChange change))))))))))"

section \<open>Listings\<close>

definition OAuthIssuers :: "manager \<Rightarrow> oauthModule \<Rightarrow> authentication \<Rightarrow> pageRequest \<Rightarrow> world \<Rightarrow> oauthIssuer pageEvent result list \<times> world" where
  "OAuthIssuers m srv actor page0 = stream (bindE (requireOAuth m srv) (\<lambda>_.
   bindE (AuthorizeAdmin m actor PermissionSettingsRead) (\<lambda>_.
   bindE (liftR (normalizePage page0)) (\<lambda>page.
   readStream m (\<lambda>ce ctxErr. storeOAuthIssuers (lib_UnmarshalCursor (m_library m)) ce page)))))"

definition OAuthProtectedResources :: "manager \<Rightarrow> oauthModule \<Rightarrow> authentication \<Rightarrow> uuid \<Rightarrow> pageRequest \<Rightarrow> world
    \<Rightarrow> oauthProtectedResource pageEvent result list \<times> world" where
  "OAuthProtectedResources m srv actor workspaceID page0 = stream (bindE (requireOAuth m srv) (\<lambda>_.
   bindE (AuthorizePermission m actor workspaceID PermissionOAuthResourceManage) (\<lambda>_.
   bindE (liftR (normalizePage page0)) (\<lambda>page.
   readStream m (\<lambda>ce ctxErr. storeOAuthProtectedResources (lib_UnmarshalCursor (m_library m)) ce workspaceID page)))))"

definition OAuthClients :: "manager \<Rightarrow> oauthModule \<Rightarrow> authentication \<Rightarrow> uuid \<Rightarrow> pageRequest \<Rightarrow> world \<Rightarrow> oauthClient pageEvent result list \<times> world" where
  "OAuthClients m srv actor issuerID page0 = stream (bindE (requireOAuth m srv) (\<lambda>_.
   bindE (AuthorizeAdmin m actor PermissionSettingsRead) (\<lambda>_.
   bindE (failIf (\<not> validUUIDv7 issuerID) ErrInvalidInput) (\<lambda>_.
   bindE (liftR (normalizePage page0)) (\<lambda>page.
   readStream m (\<lambda>ce ctxErr. storeOAuthClients (lib_UnmarshalCursor (m_library m)) ce issuerID page))))))"

definition OAuthGrants :: "manager \<Rightarrow> oauthModule \<Rightarrow> authentication \<Rightarrow> uuid \<Rightarrow> pageRequest \<Rightarrow> world \<Rightarrow> oauthGrant pageEvent result list \<times> world" where
  "OAuthGrants m srv actor workspaceID page0 = stream (bindE (requireOAuth m srv) (\<lambda>_.
   bindE ((if workspaceID \<noteq> 0 then (bindE (AuthorizePermission m actor workspaceID PermissionOAuthResourceManage) (\<lambda>_.
     ret 0))
       else (bindE (requireRecentInteractive m actor) (\<lambda>_.
        ret (auth_UserID actor))))) (\<lambda>userID.
   bindE (liftR (normalizePage page0)) (\<lambda>page.
   readStream m (\<lambda>ce ctxErr. storeOAuthGrants (lib_UnmarshalCursor (m_library m)) ce userID workspaceID page)))))"

section \<open>The operations run the store\<close>

context environment
begin

lemma setters_run [run_rules]: "relates (runs m) (setOAuthIssuerDisabled m srv actor local i b)"
  "relates (runs m) (setOAuthProtectedResourceDisabled m srv actor i j b)" "relates (runs m) (setOAuthClientDisabled m srv actor local i b)"
  unfolding setOAuthIssuerDisabled_def setOAuthProtectedResourceDisabled_def setOAuthClientDisabled_def
  by (rule oauth_commits run_rules | assumption)+

lemma switches_run [run_rules]: "relates (runs m) (DisableOAuthIssuer m srv actor local i)" "relates (runs m) (EnableOAuthIssuer m srv actor local i)"
  "relates (runs m) (DisableOAuthProtectedResource m srv actor i j)" "relates (runs m) (EnableOAuthProtectedResource m srv actor i j)"
  "relates (runs m) (DisableOAuthClient m srv actor local i)" "relates (runs m) (EnableOAuthClient m srv actor local i)"
  unfolding DisableOAuthIssuer_def EnableOAuthIssuer_def DisableOAuthProtectedResource_def EnableOAuthProtectedResource_def
    DisableOAuthClient_def EnableOAuthClient_def by (intro run_rules)+

lemma rotations_run [run_rules]: "relates (runs m) (RotateOAuthClientSecret m srv actor local i)"
  "relates (runs m) (ReplaceOAuthClientJWKS m srv actor local i d)" "relates (runs m) (managerRevokeOAuthGrant m srv actor i)"
  unfolding RotateOAuthClientSecret_def ReplaceOAuthClientJWKS_def managerRevokeOAuthGrant_def
  by (rule oauth_commits run_rules | assumption)+

lemma listings_run [run_rules]: "relates (runs m) (OAuthIssuers m srv actor page)" "relates (runs m) (OAuthProtectedResources m srv actor i page)"
  "relates (runs m) (OAuthClients m srv actor i page)" "relates (runs m) (OAuthGrants m srv actor i page)"
  unfolding OAuthIssuers_def OAuthProtectedResources_def OAuthClients_def OAuthGrants_def by (intro stream_runs run_rules)+

end

end
