(* ===== verification/ManagerSCIM.thy ===== *)
theory ManagerSCIM
  imports ManagerPrivacy
begin

text \<open>
  Provisioning (\<^verbatim>\<open>scim.go\<close>): the administration of a workspace's provisioning domain, the authentication of
  a directory, its users and groups, and the roles that the group mappings give to the memberships it
  manages. The clone functions are the identity; the walks over all groups and all users follow cursors
  without a bound of their own, which \<open>m_fuel\<close> bounds.
\<close>

section \<open>Input\<close>

record scimAuthentication =
  spr_ConfigurationID :: uuid
  spr_WorkspaceID :: uuid
  spr_CredentialID :: uuid
  spr_AuthenticatedAt :: time

record scimUserInput =
  sui_Schemas :: "string list"
  sui_ExternalID :: string
  sui_UserName :: string
  sui_DisplayName :: string
  sui_Emails :: "scimEmail list"
  sui_Attributes :: "(string, string) dict"
  sui_Active :: bool

record scimGroupInput =
  sgi_ExternalID :: string
  sgi_DisplayName :: string
  sgi_MemberIDs :: "uuid list"

fun validateMappings :: "roleCatalog \<Rightarrow> string list \<Rightarrow> scimGroupRoleMapping list \<Rightarrow> scimGroupRoleMapping list result" where
  "validateMappings catalog seen [] = Inr []"
| "validateMappings catalog seen (mapping # mappings) = (let externalID = TrimSpace (sgm_ExternalID mapping) in
     if externalID = [] \<or> length externalID > 255 then Inl ErrInvalidInput
     else if externalID \<in> set seen then Inl ErrInvalidInput
     else case normalizeRole catalog (sgm_Role mapping) of
         Inl err \<Rightarrow> Inl err
       | Inr r \<Rightarrow> (case validateMappings catalog (externalID # seen) mappings of
           Inl err \<Rightarrow> Inl err
         | Inr rest \<Rightarrow> Inr (mapping\<lparr>sgm_ExternalID := externalID, sgm_Role := r\<rparr> # rest)))"

definition validateSCIMRoleConfiguration :: "manager \<Rightarrow> role \<Rightarrow> scimGroupRoleMapping list \<Rightarrow> (role \<times> scimGroupRoleMapping list) result" where
  "validateSCIMRoleConfiguration m defaultRole mappings =
    (case normalizeRole (m_workspaceRoles m) (if defaultRole = [] then RoleMember else defaultRole) of
       Inl err \<Rightarrow> Inl err
     | Inr r \<Rightarrow> (case validateMappings (m_workspaceRoles m) [] mappings of Inl err \<Rightarrow> Inl err | Inr result \<Rightarrow> Inr (r, result)))"

fun normalizeSCIMEmails :: "manager \<Rightarrow> string list \<Rightarrow> scimEmail list \<Rightarrow> scimEmail list result" where
  "normalizeSCIMEmails m seen [] = Inr []"
| "normalizeSCIMEmails m seen (entry # entries) = (case validEmail m (seml_Value entry) of
     Inl err \<Rightarrow> Inl err
   | Inr email \<Rightarrow> if email \<in> set seen then Inl ErrInvalidInput
       else (case normalizeSCIMEmails m (email # seen) entries of
           Inl err \<Rightarrow> Inl err
         | Inr rest \<Rightarrow> Inr (entry\<lparr>seml_Value := email, seml_Type := TrimSpace (seml_Type entry)\<rparr> # rest)))"

definition normalizeSCIMUserInput :: "manager \<Rightarrow> scimUserInput \<Rightarrow> bool \<Rightarrow> (scimUserInput \<times> string) result" where
  "normalizeSCIMUserInput m input requireEmail =
    (let externalID = TrimSpace (sui_ExternalID input);
         userName = ToLower (TrimSpace (sui_UserName input));
         displayName = (if TrimSpace (sui_DisplayName input) = [] then userName else TrimSpace (sui_DisplayName input))
     in if userName = [] \<or> length userName > 320 \<or> length externalID > 255 then Inl ErrInvalidInput
        else if length displayName > 255 then Inl ErrInvalidInput
        else case normalizeSCIMEmails m [] (sui_Emails input) of
            Inl err \<Rightarrow> Inl err
          | Inr emails \<Rightarrow>
              (let primaries = filter seml_Primary emails;
                   marked = (if primaries = [] \<and> emails \<noteq> [] then (hd emails)\<lparr>seml_Primary := True\<rparr> # tl emails else emails);
                   primary = (if primaries \<noteq> [] then seml_Value (hd primaries) else if emails \<noteq> [] then seml_Value (hd emails) else [])
               in if length primaries > 1 then Inl ErrInvalidInput
                  else if requireEmail \<and> primary = [] then Inl ErrInvalidInput
                  else Inr (input\<lparr>sui_ExternalID := externalID, sui_UserName := userName, sui_DisplayName := displayName,
                    sui_Emails := marked\<rparr>, primary)))"

definition normalizeSCIMGroupInput :: "scimGroupInput \<Rightarrow> scimGroupInput result" where
  "normalizeSCIMGroupInput input =
    (let externalID = TrimSpace (sgi_ExternalID input); displayName = TrimSpace (sgi_DisplayName input)
     in if displayName = [] \<or> length displayName > 255 \<or> length externalID > 255 then Inl ErrInvalidInput
        else if \<not> list_all validUUIDv7 (sgi_MemberIDs input) then Inl ErrInvalidInput
        else Inr (input\<lparr>sgi_ExternalID := externalID, sgi_DisplayName := displayName,
          sgi_MemberIDs := remdups_adj (sort_key uuidBytes (sgi_MemberIDs input))\<rparr>))"

definition validSCIMFilter :: "scimFilter \<Rightarrow> bool \<Rightarrow> bool" where
  "validSCIMFilter flt user =
    (if sflt_Attribute flt = [] then True
     else if \<not> user then sflt_Attribute flt = ''id'' \<or> sflt_Attribute flt = ''externalId'' \<or> sflt_Attribute flt = ''displayName''
     else sflt_Attribute flt = ''id'' \<or> sflt_Attribute flt = ''externalId'' \<or> sflt_Attribute flt = ''userName''
       \<or> sflt_Attribute flt = ''emails.value'' \<or> sflt_Attribute flt = ''active'')"

definition parseSCIMToken :: "string \<Rightarrow> string option" where
  "parseSCIMToken raw =
    (case SplitN CHR ''_'' 3 raw of
       [p0, p1, p2] \<Rightarrow>
         if p0 \<noteq> ''cbs'' \<or> length p1 \<noteq> 12 \<or> length p2 \<noteq> 43 then None
         else if hexDecode p1 = None then None
         else (case b64Decode p2 of
             None \<Rightarrow> None
           | Some decoded \<Rightarrow> if length decoded \<noteq> 32 then None else Some p1)
     | _ \<Rightarrow> None)"

section \<open>Roles\<close>

text \<open>The mappings of one group: the selected role and priority, none while no mapping matched.\<close>

fun selectMapping :: "string \<Rightarrow> (role \<times> int) option \<Rightarrow> scimGroupRoleMapping list \<Rightarrow> (role \<times> int) option result" where
  "selectMapping externalID selected [] = Inr selected"
| "selectMapping externalID selected (mapping # mappings) =
    (if sgm_ExternalID mapping \<noteq> externalID then selectMapping externalID selected mappings
     else (case selected of
         None \<Rightarrow> selectMapping externalID (Some (sgm_Role mapping, sgm_Priority mapping)) mappings
       | Some (r, priority) \<Rightarrow>
           if sgm_Priority mapping > priority then selectMapping externalID (Some (sgm_Role mapping, sgm_Priority mapping)) mappings
           else if sgm_Priority mapping = priority \<and> sgm_Role mapping \<noteq> r then Inl ErrConflict
           else selectMapping externalID selected mappings))"

fun selectRole :: "scimGroupRoleMapping list \<Rightarrow> uuid \<Rightarrow> (role \<times> int) option \<Rightarrow> scimGroup list \<Rightarrow> (role \<times> int) option result" where
  "selectRole mappings linkID selected [] = Inr selected"
| "selectRole mappings linkID selected (grp # groups) =
    (if sgrp_DeletedAt grp \<noteq> None \<or> linkID \<notin> set (sgrp_MemberIDs grp) then selectRole mappings linkID selected groups
     else (case selectMapping (sgrp_ExternalID grp) selected mappings of
         Inl err \<Rightarrow> Inl err
       | Inr selected' \<Rightarrow> selectRole mappings linkID selected' groups))"

definition scimRoleForUser :: "scimConfiguration \<Rightarrow> scimGroup list \<Rightarrow> uuid \<Rightarrow> role result" where
  "scimRoleForUser configuration groups linkID =
    (case selectRole (scfg_GroupRoleMappings configuration) linkID None groups of
       Inl err \<Rightarrow> Inl err
     | Inr None \<Rightarrow> Inr (scfg_DefaultRole configuration)
     | Inr (Some (r, priority)) \<Rightarrow> Inr r)"

fun allFrom :: "manager \<Rightarrow> nat \<Rightarrow> 'a pageQuery \<Rightarrow> string \<Rightarrow> 'a list \<Rightarrow> 'a list op" where
  "allFrom m 0 query cursor items = fail OutOfFuel"
| "allFrom m (Suc fuel) query cursor items = (bindE (readStream m (query \<lparr>page_Cursor = cursor, page_Limit = 50\<rparr>)) (\<lambda>events.
 bindE (liftR (drainPage items zeroEnd events)) (\<lambda>(items', pe).
 (if \<not> end_HasMore pe then ret items' else allFrom m fuel query (end_NextCursor pe) items'))))"

definition anyFilter :: scimFilter where
  "anyFilter = \<lparr>sflt_Attribute = [], sflt_Value = []\<rparr>"

definition allSCIMGroups :: "manager \<Rightarrow> uuid \<Rightarrow> scimGroup list op" where
  "allSCIMGroups m configurationID = allFrom m (m_fuel m)
     (\<lambda>page ce ctxErr. storeSCIMGroups (lib_UnmarshalCursor (m_library m)) ce ctxErr configurationID anyFilter page) [] []"

definition allSCIMUsers :: "manager \<Rightarrow> uuid \<Rightarrow> scimUser list op" where
  "allSCIMUsers m configurationID = allFrom m (m_fuel m)
     (\<lambda>page ce ctxErr. storeSCIMUsers (lib_UnmarshalCursor (m_library m)) ce ctxErr configurationID anyFilter page) [] []"

text \<open>The membership a configuration manages.\<close>

definition managedMembership :: "manager \<Rightarrow> scimConfiguration \<Rightarrow> uuid \<Rightarrow> membership op" where
  "managedMembership m configuration userID = (bindE (callStore m (\<lambda>ce. Membership ce (scfg_WorkspaceID configuration) userID)) (\<lambda>membership.
   bindE (failIf (mbr_ProvisioningSource membership \<noteq> UUID_String (scfg_ID configuration)) ErrConflict) (\<lambda>_.
   ret membership)))"

fun updatedMemberships :: "manager \<Rightarrow> scimConfiguration \<Rightarrow> scimGroup list \<Rightarrow> scimUser list \<Rightarrow> membership list op" where
  "updatedMemberships m configuration groups [] = ret []"
| "updatedMemberships m configuration groups (user # users) = (bindE (managedMembership m configuration (susr_UserID user)) (\<lambda>membership.
 bindE (liftR (scimRoleForUser configuration groups (susr_ID user))) (\<lambda>r.
 bindE (updatedMemberships m configuration groups users) (\<lambda>rest.
 ret (membership\<lparr>mbr_Role := r, mbr_UpdatedAt := scfg_UpdatedAt configuration\<rparr> # rest)))))"

fun replaceGroup :: "scimGroup \<Rightarrow> bool \<Rightarrow> scimGroup list \<Rightarrow> scimGroup list" where
  "replaceGroup replacement deleted [] = (if deleted then [] else [replacement])"
| "replaceGroup replacement deleted (grp # groups) =
    (if sgrp_ID grp = sgrp_ID replacement then (if deleted then groups else replacement # groups)
     else grp # replaceGroup replacement deleted groups)"

fun affectedMemberships :: "manager \<Rightarrow> scimConfiguration \<Rightarrow> scimGroup list \<Rightarrow> uuid list \<Rightarrow> membership list op" where
  "affectedMemberships m configuration groups [] = ret []"
| "affectedMemberships m configuration groups (linkID # affected) = (bindE (callStore m (\<lambda>ce. storeSCIMUser ce (scfg_ID configuration) linkID)) (\<lambda>link.
 bindE (managedMembership m configuration (susr_UserID link)) (\<lambda>membership.
 bindE (liftR (scimRoleForUser configuration groups linkID)) (\<lambda>r.
 bindE (now m) (\<lambda>t.
 bindE (affectedMemberships m configuration groups affected) (\<lambda>rest.
 ret (membership\<lparr>mbr_Role := r, mbr_UpdatedAt := t\<rparr> # rest)))))))"

definition scimMembershipsForGroupChange :: "manager \<Rightarrow> scimConfiguration \<Rightarrow> scimGroup \<Rightarrow> bool \<Rightarrow> uuid list \<Rightarrow> membership list op" where
  "scimMembershipsForGroupChange m configuration replacement deleted priorMembers = (bindE (allSCIMGroups m (scfg_ID configuration)) (\<lambda>groups.
   affectedMemberships m configuration (replaceGroup replacement deleted groups)
       (remdups_adj (sort_key uuidBytes (priorMembers @ sgrp_MemberIDs replacement)))))"

section \<open>Configurations and credentials\<close>

definition requireSCIMAdmin :: "manager \<Rightarrow> authentication \<Rightarrow> uuid \<Rightarrow> string \<Rightarrow> scimConfiguration op" where
  "requireSCIMAdmin m actor configurationID operation = (bindE (failIf (\<not> m_scimStore m) ErrNotSupported) (\<lambda>_.
   bindE (requireScopedStepUp m actor StepUpScopeWorkspace operation) (\<lambda>_.
   bindE (callStore m (\<lambda>ce. storeSCIMConfiguration ce configurationID)) (\<lambda>configuration.
   bindE (AuthorizePermission m actor (scfg_WorkspaceID configuration) PermissionWorkspaceRBACWrite) (\<lambda>_.
   ret configuration)))))"

definition scimConfigurationForPrincipal :: "manager \<Rightarrow> scimAuthentication \<Rightarrow> scimConfiguration op" where
  "scimConfigurationForPrincipal m caller = (bindE (failIf (\<not> m_scimStore m) ErrNotSupported) (\<lambda>_.
   bindE (failIf (spr_ConfigurationID caller = 0 \<or> spr_CredentialID caller = 0 \<or> spr_WorkspaceID caller = 0) ErrUnauthorized) (\<lambda>_.
   bindE (callStore m (\<lambda>ce. storeSCIMConfiguration ce (spr_ConfigurationID caller))) (\<lambda>configuration.
   bindE (failIf (\<not> scfg_Enabled configuration \<or> scfg_WorkspaceID configuration \<noteq> spr_WorkspaceID caller) ErrUnauthorized) (\<lambda>_.
   ret configuration)))))"

definition newSCIMCredential :: "manager \<Rightarrow> uuid \<Rightarrow> time option \<Rightarrow> (scimCredential \<times> string) op" where
  "newSCIMCredential m configurationID expiresAt = (bindE (randomBytes m 6) (\<lambda>prefixBytes.
   bindE (randomBytes m 32) (\<lambda>secret.
   bindE (newID m) (\<lambda>i.
   let prefix = hexEncode prefixBytes in
   let raw = ''cbs_'' @ prefix @ ''_'' @ b64Encode secret in
   bindE (now m) (\<lambda>t.
   ret (\<lparr>scrd_ID = i, scrd_ConfigurationID = configurationID, scrd_Prefix = prefix,
           scrd_Digest = digest (m_sha m) (m_patPepper m) (''scim'' @ [CHR 0x00] @ raw), scrd_CreatedAt = t,
           scrd_ExpiresAt = expiresAt, scrd_LastUsedAt = None, scrd_RevokedAt = None\<rparr>, raw))))))"

definition newServiceAudit :: "manager \<Rightarrow> uuid \<Rightarrow> string \<Rightarrow> string \<Rightarrow> string \<Rightarrow> uuid \<Rightarrow> auditEvent op" where
  "newServiceAudit m actor action resourceType resourceID workspaceID = (bindE (newAudit m actor action resourceType resourceID workspaceID AuditSucceeded []) (\<lambda>event.
   ret (event\<lparr>aud_ActorKind := ActorService\<rparr>)))"

definition futureExpiry :: "manager \<Rightarrow> time option \<Rightarrow> unit op" where
  "futureExpiry m expiresAt = (case expiresAt of
     None \<Rightarrow> ret ()
   | Some t' \<Rightarrow> (bindE (now m) (\<lambda>t.
    failIf (\<not> t' > t) ErrInvalidInput)))"

definition CreateSCIMConfiguration :: "manager \<Rightarrow> authentication \<Rightarrow> uuid \<Rightarrow> role \<Rightarrow> bool \<Rightarrow> scimGroupRoleMapping list \<Rightarrow> time option
    \<Rightarrow> (scimConfiguration \<times> scimCredential \<times> string) op" where
  "CreateSCIMConfiguration m actor workspaceID role0 trustEmails mappings0 expiresAt = (bindE (failIf (\<not> m_scimStore m) ErrNotSupported) (\<lambda>_.
   bindE (requireScopedStepUp m actor StepUpScopeWorkspace ''scim.configuration.create'') (\<lambda>_.
   bindE (AuthorizePermission m actor workspaceID PermissionWorkspaceRBACWrite) (\<lambda>_.
   bindE (liftR (validateSCIMRoleConfiguration m role0 mappings0)) (\<lambda>(defaultRole, mappings).
   bindE (futureExpiry m expiresAt) (\<lambda>_.
   bindE (newID m) (\<lambda>configurationID.
   bindE (newSCIMCredential m configurationID expiresAt) (\<lambda>(credential, raw).
   bindE (now m) (\<lambda>t.
   let configuration = \<lparr>scfg_ID = configurationID, scfg_WorkspaceID = workspaceID, scfg_Enabled = True, scfg_DefaultRole = defaultRole,
           scfg_TrustDirectoryEmails = trustEmails, scfg_GroupRoleMappings = mappings, scfg_CreatedAt = t, scfg_UpdatedAt = t\<rparr> in
   bindE (newAudit m (auth_UserID actor) ''scim.configuration.create'' ''scim_configuration'' (UUID_String configurationID) workspaceID AuditSucceeded []) (\<lambda>event.
   bindE (newEventMeta m ''scim.configuration.created'' ''scim.configuration.create'' (auth_UserID actor) workspaceID event) (\<lambda>meta.
   bindE (committing m ''scim.configuration.create'' event ''scim.configuration.create'' meta
       (\<lambda>c. callStore m (\<lambda>ce. storeCreateSCIMConfiguration (m_sha m) ce configuration credential c))) (\<lambda>_.
   ret (configuration, credential\<lparr>scrd_Digest := []\<rparr>, raw)))))))))))))"

definition UpdateSCIMConfiguration :: "manager \<Rightarrow> authentication \<Rightarrow> uuid \<Rightarrow> role \<Rightarrow> bool \<Rightarrow> scimGroupRoleMapping list \<Rightarrow> scimConfiguration op" where
  "UpdateSCIMConfiguration m actor configurationID role0 trustEmails mappings0 = (bindE (requireSCIMAdmin m actor configurationID ''scim.configuration.update'') (\<lambda>current.
   bindE (liftR (validateSCIMRoleConfiguration m role0 mappings0)) (\<lambda>(defaultRole, mappings).
   bindE (now m) (\<lambda>t.
   let configuration = current\<lparr>scfg_DefaultRole := defaultRole, scfg_TrustDirectoryEmails := trustEmails,
           scfg_GroupRoleMappings := mappings, scfg_UpdatedAt := t\<rparr> in
   bindE (allSCIMGroups m (scfg_ID configuration)) (\<lambda>groups.
   bindE (allSCIMUsers m (scfg_ID configuration)) (\<lambda>users.
   bindE (updatedMemberships m configuration groups users) (\<lambda>memberships.
   bindE (newAudit m (auth_UserID actor) ''scim.configuration.update'' ''scim_configuration'' (UUID_String configurationID)
       (scfg_WorkspaceID configuration) AuditSucceeded []) (\<lambda>event.
   bindE (orMapped m ''scim.configuration.update''
       (callStore m (\<lambda>ce. storeUpdateSCIMConfiguration (m_sha m) ce configuration memberships (auditOnly event)))) (\<lambda>_.
   ret configuration)))))))))"

definition SCIMConfigurations :: "manager \<Rightarrow> authentication \<Rightarrow> uuid \<Rightarrow> world \<Rightarrow> scimConfiguration result list \<times> world" where
  "SCIMConfigurations m actor workspaceID = stream (bindE (failIf (\<not> m_scimStore m) ErrNotSupported) (\<lambda>_.
   bindE (failIf (\<not> validUUIDv7 workspaceID) ErrInvalidInput) (\<lambda>_.
   bindE (AuthorizePermission m actor workspaceID PermissionWorkspaceRBACWrite) (\<lambda>_.
   readStream m (\<lambda>ce ctxErr. storeSCIMConfigurations ce workspaceID)))))"

definition SCIMCredentials :: "manager \<Rightarrow> authentication \<Rightarrow> uuid \<Rightarrow> world \<Rightarrow> scimCredential result list \<times> world" where
  "SCIMCredentials m actor configurationID = stream (bindE (failIf (\<not> m_scimStore m) ErrNotSupported) (\<lambda>_.
   bindE (callStore m (\<lambda>ce. storeSCIMConfiguration ce configurationID)) (\<lambda>configuration.
   bindE (AuthorizePermission m actor (scfg_WorkspaceID configuration) PermissionWorkspaceRBACWrite) (\<lambda>_.
   readStream m (\<lambda>ce ctxErr. storeSCIMCredentials ce configurationID)))))"

definition RotateSCIMCredential :: "manager \<Rightarrow> authentication \<Rightarrow> uuid \<Rightarrow> time option \<Rightarrow> (scimConfiguration \<times> scimCredential \<times> string) op" where
  "RotateSCIMCredential m actor configurationID expiresAt = (bindE (requireSCIMAdmin m actor configurationID ''scim.credential.rotate'') (\<lambda>configuration.
   bindE (futureExpiry m expiresAt) (\<lambda>_.
   bindE (newSCIMCredential m configurationID expiresAt) (\<lambda>(credential, raw).
   bindE (newAudit m (auth_UserID actor) ''scim.credential.rotate'' ''scim_configuration'' (UUID_String configurationID)
       (scfg_WorkspaceID configuration) AuditSucceeded []) (\<lambda>event.
   bindE (orMapped m ''scim.credential.rotate'' (callStore m (\<lambda>ce. SaveSCIMCredential (m_sha m) ce credential (auditOnly event)))) (\<lambda>_.
   ret (configuration, credential\<lparr>scrd_Digest := []\<rparr>, raw)))))))"

definition RevokeSCIMCredential :: "manager \<Rightarrow> authentication \<Rightarrow> uuid \<Rightarrow> uuid \<Rightarrow> unit op" where
  "RevokeSCIMCredential m actor configurationID credentialID = (bindE (requireSCIMAdmin m actor configurationID ''scim.credential.revoke'') (\<lambda>configuration.
   bindE (newAudit m (auth_UserID actor) ''scim.credential.revoke'' ''scim_credential'' (UUID_String credentialID)
       (scfg_WorkspaceID configuration) AuditSucceeded []) (\<lambda>event.
   bindE (now m) (\<lambda>t.
   orMapped m ''scim.credential.revoke''
       (callStore m (\<lambda>ce. storeRevokeSCIMCredential (m_sha m) ce configurationID credentialID t (auditOnly event)))))))"

definition DisableSCIMConfiguration :: "manager \<Rightarrow> authentication \<Rightarrow> uuid \<Rightarrow> unit op" where
  "DisableSCIMConfiguration m actor configurationID = (bindE (requireSCIMAdmin m actor configurationID ''scim.configuration.disable'') (\<lambda>configuration.
   bindE (newAudit m (auth_UserID actor) ''scim.configuration.disable'' ''scim_configuration'' (UUID_String configurationID)
       (scfg_WorkspaceID configuration) AuditSucceeded []) (\<lambda>event.
   bindE (now m) (\<lambda>t.
   orMapped m ''scim.configuration.disable''
       (callStore m (\<lambda>ce. storeDisableSCIMConfiguration (m_sha m) ce configurationID t (auditOnly event)))))))"

text \<open>The credential behind a raw token, and whether it may be used at a time.\<close>

definition scimByToken :: "manager \<Rightarrow> string \<Rightarrow> (scimConfiguration \<times> scimCredential) option op" where
  "scimByToken m raw = (case parseSCIMToken raw of
     None \<Rightarrow> ret None
   | Some prefix \<Rightarrow> (bindE (tryE (callStore m (\<lambda>ce. SCIMConfigurationByCredentialPrefix ce prefix))) (\<lambda>r.
    ret (case r of Inl _ \<Rightarrow> None | Inr found \<Rightarrow> Some found))))"

definition usableSCIM :: "manager \<Rightarrow> time \<Rightarrow> string \<Rightarrow> scimConfiguration \<Rightarrow> scimCredential \<Rightarrow> bool" where
  "usableSCIM m t raw configuration credential \<longleftrightarrow> scfg_Enabled configuration \<and> scrd_RevokedAt credential = None
     \<and> (case scrd_ExpiresAt credential of None \<Rightarrow> True | Some expiresAt \<Rightarrow> t < expiresAt)
     \<and> matchDigestRing (m_sha m) (scrd_Digest credential) (m_readPATPeppers m) (''scim'' @ [CHR 0x00] @ raw)"

definition AuthenticateSCIM :: "manager \<Rightarrow> string \<Rightarrow> scimAuthentication op" where
  "AuthenticateSCIM m raw = (bindE (failIf (\<not> m_scimStore m) ErrNotSupported) (\<lambda>_.
   bindE (scimByToken m raw) (\<lambda>found.
   bindE (now m) (\<lambda>t.
   (case found of
        None \<Rightarrow> fail ErrInvalidCredentials
      | Some (configuration, credential) \<Rightarrow>
          if \<not> usableSCIM m t raw configuration credential then fail ErrInvalidCredentials
          else (bindE (tryE (callStore m (\<lambda>ce. WorkspaceByID ce (scfg_WorkspaceID configuration)))) (\<lambda>r.
           bindE (failIf (case r of Inl _ \<Rightarrow> True | Inr workspace \<Rightarrow> wsp_DisabledAt workspace \<noteq> None) ErrInvalidCredentials) (\<lambda>_.
           bindE (newServiceAudit m (scrd_ID credential) ''auth.scim'' ''scim_configuration'' (UUID_String (scfg_ID configuration))
              (scfg_WorkspaceID configuration)) (\<lambda>event.
           bindE (orMapped m ''scim.authenticate'' (callStore m (\<lambda>ce. TouchSCIMCredential (m_sha m) ce (scrd_ID credential) t (auditOnly event)))) (\<lambda>_.
           ret \<lparr>spr_ConfigurationID = scfg_ID configuration, spr_WorkspaceID = scfg_WorkspaceID configuration,
                 spr_CredentialID = scrd_ID credential, spr_AuthenticatedAt = t\<rparr>))))))))))"

section \<open>Users\<close>

definition newLink :: "uuid \<Rightarrow> uuid \<Rightarrow> uuid \<Rightarrow> scimUserInput \<Rightarrow> time \<Rightarrow> scimUser" where
  "newLink i configurationID userID input t = \<lparr>susr_ID = i, susr_ConfigurationID = configurationID, susr_UserID = userID,
     susr_Schemas = sui_Schemas input, susr_ExternalID = sui_ExternalID input, susr_UserName = sui_UserName input,
     susr_DisplayName = sui_DisplayName input, susr_Emails = sui_Emails input, susr_Attributes = sui_Attributes input,
     susr_Active = sui_Active input, susr_CreatedAt = t, susr_UpdatedAt = t, susr_DeprovisionedAt = None\<rparr>"

definition activeStatus :: "bool \<Rightarrow> membershipStatus" where
  "activeStatus active = (if active then MembershipActive else MembershipSuspended)"

definition ProvisionSCIMUser :: "manager \<Rightarrow> scimAuthentication \<Rightarrow> scimUserInput \<Rightarrow> scimUser op" where
  "ProvisionSCIMUser m caller input0 = (bindE (scimConfigurationForPrincipal m caller) (\<lambda>configuration.
   bindE (liftR (normalizeSCIMUserInput m input0 True)) (\<lambda>(input, primaryEmail).
   bindE (newID m) (\<lambda>userID.
   bindE (newID m) (\<lambda>emailID.
   bindE (newID m) (\<lambda>linkID.
   bindE (now m) (\<lambda>t.
   let user = newUser userID primaryEmail (sui_DisplayName input) t in
   let email = newPrimaryEmail emailID userID primaryEmail (if scfg_TrustDirectoryEmails configuration then Some t else None) t in
   let membership = \<lparr>mbr_WorkspaceID = scfg_WorkspaceID configuration, mbr_UserID = userID, mbr_Role = scfg_DefaultRole configuration,
           mbr_Status = activeStatus (sui_Active input), mbr_ProvisioningSource = UUID_String (scfg_ID configuration), mbr_CreatedAt = t,
           mbr_UpdatedAt = t\<rparr> in
   let link = newLink linkID (scfg_ID configuration) userID input t in
   bindE (newServiceAudit m (spr_CredentialID caller) ''scim.user.provision'' ''scim_user'' (UUID_String linkID) (scfg_WorkspaceID configuration)) (\<lambda>event.
   bindE (newEventMeta m ''scim.user.provisioned'' ''scim.user.provision'' (spr_CredentialID caller) (scfg_WorkspaceID configuration) event) (\<lambda>meta.
   bindE (committing m ''scim.user.provision'' event ''scim.user.provision'' meta
       (\<lambda>c. callStore m (\<lambda>ce. CreateSCIMUser (m_sha m) ce user email membership link c))) (\<lambda>_.
   ret link))))))))))"

definition managerAdoptSCIMUser :: "manager \<Rightarrow> authentication \<Rightarrow> uuid \<Rightarrow> uuid \<Rightarrow> scimUserInput \<Rightarrow> scimUser op" where
  "managerAdoptSCIMUser m actor configurationID userID input0 = (bindE (requireSCIMAdmin m actor configurationID ''scim.user.adopt'') (\<lambda>configuration.
   bindE (liftR (normalizeSCIMUserInput m input0 False)) (\<lambda>(input, primaryEmail).
   bindE (callStore m (\<lambda>ce. UserByID ce userID)) (\<lambda>_.
   bindE (callStore m (\<lambda>ce. Membership ce (scfg_WorkspaceID configuration) userID)) (\<lambda>membership.
   bindE (failIf (mbr_ProvisioningSource membership \<noteq> ProvisioningSourceLocal) ErrConflict) (\<lambda>_.
   bindE (newID m) (\<lambda>linkID.
   bindE (now m) (\<lambda>t.
   let link = newLink linkID (scfg_ID configuration) userID input t in
   let adopted = membership\<lparr>mbr_ProvisioningSource := UUID_String (scfg_ID configuration), mbr_Status := activeStatus (sui_Active input),
           mbr_UpdatedAt := t\<rparr> in
   bindE (newAudit m (auth_UserID actor) ''scim.user.adopt'' ''scim_user'' (UUID_String linkID) (scfg_WorkspaceID configuration) AuditSucceeded []) (\<lambda>event.
   bindE (newEventMeta m ''scim.user.provisioned'' ''scim.user.adopt'' (auth_UserID actor) (scfg_WorkspaceID configuration) event) (\<lambda>meta.
   bindE (committing m ''scim.user.adopt'' event ''scim.user.adopt'' meta (\<lambda>c. callStore m (\<lambda>ce. AdoptSCIMUser (m_sha m) ce adopted link c))) (\<lambda>_.
   ret link)))))))))))"

definition commitSCIMUserUpdate :: "manager \<Rightarrow> scimAuthentication \<Rightarrow> scimConfiguration \<Rightarrow> scimUser \<Rightarrow> membership \<Rightarrow> eventName \<Rightarrow> bool \<Rightarrow> scimUser op" where
  "commitSCIMUserUpdate m caller configuration user membership name revokeWorkspacePATs = (let action = (if name = ''scim.user.deprovisioned'' then ''scim.user.deprovision'' else ''scim.user.update'') in
   bindE (newServiceAudit m (spr_CredentialID caller) action ''scim_user'' (UUID_String (susr_ID user)) (scfg_WorkspaceID configuration)) (\<lambda>event.
   bindE (newEventMeta m name action (spr_CredentialID caller) (scfg_WorkspaceID configuration) event) (\<lambda>meta.
   bindE (committing m action event action meta
       (\<lambda>c. callStore m (\<lambda>ce. storeUpdateSCIMUser (m_sha m) ce user membership revokeWorkspacePATs c))) (\<lambda>_.
   ret user))))"

definition ReplaceSCIMUser :: "manager \<Rightarrow> scimAuthentication \<Rightarrow> uuid \<Rightarrow> scimUserInput \<Rightarrow> scimUser op" where
  "ReplaceSCIMUser m caller i input0 = (bindE (scimConfigurationForPrincipal m caller) (\<lambda>configuration.
   bindE (liftR (normalizeSCIMUserInput m input0 False)) (\<lambda>(input, primaryEmail).
   bindE (callStore m (\<lambda>ce. storeSCIMUser ce (scfg_ID configuration) i)) (\<lambda>current.
   bindE (managedMembership m configuration (susr_UserID current)) (\<lambda>membership.
   bindE (now m) (\<lambda>t.
   let updated = current\<lparr>susr_ExternalID := sui_ExternalID input, susr_UserName := sui_UserName input,
           susr_DisplayName := sui_DisplayName input, susr_Schemas := sui_Schemas input, susr_Emails := sui_Emails input,
           susr_Attributes := sui_Attributes input, susr_Active := sui_Active input, susr_UpdatedAt := t, susr_DeprovisionedAt := None\<rparr> in
   let name = (if \<not> susr_Active current \<and> sui_Active input then ''scim.user.activated''
           else if susr_Active current \<and> \<not> sui_Active input then ''scim.user.suspended'' else ''scim.user.updated'') in
   commitSCIMUserUpdate m caller configuration updated
       (membership\<lparr>mbr_Status := activeStatus (sui_Active input), mbr_UpdatedAt := t\<rparr>) name False))))))"

definition DeprovisionSCIMUser :: "manager \<Rightarrow> scimAuthentication \<Rightarrow> uuid \<Rightarrow> unit op" where
  "DeprovisionSCIMUser m caller i = (bindE (scimConfigurationForPrincipal m caller) (\<lambda>configuration.
   bindE (tryE (callStore m (\<lambda>ce. storeSCIMUser ce (scfg_ID configuration) i))) (\<lambda>r.
   (case r of
        Inl err \<Rightarrow> if errorsIs err ErrNotFound then ret () else fail err
      | Inr current \<Rightarrow> if susr_DeprovisionedAt current \<noteq> None then ret () else (bindE (managedMembership m configuration (susr_UserID current)) (\<lambda>membership.
       bindE (now m) (\<lambda>t.
       bindE (commitSCIMUserUpdate m caller configuration
            (current\<lparr>susr_Active := False, susr_UpdatedAt := t, susr_DeprovisionedAt := Some t\<rparr>)
            (membership\<lparr>mbr_Status := MembershipSuspended, mbr_UpdatedAt := t\<rparr>) ''scim.user.deprovisioned'' True) (\<lambda>_.
       ret ()))))))))"

definition managerSCIMUser :: "manager \<Rightarrow> scimAuthentication \<Rightarrow> uuid \<Rightarrow> scimUser op" where
  "managerSCIMUser m caller i = (bindE (scimConfigurationForPrincipal m caller) (\<lambda>configuration.
   callStore m (\<lambda>ce. storeSCIMUser ce (scfg_ID configuration) i)))"

definition SCIMUsers :: "manager \<Rightarrow> scimAuthentication \<Rightarrow> scimFilter \<Rightarrow> pageRequest \<Rightarrow> world \<Rightarrow> scimUser pageEvent result list \<times> world" where
  "SCIMUsers m caller flt page0 = stream (bindE (scimConfigurationForPrincipal m caller) (\<lambda>configuration.
   bindE (liftR (normalizePage page0)) (\<lambda>page.
   bindE (failIf (\<not> validSCIMFilter flt True) ErrInvalidInput) (\<lambda>_.
   readStream m (\<lambda>ce ctxErr. storeSCIMUsers (lib_UnmarshalCursor (m_library m)) ce ctxErr (scfg_ID configuration) flt page)))))"

section \<open>Groups\<close>

fun checkMembers :: "manager \<Rightarrow> uuid \<Rightarrow> uuid list \<Rightarrow> unit op" where
  "checkMembers m configurationID [] = ret ()"
| "checkMembers m configurationID (memberID # members) = (bindE (tryE (callStore m (\<lambda>ce. storeSCIMUser ce configurationID memberID))) (\<lambda>r.
 bindE (failIf (case r of Inl _ \<Rightarrow> True | Inr member \<Rightarrow> susr_DeprovisionedAt member \<noteq> None) ErrInvalidInput) (\<lambda>_.
 checkMembers m configurationID members)))"

text \<open>The lookup happens either way; its answer counts only for an identifier that is not zero.\<close>

definition currentGroup :: "manager \<Rightarrow> scimConfiguration \<Rightarrow> uuid \<Rightarrow> scimGroup op" where
  "currentGroup m configuration i0 = (bindE (tryE (callStore m (\<lambda>ce. storeSCIMGroup ce (scfg_ID configuration) i0))) (\<lambda>r.
   (if i0 = 0 then (bindE (newID m) (\<lambda>i.
     bindE (now m) (\<lambda>t.
     ret (zeroSCIMGroup\<lparr>sgrp_ID := i, sgrp_ConfigurationID := scfg_ID configuration, sgrp_CreatedAt := t\<rparr>))))
      else liftR r)))"

definition managerUpsertSCIMGroup :: "manager \<Rightarrow> scimAuthentication \<Rightarrow> uuid \<Rightarrow> scimGroupInput \<Rightarrow> scimGroup op" where
  "managerUpsertSCIMGroup m caller i0 input0 = (bindE (scimConfigurationForPrincipal m caller) (\<lambda>configuration.
   bindE (liftR (normalizeSCIMGroupInput input0)) (\<lambda>input.
   bindE (currentGroup m configuration i0) (\<lambda>current.
   bindE (checkMembers m (scfg_ID configuration) (sgi_MemberIDs input)) (\<lambda>_.
   bindE (now m) (\<lambda>t.
   let grp = current\<lparr>sgrp_ExternalID := sgi_ExternalID input, sgrp_DisplayName := sgi_DisplayName input,
           sgrp_MemberIDs := sgi_MemberIDs input, sgrp_UpdatedAt := t, sgrp_DeletedAt := None\<rparr> in
   bindE (scimMembershipsForGroupChange m configuration grp False (sgrp_MemberIDs current)) (\<lambda>memberships.
   let name = (if i0 = 0 then ''scim.group.created'' else ''scim.group.updated'') in
   bindE (newServiceAudit m (spr_CredentialID caller) ''scim.group.upsert'' ''scim_group'' (UUID_String (sgrp_ID grp)) (scfg_WorkspaceID configuration)) (\<lambda>event.
   bindE (newEventMeta m name ''scim.group.upsert'' (spr_CredentialID caller) (scfg_WorkspaceID configuration) event) (\<lambda>meta.
   bindE (committing m ''scim.group.upsert'' event ''scim.group.upsert'' meta
       (\<lambda>c. callStore m (\<lambda>ce. UpsertSCIMGroup (m_sha m) ce grp memberships c))) (\<lambda>_.
   bindE ((if sgrp_MemberIDs current \<noteq> sgrp_MemberIDs grp
      then emitNew m ''scim.group.members_changed'' ''scim.group.upsert'' (spr_CredentialID caller) (scfg_WorkspaceID configuration) event
      else ret ())) (\<lambda>_.
   ret grp)))))))))))"

definition DeleteSCIMGroup :: "manager \<Rightarrow> scimAuthentication \<Rightarrow> uuid \<Rightarrow> unit op" where
  "DeleteSCIMGroup m caller i = (bindE (scimConfigurationForPrincipal m caller) (\<lambda>configuration.
   bindE (tryE (callStore m (\<lambda>ce. storeSCIMGroup ce (scfg_ID configuration) i))) (\<lambda>r.
   (case r of
        Inl err \<Rightarrow> if errorsIs err ErrNotFound then ret () else fail err
      | Inr grp \<Rightarrow> (bindE (scimMembershipsForGroupChange m configuration grp True (sgrp_MemberIDs grp)) (\<lambda>memberships.
       bindE (now m) (\<lambda>t.
       let removed = grp\<lparr>sgrp_DeletedAt := Some t, sgrp_UpdatedAt := t\<rparr> in
       bindE (newServiceAudit m (spr_CredentialID caller) ''scim.group.delete'' ''scim_group'' (UUID_String (sgrp_ID removed)) (scfg_WorkspaceID configuration)) (\<lambda>event.
       bindE (newEventMeta m ''scim.group.deleted'' ''scim.group.delete'' (spr_CredentialID caller) (scfg_WorkspaceID configuration) event) (\<lambda>meta.
       committing m ''scim.group.delete'' event ''scim.group.delete'' meta
            (\<lambda>c. callStore m (\<lambda>ce. storeDeleteSCIMGroup (m_sha m) ce removed memberships c)))))))))))"

definition managerSCIMGroup :: "manager \<Rightarrow> scimAuthentication \<Rightarrow> uuid \<Rightarrow> scimGroup op" where
  "managerSCIMGroup m caller i = (bindE (scimConfigurationForPrincipal m caller) (\<lambda>configuration.
   callStore m (\<lambda>ce. storeSCIMGroup ce (scfg_ID configuration) i)))"

definition SCIMGroups :: "manager \<Rightarrow> scimAuthentication \<Rightarrow> scimFilter \<Rightarrow> pageRequest \<Rightarrow> world \<Rightarrow> scimGroup pageEvent result list \<times> world" where
  "SCIMGroups m caller flt page0 = stream (bindE (scimConfigurationForPrincipal m caller) (\<lambda>configuration.
   bindE (liftR (normalizePage page0)) (\<lambda>page.
   bindE (failIf (\<not> validSCIMFilter flt False) ErrInvalidInput) (\<lambda>_.
   readStream m (\<lambda>ce ctxErr. storeSCIMGroups (lib_UnmarshalCursor (m_library m)) ce ctxErr (scfg_ID configuration) flt page)))))"

section \<open>The operations run the store\<close>

text \<open>
  Three methods of the store write into the map of a workspace's memberships and panic where there is none.
  An operation that does not panic runs the store.
\<close>

definition panicFree :: "manager \<Rightarrow> 'a op \<Rightarrow> bool" where
  "panicFree m f \<longleftrightarrow> (\<forall>w. fst (f w) \<noteq> Inl RuntimePanic \<longrightarrow> runs m w (snd (f w)))"

lemma panicFree_runs: "relates (runs m) f \<Longrightarrow> panicFree m f"
  by (simp add: panicFree_def relates_def)

lemma panicFree_bindE:
  assumes "panicFree m f" and "\<And>x. panicFree m (k x)"
  shows "panicFree m (bindE f k)"
  unfolding panicFree_def
proof (intro allI impI)
  fix w
  assume calm: "fst (bindE f k w) \<noteq> Inl RuntimePanic"
  obtain r w1 where f: "f w = (r, w1)" by (cases "f w")
  have first: "r \<noteq> Inl RuntimePanic \<Longrightarrow> runs m w w1" using assms(1) [unfolded panicFree_def, rule_format, of w] f by simp
  show "runs m w (snd (bindE f k w))"
  proof (cases r)
    case (Inl e)
    with f calm first show ?thesis by (simp add: bindE_def)
  next
    case (Inr x)
    with f calm assms(2) [of x] have "runs m w1 (snd (k x w1))" by (simp add: bindE_def panicFree_def)
    with first Inr have "runs m w (snd (k x w1))" by (auto intro: runs_trans)
    with f Inr show ?thesis by (simp add: bindE_def)
  qed
qed

lemma panicFree_cases:
  "panicFree m f \<Longrightarrow> panicFree m g \<Longrightarrow> panicFree m (if b then f else g)"
  "(\<And>e. panicFree m (p e)) \<Longrightarrow> (\<And>x. panicFree m (q x)) \<Longrightarrow> panicFree m (case_sum p q r)"
  "(\<And>x y. panicFree m (h x y)) \<Longrightarrow> panicFree m (case_prod h pr)"
  "(\<And>x. panicFree m (q x)) \<Longrightarrow> panicFree m (Let v q)"
  by (auto split: sum.split prod.split simp: Let_def)

context environment
begin

lemma scim_mutators_run [run_rules]:
  "commitOk c \<Longrightarrow> relates (runs m) (callStore m (\<lambda>ce. storeCreateSCIMConfiguration (m_sha m) ce cfg crd c))"
  "commitOk c \<Longrightarrow> relates (runs m) (callStore m (\<lambda>ce. storeUpdateSCIMConfiguration (m_sha m) ce cfg mbrs c))"
  "commitOk c \<Longrightarrow> relates (runs m) (callStore m (\<lambda>ce. SaveSCIMCredential (m_sha m) ce crd c))"
  "commitOk c \<Longrightarrow> relates (runs m) (callStore m (\<lambda>ce. storeRevokeSCIMCredential (m_sha m) ce i j t c))"
  "commitOk c \<Longrightarrow> relates (runs m) (callStore m (\<lambda>ce. TouchSCIMCredential (m_sha m) ce i t c))"
  "commitOk c \<Longrightarrow> relates (runs m) (callStore m (\<lambda>ce. storeDisableSCIMConfiguration (m_sha m) ce i t c))"
  "commitOk c \<Longrightarrow> relates (runs m) (callStore m (\<lambda>ce. CreateSCIMUser (m_sha m) ce usr eml mbr lnk c))"
  "commitOk c \<Longrightarrow> relates (runs m) (callStore m (\<lambda>ce. AdoptSCIMUser (m_sha m) ce mbr lnk c))"
  by (rule callStore_atomic, rule exI, erule atomicCall.intros, assumption)+

lemma scim_readers_run [run_rules]:
  "relates (runs m) (callStore m (\<lambda>ce. storeSCIMConfiguration ce i))"
  "relates (runs m) (callStore m (\<lambda>ce. SCIMConfigurationByCredentialPrefix ce h))"
  "relates (runs m) (callStore m (\<lambda>ce. storeSCIMUser ce i j))"
  "relates (runs m) (callStore m (\<lambda>ce. storeSCIMGroup ce i j))"
  by (rule callStore_reads, simp add: storeSCIMConfiguration_def SCIMConfigurationByCredentialPrefix_def storeSCIMUser_def
    storeSCIMGroup_def reads_def split: option.split)+

lemma scim_gates_run [run_rules]: "relates (runs m) (requireSCIMAdmin m actor i h)"
  "relates (runs m) (scimConfigurationForPrincipal m pr)" "relates (runs m) (newSCIMCredential m i expiry)"
  "relates (runs m) (newServiceAudit m i h h2 h3 j)" "relates (runs m) (futureExpiry m expiry)"
  "relates (runs m) (managedMembership m cfg i)" "relates (runs m) (scimByToken m h)" "relates (runs m) (currentGroup m cfg i)"
  unfolding requireSCIMAdmin_def scimConfigurationForPrincipal_def newSCIMCredential_def newServiceAudit_def futureExpiry_def
    managedMembership_def scimByToken_def currentGroup_def
  by (intro run_rules)+

lemma allFrom_runs [run_rules]: "relates (runs m) (allFrom m n qry cur xs)"
proof (induction n arbitrary: cur xs)
  case (Suc n)
  show ?case unfolding allFrom.simps by (intro run_rules Suc)
qed (simp add: run_rules)

lemma updatedMemberships_run [run_rules]: "relates (runs m) (updatedMemberships m cfg groups users)"
proof (induction users)
  case (Cons user users)
  show ?case unfolding updatedMemberships.simps by (intro run_rules Cons)
qed (simp add: run_rules)

lemma affectedMemberships_run [run_rules]: "relates (runs m) (affectedMemberships m cfg groups links)"
proof (induction links)
  case (Cons lnk links)
  show ?case unfolding affectedMemberships.simps by (intro run_rules Cons)
qed (simp add: run_rules)

lemma checkMembers_run [run_rules]: "relates (runs m) (checkMembers m i members)"
proof (induction members)
  case (Cons member members)
  show ?case unfolding checkMembers.simps by (intro run_rules Cons)
qed (simp add: run_rules)

lemma scim_walks_run [run_rules]: "relates (runs m) (allSCIMGroups m i)" "relates (runs m) (allSCIMUsers m i)"
  "relates (runs m) (scimMembershipsForGroupChange m cfg grp b links)"
  unfolding scimMembershipsForGroupChange_def allSCIMGroups_def allSCIMUsers_def by (intro run_rules)+

lemma scim_admin_runs [run_rules]: "relates (runs m) (CreateSCIMConfiguration m actor i r b maps expiry)"
  "relates (runs m) (UpdateSCIMConfiguration m actor i r b maps)" "relates (runs m) (RotateSCIMCredential m actor i expiry)"
  "relates (runs m) (RevokeSCIMCredential m actor i j)" "relates (runs m) (DisableSCIMConfiguration m actor i)"
  "relates (runs m) (managerAdoptSCIMUser m actor i j sui)"
  unfolding CreateSCIMConfiguration_def UpdateSCIMConfiguration_def RotateSCIMCredential_def RevokeSCIMCredential_def
    DisableSCIMConfiguration_def managerAdoptSCIMUser_def
  by (intro run_rules; assumption)+

lemma scim_directory_runs [run_rules]: "relates (runs m) (AuthenticateSCIM m h)" "relates (runs m) (ProvisionSCIMUser m pr sui)"
  "relates (runs m) (managerSCIMUser m pr i)" "relates (runs m) (managerSCIMGroup m pr i)"
  unfolding AuthenticateSCIM_def ProvisionSCIMUser_def managerSCIMUser_def managerSCIMGroup_def
  by (intro run_rules; assumption)+

lemma scim_listings_run [run_rules]: "relates (runs m) (SCIMConfigurations m actor i)" "relates (runs m) (SCIMCredentials m actor i)"
  "relates (runs m) (SCIMUsers m pr flt page)" "relates (runs m) (SCIMGroups m pr flt page)"
  unfolding SCIMConfigurations_def SCIMCredentials_def SCIMUsers_def SCIMGroups_def by (intro stream_runs run_rules)+

lemma callStore_panicFree:
  assumes "\<And>ce s r s'. f ce s = (r, s') \<Longrightarrow> r \<noteq> Inl RuntimePanic \<Longrightarrow> \<exists>out. atomicCall (m_sha m) c s out s'" and "commitOk c"
  shows "panicFree m (callStore m f)"
  unfolding panicFree_def
proof (intro allI impI)
  fix w :: world
  let ?o = "m_others m (w_calls w) (w_store w)"
  obtain r s' where f: "f (m_ctxErr m (w_calls w)) ?o = (r, s')" by (cases "f (m_ctxErr m (w_calls w)) ?o")
  assume "fst (callStore m f w) \<noteq> Inl RuntimePanic"
  with f have "r \<noteq> Inl RuntimePanic" by (simp add: callStore_def)
  from assms(1) [OF f this] obtain out where "atomicCall (m_sha m) c ?o out s'" by blast
  then have "storeRun (m_sha m) commitOk ?o s'"
    using assms(2) by (meson storeCall.call_atomic storeRun_step storeStep.mutation)
  with f show "runs m w (snd (callStore m f w))"
    by (auto simp: runs_def callStore_def generatorOk_def idKey_def intro: storeRun_trans others_run)
qed

lemma scim_writers_panicFree:
  "commitOk c \<Longrightarrow> panicFree m (callStore m (\<lambda>ce. storeUpdateSCIMUser (m_sha m) ce lnk mbr b c))"
  "commitOk c \<Longrightarrow> panicFree m (callStore m (\<lambda>ce. UpsertSCIMGroup (m_sha m) ce grp mbrs c))"
  "commitOk c \<Longrightarrow> panicFree m (callStore m (\<lambda>ce. storeDeleteSCIMGroup (m_sha m) ce grp mbrs c))"
  by (rule callStore_panicFree, rule exI, erule (1) atomicCall.intros, assumption)+

lemma orMapped_panicFree:
  fixes f :: "'b op"
  assumes "panicFree m f"
  shows "panicFree m (orMapped m a f)"
  unfolding panicFree_def
proof (intro allI impI)
  fix w
  obtain r w1 where f: "f w = (r, w1)" by (cases "f w")
  assume "fst (orMapped m a f w) \<noteq> Inl RuntimePanic"
  with f have "r \<noteq> Inl RuntimePanic"
    by (auto simp: orMapped_def tryE_def mapStoreError_def mapAuditError_def bindE_def fail_def Let_def)
  with f assms have first: "runs m w w1" unfolding panicFree_def by (metis fst_conv snd_conv)
  show "runs m w (snd (orMapped m a f w))"
  proof (cases r)
    case (Inl e)
    have "relates (runs m) (mapStoreError m a e :: 'b op)" by (rule mapStoreError_runs)
    then have "runs m w1 (snd (mapStoreError m a e w1 :: 'b result \<times> world))" by (simp add: relates_def)
    with f Inl first show ?thesis by (auto simp: orMapped_def tryE_def bindE_def intro: runs_trans)
  qed (use f first in \<open>simp add: orMapped_def tryE_def bindE_def ret_def\<close>)
qed

lemma committing_panicFree: "(\<And>c. commitOk c \<Longrightarrow> panicFree m (f c)) \<Longrightarrow> panicFree m (committing m a b d e f)"
  unfolding committing_def
  by (intro panicFree_bindE orMapped_panicFree panicFree_runs [OF pure_runs(3)] panicFree_runs [OF ret_runs]) (simp add: run_rules)

lemma commitSCIMUserUpdate_panicFree: "panicFree m (commitSCIMUserUpdate m pr cfg lnk mbr h b)"
  unfolding commitSCIMUserUpdate_def
  by ((rule committing_panicFree, erule scim_writers_panicFree) | rule panicFree_bindE panicFree_cases | (rule panicFree_runs, rule run_rules) | rule run_rules)+

lemma scim_changes_panicFree: "panicFree m (ReplaceSCIMUser m pr i sui)" "panicFree m (DeprovisionSCIMUser m pr i)"
  "panicFree m (managerUpsertSCIMGroup m pr i sgi)" "panicFree m (DeleteSCIMGroup m pr i)"
  unfolding ReplaceSCIMUser_def DeprovisionSCIMUser_def managerUpsertSCIMGroup_def DeleteSCIMGroup_def
  by ((rule committing_panicFree, erule scim_writers_panicFree) | rule commitSCIMUserUpdate_panicFree
    | rule panicFree_bindE panicFree_cases | (rule panicFree_runs, rule run_rules) | rule run_rules)+

end

end
