(* ===== verification/History.thy ===== *)
theory History
  imports ManagerLogic MemKeys ManagerOAuthAdmin ManagerSCIM
begin

text \<open>
  Histories: the requests a Manager serves, one rule for each of its operations, each under its own request
  metadata and context, interleaved with whatever other requests do to the store between two calls of a
  request (\<open>m_others\<close>) and between two requests. What holds along every run of the store holds along
  every history.
\<close>

section \<open>Requests\<close>

inductive servesOAuth :: "manager \<Rightarrow> oauthModule \<Rightarrow> world \<Rightarrow> world \<Rightarrow> bool" for m srv where
  serve_ValidateOAuthAuthorizationRedirect: "servesOAuth m srv w (snd (ValidateOAuthAuthorizationRedirect m srv text text2 text3 w))"
| serve_CreateOAuthIssuer: "servesOAuth m srv w (snd (CreateOAuthIssuer m srv actor flag text input w))"
| serve_UpdateOAuthIssuer: "servesOAuth m srv w (snd (UpdateOAuthIssuer m srv actor flag i input w))"
| serve_CreateOAuthProtectedResource: "servesOAuth m srv w (snd (CreateOAuthProtectedResource m srv actor i i2 text input w))"
| serve_PreRegisterOAuthClient: "servesOAuth m srv w (snd (PreRegisterOAuthClient m srv actor flag i input w))"
| serve_CreateOAuthInitialAccessToken: "servesOAuth m srv w (snd (CreateOAuthInitialAccessToken m srv actor flag i t n w))"
| serve_OAuthInitialAccessTokens: "servesOAuth m srv w (snd (OAuthInitialAccessTokens m srv actor i w))"
| serve_RevokeOAuthInitialAccessToken: "servesOAuth m srv w (snd (RevokeOAuthInitialAccessToken m srv actor flag i w))"
| serve_RegisterOAuthClient: "servesOAuth m srv w (snd (RegisterOAuthClient m srv text text2 input w))"
| serve_BeginOAuthAuthorization: "servesOAuth m srv w (snd (BeginOAuthAuthorization m srv actor input w))"
| serve_CompleteOAuthAuthorization: "servesOAuth m srv w (snd (CompleteOAuthAuthorization m srv actor text flag w))"
| serve_ExchangeOAuthAuthorizationCode: "servesOAuth m srv w (snd (ExchangeOAuthAuthorizationCode m srv input w))"
| serve_IssueOAuthClientCredentials: "servesOAuth m srv w (snd (IssueOAuthClientCredentials m srv input text input2 w))"
| serve_RefreshOAuthToken: "servesOAuth m srv w (snd (RefreshOAuthToken m srv input w))"
| serve_RevokeOAuthToken: "servesOAuth m srv w (snd (RevokeOAuthToken m srv input text w))"
| serve_AuthenticateOAuthAccessToken: "servesOAuth m srv w (snd (AuthenticateOAuthAccessToken m srv text text2 w))"
| serve_OAuthUserInfo: "servesOAuth m srv w (snd (OAuthUserInfo m srv text text2 w))"
| serve_OAuthAuthorizationServerMetadata: "servesOAuth m srv w (snd (getOAuthAuthorizationServerMetadata m srv text w))"
| serve_OAuthProtectedResourceMetadata: "servesOAuth m srv w (snd (getOAuthProtectedResourceMetadata m srv text w))"
| serve_OAuthJWKS: "servesOAuth m srv w (snd (OAuthJWKS m srv text w))"
| serve_DisableOAuthIssuer: "servesOAuth m srv w (snd (DisableOAuthIssuer m srv actor flag i w))"
| serve_EnableOAuthIssuer: "servesOAuth m srv w (snd (EnableOAuthIssuer m srv actor flag i w))"
| serve_DisableOAuthProtectedResource: "servesOAuth m srv w (snd (DisableOAuthProtectedResource m srv actor i i2 w))"
| serve_EnableOAuthProtectedResource: "servesOAuth m srv w (snd (EnableOAuthProtectedResource m srv actor i i2 w))"
| serve_DisableOAuthClient: "servesOAuth m srv w (snd (DisableOAuthClient m srv actor flag i w))"
| serve_EnableOAuthClient: "servesOAuth m srv w (snd (EnableOAuthClient m srv actor flag i w))"
| serve_RotateOAuthClientSecret: "servesOAuth m srv w (snd (RotateOAuthClientSecret m srv actor flag i w))"
| serve_ReplaceOAuthClientJWKS: "servesOAuth m srv w (snd (ReplaceOAuthClientJWKS m srv actor flag i blob w))"
| serve_RevokeOAuthGrant: "servesOAuth m srv w (snd (managerRevokeOAuthGrant m srv actor i w))"
| serve_OAuthIssuers: "servesOAuth m srv w (snd (OAuthIssuers m srv actor page w))"
| serve_OAuthProtectedResources: "servesOAuth m srv w (snd (OAuthProtectedResources m srv actor i page w))"
| serve_OAuthClients: "servesOAuth m srv w (snd (OAuthClients m srv actor i page w))"
| serve_OAuthGrants: "servesOAuth m srv w (snd (OAuthGrants m srv actor i page w))"

text \<open>Of the changes a directory makes, those that do not panic.\<close>

inductive servesSCIM :: "manager \<Rightarrow> world \<Rightarrow> world \<Rightarrow> bool" for m where
  serve_CreateSCIMConfiguration: "servesSCIM m w (snd (CreateSCIMConfiguration m actor i r flag input expiry w))"
| serve_UpdateSCIMConfiguration: "servesSCIM m w (snd (UpdateSCIMConfiguration m actor i r flag input w))"
| serve_SCIMConfigurations: "servesSCIM m w (snd (SCIMConfigurations m actor i w))"
| serve_SCIMCredentials: "servesSCIM m w (snd (SCIMCredentials m actor i w))"
| serve_RotateSCIMCredential: "servesSCIM m w (snd (RotateSCIMCredential m actor i expiry w))"
| serve_RevokeSCIMCredential: "servesSCIM m w (snd (RevokeSCIMCredential m actor i i2 w))"
| serve_DisableSCIMConfiguration: "servesSCIM m w (snd (DisableSCIMConfiguration m actor i w))"
| serve_AuthenticateSCIM: "servesSCIM m w (snd (AuthenticateSCIM m text w))"
| serve_ProvisionSCIMUser: "servesSCIM m w (snd (ProvisionSCIMUser m caller input w))"
| serve_AdoptSCIMUser: "servesSCIM m w (snd (managerAdoptSCIMUser m actor i i2 input w))"
| serve_ReplaceSCIMUser: "fst (ReplaceSCIMUser m caller i input w) \<noteq> Inl RuntimePanic \<Longrightarrow> servesSCIM m w (snd (ReplaceSCIMUser m caller i input w))"
| serve_DeprovisionSCIMUser: "fst (DeprovisionSCIMUser m caller i w) \<noteq> Inl RuntimePanic \<Longrightarrow> servesSCIM m w (snd (DeprovisionSCIMUser m caller i w))"
| serve_SCIMUser: "servesSCIM m w (snd (managerSCIMUser m caller i w))"
| serve_SCIMUsers: "servesSCIM m w (snd (SCIMUsers m caller input page w))"
| serve_UpsertSCIMGroup: "fst (managerUpsertSCIMGroup m caller i input w) \<noteq> Inl RuntimePanic \<Longrightarrow> servesSCIM m w (snd (managerUpsertSCIMGroup m caller i input w))"
| serve_DeleteSCIMGroup: "fst (DeleteSCIMGroup m caller i w) \<noteq> Inl RuntimePanic \<Longrightarrow> servesSCIM m w (snd (DeleteSCIMGroup m caller i w))"
| serve_SCIMGroup: "servesSCIM m w (snd (managerSCIMGroup m caller i w))"
| serve_SCIMGroups: "servesSCIM m w (snd (SCIMGroups m caller input page w))"

inductive serves :: "manager \<Rightarrow> world \<Rightarrow> world \<Rightarrow> bool" for m where
  serve_RequireStepUp: "serves m w (snd (RequireStepUp m actor w))"
| serve_RequireStepUpFor: "serves m w (snd (RequireStepUpFor m actor scope w))"
| serve_Authorize: "serves m w (snd (Authorize m actor i r w))"
| serve_AuthorizePermission: "serves m w (snd (AuthorizePermission m actor i p w))"
| serve_AuthorizeAdmin: "serves m w (snd (AuthorizeAdmin m actor p w))"
| serve_RequireAdminMutation: "serves m w (snd (RequireAdminMutation m actor flag w))"
| serve_CreateSession: "serves m w (snd (CreateSession m actor w))"
| serve_AuthenticateSession: "serves m w (snd (AuthenticateSession m text w))"
| serve_SignOut: "serves m w (snd (SignOut m text w))"
| serve_Sessions: "serves m w (snd (Sessions m actor i page w))"
| serve_RevokeSession: "serves m w (snd (RevokeSession m actor i w))"
| serve_RevokeUserSessions: "serves m w (snd (managerRevokeUserSessions m actor flag i w))"
| serve_CreatePAT: "serves m w (snd (CreatePAT m actor input w))"
| serve_AuthenticatePAT: "serves m w (snd (AuthenticatePAT m text w))"
| serve_RevokePAT: "serves m w (snd (RevokePAT m actor i w))"
| serve_PATs: "serves m w (snd (PATs m actor i page w))"
| serve_WorkspacePATs: "serves m w (snd (WorkspacePATs m actor i page w))"
| serve_RevokeWorkspacePAT: "serves m w (snd (RevokeWorkspacePAT m actor i i2 w))"
| serve_VerifyAuditChainFrom: "serves m w (snd (VerifyAuditChainFrom m actor input w))"
| serve_VerifyAuditChain: "serves m w (snd (VerifyAuditChain m actor w))"
| serve_AuditEvents: "serves m w (snd (AuditEvents m actor i page w))"
| serve_InstanceAuditEvents: "serves m w (snd (InstanceAuditEvents m actor page w))"
| serve_Bootstrap: "serves m w (snd (managerBootstrap m input w))"
| serve_CreateUser: "serves m w (snd (CreateUser m actor i input w))"
| serve_AuthenticatePassword: "serves m w (snd (AuthenticatePassword m text text2 w))"
| serve_ChangePassword: "serves m w (snd (ChangePassword m actor text text2 w))"
| serve_GrantRole: "serves m w (snd (GrantRole m actor i i2 r w))"
| serve_InstanceAdministrator: "serves m w (snd (InstanceAdministrator m actor i w))"
| serve_InstanceAdministrators: "serves m w (snd (managerInstanceAdministrators m actor w))"
| serve_SetInstanceRole: "serves m w (snd (SetInstanceRole m actor flag i input w))"
| serve_RemoveInstanceRole: "serves m w (snd (RemoveInstanceRole m actor flag i w))"
| serve_BeginEmailAddition: "serves m w (snd (BeginEmailAddition m actor text w))"
| serve_ResendEmailVerification: "serves m w (snd (ResendEmailVerification m text w))"
| serve_ConfirmEmail: "serves m w (snd (ConfirmEmail m text w))"
| serve_SetPrimaryEmail: "serves m w (snd (SetPrimaryEmail m actor i w))"
| serve_RemoveEmail: "serves m w (snd (RemoveEmail m actor i w))"
| serve_Emails: "serves m w (snd (managerEmails m actor i page w))"
| serve_BeginEmailAuthentication: "serves m w (snd (BeginEmailAuthentication m text w))"
| serve_CompleteEmailAuthentication: "serves m w (snd (CompleteEmailAuthentication m text w))"
| serve_BeginEmailOTP: "serves m w (snd (BeginEmailOTP m text w))"
| serve_CompleteEmailOTP: "serves m w (snd (CompleteEmailOTP m text text2 w))"
| serve_BeginPasswordReset: "serves m w (snd (BeginPasswordReset m text w))"
| serve_CompletePasswordReset: "serves m w (snd (CompletePasswordReset m text text2 w))"
| serve_SignUp: "serves m w (snd (SignUp m input w))"
| serve_CreateWorkspace: "serves m w (snd (CreateWorkspace m actor text flag w))"
| serve_UpdateWorkspace: "serves m w (snd (UpdateWorkspace m actor i text choice w))"
| serve_AdminUpdateWorkspace: "serves m w (snd (AdminUpdateWorkspace m actor flag i text choice w))"
| serve_DisableWorkspace: "serves m w (snd (DisableWorkspace m actor i w))"
| serve_EnableWorkspace: "serves m w (snd (EnableWorkspace m actor i w))"
| serve_AdminDisableWorkspace: "serves m w (snd (AdminDisableWorkspace m actor flag i w))"
| serve_AdminEnableWorkspace: "serves m w (snd (AdminEnableWorkspace m actor flag i w))"
| serve_DisableUser: "serves m w (snd (DisableUser m actor flag i w))"
| serve_EnableUser: "serves m w (snd (EnableUser m actor flag i w))"
| serve_UpdateUser: "serves m w (snd (managerUpdateUser m actor text w))"
| serve_AdminUpdateUser: "serves m w (snd (AdminUpdateUser m actor flag i text w))"
| serve_AddMembership: "serves m w (snd (AddMembership m actor i i2 r w))"
| serve_SetMembershipStatus: "serves m w (snd (SetMembershipStatus m actor i i2 input w))"
| serve_RemoveMembership: "serves m w (snd (RemoveMembership m actor i i2 w))"
| serve_User: "serves m w (snd (managerUser m actor i w))"
| serve_Workspace: "serves m w (snd (managerWorkspace m actor i w))"
| serve_Membership: "serves m w (snd (managerMembership m actor i i2 w))"
| serve_Users: "serves m w (snd (managerUsers m actor page w))"
| serve_Workspaces: "serves m w (snd (managerWorkspaces m actor page w))"
| serve_UserWorkspaces: "serves m w (snd (managerUserWorkspaces m actor page w))"
| serve_Memberships: "serves m w (snd (managerMemberships m actor i page w))"
| serve_WorkspaceMembers: "serves m w (snd (WorkspaceMembers m actor i page w))"
| serve_InviteToWorkspace: "serves m w (snd (InviteToWorkspace m actor i text r w))"
| serve_AcceptInvitation: "serves m w (snd (AcceptInvitation m actor text w))"
| serve_RegisterFromInvitation: "serves m w (snd (RegisterFromInvitation m text text2 text3 w))"
| serve_RevokeInvitation: "serves m w (snd (RevokeInvitation m actor i i2 w))"
| serve_WorkspaceInvitations: "serves m w (snd (managerWorkspaceInvitations m actor i page w))"
| serve_CreateWorkspaceDomain: "serves m w (snd (managerCreateWorkspaceDomain m actor i text w))"
| serve_ConfirmWorkspaceDomain: "serves m w (snd (ConfirmWorkspaceDomain m actor i w))"
| serve_UpdateWorkspaceDomainPolicy: "serves m w (snd (UpdateWorkspaceDomainPolicy m actor i input w))"
| serve_RemoveWorkspaceDomain: "serves m w (snd (RemoveWorkspaceDomain m actor i w))"
| serve_WorkspaceDomains: "serves m w (snd (WorkspaceDomains m actor i page w))"
| serve_BeginTOTPEnrollment: "serves m w (snd (BeginTOTPEnrollment m actor w))"
| serve_ConfirmTOTPEnrollment: "serves m w (snd (ConfirmTOTPEnrollment m actor text w))"
| serve_VerifyTOTP: "serves m w (snd (VerifyTOTP m actor text w))"
| serve_DisableTOTP: "serves m w (snd (DisableTOTP m actor text w))"
| serve_RegenerateRecoveryCodes: "serves m w (snd (RegenerateRecoveryCodes m actor w))"
| serve_TOTPStatus: "serves m w (snd (TOTPStatus m actor i w))"
| serve_BeginPasskeyRegistration: "serves m w (snd (BeginPasskeyRegistration m actor text w))"
| serve_FinishPasskeyRegistration: "serves m w (snd (FinishPasskeyRegistration m actor text blob w))"
| serve_BeginPasskeyAuthentication: "serves m w (snd (BeginPasskeyAuthentication m text w))"
| serve_FinishPasskeyAuthentication: "serves m w (snd (FinishPasskeyAuthentication m text blob w))"
| serve_BeginDiscoverablePasskeyAuthentication: "serves m w (snd (BeginDiscoverablePasskeyAuthentication m w))"
| serve_FinishDiscoverablePasskeyAuthentication: "serves m w (snd (FinishDiscoverablePasskeyAuthentication m text blob w))"
| serve_DeletePasskey: "serves m w (snd (managerDeletePasskey m actor i w))"
| serve_Passkeys: "serves m w (snd (Passkeys m actor i w))"
| serve_BeginSSO: "serves m w (snd (BeginSSO m i w))"
| serve_BeginSSOLink: "serves m w (snd (BeginSSOLink m actor i w))"
| serve_BeginSSOStepUp: "serves m w (snd (BeginSSOStepUp m actor i w))"
| serve_FinishSSO: "serves m w (snd (FinishSSO m text blob w))"
| serve_UnlinkSSO: "serves m w (snd (managerUnlinkSSO m actor i w))"
| serve_SSOIdentities: "serves m w (snd (SSOIdentities m actor i page w))"
| serve_RevokeUserCredentials: "serves m w (snd (managerRevokeUserCredentials m actor flag i w))"
| serve_AdminResetSecondFactor: "serves m w (snd (AdminResetSecondFactor m actor flag i w))"
| serve_AnonymizeUser: "serves m w (snd (AnonymizeUser m actor flag i w))"
| serve_RecordAudit: "serves m w (snd (RecordAudit m actor input w))"
| serve_ExportUserData: "serves m w (snd (ExportUserData m actor i w))"
| serve_oauth: "servesOAuth m srv w w' \<Longrightarrow> serves m w w'"
| serve_scim: "servesSCIM m w w' \<Longrightarrow> serves m w w'"

lemma panicFreeD: "panicFree m f \<Longrightarrow> fst (f w) \<noteq> Inl RuntimePanic \<Longrightarrow> runs m w (snd (f w))"
  by (simp add: panicFree_def)

lemma relates_snd: "relates R f \<Longrightarrow> R w (snd (f w))"
  by (simp add: relates_def)

context environment
begin

lemma servesOAuth_runs: "servesOAuth m srv w w' \<Longrightarrow> runs m w w'"
  by (induction rule: servesOAuth.induct) (rule relates_snd, rule run_rules)+

lemma servesSCIM_runs: "servesSCIM m w w' \<Longrightarrow> runs m w w'"
  by (induction rule: servesSCIM.induct) ((rule relates_snd, rule run_rules)
    | (erule panicFreeD [rotated], rule scim_changes_panicFree))+

lemma serves_runs: "serves m w w' \<Longrightarrow> runs m w w'"
  by (induction rule: serves.induct) ((rule relates_snd, rule run_rules) | erule servesOAuth_runs servesSCIM_runs)+

end

section \<open>Histories\<close>

definition requestOf :: "manager \<Rightarrow> requestMetadata \<Rightarrow> (nat \<Rightarrow> error option) \<Rightarrow> manager" where
  "requestOf m metadata ctxErr = m\<lparr>m_request := metadata, m_ctxErr := ctxErr\<rparr>"

inductive history :: "manager \<Rightarrow> world \<Rightarrow> world \<Rightarrow> bool" for m where
  start: "history m w w"
| request: "history m w w1 \<Longrightarrow> serves (requestOf m metadata ctxErr) w1 w2 \<Longrightarrow> history m w w2"
| elsewhere: "history m w w1 \<Longrightarrow> storeRun (m_sha m) commitOk (w_store w1) s \<Longrightarrow> history m w (w1\<lparr>w_store := s\<rparr>)"

lemma requestOf_runs: "runs (requestOf m q c) = runs m"
  by (simp add: fun_eq_iff runs_def requestOf_def)

context environment
begin

lemma request_environment: "environment (requestOf m q c)"
  using others_run by unfold_locales (simp add: requestOf_def)

lemma history_runs: "history m w w' \<Longrightarrow> runs m w w'"
proof (induction rule: history.induct)
  case (request w w1 q c w2)
  from environment.serves_runs [OF request_environment request(2)] have "runs m w1 w2" by (simp only: requestOf_runs)
  with request(3) show ?case by (rule runs_trans)
next
  case (elsewhere w w1 s)
  then show ?case by (auto simp: runs_def generatorOk_def idKey_def intro: storeRun_trans)
qed (rule runs_refl)

lemma history_store: "history m w w' \<Longrightarrow> storeRun (m_sha m) commitOk (w_store w) (w_store w')"
  using history_runs by (simp add: runs_def)

end

end
