(* ===== verification/Instances.thy ===== *)
theory Instances
  imports History
begin

text \<open>
  The instance the properties of the operations are evaluated on: a store that was bootstrapped with one
  user and given a session, and what the Manager's steps do on a store whose log accepts new events.
\<close>

section \<open>Steps that succeed\<close>

lemma newEventMeta_succeeds:
  assumes "entropic m" and "generatorOk w"
  shows "\<exists>meta w'. newEventMeta m name op u ws event w = (Inr meta, w') \<and> w_store w' = w_store w \<and> w_calls w' = w_calls w \<and> generatorOk w'"
proof -
  obtain i w1 where "newID m w = (Inr i, w1)" "w_store w1 = w_store w" "w_calls w1 = w_calls w" "generatorOk w1"
    using newID_succeeds [OF assms] by blast
  then show ?thesis by (auto simp: newEventMeta_def bindE_def now_def ret_def generatorOk_def)
qed

text \<open>A log that has only events whose identifiers are not of version 7 accepts every event the Manager makes.\<close>

definition openLog :: "store \<Rightarrow> bool" where
  "openLog s \<longleftrightarrow> st_auditFailure s = None \<and> (\<forall>i. validUUIDv7 i \<longrightarrow> i \<notin> st_auditIDs s)"

lemma canAudit_fresh:
  assumes "validUUIDv7 (aud_ID event)" and "aud_OccurredAt event = t - t mod 1000" and "t \<ge> 0" and "aud_Action event \<noteq> []" and "openLog s"
  shows "canAudit event s = None"
proof -
  have "aud_OccurredAt event \<noteq> zeroTime" using zmod_le_nonneg_dividend [OF assms(3), of 1000] assms(2) by (simp add: zeroTime_def second_def)
  moreover have "aud_ID event \<noteq> 0" using assms(1) not_v7(1) by metis
  ultimately show ?thesis using assms by (simp add: canAudit_def openLog_def)
qed

lemma newAudit_accepted:
  assumes "entropic m" and "generatorOk w" and "\<And>n. m_clock m n \<ge> 0" and "action \<noteq> []"
  shows "\<exists>event w'. newAudit m actor action rt ri ws outcome reason w = (Inr event, w') \<and> w_store w' = w_store w \<and> w_calls w' = w_calls w
    \<and> generatorOk w' \<and> validUUIDv7 (aud_ID event) \<and> (\<forall>s. openLog s \<longrightarrow> canAudit event s = None)"
proof -
  obtain event w' n where "newAudit m actor action rt ri ws outcome reason w = (Inr event, w')" "w_store w' = w_store w" "w_calls w' = w_calls w"
    "generatorOk w'" "validUUIDv7 (aud_ID event)" "aud_Action event = action" "aud_OccurredAt event = m_clock m n - m_clock m n mod 1000"
    using newAudit_succeeds [OF assms(1,2), of actor action rt ri ws outcome reason] by blast
  with canAudit_fresh [of event "m_clock m n"] assms(3,4) show ?thesis by auto
qed

lemma mutate_succeeds:
  assumes "guard s = Inr x" and "canAudit (cmt_Audit c) s = None" and "cmt_Ceremony c = None"
    and "\<And>hook. cmt_Transactional c = Some hook \<Longrightarrow> hook (cmt_Audit c) = None"
  shows "mutate sha None guard (writes f) c s = (Inr (), commitAudit sha (cmt_Audit c) (cmt_Unchained c) (f x s))"
  using assms by (cases "cmt_Transactional c") (simp_all add: mutate_def writes_def prepareCommitLocked_def finishCommitLocked_def)

lemma quiet_write: "quiet m \<Longrightarrow> fst (f None (w_store w)) = Inr x \<Longrightarrow> \<exists>w'. callStore m f w = (Inr x, w')"
  by (cases "f None (w_store w)") (simp add: quiet_callStore)

lemma sampleUUID_v7: "validUUIDv7 sampleUUID"
  by (simp add: validUUIDv7_def sampleUUID_def uuidBytes_bytesUuid)

lemma sampleUUID_nonzero [simp]: "sampleUUID \<noteq> 0"
  using sampleUUID_v7 not_v7(1) by metis

section \<open>A store with a user and a session\<close>

definition demoActor :: authentication where
  "demoActor = zeroAuthentication\<lparr>auth_UserID := sampleUUID, auth_Method := MethodPassword, auth_Level := AAL2, auth_AuthenticatedAt := 0\<rparr>"

definition demoSession :: session where
  "demoSession = (sampleSession sampleUUID sampleUUID None)\<lparr>ses_Digest := [1], ses_ExpiresAt := 1000000000\<rparr>"

definition demoUser :: user where
  "demoUser = sampleUser sampleUUID"

definition demoWorkspace :: workspace where
  "demoWorkspace = sampleWorkspace\<lparr>wsp_ID := sampleUUID\<rparr>"

definition demoEmail :: emailAddress where
  "demoEmail = \<lparr>eml_ID = 4, eml_UserID = sampleUUID, eml_Address = ''a@b.co'', eml_Primary = True, eml_VerifiedAt = Some 1,
     eml_CreatedAt = 1, eml_UpdatedAt = 1\<rparr>"

definition demoPassword :: passwordCredential where
  "demoPassword = \<lparr>pwc_UserID = sampleUUID, pwc_Hash = ''hpw'', pwc_UpdatedAt = 1\<rparr>"

definition demoMember :: membership where
  "demoMember = \<lparr>mbr_WorkspaceID = sampleUUID, mbr_UserID = sampleUUID, mbr_Role = RoleAdmin, mbr_Status = MembershipActive, mbr_ProvisioningSource = ProvisioningSourceLocal,
     mbr_CreatedAt = 1, mbr_UpdatedAt = 1\<rparr>"

definition demoRoot :: instanceAdministrator where
  "demoRoot = \<lparr>iad_UserID = sampleUUID, iad_Role = InstanceRoleRoot, iad_CreatedAt = 1, iad_UpdatedAt = 1\<rparr>"

definition demoStore :: store where
  "demoStore = snd (storeCreateSession (m_sha demoManager) None demoSession [] (sampleCommit 8)
     (snd (Bootstrap (m_sha demoManager) None demoUser demoEmail demoPassword demoWorkspace demoMember demoRoot (sampleCommit 9) New)))"

lemmas demo_records = demoUser_def sampleUser_def demoEmail_def demoPassword_def demoWorkspace_def sampleWorkspace_def demoMember_def demoRoot_def demoSession_def
  sampleSession_def sampleCommit_def sampleEvent_def

lemma demo_bootstrap:
  obtains s where "Bootstrap sha None demoUser demoEmail demoPassword demoWorkspace demoMember demoRoot (sampleCommit 9) New = (Inr (), s)"
    and "st_users s = [(sampleUUID, demoUser)]" and "st_sessions s = []" and "st_passwords s = [(sampleUUID, demoPassword)]"
    and "st_workspaces s = [(sampleUUID, demoWorkspace)]" and "st_memberships s = [(sampleUUID, [(sampleUUID, demoMember)])]" and "st_admins s = [(sampleUUID, demoRoot)]"
    and "st_emailAddresses s = [(4, demoEmail)]" and "st_emailIDs s = [(''a@b.co'', 4)]" and "st_emails s = [(''a@b.co'', sampleUUID)]"
    and "st_auditIDs s = {9}" and "st_auditFailure s = None"
proof -
  let ?s = "New\<lparr>st_users := [(sampleUUID, demoUser)], st_emails := [(''a@b.co'', sampleUUID)], st_emailAddresses := [(4, demoEmail)],
    st_emailIDs := [(''a@b.co'', 4)], st_passwords := [(sampleUUID, demoPassword)], st_workspaces := [(sampleUUID, demoWorkspace)],
    st_memberships := [(sampleUUID, [(sampleUUID, demoMember)])], st_admins := [(sampleUUID, demoRoot)]\<rparr>"
  have "Bootstrap sha None demoUser demoEmail demoPassword demoWorkspace demoMember demoRoot (sampleCommit 9) New
      = (Inr (), commitAudit sha (sampleEvent 9) False ?s)"
    unfolding Bootstrap_def
    by (subst mutate_succeeds [where x = "()"])
      (simp_all add: require_def canAudit_def New_def demo_records zeroTime_def second_def normalizeMembership_def MembershipActive_def
        ProvisioningSourceLocal_def put_def)
  then show thesis by (rule that) (simp_all add: commitAudit_def Let_def New_def sampleEvent_def)
qed

text \<open>The store: who is in it, and that the log accepts what the Manager writes.\<close>

lemma demoStore_facts:
  shows demoStore_run: "storeRun (m_sha demoManager) commitOk New demoStore"
    and demoStore_user: "lookup (st_users demoStore) sampleUUID = Some demoUser"
    and demoStore_session: "lookup (st_sessions demoStore) sampleUUID = Some demoSession"
    and demoStore_password: "lookup (st_passwords demoStore) sampleUUID = Some demoPassword"
    and demoStore_workspace: "lookup (st_workspaces demoStore) sampleUUID = Some demoWorkspace"
    and demoStore_member: "lookup (st_memberships demoStore) sampleUUID = Some [(sampleUUID, demoMember)]"
    and demoStore_root: "lookup (st_admins demoStore) sampleUUID = Some demoRoot"
    and demoStore_log: "openLog demoStore" "st_auditIDs demoStore = {8, 9}"
proof -
  let ?sha = "m_sha demoManager"
  obtain s where b: "Bootstrap ?sha None demoUser demoEmail demoPassword demoWorkspace demoMember demoRoot (sampleCommit 9) New = (Inr (), s)"
    and s: "st_users s = [(sampleUUID, demoUser)]" "st_sessions s = []" "st_passwords s = [(sampleUUID, demoPassword)]" "st_workspaces s = [(sampleUUID, demoWorkspace)]"
    "st_memberships s = [(sampleUUID, [(sampleUUID, demoMember)])]" "st_admins s = [(sampleUUID, demoRoot)]" "st_auditIDs s = {9}" "st_auditFailure s = None"
    by (rule demo_bootstrap)
  have c: "storeCreateSession ?sha None demoSession [] (sampleCommit 8) s
      = (Inr (), commitAudit ?sha (sampleEvent 8) False (s\<lparr>st_sessions := [(sampleUUID, demoSession)]\<rparr>))"
    unfolding storeCreateSession_def
    by (subst mutate_succeeds [where x = "()"])
      (simp_all add: require_def canAudit_def s demo_records zeroTime_def second_def put_def)
  have d: "demoStore = commitAudit ?sha (sampleEvent 8) False (s\<lparr>st_sessions := [(sampleUUID, demoSession)]\<rparr>)"
    by (simp add: demoStore_def b c)
  have "storeStep ?sha commitOk New s" "storeStep ?sha commitOk s demoStore"
    by (rule mutation [OF _ call_atomic [OF call_bootstrap [OF b]]] mutation [OF _ call_atomic [OF call_create_session [OF c [folded d]]]],
      simp add: commitOk_def sampleCommit_def)+
  then show "storeRun ?sha commitOk New demoStore" by (meson storeRun_step storeRun_trans)
  show "lookup (st_users demoStore) sampleUUID = Some demoUser" "lookup (st_sessions demoStore) sampleUUID = Some demoSession"
    "lookup (st_passwords demoStore) sampleUUID = Some demoPassword" "lookup (st_workspaces demoStore) sampleUUID = Some demoWorkspace"
    "lookup (st_memberships demoStore) sampleUUID = Some [(sampleUUID, demoMember)]" "lookup (st_admins demoStore) sampleUUID = Some demoRoot"
    by (simp_all add: d s)
  show ids: "st_auditIDs demoStore = {8, 9}" by (simp add: d s commitAudit_def Let_def sampleEvent_def)
  have "\<not> validUUIDv7 8" by (simp add: validUUIDv7_def) code_simp
  with not_v7(2) ids show "openLog demoStore" by (auto simp: openLog_def d s commitAudit_def Let_def)
qed

lemma demo_history: "history demoManager (demoWorld New) (demoWorld demoStore)"
proof -
  have "history demoManager (demoWorld New) ((demoWorld New)\<lparr>w_store := demoStore\<rparr>)"
    by (rule history.elsewhere [OF history.start]) (simp add: demoWorld_def demoStore_run)
  then show ?thesis by (simp add: demoWorld_def)
qed

lemma demo_ready: "entropic demoManager" "generatorOk (demoWorld s)" "m_clock demoManager n \<ge> 0" "m_hooks demoManager = []"
  by (auto simp: entropic_def demoManager_def generatorOk_def demoWorld_def)

text \<open>A token of the session.\<close>

definition demoToken :: string where
  "demoToken = Uuid.secretToken sessionTokenPrefix sampleUUID (replicate 32 7)"

lemma demoToken_parses: "parseSecretToken sessionTokenPrefix demoToken = Some sampleUUID"
  unfolding demoToken_def by (rule parse_secretToken) (simp_all add: sessionTokenPrefix_def sampleUUID_v7)

lemma demo_read: "sessionByToken demoManager demoToken (demoWorld demoStore) = (Inr demoSession, (demoWorld demoStore)\<lparr>w_calls := 1\<rparr>)"
  by (simp add: sessionByToken_def demoToken_parses bindE_def tryE_def SessionByID_def quiet_reads [OF demo_quiet] orErr_def ret_def
    demoWorld_def demoStore_session)

lemma demo_match: "matchTokenDigest demoManager (ses_Digest demoSession) x"
  by (simp add: matchTokenDigest_def matchDigestRing_def digest_def hmac_def demoManager_def demoSession_def)

section \<open>An administrator\<close>

lemma AuthorizeAdmin_succeeds:
  assumes calm: "calm m (w_calls w + 3)" and ready: "entropic m" "generatorOk w" "\<And>n. m_clock m n \<ge> 0"
    and actor: "auth_UserID actor \<noteq> 0" "auth_WorkspaceID actor = 0" "auth_Scopes actor = []"
    and user: "lookup (st_users (w_store w)) (auth_UserID actor) = Some u" "\<not> usr_Disabled u"
    and admin: "lookup (st_admins (w_store w)) (auth_UserID actor) = Some a" "hasAdminPermission m (iad_Role a) p"
    and log: "openLog (w_store w)"
  shows "\<exists>event w'. AuthorizeAdmin m actor p w = (Inr (), w') \<and> w_calls w' = w_calls w + 3
    \<and> AppendAudit (m_sha m) None (auditOnly event) (w_store w) = (Inr (), w_store w') \<and> validUUIDv7 (aud_ID event)"
proof -
  let ?w = "w\<lparr>w_calls := w_calls w + 2\<rparr>"
  have g: "generatorOk ?w" using ready(2) by (simp add: generatorOk_def)
  obtain event w1 where new: "newAudit m (auth_UserID actor) ''admin.access'' ''permission'' p 0 AuditSucceeded [] ?w = (Inr event, w1)"
    and e: "w_store w1 = w_store ?w" "w_calls w1 = w_calls ?w" "validUUIDv7 (aud_ID event)" "canAudit event (w_store w) = None"
    using newAudit_accepted [OF ready(1) g ready(3), of "''admin.access''" "auth_UserID actor" "''permission''" p 0 AuditSucceeded "[]"] log
    by auto
  from AppendAudit_succeeds [OF e(4)] obtain s where s: "AppendAudit (m_sha m) None (auditOnly event) (w_store w) = (Inr (), s)" by blast
  with new actor user admin e have "AuthorizeAdmin m actor p w = (Inr (), w1\<lparr>w_store := s, w_calls := w_calls w + 3\<rparr>)"
    by (simp add: AuthorizeAdmin_def bindE_def failIf_def tryE_def ret_def Let_def UserByID_def storeInstanceAdministrator_def
      calm_reads [OF calm] orErr_def orMapped_def calm_callStore [OF calm])
  with s e(3) show ?thesis by auto
qed

lemma demo_admin:
  assumes "calm m 3" and "m_random m = m_random demoManager" and "m_clock m = m_clock demoManager"
    and "m_adminPermissions m = defaultAdminPermissions"
  shows "\<exists>event w1. AuthorizeAdmin m demoActor PermissionAuditRead (demoWorld demoStore) = (Inr (), w1) \<and> w_calls w1 = 3
    \<and> AppendAudit (m_sha m) None (auditOnly event) demoStore = (Inr (), w_store w1) \<and> validUUIDv7 (aud_ID event)"
proof -
  have "hasAdminPermission m InstanceRoleRoot PermissionAuditRead"
    by (simp add: hasAdminPermission_def assms(4) defaultAdminPermissions_def)
  moreover have "entropic m" "generatorOk (demoWorld demoStore)" "\<And>n. m_clock m n \<ge> 0"
    using assms(2,3) demo_ready by (simp_all add: entropic_def)
  ultimately show ?thesis
    using assms(1) demoStore_user demoStore_root demoStore_log(1) AuthorizeAdmin_succeeds [where w = "demoWorld demoStore" and m = m
      and actor = demoActor and u = "demoUser" and a = demoRoot and p = PermissionAuditRead]
    by (simp add: demoWorld_def demoActor_def zeroAuthentication_def demoUser_def sampleUser_def demoRoot_def)
qed

section \<open>A member\<close>

lemma demo_role: "roleAllows (m_workspaceRoles demoManager) RoleAdmin PermissionWorkspaceSettingsWrite"
  unfolding demoManager_def by (simp only: manager.simps) code_simp

section \<open>Identifiers in order\<close>

text \<open>
  C37: every identifier the Manager mints is a version-7 UUID, and of two mintings the later identifier is
  the larger one, whatever the clock shows (it may go back) and whatever operations run between the two
  mintings, as long as the milliseconds fit their 48 bits (until the year 10889).
\<close>

theorem newID_increasing:
  assumes "generatorOk w" and "newID m w = (Inr i, w1)" and "runs m w1 w2" and "newID m w2 = (Inr j, w3)"
    and "w_idUnixMilli w3 < 2 ^ 48"
  shows "validUUIDv7 i \<and> validUUIDv7 j \<and> i < j"
  using newID_later [OF assms] .

theorem newID_increasing_witness:
  "\<exists>i w1 j w2. newID demoManager (demoWorld New) = (Inr i, w1) \<and> newID demoManager w1 = (Inr j, w2) \<and> i < j"
proof -
  have n: "newID demoManager w = (Inr (bytesUuid (idBytes (of_int (w_idUnixMilli (nextID t w'))) (w_idSequence (nextID t w')) (replicate 16 7))),
      (nextID t w')\<lparr>w_drawn := w_drawn w + 16\<rparr>)"
    if "t = UnixMilli (m_clock demoManager (w_ticks w))" and "w' = w\<lparr>w_ticks := w_ticks w + 1\<rparr>" for w t w'
    using that by (simp add: newID_def bindE_def now_def randomBytes_def demoManager_def Let_def nextID_def map_replicate_const ret_def)
  obtain i w1 where 1: "newID demoManager (demoWorld New) = (Inr i, w1)" "w_idUnixMilli w1 = 1" "w_ticks w1 = 1"
    using n [OF refl refl, of "demoWorld New"] by (simp add: nextID_def demoWorld_def UnixMilli_def demoManager_def)
  obtain j w2 where 2: "newID demoManager w1 = (Inr j, w2)" "w_idUnixMilli w2 = 2"
    using n [OF refl refl, of w1] 1 by (simp add: nextID_def UnixMilli_def demoManager_def)
  have "i < j" using newID_increasing [OF demo_ready(2) 1(1) runs_refl 2(1)] 2(2) by simp
  with 1(1) 2(1) show ?thesis by blast
qed

end
