(* ===== verification/AuditHistory.thy ===== *)
theory AuditHistory
  imports Instances
begin

text \<open>
  The audit log along histories: a Manager that verifies the log (\<^verbatim>\<open>VerifyAuditChainFrom\<close> of \<^verbatim>\<open>audit.go\<close>) after any
  history finds it intact, from the genesis and from every checkpoint taken before; and the one way the
  verification of an intact log fails.
\<close>

section \<open>What a log keeps\<close>

lemma verifyEvents_sequences:
  assumes "verifyEvents sha n p xs = Inr (k, h)"
  shows "sorted (map aud_Sequence xs)" and "\<forall>x \<in> set xs. n < aud_Sequence x \<and> aud_Sequence x \<le> k"
proof -
  have "sorted (map aud_Sequence xs) \<and> (\<forall>x \<in> set xs. n < aud_Sequence x \<and> aud_Sequence x \<le> k)"
    using assms
  proof (induction xs arbitrary: n p)
    case (Cons x xs)
    from Cons.prems have x: "aud_Sequence x = n + 1" and rest: "verifyEvents sha (n + 1) (aud_Hash x) xs = Inr (k, h)"
      unfolding verifyEvents_Cons by blast+
    from Cons.IH [OF rest] have "sorted (map aud_Sequence xs)" "\<forall>y \<in> set xs. n + 1 < aud_Sequence y \<and> aud_Sequence y \<le> k" by auto
    moreover have "n + 1 \<le> k" using verifyEvents_length [OF rest] by simp
    ultimately show ?case using x by fastforce
  qed simp
  then show "sorted (map aud_Sequence xs)" and "\<forall>x \<in> set xs. n < aud_Sequence x \<and> aud_Sequence x \<le> k" by auto
qed

lemma storeRun_log: "storeRun sha ok s s' \<Longrightarrow> \<exists>new. st_audits s' = st_audits s @ new"
proof (induction rule: storeRun_induct)
  case (step x y)
  from step(2) show ?case
  proof (cases rule: storeStep.cases)
    case (mutation c out)
    with storeCall_audits [OF mutation(2)] step(1) show ?thesis by auto
  next
    case (issuance ce a p t n r)
    with issuance_frame [OF issuance] step(1) show ?thesis by auto
  qed (use step(1) in \<open>simp add: SetAuditFailure_def\<close>)
qed simp

text \<open>The chained events after the head of an earlier log verify from that head to the present one.\<close>

lemma chain_extends:
  assumes ok: "auditOk sha s" and ok': "auditOk sha s'" and log: "st_audits s' = st_audits s @ new"
  shows "verifyEvents sha (st_auditSequence s) (st_auditHead s)
      (sort_key aud_Sequence (filter (\<lambda>e. aud_Sequence e > st_auditSequence s) (st_audits s'))) = Inr (st_auditSequence s', st_auditHead s')"
proof -
  let ?f = "filter (\<lambda>e. aud_Sequence e > 0)" and ?g = "filter (\<lambda>e. aud_Sequence e > st_auditSequence s)"
  have old: "verifyEvents sha 0 auditChainGenesis (?f (st_audits s)) = Inr (st_auditSequence s, st_auditHead s)"
    using ok by (simp add: auditOk_def)
  have "verifyEvents sha 0 auditChainGenesis (?f (st_audits s) @ ?f new) = Inr (st_auditSequence s', st_auditHead s')"
    using ok' log by (simp add: auditOk_def)
  with old have rest: "verifyEvents sha (st_auditSequence s) (st_auditHead s) (?f new) = Inr (st_auditSequence s', st_auditHead s')"
    by (simp add: verifyEvents_append)
  have "0 \<le> st_auditSequence s" by (rule auditOk_sequence [OF ok])
  then have "?g new = ?f new" using verifyEvents_sequences(2) [OF rest] by (auto intro!: filter_cong)
  moreover
  have "\<not> aud_Sequence e > st_auditSequence s" if "e \<in> set (st_audits s)" for e
  proof (cases "aud_Sequence e > 0")
    case True
    with that verifyEvents_sequences(2) [OF old] show ?thesis by force
  qed (use \<open>0 \<le> st_auditSequence s\<close> in simp)
  then have "?g (st_audits s) = []" by (simp add: filter_empty_conv)
  ultimately have "?g (st_audits s') = ?f new" by (simp add: log)
  with rest sort_key_id_if_sorted [OF verifyEvents_sequences(1) [OF rest]] show ?thesis by simp
qed

lemma chain_complete:
  assumes "auditOk sha s"
  shows "verifyEvents sha 0 auditChainGenesis (sort_key aud_Sequence (filter (\<lambda>e. aud_Sequence e > 0) (st_audits s)))
    = Inr (st_auditSequence s, st_auditHead s)"
proof -
  have v: "verifyEvents sha 0 auditChainGenesis (filter (\<lambda>e. aud_Sequence e > 0) (st_audits s)) = Inr (st_auditSequence s, st_auditHead s)"
    using assms by (simp add: auditOk_def)
  with sort_key_id_if_sorted [OF verifyEvents_sequences(1) [OF v]] show ?thesis by simp
qed

section \<open>Verification after a history\<close>

text \<open>A checkpoint as a caller may hold it: none, or the head of the log at some earlier world.\<close>

definition checkpointAt :: "store \<Rightarrow> auditChainCheckpoint" where
  "checkpointAt s = \<lparr>chk_Sequence = st_auditSequence s, chk_Hash = st_auditHead s\<rparr>"

lemma verify_quiet:
  assumes "quiet m" and "AuthorizeAdmin m actor PermissionAuditRead w = (Inr (), w1)" and "checkpointValid chk"
    and "verifyEvents (m_sha m) (if chk_Sequence chk > 0 then chk_Sequence chk else 0)
       (if chk_Sequence chk > 0 then chk_Hash chk else auditChainGenesis)
       (sort_key aud_Sequence (filter (\<lambda>e. aud_Sequence e > (if chk_Sequence chk > 0 then chk_Sequence chk else 0)) (st_audits (w_store w1))))
      = Inr (st_auditSequence (w_store w1), st_auditHead (w_store w1))"
  shows "VerifyAuditChainFrom m actor chk w = (Inr \<lparr>rep_Events = st_auditSequence (w_store w1),
     rep_HeadSequence = st_auditSequence (w_store w1), rep_HeadHash = st_auditHead (w_store w1)\<rparr>, w1\<lparr>w_calls := w_calls w1 + 2\<rparr>)"
  using assms
  by (simp add: VerifyAuditChainFrom_def bindE_def failIf_def liftR_def ret_def Let_def ChainedAuditEvents_def AuditChainHead_def
      quiet_reads [OF assms(1)] split del: if_split)

context environment
begin

lemma history_auditOk: "history m w w' \<Longrightarrow> auditOk (m_sha m) (w_store w) \<Longrightarrow> auditOk (m_sha m) (w_store w')"
  using history_store storeRun_audit by blast

end

text \<open>
  C18: after any history of requests over a new store, whatever other requests do between and during them,
  an authorized and undisturbed \<^verbatim>\<open>VerifyAuditChainFrom\<close> succeeds and reports the head of the log, both from
  the genesis and from the head the log had at any earlier point of the history.
\<close>

theorem history_verifies:
  assumes "environment m" and "w_store w = New" and "history m w w1" and "history m w1 w2"
    and "AuthorizeAdmin (undisturbed m) actor PermissionAuditRead w2 = (Inr (), w3)"
    and "checkpointValid chk" and "chk = \<lparr>chk_Sequence = 0, chk_Hash = []\<rparr> \<or> chk = checkpointAt (w_store w1)"
  shows "VerifyAuditChainFrom (undisturbed m) actor chk w2 = (Inr \<lparr>rep_Events = st_auditSequence (w_store w3),
     rep_HeadSequence = st_auditSequence (w_store w3), rep_HeadHash = st_auditHead (w_store w3)\<rparr>, w3\<lparr>w_calls := w_calls w3 + 2\<rparr>)"
proof (rule verify_quiet [OF undisturbed_quiet assms(5,6)])
  have ok1: "auditOk (m_sha m) (w_store w1)"
    by (rule environment.history_auditOk [OF assms(1,3)]) (simp add: assms(2) auditOk_New)
  have ok2: "auditOk (m_sha m) (w_store w2)" by (rule environment.history_auditOk [OF assms(1,4) ok1])
  have "runs (undisturbed m) w2 w3"
    using environment.authorize_runs(4) [OF quiet_environment [OF undisturbed_quiet]] assms(5) by (rule relatesD)
  then have r23: "storeRun (m_sha m) commitOk (w_store w2) (w_store w3)" by (simp add: runs_def)
  from storeRun_audit [OF r23 ok2] have ok3: "auditOk (m_sha m) (w_store w3)" .
  have r13: "storeRun (m_sha m) commitOk (w_store w1) (w_store w3)"
    using environment.history_store [OF assms(1,4)] r23 by (rule storeRun_trans)
  obtain new where "st_audits (w_store w3) = st_audits (w_store w1) @ new" using storeRun_log [OF r13] by blast
  note since = chain_extends [OF ok1 ok3 this]
  show "verifyEvents (m_sha (undisturbed m)) (if chk_Sequence chk > 0 then chk_Sequence chk else 0)
       (if chk_Sequence chk > 0 then chk_Hash chk else auditChainGenesis)
       (sort_key aud_Sequence (filter (\<lambda>e. aud_Sequence e > (if chk_Sequence chk > 0 then chk_Sequence chk else 0)) (st_audits (w_store w3))))
      = Inr (st_auditSequence (w_store w3), st_auditHead (w_store w3))"
  proof (cases "chk_Sequence chk > 0")
    case True
    with assms(7) have "chk = checkpointAt (w_store w1)" by auto
    with True since show ?thesis by (simp add: checkpointAt_def)
  qed (simp add: chain_complete [OF ok3])
qed

section \<open>An instance\<close>

theorem history_verifies_witness:
  "\<exists>w3. history demoManager (demoWorld New) (demoWorld demoStore)
    \<and> AuthorizeAdmin (undisturbed demoManager) demoActor PermissionAuditRead (demoWorld demoStore) = (Inr (), w3)
    \<and> VerifyAuditChainFrom (undisturbed demoManager) demoActor \<lparr>chk_Sequence = 0, chk_Hash = []\<rparr> (demoWorld demoStore)
      = (Inr \<lparr>rep_Events = st_auditSequence (w_store w3), rep_HeadSequence = st_auditSequence (w_store w3),
           rep_HeadHash = st_auditHead (w_store w3)\<rparr>, w3\<lparr>w_calls := w_calls w3 + 2\<rparr>)"
proof -
  obtain w3 where a: "AuthorizeAdmin (undisturbed demoManager) demoActor PermissionAuditRead (demoWorld demoStore) = (Inr (), w3)"
    using demo_admin [OF quiet_calm [OF undisturbed_quiet], of demoManager] by (auto simp: undisturbed_def demoManager_def)
  have "VerifyAuditChainFrom (undisturbed demoManager) demoActor \<lparr>chk_Sequence = 0, chk_Hash = []\<rparr> (demoWorld demoStore)
      = (Inr \<lparr>rep_Events = st_auditSequence (w_store w3), rep_HeadSequence = st_auditSequence (w_store w3),
           rep_HeadHash = st_auditHead (w_store w3)\<rparr>, w3\<lparr>w_calls := w_calls w3 + 2\<rparr>)"
    by (rule history_verifies [OF quiet_environment [OF demo_quiet] _ history.start demo_history a])
      (simp_all add: demoWorld_def checkpointValid_def)
  with demo_history a show ?thesis by blast
qed

section \<open>Verification against concurrent requests\<close>

text \<open>
  C39: the verification reads the events and then the head. When another request commits an audited change
  between the two reads, an authorized \<^verbatim>\<open>VerifyAuditChain\<close> answers that the log was tampered with, although
  it is intact before and after.
\<close>

theorem concurrent_append_reported_as_tampering:
  assumes "AuthorizeAdmin m actor PermissionAuditRead w = (Inr (), w1)" and "\<And>n. m_ctxErr m n = None"
    and "m_others m (w_calls w1) (w_store w1) = w_store w1" and "m_others m (w_calls w1 + 1) (w_store w1) = s"
    and "auditOk (m_sha m) (w_store w1)" and "auditOk (m_sha m) s" and "st_auditSequence s \<noteq> st_auditSequence (w_store w1)"
  shows "fst (VerifyAuditChain m actor w) = Inl ErrAuditCompromised"
proof -
  have "callStore m (\<lambda>ce. ChainedAuditEvents ce 0) w1
      = (Inr (sort_key aud_Sequence (filter (\<lambda>e. aud_Sequence e > 0) (st_audits (w_store w1)))), w1\<lparr>w_calls := w_calls w1 + 1\<rparr>)"
    using assms(2,3) by (simp add: callStore_def ChainedAuditEvents_def reads_def)
  moreover have "callStore m (\<lambda>ce. AuditChainHead ce) (w1\<lparr>w_calls := w_calls w1 + 1\<rparr>)
      = (Inr (st_auditSequence s, st_auditHead s), w1\<lparr>w_calls := w_calls w1 + 2, w_store := s\<rparr>)"
    using assms(2,4) by (simp add: callStore_def AuditChainHead_def reads_def)
  ultimately show ?thesis
    using assms(1,7) chain_complete [OF assms(5)]
    by (simp add: VerifyAuditChain_def VerifyAuditChainFrom_def bindE_def failIf_def liftR_def ret_def fail_def Let_def checkpointValid_def)
qed

lemma append_effect:
  assumes "AppendAudit sha None (auditOnly e) s = (Inr (), s')"
  shows "storeRun sha commitOk s s'" and "st_auditSequence s' = st_auditSequence s + 1"
    and "st_auditIDs s' = insert (aud_ID e) (st_auditIDs s)" and "st_auditFailure s' = st_auditFailure s"
proof -
  have "storeStep sha commitOk s s'"
    by (rule mutation [OF _ call_atomic [OF call_append_audit [OF assms]]]) (simp add: commitOk_def auditOnly_def)
  then show "storeRun sha commitOk s s'" by (rule storeRun_step)
  show "st_auditSequence s' = st_auditSequence s + 1" "st_auditIDs s' = insert (aud_ID e) (st_auditIDs s)" "st_auditFailure s' = st_auditFailure s"
    using writes_success [OF assms [unfolded AppendAudit_def]] by (auto simp: commitAudit_def auditOnly_def Let_def)
qed

definition racingManager :: manager where
  "racingManager = demoManager\<lparr>m_others := \<lambda>n s. if n = 4 then snd (AppendAudit (m_sha demoManager) None (auditOnly (sampleEvent 7)) s) else s\<rparr>"

theorem concurrent_append_reported_as_tampering_witness:
  "fst (VerifyAuditChain racingManager demoActor (demoWorld demoStore)) = Inl ErrAuditCompromised"
proof -
  have same: "m_sha racingManager = m_sha demoManager" by (simp add: racingManager_def)
  have calm: "calm racingManager 3" using demo_quiet by (simp add: calm_def quiet_def racingManager_def)
  obtain event w1 where a: "AuthorizeAdmin racingManager demoActor PermissionAuditRead (demoWorld demoStore) = (Inr (), w1)" "w_calls w1 = 3"
    and e: "AppendAudit (m_sha racingManager) None (auditOnly event) demoStore = (Inr (), w_store w1)" "validUUIDv7 (aud_ID event)"
    using demo_admin [OF calm] by (auto simp: racingManager_def demoManager_def)
  note first = append_effect [OF e(1)]
  have "\<not> validUUIDv7 7" by (simp add: validUUIDv7_def) code_simp
  with e(2) have "aud_ID event \<noteq> 7" by metis
  then have "canAudit (sampleEvent 7) (w_store w1) = None"
    using first demoStore_log by (simp add: canAudit_def sampleEvent_def zeroTime_def second_def openLog_def)
  from AppendAudit_succeeds [OF this] obtain s2
    where s2: "AppendAudit (m_sha racingManager) None (auditOnly (sampleEvent 7)) (w_store w1) = (Inr (), s2)" by blast
  note second = append_effect [OF s2]
  have ok1: "auditOk (m_sha racingManager) (w_store w1)"
    using storeRun_audit [OF storeRun_trans [OF demoStore_run [folded same] first(1)]] auditOk_New by blast
  show ?thesis
  proof (rule concurrent_append_reported_as_tampering [OF a(1) _ _ _ ok1 storeRun_audit [OF second(1) ok1]])
    show "m_ctxErr racingManager n = None" for n using calm by (simp add: calm_def)
    show "m_others racingManager (w_calls w1) (w_store w1) = w_store w1" using a(2) by (simp add: racingManager_def)
    show "m_others racingManager (w_calls w1 + 1) (w_store w1) = s2" using a(2) s2 by (simp add: racingManager_def)
    show "st_auditSequence s2 \<noteq> st_auditSequence (w_store w1)" using second(2) by simp
  qed
qed

end
