(* ===== verification/Access.thy ===== *)
theory Access
  imports Instances
begin

text \<open>
  Who gets in: what a session, once presented, has been checked for, that a session ended by sign-out or by
  revocation never authenticates again (\<^verbatim>\<open>AuthenticateSession\<close>, \<^verbatim>\<open>SignOut\<close> and \<^verbatim>\<open>RevokeSession\<close> of \<^verbatim>\<open>session.go\<close>,
  \<^verbatim>\<open>RevokeUserSessions\<close> of the store).
\<close>

section \<open>Sessions\<close>

lemma sessionByToken_success [success]:
  "sessionByToken m raw w = (Inr x, w') \<longleftrightarrow>
     (\<exists>i. parseSecretToken sessionTokenPrefix raw = Some i \<and> callStore m (\<lambda>ce. SessionByID ce i) w = (Inr x, w'))"
  by (auto simp: sessionByToken_def success ret_def fail_def)

lemma success_ret [success]: "ret x w = (Inr y, w') \<longleftrightarrow> x = y \<and> w' = w" "fail e w = (Inr y, w') \<longleftrightarrow> False"
  by (auto simp: ret_def fail_def)

definition revokedSession :: "uuid \<Rightarrow> store \<Rightarrow> bool" where
  "revokedSession i s \<longleftrightarrow> (\<exists>x. lookup (st_sessions s) i = Some x \<and> ses_RevokedAt x \<noteq> None)"

lemma revokedSession_run: "storeRun sha ok s s' \<Longrightarrow> revokedSession i s \<Longrightarrow> revokedSession i s'"
  unfolding revokedSession_def using permanent_session [OF storeRun_permanent] by blast

lemma storeRevokeSession_revokes:
  assumes "storeRevokeSession sha ce i t c s = (Inr (), s')"
  shows "revokedSession i s'"
proof -
  from writes_success [OF assms [unfolded storeRevokeSession_def]] obtain x k where "lookup (st_sessions s) i = Some x"
    and "s' = commitAudit sha (cmt_Audit c) (cmt_Unchained c) (if ses_RevokedAt x = None
       then (s\<lparr>st_ceremonies := k\<rparr>)\<lparr>st_sessions := put i (x\<lparr>ses_RevokedAt := Some t\<rparr>) (st_sessions (s\<lparr>st_ceremonies := k\<rparr>))\<rparr>
       else s\<lparr>st_ceremonies := k\<rparr>)"
    by (auto simp: orErr_def split: option.split_asm)
  then show ?thesis by (cases "ses_RevokedAt x") (auto simp: revokedSession_def)
qed

lemma RevokeUserSessions_revokes:
  assumes "RevokeUserSessions sha ce u t c s = (Inr (), s')" and "lookup (st_sessions s') i = Some x" and "ses_UserID x = u"
  shows "revokedSession i s'"
proof -
  from writes_success [OF assms(1) [unfolded RevokeUserSessions_def]] obtain k
    where "s' = commitAudit sha (cmt_Audit c) (cmt_Unchained c) (revokeUserSessionsLocked u t (s\<lparr>st_ceremonies := k\<rparr>))" by blast
  with assms(2) obtain y where "x = (if ses_UserID y = u \<and> ses_RevokedAt y = None then y\<lparr>ses_RevokedAt := Some t\<rparr> else y)"
    by (auto simp: revokeUserSessionsLocked_def split del: if_split)
  with assms(2,3) show ?thesis unfolding revokedSession_def by (cases "ses_RevokedAt y"; cases "ses_UserID y = u") auto
qed

text \<open>The requests that end a session.\<close>

inductive endsSession :: "manager \<Rightarrow> uuid \<Rightarrow> world \<Rightarrow> world \<Rightarrow> bool" for m i where
  by_sign_out: "SignOut m raw w = (Inr (), w') \<Longrightarrow> parseSecretToken sessionTokenPrefix raw = Some i \<Longrightarrow> endsSession m i w w'"
| by_revocation: "RevokeSession m actor i w = (Inr (), w') \<Longrightarrow> endsSession m i w w'"
| by_user_revocation: "managerRevokeUserSessions m actor local u w = (Inr (), w') \<Longrightarrow> lookup (st_sessions (w_store w')) i = Some x
    \<Longrightarrow> ses_UserID x = (if u = 0 then auth_UserID actor else u) \<Longrightarrow> endsSession m i w w'"

context environment
begin

lemma session_read:
  assumes "callStore m (\<lambda>ce. SessionByID ce i) w = (Inr x, w')"
  shows "sometime m w w' (\<lambda>s. lookup (st_sessions s) i = Some x)"
  using assms unfolding SessionByID_def by (auto dest!: read_sometime elim!: sometime_mono simp: orErr_def split: option.splits)

lemma user_read:
  assumes "callStore m (\<lambda>ce. UserByID ce u) w = (Inr x, w')"
  shows "sometime m w w' (\<lambda>s. lookup (st_users s) u = Some x)"
  using assms unfolding UserByID_def by (auto dest!: read_sometime elim!: sometime_mono simp: orErr_def split: option.splits)

lemma SignOut_revokes:
  assumes "SignOut m raw w = (Inr (), w')" and "parseSecretToken sessionTokenPrefix raw = Some i" and "recordsKeyed (w_store w)"
  shows "revokedSession i (w_store w')"
proof -
  from assms(1,2) obtain x w1 where read: "callStore m (\<lambda>ce. SessionByID ce i) w = (Inr x, w1)"
    and rest: "ses_RevokedAt x \<noteq> None \<and> w' = w1
      \<or> (\<exists>t c w2 w3. callStore m (\<lambda>ce. storeRevokeSession (m_sha m) ce (ses_ID x) t c) w2 = (Inr (), w3) \<and> w_store w' = w_store w3)"
    unfolding SignOut_def by (fastforce simp: success)
  from session_read [OF read] obtain s where s: "storeRun (m_sha m) commitOk (w_store w) s"
    "storeRun (m_sha m) commitOk s (w_store w1)" "lookup (st_sessions s) i = Some x" by (auto simp: sometime_def)
  from rest show ?thesis
  proof
    assume "ses_RevokedAt x \<noteq> None \<and> w' = w1"
    with s(3) have "revokedSession i s" "w' = w1" by (auto simp: revokedSession_def)
    with revokedSession_run [OF s(2)] show ?thesis by blast
  next
    have "ses_ID x = i" using storeRun_keys [OF s(1) assms(3)] s(3) by (auto simp: recordsKeyed_def dest: keyedD)
    moreover assume "\<exists>t c w2 w3. callStore m (\<lambda>ce. storeRevokeSession (m_sha m) ce (ses_ID x) t c) w2 = (Inr (), w3) \<and> w_store w' = w_store w3"
    ultimately show ?thesis by (auto elim!: call_moment dest: storeRevokeSession_revokes)
  qed
qed

lemma endsSession_revoked:
  assumes "endsSession m i w w'" and "recordsKeyed (w_store w)"
  shows "revokedSession i (w_store w')"
  using assms
proof (cases rule: endsSession.cases)
  case (by_sign_out raw)
  with assms(2) show ?thesis by (intro SignOut_revokes)
next
  case (by_revocation actor)
  then show ?thesis unfolding RevokeSession_def by (auto simp: success elim!: call_moment dest: storeRevokeSession_revokes)
next
  case (by_user_revocation actor local u x)
  then show ?thesis unfolding managerRevokeUserSessions_def
    by (auto simp: success Let_def elim!: call_moment dest: RevokeUserSessions_revokes)
qed

lemma revoked_refused:
  assumes "revokedSession i (w_store w)" and "parseSecretToken sessionTokenPrefix raw = Some i"
  shows "fst (AuthenticateSession m raw w) \<noteq> Inr y"
proof
  assume "fst (AuthenticateSession m raw w) = Inr y"
  then obtain w' where "AuthenticateSession m raw w = (Inr y, w')" by (cases "AuthenticateSession m raw w") simp
  with assms(2) obtain x w1 where read: "callStore m (\<lambda>ce. SessionByID ce i) w = (Inr x, w1)" and "ses_RevokedAt x = None"
    unfolding AuthenticateSession_def by (fastforce simp: success)
  from session_read [OF read] obtain s where "storeRun (m_sha m) commitOk (w_store w) s" "lookup (st_sessions s) i = Some x"
    by (auto simp: sometime_def)
  with revokedSession_run [OF _ assms(1)] \<open>ses_RevokedAt x = None\<close> show False by (force simp: revokedSession_def)
qed

end

text \<open>
  C11: a session that was ended, by signing out with its token, by its owner's revocation or with all sessions
  of its user, never authenticates again: after any further history, whatever other requests do, every
  request that presents a token of that session is refused.
\<close>

theorem ended_session_never_authenticates:
  assumes "environment m" and "w_store w = New" and "history m w w1" and "endsSession m i w1 w2" and "history m w2 w3"
    and "parseSecretToken sessionTokenPrefix raw = Some i"
  shows "fst (AuthenticateSession (requestOf m metadata ctxErr) raw w3) \<noteq> Inr y"
proof (rule environment.revoked_refused [OF environment.request_environment [OF assms(1)] _ assms(6)])
  have "recordsKeyed (w_store w1)"
    using storeRun_keys [OF environment.history_store [OF assms(1,3)]] recordsKeyed_New by (simp add: assms(2))
  with environment.endsSession_revoked [OF assms(1,4)] have "revokedSession i (w_store w2)" by blast
  with environment.history_store [OF assms(1,5)] show "revokedSession i (w_store w3)" by (rule revokedSession_run)
qed

lemma demo_sign_out: "\<exists>w'. SignOut demoManager demoToken (demoWorld demoStore) = (Inr (), w')"
proof -
  let ?m = demoManager and ?w = "(demoWorld demoStore)\<lparr>w_calls := 1\<rparr>"
  have g: "generatorOk ?w" by (simp add: generatorOk_def demoWorld_def)
  obtain event w1 where e: "newAudit ?m sampleUUID ''session.sign_out'' ''session'' (UUID_String sampleUUID) 0 AuditSucceeded [] ?w = (Inr event, w1)"
    "w_store w1 = demoStore" "generatorOk w1" "canAudit event demoStore = None"
    using newAudit_accepted [OF demo_ready(1) g demo_ready(3), of "''session.sign_out''" sampleUUID "''session''" "UUID_String sampleUUID" 0 AuditSucceeded "[]"]
      demoStore_log(1) by (auto simp: demoWorld_def)
  obtain meta w2 where meta: "newEventMeta ?m ''session.revoked'' ''auth.session.sign_out'' sampleUUID 0 event w1 = (Inr meta, w2)" "w_store w2 = demoStore"
    using newEventMeta_succeeds [OF demo_ready(1) e(3)] e(2) by metis
  have "fst (storeRevokeSession (m_sha ?m) None sampleUUID t (transactionalCommit ?m event ''session.revocation'' meta) demoStore) = Inr ()" for t
    unfolding storeRevokeSession_def
    by (subst mutate_succeeds [where x = demoSession]) (simp_all add: orErr_def demoStore_session e transactionalCommit_def auditOnly_def demo_ready)
  with quiet_write [OF demo_quiet, of "\<lambda>ce. storeRevokeSession (m_sha ?m) ce sampleUUID (m_clock ?m (w_ticks w2))
      (transactionalCommit ?m event ''session.revocation'' meta)" "w2\<lparr>w_ticks := Suc (w_ticks w2)\<rparr>" "()"] meta(2) obtain w3 where "callStore ?m (\<lambda>ce. storeRevokeSession (m_sha ?m) ce sampleUUID (m_clock ?m (w_ticks w2))
      (transactionalCommit ?m event ''session.revocation'' meta)) (w2\<lparr>w_ticks := Suc (w_ticks w2)\<rparr>) = (Inr (), w3)" by auto
  moreover have "m_sessionStore ?m" by (simp add: demoManager_def)
  moreover have "ses_ID demoSession = sampleUUID" "ses_UserID demoSession = sampleUUID" "ses_RevokedAt demoSession = None"
    by (simp_all add: demoSession_def sampleSession_def)
  ultimately show ?thesis using demo_read demo_match e(1) meta(1)
    by (simp add: SignOut_def bindE_def failIf_def ret_def now_def committing_def orMapped_def tryE_def emit_def)
qed

theorem ended_session_never_authenticates_witness:
  "\<exists>w2. SignOut demoManager demoToken (demoWorld demoStore) = (Inr (), w2)
    \<and> (\<forall>y. fst (AuthenticateSession demoManager demoToken w2) \<noteq> Inr y)"
proof -
  obtain w2 where out: "SignOut demoManager demoToken (demoWorld demoStore) = (Inr (), w2)" using demo_sign_out by blast
  have "fst (AuthenticateSession (requestOf demoManager (m_request demoManager) (m_ctxErr demoManager)) demoToken w2) \<noteq> Inr y" for y
    by (rule ended_session_never_authenticates [OF quiet_environment [OF demo_quiet] _ demo_history by_sign_out [OF out demoToken_parses]
      history.start demoToken_parses]) (simp add: demoWorld_def)
  then show ?thesis using out by (simp add: requestOf_def)
qed

section \<open>What an accepted session was checked for\<close>

context environment
begin

lemma read_runs: "callStore m (\<lambda>ce. SessionByID ce i) w = (r, w') \<Longrightarrow> runs m w w'" "callStore m (\<lambda>ce. UserByID ce u) w = (r1, w') \<Longrightarrow> runs m w w'"
  by (erule relatesD [rotated], intro run_rules)+

lemma runs_ticks: "runs m (w\<lparr>w_ticks := k\<rparr>) w' \<Longrightarrow> k \<ge> w_ticks w \<Longrightarrow> runs m w w'" "runs m w w' \<Longrightarrow> k \<ge> w_ticks w' \<Longrightarrow> runs m w (w'\<lparr>w_ticks := k\<rparr>)"
  by (auto simp: runs_def generatorOk_def idKey_def)

lemma AuthenticateSession_steps:
  assumes "AuthenticateSession m raw w = (Inr (authn, ses), w')"
  obtains i x u w1 w2 w3 where "parseSecretToken sessionTokenPrefix raw = Some i" and "callStore m (\<lambda>ce. SessionByID ce i) w = (Inr x, w1)"
    and "matchTokenDigest m (ses_Digest x) (''session:'' @ raw)" and "ses_RevokedAt x = None" and "m_clock m (w_ticks w1) < ses_ExpiresAt x"
    and "m_sessionIdleTimeout m > 0 \<Longrightarrow> m_clock m (w_ticks w1 + 1) < ses_LastSeenAt x + m_sessionIdleTimeout m"
    and "runs m w1 w2" and "callStore m (\<lambda>ce. UserByID ce (ses_UserID x)) w2 = (Inr u, w3)" and "\<not> usr_Disabled u"
    and "runs m w3 w'" and "ses_Digest ses = []"
    and "authn = zeroAuthentication\<lparr>auth_UserID := ses_UserID x, auth_Method := ses_Method x, auth_Level := ses_Level x,
      auth_AuthenticatedAt := ses_AuthenticatedAt x, auth_SecondFactorRequired := ses_SecondFactorRequired x\<rparr>"
proof -
  from assms obtain i x u w1 w2 w3 where head: "parseSecretToken sessionTokenPrefix raw = Some i" "callStore m (\<lambda>ce. SessionByID ce i) w = (Inr x, w1)"
      "matchTokenDigest m (ses_Digest x) (''session:'' @ raw)" "ses_RevokedAt x = None" "m_clock m (w_ticks w1) < ses_ExpiresAt x"
      "callStore m (\<lambda>ce. UserByID ce (ses_UserID x)) w2 = (Inr u, w3)" "\<not> usr_Disabled u"
    and idle: "0 < m_sessionIdleTimeout m \<and> m_clock m (Suc (w_ticks w1)) < ses_LastSeenAt x + m_sessionIdleTimeout m
        \<and> w2 = w1\<lparr>w_ticks := Suc (Suc (w_ticks w1))\<rparr> \<or> \<not> 0 < m_sessionIdleTimeout m \<and> w2 = w1\<lparr>w_ticks := Suc (w_ticks w1)\<rparr>"
    and authn: "authn = zeroAuthentication\<lparr>auth_UserID := ses_UserID x, auth_Method := ses_Method x, auth_Level := ses_Level x,
      auth_AuthenticatedAt := ses_AuthenticatedAt x, auth_SecondFactorRequired := ses_SecondFactorRequired x\<rparr>" "ses_Digest ses = []"
    and tail: "w' = w3\<lparr>w_ticks := Suc (w_ticks w3)\<rparr> \<or> (\<exists>event w4. newAudit m (ses_UserID x) ''session.authenticate'' ''session''
         (UUID_String (ses_ID x)) 0 AuditSucceeded [] (w3\<lparr>w_ticks := Suc (w_ticks w3)\<rparr>) = (Inr event, w4)
       \<and> callStore m (\<lambda>ce. TouchSession (m_sha m) ce (ses_ID x) (m_clock m (w_ticks w3)) (auditOnly event)) w4 = (Inr (), w'))"
    unfolding AuthenticateSession_def by (clarsimp simp: success Let_def) (erule disjE; erule disjE; clarsimp; blast)
  have touch: "relates (runs m) (callStore m (\<lambda>ce. TouchSession (m_sha m) ce i t (auditOnly event)))" for i t event by (intro run_rules)
  from tail have "runs m (w3\<lparr>w_ticks := Suc (w_ticks w3)\<rparr>) w'"
    by (elim disjE exE conjE) (simp add: runs_refl, rule runs_trans, erule relatesD [OF newAudit_runs], erule relatesD [OF touch])
  then have "runs m w3 w'" by (rule runs_ticks(1)) simp
  moreover have "runs m w1 w2" using idle runs_ticks(2) [OF runs_refl] by auto
  ultimately show thesis using idle by (intro that [OF head(1-5) _ _ head(6,7) _ authn(2,1)]) auto
qed

end

text \<open>
  C12: an accepted session token. When \<^verbatim>\<open>AuthenticateSession\<close> returns an authentication, then the token's text
  names a session that was stored at some moment of the request, with a digest of this token under one of the
  keys of the ring, neither revoked, expired nor idle for too long; its user was stored and enabled at a
  moment of the request; and the authentication carries the session's user, method, level and time, with no
  workspace and no scope. The returned session never carries its digest.
\<close>

theorem session_authentication_sound:
  assumes "environment m" and "AuthenticateSession m raw w = (Inr (authn, ses), w')"
  shows "\<exists>i x u. parseSecretToken sessionTokenPrefix raw = Some i \<and> sometime m w w' (\<lambda>s. lookup (st_sessions s) i = Some x)
    \<and> matchTokenDigest m (ses_Digest x) (''session:'' @ raw) \<and> ses_RevokedAt x = None \<and> m_clock m (w_ticks w) < ses_ExpiresAt x
    \<and> (m_sessionIdleTimeout m > 0 \<longrightarrow> m_clock m (w_ticks w + 1) < ses_LastSeenAt x + m_sessionIdleTimeout m)
    \<and> sometime m w w' (\<lambda>s. lookup (st_users s) (ses_UserID x) = Some u) \<and> \<not> usr_Disabled u
    \<and> authn = zeroAuthentication\<lparr>auth_UserID := ses_UserID x, auth_Method := ses_Method x, auth_Level := ses_Level x,
        auth_AuthenticatedAt := ses_AuthenticatedAt x, auth_SecondFactorRequired := ses_SecondFactorRequired x\<rparr>
    \<and> ses_Digest ses = []"
proof (rule environment.AuthenticateSession_steps [OF assms])
  fix i x u w1 w2 w3
  assume s: "callStore m (\<lambda>ce. SessionByID ce i) w = (Inr x, w1)" and u: "callStore m (\<lambda>ce. UserByID ce (ses_UserID x)) w2 = (Inr u, w3)"
    and r: "runs m w1 w2" "runs m w3 w'"
  note read = environment.read_runs [OF assms(1)] and moment = environment.session_read [OF assms(1)] environment.user_read [OF assms(1)]
  have "sometime m w w' (\<lambda>s. lookup (st_sessions s) i = Some x)"
    by (rule sometime_widen [OF runs_refl moment(1) [OF s]]) (meson r read(2) [OF u] runs_trans)
  moreover have "sometime m w w' (\<lambda>s. lookup (st_users s) (ses_UserID x) = Some u)"
    by (rule sometime_widen [OF _ moment(2) [OF u] r(2)]) (meson r read(1) [OF s] runs_trans)
  moreover have "w_ticks w1 = w_ticks w" using s by (auto simp: callStore_def split: prod.splits)
  moreover assume "parseSecretToken sessionTokenPrefix raw = Some i" "matchTokenDigest m (ses_Digest x) (''session:'' @ raw)"
    "ses_RevokedAt x = None" "m_clock m (w_ticks w1) < ses_ExpiresAt x"
    "m_sessionIdleTimeout m > 0 \<Longrightarrow> m_clock m (w_ticks w1 + 1) < ses_LastSeenAt x + m_sessionIdleTimeout m" "\<not> usr_Disabled u"
    "ses_Digest ses = []" "authn = zeroAuthentication\<lparr>auth_UserID := ses_UserID x, auth_Method := ses_Method x, auth_Level := ses_Level x,
        auth_AuthenticatedAt := ses_AuthenticatedAt x, auth_SecondFactorRequired := ses_SecondFactorRequired x\<rparr>"
  ultimately show ?thesis by (intro exI [of _ i] exI [of _ x] exI [of _ u]) simp
qed

lemma demo_authenticate: "\<exists>authn ses w'. AuthenticateSession demoManager demoToken (demoWorld demoStore) = (Inr (authn, ses), w')"
proof -
  let ?m = demoManager and ?w = "(demoWorld demoStore)\<lparr>w_calls := 1\<rparr>"
  let ?w2 = "(demoWorld demoStore)\<lparr>w_calls := 2, w_ticks := 2\<rparr>"
  have user: "callStore ?m (\<lambda>ce. UserByID ce sampleUUID) ((demoWorld demoStore)\<lparr>w_calls := 1, w_ticks := 1\<rparr>)
      = (Inr demoUser, (demoWorld demoStore)\<lparr>w_calls := 2, w_ticks := 1\<rparr>)"
    by (simp add: UserByID_def quiet_reads [OF demo_quiet] orErr_def demoWorld_def demoStore_user)
  have g: "generatorOk ?w2" by (simp add: generatorOk_def demoWorld_def)
  obtain event w1 where e: "newAudit ?m sampleUUID ''session.authenticate'' ''session'' (UUID_String sampleUUID) 0 AuditSucceeded [] ?w2 = (Inr event, w1)"
    "w_store w1 = demoStore" "canAudit event demoStore = None"
    using newAudit_accepted [OF demo_ready(1) g demo_ready(3), of "''session.authenticate''" sampleUUID "''session''" "UUID_String sampleUUID" 0 AuditSucceeded "[]"]
      demoStore_log(1) by (auto simp: demoWorld_def)
  have "fst (TouchSession (m_sha ?m) None sampleUUID t (auditOnly event) demoStore) = Inr ()" for t
    unfolding TouchSession_def
    by (subst mutate_succeeds [where x = demoSession]) (simp_all add: demoStore_session e auditOnly_def require_def demoSession_def sampleSession_def)
  then obtain w3 where touch: "callStore ?m (\<lambda>ce. TouchSession (m_sha ?m) ce sampleUUID (m_clock ?m 1) (auditOnly event)) w1 = (Inr (), w3)"
    using quiet_write [OF demo_quiet, of "\<lambda>ce. TouchSession (m_sha ?m) ce sampleUUID (m_clock ?m 1) (auditOnly event)" w1 "()"] e(2) by auto
  have demo: "m_clock ?m 0 < ses_ExpiresAt demoSession" "m_sessionStore ?m" "m_sessionIdleTimeout ?m = 0" "m_sessionTouchInterval ?m = 0"
    "ses_ID demoSession = sampleUUID" "ses_UserID demoSession = sampleUUID" "ses_RevokedAt demoSession = None" "\<not> usr_Disabled demoUser"
    "w_ticks (demoWorld demoStore) = 0" "w_ticks ?w = 0"
    by (simp_all add: demoManager_def demoSession_def sampleSession_def demoUser_def sampleUser_def demoWorld_def)
  show ?thesis unfolding AuthenticateSession_def
    by (simp add: bindE_def failIf_def ret_def now_def tryE_def Let_def demo_read user e(1) touch demo_match demo del: One_nat_def)
qed

theorem session_authentication_sound_witness:
  "\<exists>authn ses w' u. AuthenticateSession demoManager demoToken (demoWorld demoStore) = (Inr (authn, ses), w')
    \<and> sometime demoManager (demoWorld demoStore) w' (\<lambda>s. lookup (st_users s) (auth_UserID authn) = Some u) \<and> \<not> usr_Disabled u"
proof -
  obtain authn ses w' where a: "AuthenticateSession demoManager demoToken (demoWorld demoStore) = (Inr (authn, ses), w')"
    using demo_authenticate by blast
  from session_authentication_sound [OF quiet_environment [OF demo_quiet] a] show ?thesis using a by (auto simp: zeroAuthentication_def)
qed

end
