(* ===== verification/Answers.thy ===== *)
theory Answers
  imports Access ManagerOAuthAdmin
begin

text \<open>
  A program logic for what a returned value says. \<open>answers m f Q\<close>: when the operation \<open>f\<close> returns \<open>y\<close>, then
  \<open>Q y\<close> holds of what the request learnt, which is what was true of the store at its moments and which
  readings of the clock belong to it. Both only grow when the request goes on, so the facts of the steps of an
  operation add up; \<open>answer_rules\<close> collects one rule per construct.
\<close>

named_theorems answer_rules \<open>what the steps of an operation learn\<close>

type_synonym learnt = "((store \<Rightarrow> bool) \<Rightarrow> bool) \<Rightarrow> (nat \<Rightarrow> bool) \<Rightarrow> bool"

definition readings :: "world \<Rightarrow> world \<Rightarrow> nat \<Rightarrow> bool" where
  "readings w w' n \<longleftrightarrow> w_ticks w \<le> n \<and> n < w_ticks w'"

definition answers :: "manager \<Rightarrow> 'a op \<Rightarrow> ('a \<Rightarrow> learnt) \<Rightarrow> bool" where
  "answers m f Q \<longleftrightarrow> (\<forall>w y w'. f w = (Inr y, w') \<longrightarrow> runs m w w' \<and>
     (\<forall>M T. (\<forall>P. sometime m w w' P \<longrightarrow> M P) \<longrightarrow> (\<forall>n. readings w w' n \<longrightarrow> T n) \<longrightarrow> Q y M T))"

lemma answersI:
  assumes "\<And>w y w'. f w = (Inr y, w') \<Longrightarrow> runs m w w'"
    and "\<And>w y w' M T. f w = (Inr y, w') \<Longrightarrow> (\<And>P. sometime m w w' P \<Longrightarrow> M P) \<Longrightarrow> (\<And>n. readings w w' n \<Longrightarrow> T n) \<Longrightarrow> Q y M T"
  shows "answers m f Q"
  using assms unfolding answers_def by blast

lemma answersD: "answers m f Q \<Longrightarrow> f w = (Inr y, w') \<Longrightarrow> Q y (sometime m w w') (readings w w')"
  by (simp add: answers_def)

lemma answersM:
  "answers m f Q \<Longrightarrow> f w = (Inr y, w') \<Longrightarrow> (\<And>P. sometime m w w' P \<Longrightarrow> M P) \<Longrightarrow> (\<And>n. readings w w' n \<Longrightarrow> T n) \<Longrightarrow> Q y M T"
  by (simp add: answers_def)

lemma answers_runs: "answers m f Q \<Longrightarrow> f w = (Inr y, w') \<Longrightarrow> runs m w w'"
  by (simp add: answers_def)

lemma answers_mono: "answers m f Q \<Longrightarrow> (\<And>y M T. Q y M T \<Longrightarrow> R y M T) \<Longrightarrow> answers m f R"
  by (simp add: answers_def)

lemma answers_relates: "relates (runs m) f \<Longrightarrow> answers m f (\<lambda>_ _ _. True)"
  by (auto intro!: answersI dest: relatesD)

lemma sometime_parts: "runs m a b \<Longrightarrow> runs m b c \<Longrightarrow> sometime m a b P \<or> sometime m b c P \<Longrightarrow> sometime m a c P"
  using sometime_widen runs_refl by blast

lemma readings_parts: "runs m a b \<Longrightarrow> runs m b c \<Longrightarrow> readings a b n \<or> readings b c n \<Longrightarrow> readings a c n"
  by (auto simp: readings_def runs_def)

lemma answers_bindE [answer_rules]:
  assumes "answers m f Q" and "\<And>x. answers m (k x) (R x)"
  shows "answers m (bindE f k) (\<lambda>y M T. \<exists>x. Q x M T \<and> R x y M T)"
proof (rule answersI)
  fix w y w' assume "bindE f k w = (Inr y, w')"
  then obtain x w1 where f: "f w = (Inr x, w1)" and k: "k x w1 = (Inr y, w')" by (auto simp: success)
  note r = answers_runs [OF assms(1) f] answers_runs [OF assms(2) k]
  show "runs m w w'" using r by (rule runs_trans)
  fix M T assume M: "\<And>P. sometime m w w' P \<Longrightarrow> M P" and T: "\<And>n. readings w w' n \<Longrightarrow> T n"
  have "Q x M T" using M T sometime_parts [OF r] readings_parts [OF r] by (intro answersM [OF assms(1) f]) blast+
  moreover have "R x y M T" using M T sometime_parts [OF r] readings_parts [OF r] by (intro answersM [OF assms(2) k]) blast+
  ultimately show "\<exists>x. Q x M T \<and> R x y M T" by blast
qed

lemma answers_steps [answer_rules]:
  "answers m (ret x) (\<lambda>y _ _. y = x)"
  "answers m (fail e) (\<lambda>_ _ _. False)"
  "answers m (failIf b e) (\<lambda>_ _ _. \<not> b)"
  "answers m (liftR r) (\<lambda>y _ _. r = Inr y)"
  by (auto simp: answers_def success runs_refl)

lemma answers_now [answer_rules]: "answers m (now m) (\<lambda>t _ T. \<exists>n. T n \<and> t = m_clock m n)"
  by (rule answersI) (auto simp: success readings_def runs_def storeRun_refl generatorOk_def idKey_def)

lemma answers_asking [answer_rules]: "answers m (asking f) (\<lambda>y _ _. \<exists>n. f n = Inr y)"
  by (rule answersI) (auto simp: asking_def runs_def storeRun_refl generatorOk_def idKey_def)

lemma answers_cases [answer_rules]:
  "answers m f Q \<Longrightarrow> answers m g R \<Longrightarrow> answers m (if b then f else g) (\<lambda>y M T. b \<and> Q y M T \<or> \<not> b \<and> R y M T)"
  "answers m f Q \<Longrightarrow> (\<And>x. answers m (h x) (S x))
    \<Longrightarrow> answers m (case z of None \<Rightarrow> f | Some x \<Rightarrow> h x) (\<lambda>y M T. z = None \<and> Q y M T \<or> (\<exists>x. z = Some x \<and> S x y M T))"
  "(\<And>e. answers m (p e) (V e)) \<Longrightarrow> (\<And>x. answers m (h x) (S x))
    \<Longrightarrow> answers m (case r of Inl e \<Rightarrow> p e | Inr x \<Rightarrow> h x) (\<lambda>y M T. (\<exists>e. r = Inl e \<and> V e y M T) \<or> (\<exists>x. r = Inr x \<and> S x y M T))"
  by (auto simp: answers_def split: option.split sum.split)

lemma answers_prod [answer_rules]:
  assumes "\<And>a b. answers m (k2 a b) (U a b)"
  shows "answers m (case pr of (a, b) \<Rightarrow> k2 a b) (\<lambda>y M T. U (fst pr) (snd pr) y M T)"
  using assms by (cases pr) simp

lemma answers_tryE: "relates (runs m) f \<Longrightarrow> answers m f Q \<Longrightarrow> answers m (tryE f) (\<lambda>r M T. \<forall>x. r = Inr x \<longrightarrow> Q x M T)"
  by (rule answersI) (auto simp: success answers_def dest: relatesD)

lemma orError_success [success]: "orError e f w = (Inr x, w') \<longleftrightarrow> f w = (Inr x, w')"
  by (auto simp: orError_def success)

lemma screened_success [success]: "screened e bad f w = (Inr x, w') \<longleftrightarrow> f w = (Inr x, w') \<and> \<not> bad x"
  by (auto simp: screened_def success)

lemma answers_orError [answer_rules]: "answers m f Q \<Longrightarrow> answers m (orError e f) Q"
  by (simp add: answers_def success)

lemma answers_screened [answer_rules]: "answers m f Q \<Longrightarrow> answers m (screened e bad f) (\<lambda>x M T. Q x M T \<and> \<not> bad x)"
  by (auto simp: answers_def success)

context environment
begin

lemma reads_relates: "relates (runs m) (callStore m (\<lambda>ce. reads ce g))"
  by (rule callStore_reads) (simp add: reads_def split: option.split)

lemma answers_read: "answers m (callStore m (\<lambda>ce. reads ce g)) (\<lambda>x M T. M (\<lambda>s. g s = Inr x))"
  by (rule answersI, erule relatesD [OF reads_relates]) (blast dest: read_sometime)

lemma answers_reads [answer_rules]:
  "answers m (callStore m (\<lambda>ce. UserByID ce i)) (\<lambda>x M T. M (\<lambda>s. lookup (st_users s) i = Some x))"
  "answers m (callStore m (\<lambda>ce. WorkspaceByID ce i)) (\<lambda>y M T. M (\<lambda>s. lookup (st_workspaces s) i = Some y))"
  "answers m (callStore m (\<lambda>ce. OAuthIssuerByID ce i)) (\<lambda>z M T. M (\<lambda>s. lookup (st_oauthIssuers s) i = Some z))"
  "answers m (callStore m (\<lambda>ce. OAuthProtectedResourceByID ce i)) (\<lambda>r M T. M (\<lambda>s. lookup (st_oauthResources s) i = Some r))"
  "answers m (callStore m (\<lambda>ce. OAuthClientByID ce i)) (\<lambda>k M T. M (\<lambda>s. lookup (st_oauthClients s) i = Some k))"
  "answers m (callStore m (\<lambda>ce. OAuthGrantByID ce i)) (\<lambda>g M T. M (\<lambda>s. lookup (st_oauthGrants s) i = Some g))"
  unfolding UserByID_def WorkspaceByID_def OAuthIssuerByID_def OAuthProtectedResourceByID_def OAuthClientByID_def OAuthGrantByID_def
  using answers_read [of "\<lambda>s. orErr e (h s)" for e h] by (simp_all add: orErr_Inr)

lemma answers_index_reads [answer_rules]:
  "answers m (callStore m (\<lambda>ce. OAuthAccessTokenByPrefix ce p))
    (\<lambda>x M T. M (\<lambda>s. throughIndex zeroAccessToken (st_oauthAccessKeys s) (st_oauthAccessTokens s) p = Inr x))"
  "answers m (callStore m (\<lambda>ce. OAuthClientAccessTokenByPrefix ce p))
    (\<lambda>y M T. M (\<lambda>s. throughIndex zeroClientAccessToken (st_oauthClientTokenKeys s) (st_oauthClientTokens s) p = Inr y))"
  "answers m (callStore m (\<lambda>ce. OAuthAuthorizationCodeByPrefix ce p))
    (\<lambda>z M T. M (\<lambda>s. throughIndex zeroCode (st_oauthCodeKeys s) (st_oauthCodes s) p = Inr z))"
  "answers m (callStore m (\<lambda>ce. OAuthRefreshTokenByPrefix ce p))
    (\<lambda>r M T. M (\<lambda>s. throughIndex zeroRefreshToken (st_oauthRefreshKeys s) (st_oauthRefreshTokens s) p = Inr r))"
  "answers m (callStore m (\<lambda>ce. OAuthIssuerByURL ce p))
    (\<lambda>i M T. M (\<lambda>s. throughIndex zeroIssuer (st_oauthIssuerURLs s) (st_oauthIssuers s) p = Inr i))"
  unfolding OAuthAccessTokenByPrefix_def OAuthClientAccessTokenByPrefix_def OAuthAuthorizationCodeByPrefix_def
    OAuthRefreshTokenByPrefix_def OAuthIssuerByURL_def by (rule answers_read)+

text \<open>A committed call: what it left in the store was true of it when the call returned.\<close>

lemma answers_call:
  assumes "relates (runs m) (callStore m f)" and "\<And>ce s x s'. f ce s = (Inr x, s') \<Longrightarrow> P x s'"
  shows "answers m (callStore m f) (\<lambda>x M T. M (P x))"
proof (rule answersI)
  fix w x w' assume call: "callStore m f w = (Inr x, w')"
  show r: "runs m w w'" using assms(1) call by (rule relatesD)
  have "P x (w_store w')" using call by (rule call_moment) (rule assms(2))
  then have "sometime m w w' (P x)" using r storeRun_refl unfolding sometime_def runs_def by blast
  then show "M (P x)" if "\<And>P. sometime m w w' P \<Longrightarrow> M P" for M by (rule that)
qed

lemma answers_change:
  assumes "\<And>change c. commitOk c \<Longrightarrow> answers m (k change c) Q"
  shows "answers m (bindE (newOAuthChange m n op aud cl g tk rs ws sc) (\<lambda>(change, c). k change c)) Q"
proof (rule answersI)
  fix w y w' assume "bindE (newOAuthChange m n op aud cl g tk rs ws sc) (\<lambda>(change, c). k change c) w = (Inr y, w')"
  then obtain meta w1 change c where meta: "newEventMeta m n op (aud_ActorID aud) ws aud w = (Inr meta, w1)"
    and c: "c = transactionalCommit m aud ''oauth.change'' meta" and k: "k change c w1 = (Inr y, w')"
    by (auto simp: newOAuthChange_def success Let_def)
  have "commitOk c" unfolding c by (rule commitOk_commits)
  note a = assms [OF this, of change]
  note r = relatesD [OF newEventMeta_runs meta] answers_runs [OF a k]
  show "runs m w w'" using r by (rule runs_trans)
  show "Q y M T" if "\<And>P. sometime m w w' P \<Longrightarrow> M P" "\<And>n. readings w w' n \<Longrightarrow> T n" for M T
    using that sometime_parts [OF r] readings_parts [OF r] by (intro answersM [OF a k]) blast+
qed

end

end
