(* ===== verification/Authorization.thy ===== *)
theory Authorization
  imports Access
begin

text \<open>
  Who may change what. The gates of \<^verbatim>\<open>rbac.go\<close>, \<^verbatim>\<open>lifecycle.go\<close>, \<^verbatim>\<open>admin.go\<close> and \<^verbatim>\<open>auth.go\<close> are compared with what
  they stand for: an enabled user with an active membership whose role carries the permission, an instance
  administrator, a recent strong authentication. Every operation that changes a workspace, the instance or an
  account is then shown to have passed its gate.
\<close>

section \<open>What the gates stand for\<close>

definition enabledIn :: "store \<Rightarrow> uuid \<Rightarrow> bool" where
  "enabledIn s u \<longleftrightarrow> (\<exists>x. lookup (st_users s) u = Some x \<and> \<not> usr_Disabled x)"

definition memberIn :: "manager \<Rightarrow> store \<Rightarrow> uuid \<Rightarrow> uuid \<Rightarrow> permission \<Rightarrow> bool" where
  "memberIn m s ws u p \<longleftrightarrow> (\<exists>b. lookup (membersOf s ws) u = Some b \<and> mbr_Status (normalizeMembership b) = MembershipActive
     \<and> roleAllows (m_workspaceRoles m) (mbr_Role b) p)"

definition administratorIn :: "manager \<Rightarrow> store \<Rightarrow> uuid \<Rightarrow> permission \<Rightarrow> bool" where
  "administratorIn m s u p \<longleftrightarrow> (\<exists>a. lookup (st_admins s) u = Some a \<and> hasAdminPermission m (iad_Role a) p)"

text \<open>The decision of \<^verbatim>\<open>AuthorizePermission\<close> as a condition on one store.\<close>

definition permitted :: "manager \<Rightarrow> authentication \<Rightarrow> uuid \<Rightarrow> permission \<Rightarrow> store \<Rightarrow> bool" where
  "permitted m a ws p s \<longleftrightarrow> auth_UserID a \<noteq> 0 \<and> \<not> auth_SecondFactorRequired a \<and> ws \<noteq> 0 \<and> workspacePermissionPattern p
     \<and> (auth_Scopes a = [] \<or> p \<in> set (auth_Scopes a) \<or> ''*'' \<in> set (auth_Scopes a))
     \<and> (auth_WorkspaceID a = 0 \<or> auth_WorkspaceID a = ws) \<and> enabledIn s (auth_UserID a)
     \<and> (\<exists>x. lookup (st_workspaces s) ws = Some x \<and> wsp_DisabledAt x = None
          \<and> (wsp_RequireMFA x \<and> Interactive a \<longrightarrow> auth_Level a \<ge> AAL2))
     \<and> memberIn m s ws (auth_UserID a) p"

text \<open>The same for a request: what was asked of the store held at some moment of it.\<close>

definition vouched :: "manager \<Rightarrow> authentication \<Rightarrow> uuid \<Rightarrow> permission \<Rightarrow> world \<Rightarrow> world \<Rightarrow> bool" where
  "vouched m a ws p w w' \<longleftrightarrow> (auth_WorkspaceID a = 0 \<or> auth_WorkspaceID a = ws)
     \<and> sometime m w w' (\<lambda>s. enabledIn s (auth_UserID a)) \<and> sometime m w w' (\<lambda>s. has ws (st_workspaces s))
     \<and> sometime m w w' (\<lambda>s. memberIn m s ws (auth_UserID a) p)"

definition administers :: "manager \<Rightarrow> authentication \<Rightarrow> permission \<Rightarrow> world \<Rightarrow> world \<Rightarrow> bool" where
  "administers m a p w w' \<longleftrightarrow> auth_WorkspaceID a = 0 \<and> (auth_Scopes a = [] \<or> ''*'' \<in> set (auth_Scopes a))
     \<and> sometime m w w' (\<lambda>s. enabledIn s (auth_UserID a)) \<and> sometime m w w' (\<lambda>s. administratorIn m s (auth_UserID a) p)"

definition strong :: "manager \<Rightarrow> authentication \<Rightarrow> world \<Rightarrow> world \<Rightarrow> bool" where
  "strong m a w w' \<longleftrightarrow> Interactive a \<and> auth_Level a \<ge> AAL2 \<and> \<not> auth_SecondFactorRequired a
     \<and> (\<exists>n. w_ticks w \<le> n \<and> n < w_ticks w' \<and> 0 \<le> timeSub (m_clock m n) (auth_AuthenticatedAt a)
          \<and> timeSub (m_clock m n) (auth_AuthenticatedAt a) \<le> m_stepUpMaxAge m)"

section \<open>The decision of a quiet request\<close>

lemma HasScope_set: "HasScope a p \<longleftrightarrow> p = [] \<or> p \<in> set (auth_Scopes a) \<or> ''*'' \<in> set (auth_Scopes a)"
  by (auto simp: HasScope_def list_ex_iff)

lemma normalize_role [simp]: "mbr_Role (normalizeMembership b) = mbr_Role b"
  by (simp add: normalizeMembership_def Let_def)

lemma pattern_nonempty: "\<not> workspacePermissionPattern []"
  by (simp add: workspacePermissionPattern_def namePattern_def)

text \<open>
  C10: an undisturbed \<^verbatim>\<open>AuthorizePermission\<close> decides exactly what the authorization rules say: it succeeds if and
  only if the authentication is complete, covers the permission by its scopes and its workspace, and the store
  has the user enabled, the workspace neither disabled nor closed to this assurance level, and an active
  membership with a role that allows the permission.
\<close>

theorem authorize_permission_exact:
  assumes "quiet m"
  shows "(\<exists>w'. AuthorizePermission m a ws p w = (Inr (), w')) \<longleftrightarrow> permitted m a ws p (w_store w)"
  by (auto simp: AuthorizePermission_def permitted_def success quiet_reads [OF assms] UserByID_def WorkspaceByID_def Membership_def
    orErr_def enabledIn_def memberIn_def HasScope_set pattern_nonempty split: option.splits)

section \<open>Guarantees of an operation\<close>

text \<open>
  What holds when an operation returns a value: \<open>G\<close> relates the worlds before and after it, and a stretch of a
  request keeps it when the request is longer.
\<close>

definition ensures :: "(world \<Rightarrow> world \<Rightarrow> bool) \<Rightarrow> 'a op \<Rightarrow> bool" where
  "ensures G f \<longleftrightarrow> (\<forall>w y w'. f w = (Inr y, w') \<longrightarrow> G w w')"

lemma ensuresI: "(\<And>w y w'. f w = (Inr y, w') \<Longrightarrow> G w w') \<Longrightarrow> ensures G f"
  by (simp add: ensures_def)

lemma ensuresD: "ensures G f \<Longrightarrow> f w = (Inr y, w') \<Longrightarrow> G w w'"
  by (simp add: ensures_def)

locale guarantee =
  fixes m :: manager and G :: "world \<Rightarrow> world \<Rightarrow> bool"
  assumes widen: "runs m a b \<Longrightarrow> G b c \<Longrightarrow> runs m c d \<Longrightarrow> G a d"
begin

lemma first: "ensures G f \<Longrightarrow> (\<And>x. relates (runs m) (k x)) \<Longrightarrow> ensures G (bindE f k)"
  by (rule ensuresI) (auto simp: success dest!: ensuresD relatesD intro: widen [OF runs_refl])

lemma later: "relates (runs m) f \<Longrightarrow> (\<And>x. ensures G (k x)) \<Longrightarrow> ensures G (bindE f k)"
  by (rule ensuresI) (fastforce simp: success dest: ensuresD relatesD intro: widen [OF _ _ runs_refl])

lemma either: "ensures G f \<Longrightarrow> ensures G g \<Longrightarrow> ensures G (if b then f else g)"
  by simp

end

lemma vouched_widen: "runs m a b \<Longrightarrow> vouched m x ws p b c \<Longrightarrow> runs m c d \<Longrightarrow> vouched m x ws p a d"
  unfolding vouched_def using sometime_widen by blast

lemma administers_widen: "runs m a b \<Longrightarrow> administers m x p b c \<Longrightarrow> runs m c d \<Longrightarrow> administers m x p a d"
  unfolding administers_def using sometime_widen by blast

lemma strong_widen: "runs m a b \<Longrightarrow> strong m x b c \<Longrightarrow> runs m c d \<Longrightarrow> strong m x a d"
  unfolding strong_def runs_def by (meson le_trans less_le_trans)

interpretation member: guarantee m "vouched m x ws p" for m x ws p
  by unfold_locales (rule vouched_widen)

interpretation administrator: guarantee m "administers m x p" for m x p
  by unfold_locales (rule administers_widen)

interpretation stepUp: guarantee m "strong m x" for m x
  by unfold_locales (rule strong_widen)

section \<open>The gates\<close>

context environment
begin

lemma enabled_read: "callStore m (\<lambda>ce. UserByID ce u) w = (Inr x, w') \<Longrightarrow> \<not> usr_Disabled x \<Longrightarrow> sometime m w w' (\<lambda>s. enabledIn s u)"
  by (drule user_read, erule sometime_mono) (auto simp: enabledIn_def)

lemma workspace_read: "callStore m (\<lambda>ce. WorkspaceByID ce ws) w = (Inr x, w') \<Longrightarrow> sometime m w w' (\<lambda>s. has ws (st_workspaces s))"
  unfolding WorkspaceByID_def by (drule read_sometime, erule sometime_mono) (auto simp: orErr_def has_def split: option.splits)

lemma member_read:
  assumes "callStore m (\<lambda>ce. Membership ce ws u) w = (Inr b, w')" and "mbr_Status b = MembershipActive" and "roleAllows (m_workspaceRoles m) (mbr_Role b) p"
  shows "sometime m w w' (\<lambda>s. memberIn m s ws u p)"
  using assms(1) unfolding Membership_def
  by (intro sometime_mono [OF read_sometime], assumption) (use assms(2,3) in \<open>auto simp: memberIn_def split: option.splits\<close>)

lemma admin_read:
  assumes "callStore m (\<lambda>ce. storeInstanceAdministrator ce u) w = (Inr a, w')" and "hasAdminPermission m (iad_Role a) p"
  shows "sometime m w w' (\<lambda>s. administratorIn m s u p)"
  using assms(1) unfolding storeInstanceAdministrator_def
  by (intro sometime_mono [OF read_sometime], assumption) (use assms(2) in \<open>auto simp: administratorIn_def orErr_def split: option.splits\<close>)

lemma reads_run: "callStore m (\<lambda>ce. WorkspaceByID ce ws) w = (r, w') \<Longrightarrow> runs m w w'"
  "callStore m (\<lambda>ce. Membership ce ws u) w = (r1, w') \<Longrightarrow> runs m w w'"
  "callStore m (\<lambda>ce. storeInstanceAdministrator ce u) w = (r2, w') \<Longrightarrow> runs m w w'"
  by (erule relatesD [rotated], intro run_rules)+

text \<open>Three reads in a row.\<close>

lemma vouched_reads:
  assumes "callStore m (\<lambda>ce. UserByID ce (auth_UserID a)) w = (Inr u, w1)" "\<not> usr_Disabled u" and "auth_WorkspaceID a = 0 \<or> auth_WorkspaceID a = ws"
    and "callStore m (\<lambda>ce. WorkspaceByID ce ws) w1 = (Inr x, w2)"
    and "callStore m (\<lambda>ce. Membership ce ws (auth_UserID a)) w2 = (Inr b, w3)"
    and "mbr_Status b = MembershipActive" "roleAllows (m_workspaceRoles m) (mbr_Role b) p"
  shows "vouched m a ws p w w3"
proof -
  note r = read_runs(2) [OF assms(1)] reads_run(1) [OF assms(4)] reads_run(2) [OF assms(5)]
  have "sometime m w w3 (\<lambda>s. enabledIn s (auth_UserID a))"
    by (rule sometime_widen [OF runs_refl enabled_read [OF assms(1,2)] runs_trans [OF r(2,3)]])
  moreover have "sometime m w w3 (\<lambda>s. has ws (st_workspaces s))"
    by (rule sometime_widen [OF r(1) workspace_read [OF assms(4)] r(3)])
  moreover have "sometime m w w3 (\<lambda>s. memberIn m s ws (auth_UserID a) p)"
    by (rule sometime_widen [OF runs_trans [OF r(1,2)] member_read [OF assms(5-7)] runs_refl])
  ultimately show ?thesis using assms(3) by (simp add: vouched_def)
qed

lemma AuthorizePermission_gate: "ensures (vouched m a ws p) (AuthorizePermission m a ws p)"
  by (rule ensuresI) (auto simp: AuthorizePermission_def success intro: vouched_reads)

lemma workspace_gate: "ensures (vouched m a ws p) (authorizeWorkspaceMutation m a ws p op)"
  unfolding authorizeWorkspaceMutation_def
  by (rule member.later, intro run_rules, rule ensuresI) (auto simp: success intro: vouched_reads)

lemma AuthorizeAdmin_gate: "ensures (administers m a p) (AuthorizeAdmin m a p)"
proof (rule ensuresI)
  fix w y w' assume "AuthorizeAdmin m a p w = (Inr y, w')"
  then obtain ru w1 ra w2 where "callStore m (\<lambda>ce. UserByID ce (auth_UserID a)) w = (ru, w1)"
    and "callStore m (\<lambda>ce. storeInstanceAdministrator ce (auth_UserID a)) w1 = (ra, w2)"
    and allowed: "auth_WorkspaceID a = 0" "auth_Scopes a = [] \<or> HasScope a ''*''" "case ru of Inl _ \<Rightarrow> False | Inr u \<Rightarrow> \<not> usr_Disabled u"
      "case ra of Inl _ \<Rightarrow> False | Inr ad \<Rightarrow> hasAdminPermission m (iad_Role ad) p"
    and "\<exists>event w3. newAudit m (auth_UserID a) ''admin.access'' ''permission'' p 0 AuditSucceeded [] w2 = (Inr event, w3)
      \<and> callStore m (\<lambda>ce. AppendAudit (m_sha m) ce (auditOnly event)) w3 = (Inr (), w')"
    unfolding AuthorizeAdmin_def Let_def by (auto simp: success)
  then obtain u ad where u: "callStore m (\<lambda>ce. UserByID ce (auth_UserID a)) w = (Inr u, w1)" "\<not> usr_Disabled u"
    and ad: "callStore m (\<lambda>ce. storeInstanceAdministrator ce (auth_UserID a)) w1 = (Inr ad, w2)" "hasAdminPermission m (iad_Role ad) p"
    and cred: "auth_WorkspaceID a = 0" "auth_Scopes a = [] \<or> HasScope a ''*''"
    and rest: "\<exists>event w3. newAudit m (auth_UserID a) ''admin.access'' ''permission'' p 0 AuditSucceeded [] w2 = (Inr event, w3)
      \<and> callStore m (\<lambda>ce. AppendAudit (m_sha m) ce (auditOnly event)) w3 = (Inr (), w')"
    by (cases ru; cases ra) auto
  have append: "relates (runs m) (callStore m (\<lambda>ce. AppendAudit (m_sha m) ce (auditOnly event)))" for event by (intro run_rules)
  from rest have rest: "runs m w2 w'" 
    by (elim exE conjE) (rule runs_trans, erule relatesD [OF newAudit_runs], erule relatesD [OF append])
  have "sometime m w w' (\<lambda>s. enabledIn s (auth_UserID a))"
    by (rule sometime_widen [OF runs_refl enabled_read [OF u] runs_trans [OF reads_run(3) [OF ad(1)] rest]])
  moreover have "sometime m w w' (\<lambda>s. administratorIn m s (auth_UserID a) p)"
    by (rule sometime_widen [OF read_runs(2) [OF u(1)] admin_read [OF ad] rest])
  ultimately show "administers m a p w w'" using cred by (auto simp: administers_def HasScope_set)
qed

lemma ret_bindE: "bindE (ret x) k = k x"
  by (simp add: fun_eq_iff bindE_def ret_def)

lemma RequireStepUp_gate: "ensures (strong m a) (RequireStepUp m a)"
  by (rule ensuresI) (fastforce simp: RequireStepUp_def success Let_def strong_def)

lemma stepUp_gate:
  assumes "policyFor (m_stepUp m) scope = StepUpPolicyRequired"
  shows "ensures (strong m a) (requireScopedStepUp m a scope op)"
proof -
  have "ensures (strong m a) (RequireStepUpFor m a scope)"
    unfolding RequireStepUpFor_def Let_def assms
    by (simp add: ret_bindE) (rule stepUp.first [OF RequireStepUp_gate], rule run_rules)
  then show ?thesis by (auto simp: ensures_def requireScopedStepUp_def success)
qed

end

section \<open>The operations behind the gates\<close>

text \<open>The operations that change a workspace as its member, with the permission each needs.\<close>

inductive workspaceMutation :: "manager \<Rightarrow> authentication \<Rightarrow> uuid \<Rightarrow> permission \<Rightarrow> world \<Rightarrow> world \<Rightarrow> bool" for m a ws where
  "CreateUser m a ws input w = (Inr user, w') \<Longrightarrow> workspaceMutation m a ws PermissionWorkspaceUsersWrite w w'"
| "GrantRole m a ws u r w = (Inr (), w') \<Longrightarrow> workspaceMutation m a ws PermissionWorkspaceRBACWrite w w'"
| "UpdateWorkspace m a ws name mfa w = (Inr x, w') \<Longrightarrow> workspaceMutation m a ws PermissionWorkspaceSettingsWrite w w'"
| "DisableWorkspace m a ws w = (Inr (), w') \<Longrightarrow> workspaceMutation m a ws PermissionWorkspaceSettingsWrite w w'"
| "EnableWorkspace m a ws w = (Inr (), w') \<Longrightarrow> workspaceMutation m a ws PermissionWorkspaceSettingsWrite w w'"
| "AddMembership m a ws u r w = (Inr b, w') \<Longrightarrow> workspaceMutation m a ws PermissionWorkspaceUsersWrite w w'"
| "AddMembership m a ws u r w = (Inr b, w') \<Longrightarrow> workspaceMutation m a ws PermissionWorkspaceRBACWrite w w'"
| "SetMembershipStatus m a ws u status w = (Inr b, w') \<Longrightarrow> workspaceMutation m a ws PermissionWorkspaceUsersWrite w w'"
| "RemoveMembership m a ws u w = (Inr (), w') \<Longrightarrow> workspaceMutation m a ws PermissionWorkspaceUsersWrite w w'"
| "InviteToWorkspace m a ws email r w = (Inr i, w') \<Longrightarrow> workspaceMutation m a ws PermissionWorkspaceUsersWrite w w'"
| "RevokeInvitation m a ws i w = (Inr (), w') \<Longrightarrow> workspaceMutation m a ws PermissionWorkspaceUsersWrite w w'"
| "RevokeWorkspacePAT m a ws i w = (Inr (), w') \<Longrightarrow> workspaceMutation m a ws PermissionWorkspaceCredentialsManage w w'"
| "managerCreateWorkspaceDomain m a ws name w = (Inr d, w') \<Longrightarrow> workspaceMutation m a ws PermissionWorkspaceSettingsWrite w w'"
| "CreateOAuthProtectedResource m srv a ws i uri defs w = (Inr rsc, w') \<Longrightarrow> workspaceMutation m a ws PermissionOAuthResourceManage w w'"
| "DisableOAuthProtectedResource m srv a ws i w = (Inr (), w') \<Longrightarrow> workspaceMutation m a ws PermissionOAuthResourceManage w w'"
| "EnableOAuthProtectedResource m srv a ws i w = (Inr (), w') \<Longrightarrow> workspaceMutation m a ws PermissionOAuthResourceManage w w'"
| "CreateSCIMConfiguration m a ws r trust maps expiry w = (Inr cfg, w') \<Longrightarrow> workspaceMutation m a ws PermissionWorkspaceRBACWrite w w'"

text \<open>The operations on a claimed domain act in the workspace that claimed it.\<close>

inductive domainMutation :: "manager \<Rightarrow> authentication \<Rightarrow> uuid \<Rightarrow> world \<Rightarrow> world \<Rightarrow> bool" for m a i where
  "ConfirmWorkspaceDomain m a i w = (Inr (), w') \<Longrightarrow> domainMutation m a i w w'"
| "UpdateWorkspaceDomainPolicy m a i input w = (Inr (), w') \<Longrightarrow> domainMutation m a i w w'"
| "RemoveWorkspaceDomain m a i w = (Inr (), w') \<Longrightarrow> domainMutation m a i w w'"

definition domainVouched :: "manager \<Rightarrow> authentication \<Rightarrow> uuid \<Rightarrow> world \<Rightarrow> world \<Rightarrow> bool" where
  "domainVouched m a i w w' \<longleftrightarrow> (\<exists>ws. sometime m w w' (\<lambda>s. \<exists>d. lookup (st_domains s) i = Some d \<and> dom_WorkspaceID d = ws)
     \<and> vouched m a ws PermissionWorkspaceSettingsWrite w w')"

lemma domainVouched_widen: "runs m w1 w2 \<Longrightarrow> domainVouched m a i w2 w3 \<Longrightarrow> runs m w3 w4 \<Longrightarrow> domainVouched m a i w1 w4"
  unfolding domainVouched_def using sometime_widen vouched_widen by blast

interpretation domainMember: guarantee m "domainVouched m a i" for m a i
  by unfold_locales (rule domainVouched_widen)

text \<open>The operations of an instance administrator.\<close>

inductive adminMutation :: "manager \<Rightarrow> authentication \<Rightarrow> permission \<Rightarrow> world \<Rightarrow> world \<Rightarrow> bool" for m a where
  "AdminUpdateWorkspace m a local ws name mfa w = (Inr x, w') \<Longrightarrow> adminMutation m a PermissionWorkspacesWrite w w'"
| "AdminDisableWorkspace m a local ws w = (Inr (), w') \<Longrightarrow> adminMutation m a PermissionWorkspacesWrite w w'"
| "AdminEnableWorkspace m a local ws w = (Inr (), w') \<Longrightarrow> adminMutation m a PermissionWorkspacesWrite w w'"
| "DisableUser m a local u w = (Inr (), w') \<Longrightarrow> adminMutation m a PermissionUsersWrite w w'"
| "EnableUser m a local u w = (Inr (), w') \<Longrightarrow> adminMutation m a PermissionUsersWrite w w'"
| "AdminUpdateUser m a local u name w = (Inr x, w') \<Longrightarrow> adminMutation m a PermissionUsersWrite w w'"
| "AdminResetSecondFactor m a local u w = (Inr (), w') \<Longrightarrow> adminMutation m a PermissionUsersWrite w w'"
| "AnonymizeUser m a local u w = (Inr (), w') \<Longrightarrow> adminMutation m a PermissionUsersWrite w w'"
| "managerRevokeUserCredentials m a local u w = (Inr (), w') \<Longrightarrow> u \<noteq> 0 \<Longrightarrow> u \<noteq> auth_UserID a \<Longrightarrow> adminMutation m a PermissionUsersWrite w w'"
| "managerRevokeUserSessions m a local u w = (Inr (), w') \<Longrightarrow> u \<noteq> 0 \<Longrightarrow> u \<noteq> auth_UserID a \<Longrightarrow> adminMutation m a PermissionUsersWrite w w'"
| "SetInstanceRole m a local u r w = (Inr (), w') \<Longrightarrow> adminMutation m a PermissionInstanceRolesWrite w w'"
| "RemoveInstanceRole m a local u w = (Inr (), w') \<Longrightarrow> adminMutation m a PermissionInstanceRolesWrite w w'"
| "CreateOAuthIssuer m srv a local uri policy w = (Inr iss, w') \<Longrightarrow> adminMutation m a PermissionSettingsWrite w w'"
| "UpdateOAuthIssuer m srv a local i policy w = (Inr iss, w') \<Longrightarrow> adminMutation m a PermissionSettingsWrite w w'"
| "PreRegisterOAuthClient m srv a local i inp w = (Inr cl, w') \<Longrightarrow> adminMutation m a PermissionSettingsWrite w w'"
| "CreateOAuthInitialAccessToken m srv a local i t n w = (Inr tk, w') \<Longrightarrow> adminMutation m a PermissionSettingsWrite w w'"
| "RevokeOAuthInitialAccessToken m srv a local i w = (Inr (), w') \<Longrightarrow> adminMutation m a PermissionSettingsWrite w w'"
| "setOAuthIssuerDisabled m srv a local i b w = (Inr (), w') \<Longrightarrow> adminMutation m a PermissionSettingsWrite w w'"
| "setOAuthClientDisabled m srv a local i b w = (Inr (), w') \<Longrightarrow> adminMutation m a PermissionSettingsWrite w w'"
| "RotateOAuthClientSecret m srv a local i w = (Inr cl, w') \<Longrightarrow> adminMutation m a PermissionSettingsWrite w w'"
| "ReplaceOAuthClientJWKS m srv a local i jwks w = (Inr (), w') \<Longrightarrow> adminMutation m a PermissionSettingsWrite w w'"

context environment
begin

lemma workspace_operations:
  "ensures (vouched m a ws PermissionWorkspaceUsersWrite) (CreateUser m a ws input)"
  "ensures (vouched m a ws PermissionWorkspaceRBACWrite) (GrantRole m a ws u r)"
  "ensures (vouched m a ws PermissionWorkspaceUsersWrite) (InviteToWorkspace m a ws email r)"
  "ensures (vouched m a ws PermissionWorkspaceUsersWrite) (RevokeInvitation m a ws i)"
  unfolding CreateUser_def GrantRole_def InviteToWorkspace_def RevokeInvitation_def
  by (rule member.later, rule run_rules, rule member.first, rule AuthorizePermission_gate, (intro run_rules; assumption))+

lemma membership_operations:
  "ensures (vouched m a ws PermissionWorkspaceSettingsWrite) (UpdateWorkspace m a ws name mfa)"
  "ensures (vouched m a ws PermissionWorkspaceUsersWrite) (RemoveMembership m a ws u)"
  "ensures (vouched m a ws PermissionWorkspaceCredentialsManage) (RevokeWorkspacePAT m a ws i)"
  unfolding UpdateWorkspace_def RemoveMembership_def RevokeWorkspacePAT_def
  by (rule member.first, rule workspace_gate, (intro run_rules; assumption))+

lemma domain_creation: "ensures (vouched m a ws PermissionWorkspaceSettingsWrite) (managerCreateWorkspaceDomain m a ws name)"
  unfolding managerCreateWorkspaceDomain_def
  by (rule member.later, rule run_rules, rule member.first, rule workspace_gate, (intro run_rules; assumption))

lemma status_operation: "ensures (vouched m a ws PermissionWorkspaceUsersWrite) (SetMembershipStatus m a ws u status)"
  unfolding SetMembershipStatus_def
  by (rule member.later, rule run_rules, rule member.first, rule workspace_gate, (intro run_rules; assumption))

lemma switch_operations:
  "ensures (vouched m a ws PermissionWorkspaceSettingsWrite) (DisableWorkspace m a ws)"
  "ensures (vouched m a ws PermissionWorkspaceSettingsWrite) (EnableWorkspace m a ws)"
  unfolding DisableWorkspace_def EnableWorkspace_def setWorkspaceDisabled_def Let_def if_False
  by (rule member.first, rule workspace_gate, (intro run_rules; assumption))+

lemma addition_operations:
  "ensures (vouched m a ws PermissionWorkspaceUsersWrite) (AddMembership m a ws u r)"
  "ensures (vouched m a ws PermissionWorkspaceRBACWrite) (AddMembership m a ws u r)"
  unfolding AddMembership_def upsertLocalMembership_def Let_def if_True
  by (rule member.first, rule workspace_gate, (intro run_rules; assumption))
    (rule member.later, rule run_rules, rule member.first, rule AuthorizePermission_gate, (intro run_rules; assumption))

lemma domain_gate: "ensures (domainVouched m a i) (authorizedWorkspaceDomain m a i op)"
proof (rule ensuresI)
  fix w d w' assume "authorizedWorkspaceDomain m a i op w = (Inr d, w')"
  then obtain w1 w2 where s: "requireScopedStepUp m a StepUpScopeWorkspace op w = (Inr (), w1)"
    and d: "callStore m (\<lambda>ce. WorkspaceDomainByID ce i) w1 = (Inr d, w2)"
    and g: "authorizeWorkspaceMutation m a (dom_WorkspaceID d) PermissionWorkspaceSettingsWrite op w2 = (Inr (), w')"
    unfolding authorizedWorkspaceDomain_def by (auto simp: success)
  have r: "runs m w w1" "runs m w1 w2" "runs m w2 w'"
    using s d g by - (erule relatesD [rotated], rule run_rules)+
  have "sometime m w1 w2 (\<lambda>s. lookup (st_domains s) i = Some d)"
    using d unfolding WorkspaceDomainByID_def by (auto dest!: read_sometime elim!: sometime_mono simp: orErr_def split: option.splits)
  then have "sometime m w w' (\<lambda>s. \<exists>x. lookup (st_domains s) i = Some x \<and> dom_WorkspaceID x = dom_WorkspaceID d)"
    by (rule sometime_widen [OF r(1) sometime_mono r(3)]) blast
  moreover have "vouched m a (dom_WorkspaceID d) PermissionWorkspaceSettingsWrite w w'"
    by (rule vouched_widen [OF runs_trans [OF r(1,2)] ensuresD [OF workspace_gate g] runs_refl])
  ultimately show "domainVouched m a i w w'" unfolding domainVouched_def by blast
qed

lemma domain_operations: "ensures (domainVouched m a i) (UpdateWorkspaceDomainPolicy m a i input)"
  "ensures (domainVouched m a i) (RemoveWorkspaceDomain m a i)"
  unfolding UpdateWorkspaceDomainPolicy_def RemoveWorkspaceDomain_def
  by (rule domainMember.later, rule run_rules, rule domainMember.first, rule domain_gate, (intro run_rules; assumption))+

lemma confirm_operation: "ensures (domainVouched m a i) (ConfirmWorkspaceDomain m a i)"
  unfolding ConfirmWorkspaceDomain_def
  by (rule domainMember.later, rule run_rules, rule domainMember.later, rule run_rules, rule domainMember.first, rule domain_gate,
    (intro run_rules; assumption))

lemma admin_operations:
  "ensures (administers m a PermissionWorkspacesWrite) (AdminUpdateWorkspace m a local ws name mfa)"
  "ensures (administers m a PermissionUsersWrite) (setUserDisabled m a local u disabled)"
  "ensures (administers m a PermissionUsersWrite) (AdminUpdateUser m a local u name)"
  "ensures (administers m a PermissionInstanceRolesWrite) (SetInstanceRole m a local u r)"
  "ensures (administers m a PermissionInstanceRolesWrite) (RemoveInstanceRole m a local u)"
  unfolding AdminUpdateWorkspace_def setUserDisabled_def Let_def AdminUpdateUser_def SetInstanceRole_def RemoveInstanceRole_def
  by (rule administrator.first, rule AuthorizeAdmin_gate, (intro run_rules; assumption))+

lemma admin_switches:
  "ensures (administers m a PermissionWorkspacesWrite) (AdminDisableWorkspace m a local ws)"
  "ensures (administers m a PermissionWorkspacesWrite) (AdminEnableWorkspace m a local ws)"
  unfolding AdminDisableWorkspace_def AdminEnableWorkspace_def setWorkspaceDisabled_def Let_def if_True
  by (rule administrator.first, rule administrator.first, rule AuthorizeAdmin_gate, (intro run_rules; assumption), (intro run_rules; assumption))+

lemma user_switches:
  "ensures (administers m a PermissionUsersWrite) (DisableUser m a local u)" "ensures (administers m a PermissionUsersWrite) (EnableUser m a local u)"
  unfolding DisableUser_def EnableUser_def by (rule admin_operations)+

lemma reset_operation: "ensures (administers m a PermissionUsersWrite) (AdminResetSecondFactor m a local u)"
  unfolding AdminResetSecondFactor_def
  by (rule administrator.later, rule run_rules, rule administrator.later, rule run_rules, rule administrator.later, rule run_rules,
    rule administrator.first, rule AuthorizeAdmin_gate, (intro run_rules; assumption))

lemma erasure_operation: "ensures (administers m a PermissionUsersWrite) (AnonymizeUser m a local u)"
  unfolding AnonymizeUser_def
  by (rule administrator.later, rule run_rules, rule administrator.later, rule run_rules,
    rule administrator.first, rule AuthorizeAdmin_gate, (intro run_rules; assumption))

lemma revocation_operations:
  assumes "u \<noteq> 0" and "u \<noteq> auth_UserID a"
  shows "ensures (administers m a PermissionUsersWrite) (managerRevokeUserCredentials m a local u)"
    and "ensures (administers m a PermissionUsersWrite) (managerRevokeUserSessions m a local u)"
proof -
  have gate: "ensures (administers m a PermissionUsersWrite)
      (bindE (requireAdminMutation m a local op) (\<lambda>_. AuthorizeAdmin m a PermissionUsersWrite))" for op
    by (rule administrator.later, rule run_rules, rule AuthorizeAdmin_gate)
  show "ensures (administers m a PermissionUsersWrite) (managerRevokeUserCredentials m a local u)"
    unfolding managerRevokeUserCredentials_def Let_def
    by (simp only: assms if_False, rule administrator.later, rule run_rules, rule administrator.first, rule gate, (intro run_rules; assumption))
  show "ensures (administers m a PermissionUsersWrite) (managerRevokeUserSessions m a local u)"
    unfolding managerRevokeUserSessions_def Let_def
    by (simp only: assms if_False, rule administrator.later, rule run_rules, rule administrator.later, rule run_rules, rule administrator.first,
      rule gate, (intro run_rules; assumption))
qed

lemma oauth_resource_operations:
  "ensures (vouched m a ws PermissionOAuthResourceManage) (CreateOAuthProtectedResource m srv a ws i uri defs)"
  "ensures (vouched m a ws PermissionWorkspaceRBACWrite) (CreateSCIMConfiguration m a ws r trust maps expiry)"
  unfolding CreateOAuthProtectedResource_def CreateSCIMConfiguration_def
  by (rule member.later, rule run_rules, rule member.later, rule run_rules, rule member.first, rule AuthorizePermission_gate,
    (intro run_rules; assumption)?)+

lemma oauth_resource_switches:
  "ensures (vouched m a ws PermissionOAuthResourceManage) (DisableOAuthProtectedResource m srv a ws i)"
  "ensures (vouched m a ws PermissionOAuthResourceManage) (EnableOAuthProtectedResource m srv a ws i)"
  unfolding DisableOAuthProtectedResource_def EnableOAuthProtectedResource_def setOAuthProtectedResourceDisabled_def Let_def
  by (rule member.later, rule run_rules, rule member.first, rule workspace_gate, (rule oauth_commits run_rules | assumption)+)+

lemma oauth_admin_operations:
  "ensures (administers m a PermissionSettingsWrite) (CreateOAuthIssuer m srv a local uri policy)"
  "ensures (administers m a PermissionSettingsWrite) (UpdateOAuthIssuer m srv a local i policy)"
  "ensures (administers m a PermissionSettingsWrite) (PreRegisterOAuthClient m srv a local i inp)"
  "ensures (administers m a PermissionSettingsWrite) (CreateOAuthInitialAccessToken m srv a local i t n)"
  "ensures (administers m a PermissionSettingsWrite) (RevokeOAuthInitialAccessToken m srv a local i)"
  "ensures (administers m a PermissionSettingsWrite) (setOAuthIssuerDisabled m srv a local i b)"
  "ensures (administers m a PermissionSettingsWrite) (setOAuthClientDisabled m srv a local i b)"
  "ensures (administers m a PermissionSettingsWrite) (RotateOAuthClientSecret m srv a local i)"
  "ensures (administers m a PermissionSettingsWrite) (ReplaceOAuthClientJWKS m srv a local i jwks)"
  unfolding CreateOAuthIssuer_def UpdateOAuthIssuer_def PreRegisterOAuthClient_def CreateOAuthInitialAccessToken_def
    RevokeOAuthInitialAccessToken_def setOAuthIssuerDisabled_def setOAuthClientDisabled_def RotateOAuthClientSecret_def
    ReplaceOAuthClientJWKS_def Let_def
  by (rule administrator.later, rule run_rules, rule administrator.first, rule AuthorizeAdmin_gate, (rule oauth_commits run_rules | assumption)+)+

lemma workspaceMutation_vouched: "workspaceMutation m a ws p w w' \<Longrightarrow> vouched m a ws p w w'"
  by (induction rule: workspaceMutation.induct)
    (erule ensuresD [rotated], rule workspace_operations membership_operations domain_creation status_operation switch_operations addition_operations
      oauth_resource_operations oauth_resource_switches)+

lemma domainMutation_vouched: "domainMutation m a i w w' \<Longrightarrow> domainVouched m a i w w'"
  by (induction rule: domainMutation.induct) (erule ensuresD [rotated], rule domain_operations confirm_operation)+

lemma adminMutation_administers: "adminMutation m a p w w' \<Longrightarrow> administers m a p w w'"
  by (induction rule: adminMutation.induct)
    (erule ensuresD [rotated], (rule admin_operations admin_switches user_switches reset_operation erasure_operation oauth_admin_operations
      | (rule revocation_operations, assumption, assumption)))+

end


text \<open>
  C8: no instance administration without an instance role. Whenever an administrative operation succeeds (on
  workspaces, users, second factors, credentials and sessions of others, erasure, instance roles, OAuth issuers and
  clients), the actor
  presented a credential bound to no workspace and not narrowed by scopes, and at moments of that request the
  account was enabled and held an instance role with the operation's permission.
\<close>

theorem admin_mutations_authorized:
  assumes "environment m" and "adminMutation m a p w w'"
  shows "administers m a p w w'"
  using environment.adminMutation_administers [OF assms] .

section \<open>Step-up\<close>

text \<open>The operations a scope of the step-up policy guards.\<close>

inductive guarded :: "manager \<Rightarrow> authentication \<Rightarrow> stepUpScope \<Rightarrow> world \<Rightarrow> world \<Rightarrow> bool" for m a where
  "CreatePAT m a pin w = (Inr t, w') \<Longrightarrow> guarded m a StepUpScopePAT w w'"
| "RevokePAT m a i w = (Inr (), w') \<Longrightarrow> guarded m a StepUpScopePAT w w'"
| "RevokeSession m a i w = (Inr (), w') \<Longrightarrow> guarded m a StepUpScopeAccount w w'"
| "SetPrimaryEmail m a i w = (Inr (), w') \<Longrightarrow> guarded m a StepUpScopeAccount w w'"
| "RemoveEmail m a i w = (Inr (), w') \<Longrightarrow> guarded m a StepUpScopeAccount w w'"
| "managerUnlinkSSO m a i w = (Inr (), w') \<Longrightarrow> guarded m a StepUpScopeAccount w w'"
| "managerDeletePasskey m a i w = (Inr (), w') \<Longrightarrow> guarded m a StepUpScopeAccount w w'"
| "RegenerateRecoveryCodes m a w = (Inr codes, w') \<Longrightarrow> guarded m a StepUpScopeAccount w w'"
| "CreateWorkspace m a name mfa w = (Inr x, w') \<Longrightarrow> guarded m a StepUpScopeWorkspace w w'"
| "workspaceMutation m a ws p w w' \<Longrightarrow> guarded m a StepUpScopeWorkspace w w'"
| "domainMutation m a i w w' \<Longrightarrow> guarded m a StepUpScopeWorkspace w w'"
| "SetInstanceRole m a False u r w = (Inr (), w') \<Longrightarrow> guarded m a StepUpScopeAdmin w w'"
| "RemoveInstanceRole m a False u w = (Inr (), w') \<Longrightarrow> guarded m a StepUpScopeAdmin w w'"
| "setUserDisabled m a False u disabled w = (Inr (), w') \<Longrightarrow> guarded m a StepUpScopeAdmin w w'"
| "AdminUpdateUser m a False u name w = (Inr x, w') \<Longrightarrow> guarded m a StepUpScopeAdmin w w'"
| "AdminUpdateWorkspace m a False ws name mfa w = (Inr y, w') \<Longrightarrow> guarded m a StepUpScopeAdmin w w'"
| "AdminResetSecondFactor m a False u w = (Inr (), w') \<Longrightarrow> guarded m a StepUpScopeAdmin w w'"
| "AnonymizeUser m a False u w = (Inr (), w') \<Longrightarrow> guarded m a StepUpScopeAdmin w w'"
| "UpdateSCIMConfiguration m a i r trust maps w = (Inr cfg, w') \<Longrightarrow> guarded m a StepUpScopeWorkspace w w'"
| "RotateSCIMCredential m a i expiry w = (Inr crd, w') \<Longrightarrow> guarded m a StepUpScopeWorkspace w w'"
| "RevokeSCIMCredential m a i j w = (Inr (), w') \<Longrightarrow> guarded m a StepUpScopeWorkspace w w'"
| "DisableSCIMConfiguration m a i w = (Inr (), w') \<Longrightarrow> guarded m a StepUpScopeWorkspace w w'"
| "managerAdoptSCIMUser m a i u sui w = (Inr lnk, w') \<Longrightarrow> guarded m a StepUpScopeWorkspace w w'"
| "CreateOAuthIssuer m srv a False uri policy w = (Inr iss, w') \<Longrightarrow> guarded m a StepUpScopeAdmin w w'"
| "UpdateOAuthIssuer m srv a False i policy w = (Inr iss, w') \<Longrightarrow> guarded m a StepUpScopeAdmin w w'"
| "PreRegisterOAuthClient m srv a False i inp w = (Inr cl, w') \<Longrightarrow> guarded m a StepUpScopeAdmin w w'"
| "CreateOAuthInitialAccessToken m srv a False i t n w = (Inr tk, w') \<Longrightarrow> guarded m a StepUpScopeAdmin w w'"
| "RevokeOAuthInitialAccessToken m srv a False i w = (Inr (), w') \<Longrightarrow> guarded m a StepUpScopeAdmin w w'"
| "setOAuthIssuerDisabled m srv a False i b w = (Inr (), w') \<Longrightarrow> guarded m a StepUpScopeAdmin w w'"
| "setOAuthClientDisabled m srv a False i b w = (Inr (), w') \<Longrightarrow> guarded m a StepUpScopeAdmin w w'"
| "RotateOAuthClientSecret m srv a False i w = (Inr cl, w') \<Longrightarrow> guarded m a StepUpScopeAdmin w w'"
| "ReplaceOAuthClientJWKS m srv a False i jwks w = (Inr (), w') \<Longrightarrow> guarded m a StepUpScopeAdmin w w'"

context environment
begin

lemma token_step_up:
  assumes "policyFor (m_stepUp m) StepUpScopePAT = StepUpPolicyRequired"
  shows "ensures (strong m a) (CreatePAT m a pin)" "ensures (strong m a) (RevokePAT m a i)"
  unfolding CreatePAT_def RevokePAT_def
  by (rule stepUp.first, rule stepUp_gate [OF assms], (intro run_rules; assumption))+

lemma account_step_up:
  assumes "policyFor (m_stepUp m) StepUpScopeAccount = StepUpPolicyRequired"
  shows "ensures (strong m a) (SetPrimaryEmail m a i)" "ensures (strong m a) (RemoveEmail m a i)"
    "ensures (strong m a) (managerUnlinkSSO m a i)" "ensures (strong m a) (managerDeletePasskey m a i)"
  unfolding SetPrimaryEmail_def RemoveEmail_def managerUnlinkSSO_def managerDeletePasskey_def
  by (rule stepUp.first, rule stepUp_gate [OF assms], (intro run_rules; assumption))+

lemma account_step_up_later:
  assumes "policyFor (m_stepUp m) StepUpScopeAccount = StepUpPolicyRequired"
  shows "ensures (strong m a) (RevokeSession m a i)" "ensures (strong m a) (RegenerateRecoveryCodes m a)"
  unfolding RevokeSession_def RegenerateRecoveryCodes_def
  by (rule stepUp.later, rule run_rules, rule stepUp.first, rule stepUp_gate [OF assms], (intro run_rules; assumption))+

lemma workspace_step_up:
  assumes "policyFor (m_stepUp m) StepUpScopeWorkspace = StepUpPolicyRequired"
  shows "ensures (strong m a) (CreateWorkspace m a name mfa)" "ensures (strong m a) (CreateUser m a ws input)"
    "ensures (strong m a) (GrantRole m a ws u r)" "ensures (strong m a) (InviteToWorkspace m a ws email r)"
    "ensures (strong m a) (RevokeInvitation m a ws i)" "ensures (strong m a) (authorizeWorkspaceMutation m a ws p op)"
    "ensures (strong m a) (authorizedWorkspaceDomain m a i op)"
  unfolding CreateWorkspace_def CreateUser_def GrantRole_def InviteToWorkspace_def RevokeInvitation_def authorizeWorkspaceMutation_def
    authorizedWorkspaceDomain_def
  by (rule stepUp.first, rule stepUp_gate [OF assms], (intro run_rules; assumption))+

lemma workspace_step_up_first:
  assumes "policyFor (m_stepUp m) StepUpScopeWorkspace = StepUpPolicyRequired"
  shows "ensures (strong m a) (UpdateWorkspace m a ws name mfa)" "ensures (strong m a) (RemoveMembership m a ws u)"
    "ensures (strong m a) (RevokeWorkspacePAT m a ws i)" "ensures (strong m a) (DisableWorkspace m a ws)" "ensures (strong m a) (EnableWorkspace m a ws)"
    "ensures (strong m a) (AddMembership m a ws u r)"
  unfolding UpdateWorkspace_def RemoveMembership_def RevokeWorkspacePAT_def DisableWorkspace_def EnableWorkspace_def setWorkspaceDisabled_def
    AddMembership_def upsertLocalMembership_def Let_def if_False
  by (rule stepUp.first, rule workspace_step_up [OF assms], (intro run_rules; assumption))+

lemma workspace_step_up_later:
  assumes "policyFor (m_stepUp m) StepUpScopeWorkspace = StepUpPolicyRequired"
  shows "ensures (strong m a) (SetMembershipStatus m a ws u status)" "ensures (strong m a) (managerCreateWorkspaceDomain m a ws domain)"
    "ensures (strong m a) (UpdateWorkspaceDomainPolicy m a i input)" "ensures (strong m a) (RemoveWorkspaceDomain m a i)"
  unfolding SetMembershipStatus_def managerCreateWorkspaceDomain_def UpdateWorkspaceDomainPolicy_def RemoveWorkspaceDomain_def
  by (rule stepUp.later, rule run_rules, rule stepUp.first, rule workspace_step_up [OF assms], (intro run_rules; assumption))+

lemma confirm_step_up:
  assumes "policyFor (m_stepUp m) StepUpScopeWorkspace = StepUpPolicyRequired"
  shows "ensures (strong m a) (ConfirmWorkspaceDomain m a i)"
  unfolding ConfirmWorkspaceDomain_def
  by (rule stepUp.later, rule run_rules, rule stepUp.later, rule run_rules, rule stepUp.first, rule workspace_step_up [OF assms],
    (intro run_rules; assumption))

lemma admin_gate_step_up:
  assumes "policyFor (m_stepUp m) StepUpScopeAdmin = StepUpPolicyRequired"
  shows "ensures (strong m a) (requireAdminMutation m a False op)"
  unfolding requireAdminMutation_def if_False by (rule stepUp.later, rule run_rules, rule stepUp_gate [OF assms])

lemma admin_step_up:
  assumes "policyFor (m_stepUp m) StepUpScopeAdmin = StepUpPolicyRequired"
  shows "ensures (strong m a) (AdminUpdateWorkspace m a False ws name mfa)" "ensures (strong m a) (setUserDisabled m a False u disabled)"
    "ensures (strong m a) (AdminUpdateUser m a False u name)" "ensures (strong m a) (SetInstanceRole m a False u r)"
    "ensures (strong m a) (RemoveInstanceRole m a False u)" "ensures (strong m a) (AnonymizeUser m a False u)"
  unfolding AdminUpdateWorkspace_def setUserDisabled_def Let_def AdminUpdateUser_def SetInstanceRole_def RemoveInstanceRole_def AnonymizeUser_def
  by (rule stepUp.later, rule run_rules, rule stepUp.first, rule admin_gate_step_up [OF assms], (intro run_rules; assumption))+

lemma reset_step_up:
  assumes "policyFor (m_stepUp m) StepUpScopeAdmin = StepUpPolicyRequired"
  shows "ensures (strong m a) (AdminResetSecondFactor m a False u)"
  unfolding AdminResetSecondFactor_def
  by (rule stepUp.later, rule run_rules, rule stepUp.later, rule run_rules, rule stepUp.first, rule admin_gate_step_up [OF assms],
    (intro run_rules; assumption))

lemma oauth_resource_step_up:
  assumes "policyFor (m_stepUp m) StepUpScopeWorkspace = StepUpPolicyRequired"
  shows "ensures (strong m a) (CreateOAuthProtectedResource m srv a ws i uri defs)"
    "ensures (strong m a) (CreateSCIMConfiguration m a ws r trust maps expiry)" "ensures (strong m a) (requireSCIMAdmin m a i op)"
  unfolding CreateOAuthProtectedResource_def CreateSCIMConfiguration_def requireSCIMAdmin_def
  by (rule stepUp.later, rule run_rules, rule stepUp.first, rule stepUp_gate [OF assms], (intro run_rules; assumption)?)+

lemma oauth_switches_step_up:
  assumes "policyFor (m_stepUp m) StepUpScopeWorkspace = StepUpPolicyRequired"
  shows "ensures (strong m a) (DisableOAuthProtectedResource m srv a ws i)" "ensures (strong m a) (EnableOAuthProtectedResource m srv a ws i)"
  unfolding DisableOAuthProtectedResource_def EnableOAuthProtectedResource_def setOAuthProtectedResourceDisabled_def Let_def
  by (rule stepUp.later, rule run_rules, rule stepUp.first, rule workspace_step_up [OF assms], (rule oauth_commits run_rules | assumption)+)+

lemma scim_step_up:
  assumes "policyFor (m_stepUp m) StepUpScopeWorkspace = StepUpPolicyRequired"
  shows "ensures (strong m a) (UpdateSCIMConfiguration m a i r trust maps)" "ensures (strong m a) (RotateSCIMCredential m a i expiry)"
    "ensures (strong m a) (RevokeSCIMCredential m a i j)" "ensures (strong m a) (DisableSCIMConfiguration m a i)"
    "ensures (strong m a) (managerAdoptSCIMUser m a i u sui)"
  unfolding UpdateSCIMConfiguration_def RotateSCIMCredential_def RevokeSCIMCredential_def DisableSCIMConfiguration_def managerAdoptSCIMUser_def
  by (rule stepUp.first, rule oauth_resource_step_up [OF assms], (intro run_rules; assumption)?)+

lemma oauth_admin_step_up:
  assumes "policyFor (m_stepUp m) StepUpScopeAdmin = StepUpPolicyRequired"
  shows "ensures (strong m a) (CreateOAuthIssuer m srv a False uri policy)" "ensures (strong m a) (UpdateOAuthIssuer m srv a False i policy)"
    "ensures (strong m a) (PreRegisterOAuthClient m srv a False i inp)" "ensures (strong m a) (CreateOAuthInitialAccessToken m srv a False i t n)"
    "ensures (strong m a) (RevokeOAuthInitialAccessToken m srv a False i)" "ensures (strong m a) (setOAuthIssuerDisabled m srv a False i b)"
    "ensures (strong m a) (setOAuthClientDisabled m srv a False i b)" "ensures (strong m a) (RotateOAuthClientSecret m srv a False i)"
    "ensures (strong m a) (ReplaceOAuthClientJWKS m srv a False i jwks)"
  unfolding CreateOAuthIssuer_def UpdateOAuthIssuer_def PreRegisterOAuthClient_def CreateOAuthInitialAccessToken_def
    RevokeOAuthInitialAccessToken_def setOAuthIssuerDisabled_def setOAuthClientDisabled_def RotateOAuthClientSecret_def
    ReplaceOAuthClientJWKS_def Let_def
  by (rule stepUp.later, rule run_rules, rule stepUp.later, rule run_rules, rule stepUp.first, rule admin_gate_step_up [OF assms],
    (rule oauth_commits run_rules | assumption)+)+

lemma mutations_step_up:
  assumes "policyFor (m_stepUp m) StepUpScopeWorkspace = StepUpPolicyRequired"
  shows "workspaceMutation m a ws p w w' \<Longrightarrow> strong m a w w'"
  by (induction rule: workspaceMutation.induct)
    (erule ensuresD [rotated], rule workspace_step_up [OF assms] workspace_step_up_first [OF assms] workspace_step_up_later [OF assms]
      oauth_resource_step_up [OF assms] oauth_switches_step_up [OF assms])+

lemma domain_mutations_step_up:
  assumes "policyFor (m_stepUp m) StepUpScopeWorkspace = StepUpPolicyRequired"
  shows "domainMutation m a i w w' \<Longrightarrow> strong m a w w'"
  by (induction rule: domainMutation.induct) (erule ensuresD [rotated], rule workspace_step_up_later [OF assms] confirm_step_up [OF assms])+

lemma guarded_strong:
  assumes "guarded m a scope w w'" and "policyFor (m_stepUp m) scope = StepUpPolicyRequired"
  shows "strong m a w w'"
  using assms
  by (induction rule: guarded.induct)
    ((erule ensuresD [rotated], rule token_step_up account_step_up account_step_up_later workspace_step_up admin_step_up reset_step_up
      scim_step_up oauth_admin_step_up, assumption)
     | (rule mutations_step_up domain_mutations_step_up, assumption, assumption))+

end

text \<open>
  C9: sensitive operations demand a recent strong authentication. Where the policy of a scope is \<open>required\<close>
  (the default), an operation of that scope succeeds only for an interactive authentication of level AAL2 or
  higher with no second factor pending, whose age, read from the clock during the request, lies between zero and
  the configured maximum. A personal access token passes nowhere; instance administration by a trusted local
  request is the one exception.
\<close>

theorem guarded_operations_step_up:
  assumes "environment m" and "policyFor (m_stepUp m) scope = StepUpPolicyRequired" and "guarded m a scope w w'"
  shows "strong m a w w'"
  using environment.guarded_strong [OF assms(1,3,2)] .

section \<open>Gates that open, and the instances\<close>

lemma step_up_succeeds:
  assumes "quiet m" and "policyFor (m_stepUp m) scope = StepUpPolicyRequired" and "auth_UserID a \<noteq> 0" and "enabledIn (w_store w) (auth_UserID a)"
    and "Interactive a" "auth_Level a \<ge> AAL2" "\<not> auth_SecondFactorRequired a" and "0 \<le> timeSub (m_clock m (w_ticks w)) (auth_AuthenticatedAt a)"
    "timeSub (m_clock m (w_ticks w)) (auth_AuthenticatedAt a) \<le> m_stepUpMaxAge m"
  shows "requireScopedStepUp m a scope op w = (Inr (), w\<lparr>w_ticks := w_ticks w + 1, w_calls := w_calls w + 1\<rparr>)"
  using assms(2-)
  by (auto simp: requireScopedStepUp_def RequireStepUpFor_def RequireStepUp_def requireActiveUser_def bindE_def tryE_def failIf_def ret_def now_def
    Let_def UserByID_def quiet_reads [OF assms(1)] orErr_def enabledIn_def)

lemma workspace_gate_succeeds:
  assumes "quiet m" and "requireScopedStepUp m a StepUpScopeWorkspace op w = (Inr (), w1)" and "validUUIDv7 ws"
    and "auth_WorkspaceID a = 0 \<or> auth_WorkspaceID a = ws" and "enabledIn (w_store w1) (auth_UserID a)"
    and "lookup (st_workspaces (w_store w1)) ws = Some x" "wsp_DisabledAt x = None" and "memberIn m (w_store w1) ws (auth_UserID a) p"
  shows "authorizeWorkspaceMutation m a ws p op w = (Inr (), w1\<lparr>w_calls := w_calls w1 + 3\<rparr>)"
  using assms(2-)
  by (auto simp: authorizeWorkspaceMutation_def enabledUser_def orForbidden_def bindE_def tryE_def failIf_def ret_def
    UserByID_def WorkspaceByID_def Membership_def quiet_reads [OF assms(1)] orErr_def enabledIn_def memberIn_def)

lemma demoActor_facts: "auth_UserID demoActor = sampleUUID" "auth_WorkspaceID demoActor = 0" "auth_Scopes demoActor = []" "Interactive demoActor"
  "auth_Level demoActor = AAL2" "\<not> auth_SecondFactorRequired demoActor" "auth_AuthenticatedAt demoActor = 0"
  by (simp_all add: demoActor_def zeroAuthentication_def Interactive_def)

lemma demo_entitled: "enabledIn demoStore sampleUUID" "memberIn demoManager demoStore sampleUUID sampleUUID PermissionWorkspaceSettingsWrite"
  using demoStore_user demoStore_member demo_role
  by (auto simp: enabledIn_def demoUser_def sampleUser_def memberIn_def membersOf_def demoMember_def normalizeMembership_def MembershipActive_def
    ProvisioningSourceLocal_def)

lemma demo_policy: "policyFor (m_stepUp demoManager) scope = StepUpPolicyRequired"
  by (simp add: policyFor_def demoManager_def)

lemma demo_age: "timeSub (m_clock demoManager n) 0 \<ge> 0" "timeSub (m_clock demoManager 0) 0 \<le> m_stepUpMaxAge demoManager"
  by (simp_all add: timeSub_def demoManager_def)

lemma demo_step_up: "requireScopedStepUp demoManager demoActor scope op (demoWorld demoStore)
    = (Inr (), (demoWorld demoStore)\<lparr>w_ticks := 1, w_calls := 1\<rparr>)"
  using step_up_succeeds [OF demo_quiet demo_policy, of demoActor "demoWorld demoStore" scope op] demo_entitled(1) demo_age
  by (simp add: demoActor_facts demoWorld_def)

lemma demo_enable: "\<exists>w'. EnableWorkspace demoManager demoActor sampleUUID (demoWorld demoStore) = (Inr (), w')"
proof -
  have "authorizeWorkspaceMutation demoManager demoActor sampleUUID PermissionWorkspaceSettingsWrite op (demoWorld demoStore)
      = (Inr (), (demoWorld demoStore)\<lparr>w_ticks := 1, w_calls := 4\<rparr>)" for op
    using workspace_gate_succeeds [OF demo_quiet demo_step_up sampleUUID_v7, of demoWorkspace PermissionWorkspaceSettingsWrite op]
      demo_entitled demoStore_workspace
    by (simp add: demoActor_facts demoWorld_def demoWorkspace_def sampleWorkspace_def)
  then show ?thesis using demoStore_workspace
    by (simp add: EnableWorkspace_def setWorkspaceDisabled_def Let_def bindE_def WorkspaceByID_def quiet_reads [OF demo_quiet] orErr_def ret_def
      demoWorld_def demoWorkspace_def sampleWorkspace_def)
qed


theorem guarded_operations_step_up_witness:
  "\<exists>w'. EnableWorkspace demoManager demoActor sampleUUID (demoWorld demoStore) = (Inr (), w') \<and> strong demoManager demoActor (demoWorld demoStore) w'"
proof -
  obtain w' where e: "EnableWorkspace demoManager demoActor sampleUUID (demoWorld demoStore) = (Inr (), w')" using demo_enable by blast
  have "guarded demoManager demoActor StepUpScopeWorkspace (demoWorld demoStore) w'"
    by (rule guarded.intros(10), rule workspaceMutation.intros(5), rule e)
  from guarded_operations_step_up [OF quiet_environment [OF demo_quiet] demo_policy this] e show ?thesis by blast
qed

theorem admin_mutations_authorized_witness:
  "\<exists>w'. EnableUser demoManager demoActor True sampleUUID (demoWorld demoStore) = (Inr (), w')
    \<and> administers demoManager demoActor PermissionUsersWrite (demoWorld demoStore) w'"
proof -
  have "hasAdminPermission demoManager InstanceRoleRoot PermissionUsersWrite"
    by (simp add: hasAdminPermission_def demoManager_def defaultAdminPermissions_def)
  with AuthorizeAdmin_succeeds [where w = "demoWorld demoStore" and actor = demoActor and u = demoUser and a = demoRoot
      and p = PermissionUsersWrite, OF quiet_calm [OF demo_quiet] demo_ready(1,2,3)]
    demoStore_user demoStore_root demoStore_log(1)
  obtain event w1 where a: "AuthorizeAdmin demoManager demoActor PermissionUsersWrite (demoWorld demoStore) = (Inr (), w1)"
    "AppendAudit (m_sha demoManager) None (auditOnly event) demoStore = (Inr (), w_store w1)"
    by (auto simp: demoActor_facts demoUser_def sampleUser_def demoRoot_def demoWorld_def)
  then have "st_users (w_store w1) = st_users demoStore"
    using writes_success [OF a(2) [unfolded AppendAudit_def]] by auto
  with a(1) have "EnableUser demoManager demoActor True sampleUUID (demoWorld demoStore) = (Inr (), w1\<lparr>w_calls := w_calls w1 + 1\<rparr>)"
    by (simp add: EnableUser_def setUserDisabled_def Let_def requireAdminMutation_def bindE_def failIf_def ret_def UserByID_def quiet_reads [OF demo_quiet]
      orErr_def demoStore_user demoUser_def sampleUser_def demoActor_facts sampleUUID_v7)
  then show ?thesis using admin_mutations_authorized [OF quiet_environment [OF demo_quiet]] adminMutation.intros(5) by blast
qed

theorem authorize_permission_exact_witness:
  "(\<exists>w'. AuthorizePermission demoManager demoActor sampleUUID PermissionWorkspaceSettingsWrite (demoWorld demoStore) = (Inr (), w'))
    \<and> \<not> (\<exists>w'. AuthorizePermission demoManager demoActor sampleUUID PermissionWorkspaceSettingsWrite (demoWorld New) = (Inr (), w'))"
proof -
  have "workspacePermissionPattern PermissionWorkspaceSettingsWrite" by code_simp
  then have "permitted demoManager demoActor sampleUUID PermissionWorkspaceSettingsWrite demoStore"
    using demo_entitled demoStore_workspace by (simp add: permitted_def demoActor_facts demoWorkspace_def sampleWorkspace_def)
  moreover have "\<not> permitted demoManager demoActor sampleUUID PermissionWorkspaceSettingsWrite New"
    by (simp add: permitted_def New_def)
  ultimately show ?thesis unfolding authorize_permission_exact [OF demo_quiet] by (simp add: demoWorld_def)
qed

section \<open>Multi-factor workspaces\<close>

text \<open>
  C40: the two workspace gates disagree on a workspace that requires multi-factor authentication. Where the
  step-up policy of the workspace scope is relaxed to \<open>none\<close>, \<^verbatim>\<open>AuthorizePermission\<close> refuses an AAL1 authentication
  with \<^verbatim>\<open>ErrStepUpRequired\<close>, while \<^verbatim>\<open>authorizeWorkspaceMutation\<close>, which guards the changes of the workspace,
  its policy included, lets the same authentication through.
\<close>

theorem relaxed_step_up_opens_mfa_workspace:
  assumes "quiet m" and "policyFor (m_stepUp m) StepUpScopeWorkspace = StepUpPolicyNone"
    and "Interactive a" "auth_Level a < AAL2" "\<not> auth_SecondFactorRequired a" "auth_UserID a \<noteq> 0" "auth_WorkspaceID a = 0" "auth_Scopes a = []"
    and "validUUIDv7 ws" "workspacePermissionPattern p" and "enabledIn (w_store w) (auth_UserID a)" and "memberIn m (w_store w) ws (auth_UserID a) p"
    and "lookup (st_workspaces (w_store w)) ws = Some x" "wsp_RequireMFA x" "wsp_DisabledAt x = None"
  shows "fst (AuthorizePermission m a ws p w) = Inl ErrStepUpRequired \<and> fst (authorizeWorkspaceMutation m a ws p op w) = Inr ()"
proof
  have ws: "ws \<noteq> 0" using assms(9) not_v7(1) by metis
  show "fst (AuthorizePermission m a ws p w) = Inl ErrStepUpRequired"
    using assms(3-) ws by (auto simp: AuthorizePermission_def enabledUser_def orForbidden_def bindE_def tryE_def failIf_def ret_def fail_def
      UserByID_def WorkspaceByID_def quiet_reads [OF assms(1)] orErr_def enabledIn_def)
  have "requireScopedStepUp m a StepUpScopeWorkspace op w = (Inr (), w\<lparr>w_calls := w_calls w + 1\<rparr>)"
    using assms(2-) by (auto simp: requireScopedStepUp_def RequireStepUpFor_def requireInteractive_def requireActiveUser_def bindE_def tryE_def
      failIf_def ret_def Let_def UserByID_def quiet_reads [OF assms(1)] orErr_def enabledIn_def StepUpPolicyNone_def StepUpPolicyRequired_def
      StepUpPolicyUserCapable_def)
  from workspace_gate_succeeds [OF assms(1) this assms(9)] assms(7,11-) show "fst (authorizeWorkspaceMutation m a ws p op w) = Inr ()" by simp
qed

definition relaxedManager :: manager where
  "relaxedManager = demoManager\<lparr>m_stepUp := (m_stepUp demoManager)\<lparr>sup_Workspace := StepUpPolicyNone\<rparr>\<rparr>"

theorem relaxed_step_up_opens_mfa_workspace_witness:
  "let a = demoActor\<lparr>auth_Level := AAL1\<rparr>;
       w = demoWorld (demoStore\<lparr>st_workspaces := [(sampleUUID, demoWorkspace\<lparr>wsp_RequireMFA := True\<rparr>)]\<rparr>)
   in fst (AuthorizePermission relaxedManager a sampleUUID PermissionWorkspaceSettingsWrite w) = Inl ErrStepUpRequired
    \<and> fst (authorizeWorkspaceMutation relaxedManager a sampleUUID PermissionWorkspaceSettingsWrite ''workspace.update'' w) = Inr ()"
proof -
  let ?a = "demoActor\<lparr>auth_Level := AAL1\<rparr>" and ?x = "demoWorkspace\<lparr>wsp_RequireMFA := True\<rparr>"
  let ?s = "demoStore\<lparr>st_workspaces := [(sampleUUID, ?x)]\<rparr>"
  have "quiet relaxedManager" using demo_quiet by (simp add: quiet_def relaxedManager_def)
  moreover have "policyFor (m_stepUp relaxedManager) StepUpScopeWorkspace = StepUpPolicyNone"
    by (simp add: policyFor_def relaxedManager_def StepUpScopeWorkspace_def StepUpScopePAT_def)
  moreover have "Interactive ?a" "auth_Level ?a < AAL2" "\<not> auth_SecondFactorRequired ?a" "auth_UserID ?a = sampleUUID" "auth_WorkspaceID ?a = 0"
    "auth_Scopes ?a = []" using demoActor_facts by (simp_all add: Interactive_def AAL1_def AAL2_def)
  moreover have "workspacePermissionPattern PermissionWorkspaceSettingsWrite" by code_simp
  moreover have "enabledIn ?s sampleUUID" "memberIn relaxedManager ?s sampleUUID sampleUUID PermissionWorkspaceSettingsWrite"
    using demo_entitled by (simp_all add: enabledIn_def memberIn_def membersOf_def relaxedManager_def)
  moreover have "lookup (st_workspaces ?s) sampleUUID = Some ?x" "wsp_DisabledAt ?x = None"
    by (simp_all add: demoWorkspace_def sampleWorkspace_def)
  ultimately show ?thesis
    using relaxed_step_up_opens_mfa_workspace [of relaxedManager ?a sampleUUID PermissionWorkspaceSettingsWrite "demoWorld ?s" ?x "''workspace.update''"] sampleUUID_v7
    by (simp add: demoWorld_def)
qed

end
