(* ===== verification/MemOAuthGuarantees.thy ===== *)
theory MemOAuthGuarantees
  imports MemIndex MemGuarantees
begin

text \<open>
  What the in-memory store guarantees for OAuth: authorization codes and refresh tokens are single use over
  every run, revocations reach every token under the revoked grant, family, client, resource or issuer, and
  registrations stay within their limits.
\<close>

section \<open>Single use\<close>

lemma consume_success:
  assumes "ConsumeOAuthAuthorizationCode sha ce i t a f c s = (Inr r, s')"
  shows "\<exists>code. consumeOAuthAuthorizationCodeGuard i t a f s = Inr code
    \<and> lookup (st_oauthCodes s') i = Some (code\<lparr>oco_UsedAt := Some t\<rparr>)"
  using assms unfolding ConsumeOAuthAuthorizationCode_def Let_def
  by (elim writes_effect) (auto simp: putAccessToken_def putRefreshToken_def split: option.split)

lemma permanent_code:
  assumes "permanent s s'" and "lookup (st_oauthCodes s) i = Some x" and "oco_UsedAt x \<noteq> None"
  shows "\<exists>y. lookup (st_oauthCodes s') i = Some y \<and> oco_UsedAt y \<noteq> None"
proof -
  from assms(1) have "stays (\<lambda>x. oco_UsedAt x \<noteq> None) (st_oauthCodes s) (st_oauthCodes s')" by (simp add: permanent_def)
  from staysD [OF this assms(2,3)] show ?thesis .
qed

lemma used_code_refused:
  assumes "lookup (st_oauthCodes s) i = Some y" and "oco_UsedAt y \<noteq> None"
  shows "fst (ConsumeOAuthAuthorizationCode sha ce i t a f c s) \<noteq> Inr r"
proof
  assume "fst (ConsumeOAuthAuthorizationCode sha ce i t a f c s) = Inr r"
  then obtain s' where "ConsumeOAuthAuthorizationCode sha ce i t a f c s = (Inr r, s')"
    by (cases "ConsumeOAuthAuthorizationCode sha ce i t a f c s") simp
  from consume_success [OF this] consume_guardD(1,2) assms show False by fastforce
qed

lemma rotate_success:
  assumes "RotateOAuthRefreshToken sha ce i t a f c s = (Inr r, s')"
  shows "\<exists>x. rotateOAuthRefreshTokenGuard i t a f s = Inr x
    \<and> st_oauthRefreshTokens s' = put (ort_ID f) f (put i (x\<lparr>ort_UsedAt := Some t, ort_ReplacedByID := ort_ID f\<rparr>) (st_oauthRefreshTokens s))
    \<and> st_oauthRefreshKeys s' = put (ort_Prefix f) (ort_ID f) (st_oauthRefreshKeys s)"
  using assms unfolding RotateOAuthRefreshToken_def
  by (elim writes_effect) (auto simp: putAccessToken_def putRefreshToken_def)

lemma rotate_seals:
  assumes "prefixesIndexed s" and "RotateOAuthRefreshToken sha ce i t a f c s = (Inr r, s')"
    and "lookup (st_oauthRefreshTokens s) i = Some x"
  shows "sealed ort_Prefix (\<lambda>x. ort_UsedAt x \<noteq> None) (ort_Prefix x) (st_oauthRefreshKeys s') (st_oauthRefreshTokens s')"
proof -
  from rotate_success [OF assms(2)] obtain y where g: "rotateOAuthRefreshTokenGuard i t a f s = Inr y"
    and s': "st_oauthRefreshTokens s' = put (ort_ID f) f (put i (y\<lparr>ort_UsedAt := Some t, ort_ReplacedByID := ort_ID f\<rparr>) (st_oauthRefreshTokens s))"
      "st_oauthRefreshKeys s' = put (ort_Prefix f) (ort_ID f) (st_oauthRefreshKeys s)" by blast
  from rotate_guardD(1) [OF g] assms(3) have y: "y = x" by simp
  from assms(1) have ix: "indexed ort_Prefix (st_oauthRefreshKeys s) (st_oauthRefreshTokens s)" by (simp add: prefixesIndexed_def)
  then have key: "lookup (st_oauthRefreshKeys s) (ort_Prefix x) = Some i" using assms(3) by (simp add: indexed_def)
  with rotate_guardD(8) [OF g] have new: "ort_Prefix f \<noteq> ort_Prefix x" by auto
  have "ort_UsedAt v \<noteq> None" if "lookup (st_oauthRefreshTokens s') k = Some v" "ort_Prefix v = ort_Prefix x" for k v
    using that new indexed_unique [OF ix _ assms(3), of k v] by (auto simp: s' y split: if_splits)
  with key show ?thesis by (auto simp: sealed_def s')
qed

lemma spent_refresh_refused:
  assumes "lookup (st_oauthRefreshTokens s) i = Some y" and "ort_UsedAt y \<noteq> None \<or> ort_RevokedAt y \<noteq> None"
  shows "fst (RotateOAuthRefreshToken sha ce i t a f c s) \<noteq> Inr r"
proof
  assume "fst (RotateOAuthRefreshToken sha ce i t a f c s) = Inr r"
  then obtain s' where "RotateOAuthRefreshToken sha ce i t a f c s = (Inr r, s')"
    by (cases "RotateOAuthRefreshToken sha ce i t a f c s") simp
  from rotate_success [OF this] rotate_guardD(1-3) assms show False by fastforce
qed

section \<open>Instances the properties are evaluated on\<close>

definition sampleGrant :: "uuid \<Rightarrow> oauthGrant" where
  "sampleGrant i = \<lparr>ogr_ID = i, ogr_IssuerID = 30, ogr_ClientRecordID = 31, ogr_UserID = 1, ogr_WorkspaceID = 3, ogr_ResourceID = 32,
     ogr_Scopes = [], ogr_MetadataHash = [], ogr_AuthTime = 1, ogr_AuthMethod = MethodPassword, ogr_AAL = AAL1, ogr_CreatedAt = 1,
     ogr_UpdatedAt = 1, ogr_RevokedAt = None\<rparr>"

definition sampleCode :: oauthAuthorizationCode where
  "sampleCode = zeroCode\<lparr>oco_ID := 41, oco_Prefix := ''k'', oco_GrantID := 40, oco_ExpiresAt := 9000\<rparr>"

definition sampleAccess :: "uuid \<Rightarrow> string \<Rightarrow> oauthAccessToken" where
  "sampleAccess i p = zeroAccessToken\<lparr>oat_ID := i, oat_Prefix := p, oat_GrantID := 40, oat_UserID := 1, oat_ExpiresAt := 9000\<rparr>"

definition sampleRefresh :: "uuid \<Rightarrow> string \<Rightarrow> oauthRefreshToken" where
  "sampleRefresh i p = zeroRefreshToken\<lparr>ort_ID := i, ort_FamilyID := 43, ort_Prefix := p, ort_GrantID := 40, ort_UserID := 1, ort_ExpiresAt := 9000\<rparr>"

definition sampleOAuthStore :: store where
  "sampleOAuthStore = New\<lparr>st_oauthGrants := [(40, sampleGrant 40)], st_oauthCodes := [(41, sampleCode)], st_oauthCodeKeys := [(''k'', 41)],
     st_oauthAccessTokens := [(42, sampleAccess 42 ''a'')], st_oauthAccessKeys := [(''a'', 42)],
     st_oauthRefreshTokens := [(44, sampleRefresh 44 ''r'')], st_oauthRefreshKeys := [(''r'', 44)]\<rparr>"

lemmas oauth_sample_defs = sampleGrant_def sampleCode_def sampleAccess_def sampleRefresh_def sampleOAuthStore_def zeroCode_def
  zeroAccessToken_def zeroRefreshToken_def nullHash_def sampleEvent_def sampleCommit_def New_def

lemma sampleOAuth_indexed: "prefixesIndexed sampleOAuthStore"
  by (simp add: prefixesIndexed_def indexed_def oauth_sample_defs lookup_def)

section \<open>The properties\<close>

text \<open>
  C21: an authorization code buys tokens once. After \<^verbatim>\<open>ConsumeOAuthAuthorizationCode\<close> has committed for a code, no
  later call for it succeeds, whatever calls of any method come in between and whatever tokens it asks for.
\<close>

theorem authorization_code_single_use:
  assumes "ConsumeOAuthAuthorizationCode sha ce i t a f c s = (Inr r, s1)" and "storeRun sha ok s1 s2"
  shows "fst (ConsumeOAuthAuthorizationCode sha ce' i t' a' f' c' s2) \<noteq> Inr r'"
proof -
  from consume_success [OF assms(1)] obtain x where "lookup (st_oauthCodes s1) i = Some x" "oco_UsedAt x \<noteq> None" by fastforce
  from permanent_code [OF storeRun_permanent [OF assms(2)] this] obtain y where
    "lookup (st_oauthCodes s2) i = Some y" "oco_UsedAt y \<noteq> None" by blast
  then show ?thesis by (rule used_code_refused)
qed

theorem authorization_code_single_use_witness:
  "\<exists>s1. ConsumeOAuthAuthorizationCode nullHash None 41 20 (sampleAccess 50 ''b'') None (sampleCommit 9) sampleOAuthStore = (Inr (), s1)
    \<and> fst (ConsumeOAuthAuthorizationCode nullHash None 41 21 (sampleAccess 51 ''c'') None (sampleCommit 10) s1) \<noteq> Inr ()"
proof -
  obtain s1 where run: "ConsumeOAuthAuthorizationCode nullHash None 41 20 (sampleAccess 50 ''b'') None (sampleCommit 9) sampleOAuthStore = (Inr (), s1)"
    by (simp add: ConsumeOAuthAuthorizationCode_def consumeOAuthAuthorizationCodeGuard_def require_def commit_eval oauth_sample_defs lookup_def)
  have "storeRun nullHash (\<lambda>_. True) s1 s1" by (simp add: storeRun_def)
  from authorization_code_single_use [OF run this] run show ?thesis by blast
qed

text \<open>
  C20: a refresh token rotates once. After \<^verbatim>\<open>RotateOAuthRefreshToken\<close> has committed for a token, every record that
  carries its prefix is used, along every run, and no record that carries it can be rotated again; the only
  successor of the token is the one stored by that commit.
\<close>

theorem refresh_token_single_use:
  assumes "prefixesIndexed s" and "lookup (st_oauthRefreshTokens s) i = Some x"
    and "RotateOAuthRefreshToken sha ce i t a f c s = (Inr r, s1)" and "storeRun sha ok s1 s2"
    and "lookup (st_oauthRefreshTokens s2) j = Some y" and "ort_Prefix y = ort_Prefix x"
  shows "ort_UsedAt y \<noteq> None \<and> fst (RotateOAuthRefreshToken sha ce' j t' a' f' c' s2) \<noteq> Inr r'"
proof -
  have "sealed ort_Prefix (\<lambda>x. ort_UsedAt x \<noteq> None) (ort_Prefix x) (st_oauthRefreshKeys s2) (st_oauthRefreshTokens s2)"
    by (rule sealed_after [OF _ rotate_seals [OF assms(1,3,2)]]) (use storeRun_permanent [OF assms(4)] in \<open>simp add: permanent_def\<close>)
  with assms(5,6) have used: "ort_UsedAt y \<noteq> None" unfolding sealed_def by blast
  then show ?thesis using spent_refresh_refused [OF assms(5)] by blast
qed

theorem refresh_token_single_use_witness:
  "\<exists>s1. RotateOAuthRefreshToken nullHash None 44 20 (sampleAccess 50 ''b'') (sampleRefresh 51 ''q'') (sampleCommit 9) sampleOAuthStore = (Inr (), s1)
    \<and> fst (RotateOAuthRefreshToken nullHash None 44 21 (sampleAccess 52 ''c'') (sampleRefresh 53 ''v'') (sampleCommit 10) s1) \<noteq> Inr ()"
proof -
  obtain s1 where run: "RotateOAuthRefreshToken nullHash None 44 20 (sampleAccess 50 ''b'') (sampleRefresh 51 ''q'') (sampleCommit 9) sampleOAuthStore = (Inr (), s1)"
    by (simp add: RotateOAuthRefreshToken_def rotateOAuthRefreshTokenGuard_def require_def commit_eval oauth_sample_defs lookup_def)
  have x: "lookup (st_oauthRefreshTokens sampleOAuthStore) 44 = Some (sampleRefresh 44 ''r'')" by (simp add: sampleOAuthStore_def)
  obtain y where y: "lookup (st_oauthRefreshTokens s1) 44 = Some y" "ort_Prefix y = ort_Prefix (sampleRefresh 44 ''r'')"
    using rotate_success [OF run] x rotate_guardD(1) by (fastforce simp: sampleRefresh_def)
  have "storeRun nullHash (\<lambda>_. True) s1 s1" by (simp add: storeRun_def)
  from refresh_token_single_use [OF sampleOAuth_indexed x run this y] run show ?thesis by blast
qed

section \<open>Revocation\<close>

text \<open>Everything under a grant is dead: the grant itself, its access tokens and its refresh tokens.\<close>

definition grantDead :: "uuid \<Rightarrow> store \<Rightarrow> bool" where
  "grantDead i s \<longleftrightarrow>
     (\<forall>g. lookup (st_oauthGrants s) i = Some g \<longrightarrow> ogr_RevokedAt g \<noteq> None)
   \<and> (\<forall>k x. lookup (st_oauthAccessTokens s) k = Some x \<longrightarrow> oat_GrantID x = i \<longrightarrow> oat_RevokedAt x \<noteq> None)
   \<and> (\<forall>k x. lookup (st_oauthRefreshTokens s) k = Some x \<longrightarrow> ort_GrantID x = i \<longrightarrow> ort_RevokedAt x \<noteq> None)"

lemma all_mapv: "(\<forall>k x. lookup (mapv f d) k = Some x \<longrightarrow> Q x) \<longleftrightarrow> (\<forall>k v. lookup d k = Some v \<longrightarrow> Q (f k v))"
  by auto

lemma revokeOAuthGrantLocked_dead:
  assumes "has i (st_oauthGrants s)"
  shows "grantDead i (revokeOAuthGrantLocked i t s)"
proof -
  from assms obtain g where "lookup (st_oauthGrants s) i = Some g" by auto
  then show ?thesis by (simp add: grantDead_def revokeOAuthGrantLocked_def all_mapv del: lookup_mapv)
qed

lemma revokeOAuthGrantLocked_keeps:
  assumes "grantDead j s"
  shows "grantDead j (revokeOAuthGrantLocked i t s)"
  using assms by (simp add: grantDead_def revokeOAuthGrantLocked_def all_mapv del: lookup_mapv split: option.split)

lemma revokeOAuthGrantLocked_has [simp]:
  "has j (st_oauthGrants (revokeOAuthGrantLocked i t s)) \<longleftrightarrow> has j (st_oauthGrants s)"
  by (auto simp: revokeOAuthGrantLocked_def split: option.split)

lemma foldl_property: "(\<And>s x. Q s \<Longrightarrow> Q (f s x)) \<Longrightarrow> Q s \<Longrightarrow> Q (foldl f s xs)"
  by (induction xs arbitrary: s) simp_all

lemma revoke_fold_dead:
  fixes gs :: "(uuid \<times> oauthGrant) list"
  assumes "(\<exists>g. (i, g) \<in> set gs \<and> P g) \<or> grantDead i s" and "has i (st_oauthGrants s)"
  shows "grantDead i (foldl (\<lambda>s (i, grant). if P grant then revokeOAuthGrantLocked i t s else s) s gs)"
  using assms
proof (induction gs arbitrary: s)
  case (Cons x gs)
  obtain j g where x: "x = (j, g)" by (cases x)
  let ?s = "if P g then revokeOAuthGrantLocked j t s else s"
  have "(\<exists>g. (i, g) \<in> set gs \<and> P g) \<or> grantDead i ?s"
    using Cons.prems x revokeOAuthGrantLocked_dead [of i s t] revokeOAuthGrantLocked_keeps [of i s j t] by auto
  moreover have "has i (st_oauthGrants ?s)" using Cons.prems(2) by (cases "P g") (simp_all del: has_iff)
  ultimately have "grantDead i (foldl (\<lambda>s (i, grant). if P grant then revokeOAuthGrantLocked i t s else s) ?s gs)" by (rule Cons.IH)
  then show ?case by (simp add: x)
qed auto

lemma revokeGrantsWhere_dead:
  assumes "lookup (st_oauthGrants s) i = Some g" and "P g"
  shows "grantDead i (revokeGrantsWhere P t s)"
  unfolding revokeGrantsWhere_def
  by (rule revoke_fold_dead) (use assms lookup_in_set [OF assms(1)] in auto)

text \<open>The calls that end a grant.\<close>

inductive endsGrant :: "hashFn \<Rightarrow> uuid \<Rightarrow> store \<Rightarrow> store \<Rightarrow> bool" for sha i s s' where
  by_revoking: "storeRevokeOAuthGrant sha ce i t c s = (Inr r, s') \<Longrightarrow> endsGrant sha i s s'"
| by_issuer: "storeSetOAuthIssuerDisabled sha ce (ogr_IssuerID g) True t c s = (Inr r, s') \<Longrightarrow> lookup (st_oauthGrants s) i = Some g
    \<Longrightarrow> endsGrant sha i s s'"
| by_resource: "storeSetOAuthProtectedResourceDisabled sha ce (ogr_ResourceID g) True t c s = (Inr r, s') \<Longrightarrow> lookup (st_oauthGrants s) i = Some g
    \<Longrightarrow> endsGrant sha i s s'"
| by_client: "storeSetOAuthClientDisabled sha ce (ogr_ClientRecordID g) True t c s = (Inr r, s') \<Longrightarrow> lookup (st_oauthGrants s) i = Some g
    \<Longrightarrow> endsGrant sha i s s'"

lemma grantDead_commitAudit [simp]: "grantDead i (commitAudit sha e u s) = grantDead i s"
  by (simp add: grantDead_def)

lemma endsGrant_dead: "endsGrant sha i s s' \<Longrightarrow> grantDead i s'"
proof (induction rule: endsGrant.induct)
  case (by_revoking ce t c r)
  then show ?case unfolding storeRevokeOAuthGrant_def
    by (elim writes_effect) (auto simp: require_def intro!: revokeOAuthGrantLocked_dead split: if_splits)
next
  case (by_issuer ce g t c r)
  then show ?case unfolding storeSetOAuthIssuerDisabled_def
    by (elim writes_effect) (simp add: Let_def revokeGrantsWhere_dead)
next
  case (by_resource ce g t c r)
  then show ?case unfolding storeSetOAuthProtectedResourceDisabled_def
    by (elim writes_effect) (simp add: Let_def revokeGrantsWhere_dead)
next
  case (by_client ce g t c r)
  then show ?case unfolding storeSetOAuthClientDisabled_def
    by (elim writes_effect) (simp add: Let_def revokeGrantsWhere_dead)
qed

lemma endsGrant_call: "endsGrant sha i s s' \<Longrightarrow> \<exists>c. atomicCall sha c s Committed s'"
  by (induction rule: endsGrant.induct)
    (drule call_revoke_oauth_grant call_set_oauth_issuer_disabled call_set_oauth_resource_disabled call_set_oauth_client_disabled,
      simp add: outcomeOf_def, blast)+

lemma endsGrant_has:
  assumes "endsGrant sha i s s'"
  shows "\<exists>g. lookup (st_oauthGrants s') i = Some g \<and> ogr_RevokedAt g \<noteq> None"
proof -
  have "has i (st_oauthGrants s)"
    using assms by (cases rule: endsGrant.cases)
      (auto simp: storeRevokeOAuthGrant_def require_def elim!: writes_effect split: if_splits)
  have keep: "has i (st_oauthGrants a) \<Longrightarrow> has i (st_oauthGrants (revokeGrantsWhere P t a))" for P t a
    unfolding revokeGrantsWhere_def by (rule foldl_property) (auto simp del: has_iff)
  have "has i (st_oauthGrants s')"
    using assms
    apply (cases rule: endsGrant.cases)
    subgoal using \<open>has i (st_oauthGrants s)\<close> unfolding storeRevokeOAuthGrant_def by (elim writes_effect) (simp del: has_iff)
    subgoal using \<open>has i (st_oauthGrants s)\<close> unfolding storeSetOAuthIssuerDisabled_def by (elim writes_effect) (simp add: Let_def keep del: has_iff)
    subgoal using \<open>has i (st_oauthGrants s)\<close> unfolding storeSetOAuthProtectedResourceDisabled_def by (elim writes_effect) (simp add: Let_def keep del: has_iff)
    subgoal using \<open>has i (st_oauthGrants s)\<close> unfolding storeSetOAuthClientDisabled_def by (elim writes_effect) (simp add: Let_def keep del: has_iff)
    done
  with endsGrant_dead [OF assms] show ?thesis by (auto simp: grantDead_def)
qed

lemma indexed_sealed:
  assumes "indexed val index d" and "lookup d k = Some x" and "dead x"
  shows "sealed val dead (val x) index d"
  unfolding sealed_def
proof (intro conjI allI impI)
  show "has (val x) index" using assms(1,2) by (auto simp: indexed_def)
  show "dead v" if "lookup d j = Some v" "val v = val x" for j v
    using indexed_unique [OF assms(1) that(1) assms(2) that(2)] that(1) assms(2,3) by simp
qed

lemma dead_access_stays:
  assumes "prefixesIndexed s" and "lookup (st_oauthAccessTokens s) k = Some x" and "oat_RevokedAt x \<noteq> None"
    and "permanent s s'" and "lookup (st_oauthAccessTokens s') j = Some y" and "oat_Prefix y = oat_Prefix x"
  shows "oat_RevokedAt y \<noteq> None"
proof -
  from assms(1) have ix: "indexed oat_Prefix (st_oauthAccessKeys s) (st_oauthAccessTokens s)" by (simp add: prefixesIndexed_def)
  have "sealed oat_Prefix (\<lambda>x. oat_RevokedAt x \<noteq> None) (oat_Prefix x) (st_oauthAccessKeys s) (st_oauthAccessTokens s)"
    using ix assms(2,3) by (rule indexed_sealed)
  moreover from assms(4) have "staysSealed oat_Prefix (\<lambda>x. oat_RevokedAt x \<noteq> None) (st_oauthAccessKeys s) (st_oauthAccessTokens s)
      (st_oauthAccessKeys s') (st_oauthAccessTokens s')" by (simp add: permanent_def)
  ultimately have "sealed oat_Prefix (\<lambda>x. oat_RevokedAt x \<noteq> None) (oat_Prefix x) (st_oauthAccessKeys s') (st_oauthAccessTokens s')"
    by (rule sealed_after [rotated])
  with assms(5,6) show ?thesis unfolding sealed_def by blast
qed

lemma dead_refresh_stays:
  assumes "prefixesIndexed s" and "lookup (st_oauthRefreshTokens s) k = Some x" and "ort_RevokedAt x \<noteq> None"
    and "permanent s s'" and "lookup (st_oauthRefreshTokens s') j = Some y" and "ort_Prefix y = ort_Prefix x"
  shows "ort_RevokedAt y \<noteq> None"
proof -
  from assms(1) have ix: "indexed ort_Prefix (st_oauthRefreshKeys s) (st_oauthRefreshTokens s)" by (simp add: prefixesIndexed_def)
  have "sealed ort_Prefix (\<lambda>x. ort_RevokedAt x \<noteq> None) (ort_Prefix x) (st_oauthRefreshKeys s) (st_oauthRefreshTokens s)"
    using ix assms(2,3) by (rule indexed_sealed)
  moreover from assms(4) have "staysSealed ort_Prefix (\<lambda>x. ort_RevokedAt x \<noteq> None) (st_oauthRefreshKeys s) (st_oauthRefreshTokens s)
      (st_oauthRefreshKeys s') (st_oauthRefreshTokens s')" by (simp add: permanent_def)
  ultimately have "sealed ort_Prefix (\<lambda>x. ort_RevokedAt x \<noteq> None) (ort_Prefix x) (st_oauthRefreshKeys s') (st_oauthRefreshTokens s')"
    by (rule sealed_after [rotated])
  with assms(5,6) show ?thesis unfolding sealed_def by blast
qed

text \<open>
  C22: revoking a grant, or disabling its issuer, its resource or its client, leaves the grant and every access
  and refresh token under it revoked; the grant stays revoked along every run, and no record ever carries the
  prefix of one of those tokens unrevoked.
\<close>

theorem grant_revocation_complete:
  assumes "endsGrant sha i s s'" and "prefixesIndexed s" and "storeRun sha ok s' s''"
  shows "grantDead i s' \<and> (\<exists>g. lookup (st_oauthGrants s'') i = Some g \<and> ogr_RevokedAt g \<noteq> None)
    \<and> (\<forall>k x j y. lookup (st_oauthAccessTokens s') k = Some x \<longrightarrow> oat_GrantID x = i
        \<longrightarrow> lookup (st_oauthAccessTokens s'') j = Some y \<longrightarrow> oat_Prefix y = oat_Prefix x \<longrightarrow> oat_RevokedAt y \<noteq> None)
    \<and> (\<forall>k x j y. lookup (st_oauthRefreshTokens s') k = Some x \<longrightarrow> ort_GrantID x = i
        \<longrightarrow> lookup (st_oauthRefreshTokens s'') j = Some y \<longrightarrow> ort_Prefix y = ort_Prefix x \<longrightarrow> ort_RevokedAt y \<noteq> None)"
proof (intro conjI allI impI)
  note dead = endsGrant_dead [OF assms(1)] and p = storeRun_permanent [OF assms(3)]
  from endsGrant_call [OF assms(1)] atomicCall_indexed assms(2) have ix: "prefixesIndexed s'" by blast
  show "grantDead i s'" by (rule dead)
  from p have "stays (\<lambda>x. ogr_RevokedAt x \<noteq> None) (st_oauthGrants s') (st_oauthGrants s'')" by (simp add: permanent_def)
  from staysD [OF this] endsGrant_has [OF assms(1)] show "\<exists>g. lookup (st_oauthGrants s'') i = Some g \<and> ogr_RevokedAt g \<noteq> None" by blast
  show "oat_RevokedAt y \<noteq> None" if "lookup (st_oauthAccessTokens s') k = Some x" "oat_GrantID x = i"
    "lookup (st_oauthAccessTokens s'') j = Some y" "oat_Prefix y = oat_Prefix x" for k x j y
    using dead_access_stays [OF ix that(1) _ p that(3,4)] dead that(1,2) unfolding grantDead_def by blast
  show "ort_RevokedAt y \<noteq> None" if "lookup (st_oauthRefreshTokens s') k = Some x" "ort_GrantID x = i"
    "lookup (st_oauthRefreshTokens s'') j = Some y" "ort_Prefix y = ort_Prefix x" for k x j y
    using dead_refresh_stays [OF ix that(1) _ p that(3,4)] dead that(1,2) unfolding grantDead_def by blast
qed

theorem grant_revocation_complete_witness:
  "\<exists>s'. endsGrant nullHash 40 sampleOAuthStore s' \<and> grantDead 40 s' \<and> \<not> grantDead 40 sampleOAuthStore"
proof -
  obtain s' where "storeRevokeOAuthGrant nullHash None 40 20 (sampleCommit 9) sampleOAuthStore = (Inr (), s')"
    by (simp add: storeRevokeOAuthGrant_def require_def commit_eval oauth_sample_defs lookup_def)
  then have e: "endsGrant nullHash 40 sampleOAuthStore s'" by (rule by_revoking)
  have "storeRun nullHash (\<lambda>_. True) s' s'" by (simp add: storeRun_def)
  from grant_revocation_complete [OF e sampleOAuth_indexed this] have "grantDead 40 s'" by blast
  moreover have "lookup (st_oauthGrants sampleOAuthStore) 40 = Some (sampleGrant 40)" "ogr_RevokedAt (sampleGrant 40) = None"
    by (simp_all add: sampleOAuthStore_def sampleGrant_def)
  then have "\<not> grantDead 40 sampleOAuthStore" unfolding grantDead_def by blast
  ultimately show ?thesis using e by blast
qed

text \<open>
  C23: the answer to a replayed refresh token is complete. \<^verbatim>\<open>RevokeOAuthRefreshFamily\<close> leaves every refresh token of
  the family revoked, and with it every access token of every grant the family descends from.
\<close>

theorem family_revocation_complete:
  assumes "RevokeOAuthRefreshFamily sha ce fam t c s = (Inr r, s')"
  shows "(\<forall>k x. lookup (st_oauthRefreshTokens s') k = Some x \<longrightarrow> ort_FamilyID x = fam \<longrightarrow> ort_RevokedAt x \<noteq> None)
    \<and> (\<forall>k x j y. lookup (st_oauthRefreshTokens s) k = Some x \<longrightarrow> ort_FamilyID x = fam
        \<longrightarrow> lookup (st_oauthAccessTokens s') j = Some y \<longrightarrow> oat_GrantID y = ort_GrantID x \<longrightarrow> oat_RevokedAt y \<noteq> None)"
proof -
  from assms obtain gs k where g: "gs = familyGrants fam s" and
    s': "s' = commitAudit sha (cmt_Audit c) (cmt_Unchained c) (s\<lparr>st_ceremonies := k,
        st_oauthRefreshTokens := mapv (\<lambda>_ t'. if ort_FamilyID t' = fam \<and> ort_RevokedAt t' = None
          then t'\<lparr>ort_RevokedAt := Some t\<rparr> else t') (st_oauthRefreshTokens s),
        st_oauthAccessTokens := mapv (\<lambda>_ t'. if UUID_String (oat_GrantID t') \<in> set gs \<and> oat_RevokedAt t' = None
          then t'\<lparr>oat_RevokedAt := Some t\<rparr> else t') (st_oauthAccessTokens s)\<rparr>)"
    unfolding RevokeOAuthRefreshFamily_def by (elim writes_effect) (auto simp: require_def Let_def split: if_splits)
  have grants: "UUID_String (ort_GrantID x) \<in> set gs" if "lookup (st_oauthRefreshTokens s) k = Some x" "ort_FamilyID x = fam" for k x
    using lookup_in_set [OF that(1)] that(2) by (force simp: g familyGrants_def)
  have "\<forall>k x. lookup (st_oauthRefreshTokens s') k = Some x \<longrightarrow> ort_FamilyID x = fam \<longrightarrow> ort_RevokedAt x \<noteq> None"
    by (simp add: s' all_mapv del: lookup_mapv)
  moreover have tokens: "\<forall>j y. lookup (st_oauthAccessTokens s') j = Some y \<longrightarrow> UUID_String (oat_GrantID y) \<in> set gs \<longrightarrow> oat_RevokedAt y \<noteq> None"
    by (simp add: s' all_mapv del: lookup_mapv)
  have "oat_RevokedAt y \<noteq> None" if x: "lookup (st_oauthRefreshTokens s) k = Some x" "ort_FamilyID x = fam"
    and y: "lookup (st_oauthAccessTokens s') j = Some y" "oat_GrantID y = ort_GrantID x" for k x j y
    using tokens [rule_format, OF y(1)] grants [OF x] y(2) by simp
  ultimately show ?thesis by blast
qed

theorem family_revocation_complete_witness:
  "\<exists>s'. RevokeOAuthRefreshFamily nullHash None 43 20 (sampleCommit 9) sampleOAuthStore = (Inr (), s')
    \<and> (\<forall>y. lookup (st_oauthAccessTokens s') 42 = Some y \<longrightarrow> oat_GrantID y = 40 \<longrightarrow> oat_RevokedAt y \<noteq> None)"
proof -
  obtain s' where run: "RevokeOAuthRefreshFamily nullHash None 43 20 (sampleCommit 9) sampleOAuthStore = (Inr (), s')"
    by (simp add: RevokeOAuthRefreshFamily_def familyGrants_def require_def commit_eval oauth_sample_defs)
  have "lookup (st_oauthRefreshTokens sampleOAuthStore) 44 = Some (sampleRefresh 44 ''r'')" "ort_FamilyID (sampleRefresh 44 ''r'') = 43"
    "ort_GrantID (sampleRefresh 44 ''r'') = 40"
    by (simp_all add: sampleOAuthStore_def sampleRefresh_def)
  note x = this
  have "oat_RevokedAt y \<noteq> None" if "lookup (st_oauthAccessTokens s') 42 = Some y" "oat_GrantID y = 40" for y
    using family_revocation_complete [OF run, THEN conjunct2, rule_format, OF x(1,2) that(1)] that(2) x(3) by simp
  with run show ?thesis by blast
qed

section \<open>Registration\<close>

lemma count_put_new:
  assumes "lookup d k = None"
  shows "Prelude.count P (put k v d) = Prelude.count P d + (if P k v then 1 else 0)"
  using assms
proof (induction d)
  case (Cons x d)
  then show ?case by (cases x) (auto simp: Prelude.count_def keep_def put_def lookup_def split: if_splits)
qed (simp add: Prelude.count_def keep_def put_def)

lemma create_client_success:
  assumes "CreateOAuthClient sha ce client i t c s = (Inr r, s')"
  shows "\<exists>initial. createOAuthClientGuard client i t s = Inr initial
    \<and> st_oauthClients s' = put (ocl_ID client) client (st_oauthClients s)
    \<and> (\<forall>x. initial = Some x \<longrightarrow> lookup (st_oauthInitialTokens s') i = Some (x\<lparr>oit_RegistrationCount := oit_RegistrationCount x + 1\<rparr>))"
  using assms unfolding CreateOAuthClient_def Let_def by (elim writes_effect) (auto split: option.splits)

text \<open>
  C24: registration stays within its limits. A dynamic registration that succeeds at an openly registering
  issuer leaves at most the configured number of active registered clients; one gated by an initial access
  token needs it unrevoked, unexpired and not used up, and uses one registration of it.
\<close>

theorem registration_limits:
  assumes "CreateOAuthClient sha ce client i t c s = (Inr r, s')" and "lookup (st_oauthIssuers s) (ocl_IssuerID client) = Some issuer"
  shows "(ocl_Source client = OAuthClientDCR \<and> ois_DCRMode issuer = OAuthDCROpen
      \<longrightarrow> int (activeDCRClients (ocl_IssuerID client) s') \<le> ois_DCROpenRegistrationLimit issuer)
    \<and> (i \<noteq> 0 \<longrightarrow> (\<exists>x. lookup (st_oauthInitialTokens s) i = Some x \<and> oit_IssuerID x = ocl_IssuerID client \<and> oit_RevokedAt x = None
        \<and> t < oit_ExpiresAt x \<and> oit_RegistrationCount x + 1 \<le> oit_MaxRegistrations x
        \<and> lookup (st_oauthInitialTokens s') i = Some (x\<lparr>oit_RegistrationCount := oit_RegistrationCount x + 1\<rparr>)))"
proof -
  from create_client_success [OF assms(1)] obtain initial where g: "createOAuthClientGuard client i t s = Inr initial"
    and s': "st_oauthClients s' = put (ocl_ID client) client (st_oauthClients s)"
      "\<And>x. initial = Some x \<Longrightarrow> lookup (st_oauthInitialTokens s') i = Some (x\<lparr>oit_RegistrationCount := oit_RegistrationCount x + 1\<rparr>)"
    by blast
  have fresh: "lookup (st_oauthClients s) (ocl_ID client) = None"
    and below: "ocl_Source client = OAuthClientDCR \<Longrightarrow> ois_DCRMode issuer = OAuthDCROpen
      \<Longrightarrow> int (activeDCRClients (ocl_IssuerID client) s) < ois_DCROpenRegistrationLimit issuer"
    using g assms(2) by (auto simp: createOAuthClientGuard_def require_def split: if_splits)
  have "activeDCRClients (ocl_IssuerID client) s' \<le> activeDCRClients (ocl_IssuerID client) s + 1"
    unfolding activeDCRClients_def s'(1) count_put_new [OF fresh] by simp
  moreover have "\<exists>x. initial = Some x \<and> lookup (st_oauthInitialTokens s) i = Some x \<and> oit_IssuerID x = ocl_IssuerID client
      \<and> oit_RevokedAt x = None \<and> t < oit_ExpiresAt x \<and> oit_RegistrationCount x + 1 \<le> oit_MaxRegistrations x" if "i \<noteq> 0"
    using g assms(2) that by (auto simp: createOAuthClientGuard_def require_def split: if_splits option.splits)
  ultimately show ?thesis using below s'(2) by fastforce
qed

definition sampleIssuer :: oauthIssuer where
  "sampleIssuer = zeroIssuer\<lparr>ois_ID := 30, ois_Issuer := ''i'', ois_DCRMode := ''open'', ois_DCROpenRegistrationLimit := 1\<rparr>"

definition sampleClient :: "uuid \<Rightarrow> oauthClient" where
  "sampleClient i = zeroClient\<lparr>ocl_ID := i, ocl_IssuerID := 30, ocl_ClientID := ''c'', ocl_Source := ''dcr''\<rparr>"

theorem registration_limits_witness:
  "\<exists>s'. CreateOAuthClient nullHash None (sampleClient 31) 0 20 (sampleCommit 9)
      (New\<lparr>st_oauthIssuers := [(30, sampleIssuer)]\<rparr>) = (Inr (), s') \<and> activeDCRClients 30 s' \<le> 1"
proof -
  let ?s = "New\<lparr>st_oauthIssuers := [(30, sampleIssuer)]\<rparr>"
  obtain s' where run: "CreateOAuthClient nullHash None (sampleClient 31) 0 20 (sampleCommit 9) ?s = (Inr (), s')"
    by (simp add: CreateOAuthClient_def createOAuthClientGuard_def activeDCRClients_def Prelude.count_def require_def commit_eval
      sampleIssuer_def sampleClient_def zeroIssuer_def zeroClient_def oauth_sample_defs OAuthClientDCR_def OAuthDCROpen_def)
  have "lookup (st_oauthIssuers ?s) (ocl_IssuerID (sampleClient 31)) = Some sampleIssuer" by (simp add: sampleClient_def)
  from registration_limits [OF run this] have "int (activeDCRClients 30 s') \<le> 1"
    by (simp add: sampleIssuer_def sampleClient_def OAuthClientDCR_def OAuthDCROpen_def)
  with run show ?thesis by fastforce
qed

section \<open>Lookups\<close>



end
