(* ===== verification/OAuthInstances.thy ===== *)
theory OAuthInstances
  imports Authorization MemOAuthGuarantees ManagerOAuthAdmin
begin

text \<open>
  An authorization server the OAuth properties are evaluated on: one issuer, one public client, one resource,
  a grant of the demo user with its code and an access token, and a module whose URLs are all well formed.
\<close>

section \<open>Bearers\<close>

definition bearerText :: "string \<Rightarrow> string \<Rightarrow> bytes \<Rightarrow> string" where
  "bearerText marker prefix secret = marker @ ''_'' @ prefix @ ''_'' @ b64Encode secret"

lemma parse_bearer:
  assumes "CHR ''_'' \<notin> set marker" and "length bytes = 6" and "length secret = 32"
  shows "parseOAuthBearer marker (bearerText marker (hexEncode bytes) secret) = Some (hexEncode bytes)"
proof -
  have "SplitN CHR ''_'' 3 (bearerText marker (hexEncode bytes) secret) = [marker, hexEncode bytes, b64Encode secret]"
    using assms(1) hexEncode_no_underscore
    by (simp only: bearerText_def append_Cons append_Nil numeral_3_eq_3 SplitN_hit SplitN_1 not_False_eq_True)
  moreover have "length (b64Encode secret) = 43" using assms(3) by (simp add: length_b64Encode)
  ultimately show ?thesis using assms by (simp add: parseOAuthBearer_def hexDecode_hexEncode length_hexEncode)
qed

section \<open>The server\<close>

definition demoConfig :: oauthConfig where
  "demoConfig = \<lparr>oau_Pepper = [9], oau_MetadataFetcher = None, oau_ClientAssertions = None,
     oau_OIDCSigner = Some \<lparr>osg_SignIDToken = (\<lambda>_ _. Inr ''id''), osg_JWKS = (\<lambda>_. Inr [1]), osg_Algorithms = [''EdDSA'']\<rparr>\<rparr>"

definition demoModule :: oauthModule where
  "demoModule = \<lparr>omd_config = Some demoConfig, omd_library = \<lparr>
     olb_Parse = (\<lambda>raw. Some \<lparr>url_Scheme = ''https'', url_Host = ''h'', url_HasUser = False, url_Fragment = [], url_Path = ''/p'',
       url_EscapedPath = ''/p'', url_RawQuery = [], url_Hostname = ''h'', url_String = raw\<rparr>),
     olb_ParseIP = (\<lambda>_. None), olb_FirstKey = (\<lambda>n keys. n mod length keys), olb_ValidJSON = (\<lambda>_. True), olb_MarshalMetadata = (\<lambda>_. []),
     olb_MarshalContinuation = (\<lambda>_. None), olb_UnmarshalContinuation = (\<lambda>_. None)\<rparr>\<rparr>"

definition demoIssuer :: oauthIssuer where
  "demoIssuer = zeroIssuer\<lparr>ois_ID := 30, ois_Issuer := ''i'', ois_OIDCEnabled := True, ois_AccessTokenTTL := 1000\<rparr>"

definition demoClient :: oauthClient where
  "demoClient = zeroClient\<lparr>ocl_ID := 31, ocl_IssuerID := 30, ocl_ClientID := ''c'', ocl_Source := ''dcr'', ocl_TokenEndpointAuthMethod := OAuthAuthNone\<rparr>"

definition demoResource :: oauthProtectedResource where
  "demoResource = zeroResource\<lparr>ors_ID := 32, ors_IssuerID := 30, ors_WorkspaceID := sampleUUID, ors_Resource := ''r''\<rparr>"

definition demoGrant :: oauthGrant where
  "demoGrant = (sampleGrant sampleUUID)\<lparr>ogr_UserID := sampleUUID, ogr_WorkspaceID := sampleUUID, ogr_Scopes := [''openid'']\<rparr>"

definition demoCode :: oauthAuthorizationCode where
  "demoCode = zeroCode\<lparr>oco_ID := 41, oco_Prefix := hexEncode (replicate 6 2), oco_Digest := [1], oco_GrantID := sampleUUID,
     oco_ClientRecordID := 31, oco_ResourceID := 32, oco_Scopes := [''openid''], oco_CodeChallenge := b64Encode [1],
     oco_ExpiresAt := 1000000000000\<rparr>"

definition demoAccess :: oauthAccessToken where
  "demoAccess = zeroAccessToken\<lparr>oat_ID := 42, oat_Prefix := hexEncode (replicate 6 1), oat_Digest := [1], oat_GrantID := sampleUUID,
     oat_ClientRecordID := 31, oat_UserID := sampleUUID, oat_WorkspaceID := sampleUUID, oat_ResourceID := 32, oat_Scopes := [''openid''],
     oat_ExpiresAt := 1000000000000\<rparr>"

definition demoServer :: "oauthClient \<Rightarrow> store" where
  "demoServer client = demoStore\<lparr>st_oauthIssuers := [(30, demoIssuer)], st_oauthIssuerURLs := [(''i'', 30)], st_oauthResources := [(32, demoResource)],
     st_oauthClients := [(31, client)], st_oauthClientKeys := [(oauthClientKey 30 ''c'', 31)], st_oauthGrants := [(sampleUUID, demoGrant)],
     st_oauthCodes := [(41, demoCode)], st_oauthCodeKeys := [(hexEncode (replicate 6 2), 41)],
     st_oauthAccessTokens := [(42, demoAccess)], st_oauthAccessKeys := [(hexEncode (replicate 6 1), 42)]\<rparr>"

definition demoBearer :: string where
  "demoBearer = bearerText ''cba'' (hexEncode (replicate 6 1)) (replicate 32 7)"

definition demoExchange :: exchangeOAuthAuthorizationCodeInput where
  "demoExchange = \<lparr>exi_Proof = \<lparr>opr_Issuer = ''i'', opr_ClientID = ''c'', opr_ClientSecret = [], opr_ClientSecretInBody = False,
       opr_ClientAssertion = [], opr_ClientAssertionType = []\<rparr>,
     exi_Code = bearerText ''cbc'' (hexEncode (replicate 6 2)) (replicate 32 7), exi_RedirectURI = [],
     exi_CodeVerifier = replicate 43 CHR ''a'', exi_Resource = []\<rparr>"

lemmas demo_oauth_records = demoIssuer_def zeroIssuer_def demoClient_def zeroClient_def demoResource_def zeroResource_def demoGrant_def
  sampleGrant_def demoCode_def zeroCode_def demoAccess_def zeroAccessToken_def

lemma demoServer_store [simp]:
  "st_users (demoServer k) = st_users demoStore" "st_workspaces (demoServer k) = st_workspaces demoStore" "st_sessions (demoServer k) = st_sessions demoStore"
  "st_oauthIssuers (demoServer k) = [(30, demoIssuer)]" "st_oauthIssuerURLs (demoServer k) = [(''i'', 30)]"
  "st_oauthResources (demoServer k) = [(32, demoResource)]" "st_oauthClients (demoServer k) = [(31, k)]"
  "st_oauthClientKeys (demoServer k) = [(oauthClientKey 30 ''c'', 31)]" "st_oauthGrants (demoServer k) = [(sampleUUID, demoGrant)]"
  "st_oauthCodes (demoServer k) = [(41, demoCode)]" "st_oauthCodeKeys (demoServer k) = [(hexEncode (replicate 6 2), 41)]"
  "st_oauthAccessTokens (demoServer k) = [(42, demoAccess)]" "st_oauthAccessKeys (demoServer k) = [(hexEncode (replicate 6 1), 42)]"
  by (simp_all add: demoServer_def)

lemma demoServer_log: "openLog (demoServer k)"
  using demoStore_log by (simp add: demoServer_def openLog_def)

lemma demoServer_keyed: "recordsKeyed (demoServer k)"
proof -
  have "recordsKeyed demoStore" using storeRun_keys [OF demoStore_run recordsKeyed_New] .
  then show ?thesis by (simp add: recordsKeyed_def demoServer_def) (simp add: keyed_def demo_oauth_records lookup_def)
qed

lemma demo_digest: "oauthDigest demoManager c purpose raw = [1]"
  by (simp add: oauthDigest_def digest_def hmac_def demoManager_def)

lemma demo_parse: "parseOAuthBearer ''cba'' demoBearer = Some (hexEncode (replicate 6 1))"
  "parseOAuthBearer ''cbc'' (exi_Code demoExchange) = Some (hexEncode (replicate 6 2))"
  unfolding demoBearer_def demoExchange_def by (simp_all add: parse_bearer)

lemma demo_module: "omd_config demoModule = Some demoConfig" "m_oauthStore demoManager" "m_sha demoManager x = [1]"
  "m_clock demoManager n = 1000000 * int n + 1000000"
  by (simp_all add: demoModule_def demoManager_def)

lemma demo_zero: "zeroTime \<le> m_clock demoManager n"
  by (simp add: demo_module zeroTime_def second_def)

lemmas demo_steps = bindE_def failIf_def ret_def tryE_def now_def liftR_def screened_def orError_def quiet_reads [OF demo_quiet] orErr_def demoWorld_def

lemmas demo_lookups = OAuthIssuerByID_def OAuthProtectedResourceByID_def OAuthClientByID_def OAuthGrantByID_def UserByID_def WorkspaceByID_def
  OAuthAccessTokenByPrefix_def OAuthAuthorizationCodeByPrefix_def OAuthIssuerByURL_def OAuthClientByClientID_def throughIndex_def

lemma demo_grant:
  assumes "w_store w = demoServer demoClient"
  shows "activeOAuthGrant demoManager demoModule sampleUUID demoClient [] w = (Inr (demoGrant, demoResource), w\<lparr>w_calls := w_calls w + 5\<rparr>)"
  using assms demoStore_user demoStore_workspace
  by (simp add: activeOAuthGrant_def demo_steps demo_lookups demo_oauth_records sameResource_def oauthReservedScope_def
    demoUser_def sampleUser_def demoWorkspace_def sampleWorkspace_def)

section \<open>Requests that succeed\<close>

lemma demo_bearer:
  "\<exists>y w'. AuthenticateOAuthAccessToken demoManager demoModule [] demoBearer (demoWorld (demoServer demoClient)) = (Inr y, w') \<and> oaa_UserID y = sampleUUID"
  by (simp add: AuthenticateOAuthAccessToken_def requireOAuth_def authenticateOAuthUserToken_def demo_module demo_parse demo_steps demo_lookups demo_digest
    demo_grant demoAccess_def zeroAccessToken_def scopesSubset_def)
    (simp add: demo_oauth_records)

lemma change_succeeds:
  assumes "generatorOk w"
  shows "\<exists>meta w' ch. newOAuthChange demoManager n op aud cl g tk rs ws sc w = (Inr (ch, transactionalCommit demoManager aud ''oauth.change'' meta), w')
    \<and> w_store w' = w_store w \<and> w_calls w' = w_calls w \<and> generatorOk w'"
  using newEventMeta_succeeds [OF demo_ready(1) assms, of n op "aud_ActorID aud" ws aud] by (auto simp: newOAuthChange_def bindE_def ret_def Let_def)

lemma demo_revoke: "\<exists>w'. managerRevokeOAuthGrant demoManager demoModule demoActor sampleUUID (demoWorld (demoServer demoClient)) = (Inr (), w')"
proof -
  let ?m = demoManager and ?s = "demoServer demoClient"
  let ?w = "(demoWorld ?s)\<lparr>w_calls := 1\<rparr>" and ?w2 = "(demoWorld ?s)\<lparr>w_calls := 3, w_ticks := 1\<rparr>"
  have up: "requireScopedStepUp ?m demoActor scope op ?w = (Inr (), ?w\<lparr>w_ticks := 1, w_calls := 2\<rparr>)" for scope op
    using step_up_succeeds [OF demo_quiet demo_policy, of demoActor ?w scope op] demo_entitled(1) demo_age
    by (simp add: demoActor_facts demoWorld_def enabledIn_def)
  have g: "generatorOk ?w2" by (simp add: generatorOk_def demoWorld_def)
  let ?event = "newAudit ?m sampleUUID ''oauth.consent.revoke'' ''oauth_grant'' (UUID_String sampleUUID) sampleUUID AuditSucceeded [] ?w2"
  obtain event w3 where e: "?event = (Inr event, w3)" "w_store w3 = ?s" "generatorOk w3" "canAudit event ?s = None"
    using newAudit_accepted [OF demo_ready(1) g demo_ready(3), of "''oauth.consent.revoke''" sampleUUID "''oauth_grant''" "UUID_String sampleUUID" sampleUUID AuditSucceeded "[]"]
      demoServer_log by (auto simp: demoWorld_def)
  obtain meta w4 ch where ch: "newOAuthChange ?m ''oauth.consent.revoked'' ''oauth.grant.revoke'' event demoClient sampleUUID 0 32 sampleUUID [''openid''] w3
      = (Inr (ch, transactionalCommit ?m event ''oauth.change'' meta), w4)" "w_store w4 = ?s"
    using change_succeeds [OF e(3), of "''oauth.consent.revoked''" "''oauth.grant.revoke''" event demoClient sampleUUID 0 32 sampleUUID "[''openid'']"] e(2) by metis
  have "fst (storeRevokeOAuthGrant (m_sha ?m) None sampleUUID t (transactionalCommit ?m event ''oauth.change'' meta) ?s) = Inr ()" for t
    unfolding storeRevokeOAuthGrant_def
    by (subst mutate_succeeds [where x = "()"]) (simp_all add: require_def e transactionalCommit_def auditOnly_def demo_ready)
  then obtain w5 where "callStore ?m (\<lambda>ce. storeRevokeOAuthGrant (m_sha ?m) ce sampleUUID (m_clock ?m (w_ticks w4))
      (transactionalCommit ?m event ''oauth.change'' meta)) (w4\<lparr>w_ticks := Suc (w_ticks w4)\<rparr>) = (Inr (), w5)"
    using quiet_write [OF demo_quiet, of "\<lambda>ce. storeRevokeOAuthGrant (m_sha ?m) ce sampleUUID (m_clock ?m (w_ticks w4))
      (transactionalCommit ?m event ''oauth.change'' meta)" "w4\<lparr>w_ticks := Suc (w_ticks w4)\<rparr>" "()"] ch(2) by auto
  then show ?thesis using up e(1) ch(1)
    by (simp add: managerRevokeOAuthGrant_def requireOAuth_def demo_module sampleUUID_v7 demo_steps demo_lookups demoActor_facts orMapped_def
      emitOAuthChange_def emit_def demoGrant_def sampleGrant_def)
qed

lemma demo_client: "authenticateOAuthClient demoManager demoModule demoConfig (exi_Proof demoExchange) (demoWorld (demoServer demoClient))
    = (Inr (demoIssuer, demoClient), (demoWorld (demoServer demoClient))\<lparr>w_calls := 2\<rparr>)"
proof -
  have "TrimSpace ''i'' = ''i''" "TrimSpace ''c'' = ''c''" "TrimSuffix ''i'' ''/'' = ''i''" by code_simp+
  then have "validateIssuerURL (omd_library demoModule) ''i'' = Inr ''i''" "TrimSpace ''c'' = ''c''"
    by (simp_all add: validateIssuerURL_def validatePublicHTTPSURL_def demoModule_def)
  moreover have "OAuthClientCIMD \<noteq> ''dcr''" by (simp add: OAuthClientCIMD_def)
  ultimately show ?thesis
    by (simp add: authenticateOAuthClient_def resolveOAuthClient_def provesClient_def Let_def demoExchange_def demo_steps demo_lookups
      demo_oauth_records del: One_nat_def)
qed

lemma demo_fields:
  "oco_ID demoCode = 41" "oco_ClientRecordID demoCode = 31" "oco_Digest demoCode = [1]" "oco_UsedAt demoCode = None" "oco_RedirectURI demoCode = []"
  "oco_ExpiresAt demoCode = 1000000000000" "oco_CodeChallenge demoCode = b64Encode [1]" "oco_GrantID demoCode = sampleUUID" "oco_ResourceID demoCode = 32"
  "oco_Scopes demoCode = [''openid'']" "ocl_ID demoClient = 31" "ors_ID demoResource = 32" "ogr_Scopes demoGrant = [''openid'']"
  "exi_RedirectURI demoExchange = []" "exi_Resource demoExchange = []"
  by (simp_all add: demo_oauth_records demoExchange_def)

lemma demo_redeem:
  assumes "w_store w = demoServer demoClient" and "w_ticks w = 0"
  shows "redeemableCode demoManager demoModule demoConfig demoClient demoExchange w
    = (Inr (demoCode, demoGrant, demoResource), w\<lparr>w_calls := w_calls w + 6, w_ticks := 1\<rparr>)"
proof -
  have "pkceVerifierPattern (replicate 43 CHR ''a'')" by (simp add: pkceVerifierPattern_def alphanumeric_def list_all_iff)
  then have "pkceVerifierPattern (exi_CodeVerifier demoExchange)" by (simp add: demoExchange_def)
  then show ?thesis using assms demo_grant [of "w\<lparr>w_calls := Suc (w_calls w), w_ticks := 1\<rparr>"]
    by (simp add: redeemableCode_def demo_parse demo_steps demo_lookups demo_digest demo_module verifyPKCE_def
      demo_fields)
qed

lemma demo_access:
  assumes "generatorOk w"
  shows "\<exists>a raw w'. newOAuthAccessToken demoManager demoConfig demoGrant ttl w = (Inr (a, raw), w') \<and> w_store w' = w_store w \<and> generatorOk w'
    \<and> oat_Prefix a = hexEncode (replicate 6 7)"
proof -
  obtain i w1 where i: "newID demoManager w = (Inr i, w1)" "w_store w1 = w_store w" "generatorOk w1"
    using newID_succeeds [OF demo_ready(1) assms] by blast
  have "map (\<lambda>_. 7) [n ..< n + 6] = replicate 6 (7 :: byte)" for n by (simp add: map_replicate_const)
  then have "randomBytes demoManager 6 x = (Inr (replicate 6 7), x\<lparr>w_drawn := w_drawn x + 6\<rparr>)" for x
    by (auto simp: randomBytes_def demoManager_def Let_def comp_def)
  moreover obtain b where "randomBytes demoManager 32 (w1\<lparr>w_drawn := w_drawn w1 + 6\<rparr>) = (Inr b, w1\<lparr>w_drawn := w_drawn w1 + 38\<rparr>)"
    using randomBytes_succeeds [OF demo_ready(1), of 32 "w1\<lparr>w_drawn := w_drawn w1 + 6\<rparr>"] by auto
  ultimately have "\<exists>raw. newOAuthBearer demoManager ''cba'' w1 = (Inr (hexEncode (replicate 6 7), raw), w1\<lparr>w_drawn := w_drawn w1 + 38\<rparr>)"
    by (simp add: newOAuthBearer_def bindE_def ret_def Let_def)
  then obtain raw where "newOAuthBearer demoManager ''cba'' w1 = (Inr (hexEncode (replicate 6 7), raw), w1\<lparr>w_drawn := w_drawn w1 + 38\<rparr>)" by blast
  with i show ?thesis by (simp add: newOAuthAccessToken_def bindE_def ret_def now_def generatorOk_def)
qed

lemma client_audit_accepted:
  assumes "generatorOk w" and "action \<noteq> []"
  shows "\<exists>event w'. clientAudit demoManager cl action rt ri ws reason w = (Inr event, w') \<and> w_store w' = w_store w \<and> generatorOk w'
    \<and> (\<forall>s. openLog s \<longrightarrow> canAudit event s = None)"
proof -
  have "canAudit (event\<lparr>aud_ActorKind := kind\<rparr>) s = canAudit event s" for event kind s by (simp add: canAudit_def)
  then show ?thesis
    using newAudit_accepted [OF demo_ready(1) assms(1) demo_ready(3) assms(2), of "ocl_ID cl" rt ri ws AuditSucceeded reason]
    by (auto simp: clientAudit_def bindE_def ret_def)
qed

lemma demo_consume:
  assumes "oat_Prefix a = hexEncode (replicate 6 7)" and "canAudit event (demoServer demoClient) = None" and "t < 1000000000000"
  shows "fst (ConsumeOAuthAuthorizationCode (m_sha demoManager) None 41 t a None (transactionalCommit demoManager event ''oauth.change'' meta)
    (demoServer demoClient)) = Inr ()"
proof -
  have "hexEncode (replicate 6 7) \<noteq> hexEncode (replicate 6 (1 :: byte))" by code_simp
  with assms show ?thesis unfolding ConsumeOAuthAuthorizationCode_def
    by (subst mutate_succeeds [where x = demoCode])
      (auto simp: consumeOAuthAuthorizationCodeGuard_def require_def transactionalCommit_def auditOnly_def demo_ready demo_fields)
qed

lemma demo_id_token: "\<exists>y w'. oauthIDToken demoManager demoConfig demoIssuer demoClient demoGrant nonce t w = (Inr y, w')"
  by (simp add: oauthIDToken_def demo_fields demoConfig_def demoIssuer_def bindE_def now_def ret_def Let_def asking_def)

text \<open>How often the steps read the clock.\<close>

lemma newID_ticks: "newID m w = (r, w') \<Longrightarrow> w_ticks w' = w_ticks w + 1"
  by (auto simp: newID_def bindE_def now_def randomBytes_def nextID_def ret_def Let_def split: if_splits)

lemma step_ticks:
  "newAudit m actor action rt ri ws outcome reason w = (Inr event, w') \<Longrightarrow> w_ticks w' = w_ticks w + 2"
  "newEventMeta m name op u ws aud w = (Inr meta, w') \<Longrightarrow> w_ticks w' = w_ticks w + 2"
  "newOAuthBearer m marker w = (Inr b, w') \<Longrightarrow> w_ticks w' = w_ticks w"
  by (auto simp: newAudit_def newEventMeta_def newOAuthBearer_def randomBytes_def success success_ret Let_def dest: newID_ticks split: if_splits)

lemma token_ticks:
  "newOAuthAccessToken m c g ttl w = (Inr a, w') \<Longrightarrow> w_ticks w' = w_ticks w + 2"
  "clientAudit m cl action rt ri ws reason w = (Inr event, w') \<Longrightarrow> w_ticks w' = w_ticks w + 2"
  "newOAuthChange m n op aud cl i tk rs ws sc w = (Inr ch, w') \<Longrightarrow> w_ticks w' = w_ticks w + 2"
  by (auto simp: newOAuthAccessToken_def clientAudit_def newOAuthChange_def success success_ret Let_def dest!: newID_ticks step_ticks)

lemma demo_exchange: "\<exists>y w'. ExchangeOAuthAuthorizationCode demoManager demoModule demoExchange (demoWorld (demoServer demoClient)) = (Inr y, w')"
proof -
  let ?m = demoManager and ?s = "demoServer demoClient" and ?c = "\<lambda>event meta. transactionalCommit demoManager event ''oauth.change'' meta"
  let ?w = "(demoWorld ?s)\<lparr>w_calls := 8, w_ticks := 1\<rparr>"
  have g: "generatorOk ?w" by (simp add: generatorOk_def demoWorld_def)
  from demo_access [OF g, of "ois_AccessTokenTTL demoIssuer"] obtain a raw w1 where
    a: "newOAuthAccessToken ?m demoConfig demoGrant (ois_AccessTokenTTL demoIssuer) ?w = (Inr (a, raw), w1)"
    "w_store w1 = ?s" "generatorOk w1" "oat_Prefix a = hexEncode (replicate 6 7)" by (auto simp: demoWorld_def)
  from client_audit_accepted [OF a(3), of "''oauth.token.issued''" demoClient "''oauth_grant''" "UUID_String (ogr_ID demoGrant)" "ogr_WorkspaceID demoGrant" "[]"]
    a(2) demoServer_log obtain event w2 where
    e: "clientAudit ?m demoClient ''oauth.token.issued'' ''oauth_grant'' (UUID_String (ogr_ID demoGrant)) (ogr_WorkspaceID demoGrant) [] w1 = (Inr event, w2)"
    "w_store w2 = ?s" "generatorOk w2" "canAudit event ?s = None" by auto
  from change_succeeds [OF e(3)] e(2) obtain meta w3 ch where
    ch: "newOAuthChange ?m ''oauth.token.issued'' ''oauth.token.exchange'' event demoClient (ogr_ID demoGrant) (oat_ID a) (ors_ID demoResource)
      (ogr_WorkspaceID demoGrant) (ogr_Scopes demoGrant) w2 = (Inr (ch, ?c event meta), w3)" "w_store w3 = ?s" by metis
  have "w_ticks w3 = 7" using token_ticks(1) [OF a(1)] token_ticks(2) [OF e(1)] token_ticks(3) [OF ch(1)] by simp
  then have "fst (ConsumeOAuthAuthorizationCode (m_sha ?m) None 41 (m_clock ?m (w_ticks w3)) a None (?c event meta) ?s) = Inr ()"
    by (intro demo_consume a(4) e(4)) (simp add: demo_module)
  with quiet_write [OF demo_quiet, of "\<lambda>ce. ConsumeOAuthAuthorizationCode (m_sha ?m) ce 41 (m_clock ?m (w_ticks w3)) a None (?c event meta)"
    "w3\<lparr>w_ticks := w_ticks w3 + 1\<rparr>" "()"] ch(2) obtain w4 where
    w4: "callStore ?m (\<lambda>ce. ConsumeOAuthAuthorizationCode (m_sha ?m) ce 41 (m_clock ?m (w_ticks w3)) a None (?c event meta)) (w3\<lparr>w_ticks := w_ticks w3 + 1\<rparr>)
      = (Inr (), w4)" by auto
  from demo_id_token obtain idToken w5 where
    t: "oauthIDToken ?m demoConfig demoIssuer demoClient demoGrant (oco_Nonce demoCode) (oat_ExpiresAt a) (w4\<lparr>w_events := w_events w4 @ [och_EventMeta ch]\<rparr>)
      = (Inr idToken, w5)" by metis
  have "redeemableCode ?m demoModule demoConfig demoClient demoExchange ((demoWorld ?s)\<lparr>w_calls := 2\<rparr>) = (Inr (demoCode, demoGrant, demoResource), ?w)"
    using demo_redeem [of "(demoWorld ?s)\<lparr>w_calls := 2\<rparr>"] by (simp add: demoWorld_def)
  then show ?thesis using a(1) e(1) ch(1) w4 t
    by (simp add: ExchangeOAuthAuthorizationCode_def requireOAuth_def demo_module demo_client bindE_def ret_def now_def tryE_def orCredentialMapped_def
      emitOAuthChange_def emit_def demo_fields del: One_nat_def)
qed

end
