(* ===== verification/MemCodes.thy ===== *)
theory MemCodes
  imports MemKeys
begin

text \<open>
  The index of the authorization codes: once a prefix names a code it names that code for ever, whatever is
  called. So a code that was used is what every later lookup of its prefix finds.
\<close>

definition codeNamed :: "string \<Rightarrow> uuid \<Rightarrow> store \<Rightarrow> bool" where
  "codeNamed p i s \<longleftrightarrow> lookup (st_oauthCodeKeys s) p = Some i"

interpretation codes: kept "codeNamed p i" for p i
  by unfold_locales (simp_all add: codeNamed_def commitAudit_def Let_def)

section \<open>Updates that leave the index alone\<close>

lemma codes_foldl: "(\<And>s x. st_oauthCodeKeys (f s x) = st_oauthCodeKeys s) \<Longrightarrow> st_oauthCodeKeys (foldl f s xs) = st_oauthCodeKeys s"
  by (induction xs arbitrary: s) simp_all

lemma codes_revoke [simp]:
  "st_oauthCodeKeys (revokeUserCredentialsLocked u w t s) = st_oauthCodeKeys s"
  "st_oauthCodeKeys (revokeUserSessionsLocked u t s) = st_oauthCodeKeys s"
  "st_oauthCodeKeys (revokeOAuthGrantLocked i t s) = st_oauthCodeKeys s"
  "st_oauthCodeKeys (putMember v x y s) = st_oauthCodeKeys s"
  by (simp_all add: revokeUserCredentialsLocked_def revokeUserSessionsLocked_def revokeOAuthGrantLocked_def putMember_def split: option.split)

lemma codes_revokeGrantsWhere [simp]: "st_oauthCodeKeys (revokeGrantsWhere P t s) = st_oauthCodeKeys s"
  unfolding revokeGrantsWhere_def by (rule codes_foldl) (simp split: prod.split)

lemma codes_members [simp]:
  "st_oauthCodeKeys (snd (setMembers ms s)) = st_oauthCodeKeys s" "st_oauthCodeKeys (upsertMembers ms s) = st_oauthCodeKeys s"
  by (induction ms arbitrary: s) simp_all

lemma codes_anonymizeEmails: "foldl (anonymizeEmail u t) (x, s) es = (y, s') \<Longrightarrow> st_oauthCodeKeys s' = st_oauthCodeKeys s"
proof (induction es arbitrary: x s)
  case (Cons e es)
  obtain x1 s1 where 1: "anonymizeEmail u t (x, s) e = (x1, s1)" by (cases "anonymizeEmail u t (x, s) e")
  then have "st_oauthCodeKeys s1 = st_oauthCodeKeys s" by (auto simp: anonymizeEmail_def Let_def split: prod.splits if_splits)
  with Cons 1 show ?case by simp
qed simp

lemma codes_anonymizeEffect [simp]: "st_oauthCodeKeys (anonymizeEffect u t x s) = st_oauthCodeKeys s"
proof -
  obtain x1 s1 where 1: "foldl (anonymizeEmail u t) (x\<lparr>usr_DisplayName := [], usr_Disabled := True, usr_UpdatedAt := t\<rparr>, s)
      (st_emailAddresses s) = (x1, s1)" (is "?f = _") by (cases ?f)
  have "st_oauthCodeKeys (anonymizeLink u t a l) = st_oauthCodeKeys a" for a l
    by (simp add: anonymizeLink_def putSCIMUserLocked_def deleteSCIMUserIndexesLocked_def split: prod.splits)
  then have "st_oauthCodeKeys (foldl (anonymizeLink u t) a ls) = st_oauthCodeKeys a" for a ls by (rule codes_foldl)
  then show ?thesis unfolding anonymizeEffect_def 1 Let_def prod.case by (simp add: codes_anonymizeEmails [OF 1])
qed

lemma codes_updateSCIMUser [simp]: "st_oauthCodeKeys (snd (updateSCIMUserEffect x m b y s)) = st_oauthCodeKeys s"
proof -
  obtain b' a where "setMembers [m] (putSCIMUserLocked x (deleteSCIMUserIndexesLocked y s)) = (b', a)" (is "?f = _") by (cases ?f)
  moreover from this have "st_oauthCodeKeys a = st_oauthCodeKeys s"
    using codes_members(1) [of "[m]" "putSCIMUserLocked x (deleteSCIMUserIndexesLocked y s)"] by (simp add: effect_defs)
  ultimately show ?thesis unfolding updateSCIMUserEffect_def by simp
qed

section \<open>Every call and every run\<close>

lemma codes_factors:
  "RecordLoginFailure sha ce u t n l c s = (r, s') \<Longrightarrow> codeNamed p i s \<longrightarrow> codeNamed p i s'"
  "UseTOTP sha ce u n c s = (q, s') \<Longrightarrow> codeNamed p i s \<longrightarrow> codeNamed p i s'"
  "ConsumeRecoveryCode sha ce u d t c s = (q, s') \<Longrightarrow> codeNamed p i s \<longrightarrow> codeNamed p i s'"
proof -
  have 1: "useTOTPFresh sha ce u n c s = (q, s') \<Longrightarrow> codeNamed p i s \<longrightarrow> codeNamed p i s'"
    unfolding useTOTPFresh_def by (erule codes.mutate_keeps) (simp_all add: silent_def codeNamed_def effect_defs)
  have 2: "consumeRecoveryFound sha ce u d t c s = (q, s') \<Longrightarrow> codeNamed p i s \<longrightarrow> codeNamed p i s'"
    unfolding consumeRecoveryFound_def by (erule codes.mutate_keeps) (simp_all add: silent_def codeNamed_def effect_defs)
  show "RecordLoginFailure sha ce u t n l c s = (r, s') \<Longrightarrow> codeNamed p i s \<longrightarrow> codeNamed p i s'"
    unfolding RecordLoginFailure_def by (erule codes.mutate_keeps) (simp_all add: silent_def codeNamed_def effect_defs)
  show "UseTOTP sha ce u n c s = (q, s') \<Longrightarrow> codeNamed p i s \<longrightarrow> codeNamed p i s'"
    using 1 by (auto simp: UseTOTP_def split: if_splits)
  show "ConsumeRecoveryCode sha ce u d t c s = (q, s') \<Longrightarrow> codeNamed p i s \<longrightarrow> codeNamed p i s'"
    using 2 by (auto simp: ConsumeRecoveryCode_def split: if_splits)
qed

lemma codes_users:
  "storeSetWorkspaceDisabled sha ce w b t c s = (r, s') \<Longrightarrow> codeNamed p i s \<longrightarrow> codeNamed p i s'"
  "storeAnonymizeUser sha ce u t c s = (r, s') \<Longrightarrow> codeNamed p i s \<longrightarrow> codeNamed p i s'"
  "storeUpdateSCIMConfiguration sha ce x ms c s = (r, s') \<Longrightarrow> codeNamed p i s \<longrightarrow> codeNamed p i s'"
proof -
  have members: "st_oauthCodeKeys (foldl (\<lambda>s (u, _). revokeUserCredentialsLocked u w t s) a ms) = st_oauthCodeKeys a"
    for a and ms :: "(uuid \<times> membership) list" by (rule codes_foldl) (simp split: prod.split)
  show "storeSetWorkspaceDisabled sha ce w b t c s = (r, s') \<Longrightarrow> codeNamed p i s \<longrightarrow> codeNamed p i s'"
    unfolding storeSetWorkspaceDisabled_def
    by (erule codes.writes_keeps, rule setWorkspaceDisabled_silent) (simp add: codeNamed_def Let_def members split: option.split)
  show "storeAnonymizeUser sha ce u t c s = (r, s') \<Longrightarrow> codeNamed p i s \<longrightarrow> codeNamed p i s'"
    unfolding storeAnonymizeUser_def by (erule codes.writes_keeps, rule anonymizeEffect_silent) (simp add: codeNamed_def)
  show "storeUpdateSCIMConfiguration sha ce x ms c s = (r, s') \<Longrightarrow> codeNamed p i s \<longrightarrow> codeNamed p i s'"
    unfolding storeUpdateSCIMConfiguration_def
    by (erule codes.writes_keeps, rule auditSame_trans [OF upsertMembers_silent], simp add: effect_defs) (simp add: codeNamed_def)
qed

lemma codes_scim:
  "storeUpdateSCIMUser sha ce x m b c s = (r, s') \<Longrightarrow> r \<noteq> Inl RuntimePanic \<Longrightarrow> codeNamed p i s \<longrightarrow> codeNamed p i s'"
  "UpsertSCIMGroup sha ce y ms c s = (r, s') \<Longrightarrow> r \<noteq> Inl RuntimePanic \<Longrightarrow> codeNamed p i s \<longrightarrow> codeNamed p i s'"
  "storeDeleteSCIMGroup sha ce z ms c s = (r, s') \<Longrightarrow> r \<noteq> Inl RuntimePanic \<Longrightarrow> codeNamed p i s \<longrightarrow> codeNamed p i s'"
  unfolding storeUpdateSCIMUser_def UpsertSCIMGroup_def storeDeleteSCIMGroup_def
  subgoal by (erule (1) codes.checked_keeps [OF _ _ update_scim_user_silent]) (simp add: codeNamed_def)
  subgoal by (erule (1) codes.checked_keeps [OF _ _ upsert_scim_group_silent])
      (simp add: codeNamed_def upsertSCIMGroupEffect_def Let_def, simp add: effect_defs split: option.split)
  subgoal by (erule (1) codes.checked_keeps [OF _ _ delete_scim_group_silent])
      (simp add: codeNamed_def deleteSCIMGroupEffect_def, simp add: effect_defs)
  done

lemma codes_oauth:
  "storeSetOAuthIssuerDisabled sha ce j b t c s = (r, s') \<Longrightarrow> codeNamed p i s \<longrightarrow> codeNamed p i s'"
  "storeSetOAuthProtectedResourceDisabled sha ce j b t c s = (r, s') \<Longrightarrow> codeNamed p i s \<longrightarrow> codeNamed p i s'"
  "storeSetOAuthClientDisabled sha ce j b t c s = (r, s') \<Longrightarrow> codeNamed p i s \<longrightarrow> codeNamed p i s'"
  "storeRevokeOAuthGrant sha ce j t c s = (r, s') \<Longrightarrow> codeNamed p i s \<longrightarrow> codeNamed p i s'"
  "CreateOAuthClient sha ce x j t c s = (r, s') \<Longrightarrow> codeNamed p i s \<longrightarrow> codeNamed p i s'"
  unfolding storeSetOAuthIssuerDisabled_def storeSetOAuthProtectedResourceDisabled_def storeSetOAuthClientDisabled_def
    storeRevokeOAuthGrant_def CreateOAuthClient_def Let_def
  subgoal by (erule codes.writes_keeps, simp add: effect_defs revoke_frames) (simp add: codeNamed_def)
  subgoal by (erule codes.writes_keeps, simp add: effect_defs revoke_frames) (simp add: codeNamed_def)
  subgoal by (erule codes.writes_keeps, simp add: effect_defs revoke_frames) (simp add: codeNamed_def)
  subgoal by (erule codes.writes_keeps, rule revokeOAuthGrantLocked_silent) (simp add: codeNamed_def)
  subgoal by (erule codes.writes_keeps, simp add: effect_defs split: option.split) (auto simp: codeNamed_def effect_defs split: option.splits)
  done

lemma codes_tokens:
  "ConsumeOAuthAuthorizationCode sha ce j t a f c s = (r, s') \<Longrightarrow> codeNamed p i s \<longrightarrow> codeNamed p i s'"
  "RotateOAuthRefreshToken sha ce j t a g c s = (r, s') \<Longrightarrow> codeNamed p i s \<longrightarrow> codeNamed p i s'"
  unfolding ConsumeOAuthAuthorizationCode_def RotateOAuthRefreshToken_def Let_def
  subgoal by (erule codes.writes_keeps, simp add: effect_defs split: option.split) (simp add: codeNamed_def effect_defs split: option.split)
  subgoal by (erule codes.writes_keeps, simp add: effect_defs) (simp add: codeNamed_def effect_defs)
  done

lemmas codes_special = codes_factors codes_users codes_oauth codes_tokens

lemma atomicCall_codes: "atomicCall sha c s out s' \<Longrightarrow> codeNamed p i s \<longrightarrow> codeNamed p i s'"
  apply (induction rule: atomicCall.induct)
  unfolding call_defs
  by ((erule codes_special | erule (1) codes_scim | (erule codes.writes_keeps,
    (simp add: effect_defs split: option.split prod.split; fail),
    (auto simp: codeNamed_def effect_defs require_def split: option.splits if_splits prod.splits; fail)))+)

lemma storeCall_codes: "storeCall sha c s out s' \<Longrightarrow> codeNamed p i s \<longrightarrow> codeNamed p i s'"
proof (induction rule: storeCall.induct)
  case (call_create_workspace_domain ce x t s r s')
  have "codeNamed p i s \<longrightarrow> codeNamed p i s'" if "insertDomain sha None x c s = (r, s')" for s
    using that unfolding insertDomain_def by (rule codes.writes_keeps) (simp_all add: effect_defs codeNamed_def)
  moreover have "codeNamed p i s \<longrightarrow> codeNamed p i (withoutHolder x s)"
    by (simp add: withoutHolder_def codeNamed_def split: option.split)
  ultimately show ?case using CreateWorkspaceDomain_cases [OF call_create_workspace_domain] by blast
qed (rule atomicCall_codes)

lemma storeStep_codes: "storeStep sha ok s s' \<Longrightarrow> codeNamed p i s \<longrightarrow> codeNamed p i s'"
proof (induction rule: storeStep.induct)
  case (issuance ce a q t n s r s')
  with issuance_frame [OF issuance] show ?case by (auto simp: codeNamed_def)
next
  case (failure s e)
  then show ?case by (simp add: SetAuditFailure_def codeNamed_def)
qed (rule storeCall_codes)

lemma storeRun_codes: "storeRun sha ok s s' \<Longrightarrow> codeNamed p i s \<Longrightarrow> codeNamed p i s'"
  by (induction rule: storeRun_induct) (use storeStep_codes in blast)+

end
