(* ===== verification/OAuthAccess.thy ===== *)
theory OAuthAccess
  imports Answers OAuthInstances MemCodes
begin

text \<open>
  What an OAuth bearer is worth: which records stood behind an accepted access token, that nothing is accepted
  or issued under a revoked grant, and that an authorization code is exchanged once, by the client that proved
  itself and the verifier of its challenge. The facts are about the requests of \<^verbatim>\<open>oauth_tokens.go\<close> and the store
  they run on, with other requests in between.
\<close>

section \<open>What stands behind a grant\<close>

text \<open>The user still holds, through a membership, every permission the scopes stand for.\<close>

definition scopesHeld :: "manager \<Rightarrow> oauthProtectedResource \<Rightarrow> uuid \<Rightarrow> string list \<Rightarrow> ((store \<Rightarrow> bool) \<Rightarrow> bool) \<Rightarrow> bool" where
  "scopesHeld m r u scopes M \<longleftrightarrow> (\<forall>scope \<in> set scopes. oauthReservedScope scope \<or>
     (\<exists>d. oauthScopeDefinition (ors_Scopes r) scope = Some d
       \<and> (\<forall>p \<in> set (osd_Permissions d). M (\<lambda>s. memberIn m s (ors_WorkspaceID r) u p))))"

text \<open>The grant and everything it depends on was stored and in force, at moments of the request.\<close>

definition grantStands :: "manager \<Rightarrow> oauthModule \<Rightarrow> string \<Rightarrow> oauthClient \<Rightarrow> uuid \<Rightarrow> oauthGrant \<Rightarrow> oauthProtectedResource
    \<Rightarrow> ((store \<Rightarrow> bool) \<Rightarrow> bool) \<Rightarrow> bool" where
  "grantStands m srv uri client i g r M \<longleftrightarrow> ocl_DisabledAt client = None
     \<and> M (\<lambda>s. lookup (st_oauthGrants s) i = Some g) \<and> ogr_RevokedAt g = None
     \<and> ogr_ClientRecordID g = ocl_ID client \<and> ogr_MetadataHash g = ocl_MetadataHash client
     \<and> M (\<lambda>s. lookup (st_oauthResources s) (ogr_ResourceID g) = Some r) \<and> ors_DisabledAt r = None
     \<and> ors_WorkspaceID r = ogr_WorkspaceID g \<and> sameResource srv uri r
     \<and> (\<exists>x. M (\<lambda>s. lookup (st_oauthIssuers s) (ogr_IssuerID g) = Some x) \<and> ois_DisabledAt x = None \<and> ois_ID x = ors_IssuerID r)
     \<and> (\<exists>u. M (\<lambda>s. lookup (st_users s) (ogr_UserID g) = Some u) \<and> \<not> usr_Disabled u)
     \<and> (\<exists>ws. M (\<lambda>s. lookup (st_workspaces s) (ogr_WorkspaceID g) = Some ws) \<and> wsp_DisabledAt ws = None)
     \<and> scopesHeld m r (ogr_UserID g) (ogr_Scopes g) M"

context environment
begin

lemma answers_AuthorizePermission:
  "answers m (AuthorizePermission m a ws p) (\<lambda>_ M T. M (\<lambda>s. memberIn m s ws (auth_UserID a) p))"
proof (rule answersI)
  show "runs m w w'" if "AuthorizePermission m a ws p w = (Inr y, w')" for w y w'
    using authorize_runs(2) that by (rule relatesD)
qed (auto dest!: ensuresD [OF AuthorizePermission_gate] simp: vouched_def)

lemma answers_authorizeScope:
  "answers m (authorizeScope m a ws ps) (\<lambda>_ M T. \<forall>p \<in> set ps. M (\<lambda>s. memberIn m s ws (auth_UserID a) p))"
proof (induction ps)
  case (Cons p ps)
  show ?case unfolding authorizeScope.simps
    by (rule answers_mono, rule answers_bindE [OF answers_orError [OF answers_AuthorizePermission] Cons]) simp
qed (auto intro: answers_mono [OF answers_steps(1)])

lemma answers_authorizeGrantScopes:
  "answers m (authorizeGrantScopes m a r scopes) (\<lambda>_ M T. scopesHeld m r (auth_UserID a) scopes M)"
proof (induction scopes)
  case (Cons scope scopes)
  show ?case unfolding authorizeGrantScopes.simps
    by (rule answers_mono, rule answers_cases(1) [OF Cons answers_cases(2) [OF answers_steps(2) answers_bindE [OF answers_authorizeScope Cons]]])
      (auto simp: scopesHeld_def)
qed (auto intro: answers_mono [OF answers_steps(1)] simp: scopesHeld_def)

lemma answers_activeOAuthGrant:
  "answers m (activeOAuthGrant m srv i client uri) (\<lambda>(g, r) M T. grantStands m srv uri client i g r M)"
  unfolding activeOAuthGrant_def
  by (rule answers_mono, (rule answer_rules answers_authorizeGrantScopes)+) (auto simp: grantStands_def)

end

section \<open>Accepted bearers\<close>

text \<open>A token that a user granted, and one a client obtained for itself.\<close>

definition userBearer :: "manager \<Rightarrow> oauthModule \<Rightarrow> oauthConfig \<Rightarrow> string \<Rightarrow> string \<Rightarrow> string \<Rightarrow> oauthAuthentication \<Rightarrow> learnt" where
  "userBearer m srv c uri raw prefix y M T \<longleftrightarrow> (\<exists>x client g r n. M (\<lambda>s. OAuthAccessTokenByPrefix None prefix s = (Inr x, s))
     \<and> oat_RevokedAt x = None \<and> T n \<and> m_clock m n < oat_ExpiresAt x \<and> oat_Digest x = oauthDigest m c ''access-token'' raw
     \<and> M (\<lambda>s. lookup (st_oauthClients s) (oat_ClientRecordID x) = Some client)
     \<and> grantStands m srv uri client (oat_GrantID x) g r M
     \<and> oat_ResourceID x = ors_ID r \<and> oat_UserID x = ogr_UserID g \<and> oat_WorkspaceID x = ogr_WorkspaceID g
     \<and> set (oat_Scopes x) \<subseteq> set (ogr_Scopes g)
     \<and> oaa_TokenID y = oat_ID x \<and> oaa_GrantID y = ogr_ID g \<and> oaa_ClientRecordID y = ocl_ID client \<and> oaa_ClientID y = ocl_ClientID client
     \<and> oaa_UserID y = oat_UserID x \<and> oaa_WorkspaceID y = oat_WorkspaceID x \<and> oaa_Resource y = ors_Resource r \<and> oaa_Scopes y = oat_Scopes x)"

definition clientBearer :: "manager \<Rightarrow> oauthModule \<Rightarrow> oauthConfig \<Rightarrow> string \<Rightarrow> string \<Rightarrow> string \<Rightarrow> oauthAuthentication \<Rightarrow> learnt" where
  "clientBearer m srv c uri raw prefix y M T \<longleftrightarrow> (\<exists>x client i r ws n. M (\<lambda>s. OAuthClientAccessTokenByPrefix None prefix s = (Inr x, s))
     \<and> oct_RevokedAt x = None \<and> T n \<and> m_clock m n < oct_ExpiresAt x \<and> oct_Digest x = oauthDigest m c ''access-token'' raw
     \<and> M (\<lambda>s. lookup (st_oauthClients s) (oct_ClientRecordID x) = Some client) \<and> ocl_DisabledAt client = None
     \<and> ocl_IssuerID client = oct_IssuerID x \<and> ocl_Source client = OAuthClientPreRegistered
     \<and> M (\<lambda>s. lookup (st_oauthIssuers s) (oct_IssuerID x) = Some i) \<and> ois_DisabledAt i = None
     \<and> M (\<lambda>s. lookup (st_oauthResources s) (oct_ResourceID x) = Some r) \<and> ors_DisabledAt r = None
     \<and> ors_IssuerID r = ois_ID i \<and> ors_WorkspaceID r = oct_WorkspaceID x
     \<and> ors_Resource r \<in> set (ocl_ClientCredentialsResources client) \<and> sameResource srv uri r
     \<and> M (\<lambda>s. lookup (st_workspaces s) (oct_WorkspaceID x) = Some ws) \<and> wsp_DisabledAt ws = None
     \<and> oaa_TokenID y = oct_ID x \<and> oaa_GrantID y = 0 \<and> oaa_ClientRecordID y = ocl_ID client \<and> oaa_ClientID y = ocl_ClientID client
     \<and> oaa_UserID y = 0 \<and> oaa_WorkspaceID y = oct_WorkspaceID x \<and> oaa_Resource y = ors_Resource r \<and> oaa_Scopes y = oct_Scopes x)"

lemma index_reads:
  "OAuthAccessTokenByPrefix None p s = (Inr x, s) \<longleftrightarrow> throughIndex zeroAccessToken (st_oauthAccessKeys s) (st_oauthAccessTokens s) p = Inr x"
  "OAuthClientAccessTokenByPrefix None p s = (Inr y, s) \<longleftrightarrow> throughIndex zeroClientAccessToken (st_oauthClientTokenKeys s) (st_oauthClientTokens s) p = Inr y"
  "OAuthAuthorizationCodeByPrefix None p s = (Inr z, s) \<longleftrightarrow> throughIndex zeroCode (st_oauthCodeKeys s) (st_oauthCodes s) p = Inr z"
  "OAuthRefreshTokenByPrefix None p s = (Inr r, s) \<longleftrightarrow> throughIndex zeroRefreshToken (st_oauthRefreshKeys s) (st_oauthRefreshTokens s) p = Inr r"
  by (simp_all add: OAuthAccessTokenByPrefix_def OAuthClientAccessTokenByPrefix_def OAuthAuthorizationCodeByPrefix_def
    OAuthRefreshTokenByPrefix_def reads_def)

lemma scopesSubset_set: "scopesSubset a b \<longleftrightarrow> set a \<subseteq> set b"
  by (auto simp: scopesSubset_def list_all_iff)

context environment
begin

lemma answers_user_token:
  "answers m (authenticateOAuthUserToken m srv c x raw uri) (\<lambda>y M T. \<forall>prefix. M (\<lambda>s. OAuthAccessTokenByPrefix None prefix s = (Inr x, s))
    \<longrightarrow> userBearer m srv c uri raw prefix y M T)"
  unfolding authenticateOAuthUserToken_def userBearer_def
  by (rule answers_mono, (rule answer_rules answers_activeOAuthGrant)+, intro allI impI exI [of _ x])
    (clarsimp simp: scopesSubset_set, intro exI conjI; (assumption | rule refl | simp))

lemma answers_client_token:
  "answers m (authenticateOAuthClientToken m srv c prefix raw uri) (clientBearer m srv c uri raw prefix)"
  unfolding authenticateOAuthClientToken_def clientBearer_def
  by (rule answers_mono, (rule answer_rules)+) (clarsimp simp: index_reads, intro exI conjI; (assumption | rule refl | simp))

lemma access_lookup_runs: "relates (runs m) (callStore m (\<lambda>ce. OAuthAccessTokenByPrefix ce p))"
  unfolding OAuthAccessTokenByPrefix_def by (rule reads_relates)

lemma answers_requireOAuth: "answers m (requireOAuth m srv) (\<lambda>c M T. omd_config srv = Some c)"
  unfolding requireOAuth_def by (rule answers_mono, (rule answer_rules)+) auto

lemma answers_bearer:
  "answers m (AuthenticateOAuthAccessToken m srv uri raw) (\<lambda>y M T. \<exists>c prefix. omd_config srv = Some c
    \<and> parseOAuthBearer ''cba'' raw = Some prefix \<and> (userBearer m srv c uri raw prefix y M T \<or> clientBearer m srv c uri raw prefix y M T))"
  unfolding AuthenticateOAuthAccessToken_def
  by (rule answers_mono, (rule answer_rules answers_requireOAuth answers_client_token answers_user_token
      answers_tryE [OF access_lookup_runs])+) (auto simp: index_reads)

end

text \<open>
  C13: an accepted OAuth access token. When \<^verbatim>\<open>AuthenticateOAuthAccessToken\<close> answers, the bearer has the format of an
  access token and the store's lookup of its prefix answered, at a moment of the request, a token with exactly
  this bearer's digest, unrevoked and unexpired at a reading of the clock. For a token a user granted, its
  client was stored and enabled, its grant stored, unrevoked and given to the client's current metadata, the
  resource, the issuer, the workspace and the user were stored and enabled, the resource is the one the
  resource server named, and every permission behind the grant's scopes was held by the user through an active
  membership. For a token a client obtained for itself, the client was pre-registered, enabled and allowed for
  the resource. The answer carries the token's own user, workspace and scopes, which the grant covers.
\<close>

theorem oauth_bearer_sound:
  assumes "environment m" and "AuthenticateOAuthAccessToken m srv uri raw w = (Inr y, w')"
  shows "\<exists>c prefix. omd_config srv = Some c \<and> parseOAuthBearer ''cba'' raw = Some prefix
    \<and> (userBearer m srv c uri raw prefix y (sometime m w w') (readings w w')
      \<or> clientBearer m srv c uri raw prefix y (sometime m w w') (readings w w'))"
  by (rule answersD [OF environment.answers_bearer [OF assms(1)] assms(2)])

theorem oauth_bearer_sound_witness:
  "\<exists>y w' c prefix. AuthenticateOAuthAccessToken demoManager demoModule [] demoBearer (demoWorld (demoServer demoClient)) = (Inr y, w')
    \<and> userBearer demoManager demoModule c [] demoBearer prefix y (sometime demoManager (demoWorld (demoServer demoClient)) w')
        (readings (demoWorld (demoServer demoClient)) w')"
proof -
  obtain y w' where y: "AuthenticateOAuthAccessToken demoManager demoModule [] demoBearer (demoWorld (demoServer demoClient)) = (Inr y, w')"
    "oaa_UserID y = sampleUUID" using demo_bearer by blast
  then have "\<not> clientBearer demoManager demoModule c [] demoBearer prefix y M T" for c prefix M T by (simp add: clientBearer_def)
  with oauth_bearer_sound [OF quiet_environment [OF demo_quiet] y(1)] y(1) show ?thesis by blast
qed

section \<open>Codes and refresh tokens\<close>

text \<open>How a client proves itself: a public one presents nothing, the others a secret in the header or a signed assertion.\<close>

definition clientProved :: "manager \<Rightarrow> oauthConfig \<Rightarrow> oauthIssuer \<Rightarrow> oauthClient \<Rightarrow> oauthClientProof \<Rightarrow> bool" where
  "clientProved m c issuer client proof \<longleftrightarrow>
     ocl_TokenEndpointAuthMethod client = OAuthAuthNone \<and> opr_ClientSecret proof = [] \<and> opr_ClientAssertion proof = []
   \<or> ocl_TokenEndpointAuthMethod client = OAuthAuthClientSecretBasic \<and> opr_ClientAssertion proof = [] \<and> opr_ClientSecret proof \<noteq> []
     \<and> \<not> opr_ClientSecretInBody proof \<and> ocl_SecretDigest client = oauthDigest m c ''client-secret'' (opr_ClientSecret proof)
   \<or> ocl_TokenEndpointAuthMethod client = OAuthAuthPrivateKeyJWT \<and> opr_ClientSecret proof = [] \<and> opr_ClientAssertion proof \<noteq> []
     \<and> (\<exists>verify n t. oau_ClientAssertions c = Some verify
          \<and> verify n client (ois_Issuer issuer @ ''/token'') (opr_ClientAssertion proof) t = None)"

definition codeStands :: "manager \<Rightarrow> oauthModule \<Rightarrow> oauthConfig \<Rightarrow> oauthClient \<Rightarrow> exchangeOAuthAuthorizationCodeInput
    \<Rightarrow> string \<Rightarrow> oauthAuthorizationCode \<Rightarrow> oauthGrant \<Rightarrow> oauthProtectedResource \<Rightarrow> learnt" where
  "codeStands m srv c client input prefix code g r M T \<longleftrightarrow> parseOAuthBearer ''cbc'' (exi_Code input) = Some prefix
     \<and> M (\<lambda>s. OAuthAuthorizationCodeByPrefix None prefix s = (Inr code, s))
     \<and> oco_ClientRecordID code = ocl_ID client \<and> oco_Digest code = oauthDigest m c ''authorization-code'' (exi_Code input)
     \<and> oco_UsedAt code = None \<and> oco_RedirectURI code = exi_RedirectURI input \<and> (\<exists>n. T n \<and> m_clock m n < oco_ExpiresAt code)
     \<and> pkceVerifierPattern (exi_CodeVerifier input) \<and> verifyPKCE (m_sha m) (exi_CodeVerifier input) (oco_CodeChallenge code)
     \<and> grantStands m srv (exi_Resource input) client (oco_GrantID code) g r M \<and> ors_ID r = oco_ResourceID code \<and> ogr_Scopes g = oco_Scopes code"

definition codeUsed :: "uuid \<Rightarrow> store \<Rightarrow> bool" where
  "codeUsed i s \<longleftrightarrow> (\<exists>x. lookup (st_oauthCodes s) i = Some x \<and> oco_UsedAt x \<noteq> None)"

lemma codeUsed_run: "storeRun sha ok s s' \<Longrightarrow> codeUsed i s \<Longrightarrow> codeUsed i s'"
  unfolding codeUsed_def using permanent_code storeRun_permanent by blast

lemma orCredentialMapped_success [success]: "orCredentialMapped m op f w = (Inr x, w') \<longleftrightarrow> f w = (Inr x, w')"
  by (auto simp: orCredentialMapped_def mapOAuthCredentialStoreError_def success)

lemma answers_orCredentialMapped: "answers m f Q \<Longrightarrow> answers m (orCredentialMapped m op f) Q"
  by (simp add: answers_def success)

context environment
begin

lemma answers_provesClient: "answers m (provesClient m c issuer client proof) (\<lambda>_ M T. clientProved m c issuer client proof)"
  unfolding provesClient_def by (rule answers_mono, (rule answer_rules)+) (auto simp: clientProved_def)

lemma answers_authenticateOAuthClient:
  "answers m (authenticateOAuthClient m srv c proof) (\<lambda>(issuer, client) M T. ois_DisabledAt issuer = None \<and> ocl_DisabledAt client = None
    \<and> clientProved m c issuer client proof)"
  unfolding authenticateOAuthClient_def
  by (rule answers_mono, (rule answer_rules answers_provesClient answers_relates [OF resolveOAuthClient_runs])+) auto

lemma answers_redeemableCode:
  "answers m (redeemableCode m srv c client input) (\<lambda>(code, g, r) M T. \<exists>prefix. codeStands m srv c client input prefix code g r M T)"
  unfolding redeemableCode_def
  by (rule answers_mono, (rule answer_rules answers_activeOAuthGrant answers_relates [OF oauth_revocations_run(1)])+)
    (auto simp: codeStands_def index_reads)

lemma answers_rotatableToken:
  "answers m (rotatableToken m srv c client input) (\<lambda>(x, g, r) M T. grantStands m srv (rfi_Resource input) client (ort_GrantID x) g r M)"
  unfolding rotatableToken_def
  by (rule answers_mono, (rule answer_rules answers_activeOAuthGrant answers_relates [OF refuseReuse_runs])+) auto

lemma answers_consume:
  assumes "commitOk commit"
  shows "answers m (orCredentialMapped m op (callStore m (\<lambda>ce. ConsumeOAuthAuthorizationCode (m_sha m) ce i t a f commit)))
    (\<lambda>_ M T. M (codeUsed i))"
proof -
  have "answers m (callStore m (\<lambda>ce. ConsumeOAuthAuthorizationCode (m_sha m) ce i t a f commit)) (\<lambda>_ M T. M (codeUsed i))"
    by (rule answers_call [where P = "\<lambda>_. codeUsed i"], rule oauth_mutators_run, rule assms)
      (fastforce simp: codeUsed_def dest: consume_success)
  then show ?thesis by (rule answers_orCredentialMapped)
qed

lemma answers_exchange:
  "answers m (ExchangeOAuthAuthorizationCode m srv input) (\<lambda>y M T. \<exists>c issuer client prefix code g r. omd_config srv = Some c
    \<and> ois_DisabledAt issuer = None \<and> ocl_DisabledAt client = None \<and> clientProved m c issuer client (exi_Proof input)
    \<and> codeStands m srv c client input prefix code g r M T \<and> M (codeUsed (oco_ID code)) \<and> otr_Scope y = Join (ogr_Scopes g) '' '')"
  unfolding ExchangeOAuthAuthorizationCode_def
  by (rule answers_mono, (rule answers_change answer_rules answers_requireOAuth answers_authenticateOAuthClient answers_redeemableCode
      answers_relates [OF new_tokens_run(1)] answers_relates [OF new_tokens_run(2)] answers_relates [OF new_tokens_run(4)]
      answers_relates [OF emitOAuthChange_runs] answers_relates [OF oauthIDToken_runs] | (rule answers_consume, assumption))+)
    (auto simp: tokenResponse_def; blast)

end

text \<open>
  C16: what an exchanged code stood for. When \<^verbatim>\<open>ExchangeOAuthAuthorizationCode\<close> returns tokens, the client was
  enabled at an enabled issuer and proved itself by its registered method; the code has the format of a code,
  the store's lookup of its prefix answered a code with this digest, issued to this client and this redirect
  URI, unused and unexpired at a reading of the clock; the verifier has the PKCE form and hashes to the
  challenge of the authorization request; the grant behind it and all it depends on were in force, for the
  resource and with the scopes of the code; and at the end the code is stored as used.
\<close>

theorem code_exchange_sound:
  assumes "environment m" and "ExchangeOAuthAuthorizationCode m srv input w = (Inr y, w')"
  shows "\<exists>c issuer client prefix code g r. omd_config srv = Some c
    \<and> ois_DisabledAt issuer = None \<and> ocl_DisabledAt client = None \<and> clientProved m c issuer client (exi_Proof input)
    \<and> codeStands m srv c client input prefix code g r (sometime m w w') (readings w w')
    \<and> codeUsed (oco_ID code) (w_store w') \<and> otr_Scope y = Join (ogr_Scopes g) '' ''"
proof -
  have "codeUsed i (w_store w')" if "sometime m w w' (codeUsed i)" for i
    using that codeUsed_run unfolding sometime_def by blast
  then show ?thesis using answersD [OF environment.answers_exchange [OF assms(1)] assms(2)] by blast
qed

theorem code_exchange_sound_witness:
  "\<exists>y w' i. ExchangeOAuthAuthorizationCode demoManager demoModule demoExchange (demoWorld (demoServer demoClient)) = (Inr y, w')
    \<and> codeUsed i (w_store w') \<and> \<not> codeUsed i (demoServer demoClient)"
proof -
  obtain y w' where y: "ExchangeOAuthAuthorizationCode demoManager demoModule demoExchange (demoWorld (demoServer demoClient)) = (Inr y, w')"
    using demo_exchange by blast
  from code_exchange_sound [OF quiet_environment [OF demo_quiet] y] obtain i where "codeUsed i (w_store w')" by blast
  moreover have "\<not> codeUsed i (demoServer demoClient)" for i by (simp add: codeUsed_def demo_fields lookup_def)
  ultimately show ?thesis using y by blast
qed

section \<open>Used codes and revoked grants\<close>

lemma throughIndex_Inr:
  "throughIndex zero index records k = Inr x \<longleftrightarrow>
    (\<exists>i. lookup index k = Some i \<and> (lookup records i = Some x \<or> lookup records i = None \<and> x = zero))"
  by (auto simp: throughIndex_def split: option.split)

text \<open>A code that was looked up and is not expired is stored under its identifier, to which its prefix leads.\<close>

lemma code_lookup:
  assumes "OAuthAuthorizationCodeByPrefix None p s = (Inr code, s)" and "t < oco_ExpiresAt code" and "zeroTime \<le> t" and "recordsKeyed s"
  shows "codeNamed p (oco_ID code) s \<and> lookup (st_oauthCodes s) (oco_ID code) = Some code"
proof -
  from assms(1) obtain i where i: "lookup (st_oauthCodeKeys s) p = Some i"
    "lookup (st_oauthCodes s) i = Some code \<or> lookup (st_oauthCodes s) i = None \<and> code = zeroCode"
    by (auto simp: index_reads throughIndex_Inr)
  have "code \<noteq> zeroCode" using assms(2,3) by (auto simp: zeroCode_def)
  with i(2) have "lookup (st_oauthCodes s) i = Some code" by blast
  moreover from this assms(4) have "oco_ID code = i" by (auto simp: recordsKeyed_def dest: keyedD)
  ultimately show ?thesis using i(1) by (simp add: codeNamed_def)
qed

text \<open>
  C15: an authorization code is exchanged once. After an exchange that returned tokens, no request that
  presents a code with the same prefix is ever answered with tokens again, after any history, by whatever
  client and with whatever verifier, provided the clock never shows a time before Go's zero time.
\<close>

theorem code_exchanged_once:
  assumes "environment m" and "\<forall>n. zeroTime \<le> m_clock m n" and "recordsKeyed (w_store w1)"
    and "ExchangeOAuthAuthorizationCode m srv input w1 = (Inr y, w2)" and "history m w2 w3"
    and "parseOAuthBearer ''cbc'' (exi_Code input') = parseOAuthBearer ''cbc'' (exi_Code input)"
  shows "fst (ExchangeOAuthAuthorizationCode (requestOf m metadata ctxErr) srv input' w3) \<noteq> Inr y'"
proof
  let ?m = "requestOf m metadata ctxErr"
  note keys = storeRun_keys and env = environment.request_environment [OF assms(1)]
  assume "fst (ExchangeOAuthAuthorizationCode ?m srv input' w3) = Inr y'"
  then obtain w4 where "ExchangeOAuthAuthorizationCode ?m srv input' w3 = (Inr y', w4)"
    by (cases "ExchangeOAuthAuthorizationCode ?m srv input' w3") simp
  note second = answersD [OF environment.answers_exchange [OF env] this]
  note first = answersD [OF environment.answers_exchange [OF assms(1)] assms(4)]
  have run: "storeRun (m_sha m) commitOk (w_store w2) (w_store w3)" by (rule environment.history_store [OF assms(1,5)])
  from first obtain p code n where 1: "parseOAuthBearer ''cbc'' (exi_Code input) = Some p" "sometime m w1 w2 (codeUsed (oco_ID code))"
    "sometime m w1 w2 (\<lambda>s. OAuthAuthorizationCodeByPrefix None p s = (Inr code, s))" "m_clock m n < oco_ExpiresAt code"
    by (auto simp: codeStands_def)
  from 1(3) obtain s where s: "storeRun (m_sha m) commitOk (w_store w1) s" "storeRun (m_sha m) commitOk s (w_store w2)"
    "OAuthAuthorizationCodeByPrefix None p s = (Inr code, s)" by (auto simp: sometime_def)
  have "codeNamed p (oco_ID code) s" using code_lookup [OF s(3) 1(4)] assms(2) keys [OF s(1) assms(3)] by blast
  then have named: "codeNamed p (oco_ID code) (w_store w3)" using storeRun_codes s(2) run by blast
  have used: "codeUsed (oco_ID code) (w_store w3)" using 1(2) codeUsed_run run unfolding sometime_def by blast
  from second 1(1) assms(6) obtain code' n' where 2: "oco_UsedAt code' = None" "m_clock m n' < oco_ExpiresAt code'"
    "sometime ?m w3 w4 (\<lambda>s. OAuthAuthorizationCodeByPrefix None p s = (Inr code', s))"
    by (auto simp: codeStands_def requestOf_def)
  from 2(3) obtain s' where s': "storeRun (m_sha m) commitOk (w_store w3) s'" "OAuthAuthorizationCodeByPrefix None p s' = (Inr code', s')"
    by (auto simp: sometime_def requestOf_def)
  have "recordsKeyed s'" using keys assms(3) s(1,2) run s'(1) by blast
  with code_lookup [OF s'(2) 2(2)] assms(2) have "codeNamed p (oco_ID code') s'" "lookup (st_oauthCodes s') (oco_ID code') = Some code'" by auto
  with storeRun_codes [OF s'(1) named] codeUsed_run [OF s'(1) used] 2(1) show False by (auto simp: codeNamed_def codeUsed_def)
qed

theorem code_exchanged_once_witness:
  "\<exists>y w2. ExchangeOAuthAuthorizationCode demoManager demoModule demoExchange (demoWorld (demoServer demoClient)) = (Inr y, w2)
    \<and> (\<forall>y'. fst (ExchangeOAuthAuthorizationCode demoManager demoModule demoExchange w2) \<noteq> Inr y')"
proof -
  obtain y w2 where y: "ExchangeOAuthAuthorizationCode demoManager demoModule demoExchange (demoWorld (demoServer demoClient)) = (Inr y, w2)"
    using demo_exchange by blast
  have "fst (ExchangeOAuthAuthorizationCode (requestOf demoManager (m_request demoManager) (m_ctxErr demoManager)) demoModule demoExchange w2) \<noteq> Inr y'" for y'
    by (rule code_exchanged_once [OF quiet_environment [OF demo_quiet] _ _ y history.start refl])
      (use demo_zero demoServer_keyed in \<open>simp_all add: demoWorld_def\<close>)
  then show ?thesis using y by (simp add: requestOf_def)
qed

definition grantRevoked :: "uuid \<Rightarrow> store \<Rightarrow> bool" where
  "grantRevoked i s \<longleftrightarrow> (\<exists>g. lookup (st_oauthGrants s) i = Some g \<and> ogr_RevokedAt g \<noteq> None)"

lemma grantRevoked_run:
  assumes "storeRun sha ok s s'" and "grantRevoked i s"
  shows "grantRevoked i s'"
proof -
  have "stays (\<lambda>x. ogr_RevokedAt x \<noteq> None) (st_oauthGrants s) (st_oauthGrants s')"
    using storeRun_permanent [OF assms(1)] by (simp add: permanent_def)
  from staysD [OF this] assms(2) show ?thesis by (auto simp: grantRevoked_def)
qed

text \<open>What ends a grant: its user or an administrator revokes it, or a call of the store that takes its grants away.\<close>

inductive endsConsent :: "manager \<Rightarrow> oauthModule \<Rightarrow> uuid \<Rightarrow> world \<Rightarrow> world \<Rightarrow> bool" for m srv i where
  by_revocation: "managerRevokeOAuthGrant m srv actor i w = (Inr (), w') \<Longrightarrow> endsConsent m srv i w w'"
| by_call: "endsGrant (m_sha m) i (w_store w) (w_store w') \<Longrightarrow> endsConsent m srv i w w'"

lemma stands_apart:
  assumes "grantStands m srv uri client j g r (sometime m w w')" and "grantRevoked i (w_store w)" and "recordsKeyed (w_store w)"
  shows "ogr_ID g \<noteq> i"
proof -
  from assms(1) obtain s where s: "storeRun (m_sha m) commitOk (w_store w) s" "lookup (st_oauthGrants s) j = Some g" and "ogr_RevokedAt g = None"
    by (auto simp: grantStands_def sometime_def)
  moreover from storeRun_keys [OF s(1) assms(3)] s(2) have "ogr_ID g = j" by (auto simp: recordsKeyed_def dest: keyedD)
  ultimately show ?thesis using grantRevoked_run [OF s(1) assms(2)] by (auto simp: grantRevoked_def)
qed

context environment
begin

lemma endsConsent_revoked:
  assumes "endsConsent m srv i w w'"
  shows "grantRevoked i (w_store w')"
  using assms
proof (cases rule: endsConsent.cases)
  case (by_revocation actor)
  then show ?thesis unfolding managerRevokeOAuthGrant_def emitOAuthChange_def grantRevoked_def
    by (auto simp: success elim!: call_moment dest!: endsGrant.by_revoking endsGrant_has)
next
  case by_call
  then show ?thesis unfolding grantRevoked_def by (rule endsGrant_has)
qed

lemma revoked_grant_refused:
  assumes "grantRevoked i (w_store w)" and "recordsKeyed (w_store w)" and "i \<noteq> 0"
  shows "AuthenticateOAuthAccessToken m srv uri raw w = (Inr y, w') \<Longrightarrow> oaa_GrantID y \<noteq> i"
    and "redeemableCode m srv c client input w = (Inr (code, g, r), w') \<Longrightarrow> ogr_ID g \<noteq> i"
    and "rotatableToken m srv c client refresh w = (Inr (token, g', r'), w') \<Longrightarrow> ogr_ID g' \<noteq> i"
  by (auto dest!: answersD [OF answers_bearer] answersD [OF answers_redeemableCode] answersD [OF answers_rotatableToken]
    stands_apart [OF _ assms(1,2)] simp: userBearer_def clientBearer_def codeStands_def assms(3))

lemma endsConsent_keys:
  assumes "endsConsent m srv i w w'" and "recordsKeyed (w_store w)"
  shows "recordsKeyed (w_store w')"
  using assms
proof (cases rule: endsConsent.cases)
  case (by_revocation actor)
  have "runs m w w'" using by_revocation by (rule relatesD [OF rotations_run(3)])
  then show ?thesis using storeRun_keys assms(2) by (auto simp: runs_def)
next
  case by_call
  with endsGrant_call atomicCall_keys assms(2) show ?thesis by blast
qed

end

text \<open>
  C14: a revoked grant is worth nothing. Once a grant was revoked, by \<^verbatim>\<open>RevokeOAuthGrant\<close> or by a call of the store
  that ends it (a kill switch, a detected replay), then after any history no access token is accepted under it,
  no authorization code is redeemed for it and no refresh token rotates for it, whatever was issued before or
  is issued meanwhile.
\<close>

theorem revoked_grant_worthless:
  assumes "environment m" and "recordsKeyed (w_store w1)" and "i \<noteq> 0" and "endsConsent m srv i w1 w2" and "history m w2 w3"
  shows "(AuthenticateOAuthAccessToken (requestOf m metadata ctxErr) srv uri raw w3 = (Inr y, w4) \<longrightarrow> oaa_GrantID y \<noteq> i)
    \<and> (redeemableCode (requestOf m metadata ctxErr) srv c client input w3 = (Inr (code, g, r), w4) \<longrightarrow> ogr_ID g \<noteq> i)
    \<and> (rotatableToken (requestOf m metadata ctxErr) srv c client refresh w3 = (Inr (token, g', r'), w4) \<longrightarrow> ogr_ID g' \<noteq> i)"
proof -
  have run: "storeRun (m_sha m) commitOk (w_store w2) (w_store w3)" by (rule environment.history_store [OF assms(1,5)])
  have "grantRevoked i (w_store w3)" by (rule grantRevoked_run [OF run environment.endsConsent_revoked [OF assms(1,4)]])
  moreover have "recordsKeyed (w_store w3)" by (rule storeRun_keys [OF run environment.endsConsent_keys [OF assms(1,4,2)]])
  ultimately show ?thesis
    by (intro conjI impI) (erule (2) environment.revoked_grant_refused [OF environment.request_environment [OF assms(1)] _ _ assms(3)])+
qed

theorem revoked_grant_worthless_witness:
  "\<exists>w2. managerRevokeOAuthGrant demoManager demoModule demoActor sampleUUID (demoWorld (demoServer demoClient)) = (Inr (), w2)
    \<and> (\<forall>y w4. AuthenticateOAuthAccessToken demoManager demoModule [] demoBearer w2 = (Inr y, w4) \<longrightarrow> oaa_GrantID y \<noteq> sampleUUID)"
proof -
  obtain w2 where r: "managerRevokeOAuthGrant demoManager demoModule demoActor sampleUUID (demoWorld (demoServer demoClient)) = (Inr (), w2)"
    using demo_revoke by blast
  have "AuthenticateOAuthAccessToken (requestOf demoManager (m_request demoManager) (m_ctxErr demoManager)) demoModule [] demoBearer w2 = (Inr y, w4)
      \<longrightarrow> oaa_GrantID y \<noteq> sampleUUID" for y w4
    using revoked_grant_worthless [OF quiet_environment [OF demo_quiet] _ sampleUUID_nonzero by_revocation [OF r] history.start]
      demoServer_keyed by (simp add: demoWorld_def)
  then show ?thesis using r by (auto simp: requestOf_def)
qed

end
