(* ===== verification/OAuthClients.thy ===== *)
theory OAuthClients
  imports OAuthAccess
begin

text \<open>
  The clients of the authorization server: what every accepted registration looks like, whichever way the
  client came in, and what a refresh of a client metadata document does to an administrator's kill switch.
\<close>

section \<open>Well-formed registrations\<close>

text \<open>The shape the registration rules of \<^verbatim>\<open>newOAuthClient\<close> give a client.\<close>

definition wellFormedClient :: "oauthLibrary \<Rightarrow> oauthClient \<Rightarrow> bool" where
  "wellFormedClient lib k \<longleftrightarrow>
     ocl_Name k \<noteq> [] \<and> length (ocl_Name k) \<le> 200
   \<and> (ocl_ApplicationType k = OAuthApplicationWeb \<or> ocl_ApplicationType k = OAuthApplicationNative)
   \<and> ocl_RedirectURIs k \<noteq> [] \<and> length (ocl_RedirectURIs k) \<le> 20 \<and> distinct (ocl_RedirectURIs k)
   \<and> list_all (validRedirectURI lib (ocl_ApplicationType k)) (ocl_RedirectURIs k)
   \<and> set (ocl_GrantTypes k) \<subseteq> {''authorization_code'', ''refresh_token'', ''client_credentials''} \<and> distinct (ocl_GrantTypes k)
   \<and> (''authorization_code'' \<in> set (ocl_GrantTypes k) \<or> ''client_credentials'' \<in> set (ocl_GrantTypes k))
   \<and> (''authorization_code'' \<in> set (ocl_GrantTypes k) \<longrightarrow> ocl_ResponseTypes k = [''code''])
   \<and> list_all oauthScopePattern (ocl_Scopes k) \<and> distinct (ocl_Scopes k) \<and> length (ocl_Scopes k) \<le> 100
   \<and> (''client_credentials'' \<in> set (ocl_GrantTypes k) \<longleftrightarrow> ocl_ClientCredentialsResources k \<noteq> [])
   \<and> (''client_credentials'' \<in> set (ocl_GrantTypes k) \<longrightarrow> ocl_Source k = OAuthClientPreRegistered \<and> ocl_Scopes k \<noteq> []
        \<and> ocl_TokenEndpointAuthMethod k \<noteq> OAuthAuthNone)
   \<and> (ocl_TokenEndpointAuthMethod k = OAuthAuthNone \<or> ocl_TokenEndpointAuthMethod k = OAuthAuthClientSecretBasic
      \<or> ocl_TokenEndpointAuthMethod k = OAuthAuthPrivateKeyJWT \<and> (ocl_JWKS k \<noteq> [] \<or> ocl_JWKSURI k \<noteq> []))
   \<and> (ocl_Trusted k \<longrightarrow> ocl_Source k = OAuthClientPreRegistered)"

lemma distinct_remdups_adj: "sorted xs \<Longrightarrow> distinct (remdups_adj xs)"
  by (induction xs rule: remdups_adj.induct) auto

lemma length_remdups_adj: "length (remdups_adj xs) \<le> length xs"
  by (induction xs rule: remdups_adj.induct) auto

lemma redirects_ok:
  assumes "normalizeRedirectURIs lib a input = Inr r"
  shows "r \<noteq> []" "length r \<le> 20" "distinct r" "list_all (validRedirectURI lib a) r"
  using assms by (auto simp: normalizeRedirectURIs_def Let_def distinct_remdups_adj list_all_iff split: if_splits)

lemma flows_ok:
  assumes "normalizeOAuthFlowMetadata gs rs = Inr (grants, responses)"
  shows "set grants \<subseteq> {''authorization_code'', ''refresh_token'', ''client_credentials''}" "distinct grants"
    "''authorization_code'' \<in> set grants \<or> ''client_credentials'' \<in> set grants"
    "''authorization_code'' \<in> set grants \<Longrightarrow> responses = [''code'']"
proof -
  define gs' where "gs' = remdups_adj (sort (if gs = [] then [''authorization_code''] else gs))"
  define rs' where "rs' = remdups_adj (sort (if rs = [] then [''code''] else rs))"
  have d: "distinct gs'" unfolding gs'_def by (rule distinct_remdups_adj) simp
  from assms have eq: "grants = gs'" "responses = rs'"
    and kinds: "list_all (\<lambda>grant. grant = ''authorization_code'' \<or> grant = ''refresh_token'' \<or> grant = ''client_credentials'') gs'"
    and some: "''authorization_code'' \<in> set gs' \<or> ''client_credentials'' \<in> set gs'"
    and code: "''authorization_code'' \<in> set gs' \<Longrightarrow> length rs' = 1 \<and> hd rs' = ''code''"
    unfolding normalizeOAuthFlowMetadata_def Let_def gs'_def [symmetric] rs'_def [symmetric]
    by (simp_all del: One_nat_def split: if_split_asm)
  show "set grants \<subseteq> {''authorization_code'', ''refresh_token'', ''client_credentials''}" using kinds unfolding eq list_all_iff by blast
  show "distinct grants" "''authorization_code'' \<in> set grants \<or> ''client_credentials'' \<in> set grants" using d some unfolding eq .
  show "responses = [''code'']" if "''authorization_code'' \<in> set grants"
    using code that unfolding eq by (cases rs') auto
qed

lemma scopes_ok:
  assumes "normalizeOptionalOAuthScopes scopes = Inr r"
  shows "list_all oauthScopePattern r" "distinct r" "length r \<le> 100"
  using assms length_remdups_adj [of "sort (map TrimSpace scopes)"]
  by (auto simp: normalizeOptionalOAuthScopes_def Let_def distinct_remdups_adj list_all_iff split: if_splits)

lemma rules_ok:
  "clientCredentialsRule source grants scopes resources = Inr u \<Longrightarrow> (''client_credentials'' \<in> set grants \<longleftrightarrow> resources \<noteq> [])
    \<and> (''client_credentials'' \<in> set grants \<longrightarrow> source = OAuthClientPreRegistered \<and> scopes \<noteq> [])"
  "authMethodRule lib authMethod grants allowSecret uri jwks = Inr v \<Longrightarrow>
    (authMethod = OAuthAuthNone \<or> authMethod = OAuthAuthClientSecretBasic \<and> allowSecret \<or> authMethod = OAuthAuthPrivateKeyJWT \<and> (jwks \<noteq> [] \<or> uri \<noteq> []))
    \<and> (''client_credentials'' \<in> set grants \<longrightarrow> authMethod \<noteq> OAuthAuthNone)"
  by (auto simp: clientCredentialsRule_def authMethodRule_def split: if_splits)

lemma registration_ok:
  assumes "ocl_Name k \<noteq> []" "length (ocl_Name k) \<le> 200"
    and "ocl_ApplicationType k = OAuthApplicationWeb \<or> ocl_ApplicationType k = OAuthApplicationNative"
    and "normalizeRedirectURIs lib (ocl_ApplicationType k) uris = Inr (ocl_RedirectURIs k)"
    and "normalizeOAuthFlowMetadata gs rs = Inr (ocl_GrantTypes k, ocl_ResponseTypes k)"
    and "normalizeOptionalOAuthScopes scopes = Inr (ocl_Scopes k)"
    and "clientCredentialsRule (ocl_Source k) (ocl_GrantTypes k) (ocl_Scopes k) (ocl_ClientCredentialsResources k) = Inr u"
    and "authMethodRule lib (ocl_TokenEndpointAuthMethod k) (ocl_GrantTypes k) allowSecret (ocl_JWKSURI k) (ocl_JWKS k) = Inr v"
    and "ocl_Trusted k \<longrightarrow> ocl_Source k = OAuthClientPreRegistered"
  shows "wellFormedClient lib k"
proof -
  note rules = rules_ok(1) [OF assms(7)] rules_ok(2) [OF assms(8)]
  show "wellFormedClient lib k"
    unfolding wellFormedClient_def
    using assms(1-3,9) redirects_ok [OF assms(4)] flows_ok [OF assms(5)] scopes_ok [OF assms(6)] rules by (intro conjI impI) blast+
qed

lemma secret_allowed:
  "authMethodRule lib OAuthAuthClientSecretBasic gs allowSecret uri keys = Inr u \<Longrightarrow> allowSecret"
  by (drule rules_ok(2)) (auto simp: OAuthAuthNone_def OAuthAuthPrivateKeyJWT_def OAuthAuthClientSecretBasic_def)

context environment
begin

lemma answers_newOAuthClient:
  "answers m (newOAuthClient m srv c issuer source input allowSecret) (\<lambda>(k, raw) M T. wellFormedClient (omd_library srv) k
    \<and> ocl_Source k = source \<and> ocl_IssuerID k = ois_ID issuer \<and> (ocl_Trusted k \<longrightarrow> ori_Trusted input) \<and> ocl_DisabledAt k = None
    \<and> (ocl_TokenEndpointAuthMethod k = OAuthAuthClientSecretBasic \<longrightarrow> allowSecret))"
  unfolding newOAuthClient_def Let_def
  apply (rule answers_mono, (rule answer_rules answers_relates [OF newID_runs] answers_relates [OF pure_runs(6)])+)
  apply (elim exE conjE disjE; simp only: split_paired_all prod.case prod.inject fst_conv snd_conv)
  subgoal premises prems
    using prems by - (rule conjI, rule registration_ok, simp_all, use secret_allowed in fast)
  subgoal premises prems
    using prems by - (rule conjI, rule registration_ok, simp_all)
  done

end

section \<open>A registration that is accepted\<close>

definition demoRegistration :: oauthClientRegistrationInput where
  "demoRegistration = \<lparr>ori_Name = ''n'', ori_ApplicationType = OAuthApplicationWeb, ori_RedirectURIs = [''u''], ori_GrantTypes = [], ori_ResponseTypes = [],
     ori_Scopes = [], ori_ClientCredentialsResources = [], ori_TokenEndpointAuthMethod = [], ori_JWKSURI = [], ori_JWKS = [], ori_Trusted = False\<rparr>"

lemma demo_trim: "TrimSpace ''n'' = ''n''" "TrimSpace ''u'' = ''u''" "TrimSpace ''i'' = ''i''" "TrimSpace ''c'' = ''c''"
  "ToLower ''h'' = ''h''" "TrimSuffix ''i'' ''/'' = ''i''" "Fields [] = []"
  by code_simp+

lemma demo_rules:
  "normalizeRedirectURIs (omd_library demoModule) OAuthApplicationWeb [''u''] = Inr [''u'']"
  "normalizeOAuthFlowMetadata [] [] = Inr ([''authorization_code''], [''code''])" "normalizeOptionalOAuthScopes [] = Inr []"
  "normalizeClientCredentialsResources (omd_library demoModule) [] = Inr []"
  "clientCredentialsRule source [''authorization_code''] [] [] = Inr ()"
  "authMethodRule (omd_library demoModule) OAuthAuthNone [''authorization_code''] b [] [] = Inr ()"
  "\<exists>x. oauthSectorIdentifier (omd_library demoModule) n [''u''] oidc = Inr x"
  by (simp_all add: normalizeRedirectURIs_def validRedirectURI_def demoModule_def demo_trim normalizeOAuthFlowMetadata_def
    normalizeOptionalOAuthScopes_def normalizeClientCredentialsResources_def clientCredentialsRule_def authMethodRule_def oauthSectorIdentifier_def
    OAuthAuthNone_def OAuthAuthClientSecretBasic_def OAuthAuthPrivateKeyJWT_def Let_def)

lemma demo_client_made:
  assumes "generatorOk w"
  shows "\<exists>k w'. newOAuthClient demoManager demoModule c issuer source demoRegistration b w = (Inr (k, []), w') \<and> w_store w' = w_store w
    \<and> generatorOk w' \<and> ocl_IssuerID k = ois_ID issuer \<and> ocl_Source k = source"
proof -
  obtain x where x: "oauthSectorIdentifier (omd_library demoModule) (w_asked w) [''u''] (ois_OIDCEnabled issuer) = Inr x" using demo_rules(7) by blast
  obtain i w1 where "newID demoManager (w\<lparr>w_asked := w_asked w + 1\<rparr>) = (Inr i, w1)" "w_store w1 = w_store w" "generatorOk w1"
    using newID_succeeds [OF demo_ready(1), of "w\<lparr>w_asked := w_asked w + 1\<rparr>"] assms by (auto simp: generatorOk_def)
  moreover have "OAuthAuthNone \<noteq> OAuthAuthClientSecretBasic" by (simp add: OAuthAuthNone_def OAuthAuthClientSecretBasic_def)
  ultimately show ?thesis using x
    by (simp add: newOAuthClient_def demoRegistration_def demo_trim demo_rules bindE_def failIf_def liftR_def asking_def now_def ret_def Let_def generatorOk_def)
qed

lemma canAudit_kind: "canAudit (event\<lparr>aud_ActorKind := kind\<rparr>) s = canAudit event s"
  by (simp add: canAudit_def)

section \<open>Dynamic registration\<close>

text \<open>What the two modes of dynamic registration ask for: nothing, or an initial access token with registrations left.\<close>

definition registrationAllowed :: "manager \<Rightarrow> oauthConfig \<Rightarrow> oauthIssuer \<Rightarrow> string \<Rightarrow> learnt" where
  "registrationAllowed m c issuer raw M T \<longleftrightarrow> (if ois_DCRMode issuer = OAuthDCRProtected
     then (\<exists>prefix x n. parseOAuthBearer ''cbi'' raw = Some prefix \<and> M (\<lambda>s. OAuthInitialAccessTokenByPrefix None prefix s = (Inr x, s))
       \<and> oit_IssuerID x = ois_ID issuer \<and> oit_RevokedAt x = None \<and> T n \<and> m_clock m n < oit_ExpiresAt x
       \<and> oit_RegistrationCount x < oit_MaxRegistrations x \<and> oit_Digest x = oauthDigest m c ''initial-access-token'' raw)
     else raw = [])"

lemma client_reads:
  "OAuthInitialAccessTokenByPrefix None p s = (Inr x, s) \<longleftrightarrow> throughIndex zeroInitialToken (st_oauthInitialKeys s) (st_oauthInitialTokens s) p = Inr x"
  "OAuthIssuerByURL None u s = (Inr i, s) \<longleftrightarrow> throughIndex zeroIssuer (st_oauthIssuerURLs s) (st_oauthIssuers s) u = Inr i"
  by (simp_all add: OAuthInitialAccessTokenByPrefix_def OAuthIssuerByURL_def reads_def)

lemma answers_orMapped: "answers m f Q \<Longrightarrow> answers m (orMapped m op f) Q"
  by (simp add: answers_def success)

lemma create_client_stored:
  "CreateOAuthClient sha ce k i t c s = (Inr u, s') \<Longrightarrow> lookup (st_oauthClients s') (ocl_ID k) = Some k"
  unfolding CreateOAuthClient_def Let_def by (elim writes_effect) (auto split: option.split)

lemma upsert_client_stored:
  "UpsertOAuthCIMDClient sha ce k c s = (Inr u, s') \<Longrightarrow> lookup (st_oauthClients s') (ocl_ID k) = Some k"
  unfolding UpsertOAuthCIMDClient_def by (elim writes_effect) auto

context environment
begin

lemma answers_initial_lookup:
  "answers m (tryE (callStore m (\<lambda>ce. OAuthInitialAccessTokenByPrefix ce p)))
    (\<lambda>r M T. \<forall>x. r = Inr x \<longrightarrow> M (\<lambda>s. OAuthInitialAccessTokenByPrefix None p s = (Inr x, s)))"
  unfolding client_reads unfolding OAuthInitialAccessTokenByPrefix_def by (rule answers_tryE [OF reads_relates answers_read])

lemma answers_initialAccessToken:
  "answers m (initialAccessToken m c issuer raw) (\<lambda>_ M T. registrationAllowed m c issuer raw M T)"
  unfolding initialAccessToken_def
  by (rule answers_mono, (rule answers_initial_lookup answer_rules)+) (auto simp: registrationAllowed_def)

lemma answers_create:
  assumes "commitOk commit"
  shows "answers m (orMapped m op (callStore m (\<lambda>ce. CreateOAuthClient (m_sha m) ce k i t commit)))
    (\<lambda>_ M T. M (\<lambda>s. lookup (st_oauthClients s) (ocl_ID k) = Some k))"
  by (rule answers_orMapped, rule answers_call [where P = "\<lambda>_ s. lookup (st_oauthClients s) (ocl_ID k) = Some k"],
    rule oauth_mutators_run, rule assms, erule create_client_stored)

lemma answers_register:
  "answers m (RegisterOAuthClient m srv url0 raw input) (\<lambda>(k, secret) M T. \<exists>c url issuer x. omd_config srv = Some c
    \<and> validateIssuerURL (omd_library srv) url0 = Inr url \<and> M (\<lambda>s. OAuthIssuerByURL None url s = (Inr issuer, s))
    \<and> ois_DisabledAt issuer = None \<and> ois_DCRMode issuer \<noteq> OAuthDCRDisabled \<and> registrationAllowed m c issuer raw M T
    \<and> M (\<lambda>s. lookup (st_oauthClients s) (ocl_ID x) = Some x) \<and> k = publicOAuthClient x \<and> wellFormedClient (omd_library srv) x
    \<and> ocl_Source x = OAuthClientDCR \<and> ocl_IssuerID x = ois_ID issuer \<and> \<not> ocl_Trusted x \<and> ocl_DisabledAt x = None
    \<and> (ocl_TokenEndpointAuthMethod x = OAuthAuthClientSecretBasic \<longrightarrow> ois_DCRMode issuer = OAuthDCRProtected \<and> ois_DCRAllowClientSecrets issuer))"
  unfolding RegisterOAuthClient_def Let_def
  by (rule answers_mono, (rule answers_change answer_rules answers_requireOAuth answers_newOAuthClient answers_initialAccessToken
      answers_relates [OF newAudit_runs] answers_relates [OF emitOAuthChange_runs] | (rule answers_create, assumption))+)
    (clarsimp simp: client_reads, intro exI conjI; (assumption | rule refl | simp))

end

text \<open>
  C17: what an accepted dynamic registration stored. When \<^verbatim>\<open>RegisterOAuthClient\<close> returns, the issuer of the URL was
  stored, enabled and open to dynamic registration; a protected issuer was shown an unrevoked, unexpired initial
  access token of its own with registrations left, an open one was shown none. The client that was stored, of
  which the answer is the copy without the secret's digest, is well formed: a name, an application type, up to
  twenty distinct valid redirect URIs, known grant types with the code response, at most a hundred distinct
  scopes of the scope pattern, and an authentication method with its keys. It is never trusted, never allowed the
  client credentials grant, and holds a secret only when the protected issuer allows secrets.
\<close>

theorem dynamic_registration_sound:
  assumes "environment m" and "RegisterOAuthClient m srv issuerURL raw input w = (Inr (k, secret), w')"
  shows "\<exists>c url issuer x. omd_config srv = Some c \<and> validateIssuerURL (omd_library srv) issuerURL = Inr url
    \<and> sometime m w w' (\<lambda>s. OAuthIssuerByURL None url s = (Inr issuer, s))
    \<and> ois_DisabledAt issuer = None \<and> ois_DCRMode issuer \<noteq> OAuthDCRDisabled
    \<and> registrationAllowed m c issuer raw (sometime m w w') (readings w w')
    \<and> sometime m w w' (\<lambda>s. lookup (st_oauthClients s) (ocl_ID x) = Some x) \<and> k = publicOAuthClient x
    \<and> wellFormedClient (omd_library srv) x \<and> ocl_Source x = OAuthClientDCR \<and> ocl_IssuerID x = ois_ID issuer
    \<and> \<not> ocl_Trusted x \<and> ''client_credentials'' \<notin> set (ocl_GrantTypes x) \<and> ocl_DisabledAt x = None
    \<and> (ocl_TokenEndpointAuthMethod x = OAuthAuthClientSecretBasic
         \<longrightarrow> ois_DCRMode issuer = OAuthDCRProtected \<and> ois_DCRAllowClientSecrets issuer)"
proof -
  have "''client_credentials'' \<notin> set (ocl_GrantTypes x)" if "wellFormedClient lib x" "ocl_Source x = OAuthClientDCR" for x lib
    using that by (auto simp: wellFormedClient_def OAuthClientDCR_def OAuthClientPreRegistered_def)
  note untrusted = this
  show ?thesis using answersD [OF environment.answers_register [OF assms(1)] assms(2)]
    unfolding prod.case by (elim exE conjE, intro exI conjI) (assumption | erule (1) untrusted)+
qed

definition openIssuer :: oauthIssuer where
  "openIssuer = demoIssuer\<lparr>ois_DCRMode := OAuthDCROpen, ois_DCROpenRegistrationLimit := 10, ois_CIMDMode := OAuthCIMDPublicWeb\<rparr>"

definition openServer :: store where
  "openServer = (demoServer demoClient)\<lparr>st_oauthIssuers := [(30, openIssuer)], st_oauthClients := [], st_oauthClientKeys := []\<rparr>"

lemma openIssuer_fields: "ois_ID openIssuer = 30" "ois_DisabledAt openIssuer = None" "ois_DCRMode openIssuer = OAuthDCROpen"
  "ois_DCROpenRegistrationLimit openIssuer = 10" "ois_CIMDMode openIssuer = OAuthCIMDPublicWeb"
  "OAuthDCROpen \<noteq> OAuthDCRDisabled" "OAuthDCROpen \<noteq> OAuthDCRProtected" "OAuthCIMDPublicWeb \<noteq> OAuthCIMDDisabled"
  by (simp_all add: openIssuer_def demoIssuer_def zeroIssuer_def OAuthDCROpen_def OAuthDCRDisabled_def OAuthDCRProtected_def OAuthCIMDPublicWeb_def
    OAuthCIMDDisabled_def)

lemma openServer_fields: "st_oauthIssuers openServer = [(30, openIssuer)]" "st_oauthClients openServer = []" "st_oauthClientKeys openServer = []"
  by (simp_all add: openServer_def)

lemma demo_registered: "\<exists>y w'. RegisterOAuthClient demoManager demoModule ''i'' [] demoRegistration (demoWorld openServer) = (Inr y, w')"
proof -
  let ?m = demoManager and ?s = openServer
  let ?w = "(demoWorld ?s)\<lparr>w_calls := 1\<rparr>"
  have url: "validateIssuerURL (omd_library demoModule) ''i'' = Inr ''i''"
    by (simp add: validateIssuerURL_def validatePublicHTTPSURL_def demoModule_def demo_trim)
  have find: "OAuthIssuerByURL None ''i'' ?s = (Inr openIssuer, ?s)"
    by (simp add: client_reads throughIndex_def openServer_def)
  have "generatorOk ?w" by (simp add: generatorOk_def demoWorld_def)
  from demo_client_made [OF this, of demoConfig openIssuer OAuthClientDCR False] obtain k w1 where
    k: "newOAuthClient ?m demoModule demoConfig openIssuer OAuthClientDCR demoRegistration False ?w = (Inr (k, []), w1)" "w_store w1 = ?s" "generatorOk w1"
    "ocl_IssuerID k = 30" by (auto simp: demoWorld_def openIssuer_fields)
  obtain event w2 where e: "newAudit ?m 0 ''oauth.client.dynamic_register'' ''oauth_client'' (UUID_String (ocl_ID k)) 0 AuditSucceeded [] w1 = (Inr event, w2)"
    "w_store w2 = ?s" "generatorOk w2" "\<And>s. openLog s \<Longrightarrow> canAudit event s = None"
    using newAudit_accepted [OF demo_ready(1) k(3) demo_ready(3), of "''oauth.client.dynamic_register''" 0 "''oauth_client''" "UUID_String (ocl_ID k)" 0 AuditSucceeded "[]"]
      k(2) by auto
  define audit where "audit = event\<lparr>aud_ActorKind := ActorSystem\<rparr>"
  have "openLog ?s" using demoServer_log [of demoClient] by (simp add: openLog_def openServer_def)
  then have ok: "canAudit audit ?s = None" using e(4) [of ?s] by (simp only: audit_def canAudit_kind)
  obtain meta w3 ch where ch: "newOAuthChange ?m ''oauth.client.registered'' ''oauth.client.dynamic_register'' audit k 0 0 0 0 (ocl_Scopes k) w2
      = (Inr (ch, transactionalCommit ?m audit ''oauth.change'' meta), w3)" "w_store w3 = ?s"
    using change_succeeds [OF e(3), of "''oauth.client.registered''" "''oauth.client.dynamic_register''" audit k 0 0 0 0 "ocl_Scopes k"] e(2) by metis
  have "fst (CreateOAuthClient (m_sha ?m) None k 0 t (transactionalCommit ?m audit ''oauth.change'' meta) ?s) = Inr ()" for t
    unfolding CreateOAuthClient_def
    by (subst mutate_succeeds [where x = None]) (simp_all add: createOAuthClientGuard_def activeDCRClients_def Prelude.count_def keep_def require_def ok transactionalCommit_def auditOnly_def
      demo_ready openServer_fields k openIssuer_fields)
  then obtain w4 where "callStore ?m (\<lambda>ce. CreateOAuthClient (m_sha ?m) ce k 0 (m_clock ?m (w_ticks w3)) (transactionalCommit ?m audit ''oauth.change'' meta))
      (w3\<lparr>w_ticks := Suc (w_ticks w3)\<rparr>) = (Inr (), w4)"
    using quiet_write [OF demo_quiet, of "\<lambda>ce. CreateOAuthClient (m_sha ?m) ce k 0 (m_clock ?m (w_ticks w3)) (transactionalCommit ?m audit ''oauth.change'' meta)"
      "w3\<lparr>w_ticks := Suc (w_ticks w3)\<rparr>" "()"] ch(2) by auto
  moreover have "demoRegistration\<lparr>ori_Trusted := False\<rparr> = demoRegistration" by (simp add: demoRegistration_def)
  ultimately show ?thesis using k(1) e(1) ch(1) [unfolded audit_def] find url
    by (simp add: RegisterOAuthClient_def requireOAuth_def demo_module demo_steps initialAccessToken_def openIssuer_fields orMapped_def
      quiet_callStore [OF demo_quiet] emitOAuthChange_def emit_def Let_def audit_def)
qed

theorem dynamic_registration_sound_witness:
  "\<exists>k secret w' x. RegisterOAuthClient demoManager demoModule ''i'' [] demoRegistration (demoWorld openServer) = (Inr (k, secret), w')
    \<and> k = publicOAuthClient x \<and> wellFormedClient (omd_library demoModule) x"
proof -
  obtain k secret w' where "RegisterOAuthClient demoManager demoModule ''i'' [] demoRegistration (demoWorld openServer) = (Inr (k, secret), w')"
    using demo_registered by force
  from dynamic_registration_sound [OF quiet_environment [OF demo_quiet] this] this show ?thesis by blast
qed

section \<open>Client metadata documents\<close>

lemma wellFormed_updates [simp]:
  "wellFormedClient lib (k\<lparr>ocl_ClientID := a\<rparr>) = wellFormedClient lib k" "wellFormedClient lib (k\<lparr>ocl_MetadataExpiresAt := b\<rparr>) = wellFormedClient lib k"
  "wellFormedClient lib (k\<lparr>ocl_CreatedAt := t\<rparr>) = wellFormedClient lib k" "wellFormedClient lib (k\<lparr>ocl_UpdatedAt := t\<rparr>) = wellFormedClient lib k"
  "wellFormedClient lib (k\<lparr>ocl_MetadataHash := h\<rparr>) = wellFormedClient lib k" "wellFormedClient lib (k\<lparr>ocl_ID := i\<rparr>) = wellFormedClient lib k"
  by (simp_all add: wellFormedClient_def)

context environment
begin

lemma answers_metadata_client:
  "answers m (oauthClientFromMetadata m srv c issuer document) (\<lambda>k M T. wellFormedClient (omd_library srv) k
    \<and> ocl_Source k = OAuthClientCIMD \<and> ocl_IssuerID k = ois_ID issuer \<and> ocl_ClientID k = ocd_ClientID document \<and> ocl_DisabledAt k = None)"
  unfolding oauthClientFromMetadata_def Let_def
  by (rule answers_mono, (rule answer_rules answers_newOAuthClient)+) clarsimp

lemma saved_client:
  assumes "saveCIMDClient m client resolved w = (Inr y, w')" and "ocl_ID client \<noteq> 0"
  shows "y = resolved\<lparr>ocl_ID := ocl_ID client, ocl_CreatedAt := ocl_CreatedAt client\<rparr> \<and> lookup (st_oauthClients (w_store w')) (ocl_ID client) = Some y"
proof -
  define x where "x = resolved\<lparr>ocl_ID := ocl_ID client, ocl_CreatedAt := ocl_CreatedAt client\<rparr>"
  have call: "y = x \<and> (\<exists>w1 w2 commit. callStore m (\<lambda>ce. UpsertOAuthCIMDClient (m_sha m) ce x commit) w1 = (Inr (), w2) \<and> w_store w' = w_store w2)"
    using assms(1) unfolding saveCIMDClient_def if_P [OF assms(2)] x_def [symmetric] Let_def
    by (simp only: success_steps success_calls success_cases(4) success_ret emitOAuthChange_def, elim exE conjE, intro conjI exI) (assumption | simp)+
  have id: "ocl_ID x = ocl_ID client" by (simp add: x_def)
  from call obtain w1 w2 commit where c: "callStore m (\<lambda>ce. UpsertOAuthCIMDClient (m_sha m) ce x commit) w1 = (Inr (), w2)" "y = x" "w_store w' = w_store w2"
    by blast
  from c(1) obtain ce s where "UpsertOAuthCIMDClient (m_sha m) ce x commit s = (Inr (), w_store w2)" by (rule call_moment)
  from upsert_client_stored [OF this] show ?thesis unfolding x_def [symmetric] c id by simp
qed

lemma fetched_client:
  assumes "fetchCIMDClient m srv c issuer clientID client w = (Inr y, w')" and "ocl_ID client \<noteq> 0"
  shows "wellFormedClient (omd_library srv) y \<and> ocl_DisabledAt y = None \<and> ocl_ID y = ocl_ID client
    \<and> lookup (st_oauthClients (w_store w')) (ocl_ID client) = Some y"
proof -
  have "rejectCIMD m issuer clientID reason v \<noteq> (Inr y, w')" for reason v by (simp add: rejectCIMD_def success)
  with assms(1) obtain document x w1 w2 where x: "oauthClientFromMetadata m srv c issuer document w1 = (Inr x, w2)"
    and save: "saveCIMDClient m client x w2 = (Inr y, w')"
    unfolding fetchCIMDClient_def by (fastforce simp: success split: if_splits option.splits sum.splits)
  from answersD [OF answers_metadata_client x] saved_client [OF save assms(2)] show ?thesis by auto
qed

end

text \<open>
  C34: a refreshed metadata document undoes an administrator's disabling. When \<^verbatim>\<open>resolveOAuthClient\<close> finds a client
  that came from a metadata document and whose metadata has expired, and the refetched document is accepted, the
  record that is returned and stored under the client's identifier is enabled, whatever \<^verbatim>\<open>DisabledAt\<close> was: only the
  identifier and the time of creation are carried over from the stored record.
\<close>

theorem cimd_refresh_undoes_disable:
  assumes "environment m"
    and "callStore m (\<lambda>ce. OAuthClientByClientID ce (ois_ID issuer) (TrimSpace clientID)) w = (Inr client, w1)"
    and "ocl_ID client \<noteq> 0" and "ocl_Source client = OAuthClientCIMD"
    and "ocl_MetadataExpiresAt client = Some e" and "e \<le> m_clock m (w_ticks w1)"
    and "resolveOAuthClient m srv c issuer clientID w = (Inr y, w')"
  shows "ocl_DisabledAt y = None \<and> ocl_ID y = ocl_ID client \<and> lookup (st_oauthClients (w_store w')) (ocl_ID client) = Some y"
proof -
  from assms(7) have "fetchCIMDClient m srv c issuer (TrimSpace clientID) client (w1\<lparr>w_ticks := w_ticks w1 + 1\<rparr>) = (Inr y, w')"
    using assms(2,4-6) by (auto simp: resolveOAuthClient_def Let_def success)
  from environment.fetched_client [OF assms(1) this assms(3)] show ?thesis by blast
qed

definition demoDocument :: oauthClientMetadataDocument where
  "demoDocument = \<lparr>ocd_ClientID = ''c'', ocd_ClientName = ''n'', ocd_ApplicationType = OAuthApplicationWeb, ocd_RedirectURIs = [''u''], ocd_GrantTypes = [],
     ocd_ResponseTypes = [], ocd_Scope = [], ocd_TokenEndpointAuthMethod = [], ocd_JWKSURI = [], ocd_JWKS = [], ocd_FetchedAt = 1,
     ocd_ExpiresAt = 1000000000000\<rparr>"

definition fetchConfig :: oauthConfig where
  "fetchConfig = demoConfig\<lparr>oau_MetadataFetcher := Some (\<lambda>n clientID. Inr demoDocument)\<rparr>"

definition disabledClient :: oauthClient where
  "disabledClient = demoClient\<lparr>ocl_Source := OAuthClientCIMD, ocl_MetadataExpiresAt := Some 0, ocl_DisabledAt := Some 0\<rparr>"

lemma demo_client_id: "\<exists>url. validateCIMDClientID (omd_library demoModule) ''c'' = Inr url"
proof -
  have "list_all plainSegment (Split CHR ''/'' ''/p'')" "Clean ''/p'' = ''/p''" by code_simp+
  then show ?thesis by (simp add: validateCIMDClientID_def validatePublicHTTPSURL_def demoModule_def demo_trim)
qed

lemma demo_document:
  assumes "generatorOk w" and "w_ticks w = 1"
  shows "\<exists>k w'. oauthClientFromMetadata demoManager demoModule fetchConfig openIssuer demoDocument w = (Inr k, w') \<and> w_store w' = w_store w
    \<and> generatorOk w' \<and> ocl_ClientID k = ''c'' \<and> ocl_IssuerID k = 30"
proof -
  have "generatorOk (w\<lparr>w_ticks := Suc (Suc 0)\<rparr>)" using assms(1) by (simp add: generatorOk_def)
  from demo_client_made [OF this, of fetchConfig openIssuer OAuthClientCIMD False] obtain k w1 where
    k: "newOAuthClient demoManager demoModule fetchConfig openIssuer OAuthClientCIMD demoRegistration False (w\<lparr>w_ticks := Suc (Suc 0)\<rparr>) = (Inr (k, []), w1)"
    "w_store w1 = w_store w" "generatorOk w1" "ocl_IssuerID k = 30" by (auto simp: openIssuer_fields)
  have input: "\<lparr>ori_Name = ocd_ClientName demoDocument, ori_ApplicationType = ocd_ApplicationType demoDocument,
        ori_RedirectURIs = ocd_RedirectURIs demoDocument, ori_GrantTypes = ocd_GrantTypes demoDocument,
        ori_ResponseTypes = ocd_ResponseTypes demoDocument, ori_Scopes = Fields (ocd_Scope demoDocument),
        ori_ClientCredentialsResources = [], ori_TokenEndpointAuthMethod = ocd_TokenEndpointAuthMethod demoDocument,
        ori_JWKSURI = ocd_JWKSURI demoDocument, ori_JWKS = ocd_JWKS demoDocument, ori_Trusted = False\<rparr> = demoRegistration"
    by (simp add: demoDocument_def demoRegistration_def demo_trim)
  show ?thesis using demo_client_id k assms(2) unfolding oauthClientFromMetadata_def input
    by (auto simp: demoDocument_def issuerAllowsCIMD_def openIssuer_fields zeroTime_def second_def demo_module
      bindE_def failIf_def now_def ret_def Let_def generatorOk_def)
qed

lemma disabledClient_fields: "ocl_ID disabledClient = 31" "ocl_Source disabledClient = OAuthClientCIMD"
  "ocl_MetadataExpiresAt disabledClient = Some 0" "ocl_DisabledAt disabledClient = Some 0"
  by (simp_all add: disabledClient_def demoClient_def)

lemma demo_save:
  assumes "generatorOk w" and "w_store w = demoServer disabledClient" and "ocl_ClientID k = ''c''" and "ocl_IssuerID k = 30"
  shows "\<exists>y w'. saveCIMDClient demoManager disabledClient k w = (Inr y, w')"
proof -
  let ?m = demoManager and ?s = "demoServer disabledClient"
  define x where "x = k\<lparr>ocl_ID := 31, ocl_CreatedAt := ocl_CreatedAt disabledClient\<rparr>"
  define changed where "changed = (ocl_MetadataHash disabledClient \<noteq> ocl_MetadataHash k)"
  define name where "name = (if changed then ''oauth.cimd.changed'' else ''oauth.cimd.resolved'')"
  define action where "action = (if changed then ''oauth.cimd.change'' else ''oauth.cimd.resolve'')"
  have "action \<noteq> []" by (simp add: action_def)
  from newAudit_accepted [OF demo_ready(1) assms(1) demo_ready(3) this, of 0 "''oauth_client''" "UUID_String 31" 0 AuditSucceeded "[]"]
  obtain event w2 where e: "newAudit ?m 0 action ''oauth_client'' (UUID_String 31) 0 AuditSucceeded [] w = (Inr event, w2)"
    "w_store w2 = ?s" "generatorOk w2" "\<And>s. openLog s \<Longrightarrow> canAudit event s = None" using assms(2) by auto
  define audit where "audit = event\<lparr>aud_ActorKind := ActorSystem\<rparr>"
  have ok: "canAudit audit ?s = None" using e(4) [OF demoServer_log] by (simp only: audit_def canAudit_kind)
  obtain meta w3 ch where ch: "newOAuthChange ?m name action audit x 0 0 0 0 (ocl_Scopes x) w2 = (Inr (ch, transactionalCommit ?m audit ''oauth.change'' meta), w3)"
    "w_store w3 = ?s" using change_succeeds [OF e(3), of name action audit x 0 0 0 0 "ocl_Scopes x"] e(2) by metis
  have "fst (UpsertOAuthCIMDClient (m_sha ?m) None x (transactionalCommit ?m audit ''oauth.change'' meta) ?s) = Inr ()"
    unfolding UpsertOAuthCIMDClient_def
    by (subst mutate_succeeds [where x = "()"]) (simp_all add: x_def assms(3,4) require_def ok transactionalCommit_def auditOnly_def demo_ready)
  then obtain w4 where "callStore ?m (\<lambda>ce. UpsertOAuthCIMDClient (m_sha ?m) ce x (transactionalCommit ?m audit ''oauth.change'' meta)) w3 = (Inr (), w4)"
    using quiet_write [OF demo_quiet, of "\<lambda>ce. UpsertOAuthCIMDClient (m_sha ?m) ce x (transactionalCommit ?m audit ''oauth.change'' meta)" w3 "()"] ch(2) by auto
  moreover have "ocl_ID x = 31" by (simp add: x_def)
  ultimately show ?thesis using e(1) ch(1) unfolding saveCIMDClient_def disabledClient_fields
    by (simp add: tryE_def changed_def [symmetric] name_def [symmetric] action_def [symmetric] x_def [symmetric] audit_def
      bindE_def ret_def orMapped_def emitOAuthChange_def emit_def)
qed

theorem cimd_refresh_undoes_disable_witness:
  "\<exists>y w'. ocl_DisabledAt disabledClient \<noteq> None
    \<and> OAuthClientByClientID None 30 ''c'' (demoServer disabledClient) = (Inr disabledClient, demoServer disabledClient)
    \<and> resolveOAuthClient demoManager demoModule fetchConfig openIssuer ''c'' (demoWorld (demoServer disabledClient)) = (Inr y, w')
    \<and> lookup (st_oauthClients (w_store w')) 31 = Some y \<and> ocl_DisabledAt y = None"
proof -
  let ?m = demoManager and ?w = "demoWorld (demoServer disabledClient)" and ?s = "demoServer disabledClient"
  let ?w1 = "?w\<lparr>w_calls := 1\<rparr>" and ?w2 = "?w\<lparr>w_calls := 1, w_ticks := 1, w_asked := 1\<rparr>"
  have find: "OAuthClientByClientID None 30 ''c'' ?s = (Inr disabledClient, ?s)"
    by (simp add: OAuthClientByClientID_def reads_def throughIndex_def)
  then have read: "callStore ?m (\<lambda>ce. OAuthClientByClientID ce (ois_ID openIssuer) (TrimSpace ''c'')) ?w = (Inr disabledClient, ?w1)"
    by (simp add: quiet_callStore [OF demo_quiet] demo_trim openIssuer_fields demoWorld_def)
  have fetch: "oau_MetadataFetcher fetchConfig = Some (\<lambda>n clientID. Inr demoDocument)" by (simp add: fetchConfig_def)
  have g: "generatorOk ?w2" by (simp add: generatorOk_def demoWorld_def)
  from demo_document [OF g] obtain k w3 where k: "oauthClientFromMetadata ?m demoModule fetchConfig openIssuer demoDocument ?w2 = (Inr k, w3)"
    "w_store w3 = ?s" "generatorOk w3" "ocl_ClientID k = ''c''" "ocl_IssuerID k = 30" by (auto simp: demoWorld_def)
  from demo_save [OF k(3,2,4,5)] obtain y w' where "saveCIMDClient ?m disabledClient k w3 = (Inr y, w')" by blast
  with k(1,4) read have y: "resolveOAuthClient ?m demoModule fetchConfig openIssuer ''c'' ?w = (Inr y, w')"
    using demo_client_id fetch
    by (auto simp: resolveOAuthClient_def fetchCIMDClient_def demo_trim openIssuer_fields disabledClient_fields issuerAllowsCIMD_def demo_module
      Let_def bindE_def failIf_def ret_def tryE_def asking_def now_def demoWorld_def)
  show ?thesis using cimd_refresh_undoes_disable [OF quiet_environment [OF demo_quiet] read _ _ _ _ y, of 0] find y
    by (auto simp: disabledClient_fields demo_module)
qed

end
