(* ===== verification/Directory.thy ===== *)
theory Directory
  imports ManagerSCIM Instances
begin

text \<open>
  What a directory decides: the role a provisioned user gets from the groups that hold them, and the walks over
  all groups and users of a configuration that recompute those roles (\<^verbatim>\<open>scimRoleForUser\<close>, \<^verbatim>\<open>allSCIMUsers\<close> and
  \<^verbatim>\<open>allSCIMGroups\<close> of \<^verbatim>\<open>scim.go\<close>).
\<close>

section \<open>Roles by priority\<close>

text \<open>The mappings that apply to a user: those of the groups that stand and hold the user.\<close>

definition matchedMappings :: "scimGroupRoleMapping list \<Rightarrow> uuid \<Rightarrow> scimGroup list \<Rightarrow> scimGroupRoleMapping list" where
  "matchedMappings mappings linkID groups =
    concat (map (\<lambda>grp. filter (\<lambda>mapping. sgm_ExternalID mapping = sgrp_ExternalID grp) mappings)
      (filter (\<lambda>grp. sgrp_DeletedAt grp = None \<and> linkID \<in> set (sgrp_MemberIDs grp)) groups))"

text \<open>The selection among mappings that all apply.\<close>

fun pick :: "(role \<times> int) option \<Rightarrow> scimGroupRoleMapping list \<Rightarrow> (role \<times> int) option result" where
  "pick selected [] = Inr selected"
| "pick None (x # xs) = pick (Some (sgm_Role x, sgm_Priority x)) xs"
| "pick (Some (r, p)) (x # xs) =
    (if sgm_Priority x > p then pick (Some (sgm_Role x, sgm_Priority x)) xs
     else if sgm_Priority x = p \<and> sgm_Role x \<noteq> r then Inl ErrConflict
     else pick (Some (r, p)) xs)"

lemma selectMapping_pick:
  "selectMapping externalID selected ms = pick selected (filter (\<lambda>mapping. sgm_ExternalID mapping = externalID) ms)"
  by (induction externalID selected ms rule: selectMapping.induct) (auto split: option.split)

lemma pick_append: "pick selected (xs @ ys) = (case pick selected xs of Inl err \<Rightarrow> Inl err | Inr selected' \<Rightarrow> pick selected' ys)"
  by (induction selected xs rule: pick.induct) simp_all

lemma selectRole_pick: "selectRole mappings linkID selected groups = pick selected (matchedMappings mappings linkID groups)"
  by (induction mappings linkID selected groups rule: selectRole.induct)
    (simp_all add: matchedMappings_def selectMapping_pick pick_append split: sum.split)

text \<open>The selected mapping is the best of those seen so far.\<close>

definition bestOf :: "scimGroupRoleMapping set \<Rightarrow> (role \<times> int) option \<Rightarrow> bool" where
  "bestOf seen selected \<longleftrightarrow> (case selected of
     None \<Rightarrow> seen = {}
   | Some (r, p) \<Rightarrow> (\<exists>x \<in> seen. sgm_Role x = r \<and> sgm_Priority x = p)
       \<and> (\<forall>y \<in> seen. sgm_Priority y \<le> p \<and> (sgm_Priority y = p \<longrightarrow> sgm_Role y = r)))"

definition conflictIn :: "scimGroupRoleMapping set \<Rightarrow> bool" where
  "conflictIn seen \<longleftrightarrow> (\<exists>x \<in> seen. \<exists>y \<in> seen. sgm_Priority x = sgm_Priority y \<and> sgm_Role x \<noteq> sgm_Role y)"

lemma insert_seen: "seen \<union> set (x # xs) = insert x seen \<union> set xs"
  by simp

lemma pick_best:
  assumes "bestOf seen selected"
  shows "case pick selected xs of Inr selected' \<Rightarrow> bestOf (seen \<union> set xs) selected' | Inl err \<Rightarrow> err = ErrConflict \<and> conflictIn (seen \<union> set xs)"
  using assms
proof (induction selected xs arbitrary: seen rule: pick.induct)
  case (2 x xs)
  have "bestOf (insert x seen) (Some (sgm_Role x, sgm_Priority x))" using 2(2) by (simp add: bestOf_def)
  from 2(1) [OF this] show ?case unfolding insert_seen by simp
next
  case (3 r p x xs)
  consider (higher) "sgm_Priority x > p" | (conflict) "sgm_Priority x = p" "sgm_Role x \<noteq> r" | (other) "sgm_Priority x \<le> p" "sgm_Priority x = p \<longrightarrow> sgm_Role x = r"
    by linarith
  then show ?case
  proof cases
    case higher
    have "\<forall>y \<in> seen. sgm_Priority y < sgm_Priority x" using 3(3) higher unfolding bestOf_def by fastforce
    then have "bestOf (insert x seen) (Some (sgm_Role x, sgm_Priority x))" by (fastforce simp: bestOf_def)
    from 3(1) [OF higher this] show ?thesis using higher unfolding insert_seen by simp
  next
    case conflict
    from 3(3) obtain y where "y \<in> seen" "sgm_Role y = r" "sgm_Priority y = p" by (auto simp: bestOf_def)
    with conflict have "conflictIn (insert x seen \<union> set xs)" unfolding conflictIn_def by (intro bexI [of _ x] bexI [of _ y]) auto
    with conflict show ?thesis unfolding insert_seen by simp
  next
    case other
    with 3(3) have "bestOf (insert x seen) (Some (r, p))" unfolding bestOf_def by simp
    moreover have "\<not> p < sgm_Priority x" "\<not> (sgm_Priority x = p \<and> sgm_Role x \<noteq> r)" using other by auto
    ultimately show ?thesis using 3(2) [of "insert x seen"] unfolding insert_seen by auto
  qed
qed simp

text \<open>
  C28: the role a directory gives. \<^verbatim>\<open>scimRoleForUser\<close> returns the default role when no mapping applies to the user;
  otherwise a role it returns is that of an applicable mapping of the highest priority, and every applicable
  mapping of that priority agrees. It fails only with \<^verbatim>\<open>ErrConflict\<close>, and only when two applicable mappings
  of one priority disagree.
\<close>

theorem directory_role_decided:
  "(\<forall>r. scimRoleForUser configuration groups linkID = Inr r \<longrightarrow>
      (let matched = matchedMappings (scfg_GroupRoleMappings configuration) linkID groups in
       if matched = [] then r = scfg_DefaultRole configuration
       else (\<exists>x \<in> set matched. sgm_Role x = r \<and> (\<forall>y \<in> set matched. sgm_Priority y \<le> sgm_Priority x
         \<and> (sgm_Priority y = sgm_Priority x \<longrightarrow> sgm_Role y = r)))))
   \<and> (\<forall>err. scimRoleForUser configuration groups linkID = Inl err \<longrightarrow>
      err = ErrConflict \<and> conflictIn (set (matchedMappings (scfg_GroupRoleMappings configuration) linkID groups)))"
proof -
  let ?matched = "matchedMappings (scfg_GroupRoleMappings configuration) linkID groups"
  have "bestOf {} None" by (simp add: bestOf_def)
  note best = pick_best [OF this, of ?matched]
  show ?thesis
  proof (cases "pick None ?matched")
    case (Inl err)
    with best show ?thesis by (simp add: scimRoleForUser_def selectRole_pick)
  next
    case (Inr selected)
    with best have sel: "bestOf (set ?matched) selected" by simp
    show ?thesis
    proof (cases selected)
      case None
      with sel Inr show ?thesis by (simp add: scimRoleForUser_def selectRole_pick bestOf_def)
    next
      case (Some rp)
      obtain r p where rp: "rp = (r, p)" by (cases rp)
      with sel Some obtain x where x: "x \<in> set ?matched" "sgm_Role x = r" "sgm_Priority x = p"
        "\<forall>y \<in> set ?matched. sgm_Priority y \<le> p \<and> (sgm_Priority y = p \<longrightarrow> sgm_Role y = r)" by (auto simp: bestOf_def)
      moreover from x(1) have "?matched \<noteq> []" by auto
      moreover have "scimRoleForUser configuration groups linkID = Inr r" using Inr Some rp by (simp add: scimRoleForUser_def selectRole_pick)
      ultimately show ?thesis unfolding Let_def by auto
    qed
  qed
qed

text \<open>A directory to evaluate the claims on: two groups that hold the link 7, of which the administrators rank higher.\<close>

definition directoryGroup :: "uuid \<Rightarrow> string \<Rightarrow> scimGroup" where
  "directoryGroup i externalID = \<lparr>sgrp_ID = i, sgrp_ConfigurationID = 1, sgrp_ExternalID = externalID, sgrp_DisplayName = externalID, sgrp_MemberIDs = [7],
     sgrp_CreatedAt = 10, sgrp_UpdatedAt = 10, sgrp_DeletedAt = None\<rparr>"

definition directoryMapping :: "string \<Rightarrow> role \<Rightarrow> int \<Rightarrow> scimGroupRoleMapping" where
  "directoryMapping externalID r priority = \<lparr>sgm_ExternalID = externalID, sgm_Role = r, sgm_Priority = priority\<rparr>"

definition directoryConfiguration :: scimConfiguration where
  "directoryConfiguration = \<lparr>scfg_ID = 1, scfg_WorkspaceID = 2, scfg_Enabled = True, scfg_DefaultRole = ''viewer'', scfg_TrustDirectoryEmails = False,
     scfg_GroupRoleMappings = [directoryMapping ''staff'' ''member'' 1, directoryMapping ''admins'' ''admin'' 5], scfg_CreatedAt = 10, scfg_UpdatedAt = 10\<rparr>"

definition directoryStore :: store where
  "directoryStore = New\<lparr>st_scimUsers := [(7, zeroSCIMUser\<lparr>susr_ID := 7, susr_ConfigurationID := 1, susr_CreatedAt := 10\<rparr>),
       (8, zeroSCIMUser\<lparr>susr_ID := 8, susr_ConfigurationID := 1, susr_CreatedAt := 20\<rparr>)],
     st_scimGroups := [(3, directoryGroup 3 ''staff''), (4, directoryGroup 4 ''admins'')]\<rparr>"

lemmas directory_defs = directoryGroup_def directoryMapping_def directoryConfiguration_def directoryStore_def zeroSCIMUser_def

theorem directory_role_decided_witness:
  "scimRoleForUser directoryConfiguration [directoryGroup 3 ''staff'', directoryGroup 4 ''admins''] 7 = Inr ''admin''
    \<and> directoryMapping ''admins'' ''admin'' 5 \<in> set (matchedMappings (scfg_GroupRoleMappings directoryConfiguration) 7
        [directoryGroup 3 ''staff'', directoryGroup 4 ''admins''])"
proof -
  let ?g = "[directoryGroup 3 ''staff'', directoryGroup 4 ''admins'']"
  have r: "scimRoleForUser directoryConfiguration ?g 7 = Inr ''admin''" by (simp add: scimRoleForUser_def directory_defs)
  have "matchedMappings (scfg_GroupRoleMappings directoryConfiguration) 7 ?g = [directoryMapping ''staff'' ''member'' 1, directoryMapping ''admins'' ''admin'' 5]"
    by (simp add: matchedMappings_def directory_defs)
  with r directory_role_decided [of directoryConfiguration ?g 7] show ?thesis by (auto simp: directoryMapping_def)
qed

section \<open>Walks over a directory\<close>

lemma collectFrom_append: "collectFrom (xs @ ys) pe events = map_sum id (apfst ((@) xs)) (collectFrom ys pe events)"
  by (induction ys pe events rule: collectFrom.induct) simp_all

lemma drainPage_collect: "drainPage items pe events = map_sum id (apfst ((@) items)) (collectFrom [] pe events)"
proof -
  have "drainPage items pe events = collectFrom items pe events" by (induction items pe events rule: drainPage.induct) simp_all
  then show ?thesis using collectFrom_append [of items "[]"] by simp
qed

text \<open>An undisturbed walk collects what following the cursors of its listing gives, with one call to the store a page.\<close>

lemma allFrom_follows:
  assumes "quiet m" and "followPages fuel (\<lambda>c. query \<lparr>page_Cursor = c, page_Limit = 50\<rparr> None (\<lambda>_. None) (w_store w)) cursor = Inr rest"
  shows "\<exists>n \<le> fuel. allFrom m fuel query cursor items w = (Inr (items @ rest), w\<lparr>w_calls := w_calls w + n\<rparr>)"
  using assms(2)
proof (induction fuel arbitrary: cursor items rest w)
  case (Suc fuel)
  let ?L = "\<lambda>c. query \<lparr>page_Cursor = c, page_Limit = 50\<rparr> None (\<lambda>_. None) (w_store w)" and ?w = "w\<lparr>w_calls := w_calls w + 1\<rparr>"
  from Suc.prems obtain xs pe where page: "collectFrom [] zeroEnd (?L cursor) = Inr (xs, pe)"
    and more: "if end_HasMore pe then \<exists>ys. followPages fuel ?L (end_NextCursor pe) = Inr ys \<and> rest = xs @ ys else rest = xs"
    by (auto simp: CollectPage_def split: sum.splits prod.splits if_splits)
  have step: "allFrom m (Suc fuel) query cursor items w
      = (if end_HasMore pe then allFrom m fuel query (end_NextCursor pe) (items @ xs) ?w else (Inr (items @ xs), ?w))"
    using page by (simp add: bindE_def liftR_def ret_def quiet_readStream [OF assms(1)] drainPage_collect)
  show ?case
  proof (cases "end_HasMore pe")
    case True
    with more obtain ys where "followPages fuel ?L (end_NextCursor pe) = Inr ys" "rest = xs @ ys" by auto
    with Suc.IH [of ?w "end_NextCursor pe" ys "items @ xs"] obtain n where "n \<le> fuel"
      "allFrom m fuel query (end_NextCursor pe) (items @ xs) ?w = (Inr (items @ rest), w\<lparr>w_calls := w_calls w + Suc n\<rparr>)" by auto
    with True show ?thesis unfolding step by (intro exI [of _ "Suc n"]) simp
  next
    case False
    with more show ?thesis unfolding step by (intro exI [of _ 1]) simp
  qed
qed simp

lemma anyFilter_matches: "matchSCIMUser x anyFilter" "matchSCIMGroup y anyFilter"
  by (simp_all add: anyFilter_def matchSCIMUser_def matchSCIMGroup_def)

text \<open>The records a configuration owns and has not retired, newest first.\<close>

definition activeUsers :: "uuid \<Rightarrow> store \<Rightarrow> scimUser list" where
  "activeUsers i s = filter (\<lambda>x. susr_ConfigurationID x = i \<and> susr_DeprovisionedAt x = None) (map snd (st_scimUsers s))"

definition activeGroups :: "uuid \<Rightarrow> store \<Rightarrow> scimGroup list" where
  "activeGroups i s = filter (\<lambda>x. sgrp_ConfigurationID x = i \<and> sgrp_DeletedAt x = None) (map snd (st_scimGroups s))"

lemma newest_mset: "mset (newestFirst key xs) = mset xs"
  by (simp add: newestFirst_def)

lemma walk_lists:
  assumes "quiet m" and "readsBack unmarshal" and "listable key xs" and "length (filter matches xs) < fuel"
    and "\<And>page. query page None (\<lambda>_. None) (w_store w) = listPage unmarshal None (\<lambda>_. None) page key matches (\<lambda>x. x) xs"
  shows "\<exists>n \<le> fuel. allFrom m fuel query [] [] w = (Inr (newestFirst key (filter matches xs)), w\<lparr>w_calls := w_calls w + n\<rparr>)"
proof -
  have "length (newestFirst key (filter matches xs)) < fuel" using assms(4) by (simp add: newestFirst_def)
  then have "followPages fuel (\<lambda>c. query \<lparr>page_Cursor = c, page_Limit = 50\<rparr> None (\<lambda>_. None) (w_store w)) [] = Inr (newestFirst key (filter matches xs))"
    using followPages_from [OF assms(2,3), of 50 matches "[]" _ "[]" fuel "\<lambda>x. x"] unfolding assms(5) by (simp add: select_first)
  from allFrom_follows [where query = query and w = w and items = "[]", OF assms(1) this] show ?thesis by simp
qed

text \<open>
  C27: the walks over a directory end and miss nobody. \<^verbatim>\<open>allSCIMUsers\<close> and \<^verbatim>\<open>allSCIMGroups\<close> loop until a page says it
  is the last; undisturbed, with a bound above the number of records a configuration has in force, each returns,
  and returns exactly those records, every one once, newest first, and leaves the store as it was.
\<close>

theorem directory_walks_end:
  assumes "quiet m" and "readsBack (lib_UnmarshalCursor (m_library m))"
    and "listable (\<lambda>x. (susr_CreatedAt x, susr_ID x)) (map snd (st_scimUsers (w_store w)))"
    and "listable (\<lambda>x. (sgrp_CreatedAt x, sgrp_ID x)) (map snd (st_scimGroups (w_store w)))"
    and "length (activeUsers i (w_store w)) < m_fuel m" and "length (activeGroups i (w_store w)) < m_fuel m"
  shows "(\<exists>n users. allSCIMUsers m i w = (Inr users, w\<lparr>w_calls := w_calls w + n\<rparr>) \<and> n \<le> m_fuel m \<and> mset users = mset (activeUsers i (w_store w))
      \<and> users = newestFirst (\<lambda>x. (susr_CreatedAt x, susr_ID x)) (activeUsers i (w_store w)))
    \<and> (\<exists>n groups. allSCIMGroups m i w = (Inr groups, w\<lparr>w_calls := w_calls w + n\<rparr>) \<and> n \<le> m_fuel m \<and> mset groups = mset (activeGroups i (w_store w))
      \<and> groups = newestFirst (\<lambda>x. (sgrp_CreatedAt x, sgrp_ID x)) (activeGroups i (w_store w)))"
proof
  let ?um = "lib_UnmarshalCursor (m_library m)" and ?s = "w_store w"
  have "storeSCIMUsers ?um None (\<lambda>_. None) i anyFilter page ?s = listPage ?um None (\<lambda>_. None) page (\<lambda>x. (susr_CreatedAt x, susr_ID x))
      (\<lambda>x. susr_ConfigurationID x = i \<and> susr_DeprovisionedAt x = None) (\<lambda>x. x) (map snd (st_scimUsers ?s))" for page
    by (simp add: storeSCIMUsers_def anyFilter_matches)
  from walk_lists [where query = "\<lambda>page ce ctxErr. storeSCIMUsers ?um ce ctxErr i anyFilter page" and w = w, OF assms(1,2,3) assms(5) [unfolded activeUsers_def] this]
  show "\<exists>n users. allSCIMUsers m i w = (Inr users, w\<lparr>w_calls := w_calls w + n\<rparr>) \<and> n \<le> m_fuel m \<and> mset users = mset (activeUsers i (w_store w))
      \<and> users = newestFirst (\<lambda>x. (susr_CreatedAt x, susr_ID x)) (activeUsers i (w_store w))"
    unfolding allSCIMUsers_def activeUsers_def by (elim exE conjE, intro exI conjI) (assumption | rule refl newest_mset)+
  have "storeSCIMGroups ?um None (\<lambda>_. None) i anyFilter page ?s = listPage ?um None (\<lambda>_. None) page (\<lambda>x. (sgrp_CreatedAt x, sgrp_ID x))
      (\<lambda>x. sgrp_ConfigurationID x = i \<and> sgrp_DeletedAt x = None) (\<lambda>x. x) (map snd (st_scimGroups ?s))" for page
    by (simp add: storeSCIMGroups_def anyFilter_matches)
  from walk_lists [where query = "\<lambda>page ce ctxErr. storeSCIMGroups ?um ce ctxErr i anyFilter page" and w = w, OF assms(1,2,4) assms(6) [unfolded activeGroups_def] this]
  show "\<exists>n groups. allSCIMGroups m i w = (Inr groups, w\<lparr>w_calls := w_calls w + n\<rparr>) \<and> n \<le> m_fuel m \<and> mset groups = mset (activeGroups i (w_store w))
      \<and> groups = newestFirst (\<lambda>x. (sgrp_CreatedAt x, sgrp_ID x)) (activeGroups i (w_store w))"
    unfolding allSCIMGroups_def activeGroups_def by (elim exE conjE, intro exI conjI) (assumption | rule refl newest_mset)+
qed

theorem directory_walks_end_witness:
  "\<exists>users w'. allSCIMUsers demoManager 1 (demoWorld directoryStore) = (Inr users, w') \<and> map susr_ID users = [8, 7]"
proof -
  let ?w = "demoWorld directoryStore"
  have reads: "readsBack (lib_UnmarshalCursor (m_library demoManager))" by (simp add: demoManager_def demoLibrary_def readsBack_readCursor)
  have lists: "listable (\<lambda>x. (susr_CreatedAt x, susr_ID x)) (map snd (st_scimUsers (w_store ?w)))"
    "listable (\<lambda>x. (sgrp_CreatedAt x, sgrp_ID x)) (map snd (st_scimGroups (w_store ?w)))"
    by (simp_all add: demoWorld_def directory_defs listable_def cursorTime_def)
  have fuel: "length (activeUsers 1 (w_store ?w)) < m_fuel demoManager" "length (activeGroups 1 (w_store ?w)) < m_fuel demoManager"
    by (simp_all add: activeUsers_def activeGroups_def demoWorld_def directory_defs demoManager_def)
  have "map susr_ID (newestFirst (\<lambda>x. (susr_CreatedAt x, susr_ID x)) (activeUsers 1 (w_store ?w))) = [8, 7]"
    by (simp add: activeUsers_def demoWorld_def directory_defs newestFirst_def less_eq_prod_def)
  with directory_walks_end [OF demo_quiet reads lists fuel] show ?thesis by auto
qed

end
