(* ===== verification/Spec2Isabelle.thy ===== *)
theory Spec2Isabelle
  imports Roles AuditHistory OAuthAccess OAuthClients Directory
begin

text \<open>
  A verification of credbound, a Go library a host links to get authentication, sessions, personal access
  tokens, workspaces, SCIM provisioning and an OAuth 2.1 authorization server. File names are relative to
  \<^verbatim>\<open>src/\<close>.

  \<^bold>\<open>The program.\<close> A \<^verbatim>\<open>Manager\<close> (\<^verbatim>\<open>config.go\<close>, \<^verbatim>\<open>internal.go\<close>) offers the operations: one method
  per request of the host, spread over \<^verbatim>\<open>auth.go\<close>, \<^verbatim>\<open>session.go\<close>, \<^verbatim>\<open>pat.go\<close>, \<^verbatim>\<open>email.go\<close>, \<^verbatim>\<open>magiclink.go\<close>,
  \<^verbatim>\<open>emailotp.go\<close>, \<^verbatim>\<open>reset.go\<close>, \<^verbatim>\<open>signup.go\<close>, \<^verbatim>\<open>totp.go\<close>, \<^verbatim>\<open>passkey.go\<close>, \<^verbatim>\<open>sso.go\<close>, \<^verbatim>\<open>lifecycle.go\<close>, \<^verbatim>\<open>invitation.go\<close>,
  \<^verbatim>\<open>domain.go\<close>, \<^verbatim>\<open>rbac.go\<close>, \<^verbatim>\<open>admin.go\<close>, \<^verbatim>\<open>revocation.go\<close>, \<^verbatim>\<open>export.go\<close>, \<^verbatim>\<open>client_audit.go\<close>, \<^verbatim>\<open>audit.go\<close>, \<^verbatim>\<open>scim.go\<close>,
  \<^verbatim>\<open>oauth.go\<close>, \<^verbatim>\<open>oauth_tokens.go\<close> and \<^verbatim>\<open>oauth_admin.go\<close>. An operation checks a gate, reads the store, decides, mints
  identifiers and secrets, builds an audit event and hands everything to one mutating method of the store. The
  store commits the change and the audit event together or neither, asks the host's transaction hooks first, and
  chains the events by their hashes. The store of this development is the in-memory one (\<^verbatim>\<open>memory/store.go\<close>,
  \<^verbatim>\<open>memory/scim.go\<close>, \<^verbatim>\<open>memory/oauth.go\<close>), the reference implementation of the store interfaces of \<^verbatim>\<open>ports.go\<close>.

  \<^bold>\<open>Foundations.\<close> \<^verbatim>\<open>Prelude\<close> has the machine types, the errors of \<^verbatim>\<open>errors.go\<close>, Go's maps as association lists,
  results and times, and the simp collections. \<^verbatim>\<open>Codec\<close>, \<^verbatim>\<open>Utf8\<close> and \<^verbatim>\<open>Uuid\<close> are the text encodings of Go's standard
  library that the program relies on, \<^verbatim>\<open>request.go\<close>'s sanitizing of audit fields, the vendored \<^verbatim>\<open>internal/uuid\<close> and the
  token formats of \<^verbatim>\<open>email.go\<close> and \<^verbatim>\<open>pat.go\<close>. \<^verbatim>\<open>Types\<close> and \<^verbatim>\<open>OAuthTypes\<close> are the records of \<^verbatim>\<open>types.go\<close> and
  \<^verbatim>\<open>oauth_types.go\<close>, field by field with the Go names behind a prefix. \<^verbatim>\<open>Paging\<close> is the cursors and the page building
  of \<^verbatim>\<open>memory/store.go\<close>.

  \<^bold>\<open>The role catalog and the audit chain.\<close> \<^verbatim>\<open>Roles\<close> is \<^verbatim>\<open>workspace_roles.go\<close>, \<^verbatim>\<open>AuditChain\<close> the encoding, the hash
  and the verification loop of \<^verbatim>\<open>audit.go\<close>, with SHA-256 a parameter.

  \<^bold>\<open>The store.\<close> \<^verbatim>\<open>MemState\<close> is the state and the commit protocol: \<^verbatim>\<open>mutate\<close> runs a guard, prepares the commit,
  writes, asks the hook, restores the snapshot when the hook refuses, and appends the audit event. One definition
  per method, each a function from the store to a result and a store since every method holds the one mutex:
  \<^verbatim>\<open>MemIdentity\<close>, \<^verbatim>\<open>MemFactors\<close>, \<^verbatim>\<open>MemTokens\<close>, \<^verbatim>\<open>MemTenancy\<close>, \<^verbatim>\<open>MemListing\<close>, \<^verbatim>\<open>MemSCIM\<close> and \<^verbatim>\<open>MemOAuth\<close>. A Manager method and a
  store method of one name are told apart by a prefix \<^verbatim>\<open>store\<close> or \<^verbatim>\<open>manager\<close>. \<^verbatim>\<open>MemContract\<close> has the interface every
  mutating method meets, as the locales \<^verbatim>\<open>tentative\<close> and \<^verbatim>\<open>mutator\<close>; every method interprets one of them.
  \<^verbatim>\<open>MemSystem\<close> is the store as a transition system, one rule for each mutating method with any arguments, and
  \<^verbatim>\<open>storeRun\<close> its runs. \<^verbatim>\<open>MemRevocation\<close>, \<^verbatim>\<open>MemGuarantees\<close>, \<^verbatim>\<open>MemIndex\<close>, \<^verbatim>\<open>MemKeys\<close>, \<^verbatim>\<open>MemCodes\<close> and \<^verbatim>\<open>MemOAuthGuarantees\<close> prove
  what holds along all runs; the locale \<^verbatim>\<open>kept\<close> carries a predicate of the store through the commit protocol.

  \<^bold>\<open>The Manager.\<close> \<^verbatim>\<open>Manager\<close> has the configuration, the ports and the world. An operation has type \<^verbatim>\<open>'a op\<close>, a
  function from the world to a result and a world: the store, how often the clock was read, how many random bytes
  were drawn, how often the store and the providers were called, the state of the identifier generator and the
  emitted events. \<^verbatim>\<open>callStore\<close> lets other requests act on the store (\<^verbatim>\<open>m_others\<close>) before each call and hands the call
  the context's error (\<^verbatim>\<open>m_ctxErr\<close>), so a theorem about an operation holds for every interleaving at the granularity
  of store calls. \<^verbatim>\<open>ManagerGates\<close>, \<^verbatim>\<open>ManagerSession\<close>, \<^verbatim>\<open>ManagerAuth\<close>, \<^verbatim>\<open>ManagerEmail\<close>, \<^verbatim>\<open>ManagerTenancy\<close>, \<^verbatim>\<open>ManagerFactors\<close>,
  \<^verbatim>\<open>ManagerSSO\<close>, \<^verbatim>\<open>ManagerPrivacy\<close>, \<^verbatim>\<open>ManagerSCIM\<close>, \<^verbatim>\<open>OAuthPolicy\<close>, \<^verbatim>\<open>ManagerOAuth\<close>, \<^verbatim>\<open>ManagerOAuthTokens\<close> and
  \<^verbatim>\<open>ManagerOAuthAdmin\<close> have one definition for each operation of the files their first lines name. \<^verbatim>\<open>ManagerRuns\<close> shows
  that each of them only runs the store, in the locale \<^verbatim>\<open>environment\<close> whose one law is that the other requests do so
  too. \<^verbatim>\<open>History\<close> has one rule for each operation, and \<^verbatim>\<open>history\<close> the sequences of requests a Manager serves, each
  with its own request metadata and context, interleaved with the other requests.

  \<^bold>\<open>How the operations are reasoned about.\<close> \<^verbatim>\<open>ManagerLogic\<close> unfolds successful steps (\<^verbatim>\<open>success\<close>) and names what was
  true of the store at a moment of an operation (\<^verbatim>\<open>sometime\<close>); \<^verbatim>\<open>Answers\<close> is a program logic on top, in which the
  facts of the steps of an operation add up; \<^verbatim>\<open>Authorization\<close> has the locale \<^verbatim>\<open>guarantee\<close> for what the gates ensure.
  \<^verbatim>\<open>Instances\<close> and \<^verbatim>\<open>OAuthInstances\<close> hold the concrete Manager, store and authorization server the witnesses run on.

  \<^bold>\<open>What is shown of the store.\<close> A refused call changes nothing but the record of consumed ceremonies, and the
  client index in the one case below (C1); a committing call appends exactly its own event and never rewrites the
  log (C2); two logs that verify to one head agree unless the hash collides (C3); ceremonies commit once (C4);
  revoked, used and closed records stay so (C5), and disabling, resetting and anonymizing end every credential
  for good (C6). Records lie under their own identifiers (C19). Refresh tokens and codes are single use (C20, C21),
  revocations of grants and families reach every token (C22, C23), registrations keep to their limits (C24), the
  indexes find exactly the stored records (C25) and the cursors of a listing enumerate it (C26).

  \<^bold>\<open>What is shown of the operations.\<close> Workspace and instance changes were made by someone entitled to them at a
  moment of the request, and sensitive ones after a recent second factor where the policy asks for it (C7, C8, C9);
  the permission check is exact when undisturbed (C10). An ended session never authenticates again, and an accepted
  one was in force (C11, C12). An accepted OAuth bearer had everything behind it in force (C13), a revoked
  grant is worthless after any history (C14), a code is exchanged once and only by the client and the verifier it
  was issued for (C15, C16), and a dynamically registered client is well formed and unprivileged (C17). The audit
  log verifies after any history (C18). The walks over a directory end and miss nobody (C27), and the role a
  directory gives is decided by priority (C28). Role catalogs are accepted exactly when well formed, are the
  closure of the configured inheritance and keep the built-in roles (C29, C30, C31). Identifiers and secrets
  parse back to one spelling (C35, C36), minted identifiers grow (C37), audit fields are bounded (C38).

  \<^bold>\<open>Where the code falls short.\<close> A transaction a hook refuses loses the index of OAuth clients (C32); a failed
  replacement drops a domain claim (C33); the refresh of a client's metadata document undoes its disabling (C34);
  a commit between the two reads of the chain verification is reported as tampering (C39); under a relaxed
  step-up policy the mutation gate ignores a workspace's second-factor requirement (C40).

  \<^bold>\<open>Bounds and fuel.\<close> Integers are unbounded except where the code wraps: bytes are 8-bit words, UUIDs 128-bit
  words, and \<^verbatim>\<open>UnixNano\<close> wraps at 64 bits; listings therefore ask for creation times a cursor can express. Durations
  are subtracted as Go saturates them (\<^verbatim>\<open>timeSub\<close>). \<^verbatim>\<open>m_fuel\<close> bounds the loops that have no bound of their own: the
  walks through the pages of a listing and the draw of an unbiased one-time code. Running out is the error
  \<^verbatim>\<open>OutOfFuel\<close>, which no operation of the code returns. A walk needs one page more than there are records at most, so
  fuel above the number of records is enough (C26, C27); the properties that speak of success hold for any fuel.

  \<^bold>\<open>Parameters.\<close> Code outside \<^verbatim>\<open>src/\<close> and the outside world are arguments: SHA-256 (\<^verbatim>\<open>m_sha\<close>), the clock, the random
  source, password hashing, the TOTP, passkey, SSO, domain, metadata and assertion providers, the OpenID signer,
  address, URL and JSON syntax and AES-GCM (\<^verbatim>\<open>lib_...\<close>, \<^verbatim>\<open>olb_...\<close>), and the transaction hooks. The properties assume of
  them only what they name, such as that JSON reads back the cursors it wrote (\<^verbatim>\<open>readsBack\<close>).

  \<^bold>\<open>Not modelled.\<close> The SQL store, its generated queries and its migrations, whose behaviour is the database's; the
  HTTP adapters \<^verbatim>\<open>oauthhttp\<close> and \<^verbatim>\<open>scimhttp\<close> and \<^verbatim>\<open>requesthttp.go\<close>, which decode requests; the provider adapters, which wrap
  third-party packages; the rendering of events for listeners and the observer, which the operations only write
  to; the validation of the configuration in \<^verbatim>\<open>New\<close>; goroutine scheduling below the granularity of a store call.
\<close>

end
